(* ===== verification/Prelude.thy ===== *)
theory Prelude
  imports Complex_Main "HOL-Library.Char_ord" "HOL-Library.List_Lexorder"
begin

text \<open>
  What the components share.  A database table is the list of its rows in insertion order.
  A query is a filter, an UPDATE is \<open>update_where\<close>, a DELETE is \<open>delete_where\<close>, and a
  lookup by a unique column is \<open>find\<close>.  An operation that can raise returns the pair of its
  outcome (\<open>Inl\<close> the exception, \<open>Inr\<close> the value) and the session it leaves behind, so that
  what an exception leaves in the session is visible in the model.  The locale \<open>table\<close> is the
  interface between a component and one table of the session.  Strings are Python strings
  restricted to their UTF-8 bytes, ordered as Python orders ASCII text.
\<close>

named_theorems table_simps \<open>reading a table after it was written\<close>
named_theorems status_simps \<open>what an operation does to one row\<close>

type_synonym timestamp = int \<comment> \<open>microseconds of UTC time\<close>

abbreviation seconds :: "int \<Rightarrow> int" where
  "seconds n \<equiv> n * 1000000"

section \<open>Rows\<close>

definition update_where :: "('r \<Rightarrow> bool) \<Rightarrow> ('r \<Rightarrow> 'r) \<Rightarrow> 'r list \<Rightarrow> 'r list" where
  "update_where p f rs = map (\<lambda>r. if p r then f r else r) rs"

definition delete_where :: "('r \<Rightarrow> bool) \<Rightarrow> 'r list \<Rightarrow> 'r list" where
  "delete_where p rs = filter (\<lambda>r. \<not> p r) rs"

lemma update_where_Nil [simp]: "update_where p f [] = []"
  by (simp add: update_where_def)

lemma update_where_Cons [simp]:
  "update_where p f (r # rs) = (if p r then f r else r) # update_where p f rs"
  by (simp add: update_where_def)

lemma length_update_where [simp]: "length (update_where p f rs) = length rs"
  by (simp add: update_where_def)

lemma update_where_append [simp]:
  "update_where p f (rs @ rs') = update_where p f rs @ update_where p f rs'"
  by (simp add: update_where_def)

lemma set_update_where:
  "r \<in> set (update_where p f rs) \<longleftrightarrow>
     (\<exists>r0 \<in> set rs. (p r0 \<and> r = f r0) \<or> (\<not> p r0 \<and> r = r0))"
  by (auto simp: update_where_def)

lemma update_where_idI:
  "(\<And>r. r \<in> set rs \<Longrightarrow> p r \<Longrightarrow> f r = r) \<Longrightarrow> update_where p f rs = rs"
  by (induction rs) auto

lemma map_update_where:
  "(\<And>r. g (f r) = g r) \<Longrightarrow> map g (update_where p f rs) = map g rs"
  by (induction rs) auto

lemma filter_update_where:
  "(\<And>r. q (f r) = q r) \<Longrightarrow> filter q (update_where p f rs) = update_where p f (filter q rs)"
  by (induction rs) auto

lemma find_update_where:
  "(\<And>r. q (f r) = q r) \<Longrightarrow>
     find q (update_where p f rs) = map_option (\<lambda>r. if p r then f r else r) (find q rs)"
  by (induction rs) auto

lemma set_delete_where [simp]: "set (delete_where p rs) = {r \<in> set rs. \<not> p r}"
  by (auto simp: delete_where_def)

lemma find_append: "find p (xs @ ys) = (case find p xs of None \<Rightarrow> find p ys | Some x \<Rightarrow> Some x)"
  by (induction xs) auto

lemma find_SomeD: "find p xs = Some x \<Longrightarrow> x \<in> set xs \<and> p x"
  by (metis find_Some_iff nth_mem)

lemma find_None_ball: "find p xs = None \<longleftrightarrow> (\<forall>x \<in> set xs. \<not> p x)"
  by (auto simp: find_None_iff)

lemma find_delete_where_None: "(\<And>r. q r \<Longrightarrow> p r) \<Longrightarrow> find q (delete_where p rs) = None"
  by (auto simp: find_None_ball)

lemma find_unique:
  "distinct (map key xs) \<Longrightarrow> x \<in> set xs \<Longrightarrow> find (\<lambda>r. key r = key x) xs = Some x"
  by (induction xs) force+

lemma distinct_map_eqD:
  "distinct (map key xs) \<Longrightarrow> x \<in> set xs \<Longrightarrow> y \<in> set xs \<Longrightarrow> key x = key y \<Longrightarrow> x = y"
  by (metis distinct_map inj_onD)

lemma distinct_filter_unique:
  assumes "distinct (map key xs)" and "\<And>x. x \<in> set xs \<Longrightarrow> p x \<Longrightarrow> key x = k"
  shows "length (filter p xs) \<le> 1"
  using assms
proof (induction xs)
  case Nil
  then show ?case by simp
next
  case (Cons x xs)
  then have "p x \<Longrightarrow> filter p xs = []"
    by (force simp: filter_empty_conv)
  with Cons show ?case by auto
qed

lemma filter_unique:
  "distinct (map key xs) \<Longrightarrow> x \<in> set xs \<Longrightarrow> filter (\<lambda>r. key r = key x) xs = [x]"
proof (induction xs)
  case (Cons y ys)
  show ?case
  proof (cases "y = x")
    case True
    with Cons.prems have "filter (\<lambda>r. key r = key x) ys = []" by (auto simp: filter_empty_conv image_iff)
    with True show ?thesis by simp
  next
    case False
    with Cons.prems have "x \<in> set ys" "key y \<noteq> key x" by auto
    with Cons show ?thesis by simp
  qed
qed simp

lemma filter_singleton_iff:
  assumes "distinct xs"
  shows "filter p xs = [a] \<longleftrightarrow> a \<in> set xs \<and> p a \<and> (\<forall>b \<in> set xs. p b \<longrightarrow> b = a)"
proof
  assume "filter p xs = [a]"
  then have "set (filter p xs) = {a}" by simp
  then show "a \<in> set xs \<and> p a \<and> (\<forall>b \<in> set xs. p b \<longrightarrow> b = a)" by auto
next
  assume "a \<in> set xs \<and> p a \<and> (\<forall>b \<in> set xs. p b \<longrightarrow> b = a)"
  then have s: "set (filter p xs) = {a}" by auto
  have "distinct (filter p xs)" using assms by simp
  from distinct_card [OF this] s have "length (filter p xs) = 1" by simp
  with s show "filter p xs = [a]"
    by (cases "filter p xs") simp_all
qed

section \<open>Lists as Python uses them\<close>

text \<open>\<open>dict.fromkeys\<close> keeps the first occurrence of each id.\<close>

fun dedupe :: "'a list \<Rightarrow> 'a list" where
  "dedupe [] = []"
| "dedupe (x # xs) = x # dedupe (filter (\<lambda>y. y \<noteq> x) xs)"

lemma set_dedupe [simp]: "set (dedupe xs) = set xs"
  by (induction xs rule: dedupe.induct) auto

text \<open>The first position at which a key is largest: \<open>max\<close> over \<open>range(N)\<close>, and the head of a
  stable sort in reverse.\<close>

fun argmax :: "('a \<Rightarrow> 'k::linorder) \<Rightarrow> 'a list \<Rightarrow> nat" where
  "argmax f [] = 0"
| "argmax f [x] = 0"
| "argmax f (x # y # xs) =
     (let j = argmax f (y # xs) in if f ((y # xs) ! j) \<le> f x then 0 else Suc j)"

lemma argmax_less: "xs \<noteq> [] \<Longrightarrow> argmax f xs < length xs"
  by (induction f xs rule: argmax.induct) (auto simp: Let_def)

lemma argmax_ge: "i < length xs \<Longrightarrow> f (xs ! i) \<le> f (xs ! argmax f xs)"
proof (induction f xs arbitrary: i rule: argmax.induct)
  case (3 f x y xs)
  then show ?case
    by (cases i) (auto simp: Let_def intro: order_trans)
qed auto

section \<open>Tables of the session\<close>

text \<open>
  What a component may assume of a table: writing it is visible to the next read, and two
  writes compose.  Each table of the session interprets it in \<open>Models\<close>.
\<close>

locale table =
  fixes rows :: "'d \<Rightarrow> 'r list"
    and upd :: "('r list \<Rightarrow> 'r list) \<Rightarrow> 'd \<Rightarrow> 'd"
    and key :: "'r \<Rightarrow> 'k"
  assumes rows_upd: "rows (upd g d) = g (rows d)"
    and upd_upd: "upd g (upd h d) = upd (\<lambda>rs. g (h rs)) d"
    and upd_id: "upd (\<lambda>rs. rs) d = d"
    and upd_cong: "g (rows d) = h (rows d) \<Longrightarrow> upd g d = upd h d"
begin

lemma get_added:
  "key r \<notin> key ` set (rows d) \<Longrightarrow>
     find (\<lambda>x. key x = k) (rows (upd (\<lambda>rs. rs @ [r]) d)) =
       (if k = key r then Some r else find (\<lambda>x. key x = k) (rows d))"
proof -
  assume fresh: "key r \<notin> key ` set (rows d)"
  then have "find (\<lambda>x. key x = key r) (rows d) = None"
    unfolding find_None_ball by (metis imageI)
  then show ?thesis
    by (auto simp: rows_upd find_append split: option.splits)
qed

lemma get_written:
  "(\<And>x. key (f x) = key x) \<Longrightarrow>
     find (\<lambda>x. key x = k) (rows (upd (update_where p f) d)) =
       map_option (\<lambda>r. if p r then f r else r) (find (\<lambda>x. key x = k) (rows d))"
  by (simp add: rows_upd find_update_where)

lemma keys_written:
  "(\<And>x. key (f x) = key x) \<Longrightarrow>
     map key (rows (upd (update_where p f) d)) = map key (rows d)"
  by (simp add: rows_upd map_update_where)

lemma write_nothing:
  "(\<And>x. x \<in> set (rows d) \<Longrightarrow> \<not> p x) \<Longrightarrow> upd (update_where p f) d = d"
proof -
  assume none: "\<And>x. x \<in> set (rows d) \<Longrightarrow> \<not> p x"
  have same: "update_where p f (rows d) = rows d"
    by (rule update_where_idI) (use none in blast)
  have "upd (update_where p f) d = upd (\<lambda>rs. rs) d"
    by (rule upd_cong) (simp add: same)
  then show ?thesis by (simp add: upd_id)
qed

lemma get_removed:
  "find (\<lambda>x. key x = k) (rows (upd (delete_where (\<lambda>x. key x = k)) d)) = None"
  by (simp add: rows_upd find_delete_where_None)

end

end
