(* ===== verification/PyText.thy ===== *)
theory PyText
  imports Prelude
begin

text \<open>
  The string operations of Python the program uses, on ASCII text, and the small functions that
  are built from them alone: the split of a model slug into provider and model
  (\<open>proxy/allowlist.py\<close>), the billing key (\<open>pricing._model_key\<close>), the login identifier
  (\<open>auth/identifier.py\<close>), the tag syntax (\<open>member_tags.validate_tag\<close>) and the redirect
  allowlist (\<open>oauth.parse_allowlist\<close>).
\<close>

section \<open>Characters\<close>

definition lower_char :: "char \<Rightarrow> char" where
  "lower_char c = (if 65 \<le> (of_char c :: nat) \<and> (of_char c :: nat) \<le> 90
                   then char_of ((of_char c :: nat) + 32) else c)"

definition is_space :: "char \<Rightarrow> bool" where
  "is_space c = (let n = (of_char c :: nat) in (9 \<le> n \<and> n \<le> 13) \<or> (28 \<le> n \<and> n \<le> 32))"

definition is_lower_letter :: "char \<Rightarrow> bool" where
  "is_lower_letter c = (let n = (of_char c :: nat) in 97 \<le> n \<and> n \<le> 122)"

definition is_upper_letter :: "char \<Rightarrow> bool" where
  "is_upper_letter c = (let n = (of_char c :: nat) in 65 \<le> n \<and> n \<le> 90)"

definition is_digit :: "char \<Rightarrow> bool" where
  "is_digit c = (let n = (of_char c :: nat) in 48 \<le> n \<and> n \<le> 57)"

lemma lower_char_idem [simp]: "lower_char (lower_char c) = lower_char c"
  by (auto simp: lower_char_def)

lemma lower_char_space [simp]: "is_space (lower_char c) = is_space c"
  by (auto simp: lower_char_def is_space_def Let_def)

lemma lower_char_eq_punct:
  "(of_char p :: nat) < 65 \<Longrightarrow> lower_char c = p \<longleftrightarrow> c = p"
  by (auto simp: lower_char_def)

section \<open>Strings\<close>

definition lower :: "string \<Rightarrow> string" where
  "lower s = map lower_char s"

definition lstrip :: "string \<Rightarrow> string" where
  "lstrip s = dropWhile is_space s"

definition strip :: "string \<Rightarrow> string" where
  "strip s = rev (lstrip (rev (lstrip s)))"

definition starts_with :: "string \<Rightarrow> string \<Rightarrow> bool" where
  "starts_with p s = (take (length p) s = p)"

definition ends_with :: "string \<Rightarrow> string \<Rightarrow> bool" where
  "ends_with p s = starts_with (rev p) (rev s)"

definition before_char :: "char \<Rightarrow> string \<Rightarrow> string" where
  "before_char c s = takeWhile (\<lambda>x. x \<noteq> c) s"

text \<open>The part after the first \<open>c\<close>; the empty string when there is none (\<open>str.partition\<close>).\<close>

definition after_char :: "char \<Rightarrow> string \<Rightarrow> string" where
  "after_char c s = tl (dropWhile (\<lambda>x. x \<noteq> c) s)"

text \<open>\<open>s.split(c, 1)[-1]\<close> and \<open>s.rsplit(c, 1)[-1]\<close>.\<close>

definition split_last :: "char \<Rightarrow> string \<Rightarrow> string" where
  "split_last c s = (if c \<in> set s then after_char c s else s)"

definition rsplit_last :: "char \<Rightarrow> string \<Rightarrow> string" where
  "rsplit_last c s = rev (before_char c (rev s))"

fun split_on :: "(char \<Rightarrow> bool) \<Rightarrow> string \<Rightarrow> string \<Rightarrow> string list" where
  "split_on p acc [] = [rev acc]"
| "split_on p acc (c # cs) = (if p c then rev acc # split_on p [] cs else split_on p (c # acc) cs)"

lemma lower_idem [simp]: "lower (lower s) = lower s"
  by (simp add: lower_def)

lemma lower_Nil_iff [simp]: "lower s = [] \<longleftrightarrow> s = []"
  by (simp add: lower_def)

lemma length_lower [simp]: "length (lower s) = length s"
  by (simp add: lower_def)

lemma lstrip_lower: "lstrip (lower s) = lower (lstrip s)"
  by (induction s) (auto simp: lstrip_def lower_def)

lemma strip_lower: "strip (lower s) = lower (strip s)"
  by (simp add: strip_def lstrip_lower lower_def rev_map flip: lower_def)
     (metis lower_def lstrip_lower rev_map)

lemma lstrip_lstrip [simp]: "lstrip (lstrip s) = lstrip s"
  by (induction s) (auto simp: lstrip_def)

lemma lstrip_hd: "lstrip s \<noteq> [] \<Longrightarrow> \<not> is_space (hd (lstrip s))"
  by (simp add: lstrip_def hd_dropWhile)

lemma lstrip_fix: "s = [] \<or> \<not> is_space (hd s) \<Longrightarrow> lstrip s = s"
  by (cases s) (auto simp: lstrip_def)

lemma last_rev_lstrip: "lstrip s \<noteq> [] \<Longrightarrow> last (lstrip s) = last s"
  by (induction s) (auto simp: lstrip_def split: if_splits)

lemma strip_idem [simp]: "strip (strip s) = strip s"
proof -
  let ?t = "lstrip (rev (lstrip s))"
  have "lstrip (rev ?t) = rev ?t"
  proof (rule lstrip_fix)
    show "rev ?t = [] \<or> \<not> is_space (hd (rev ?t))"
    proof (cases "?t = []")
      case False
      then have "last ?t = last (rev (lstrip s))" by (rule last_rev_lstrip)
      moreover have "lstrip s \<noteq> []" using False by (metis lstrip_def dropWhile.simps(1) rev.simps(1))
      ultimately show ?thesis using lstrip_hd [of s]
        by (simp add: hd_rev last_rev)
    qed simp
  qed
  then show ?thesis by (simp add: strip_def)
qed

lemma strip_no_space: "(\<forall>c \<in> set s. \<not> is_space c) \<Longrightarrow> strip s = s"
  unfolding strip_def
  by (metis empty_iff lstrip_fix hd_in_set list.set(1) rev_rev_ident set_rev)

lemma split_last_no: "c \<notin> set s \<Longrightarrow> split_last c s = s"
  by (simp add: split_last_def)

lemma before_char_prefixed: "c \<notin> set p \<Longrightarrow> before_char c (p @ c # s) = p"
  by (induction p) (auto simp: before_char_def)

lemma after_char_prefixed: "c \<notin> set p \<Longrightarrow> after_char c (p @ c # s) = s"
  by (induction p) (auto simp: after_char_def)

lemma split_last_prefixed: "c \<notin> set p \<Longrightarrow> split_last c (p @ c # s) = s"
  by (simp add: split_last_def after_char_prefixed)

section \<open>Model slugs\<close>

definition default_provider :: string where
  "default_provider = ''azure''"

definition parse_provider :: "string \<Rightarrow> string \<times> string" where
  "parse_provider model =
     (if CHR ''/'' \<in> set model
      then (lower (before_char (CHR ''/'') model), after_char (CHR ''/'') model)
      else (default_provider, model))"

definition check_allowed :: "string \<Rightarrow> string list \<Rightarrow> bool" where
  "check_allowed provider allowed = (lower provider \<in> set (map lower allowed))"

definition model_key :: "string \<Rightarrow> string" where
  "model_key slug = split_last (CHR ''/'') slug"

lemma parse_provider_prefixed:
  "CHR ''/'' \<notin> set p \<Longrightarrow> parse_provider (p @ CHR ''/'' # m) = (lower p, m)"
  by (simp add: parse_provider_def before_char_prefixed after_char_prefixed)

lemma parse_provider_bare: "CHR ''/'' \<notin> set m \<Longrightarrow> parse_provider m = (default_provider, m)"
  by (simp add: parse_provider_def)

lemma parse_provider_snd: "snd (parse_provider m) = model_key m"
  by (simp add: parse_provider_def model_key_def split_last_def)

section \<open>Login identifiers\<close>

datatype identifier_error = IdentifierEmpty | IdentifierTooLong | IdentifierWhitespace

definition max_identifier_len :: nat where
  "max_identifier_len = 320"

definition normalize_identifier :: "string \<Rightarrow> string" where
  "normalize_identifier raw = lower (strip raw)"

definition is_email :: "string \<Rightarrow> bool" where
  "is_email identifier = (CHR ''@'' \<in> set identifier)"

definition validate_identifier :: "string \<Rightarrow> identifier_error + string" where
  "validate_identifier raw =
     (let ident = normalize_identifier raw in
      if ident = [] then Inl IdentifierEmpty
      else if length ident > max_identifier_len then Inl IdentifierTooLong
      else if list_ex is_space raw then Inl IdentifierWhitespace
      else Inr ident)"

lemma normalize_identifier_idem [simp]:
  "normalize_identifier (normalize_identifier s) = normalize_identifier s"
  by (simp add: normalize_identifier_def strip_lower)

lemma validate_identifier_lower:
  "validate_identifier raw = Inr ident \<Longrightarrow> ident = lower raw"
  by (auto simp: validate_identifier_def Let_def normalize_identifier_def list_ex_iff
      strip_no_space split: if_splits)

section \<open>Tags\<close>

text \<open>
  The pattern \<open>^[a-z][a-z0-9_-]{0,63}$\<close> under \<open>re.match\<close>: the dollar sign also matches just
  before one final newline.
\<close>

definition tag_char :: "char \<Rightarrow> bool" where
  "tag_char c = (is_lower_letter c \<or> is_digit c \<or> c = CHR ''_'' \<or> c = CHR ''-'')"

definition tag_body :: "string \<Rightarrow> bool" where
  "tag_body s = (case s of [] \<Rightarrow> False
                 | c # cs \<Rightarrow> is_lower_letter c \<and> list_all tag_char cs \<and> length cs \<le> 63)"

definition validate_tag :: "string \<Rightarrow> bool" where
  "validate_tag tag = (tag_body tag \<or> (tag \<noteq> [] \<and> last tag = CHR 0x0A \<and> tag_body (butlast tag)))"

lemma tag_body_length: "tag_body s \<Longrightarrow> 1 \<le> length s \<and> length s \<le> 64"
  by (auto simp: tag_body_def split: list.splits)

section \<open>Redirect allowlist\<close>

definition parse_allowlist :: "string option \<Rightarrow> string list" where
  "parse_allowlist raw =
     filter (\<lambda>p. p \<noteq> []) (map strip
       (split_on (\<lambda>c. c = CHR '','' \<or> c = CHR 0x0A) [] (case raw of None \<Rightarrow> [] | Some r \<Rightarrow> r)))"

lemma parse_allowlist_nonempty: "p \<in> set (parse_allowlist raw) \<Longrightarrow> p \<noteq> []"
  by (simp add: parse_allowlist_def)

lemma parse_allowlist_blank [simp]: "parse_allowlist None = []" "parse_allowlist (Some []) = []"
  by (simp_all add: parse_allowlist_def strip_def lstrip_def)

end
