(* ===== verification/PyNum.thy ===== *)
theory PyNum
  imports Prelude "HOL-Library.Log_Nat"
begin

text \<open>
  The two inexact number types of Python the program computes with.  A float is the rational it
  denotes; true division and multiplication round the exact result to 53 significant bits, half
  to even (subnormal and overflowing results, beyond \<open>10^308\<close>, are not reached by the integer
  columns).  A \<open>Decimal\<close> is a coefficient and an exponent; arithmetic rounds the exact result to
  the 28 significant digits of the default context, half to even.
\<close>

section \<open>Rounding half to even\<close>

definition round_half_even :: "rat \<Rightarrow> int" where
  "round_half_even q =
     (let n = \<lfloor>q\<rfloor>; r = q - of_int n in
      if r < 1/2 then n else if r > 1/2 then n + 1 else if even n then n else n + 1)"

lemma round_half_even_int [simp]: "round_half_even (of_int n) = n"
  by (simp add: round_half_even_def)

lemma round_half_even_bounds:
  "\<lfloor>q\<rfloor> \<le> round_half_even q" "round_half_even q \<le> \<lfloor>q\<rfloor> + 1"
  by (simp_all add: round_half_even_def Let_def)

lemma round_half_even_near: "\<bar>of_int (round_half_even q) - q\<bar> \<le> 1/2"
proof -
  define r where "r = q - of_int \<lfloor>q\<rfloor>"
  have q: "q = of_int \<lfloor>q\<rfloor> + r" and r: "0 \<le> r" "r < 1"
    unfolding r_def by linarith+
  define d :: int where "d = (if r < 1/2 then 0 else if r > 1/2 then 1 else if even \<lfloor>q\<rfloor> then 0 else 1)"
  have "\<bar>of_int d - r\<bar> \<le> 1/2"
    using r by (auto simp: d_def abs_if)
  moreover have "round_half_even q = \<lfloor>q\<rfloor> + d"
    by (simp add: round_half_even_def r_def d_def Let_def)
  moreover have "of_int (\<lfloor>q\<rfloor> + d) - q = of_int d - r"
    using q by simp
  ultimately show ?thesis by (simp only:)
qed

lemma round_half_even_ge: "of_int k \<le> q \<Longrightarrow> k \<le> round_half_even q"
  using round_half_even_bounds(1) [of q] by (meson le_floor_iff order_trans)

section \<open>Floats\<close>

text \<open>The power of two of the leading bit of a positive rational.\<close>

definition ilog2 :: "rat \<Rightarrow> int" where
  "ilog2 q = (case quotient_of q of (a, b) \<Rightarrow>
     let k = bitlen a - bitlen b in
     if (if 0 \<le> k then b * 2 ^ nat k \<le> a else b \<le> a * 2 ^ nat (- k)) then k else k - 1)"

definition float_round :: "rat \<Rightarrow> rat" where
  "float_round q =
     (if q = 0 then 0
      else let u = 2 powi (ilog2 \<bar>q\<bar> - 52) in of_int (round_half_even (q / u)) * u)"

text \<open>\<open>a / b\<close> on two Python ints, and \<open>int(a / b)\<close>, which truncates the float towards zero.\<close>

definition py_truediv :: "int \<Rightarrow> int \<Rightarrow> rat" where
  "py_truediv a b = float_round (of_int a / of_int b)"

definition py_int_of_float :: "rat \<Rightarrow> int" where
  "py_int_of_float q = (if q < 0 then - \<lfloor>- q\<rfloor> else \<lfloor>q\<rfloor>)"

lemma ilog2_le:
  assumes "0 < q"
  shows "2 powi (ilog2 q) \<le> q"
proof -
  obtain a b where ab: "quotient_of q = (a, b)" by fastforce
  have b: "0 < b" and q: "q = of_int a / of_int b"
    using quotient_of_denom_pos [OF ab] quotient_of_div [OF ab] by auto
  with assms have a: "0 < a" by (simp add: zero_less_divide_iff)
  let ?k = "bitlen a - bitlen b"
  have la: "2 ^ nat (bitlen a - 1) \<le> a" and ub: "b < 2 ^ nat (bitlen b)"
    using bitlen_bounds [OF a] bitlen_bounds [OF b] by auto
  have pa: "1 \<le> bitlen a"
    using bitlen_bounds [OF a] a by (cases "bitlen a \<le> 0") simp_all
  have pb: "1 \<le> bitlen b"
    using bitlen_bounds [OF b] b by (cases "bitlen b \<le> 0") simp_all
  have low: "(2::rat) powi (?k - 1) \<le> q"
  proof -
    have "(2::rat) powi (bitlen a - 1) \<le> of_int a"
      using la pa by (metis of_int_le_iff of_int_numeral of_int_power power_int_def diff_ge_0_iff_ge)
    moreover have "of_int b \<le> (2::rat) powi (bitlen b)"
      using ub pb by (simp add: power_int_def)
    ultimately have "(2::rat) powi (bitlen a - 1) / 2 powi (bitlen b) \<le> of_int a / of_int b"
      using a b by (intro frac_le) auto
    then show ?thesis
      by (simp add: q power_int_diff power_int_add algebra_simps)
  qed
  define fits where "fits = (if 0 \<le> ?k then b * 2 ^ nat ?k \<le> a else b \<le> a * 2 ^ nat (- ?k))"
  have ilog: "ilog2 q = (if fits then ?k else ?k - 1)"
    by (simp only: ilog2_def ab prod.case Let_def fits_def)
  show ?thesis
  proof (cases fits)
    case True
    have "(2::rat) powi ?k \<le> q"
    proof (cases "0 \<le> ?k")
      case k: True
      with True have "of_int (b * 2 ^ nat ?k) \<le> (of_int a :: rat)"
        by (simp only: fits_def if_True of_int_le_iff)
      with k b show ?thesis by (simp add: q power_int_def pos_le_divide_eq mult.commute)
    next
      case k: False
      with True have "of_int b \<le> (of_int (a * 2 ^ nat (- ?k)) :: rat)"
        by (simp only: fits_def if_False of_int_le_iff)
      with k b show ?thesis
        by (simp add: q power_int_def field_simps)
    qed
    with True show ?thesis by (simp add: ilog)
  next
    case False
    with low show ?thesis by (simp add: ilog)
  qed
qed

lemma float_round_near:
  assumes "0 < q"
  shows "\<bar>float_round q - q\<bar> \<le> 2 powi (ilog2 q - 53)"
proof -
  let ?u = "(2::rat) powi (ilog2 q - 52)"
  have u: "0 < ?u" by simp
  have "\<bar>of_int (round_half_even (q / ?u)) - q / ?u\<bar> * ?u \<le> 1/2 * ?u"
    using round_half_even_near u by (intro mult_right_mono) auto
  moreover have "\<bar>of_int (round_half_even (q / ?u)) - q / ?u\<bar> * ?u
      = \<bar>of_int (round_half_even (q / ?u)) * ?u - q\<bar>"
  proof -
    have "(of_int (round_half_even (q / ?u)) - q / ?u) * ?u = of_int (round_half_even (q / ?u)) * ?u - q"
      by (simp add: left_diff_distrib)
    then show ?thesis using u by (metis abs_mult abs_of_pos)
  qed
  moreover have "1/2 * ?u = 2 powi (ilog2 q - 53)"
    by (simp add: power_int_diff)
  ultimately show ?thesis
    using assms by (simp add: float_round_def Let_def)
qed

lemma float_round_nonneg: "0 \<le> q \<Longrightarrow> 0 \<le> float_round q"
  by (auto simp: float_round_def Let_def intro!: mult_nonneg_nonneg round_half_even_ge)

text \<open>An integer below \<open>2^53\<close> is a float, and rounding never crosses it downwards.\<close>

lemma float_round_ge_int:
  assumes q: "0 < q" "q < 2 ^ 53" and k: "of_int k \<le> q"
  shows "of_int k \<le> float_round q"
proof (cases "k \<le> 0")
  case True
  then have "(of_int k :: rat) \<le> 0" by simp
  also have "\<dots> \<le> float_round q" using q by (intro float_round_nonneg) simp
  finally show ?thesis .
next
  case False
  let ?e = "ilog2 q - 52"
  have "\<not> 53 \<le> ilog2 q"
  proof
    assume "53 \<le> ilog2 q"
    then have "(2::rat) powi 53 \<le> 2 powi (ilog2 q)" by (intro power_int_increasing) auto
    with ilog2_le [OF q(1)] q(2) show False by (simp add: power_int_def)
  qed
  then have e: "?e \<le> 0" by simp
  have u: "(2::rat) powi ?e > 0" by simp
  have "inverse ((2::rat) powi ?e) = of_int (2 ^ nat (- ?e))"
    using e by (simp add: power_int_def power_one_over inverse_eq_divide)
  then have scaled: "of_int k / (2::rat) powi ?e = of_int (k * 2 ^ nat (- ?e))"
    by (simp only: divide_inverse of_int_mult)
  have "of_int (k * 2 ^ nat (- ?e)) \<le> q / 2 powi ?e"
    unfolding scaled [symmetric] using k u by (intro divide_right_mono) auto
  then have "k * 2 ^ nat (- ?e) \<le> round_half_even (q / 2 powi ?e)"
    by (rule round_half_even_ge)
  then have "of_int k / (2::rat) powi ?e \<le> of_int (round_half_even (q / 2 powi ?e))"
    unfolding scaled by (simp only: of_int_le_iff)
  with u have "of_int k \<le> of_int (round_half_even (q / 2 powi ?e)) * (2::rat) powi ?e"
    by (simp add: pos_divide_le_eq)
  with q show ?thesis by (simp add: float_round_def Let_def)
qed

text \<open>
  Below \<open>2^53\<close> the truncated float quotient is the integer quotient: the rounding error is
  smaller than the distance of the quotient to the next integer.
\<close>

lemma int_truediv_exact:
  assumes a: "0 \<le> a" "a < 2 ^ 53" and b: "0 < b"
  shows "py_int_of_float (py_truediv a b) = a div b"
proof (cases "a = 0")
  case True
  then show ?thesis by (simp add: py_truediv_def float_round_def py_int_of_float_def)
next
  case False
  define q :: rat where "q = of_int a / of_int b"
  have q0: "0 < q" using False a b by (simp add: q_def)
  have fl: "\<lfloor>q\<rfloor> = a div b" by (simp add: q_def floor_divide_of_int_eq)
  have "q \<le> of_int a" using a b by (simp add: q_def divide_le_eq mult_le_cancel_left1)
  also have "\<dots> < of_int (2 ^ 53)" using a by (simp only: of_int_less_iff)
  finally have q53: "q < 2 ^ 53" by simp
  have lower: "of_int (a div b) \<le> float_round q"
    using q0 q53 by (rule float_round_ge_int) (simp flip: fl)
  have "of_int b * 2 powi (ilog2 q) \<le> of_int b * q"
    using ilog2_le [OF q0] b by (intro mult_left_mono) auto
  also have "of_int b * q = of_int a" using b by (simp add: q_def)
  also have "(of_int a :: rat) < 2 powi 53"
    using a by (simp add: power_int_def)
  finally have err: "of_int b * 2 powi (ilog2 q - 53) < (1 :: rat)"
    by (simp add: power_int_diff divide_less_eq)
  have "float_round q \<le> q + 2 powi (ilog2 q - 53)"
    using float_round_near [OF q0] by (simp add: abs_le_iff)
  moreover have "q \<le> of_int (a div b) + 1 - 1 / of_int b"
  proof -
    have "a \<le> (a div b) * b + (b - 1)"
      using b pos_mod_bound [OF b, of a] div_mult_mod_eq [of a b] by linarith
    then have "(of_int a :: rat) \<le> of_int ((a div b) * b + (b - 1))" by (simp only: of_int_le_iff)
    with b show ?thesis by (simp add: q_def field_simps)
  qed
  moreover have "2 powi (ilog2 q - 53) < 1 / (of_int b :: rat)"
    using err b by (simp add: pos_less_divide_eq mult.commute)
  ultimately have upper: "float_round q < of_int (a div b) + 1" by linarith
  have "\<lfloor>float_round q\<rfloor> = a div b"
    using lower upper by (intro floor_unique) auto
  moreover have "\<not> float_round q < 0" using float_round_nonneg [of q] q0 by simp
  ultimately show ?thesis by (simp add: py_truediv_def py_int_of_float_def q_def)
qed

section \<open>Decimals\<close>

datatype decimal = Dec (dec_coeff: int) (dec_exp: int)

definition dec_val :: "decimal \<Rightarrow> rat" where
  "dec_val d = of_int (dec_coeff d) * 10 powi (dec_exp d)"

definition dec_prec :: nat where
  "dec_prec = 28"

fun num_digits :: "nat \<Rightarrow> nat" where
  "num_digits n = (if n < 10 then 1 else Suc (num_digits (n div 10)))"

declare num_digits.simps [simp del]

text \<open>Rounding a result to the context's precision.\<close>

definition dec_fix :: "decimal \<Rightarrow> decimal" where
  "dec_fix d =
     (let n = num_digits (nat \<bar>dec_coeff d\<bar>) in
      if n \<le> dec_prec then d
      else let k = n - dec_prec in
        Dec (round_half_even (of_int (dec_coeff d) / 10 ^ k)) (dec_exp d + int k))"

definition dec_of_int :: "int \<Rightarrow> decimal" where
  "dec_of_int n = Dec n 0"

text \<open>The exact sum, aligned to the smaller exponent; \<open>dec_add\<close> rounds it.\<close>

definition dec_plus_exact :: "decimal \<Rightarrow> decimal \<Rightarrow> decimal" where
  "dec_plus_exact x y =
     (let e = min (dec_exp x) (dec_exp y) in
      Dec (dec_coeff x * 10 ^ nat (dec_exp x - e) + dec_coeff y * 10 ^ nat (dec_exp y - e)) e)"

definition dec_add :: "decimal \<Rightarrow> decimal \<Rightarrow> decimal" where
  "dec_add x y = dec_fix (dec_plus_exact x y)"

definition dec_sub :: "decimal \<Rightarrow> decimal \<Rightarrow> decimal" where
  "dec_sub x y = dec_fix (dec_plus_exact x (Dec (- dec_coeff y) (dec_exp y)))"

definition dec_mul :: "decimal \<Rightarrow> decimal \<Rightarrow> decimal" where
  "dec_mul x y = dec_fix (Dec (dec_coeff x * dec_coeff y) (dec_exp x + dec_exp y))"

text \<open>Division by \<open>Decimal(1000)\<close> moves the exponent.\<close>

definition dec_div1000 :: "decimal \<Rightarrow> decimal" where
  "dec_div1000 x = dec_fix (Dec (dec_coeff x) (dec_exp x - 3))"

definition dec_le :: "decimal \<Rightarrow> decimal \<Rightarrow> bool" where
  "dec_le x y = (0 \<le> dec_coeff (dec_plus_exact y (Dec (- dec_coeff x) (dec_exp x))))"

text \<open>A SUM over a NUMERIC column is exact.\<close>

definition dec_sum :: "decimal list \<Rightarrow> decimal" where
  "dec_sum ds = foldr dec_plus_exact ds (Dec 0 0)"

lemma num_digits_le: "n < 10 ^ k \<Longrightarrow> 0 < k \<Longrightarrow> num_digits n \<le> k"
proof (induction k arbitrary: n)
  case 0
  then show ?case by simp
next
  case (Suc k)
  show ?case
  proof (cases "n < 10")
    case True
    then show ?thesis by (simp add: num_digits.simps [of n])
  next
    case False
    then have "k \<noteq> 0" using Suc.prems by (cases k) auto
    moreover have "n div 10 < 10 ^ k"
      using Suc.prems by (simp add: less_mult_imp_div_less mult.commute)
    ultimately have "num_digits (n div 10) \<le> k" by (intro Suc.IH) auto
    with False show ?thesis by (simp add: num_digits.simps [of n])
  qed
qed

lemma dec_fix_exact: "\<bar>c\<bar> < 10 ^ 28 \<Longrightarrow> dec_fix (Dec c e) = Dec c e"
proof -
  assume "\<bar>c\<bar> < 10 ^ 28"
  then have "num_digits (nat \<bar>c\<bar>) \<le> 28"
    by (intro num_digits_le) (simp_all add: nat_less_iff)
  then show ?thesis by (simp add: dec_fix_def dec_prec_def Let_def)
qed

lemma dec_val_plus_exact [simp]: "dec_val (dec_plus_exact x y) = dec_val x + dec_val y"
proof -
  let ?e = "min (dec_exp x) (dec_exp y)"
  have align: "(10::rat) ^ nat (n - ?e) * 10 powi ?e = 10 powi n" if "?e \<le> n" for n
    using that by (metis diff_ge_0_iff_ge power_int_add power_int_def zero_neq_numeral
        diff_add_cancel)
  show ?thesis
    by (simp add: dec_plus_exact_def dec_val_def Let_def distrib_right mult.assoc align)
qed

lemma dec_val_neg [simp]: "dec_val (Dec (- c) e) = - dec_val (Dec c e)"
  by (simp add: dec_val_def)

lemma zero_le_mult_pos_iff: "0 < (p :: rat) \<Longrightarrow> 0 \<le> x * p \<longleftrightarrow> 0 \<le> x"
  by (auto simp: zero_le_mult_iff)

lemma dec_le_val: "dec_le x y \<longleftrightarrow> dec_val x \<le> dec_val y"
proof -
  let ?d = "dec_plus_exact y (Dec (- dec_coeff x) (dec_exp x))"
  have "dec_val ?d = dec_val y - dec_val x"
    using dec_val_plus_exact [of y "Dec (- dec_coeff x) (dec_exp x)"]
    by (simp add: dec_val_def)
  moreover have "0 \<le> dec_coeff ?d \<longleftrightarrow> 0 \<le> dec_val ?d"
  proof -
    have "0 < (10::rat) powi (dec_exp ?d)" by simp
    from zero_le_mult_pos_iff [OF this, of "of_int (dec_coeff ?d)"] show ?thesis
      by (simp add: dec_val_def)
  qed
  ultimately show ?thesis by (simp add: dec_le_def)
qed

lemma dec_val_sum: "dec_val (dec_sum ds) = (\<Sum>d \<leftarrow> ds. dec_val d)"
  by (induction ds) (simp_all add: dec_sum_def dec_val_def [of "Dec 0 0"])

end
