(* ===== verification/Models.thy ===== *)
theory Models
  imports PyText PyNum
begin

text \<open>
  The data of the program: one datatype per enumeration and one record per ORM class of
  \<open>models/\<close>, field by field, the settings of \<open>config.py\<close> the modelled code reads, and the
  session \<open>db\<close>, which holds the tables.  Two further fields stand for what comes from outside:
  \<open>fresh\<close> counts the identifiers and random strings drawn so far.  The record \<open>env\<close> holds what
  an operation is given by its surroundings: the clock, the ULID and random string generators,
  SHA-256 and Fernet.
\<close>

section \<open>Enumerations\<close>

datatype member_provider = google_oidc | local_password | external
datatype member_status = member_active | member_disabled
datatype allocation_status = active | revoked | quarantined | paused
datatype allocation_origin = origin_admin | origin_self_service
datatype default_access = access_open | access_restricted
datatype matcher_type = email_localpart_regex | email_suffix | email_domain | always | identifier_regex
datatype tag_source = manual | auto_source
datatype device_status = device_pending | device_approved | device_denied | device_expired
datatype oauth_status = oauth_pending | oauth_approved | oauth_consumed | oauth_denied | oauth_expired
datatype provider_cred_status = pc_active | pc_disabled
datatype session_status = session_active | session_revoked
datatype notification_status = n_pending_test | n_verified | n_credentials_invalid
datatype notification_outcome =
    n_sent | n_suppressed | n_skipped_disabled | n_skipped_no_recipients | n_send_failed_auth
  | n_send_failed_connect | n_send_failed_sender | n_send_failed_all_recipients | n_send_failed_unknown
  | n_test_sent | n_test_failed_auth | n_test_failed_connect | n_test_failed_sender
  | n_test_failed_recipient | n_test_failed_unknown
datatype attempt_outcome =
  attempt_success | bad_password | unknown_email | attempt_locked | attempt_disabled

datatype call_outcome =
    success | rejected_unauthenticated | rejected_revoked | rejected_model_mismatch
  | rejected_provider | rejected_quarantined | rejected_paused | rejected_quota_exceeded
  | rejected_cost_quota_exceeded | rejected_model_forbidden | rejected_model_unsupported
  | rejected_response_forbidden | rejected_response_not_found | upstream_invalid_request
  | upstream_error | gateway_error

datatype actor_type = actor_admin | actor_member | actor_system | actor_anonymous

datatype audit_event =
    login_success | login_failure | logout | member_created | member_was_disabled | member_enabled
  | member_deleted | whitelist_added | whitelist_removed | rule_added | rule_removed
  | restriction_added | restriction_removed | password_changed | invitation_issued
  | invitation_used | allocation_quarantined | allocation_unquarantined | anomaly_detector_run
  | quota_pool_rebalanced | rebalance_failed | pool_exhausted_by_reserved | pool_idle
  | member_promoted | member_demoted | allocation_token_rotated | provider_credential_created
  | provider_credential_rotated | provider_credential_disabled
  | provider_credential_used_first_time | member_tag_added | member_tag_removed
  | member_tag_bulk_added | model_access_policy_updated | self_service_claimed
  | self_service_reclaim_locked | self_service_unlocked | price_version_added
  | allocation_paused | allocation_resumed | allocation_cost_quota_updated
  | pool_config_updated | anomaly_config_updated | responses_upstream_error_burst
  | provider_credential_auth_failed | credential_added | credential_revoked
  | device_authorization_approved | device_authorization_denied | credential_scope_added
  | credential_scope_removed | credential_renamed | responses_tested
  | responses_support_overridden | model_tested

section \<open>Rows\<close>

text \<open>A value of a JSON column.\<close>

datatype json = JNull | JBool bool | JInt int | JNum rat | JStr string
  | JList "json list" | JObj "(string \<times> json) list"

record member =
  m_id :: string
  m_email :: string
  m_provider :: member_provider
  m_external_id :: "string option"
  m_display_name :: string
  m_status :: member_status
  m_password_hash :: "string option"
  m_created_at :: timestamp
  m_disabled_at :: "timestamp option"
  m_created_by :: string
  m_is_admin :: bool

record allocation =
  a_id :: string
  a_member_id :: string
  a_subject_snapshot :: string
  a_resource_model :: string
  a_status :: allocation_status
  a_created_at :: timestamp
  a_revoked_at :: "timestamp option"
  a_created_by :: string
  a_note :: "string option"
  a_quota_tokens :: "int option"
  a_quota_cost :: "decimal option"
  a_is_service :: bool
  a_quota_locked :: bool
  a_origin :: allocation_origin

record credential =
  c_id :: string
  c_member_id :: string
  c_name :: string
  c_token_fingerprint :: string
  c_token_prefix :: string
  c_created_at :: timestamp
  c_last_used_at :: "timestamp option"
  c_revoked_at :: "timestamp option"

record credential_allocation =
  ca_credential_id :: string
  ca_allocation_id :: string
  ca_resource_model :: string

record call_record =
  r_id :: string
  r_request_id :: string
  r_allocation_id :: "string option"
  r_subject :: "string option"
  r_model :: "string option"
  r_started_at :: timestamp
  r_finished_at :: timestamp
  r_status_code :: int
  r_outcome :: call_outcome
  r_prompt_tokens :: "int option"
  r_completion_tokens :: "int option"
  r_total_tokens :: "int option"
  r_reasoning_tokens :: "int option"
  r_cached_tokens :: "int option"
  r_cost_usd :: "decimal option"
  r_quantity :: "int option"
  r_unit :: "string option"
  r_error_message :: "string option"

record model_catalog =
  mc_slug :: string
  mc_provider :: string
  mc_display_name :: string
  mc_family :: string
  mc_description :: string
  mc_modality_input :: "string list"
  mc_modality_output :: "string list"
  mc_capabilities :: "string list"
  mc_context_window :: int
  mc_cost_tier :: string
  mc_recommended_for :: "string list"
  mc_tags :: "string list"
  mc_example_request :: json
  mc_official_doc_url :: "string option"
  mc_status :: string
  mc_deprecation_note :: "string option"
  mc_created_at :: timestamp
  mc_updated_at :: timestamp
  mc_default_access :: default_access
  mc_allowed_tags :: "string list"
  mc_denied_tags :: "string list"
  mc_self_service_enabled :: bool
  mc_self_service_default_quota :: "int option"
  mc_litellm_sync :: "(string \<times> json) list option"

record price_list =
  p_id :: string
  p_provider :: string
  p_model :: string
  p_input_per_1k :: decimal
  p_output_per_1k :: decimal
  p_cached_input_per_1k :: "decimal option"
  p_price_unit :: "string option"
  p_price_per_unit :: "decimal option"
  p_effective_from :: timestamp
  p_created_at :: timestamp
  p_created_by :: string
  p_source_note :: "string option"

record pool_config =
  pool_total :: int
  pool_floor :: int
  pool_updated_at :: timestamp
  pool_updated_by :: "string option"

record rebalance_detail =
  rd_id :: string
  rd_before :: int
  rd_after :: int
  rd_usage :: int
  rd_reason :: string

record rebalance_log =
  rl_id :: string
  rl_period :: "int \<times> int" \<comment> \<open>year and month: the string YYYYMM\<close>
  rl_triggered_by :: string
  rl_started_at :: timestamp
  rl_finished_at :: timestamp
  rl_T_before :: int
  rl_T_after :: int
  rl_scanned :: nat
  rl_changed :: nat
  rl_allocations :: "rebalance_detail list"
  rl_reserved_total :: int
  rl_leftover_target :: "string option"

record device_authorization =
  d_id :: string
  d_device_code :: string
  d_user_code :: string
  d_status :: device_status
  d_device_label :: "string option"
  d_member_id :: "string option"
  d_allocation_id :: "string option"
  d_credential_id :: "string option"
  d_encrypted_token :: "string option"
  d_created_at :: timestamp
  d_expires_at :: timestamp
  d_approved_at :: "timestamp option"
  d_last_polled_at :: "timestamp option"
  d_poll_interval :: int

record oauth_authorization =
  o_id :: string
  o_client_name :: string
  o_redirect_uri :: string
  o_state :: "string option"
  o_scope :: "string option"
  o_code_challenge :: string
  o_member_id :: string
  o_status :: oauth_status
  o_allocation_ids :: "string list option"
  o_code :: "string option"
  o_credential_id :: "string option"
  o_created_at :: timestamp
  o_expires_at :: timestamp
  o_approved_at :: "timestamp option"
  o_consumed_at :: "timestamp option"

record reclaim_lock =
  l_member_id :: string
  l_model_slug :: string
  l_locked_at :: timestamp
  l_locked_by :: string

record tag_rule =
  tr_id :: string
  tr_order_index :: int
  tr_matcher_type :: matcher_type
  tr_pattern :: string
  tr_tag :: string
  tr_enabled :: bool
  tr_created_at :: timestamp
  tr_created_by :: string

record member_tag =
  mt_member_id :: string
  mt_tag :: string
  mt_added_by :: string
  mt_added_at :: timestamp
  mt_source :: tag_source
  mt_rule_id :: "string option"

record anomaly_config =
  an_auto_quarantine_enabled :: bool
  an_pause_until :: "timestamp option"
  an_threshold_multiplier :: rat
  an_min_calls :: int
  an_absolute_cold_start :: int
  an_baseline_min_calls :: int
  an_updated_at :: timestamp
  an_updated_by :: "string option"

record provider_credential =
  pc_id :: string
  pc_provider :: string
  pc_label :: string
  pc_enc_key :: string
  pc_fingerprint :: string
  pc_base_url :: "string option"
  pc_extra_config :: "(string \<times> json) list option"
  pc_status :: provider_cred_status
  pc_last_used_at :: "timestamp option"
  pc_created_at :: timestamp
  pc_created_by :: string
  pc_disabled_at :: "timestamp option"

record session_row =
  s_id :: string
  s_member_id :: string
  s_created_at :: timestamp
  s_last_seen_at :: timestamp
  s_expires_at :: timestamp
  s_idle_timeout_at :: timestamp
  s_source_ip :: "string option"
  s_user_agent :: "string option"
  s_status :: session_status
  s_revoked_at :: "timestamp option"
  s_revoked_reason :: "string option"

record password_attempt =
  pa_id :: string
  pa_email :: string
  pa_attempted_at :: timestamp
  pa_source_ip :: "string option"
  pa_outcome :: attempt_outcome

record invitation_token =
  i_token_fingerprint :: string
  i_token_prefix :: string
  i_member_id :: string
  i_created_at :: timestamp
  i_expires_at :: timestamp
  i_used_at :: "timestamp option"
  i_created_by :: string

record email_whitelist =
  w_email :: string
  w_added_at :: timestamp
  w_added_by :: string
  w_note :: "string option"

text \<open>\<open>RuleType\<close> has the one member \<open>email_domain\<close>, so a rule is its pattern.\<close>

record auto_register_rule =
  ar_id :: string
  ar_pattern :: string
  ar_enabled :: bool
  ar_created_at :: timestamp
  ar_created_by :: string
  ar_note :: "string option"

record source_restriction =
  rs_id :: string
  rs_cidr :: string
  rs_enabled :: bool
  rs_created_at :: timestamp
  rs_created_by :: string
  rs_note :: "string option"

record oauth_config =
  oc_redirect_allowlist :: string
  oc_updated_at :: timestamp
  oc_updated_by :: "string option"

record stored_response =
  sr_response_id :: string
  sr_allocation_id :: string
  sr_provider :: string
  sr_upstream_response_id :: "string option"
  sr_created_at :: timestamp
  sr_expires_at :: timestamp

record oidc_state =
  os_state :: string
  os_nonce :: string
  os_code_verifier :: string
  os_redirect_to :: string
  os_created_at :: timestamp
  os_expires_at :: timestamp

text \<open>The notification tables.  The configuration is a single row (\<open>CHECK id = 1\<close>).\<close>

record notification_config =
  nc_smtp_host :: string
  nc_smtp_port :: int
  nc_smtp_username :: string
  nc_smtp_password_encrypted :: string
  nc_sender_email :: string
  nc_sender_name :: string
  nc_recipients :: "string list"
  nc_enabled :: bool
  nc_status :: notification_status
  nc_last_test_at :: "timestamp option"
  nc_last_test_outcome :: "notification_outcome option"
  nc_last_test_error :: "string option"
  nc_created_at :: timestamp
  nc_updated_at :: timestamp
  nc_created_by :: string

record dedup_bucket =
  nb_id :: string
  nb_event_type :: string
  nb_window_start :: timestamp
  nb_window_end :: timestamp
  nb_event_count :: nat
  nb_primary_record_id :: "string option"
  nb_last_event_at :: timestamp

record notification_record =
  nr_id :: string
  nr_event_type :: string
  nr_audit_event_id :: "string option"
  nr_dedup_bucket_id :: "string option"
  nr_outcome :: notification_outcome
  nr_recipients :: "string list"
  nr_per_recipient_status :: "(string \<times> string) list"
  nr_subject :: string
  nr_body_preview :: string
  nr_smtp_response_code :: "int option"
  nr_error_message :: "string option"
  nr_latency_ms :: "int option"
  nr_created_at :: timestamp

record audit_entry =
  au_id :: string
  au_event_type :: audit_event
  au_actor_type :: actor_type
  au_actor_id :: "string option"
  au_target_type :: "string option"
  au_target_id :: "string option"
  au_created_at :: timestamp
  au_source_ip :: "string option"
  au_user_agent :: "string option"
  au_request_id :: "string option"
  au_details :: "(string \<times> json) list option"
  au_redacted_message :: "string option"

section \<open>The session\<close>

record db =
  members :: "member list"
  allocations :: "allocation list"
  credentials :: "credential list"
  credential_allocations :: "credential_allocation list"
  call_records :: "call_record list"
  catalog :: "model_catalog list"
  prices :: "price_list list"
  pool :: "pool_config option"
  rebalance_logs :: "rebalance_log list"
  device_auths :: "device_authorization list"
  oauth_auths :: "oauth_authorization list"
  oauth_cfg :: "oauth_config option"
  reclaim_locks :: "reclaim_lock list"
  tag_rules :: "tag_rule list"
  member_tags :: "member_tag list"
  anomaly_cfg :: "anomaly_config option"
  provider_creds :: "provider_credential list"
  sessions :: "session_row list"
  password_attempts :: "password_attempt list"
  invitations :: "invitation_token list"
  whitelist :: "email_whitelist list"
  auto_rules :: "auto_register_rule list"
  restrictions :: "source_restriction list"
  oidc_states :: "oidc_state list"
  notif_cfg :: "notification_config option"
  dedup_buckets :: "dedup_bucket list"
  notif_records :: "notification_record list"
  stored_responses :: "stored_response list"
  audit_log :: "audit_entry list"
  fresh :: nat

section \<open>The surroundings\<close>

record settings =
  admin_bootstrap_token :: string
  google_oauth_client_id :: string
  azure_openai_api_base :: string
  azure_openai_api_key :: string
  azure_openai_api_version :: string
  google_oauth_client_secret :: string
  allowed_providers :: "string list"
  anomaly_threshold_multiplier :: rat
  anomaly_absolute_cold_start :: int
  anomaly_min_calls :: int
  perip_lockout_threshold :: nat
  pool_total_tokens_per_month :: int
  pool_floor_per_allocation :: int
  upstream_burst_threshold :: nat
  upstream_burst_window_minutes :: int
  oauth_redirect_allowlist :: string
  notify_event_types_override :: "string list"

text \<open>
  \<open>now\<close> is the clock during one operation, \<open>ulid\<close> and \<open>token_urlsafe\<close> the identifiers and
  random strings drawn at each position of \<open>fresh\<close>, \<open>sha256_hex\<close> and \<open>sha256_b64url\<close> the
  digests of a string, \<open>randbelow n k\<close> the index below \<open>k\<close> that \<open>secrets.choice\<close> draws, \<open>encrypt\<close>
  and \<open>decrypt\<close> the Fernet object (whose ciphertext depends on the position too, and which raises
  on a string it did not encrypt: \<open>None\<close>), and \<open>argon_hash\<close> and \<open>argon_verify\<close> the Argon2 hasher
  (a mismatch and an invalid hash are both caught by the source: \<open>False\<close>).
\<close>

record env =
  now :: timestamp
  ulid :: "nat \<Rightarrow> string"
  token_urlsafe :: "nat \<Rightarrow> string"
  sha256_hex :: "string \<Rightarrow> string"
  sha256_b64url :: "string \<Rightarrow> string"
  encrypt :: "nat \<Rightarrow> string \<Rightarrow> string"
  decrypt :: "string \<Rightarrow> string option"
  randbelow :: "nat \<Rightarrow> nat \<Rightarrow> nat"
  argon_hash :: "nat \<Rightarrow> string \<Rightarrow> string"
  argon_verify :: "string \<Rightarrow> string \<Rightarrow> bool"
  cfg :: settings

definition tick :: "db \<Rightarrow> db" where
  "tick d = d\<lparr>fresh := Suc (fresh d)\<rparr>"

text \<open>A rollback discards what the session wrote; identifiers drawn stay drawn.\<close>

definition rollback_to :: "db \<Rightarrow> db \<Rightarrow> db" where
  "rollback_to d0 d = d0\<lparr>fresh := fresh d\<rparr>"

section \<open>Every table of the session is a table\<close>

interpretation member_tbl: table members members_update m_id
  by unfold_locales simp_all

interpretation allocation_tbl: table allocations allocations_update a_id
  by unfold_locales simp_all

interpretation credential_tbl: table credentials credentials_update c_id
  by unfold_locales simp_all

interpretation link_tbl: table credential_allocations credential_allocations_update
    "\<lambda>l. (ca_credential_id l, ca_allocation_id l)"
  by unfold_locales simp_all

interpretation device_tbl: table device_auths device_auths_update d_user_code
  by unfold_locales simp_all

interpretation oauth_tbl: table oauth_auths oauth_auths_update o_id
  by unfold_locales simp_all

interpretation provider_tbl: table provider_creds provider_creds_update pc_id
  by unfold_locales simp_all

interpretation session_tbl: table sessions sessions_update s_id
  by unfold_locales simp_all

interpretation invitation_tbl: table invitations invitations_update i_token_fingerprint
  by unfold_locales simp_all

end
