(* ===== verification/AuditLog.thy ===== *)
theory AuditLog
  imports Models
begin

text \<open>
  The audit trail (\<open>auth/audit.py\<close>), the redaction of secrets it applies
  (\<open>observability/logging.py\<close>) and the generation of credential tokens
  (\<open>services/credentials.py\<close>).  The redaction pattern
  \<open>(?:aiapi|sess|invite)_[A-Za-z0-9_-]{16,}\<close> is matched by hand: \<open>token_match\<close> is the
  length of the leftmost-longest match at the head of a string.  The notifier hook is a
  fire-and-forget call outside the session and is not modelled.
\<close>

section \<open>Redaction\<close>

definition token_char :: "char \<Rightarrow> bool" where
  "token_char c = (is_lower_letter c \<or> is_upper_letter c \<or> is_digit c \<or> c = CHR ''_'' \<or> c = CHR ''-'')"

definition token_heads :: "string list" where
  "token_heads = [''aiapi_'', ''sess_'', ''invite_'']"

definition token_match :: "string \<Rightarrow> nat option" where
  "token_match s =
     (case find (\<lambda>p. starts_with p s \<and> 16 \<le> length (takeWhile token_char (drop (length p) s)))
             token_heads of
        None \<Rightarrow> None
      | Some p \<Rightarrow> Some (length p + length (takeWhile token_char (drop (length p) s))))"

definition placeholder :: string where
  "placeholder = ''***''"

lemma token_match_pos: "token_match s = Some n \<Longrightarrow> 0 < n"
  by (auto simp: token_match_def split: option.splits dest!: find_SomeD)

function scrub_tokens :: "string \<Rightarrow> string" where
  "scrub_tokens s =
     (case s of [] \<Rightarrow> []
      | c # cs \<Rightarrow> (case token_match s of
            Some n \<Rightarrow> placeholder @ scrub_tokens (drop n s)
          | None \<Rightarrow> c # scrub_tokens cs))"
  by pat_completeness auto
termination
  by (relation "measure length") (auto dest: token_match_pos)

declare scrub_tokens.simps [simp del]

text \<open>\<open>str.replace\<close>: leftmost occurrences, not overlapping.\<close>

function replace_all :: "string \<Rightarrow> string \<Rightarrow> string \<Rightarrow> string" where
  "replace_all old new s =
     (case s of [] \<Rightarrow> []
      | c # cs \<Rightarrow> if old \<noteq> [] \<and> starts_with old s then new @ replace_all old new (drop (length old) s)
                  else c # replace_all old new cs)"
  by pat_completeness auto
termination
  by (relation "measure (\<lambda>(old, new, s). length s)") auto

declare replace_all.simps [simp del]

fun occurs_in :: "string \<Rightarrow> string \<Rightarrow> bool" where
  "occurs_in p [] = (p = [])"
| "occurs_in p (c # cs) = (starts_with p (c # cs) \<or> occurs_in p cs)"

definition scrub :: "string list \<Rightarrow> string \<Rightarrow> string" where
  "scrub secrets value =
     scrub_tokens (foldl (\<lambda>v s. if s \<noteq> [] \<and> occurs_in s v then replace_all s placeholder v else v)
                     value secrets)"

definition current_secrets :: "settings \<Rightarrow> string list" where
  "current_secrets s = filter (\<lambda>v. v \<noteq> []) [azure_openai_api_key s, google_oauth_client_secret s]"

definition redact_string :: "settings \<Rightarrow> string \<Rightarrow> string" where
  "redact_string s value = (if value = [] then value else scrub (current_secrets s) value)"

definition redact_details :: "settings \<Rightarrow> (string \<times> json) list \<Rightarrow> (string \<times> json) list" where
  "redact_details s = map (\<lambda>(k, v). (k, case v of JStr x \<Rightarrow> JStr (redact_string s x) | _ \<Rightarrow> v))"

text \<open>Whether an issued token occurs anywhere in a string.\<close>

fun contains_token :: "string \<Rightarrow> bool" where
  "contains_token [] = False"
| "contains_token (c # cs) = (token_match (c # cs) \<noteq> None \<or> contains_token cs)"

lemma token_match_cong:
  assumes "token_match s = Some n" and "take n t = take n s"
  shows "token_match t \<noteq> None"
proof -
  from assms(1) obtain p where p: "p \<in> set token_heads" "starts_with p s"
      and run: "16 \<le> length (takeWhile token_char (drop (length p) s))"
      and n: "n = length p + length (takeWhile token_char (drop (length p) s))"
    by (auto simp: token_match_def split: option.splits dest!: find_SomeD)
  let ?r = "takeWhile token_char (drop (length p) s)"
  have ts: "take n s = p @ ?r"
    using p(2) unfolding n starts_with_def
    by (metis take_add takeWhile_eq_take)
  then have "t = p @ ?r @ drop n t"
    using assms(2) by (metis append.assoc append_take_drop_id)
  then obtain u where t: "t = p @ ?r @ u" by blast
  have "starts_with p t" by (simp add: starts_with_def t)
  moreover have "16 \<le> length (takeWhile token_char (drop (length p) t))"
  proof -
    have "takeWhile token_char (?r @ u) = ?r @ takeWhile token_char u"
      by (rule takeWhile_append2) (auto dest: set_takeWhileD)
    then show ?thesis using run by (simp add: t)
  qed
  ultimately show ?thesis using p(1)
    by (auto simp: token_match_def find_None_ball split: option.splits)
qed

lemma token_match_no_star:
  assumes "token_match s = Some n"
  shows "CHR ''*'' \<notin> set (take n s)"
proof -
  from assms obtain p where p: "p \<in> set token_heads" "starts_with p s"
      and n: "n = length p + length (takeWhile token_char (drop (length p) s))"
    by (auto simp: token_match_def split: option.splits dest!: find_SomeD)
  have "take n s = p @ takeWhile token_char (drop (length p) s)"
    using p(2) unfolding n starts_with_def
    by (metis take_add takeWhile_eq_take)
  moreover have "CHR ''*'' \<notin> set p" using p(1) by (auto simp: token_heads_def)
  moreover have "\<not> token_char (CHR ''*'')" by (simp add: token_char_def is_lower_letter_def is_upper_letter_def is_digit_def)
  ultimately show ?thesis by (auto dest: set_takeWhileD)
qed

lemma scrub_tokens_prefix:
  "CHR ''*'' \<notin> set (take n (scrub_tokens s)) \<Longrightarrow> take n (scrub_tokens s) = take n s"
proof (induction s arbitrary: n rule: scrub_tokens.induct)
  case (1 s)
  show ?case
  proof (cases s)
    case Nil
    then show ?thesis by (simp add: scrub_tokens.simps)
  next
    case (Cons c cs)
    show ?thesis
    proof (cases "token_match s")
      case None
      with Cons have s: "scrub_tokens s = c # scrub_tokens cs" by (subst scrub_tokens.simps) simp
      show ?thesis
      proof (cases n)
        case (Suc m)
        have "take m (scrub_tokens cs) = take m cs"
          by (rule "1.IH"(1) [OF Cons None]) (use "1.prems" Suc s in simp)
        with Suc s Cons show ?thesis by simp
      qed simp
    next
      case (Some k)
      with Cons have "scrub_tokens s = placeholder @ scrub_tokens (drop k s)"
        by (subst scrub_tokens.simps) simp
      with "1.prems" show ?thesis by (cases n) (simp_all add: placeholder_def)
    qed
  qed
qed

lemma token_match_star [simp]: "token_match (CHR ''*'' # s) = None"
  by (simp add: token_match_def token_heads_def starts_with_def)

lemma scrub_tokens_clean: "\<not> contains_token (scrub_tokens s)"
proof (induction s rule: scrub_tokens.induct)
  case (1 s)
  show ?case
  proof (cases s)
    case Nil
    then show ?thesis by (simp add: scrub_tokens.simps)
  next
    case (Cons c cs)
    show ?thesis
    proof (cases "token_match s")
      case None
      with Cons have s: "scrub_tokens s = c # scrub_tokens cs" by (subst scrub_tokens.simps) simp
      have "token_match (scrub_tokens s) = None"
        using None token_match_cong [of "scrub_tokens s" _ s] token_match_no_star [of "scrub_tokens s"]
          scrub_tokens_prefix [of _ s]
        by (cases "token_match (scrub_tokens s)") auto
      with "1.IH"(1) [OF Cons None] s show ?thesis by simp
    next
      case (Some k)
      with Cons have "scrub_tokens s = placeholder @ scrub_tokens (drop k s)"
        by (subst scrub_tokens.simps) simp
      with "1.IH"(2) [OF Cons Some] show ?thesis by (simp add: placeholder_def)
    qed
  qed
qed

section \<open>The audit log\<close>

definition audit_record_full ::
  "env \<Rightarrow> audit_event \<Rightarrow> actor_type \<Rightarrow> string option \<Rightarrow> string option \<Rightarrow> string option
     \<Rightarrow> string option \<Rightarrow> string option \<Rightarrow> string option
     \<Rightarrow> (string \<times> json) list \<Rightarrow> string option \<Rightarrow> db \<Rightarrow> db" where
  "audit_record_full e event actor actor_id target_type target_id source_ip user_agent request_id
       details message d =
     tick (audit_log_update (\<lambda>log. log @
       [\<lparr>au_id = ulid e (fresh d), au_event_type = event, au_actor_type = actor,
         au_actor_id = actor_id, au_target_type = target_type, au_target_id = target_id,
         au_created_at = now e, au_source_ip = source_ip,
         au_user_agent = (let ua = take 512 (case user_agent of None \<Rightarrow> [] | Some u \<Rightarrow> u)
                          in if ua = [] then None else Some ua),
         au_request_id = request_id,
         au_details = (if details = [] then None else Some (redact_details (cfg e) details)),
         au_redacted_message = (case message of None \<Rightarrow> None
            | Some m \<Rightarrow> if m = [] then None else Some (redact_string (cfg e) m))\<rparr>]) d)"

text \<open>The call as the services make it, without request data; no details is the empty list.\<close>

definition audit_record ::
  "env \<Rightarrow> audit_event \<Rightarrow> actor_type \<Rightarrow> string option \<Rightarrow> string option \<Rightarrow> string option
     \<Rightarrow> (string \<times> json) list \<Rightarrow> db \<Rightarrow> db" where
  "audit_record e event actor actor_id target_type target_id details d =
     audit_record_full e event actor actor_id target_type target_id None None None details None d"

section \<open>Tokens\<close>

record generated_token =
  g_plaintext :: string
  g_fingerprint :: string
  g_prefix :: string

definition token_prefix :: string where
  "token_prefix = ''aiapi_''"

definition fingerprint_for :: "env \<Rightarrow> string \<Rightarrow> string" where
  "fingerprint_for e plaintext = sha256_hex e plaintext"

definition generate_token :: "env \<Rightarrow> db \<Rightarrow> generated_token \<times> db" where
  "generate_token e d =
     (let plaintext = token_prefix @ token_urlsafe e (fresh d) in
      (\<lparr>g_plaintext = plaintext, g_fingerprint = fingerprint_for e plaintext,
        g_prefix = take 8 plaintext\<rparr>, tick d))"

definition new_ulid :: "env \<Rightarrow> db \<Rightarrow> string \<times> db" where
  "new_ulid e d = (ulid e (fresh d), tick d)"

text \<open>
  What the model assumes of the generators: a ULID or random string is never drawn twice, and
  SHA-256 does not collide.
\<close>

definition env_ok :: "env \<Rightarrow> bool" where
  "env_ok e \<longleftrightarrow> inj (ulid e) \<and> inj (token_urlsafe e) \<and> inj (sha256_hex e)"

lemma tick_frame [simp]:
  "members (tick d) = members d" "allocations (tick d) = allocations d"
  "credentials (tick d) = credentials d" "credential_allocations (tick d) = credential_allocations d"
  "call_records (tick d) = call_records d" "catalog (tick d) = catalog d" "prices (tick d) = prices d"
  "pool (tick d) = pool d" "rebalance_logs (tick d) = rebalance_logs d"
  "device_auths (tick d) = device_auths d" "oauth_auths (tick d) = oauth_auths d"
  "oauth_cfg (tick d) = oauth_cfg d" "reclaim_locks (tick d) = reclaim_locks d"
  "tag_rules (tick d) = tag_rules d" "member_tags (tick d) = member_tags d"
  "anomaly_cfg (tick d) = anomaly_cfg d" "provider_creds (tick d) = provider_creds d"
  "sessions (tick d) = sessions d" "password_attempts (tick d) = password_attempts d"
  "invitations (tick d) = invitations d" "whitelist (tick d) = whitelist d"
  "auto_rules (tick d) = auto_rules d" "restrictions (tick d) = restrictions d" "stored_responses (tick d) = stored_responses d"
  "oidc_states (tick d) = oidc_states d" "notif_cfg (tick d) = notif_cfg d"
  "dedup_buckets (tick d) = dedup_buckets d" "notif_records (tick d) = notif_records d"
  "audit_log (tick d) = audit_log d" "fresh (tick d) = Suc (fresh d)"
  by (simp_all add: tick_def)

lemma audit_record_frame [simp]:
  fixes e ev act ai tt ti ds d
  defines "d' \<equiv> audit_record e ev act ai tt ti ds d"
  shows "members d' = members d" "allocations d' = allocations d"
    "credentials d' = credentials d" "credential_allocations d' = credential_allocations d"
    "call_records d' = call_records d" "catalog d' = catalog d" "prices d' = prices d"
    "pool d' = pool d" "rebalance_logs d' = rebalance_logs d"
    "device_auths d' = device_auths d" "oauth_auths d' = oauth_auths d"
    "oauth_cfg d' = oauth_cfg d" "reclaim_locks d' = reclaim_locks d"
    "tag_rules d' = tag_rules d" "member_tags d' = member_tags d"
    "anomaly_cfg d' = anomaly_cfg d" "provider_creds d' = provider_creds d"
    "sessions d' = sessions d" "password_attempts d' = password_attempts d"
    "invitations d' = invitations d" "whitelist d' = whitelist d"
    "auto_rules d' = auto_rules d" "restrictions d' = restrictions d" "stored_responses d' = stored_responses d"
    "oidc_states d' = oidc_states d" "notif_cfg d' = notif_cfg d"
    "dedup_buckets d' = dedup_buckets d" "notif_records d' = notif_records d"
    "fresh d' = Suc (fresh d)"
  by (simp_all add: d'_def audit_record_def audit_record_full_def)

lemma generate_token_frame [simp]: "snd (generate_token e d) = tick d"
  by (simp add: generate_token_def Let_def)

lemma new_ulid_frame [simp]: "fst (new_ulid e d) = ulid e (fresh d)" "snd (new_ulid e d) = tick d"
  by (simp_all add: new_ulid_def)

lemma generate_token_fields [simp]:
  "g_plaintext (fst (generate_token e d)) = token_prefix @ token_urlsafe e (fresh d)"
  "g_fingerprint (fst (generate_token e d)) =
     fingerprint_for e (token_prefix @ token_urlsafe e (fresh d))"
  "g_prefix (fst (generate_token e d)) = take 8 (token_prefix @ token_urlsafe e (fresh d))"
  by (simp_all add: generate_token_def Let_def)


end
