(* ===== verification/Samples.thy ===== *)
theory Samples
  imports AuditLog
begin

text \<open>
  Concrete surroundings and an empty session, on which the witnesses evaluate the operations.
\<close>

definition sample_settings :: settings where
  "sample_settings =
     \<lparr>admin_bootstrap_token = ''bootstrap'', google_oauth_client_id = ''google-id'',
      azure_openai_api_base = ''https://a'', azure_openai_api_key = ''azure-key'',
      azure_openai_api_version = ''v1'', google_oauth_client_secret = ''google-secret'',
      allowed_providers = [''azure'', ''openai''], anomaly_threshold_multiplier = 5,
      anomaly_absolute_cold_start = 100, anomaly_min_calls = 20, perip_lockout_threshold = 30,
      pool_total_tokens_per_month = 1000000, pool_floor_per_allocation = 1000,
      upstream_burst_threshold = 3, upstream_burst_window_minutes = 10,
      oauth_redirect_allowlist = ''https://app.example/'', notify_event_types_override = []\<rparr>"

definition sample_env :: env where
  "sample_env =
     \<lparr>now = 1000000000, ulid = (\<lambda>n. CHR ''U'' # replicate n (CHR ''0'')),
      token_urlsafe = (\<lambda>n. CHR ''t'' # replicate n (CHR ''0'')),
      sha256_hex = (\<lambda>s. CHR ''h'' # s), sha256_b64url = (\<lambda>s. CHR ''b'' # s),
      encrypt = (\<lambda>n s. CHR ''f'' # s),
      decrypt = (\<lambda>s. case s of [] \<Rightarrow> None | c # cs \<Rightarrow> if c = CHR ''f'' then Some cs else None),
      randbelow = (\<lambda>n k. n mod k), argon_hash = (\<lambda>n s. CHR ''a'' # s),
      argon_verify = (\<lambda>h s. h = CHR ''a'' # s), cfg = sample_settings\<rparr>"

definition empty_db :: db where
  "empty_db =
     \<lparr>members = [], allocations = [], credentials = [], credential_allocations = [],
      call_records = [], catalog = [], prices = [], pool = None, rebalance_logs = [],
      device_auths = [], oauth_auths = [], oauth_cfg = None, reclaim_locks = [],
      tag_rules = [], member_tags = [], anomaly_cfg = None, provider_creds = [], sessions = [],
      password_attempts = [], invitations = [], whitelist = [], auto_rules = [],
      restrictions = [],
      oidc_states = [], notif_cfg = None, dedup_buckets = [], notif_records = [],
      stored_responses = [], audit_log = [], fresh = 0\<rparr>"

definition sample_member :: member where
  "sample_member =
     \<lparr>m_id = ''m1'', m_email = ''ann@example.org'', m_provider = local_password,
      m_external_id = None, m_display_name = ''Ann'', m_status = member_active,
      m_password_hash = None, m_created_at = 0, m_disabled_at = None, m_created_by = ''admin'',
      m_is_admin = False\<rparr>"

definition sample_allocation :: "string \<Rightarrow> string \<Rightarrow> allocation" where
  "sample_allocation aid model =
     \<lparr>a_id = aid, a_member_id = ''m1'', a_subject_snapshot = ''ann@example.org'',
      a_resource_model = model, a_status = active, a_created_at = 0, a_revoked_at = None,
      a_created_by = ''admin'', a_note = None, a_quota_tokens = None, a_quota_cost = None,
      a_is_service = False, a_quota_locked = False, a_origin = origin_admin\<rparr>"

lemma inj_replicate: "inj (\<lambda>n. c # replicate n x)"
  by (rule injI) (metis length_replicate list.inject)

lemma sample_env_ok: "env_ok sample_env"
  by (simp add: env_ok_def sample_env_def inj_replicate)

end
