(* ===== verification/Allocations.thy ===== *)
theory Allocations
  imports Samples
begin

text \<open>
  \<open>services/allocations.py\<close>: allocations (a member's grant of one model), the application keys
  (credentials) whose scope is a set of the owner's allocations, and the resolution of a bearer
  token and a requested model to the allocation that is billed.  One definition per method of
  \<open>AllocationService\<close>.  Reads take the session; writes return the session too.
\<close>

section \<open>Operations\<close>

datatype alloc_error =
    ResourceModelRequired | SubjectRequired | MemberNotFound string
  | RotateNotActive | InvalidAllocationState allocation_status string
  | EmptyScope | NotOwned string | DuplicateModel string | RevokedCredential | IntegrityError

record allocation_created =
  ac_allocation :: allocation
  ac_token :: generated_token

definition bootstrap_admin :: string where
  "bootstrap_admin = ''bootstrap-admin''"

text \<open>The name of the default key, two Chinese characters, in UTF-8.\<close>

definition default_credential_name :: string where
  "default_credential_name =
     [CHR 0xE9, CHR 0xA0, CHR 0x90, CHR 0xE8, CHR 0xA8, CHR 0xAD]"

definition get_member :: "string \<Rightarrow> db \<Rightarrow> member option" where
  "get_member mid d = find (\<lambda>m. m_id m = mid) (members d)"

definition get_allocation :: "string \<Rightarrow> db \<Rightarrow> allocation option" where
  "get_allocation aid d = find (\<lambda>a. a_id a = aid) (allocations d)"

definition get_credential :: "string \<Rightarrow> db \<Rightarrow> credential option" where
  "get_credential cid d = find (\<lambda>c. c_id c = cid) (credentials d)"

text \<open>An UPDATE of the row with this primary key.\<close>

definition set_allocation :: "string \<Rightarrow> (allocation \<Rightarrow> allocation) \<Rightarrow> db \<Rightarrow> db" where
  "set_allocation aid f d = allocations_update (update_where (\<lambda>a. a_id a = aid) f) d"

definition set_credential :: "string \<Rightarrow> (credential \<Rightarrow> credential) \<Rightarrow> db \<Rightarrow> db" where
  "set_credential cid f d = credentials_update (update_where (\<lambda>c. c_id c = cid) f) d"

definition add_credential_row :: "credential \<Rightarrow> db \<Rightarrow> db" where
  "add_credential_row c d = credentials_update (\<lambda>cs. cs @ [c]) d"

definition add_links :: "string \<Rightarrow> allocation list \<Rightarrow> db \<Rightarrow> db" where
  "add_links cid allocs d = credential_allocations_update (\<lambda>ls. ls @
     map (\<lambda>a. \<lparr>ca_credential_id = cid, ca_allocation_id = a_id a,
                 ca_resource_model = a_resource_model a\<rparr>) allocs) d"

definition new_credential ::
  "env \<Rightarrow> string \<Rightarrow> string \<Rightarrow> string \<Rightarrow> generated_token \<Rightarrow> credential" where
  "new_credential e cid mid name tok =
     \<lparr>c_id = cid, c_member_id = mid, c_name = name, c_token_fingerprint = g_fingerprint tok,
      c_token_prefix = g_prefix tok, c_created_at = now e, c_last_used_at = None,
      c_revoked_at = None\<rparr>"

definition ensure_external_member :: "env \<Rightarrow> string \<Rightarrow> db \<Rightarrow> member \<times> db" where
  "ensure_external_member e subject d =
     (let email_n = lower subject in
      case find (\<lambda>m. m_email m = email_n) (members d) of
        Some m \<Rightarrow> (m, d)
      | None \<Rightarrow>
          (let m = \<lparr>m_id = ulid e (fresh d), m_email = email_n, m_provider = external,
                    m_external_id = Some subject, m_display_name = subject,
                    m_status = member_active, m_password_hash = None, m_created_at = now e,
                    m_disabled_at = None, m_created_by = bootstrap_admin, m_is_admin = False\<rparr>
           in (m, tick (members_update (\<lambda>ms. ms @ [m]) d))))"

text \<open>Once the member is known, \<open>create\<close> inserts the allocation, one key and the link.\<close>

definition issue_allocation ::
  "env \<Rightarrow> member \<Rightarrow> string \<Rightarrow> string option \<Rightarrow> string option \<Rightarrow> int option \<Rightarrow> decimal option
     \<Rightarrow> allocation_origin \<Rightarrow> db \<Rightarrow> allocation_created \<times> db" where
  "issue_allocation e m model note created_by quota cost origin d =
     (let (tok, d1) = generate_token e d;
          (aid, d2) = new_ulid e d1;
          a = \<lparr>a_id = aid, a_member_id = m_id m, a_subject_snapshot = m_email m,
               a_resource_model = model, a_status = active, a_created_at = now e,
               a_revoked_at = None,
               a_created_by = (case created_by of None \<Rightarrow> bootstrap_admin
                               | Some b \<Rightarrow> if b = [] then bootstrap_admin else b),
               a_note = note, a_quota_tokens = quota, a_quota_cost = cost, a_is_service = False,
               a_quota_locked = False, a_origin = origin\<rparr>;
          d3 = allocations_update (\<lambda>as. as @ [a]) d2;
          (cid, d4) = new_ulid e d3;
          d5 = add_credential_row (new_credential e cid (m_id m) default_credential_name tok) d4;
          d6 = add_links cid [a] d5
      in (\<lparr>ac_allocation = a, ac_token = tok\<rparr>, d6))"

definition create_allocation ::
  "env \<Rightarrow> string option \<Rightarrow> string \<Rightarrow> string option \<Rightarrow> string option \<Rightarrow> string option
     \<Rightarrow> int option \<Rightarrow> decimal option \<Rightarrow> allocation_origin \<Rightarrow> db
     \<Rightarrow> (alloc_error + allocation_created) \<times> db" where
  "create_allocation e member_id model note created_by subject quota cost origin d =
     (if model = [] then (Inl ResourceModelRequired, d)
      else case member_id of
        None \<Rightarrow>
          (case subject of
             None \<Rightarrow> (Inl SubjectRequired, d)
           | Some s \<Rightarrow>
               (let (m, d1) = ensure_external_member e s d;
                    (r, d2) = issue_allocation e m model note created_by quota cost origin d1
                in (Inr r, d2)))
      | Some mid \<Rightarrow>
          (case get_member mid d of
             None \<Rightarrow> (Inl (MemberNotFound mid), d)
           | Some m \<Rightarrow>
               (let (r, d1) = issue_allocation e m model note created_by quota cost origin d
                in (Inr r, d1))))"

text \<open>The keys whose scope includes an allocation, in the order of the join.\<close>

definition allocation_credentials :: "string \<Rightarrow> db \<Rightarrow> credential list" where
  "allocation_credentials aid d =
     filter (\<lambda>c. list_ex (\<lambda>l. ca_credential_id l = c_id c \<and> ca_allocation_id l = aid)
                   (credential_allocations d)) (credentials d)"

definition rotate_token ::
  "env \<Rightarrow> string \<Rightarrow> db \<Rightarrow> (alloc_error + (allocation \<times> generated_token) option) \<times> db" where
  "rotate_token e aid d =
     (case get_allocation aid d of
        None \<Rightarrow> (Inr None, d)
      | Some a \<Rightarrow>
          if a_status a \<noteq> active then (Inl RotateNotActive, d)
          else
            (let (tok, d1) = generate_token e d in
             case find (\<lambda>c. c_revoked_at c = None) (allocation_credentials aid d) of
               None \<Rightarrow>
                 (let (cid, d2) = new_ulid e d1;
                      d3 = add_credential_row
                             (new_credential e cid (a_member_id a) default_credential_name tok) d2
                  in (Inr (Some (a, tok)), add_links cid [a] d3))
             | Some c \<Rightarrow>
                 (Inr (Some (a, tok)),
                  set_credential (c_id c)
                    (\<lambda>c. c\<lparr>c_token_fingerprint := g_fingerprint tok, c_token_prefix := g_prefix tok,
                           c_created_at := now e\<rparr>) d1)))"

definition lock_reclaim :: "env \<Rightarrow> allocation \<Rightarrow> string option \<Rightarrow> db \<Rightarrow> db" where
  "lock_reclaim e a revoked_by d =
     (let exists = list_ex (\<lambda>l. l_member_id l = a_member_id a \<and> l_model_slug l = a_resource_model a)
                     (reclaim_locks d);
          d1 = (if exists then d else reclaim_locks_update (\<lambda>ls. ls @
                 [\<lparr>l_member_id = a_member_id a, l_model_slug = a_resource_model a,
                   l_locked_at = now e,
                   l_locked_by = (case revoked_by of None \<Rightarrow> ''admin''
                                  | Some b \<Rightarrow> if b = [] then ''admin'' else b)\<rparr>]) d)
      in audit_record e self_service_reclaim_locked actor_admin revoked_by (Some ''member'')
           (Some (a_member_id a))
           [(''model'', JStr (a_resource_model a)), (''allocation_id'', JStr (a_id a))] d1)"

definition revoke :: "env \<Rightarrow> string \<Rightarrow> string option \<Rightarrow> db \<Rightarrow> allocation option \<times> db" where
  "revoke e aid revoked_by d =
     (case get_allocation aid d of
        None \<Rightarrow> (None, d)
      | Some a \<Rightarrow>
          if a_status a = revoked then (Some a, d)
          else
            (let a' = a\<lparr>a_status := revoked, a_revoked_at := Some (now e)\<rparr>;
                 d1 = set_allocation aid
                        (\<lambda>a. a\<lparr>a_status := revoked, a_revoked_at := Some (now e)\<rparr>) d;
                 d2 = (if a_origin a = origin_self_service then lock_reclaim e a' revoked_by d1
                       else d1)
             in (Some a', d2)))"

definition pause ::
  "env \<Rightarrow> string \<Rightarrow> string option \<Rightarrow> db \<Rightarrow> (alloc_error + allocation option) \<times> db" where
  "pause e aid paused_by d =
     (case get_allocation aid d of
        None \<Rightarrow> (Inr None, d)
      | Some a \<Rightarrow>
          if a_status a \<noteq> active then (Inl (InvalidAllocationState (a_status a) ''pause''), d)
          else
            (Inr (Some (a\<lparr>a_status := paused\<rparr>)),
             audit_record e allocation_paused actor_admin paused_by (Some ''allocation'') (Some aid) []
               (set_allocation aid (\<lambda>a. a\<lparr>a_status := paused\<rparr>) d)))"

definition resume ::
  "env \<Rightarrow> string \<Rightarrow> string option \<Rightarrow> db \<Rightarrow> (alloc_error + allocation option) \<times> db" where
  "resume e aid resumed_by d =
     (case get_allocation aid d of
        None \<Rightarrow> (Inr None, d)
      | Some a \<Rightarrow>
          if a_status a \<noteq> paused then (Inl (InvalidAllocationState (a_status a) ''resume''), d)
          else
            (Inr (Some (a\<lparr>a_status := active\<rparr>)),
             audit_record e allocation_resumed actor_admin resumed_by (Some ''allocation'') (Some aid) []
               (set_allocation aid (\<lambda>a. a\<lparr>a_status := active\<rparr>) d)))"

text \<open>Newest first.\<close>

definition list_allocations ::
  "string option \<Rightarrow> allocation_status option \<Rightarrow> db \<Rightarrow> allocation list" where
  "list_allocations member_id status d =
     filter (\<lambda>a. (case member_id of None \<Rightarrow> True | Some m \<Rightarrow> a_member_id a = m) \<and>
                 (case status of None \<Rightarrow> True | Some s \<Rightarrow> a_status a = s))
       (sort_key (\<lambda>a. - a_created_at a) (allocations d))"

section \<open>Token resolution\<close>

definition touch :: "env \<Rightarrow> credential \<Rightarrow> credential" where
  "touch e c =
     (case c_last_used_at c of
        None \<Rightarrow> c\<lparr>c_last_used_at := Some (now e)\<rparr>
      | Some prev \<Rightarrow> if now e - prev > seconds 300 then c\<lparr>c_last_used_at := Some (now e)\<rparr> else c)"

definition lookup_credential_by_token ::
  "env \<Rightarrow> string \<Rightarrow> db \<Rightarrow> credential option \<times> db" where
  "lookup_credential_by_token e plaintext d =
     (let fp = fingerprint_for e plaintext in
      case find (\<lambda>c. c_token_fingerprint c = fp \<and> c_revoked_at c = None) (credentials d) of
        None \<Rightarrow> (None, d)
      | Some c \<Rightarrow> (Some (touch e c), set_credential (c_id c) (touch e) d))"

text \<open>The join of a key's links with their allocations.\<close>

definition scope_join ::
  "string \<Rightarrow> db \<Rightarrow> (credential_allocation \<times> allocation) list" where
  "scope_join cid d =
     concat (map (\<lambda>l. map (\<lambda>a. (l, a)) (filter (\<lambda>a. a_id a = ca_allocation_id l) (allocations d)))
       (filter (\<lambda>l. ca_credential_id l = cid) (credential_allocations d)))"

definition scope_allocations :: "string \<Rightarrow> db \<Rightarrow> allocation list" where
  "scope_allocations cid d = map snd (scope_join cid d)"

definition resolve_scope_allocation :: "credential \<Rightarrow> string \<Rightarrow> db \<Rightarrow> allocation option" where
  "resolve_scope_allocation c model d =
     (let exact = map_option snd
            (find (\<lambda>(l, a). ca_resource_model l = model) (scope_join (c_id c) d)) in
      if exact \<noteq> None \<or> CHR ''/'' \<in> set model then exact
      else
        (let matches = filter (\<lambda>a. split_last (CHR ''/'') (a_resource_model a) = model)
                         (scope_allocations (c_id c) d)
         in if length matches = 1 then Some (hd matches) else None))"

definition first_or_none :: "'a list \<Rightarrow> 'a option" where
  "first_or_none xs = (case xs of [] \<Rightarrow> None | x # _ \<Rightarrow> Some x)"

definition first_scope_allocation :: "credential \<Rightarrow> db \<Rightarrow> allocation option" where
  "first_scope_allocation c d =
     first_or_none (sort_key a_created_at (scope_allocations (c_id c) d))"

definition scope_models :: "credential \<Rightarrow> db \<Rightarrow> string list" where
  "scope_models c d =
     sort (map ca_resource_model
       (filter (\<lambda>l. ca_credential_id l = c_id c) (credential_allocations d)))"

definition list_active_scope_allocations :: "credential \<Rightarrow> db \<Rightarrow> allocation list" where
  "list_active_scope_allocations c d =
     sort_key a_resource_model (filter (\<lambda>a. a_status a = active) (scope_allocations (c_id c) d))"

definition lookup_by_token :: "env \<Rightarrow> string \<Rightarrow> db \<Rightarrow> allocation option \<times> db" where
  "lookup_by_token e plaintext d =
     (case lookup_credential_by_token e plaintext d of
        (None, d1) \<Rightarrow> (None, d1)
      | (Some c, d1) \<Rightarrow> (first_scope_allocation c d1, d1))"

section \<open>Application keys\<close>

text \<open>The loop of \<open>_owned_allocations\<close> over the deduplicated ids.\<close>

fun owned_loop ::
  "string \<Rightarrow> db \<Rightarrow> string list \<Rightarrow> allocation list \<Rightarrow> string list \<Rightarrow> alloc_error + allocation list" where
  "owned_loop mid d [] allocs models = Inr allocs"
| "owned_loop mid d (aid # aids) allocs models =
     (case get_allocation aid d of
        None \<Rightarrow> Inl (NotOwned aid)
      | Some a \<Rightarrow>
          if a_member_id a \<noteq> mid then Inl (NotOwned aid)
          else if a_resource_model a \<in> set models then Inl (DuplicateModel (a_resource_model a))
          else owned_loop mid d aids (allocs @ [a]) (a_resource_model a # models))"

definition owned_allocations :: "string \<Rightarrow> string list \<Rightarrow> db \<Rightarrow> alloc_error + allocation list" where
  "owned_allocations mid aids d = owned_loop mid d (dedupe aids) [] []"

definition create_member_credential ::
  "env \<Rightarrow> string \<Rightarrow> string \<Rightarrow> string list \<Rightarrow> db
     \<Rightarrow> (alloc_error + credential \<times> generated_token) \<times> db" where
  "create_member_credential e mid name aids d =
     (if aids = [] then (Inl EmptyScope, d)
      else case owned_allocations mid aids d of
        Inl err \<Rightarrow> (Inl err, d)
      | Inr allocs \<Rightarrow>
          (let (tok, d1) = generate_token e d;
               (cid, d2) = new_ulid e d1;
               c = new_credential e cid mid name tok;
               d3 = add_links cid allocs (add_credential_row c d2)
           in (Inr (c, tok), d3)))"

definition add_credential ::
  "env \<Rightarrow> allocation \<Rightarrow> string \<Rightarrow> db \<Rightarrow> (alloc_error + credential \<times> generated_token) \<times> db" where
  "add_credential e a name d = create_member_credential e (a_member_id a) name [a_id a] d"

text \<open>
  The flush of \<open>patch_credential_scope\<close>.  SQLAlchemy's unit of work emits the INSERTs of a table
  before its DELETEs, so the unique constraint on (key, model) sees the links to be deleted.
\<close>

definition flush_scope ::
  "string \<Rightarrow> allocation list \<Rightarrow> string list \<Rightarrow> db \<Rightarrow> (alloc_error + unit) \<times> db" where
  "flush_scope cid adds removes d =
     (let present = map ca_resource_model
            (filter (\<lambda>l. ca_credential_id l = cid) (credential_allocations d)) in
      if list_ex (\<lambda>a. a_resource_model a \<in> set present) adds then (Inl IntegrityError, d)
      else (Inr (), credential_allocations_update
              (delete_where (\<lambda>l. ca_credential_id l = cid \<and> ca_allocation_id l \<in> set removes))
              (add_links cid adds d)))"

definition patch_credential_scope ::
  "string \<Rightarrow> string list \<Rightarrow> string list \<Rightarrow> db \<Rightarrow> (alloc_error + credential option) \<times> db" where
  "patch_credential_scope cid add remove d =
     (case get_credential cid d of
        None \<Rightarrow> (Inr None, d)
      | Some c \<Rightarrow>
          (let links = filter (\<lambda>l. ca_credential_id l = cid) (credential_allocations d);
               linked = map ca_allocation_id links in
           case owned_allocations (c_member_id c) (filter (\<lambda>a. a \<notin> set linked) add) d of
             Inl err \<Rightarrow> (Inl err, d)
           | Inr adds \<Rightarrow>
               (let kept = filter (\<lambda>l. ca_allocation_id l \<notin> set remove) links;
                    kept_models = map ca_resource_model kept in
                case find (\<lambda>a. a_resource_model a \<in> set kept_models) adds of
                  Some a \<Rightarrow> (Inl (DuplicateModel (a_resource_model a)), d)
                | None \<Rightarrow>
                    if kept = [] \<and> adds = [] then (Inl EmptyScope, d)
                    else (case flush_scope cid adds
                                 (filter (\<lambda>x. x \<in> set remove) linked) d of
                        (Inl err, d1) \<Rightarrow> (Inl err, d1)
                      | (Inr _, d1) \<Rightarrow> (Inr (Some c), d1)))))"

definition list_member_credentials :: "string \<Rightarrow> db \<Rightarrow> credential list" where
  "list_member_credentials mid d =
     filter (\<lambda>c. c_member_id c = mid) (sort_key (\<lambda>c. - c_created_at c) (credentials d))"

definition list_credentials :: "string \<Rightarrow> db \<Rightarrow> credential list" where
  "list_credentials aid d = sort_key (\<lambda>c. - c_created_at c) (allocation_credentials aid d)"

definition rename_credential :: "string \<Rightarrow> string \<Rightarrow> db \<Rightarrow> credential option \<times> db" where
  "rename_credential cid name d =
     (case get_credential cid d of
        None \<Rightarrow> (None, d)
      | Some c \<Rightarrow> (Some (c\<lparr>c_name := name\<rparr>), set_credential cid (\<lambda>c. c\<lparr>c_name := name\<rparr>) d))"

definition credential_in_allocation_scope :: "string \<Rightarrow> string \<Rightarrow> db \<Rightarrow> bool" where
  "credential_in_allocation_scope cid aid d =
     list_ex (\<lambda>l. ca_credential_id l = cid \<and> ca_allocation_id l = aid) (credential_allocations d)"

definition revoke_credential :: "env \<Rightarrow> string \<Rightarrow> db \<Rightarrow> credential option \<times> db" where
  "revoke_credential e cid d =
     (case get_credential cid d of
        None \<Rightarrow> (None, d)
      | Some c \<Rightarrow>
          if c_revoked_at c = None
          then (Some (c\<lparr>c_revoked_at := Some (now e)\<rparr>),
                set_credential cid (\<lambda>c. c\<lparr>c_revoked_at := Some (now e)\<rparr>) d)
          else (Some c, d))"

definition rotate_credential ::
  "env \<Rightarrow> string \<Rightarrow> db \<Rightarrow> (alloc_error + (credential \<times> generated_token) option) \<times> db" where
  "rotate_credential e cid d =
     (case get_credential cid d of
        None \<Rightarrow> (Inr None, d)
      | Some c \<Rightarrow>
          if c_revoked_at c \<noteq> None then (Inl RevokedCredential, d)
          else
            (let (tok, d1) = generate_token e d;
                 f = (\<lambda>c. c\<lparr>c_token_fingerprint := g_fingerprint tok, c_token_prefix := g_prefix tok,
                            c_last_used_at := None\<rparr>)
             in (Inr (Some (f c, tok)), set_credential cid f d1)))"

end
