(* ===== verification/AllocationScope.thy ===== *)
theory AllocationScope
  imports Allocations
begin

text \<open>
  The invariant of allocations and keys, \<open>scope_wf\<close>: primary keys and token fingerprints are
  unique, and every scope link joins a key with an allocation of the key's owner, repeats that
  allocation's model, and is the only link of its key for that model.  Every operation of
  \<open>Allocations\<close> keeps it; what token resolution promises follows from it.
\<close>

section \<open>The invariant\<close>

definition drawn_id :: "env \<Rightarrow> nat \<Rightarrow> string \<Rightarrow> bool" where
  "drawn_id e n i \<longleftrightarrow> (\<exists>k < n. i = ulid e k)"

definition drawn_fp :: "env \<Rightarrow> nat \<Rightarrow> string \<Rightarrow> bool" where
  "drawn_fp e n f \<longleftrightarrow> (\<exists>k < n. f = fingerprint_for e (token_prefix @ token_urlsafe e k))"

definition keys_wf :: "env \<Rightarrow> db \<Rightarrow> bool" where
  "keys_wf e d \<longleftrightarrow>
     distinct (map a_id (allocations d)) \<and> distinct (map c_id (credentials d)) \<and>
     distinct (map c_token_fingerprint (credentials d)) \<and>
     (\<forall>a \<in> set (allocations d). drawn_id e (fresh d) (a_id a)) \<and>
     (\<forall>c \<in> set (credentials d). drawn_id e (fresh d) (c_id c) \<and>
        drawn_fp e (fresh d) (c_token_fingerprint c))"

definition link_ok :: "db \<Rightarrow> credential_allocation \<Rightarrow> bool" where
  "link_ok d l \<longleftrightarrow>
     (\<exists>c \<in> set (credentials d). \<exists>a \<in> set (allocations d).
        c_id c = ca_credential_id l \<and> a_id a = ca_allocation_id l \<and>
        a_member_id a = c_member_id c \<and> a_resource_model a = ca_resource_model l)"

definition links_wf :: "db \<Rightarrow> bool" where
  "links_wf d \<longleftrightarrow>
     distinct (map (\<lambda>l. (ca_credential_id l, ca_resource_model l)) (credential_allocations d)) \<and>
     (\<forall>l \<in> set (credential_allocations d). link_ok d l)"

definition scope_wf :: "env \<Rightarrow> db \<Rightarrow> bool" where
  "scope_wf e d \<longleftrightarrow> keys_wf e d \<and> links_wf d"

section \<open>What the primitive writes keep\<close>

lemma drawn_id_mono: "drawn_id e n i \<Longrightarrow> n \<le> n' \<Longrightarrow> drawn_id e n' i"
  unfolding drawn_id_def using order_less_le_trans by blast

lemma drawn_fp_mono: "drawn_fp e n i \<Longrightarrow> n \<le> n' \<Longrightarrow> drawn_fp e n' i"
  unfolding drawn_fp_def using order_less_le_trans by blast

lemma drawn_Suc [intro]:
  "drawn_id e n i \<Longrightarrow> drawn_id e (Suc n) i" "drawn_fp e n f \<Longrightarrow> drawn_fp e (Suc n) f"
  by (auto elim: drawn_id_mono drawn_fp_mono)

lemma drawn_here [intro]:
  "k < n \<Longrightarrow> drawn_id e n (ulid e k)"
  "k < n \<Longrightarrow> drawn_fp e n (fingerprint_for e (token_prefix @ token_urlsafe e k))"
  unfolding drawn_id_def drawn_fp_def by blast+

lemma drawn_id_new: "env_ok e \<Longrightarrow> \<not> drawn_id e n (ulid e n)"
  by (auto simp: drawn_id_def env_ok_def dest: injD)

lemma drawn_fp_new:
  "env_ok e \<Longrightarrow> \<not> drawn_fp e n (fingerprint_for e (token_prefix @ token_urlsafe e n))"
  by (auto simp: drawn_fp_def env_ok_def fingerprint_for_def inj_eq)

lemma scope_wf_frame:
  assumes "scope_wf e d" "allocations d' = allocations d" "credentials d' = credentials d"
    "credential_allocations d' = credential_allocations d" "fresh d \<le> fresh d'"
  shows "scope_wf e d'"
  using assms by (auto simp: scope_wf_def keys_wf_def links_wf_def link_ok_def
      intro: drawn_id_mono drawn_fp_mono)

lemma scope_wf_tick [simp]: "scope_wf e d \<Longrightarrow> scope_wf e (tick d)"
  by (erule scope_wf_frame) simp_all

lemma scope_wf_audit [simp]: "scope_wf e d \<Longrightarrow> scope_wf e (audit_record e' ev act ai tt ti ds d)"
  by (erule scope_wf_frame) simp_all

lemma scope_wf_set_allocation:
  assumes "scope_wf e d"
    and "\<And>a. a_id (f a) = a_id a" "\<And>a. a_member_id (f a) = a_member_id a"
    and "\<And>a. a_resource_model (f a) = a_resource_model a"
  shows "scope_wf e (allocations_update (update_where p f) d)"
proof -
  have link: "link_ok (allocations_update (update_where p f) d) l" if "link_ok d l" for l
  proof -
    from that obtain c a where c: "c \<in> set (credentials d)" "c_id c = ca_credential_id l"
        "a_member_id a = c_member_id c"
      and a: "a \<in> set (allocations d)" "a_id a = ca_allocation_id l"
        "a_resource_model a = ca_resource_model l"
      by (auto simp: link_ok_def)
    let ?a = "if p a then f a else a"
    have "?a \<in> set (update_where p f (allocations d))" using a by (auto simp: update_where_def)
    with c a assms(2-) show ?thesis
      by (auto simp: link_ok_def intro!: bexI [of _ c] bexI [of _ ?a])
  qed
  have "map a_id (update_where p f (allocations d)) = map a_id (allocations d)"
    by (rule map_update_where) (rule assms(2))
  with assms link show ?thesis
    by (auto simp: scope_wf_def keys_wf_def links_wf_def set_update_where)
qed

lemma scope_wf_set_credential:
  assumes "scope_wf e d"
    and "\<And>c. c_id (f c) = c_id c" "\<And>c. c_member_id (f c) = c_member_id c"
    and "\<And>c. c_token_fingerprint (f c) = c_token_fingerprint c"
  shows "scope_wf e (set_credential cid f d)"
proof -
  have link: "link_ok (set_credential cid f d) l" if "link_ok d l" for l
  proof -
    from that obtain c a where c: "c \<in> set (credentials d)" "c_id c = ca_credential_id l"
        "a_member_id a = c_member_id c"
      and a: "a \<in> set (allocations d)" "a_id a = ca_allocation_id l"
        "a_resource_model a = ca_resource_model l"
      by (auto simp: link_ok_def)
    let ?c = "if c_id c = cid then f c else c"
    have "?c \<in> set (update_where (\<lambda>c. c_id c = cid) f (credentials d))"
      using c by (auto simp: update_where_def)
    with c a assms(2-) show ?thesis
      by (auto simp: link_ok_def set_credential_def intro!: bexI [of _ a] bexI [of _ ?c])
  qed
  have "map c_id (update_where (\<lambda>c. c_id c = cid) f (credentials d)) = map c_id (credentials d)"
    "map c_token_fingerprint (update_where (\<lambda>c. c_id c = cid) f (credentials d)) =
       map c_token_fingerprint (credentials d)"
    by (rule map_update_where, rule assms)+
  with assms link show ?thesis
    by (auto simp: scope_wf_def keys_wf_def links_wf_def set_update_where set_credential_def)
qed

text \<open>A new fingerprint for one key.\<close>

lemma distinct_fp_update:
  assumes "distinct (map c_id cs)" "distinct (map c_token_fingerprint cs)"
    and "fp \<notin> c_token_fingerprint ` set cs"
    and "\<And>c. c_token_fingerprint (f c) = fp"
  shows "distinct (map c_token_fingerprint (update_where (\<lambda>c. c_id c = cid) f cs))"
  using assms
proof (induction cs)
  case (Cons c cs)
  have same: "update_where (\<lambda>c. c_id c = cid) f cs = cs" if "c_id c = cid"
    using that Cons.prems(1) by (intro update_where_idI) (auto simp: image_iff)
  have "c_token_fingerprint c \<noteq> c_token_fingerprint x"
    if "x \<in> set (update_where (\<lambda>c. c_id c = cid) f cs)" for x
    using that Cons.prems by (auto simp: set_update_where)
  with Cons same show ?case by (cases "c_id c = cid") auto
qed simp

lemma scope_wf_new_fingerprint:
  assumes ok: "env_ok e" and wf: "scope_wf e d"
    and f: "\<And>c. c_id (f c) = c_id c" "\<And>c. c_member_id (f c) = c_member_id c"
      "\<And>c. c_token_fingerprint (f c) =
         fingerprint_for e (token_prefix @ token_urlsafe e (fresh d))"
  shows "scope_wf e (set_credential cid f (tick d))"
proof -
  let ?cs = "update_where (\<lambda>c. c_id c = cid) f (credentials d)"
  have link: "link_ok (set_credential cid f (tick d)) l" if "link_ok d l" for l
  proof -
    from that obtain c a where c: "c \<in> set (credentials d)" "c_id c = ca_credential_id l"
        "a_member_id a = c_member_id c"
      and a: "a \<in> set (allocations d)" "a_id a = ca_allocation_id l"
        "a_resource_model a = ca_resource_model l"
      by (auto simp: link_ok_def)
    let ?c = "if c_id c = cid then f c else c"
    have "?c \<in> set ?cs" using c by (auto simp: update_where_def)
    with c a f show ?thesis
      by (auto simp: link_ok_def set_credential_def intro!: bexI [of _ a] bexI [of _ ?c])
  qed
  have ids: "map c_id ?cs = map c_id (credentials d)"
    by (rule map_update_where) (rule f)
  have "distinct (map c_token_fingerprint ?cs)"
    using wf drawn_fp_new [OF ok, of "fresh d"]
    by (intro distinct_fp_update [OF _ _ _ f(3)]) (auto simp: scope_wf_def keys_wf_def)
  moreover have "\<forall>c \<in> set ?cs. drawn_id e (Suc (fresh d)) (c_id c) \<and>
      drawn_fp e (Suc (fresh d)) (c_token_fingerprint c)"
  proof
    fix c assume "c \<in> set ?cs"
    then obtain c0 where c0: "c0 \<in> set (credentials d)" "c = (if c_id c0 = cid then f c0 else c0)"
      by (auto simp: update_where_def)
    moreover have "drawn_id e (fresh d) (c_id c0)" "drawn_fp e (fresh d) (c_token_fingerprint c0)"
      using wf c0(1) by (simp_all add: scope_wf_def keys_wf_def)
    ultimately show "drawn_id e (Suc (fresh d)) (c_id c) \<and>
        drawn_fp e (Suc (fresh d)) (c_token_fingerprint c)"
      by (auto simp: f(1,3) split: if_splits)
  qed
  ultimately show ?thesis using wf ids link
    by (auto simp: scope_wf_def keys_wf_def links_wf_def set_credential_def)
qed

lemma link_ok_mono:
  assumes "link_ok d l" "set (credentials d) \<subseteq> set (credentials d')"
    "set (allocations d) \<subseteq> set (allocations d')"
  shows "link_ok d' l"
  using assms unfolding link_ok_def by blast

lemma scope_wf_add_allocation:
  assumes ok: "env_ok e" and wf: "scope_wf e d" and a: "a_id a = ulid e (fresh d)"
  shows "scope_wf e (allocations_update (\<lambda>as. as @ [a]) (tick d))"
proof -
  have "a_id a \<notin> a_id ` set (allocations d)"
    using wf drawn_id_new [OF ok, of "fresh d"] a by (auto simp: scope_wf_def keys_wf_def)
  moreover have "drawn_id e (Suc (fresh d)) (a_id a)" by (auto simp: drawn_id_def a)
  moreover have "link_ok (allocations_update (\<lambda>as. as @ [a]) (tick d)) l" if "link_ok d l" for l
    by (rule link_ok_mono [OF that]) auto
  ultimately show ?thesis using wf
    by (auto simp: scope_wf_def keys_wf_def links_wf_def)
qed

lemma scope_wf_add_credential:
  assumes ok: "env_ok e" and wf: "scope_wf e d" and c: "c_id c = ulid e (fresh d)"
    and fp: "c_token_fingerprint c = fingerprint_for e (token_prefix @ token_urlsafe e k)"
    and k: "k \<le> fresh d" "c_token_fingerprint c \<notin> c_token_fingerprint ` set (credentials d)"
  shows "scope_wf e (add_credential_row c (tick d))"
proof -
  have "c_id c \<notin> c_id ` set (credentials d)"
    using wf drawn_id_new [OF ok, of "fresh d"] c by (auto simp: scope_wf_def keys_wf_def)
  moreover have "drawn_id e (Suc (fresh d)) (c_id c)" by (auto simp: drawn_id_def c)
  moreover have "drawn_fp e (Suc (fresh d)) (c_token_fingerprint c)"
    using k(1) unfolding fp by (intro drawn_here) simp
  moreover have "link_ok (add_credential_row c (tick d)) l" if "link_ok d l" for l
    by (rule link_ok_mono [OF that]) (auto simp: add_credential_row_def)
  ultimately show ?thesis using wf k(2)
    by (auto simp: scope_wf_def keys_wf_def links_wf_def add_credential_row_def)
qed

lemma scope_wf_add_links:
  assumes wf: "scope_wf e d" and c: "c \<in> set (credentials d)"
    and own: "\<And>a. a \<in> set allocs \<Longrightarrow> a \<in> set (allocations d) \<and> a_member_id a = c_member_id c"
    and dist: "distinct (map a_resource_model allocs)"
    and new: "\<And>l a. l \<in> set (credential_allocations d) \<Longrightarrow> a \<in> set allocs \<Longrightarrow>
      ca_credential_id l = c_id c \<Longrightarrow> ca_resource_model l \<noteq> a_resource_model a"
  shows "scope_wf e (add_links (c_id c) allocs d)"
proof -
  have "distinct (map (\<lambda>a. (c_id c, a_resource_model a)) allocs)"
    using dist by (simp add: distinct_map inj_on_def)
  moreover have "link_ok (add_links (c_id c) allocs d) l" if "link_ok d l" for l
    by (rule link_ok_mono [OF that]) (auto simp: add_links_def)
  moreover have "link_ok (add_links (c_id c) allocs d)
      \<lparr>ca_credential_id = c_id c, ca_allocation_id = a_id a, ca_resource_model = a_resource_model a\<rparr>"
    if "a \<in> set allocs" for a
    using own [OF that] c by (auto simp: link_ok_def add_links_def)
  ultimately show ?thesis using wf new
    by (force simp: scope_wf_def keys_wf_def links_wf_def add_links_def comp_def)
qed

lemma scope_wf_drop_links:
  assumes "scope_wf e d"
  shows "scope_wf e (credential_allocations_update (delete_where p) d)"
proof -
  have "distinct (map g (delete_where p ls))" if "distinct (map g ls)"
    for g :: "credential_allocation \<Rightarrow> string \<times> string" and ls
    using that by (auto simp: delete_where_def distinct_map inj_on_def)
  with assms show ?thesis
    by (auto simp: scope_wf_def keys_wf_def links_wf_def link_ok_def)
qed

section \<open>Every operation keeps it\<close>

lemma get_allocation_mem: "get_allocation aid d = Some a \<Longrightarrow> a \<in> set (allocations d) \<and> a_id a = aid"
  unfolding get_allocation_def by (drule find_SomeD) simp

lemma get_credential_mem: "get_credential cid d = Some c \<Longrightarrow> c \<in> set (credentials d) \<and> c_id c = cid"
  unfolding get_credential_def by (drule find_SomeD) simp

lemma get_credential_in:
  "scope_wf e d \<Longrightarrow> c \<in> set (credentials d) \<Longrightarrow> get_credential (c_id c) d = Some c"
  unfolding get_credential_def by (rule find_unique) (auto simp: scope_wf_def keys_wf_def)

lemma get_allocation_in:
  "scope_wf e d \<Longrightarrow> a \<in> set (allocations d) \<Longrightarrow> get_allocation (a_id a) d = Some a"
  unfolding get_allocation_def by (rule find_unique) (auto simp: scope_wf_def keys_wf_def)

lemma link_credential_drawn:
  "scope_wf e d \<Longrightarrow> l \<in> set (credential_allocations d) \<Longrightarrow>
     drawn_id e (fresh d) (ca_credential_id l)"
  by (fastforce simp: scope_wf_def keys_wf_def links_wf_def link_ok_def)

lemma not_drawn_later: "env_ok e \<Longrightarrow> drawn_id e n (ulid e k) \<Longrightarrow> k < n"
  by (auto simp: drawn_id_def env_ok_def inj_eq)

lemma scope_wf_new_key:
  assumes ok: "env_ok e" and wf: "scope_wf e d"
  shows "scope_wf e (add_credential_row
      (new_credential e (ulid e (Suc (fresh d))) mid name (fst (generate_token e d))) (tick (tick d)))"
proof (rule scope_wf_add_credential [OF ok, of "tick d" _ "fresh d"])
  let ?fp = "fingerprint_for e (token_prefix @ token_urlsafe e (fresh d))"
  have "?fp \<notin> c_token_fingerprint ` set (credentials d)"
    using wf drawn_fp_new [OF ok, of "fresh d"] by (auto simp: scope_wf_def keys_wf_def)
  then show "c_token_fingerprint (new_credential e (ulid e (Suc (fresh d))) mid name
      (fst (generate_token e d))) \<notin> c_token_fingerprint ` set (credentials (tick d))"
    by (simp add: new_credential_def)
qed (use wf in \<open>simp_all add: new_credential_def\<close>)

text \<open>A new key with a scope of owned allocations whose models are distinct.\<close>

lemma scope_wf_new_scoped_key:
  assumes ok: "env_ok e" and wf: "scope_wf e d"
    and own: "\<And>a. a \<in> set allocs \<Longrightarrow> a \<in> set (allocations d) \<and> a_member_id a = mid"
    and dist: "distinct (map a_resource_model allocs)"
  shows "scope_wf e (add_links (ulid e (Suc (fresh d))) allocs (add_credential_row
      (new_credential e (ulid e (Suc (fresh d))) mid name (fst (generate_token e d))) (tick (tick d))))"
proof -
  let ?cid = "ulid e (Suc (fresh d))"
  let ?c = "new_credential e ?cid mid name (fst (generate_token e d))"
  let ?d = "add_credential_row ?c (tick (tick d))"
  have id: "c_id ?c = ?cid" "c_member_id ?c = mid" by (simp_all add: new_credential_def)
  have tables: "credentials ?d = credentials d @ [?c]" "allocations ?d = allocations d"
      "credential_allocations ?d = credential_allocations d"
    by (simp_all add: add_credential_row_def)
  have "scope_wf e (add_links (c_id ?c) allocs ?d)"
  proof (rule scope_wf_add_links)
    show "scope_wf e ?d" by (rule scope_wf_new_key [OF ok wf])
    show "?c \<in> set (credentials ?d)" by (simp add: tables)
    show "a \<in> set (allocations ?d) \<and> a_member_id a = c_member_id ?c" if "a \<in> set allocs" for a
      using own [OF that] by (simp add: tables id)
    show "distinct (map a_resource_model allocs)" by (rule dist)
    show "ca_resource_model l \<noteq> a_resource_model a"
      if "l \<in> set (credential_allocations ?d)" "ca_credential_id l = c_id ?c" for l a
      using link_credential_drawn [OF wf, of l] that not_drawn_later [OF ok, of "fresh d" "Suc (fresh d)"]
      by (simp add: tables id)
  qed
  then show ?thesis by (simp only: id)
qed

definition owned_scope :: "string \<Rightarrow> db \<Rightarrow> allocation list \<Rightarrow> bool" where
  "owned_scope mid d allocs \<longleftrightarrow>
     (\<forall>a \<in> set allocs. a \<in> set (allocations d) \<and> a_member_id a = mid) \<and>
     distinct (map a_resource_model allocs)"

lemma owned_loop_sound:
  "owned_loop mid d aids allocs models = Inr out \<Longrightarrow> owned_scope mid d allocs \<Longrightarrow>
     set models = a_resource_model ` set allocs \<Longrightarrow>
     owned_scope mid d out \<and> a_id ` set out = a_id ` set allocs \<union> set aids"
proof (induction aids arbitrary: allocs models)
  case Nil
  then show ?case by simp
next
  case (Cons aid aids)
  from Cons.prems(1) obtain a where a: "get_allocation aid d = Some a" "a_member_id a = mid"
      "a_resource_model a \<notin> set models"
      and rest: "owned_loop mid d aids (allocs @ [a]) (a_resource_model a # models) = Inr out"
    by (simp split: option.splits if_splits)
  have mem: "a \<in> set (allocations d)" "a_id a = aid" using get_allocation_mem [OF a(1)] by auto
  have "owned_scope mid d (allocs @ [a])"
    using Cons.prems(2,3) a mem by (auto simp: owned_scope_def)
  moreover have "set (a_resource_model a # models) = a_resource_model ` set (allocs @ [a])"
    using Cons.prems(3) by simp
  ultimately have "owned_scope mid d out \<and> a_id ` set out = a_id ` set (allocs @ [a]) \<union> set aids"
    by (rule Cons.IH [OF rest])
  with mem show ?case by simp
qed

lemma owned_allocations_sound:
  assumes "owned_allocations mid aids d = Inr out"
  shows "\<And>a. a \<in> set out \<Longrightarrow> a \<in> set (allocations d) \<and> a_member_id a = mid"
    and "distinct (map a_resource_model out)" and "a_id ` set out = set aids"
  using owned_loop_sound [of mid d "dedupe aids" "[]" "[]" out] assms
  by (simp_all add: owned_allocations_def owned_scope_def)

lemma scope_wf_ensure_member:
  "scope_wf e d \<Longrightarrow> scope_wf e (snd (ensure_external_member e s d))"
  by (erule scope_wf_frame) (auto simp: ensure_external_member_def Let_def split: option.splits)

lemma scope_wf_issue:
  assumes ok: "env_ok e" and wf: "scope_wf e d"
  shows "scope_wf e (snd (issue_allocation e m model note by quota cost origin d))"
proof -
  let ?a = "ac_allocation (fst (issue_allocation e m model note by quota cost origin d))"
  let ?d = "allocations_update (\<lambda>as. as @ [?a]) (tick (tick d))"
  let ?tok = "fst (generate_token e d)"
  let ?c = "new_credential e (ulid e (fresh ?d)) (m_id m) default_credential_name ?tok"
  have a: "a_id ?a = ulid e (Suc (fresh d))" "a_member_id ?a = m_id m"
    by (simp_all add: issue_allocation_def Let_def case_prod_beta)
  have "scope_wf e ?d"
    using scope_wf_add_allocation [OF ok scope_wf_tick [OF wf], of ?a] a by simp
  moreover have "c_token_fingerprint ?c \<notin> c_token_fingerprint ` set (credentials d)"
    using wf drawn_fp_new [OF ok, of "fresh d"]
    by (auto simp: scope_wf_def keys_wf_def new_credential_def)
  ultimately have "scope_wf e (add_credential_row ?c (tick ?d))" (is "scope_wf e ?d1")
    by (intro scope_wf_add_credential [OF ok _ _ _ _, where k = "fresh d"])
       (simp_all add: new_credential_def)
  then have "scope_wf e (add_links (c_id ?c) [?a] ?d1)"
  proof (rule scope_wf_add_links)
    show "?c \<in> set (credentials ?d1)" by (simp add: add_credential_row_def)
    show "a \<in> set (allocations ?d1) \<and> a_member_id a = c_member_id ?c" if "a \<in> set [?a]" for a
      using that a by (simp add: add_credential_row_def new_credential_def)
    show "ca_resource_model l \<noteq> a_resource_model a"
      if "l \<in> set (credential_allocations ?d1)" "ca_credential_id l = c_id ?c" for l a
      using link_credential_drawn [OF wf, of l] that
        not_drawn_later [OF ok, of "fresh d" "Suc (Suc (fresh d))"]
      by (simp add: add_credential_row_def new_credential_def)
  qed simp
  moreover have "snd (issue_allocation e m model note by quota cost origin d) =
      add_links (c_id ?c) [?a] ?d1"
    by (simp add: issue_allocation_def Let_def case_prod_beta new_credential_def)
  ultimately show ?thesis by simp
qed

lemma scope_wf_create:
  assumes "env_ok e" "scope_wf e d"
  shows "scope_wf e (snd (create_allocation e mid model note by subject quota cost origin d))"
  using assms scope_wf_issue [OF assms(1)] scope_wf_ensure_member [OF assms(2)]
  by (auto simp: create_allocation_def Let_def case_prod_beta split: option.splits)

lemma scope_wf_rotate_token:
  assumes ok: "env_ok e" and wf: "scope_wf e d"
  shows "scope_wf e (snd (rotate_token e aid d))"
proof (cases "get_allocation aid d")
  case None
  with wf show ?thesis by (simp add: rotate_token_def)
next
  case (Some a)
  have mem: "a \<in> set (allocations d)" using get_allocation_mem [OF Some] by simp
  have "scope_wf e (add_links (ulid e (Suc (fresh d))) [a] (add_credential_row
      (new_credential e (ulid e (Suc (fresh d))) (a_member_id a) default_credential_name
        (fst (generate_token e d))) (tick (tick d))))"
    by (rule scope_wf_new_scoped_key [OF ok wf]) (use mem in auto)
  moreover have "scope_wf e (set_credential cid
      (\<lambda>c. c\<lparr>c_token_fingerprint := g_fingerprint (fst (generate_token e d)),
             c_token_prefix := g_prefix (fst (generate_token e d)), c_created_at := now e\<rparr>) (tick d))"
    for cid by (rule scope_wf_new_fingerprint [OF ok wf]) simp_all
  ultimately show ?thesis using wf Some
    by (simp add: rotate_token_def Let_def case_prod_beta split: option.splits)
qed

lemma scope_wf_lock_reclaim: "scope_wf e d \<Longrightarrow> scope_wf e (lock_reclaim e' a by d)"
  unfolding lock_reclaim_def Let_def
  by (rule scope_wf_audit, erule scope_wf_frame) simp_all

lemma scope_wf_revoke: "scope_wf e d \<Longrightarrow> scope_wf e (snd (revoke e' aid by d))"
  by (auto simp: revoke_def Let_def set_allocation_def intro!: scope_wf_lock_reclaim
      scope_wf_set_allocation split: option.splits)

lemma scope_wf_pause: "scope_wf e d \<Longrightarrow> scope_wf e (snd (pause e' aid by d))"
  by (auto simp: pause_def set_allocation_def intro!: scope_wf_audit scope_wf_set_allocation
      split: option.splits)

lemma scope_wf_resume: "scope_wf e d \<Longrightarrow> scope_wf e (snd (resume e' aid by d))"
  by (auto simp: resume_def set_allocation_def intro!: scope_wf_audit scope_wf_set_allocation
      split: option.splits)

lemma touch_frame [simp]:
  "c_id (touch e c) = c_id c" "c_member_id (touch e c) = c_member_id c"
  "c_token_fingerprint (touch e c) = c_token_fingerprint c" "c_revoked_at (touch e c) = c_revoked_at c"
  by (auto simp: touch_def split: option.splits)

lemma scope_wf_lookup: "scope_wf e d \<Longrightarrow> scope_wf e (snd (lookup_credential_by_token e' t d))"
  by (auto simp: lookup_credential_by_token_def Let_def intro!: scope_wf_set_credential
      split: option.splits)

lemma scope_wf_create_key:
  assumes "env_ok e" "scope_wf e d"
  shows "scope_wf e (snd (create_member_credential e mid name aids d))"
proof (cases "owned_allocations mid aids d")
  case (Inl err)
  with assms show ?thesis by (simp add: create_member_credential_def)
next
  case (Inr out)
  show ?thesis
    using scope_wf_new_scoped_key [OF assms owned_allocations_sound(1,2) [OF Inr]] assms Inr
    by (simp add: create_member_credential_def Let_def case_prod_beta new_credential_def)
qed

lemma scope_wf_flush:
  assumes wf: "scope_wf e d" and c: "c \<in> set (credentials d)"
    and own: "owned_allocations (c_member_id c) aids d = Inr adds"
  shows "scope_wf e (snd (flush_scope (c_id c) adds removes d))"
proof (cases "list_ex (\<lambda>a. a_resource_model a \<in> ca_resource_model `
    set (filter (\<lambda>l. ca_credential_id l = c_id c) (credential_allocations d))) adds")
  case True
  with wf show ?thesis by (simp add: flush_scope_def)
next
  case False
  have "scope_wf e (add_links (c_id c) adds d)"
  proof (rule scope_wf_add_links [OF wf c])
    show "ca_resource_model l \<noteq> a_resource_model a"
      if "l \<in> set (credential_allocations d)" "a \<in> set adds" "ca_credential_id l = c_id c" for l a
    proof
      assume "ca_resource_model l = a_resource_model a"
      then have "a_resource_model a \<in> ca_resource_model `
          set (filter (\<lambda>l. ca_credential_id l = c_id c) (credential_allocations d))"
        using that by (intro image_eqI [of _ _ l]) simp_all
      with False that(2) show False by (simp only: list_ex_iff) blast
    qed
  qed (use owned_allocations_sound [OF own] in simp_all)
  with False show ?thesis
    by (simp add: flush_scope_def scope_wf_drop_links)
qed

text \<open>Either the patch leaves the session as it was, or it flushes owned additions.\<close>

lemma patch_session:
  "snd (patch_credential_scope cid add remove d) = d \<or>
   (\<exists>c aids adds removes. get_credential cid d = Some c \<and>
      owned_allocations (c_member_id c) aids d = Inr adds \<and>
      snd (patch_credential_scope cid add remove d) = snd (flush_scope cid adds removes d))"
proof (cases "get_credential cid d")
  case None
  then show ?thesis by (simp add: patch_credential_scope_def)
next
  case (Some c)
  let ?links = "filter (\<lambda>l. ca_credential_id l = cid) (credential_allocations d)"
  let ?aids = "filter (\<lambda>a. a \<notin> set (map ca_allocation_id ?links)) add"
  let ?removes = "filter (\<lambda>x. x \<in> set remove) (map ca_allocation_id ?links)"
  show ?thesis
  proof (cases "owned_allocations (c_member_id c) ?aids d")
    case (Inl err)
    with Some show ?thesis by (simp add: patch_credential_scope_def)
  next
    case (Inr adds)
    have "snd (patch_credential_scope cid add remove d) = d \<or>
        snd (patch_credential_scope cid add remove d) = snd (flush_scope cid adds ?removes d)"
      using Some Inr
      by (simp add: patch_credential_scope_def Let_def split: option.split sum.split prod.split)
    with Some Inr show ?thesis by blast
  qed
qed

lemma scope_wf_patch:
  assumes wf: "scope_wf e d"
  shows "scope_wf e (snd (patch_credential_scope cid add remove d))"
  using patch_session [of cid add remove d]
proof (elim disjE exE conjE)
  fix c aids adds removes
  assume c: "get_credential cid d = Some c" and own: "owned_allocations (c_member_id c) aids d = Inr adds"
    and flush: "snd (patch_credential_scope cid add remove d) = snd (flush_scope cid adds removes d)"
  have "c \<in> set (credentials d)" "c_id c = cid" using get_credential_mem [OF c] by auto
  with scope_wf_flush [OF wf _ own] flush show ?thesis by metis
qed (use wf in simp)

lemma scope_wf_rename: "scope_wf e d \<Longrightarrow> scope_wf e (snd (rename_credential cid name d))"
  by (auto simp: rename_credential_def intro!: scope_wf_set_credential split: option.splits)

lemma scope_wf_revoke_key: "scope_wf e d \<Longrightarrow> scope_wf e (snd (revoke_credential e' cid d))"
  by (auto simp: revoke_credential_def intro!: scope_wf_set_credential split: option.splits)

lemma scope_wf_rotate_key:
  assumes "env_ok e" "scope_wf e d"
  shows "scope_wf e (snd (rotate_credential e cid d))"
  using assms scope_wf_new_fingerprint [OF assms]
  by (auto simp: rotate_credential_def Let_def case_prod_beta split: option.splits)

end
