(* ===== verification/AllocationSpec.thy ===== *)
theory AllocationSpec
  imports AllocationScope
begin

text \<open>
  What allocations and keys promise, as a transition system: every session reached by the
  operations of \<open>AllocationService\<close>, at any clock readings and with any other component
  writing in between, satisfies \<open>scope_wf\<close>.  Then the meaning of a bearer token: \<open>resolve_bearer\<close>
  composes the two lookups the proxy performs, and each operation is described by what it does
  to the tokens' meanings.
\<close>

section \<open>Runs\<close>

abbreviation at_time :: "env \<Rightarrow> timestamp \<Rightarrow> env" where
  "at_time e t \<equiv> e\<lparr>now := t\<rparr>"

lemma at_time_ok [simp]: "env_ok (at_time e t) = env_ok e"
  by (simp add: env_ok_def)

lemma fingerprint_at_time [simp]: "fingerprint_for (at_time e t) p = fingerprint_for e p"
  by (simp add: fingerprint_for_def)

lemma scope_wf_at_time [simp]: "scope_wf (at_time e t) d = scope_wf e d"
  by (simp add: scope_wf_def keys_wf_def drawn_id_def drawn_fp_def)

inductive alloc_step :: "env \<Rightarrow> db \<Rightarrow> db \<Rightarrow> bool" for e where
  by_create: "alloc_step e d (snd (create_allocation (at_time e t) mid model note by subject quota cost origin d))"
| by_rotate_token: "alloc_step e d (snd (rotate_token (at_time e t) aid d))"
| by_revoke: "alloc_step e d (snd (revoke (at_time e t) aid by d))"
| by_pause: "alloc_step e d (snd (pause (at_time e t) aid by d))"
| by_resume: "alloc_step e d (snd (resume (at_time e t) aid by d))"
| by_lookup: "alloc_step e d (snd (lookup_credential_by_token (at_time e t) token d))"
| by_create_key: "alloc_step e d (snd (create_member_credential (at_time e t) mid name aids d))"
| by_patch: "alloc_step e d (snd (patch_credential_scope cid add remove d))"
| by_rename: "alloc_step e d (snd (rename_credential cid name d))"
| by_revoke_key: "alloc_step e d (snd (revoke_credential (at_time e t) cid d))"
| by_rotate_key: "alloc_step e d (snd (rotate_credential (at_time e t) cid d))"
| by_edit: "(\<And>a. a_id (f a) = a_id a \<and> a_member_id (f a) = a_member_id a \<and>
      a_resource_model (f a) = a_resource_model a) \<Longrightarrow>
    alloc_step e d (allocations_update (update_where p f) d)"
| by_others: "allocations d' = allocations d \<Longrightarrow> credentials d' = credentials d \<Longrightarrow>
    credential_allocations d' = credential_allocations d \<Longrightarrow> fresh d \<le> fresh d' \<Longrightarrow> alloc_step e d d'"

inductive alloc_reach :: "env \<Rightarrow> db \<Rightarrow> bool" for e where
  start: "allocations d = [] \<Longrightarrow> credentials d = [] \<Longrightarrow> credential_allocations d = [] \<Longrightarrow> alloc_reach e d"
| step: "alloc_reach e d \<Longrightarrow> alloc_step e d d' \<Longrightarrow> alloc_reach e d'"

inductive_cases alloc_stepE: "alloc_step e d d'"

lemma scope_wf_step:
  assumes "alloc_step e d d'" "env_ok e" "scope_wf e d"
  shows "scope_wf e d'"
  using assms(1)
proof cases
  case (by_create t mid model memo creator subject quota cost origin)
  then show ?thesis using scope_wf_create [of "at_time e t"] assms(2,3) by simp
next
  case (by_rotate_token t aid)
  then show ?thesis using scope_wf_rotate_token [of "at_time e t"] assms(2,3) by simp
next
  case (by_create_key t mid name aids)
  then show ?thesis using scope_wf_create_key [of "at_time e t"] assms(2,3) by simp
next
  case (by_rotate_key t cid)
  then show ?thesis using scope_wf_rotate_key [of "at_time e t"] assms(2,3) by simp
next
  case (by_edit f p)
  show ?thesis unfolding by_edit(1) by (rule scope_wf_set_allocation [OF assms(3)]) (simp_all add: by_edit(2))
next
  case by_others
  with assms(3) show ?thesis by (blast intro: scope_wf_frame)
qed (use assms(3) in \<open>simp_all add: scope_wf_revoke scope_wf_pause scope_wf_resume scope_wf_lookup
      scope_wf_patch scope_wf_rename scope_wf_revoke_key\<close>)

lemma scope_wf_start:
  "allocations d = [] \<Longrightarrow> credentials d = [] \<Longrightarrow> credential_allocations d = [] \<Longrightarrow> scope_wf e d"
  by (simp add: scope_wf_def keys_wf_def links_wf_def)

section \<open>The meaning of a token\<close>

definition key_of :: "env \<Rightarrow> string \<Rightarrow> db \<Rightarrow> credential option" where
  "key_of e token d =
     find (\<lambda>c. c_token_fingerprint c = fingerprint_for e token \<and> c_revoked_at c = None) (credentials d)"

text \<open>The two lookups, as the proxy performs them on each call.\<close>

definition resolve_bearer :: "env \<Rightarrow> string \<Rightarrow> string \<Rightarrow> db \<Rightarrow> allocation option" where
  "resolve_bearer e token model d =
     (case lookup_credential_by_token e token d of
        (None, d1) \<Rightarrow> None
      | (Some c, d1) \<Rightarrow> resolve_scope_allocation c model d1)"

lemma resolve_touch [simp]:
  "resolve_scope_allocation (touch e c) model (set_credential cid f d) = resolve_scope_allocation c model d"
  by (simp add: resolve_scope_allocation_def scope_join_def scope_allocations_def set_credential_def)

lemma resolve_bearer_key:
  "resolve_bearer e token model d =
     (case key_of e token d of None \<Rightarrow> None | Some c \<Rightarrow> resolve_scope_allocation c model d)"
  by (simp add: resolve_bearer_def lookup_credential_by_token_def key_of_def Let_def split: option.split)

lemma key_of_mem:
  "key_of e token d = Some c \<Longrightarrow>
     c \<in> set (credentials d) \<and> c_token_fingerprint c = fingerprint_for e token \<and> c_revoked_at c = None"
  unfolding key_of_def by (drule find_SomeD) simp

lemma key_of_in:
  assumes "scope_wf e d" "c \<in> set (credentials d)" "c_revoked_at c = None"
    "c_token_fingerprint c = fingerprint_for e token"
  shows "key_of e token d = Some c"
proof -
  have "c' = c" if "c' \<in> set (credentials d)" "c_token_fingerprint c' = fingerprint_for e token" for c'
    by (rule distinct_map_eqD [of c_token_fingerprint "credentials d"])
       (use assms that in \<open>simp_all add: scope_wf_def keys_wf_def\<close>)
  moreover have "key_of e token d \<noteq> None"
    using assms(2-4) by (auto simp: key_of_def find_None_ball)
  ultimately show ?thesis using key_of_mem [of e token d] by fastforce
qed

lemma key_of_None_iff:
  "key_of e token d = None \<longleftrightarrow>
     (\<forall>c \<in> set (credentials d). c_token_fingerprint c = fingerprint_for e token \<longrightarrow> c_revoked_at c \<noteq> None)"
  by (auto simp: key_of_def find_None_ball)

lemma scope_join_mem:
  "(l, a) \<in> set (scope_join cid d) \<longleftrightarrow>
     l \<in> set (credential_allocations d) \<and> ca_credential_id l = cid \<and>
     a \<in> set (allocations d) \<and> a_id a = ca_allocation_id l"
  by (auto simp: scope_join_def)

text \<open>In a well-formed session the join pairs each link with the allocation it copies.\<close>

lemma scope_join_wf:
  assumes wf: "scope_wf e d" and la: "(l, a) \<in> set (scope_join (c_id c) d)" and c: "c \<in> set (credentials d)"
  shows "a_member_id a = c_member_id c" "a_resource_model a = ca_resource_model l"
proof -
  from la have l: "l \<in> set (credential_allocations d)" "ca_credential_id l = c_id c"
      and a: "a \<in> set (allocations d)" "a_id a = ca_allocation_id l"
    by (simp_all add: scope_join_mem)
  from wf l obtain c' a' where ca: "c' \<in> set (credentials d)" "c_id c' = c_id c"
      "a' \<in> set (allocations d)" "a_id a' = a_id a" "a_member_id a' = c_member_id c'"
      "a_resource_model a' = ca_resource_model l"
    using a(2) by (fastforce simp: scope_wf_def links_wf_def link_ok_def)
  have "a' = a" by (rule distinct_map_eqD [of a_id "allocations d"])
      (use wf ca a in \<open>simp_all add: scope_wf_def keys_wf_def\<close>)
  moreover have "c' = c" by (rule distinct_map_eqD [of c_id "credentials d"])
      (use wf ca c in \<open>simp_all add: scope_wf_def keys_wf_def\<close>)
  ultimately show "a_member_id a = c_member_id c" "a_resource_model a = ca_resource_model l"
    using ca by simp_all
qed

lemma resolve_exact:
  assumes wf: "scope_wf e d" and l: "(l, a) \<in> set (scope_join (c_id c) d)"
  shows "resolve_scope_allocation c (ca_resource_model l) d = Some a"
proof -
  let ?f = "find (\<lambda>(l', a). ca_resource_model l' = ca_resource_model l) (scope_join (c_id c) d)"
  have "?f \<noteq> None" using l by (auto simp: find_None_ball)
  then obtain l' a' where f: "?f = Some (l', a')" by fastforce
  then have m: "(l', a') \<in> set (scope_join (c_id c) d)" "ca_resource_model l' = ca_resource_model l"
    using find_SomeD [OF f] by simp_all
  have "l' = l"
    by (rule distinct_map_eqD [of "\<lambda>l. (ca_credential_id l, ca_resource_model l)" "credential_allocations d"])
       (use wf m l in \<open>simp_all add: scope_wf_def links_wf_def scope_join_mem\<close>)
  moreover from this have "a' = a"
    by (intro distinct_map_eqD [of a_id "allocations d"])
       (use wf m l in \<open>simp_all add: scope_wf_def keys_wf_def scope_join_mem\<close>)
  ultimately show ?thesis by (simp add: resolve_scope_allocation_def f)
qed

section \<open>The specification of resolution\<close>

definition scope_of :: "db \<Rightarrow> credential \<Rightarrow> allocation set" where
  "scope_of d c = {a \<in> set (allocations d). \<exists>l \<in> set (credential_allocations d).
     ca_credential_id l = c_id c \<and> ca_allocation_id l = a_id a}"

definition grants :: "db \<Rightarrow> credential \<Rightarrow> string \<Rightarrow> allocation \<Rightarrow> bool" where
  "grants d c model a \<longleftrightarrow> a \<in> scope_of d c \<and>
     (a_resource_model a = model \<or>
      CHR ''/'' \<notin> set model \<and> (\<forall>b \<in> scope_of d c. a_resource_model b \<noteq> model) \<and>
      model_key (a_resource_model a) = model \<and>
      (\<forall>b \<in> scope_of d c. model_key (a_resource_model b) = model \<longrightarrow> b = a))"

lemma set_scope_allocations: "set (scope_allocations (c_id c) d) = scope_of d c"
proof -
  have "a \<in> set (scope_allocations (c_id c) d) \<longleftrightarrow> (\<exists>l. (l, a) \<in> set (scope_join (c_id c) d))" for a
    unfolding scope_allocations_def by force
  then show ?thesis unfolding scope_of_def scope_join_mem by (auto dest: sym)
qed

lemma scope_join_models:
  assumes wf: "scope_wf e d"
  shows "map (\<lambda>(l, a). a_resource_model a) (scope_join cid d) =
    map ca_resource_model (filter (\<lambda>l. ca_credential_id l = cid) (credential_allocations d))"
proof -
  have one: "\<exists>a. filter (\<lambda>a. a_id a = ca_allocation_id l) (allocations d) = [a] \<and>
      a_resource_model a = ca_resource_model l" if l: "l \<in> set (credential_allocations d)" for l
  proof -
    from wf l obtain a where "a \<in> set (allocations d)" "a_id a = ca_allocation_id l"
        "a_resource_model a = ca_resource_model l"
      by (fastforce simp: scope_wf_def links_wf_def link_ok_def)
    with filter_unique [of a_id "allocations d" a] wf show ?thesis
      by (auto simp: scope_wf_def keys_wf_def)
  qed
  have "map (\<lambda>(l, a). a_resource_model a) (concat (map (\<lambda>l. map (\<lambda>a. (l, a))
          (filter (\<lambda>a. a_id a = ca_allocation_id l) (allocations d))) ls)) = map ca_resource_model ls"
    if "set ls \<subseteq> set (credential_allocations d)" for ls
    using that
  proof (induction ls)
    case (Cons l ls)
    from Cons.prems one [of l] obtain a
      where "filter (\<lambda>a. a_id a = ca_allocation_id l) (allocations d) = [a]"
        "a_resource_model a = ca_resource_model l" by auto
    with Cons show ?case by simp
  qed simp
  then show ?thesis by (simp add: scope_join_def)
qed

lemma scope_allocations_distinct:
  assumes "scope_wf e d"
  shows "distinct (map a_resource_model (scope_allocations cid d))"
proof -
  have "distinct (map (\<lambda>l. (ca_credential_id l, ca_resource_model l)) (credential_allocations d))"
    using assms by (simp add: scope_wf_def links_wf_def)
  then have "distinct (map ca_resource_model
      (filter (\<lambda>l. ca_credential_id l = cid) (credential_allocations d)))"
    by (simp add: distinct_map inj_on_def)
  then show ?thesis
    using scope_join_models [OF assms, of cid]
    by (simp add: scope_allocations_def comp_def split_def)
qed

lemma resolve_grants:
  assumes wf: "scope_wf e d" and c: "c \<in> set (credentials d)"
  shows "resolve_scope_allocation c model d = Some a \<longleftrightarrow> grants d c model a"
proof (cases "\<exists>b \<in> scope_of d c. a_resource_model b = model")
  case True
  then obtain b where b: "b \<in> scope_of d c" "a_resource_model b = model" by blast
  then obtain l where l: "(l, b) \<in> set (scope_join (c_id c) d)"
    by (fastforce simp: scope_of_def scope_join_mem)
  have "resolve_scope_allocation c model d = Some b"
    using resolve_exact [OF wf l] scope_join_wf(2) [OF wf l c] b(2) by simp
  moreover have "grants d c model a \<longleftrightarrow> a = b"
  proof -
    have "a = b" if "a \<in> scope_of d c" "a_resource_model a = model"
      using scope_allocations_distinct [OF wf, of "c_id c"] that b
      by (metis distinct_map_eqD set_scope_allocations)
    with b show ?thesis by (auto simp: grants_def)
  qed
  ultimately show ?thesis by auto
next
  case False
  then have none: "find (\<lambda>(l, a). ca_resource_model l = model) (scope_join (c_id c) d) = None"
    using scope_join_wf(2) [OF wf _ c]
    by (fastforce simp: find_None_ball scope_of_def scope_join_mem)
  let ?m = "filter (\<lambda>a. split_last (CHR ''/'') (a_resource_model a) = model) (scope_allocations (c_id c) d)"
  have "distinct (scope_allocations (c_id c) d)"
    using scope_allocations_distinct [OF wf, of "c_id c"] by (simp add: distinct_map)
  from filter_singleton_iff [OF this]
  have "?m = [a] \<longleftrightarrow> a \<in> scope_of d c \<and> model_key (a_resource_model a) = model \<and>
      (\<forall>b \<in> scope_of d c. model_key (a_resource_model b) = model \<longrightarrow> b = a)"
    by (simp add: set_scope_allocations model_key_def)
  moreover have "(length ?m = 1 \<and> hd ?m = a) \<longleftrightarrow> ?m = [a]"
    by (cases ?m) auto
  ultimately show ?thesis using False none
    by (auto simp: resolve_scope_allocation_def Let_def grants_def)
qed

section \<open>Issuing\<close>

lemma issue_tables:
  assumes "issue_allocation e m model memo creator quota cost origin d = (r, d')"
  shows "allocations d' = allocations d @ [ac_allocation r]"
    and "\<exists>c l. credentials d' = credentials d @ [c] \<and> credential_allocations d' = credential_allocations d @ [l] \<and>
      c_token_fingerprint c = fingerprint_for e (g_plaintext (ac_token r)) \<and> c_revoked_at c = None \<and>
      ca_credential_id l = c_id c \<and> c_id c = ulid e (Suc (Suc (fresh d))) \<and>
      ca_allocation_id l = a_id (ac_allocation r) \<and> ca_resource_model l = model"
    and "a_resource_model (ac_allocation r) = model"
    and "a_id (ac_allocation r) = ulid e (Suc (fresh d))"
    and "g_plaintext (ac_token r) = token_prefix @ token_urlsafe e (fresh d)"
  using assms
  by (auto simp: issue_allocation_def Let_def case_prod_beta new_credential_def add_credential_row_def
      add_links_def)

lemma scope_join_append:
  assumes wf: "scope_wf e d" and new: "\<not> drawn_id e (fresh d) (a_id a)" "ca_credential_id l \<noteq> cid"
    and tables: "allocations d' = allocations d @ [a]" "credential_allocations d' = credential_allocations d @ [l]"
  shows "scope_join cid d' = scope_join cid d"
proof -
  have "filter (\<lambda>b. a_id b = ca_allocation_id k) (allocations d') =
      filter (\<lambda>b. a_id b = ca_allocation_id k) (allocations d)"
    if "k \<in> set (credential_allocations d)" for k
  proof -
    from wf that obtain b where "b \<in> set (allocations d)" "a_id b = ca_allocation_id k"
      by (fastforce simp: scope_wf_def links_wf_def link_ok_def)
    with wf have "drawn_id e (fresh d) (ca_allocation_id k)"
      by (auto simp: scope_wf_def keys_wf_def)
    with new(1) tables(1) show ?thesis by auto
  qed
  then have "concat (map (\<lambda>l. map (\<lambda>a. (l, a)) (filter (\<lambda>a. a_id a = ca_allocation_id l) (allocations d')))
        (filter (\<lambda>l. ca_credential_id l = cid) (credential_allocations d))) = scope_join cid d"
    unfolding scope_join_def by (intro arg_cong [of _ _ concat] map_cong) auto
  then show ?thesis using new(2) by (simp add: scope_join_def tables(2))
qed

lemma resolve_join_cong:
  "scope_join (c_id c) d' = scope_join (c_id c') d \<Longrightarrow>
     resolve_scope_allocation c model d' = resolve_scope_allocation c' model d"
  by (simp add: resolve_scope_allocation_def scope_allocations_def)

lemma issue_resolves:
  assumes ok: "env_ok e" and wf: "scope_wf e d"
    and run: "issue_allocation e m model memo creator quota cost origin d = (r, d')"
  shows "resolve_bearer e (g_plaintext (ac_token r)) model d' = Some (ac_allocation r) \<and>
    (\<forall>t k. t \<noteq> g_plaintext (ac_token r) \<longrightarrow> resolve_bearer e t k d' = resolve_bearer e t k d)"
proof -
  from issue_tables(2) [OF run] obtain c l where c: "credentials d' = credentials d @ [c]"
      "c_token_fingerprint c = fingerprint_for e (g_plaintext (ac_token r))" "c_revoked_at c = None"
      "c_id c = ulid e (Suc (Suc (fresh d)))"
    and l: "credential_allocations d' = credential_allocations d @ [l]" "ca_credential_id l = c_id c"
      "ca_allocation_id l = a_id (ac_allocation r)" "ca_resource_model l = model"
    by blast
  have wf': "scope_wf e d'"
    using scope_wf_issue [OF ok wf, of m model memo creator quota cost origin] by (simp add: run)
  have "key_of e (g_plaintext (ac_token r)) d' = Some c"
    by (rule key_of_in [OF wf']) (simp_all add: c)
  moreover have "(l, ac_allocation r) \<in> set (scope_join (c_id c) d')"
    using l issue_tables(1) [OF run] by (simp add: scope_join_mem)
  ultimately have new: "resolve_bearer e (g_plaintext (ac_token r)) model d' = Some (ac_allocation r)"
    using resolve_exact [OF wf', of l "ac_allocation r" c] by (simp add: resolve_bearer_key l(4))
  have "resolve_bearer e t k d' = resolve_bearer e t k d" if t: "t \<noteq> g_plaintext (ac_token r)" for t k
  proof -
    have "c_token_fingerprint c \<noteq> fingerprint_for e t"
      using t ok by (simp add: c(2) env_ok_def fingerprint_for_def inj_eq)
    then have same: "key_of e t d' = key_of e t d"
      by (simp add: key_of_def c(1) find_append split: option.split)
    show ?thesis
    proof (cases "key_of e t d")
      case None
      with same show ?thesis by (simp add: resolve_bearer_key)
    next
      case (Some c0)
      have "drawn_id e (fresh d) (c_id c0)"
        using key_of_mem [OF Some] wf by (simp add: scope_wf_def keys_wf_def)
      then have "ca_credential_id l \<noteq> c_id c0"
        using not_drawn_later [OF ok, of "fresh d" "Suc (Suc (fresh d))"] l(2) c(4) by auto
      moreover have "\<not> drawn_id e (fresh d) (a_id (ac_allocation r))"
        using not_drawn_later [OF ok, of "fresh d" "Suc (fresh d)"] issue_tables(4) [OF run] by auto
      ultimately have "scope_join (c_id c0) d' = scope_join (c_id c0) d"
        by (intro scope_join_append [OF wf _ _ issue_tables(1) [OF run] l(1)])
      from resolve_join_cong [OF this] show ?thesis using Some same
        by (simp add: resolve_bearer_key)
    qed
  qed
  with new show ?thesis by blast
qed

lemma ensure_member_frame [simp]:
  "credentials (snd (ensure_external_member e s d)) = credentials d"
  "allocations (snd (ensure_external_member e s d)) = allocations d"
  "credential_allocations (snd (ensure_external_member e s d)) = credential_allocations d"
  by (auto simp: ensure_external_member_def Let_def split: option.splits)

lemma resolve_bearer_cong:
  "credentials d' = credentials d \<Longrightarrow> allocations d' = allocations d \<Longrightarrow>
   credential_allocations d' = credential_allocations d \<Longrightarrow>
     resolve_bearer e t k d' = resolve_bearer e t k d"
  by (simp add: resolve_bearer_key key_of_def resolve_scope_allocation_def scope_join_def
      scope_allocations_def split: option.split)

lemma create_issues:
  assumes "create_allocation e mid model memo creator subject quota cost origin d = (Inr r, d')"
  obtains m d0 where "issue_allocation e m model memo creator quota cost origin d0 = (r, d')"
    and "d0 = d \<or> (\<exists>s. d0 = snd (ensure_external_member e s d))"
  using assms
  by (simp add: create_allocation_def Let_def case_prod_beta split: if_splits option.splits)
     (metis prod.collapse)+

section \<open>Rotating and revoking keys\<close>

lemma find_update_irrelevant:
  "(\<And>r. r \<in> set rs \<Longrightarrow> q r \<Longrightarrow> \<not> p r \<and> \<not> p (f r)) \<Longrightarrow> find p (update_where q f rs) = find p rs"
  by (induction rs) auto

lemma resolve_set_credential [simp]:
  "resolve_scope_allocation c model (set_credential cid f d) = resolve_scope_allocation c model d"
  "resolve_scope_allocation c model (tick d) = resolve_scope_allocation c model d"
  by (simp_all add: resolve_scope_allocation_def scope_join_def scope_allocations_def set_credential_def)

lemma same_id_same_key:
  "scope_wf e d \<Longrightarrow> c \<in> set (credentials d) \<Longrightarrow> c' \<in> set (credentials d) \<Longrightarrow> c_id c' = c_id c \<Longrightarrow> c' = c"
  by (rule distinct_map_eqD [of c_id "credentials d"]) (simp_all add: scope_wf_def keys_wf_def)

lemma same_fp_same_key:
  "scope_wf e d \<Longrightarrow> c \<in> set (credentials d) \<Longrightarrow> c' \<in> set (credentials d) \<Longrightarrow>
     c_token_fingerprint c' = c_token_fingerprint c \<Longrightarrow> c' = c"
  by (rule distinct_map_eqD [of c_token_fingerprint "credentials d"])
     (simp_all add: scope_wf_def keys_wf_def)

lemma new_token_unused:
  assumes "env_ok e" "scope_wf e d" "c \<in> set (credentials d)"
  shows "c_token_fingerprint c \<noteq> fingerprint_for e (token_prefix @ token_urlsafe e (fresh d))"
proof
  assume "c_token_fingerprint c = fingerprint_for e (token_prefix @ token_urlsafe e (fresh d))"
  then have "drawn_fp e (fresh d) (fingerprint_for e (token_prefix @ token_urlsafe e (fresh d)))"
    using assms(2,3) by (auto simp: scope_wf_def keys_wf_def)
  with drawn_fp_new [OF assms(1)] show False by blast
qed

lemma fingerprint_inj: "env_ok e \<Longrightarrow> fingerprint_for e s = fingerprint_for e t \<longleftrightarrow> s = t"
  by (simp add: env_ok_def fingerprint_for_def inj_eq)

text \<open>Replacing the token of one key.\<close>

lemma rotate_resolves:
  assumes ok: "env_ok e" and wf: "scope_wf e d" and key: "key_of e old d = Some c"
    and new: "new = token_prefix @ token_urlsafe e (fresh d)"
    and f: "\<And>c. c_id (f c) = c_id c" "\<And>c. c_member_id (f c) = c_member_id c"
      "\<And>c. c_token_fingerprint (f c) = fingerprint_for e new" "\<And>c. c_revoked_at (f c) = c_revoked_at c"
  shows "resolve_bearer e new k (set_credential (c_id c) f (tick d)) = resolve_bearer e old k d"
    and "resolve_bearer e old k (set_credential (c_id c) f (tick d)) = None"
    and "t \<noteq> old \<Longrightarrow> t \<noteq> new \<Longrightarrow>
      resolve_bearer e t k (set_credential (c_id c) f (tick d)) = resolve_bearer e t k d"
proof -
  let ?d = "set_credential (c_id c) f (tick d)"
  have c: "c \<in> set (credentials d)" "c_token_fingerprint c = fingerprint_for e old" "c_revoked_at c = None"
    using key_of_mem [OF key] by auto
  have rows: "credentials ?d = update_where (\<lambda>r. c_id r = c_id c) f (credentials d)"
    by (simp add: set_credential_def)
  have wf': "scope_wf e ?d"
    by (rule scope_wf_new_fingerprint [OF ok wf]) (simp_all add: f new)
  have "f c \<in> set (credentials ?d)" using c(1) unfolding rows set_update_where by blast
  then have "key_of e new ?d = Some (f c)"
    by (rule key_of_in [OF wf']) (simp_all add: f c(3))
  moreover have "resolve_scope_allocation (f c) k d = resolve_scope_allocation c k d"
    by (rule resolve_join_cong) (simp add: f)
  ultimately show "resolve_bearer e new k ?d = resolve_bearer e old k d"
    by (simp add: resolve_bearer_key key)
  have old_new: "fingerprint_for e old \<noteq> fingerprint_for e new"
    using new_token_unused [OF ok wf c(1)] c(2) new by simp
  have "key_of e old ?d = None"
    unfolding key_of_None_iff rows
  proof (intro ballI impI)
    fix r assume "r \<in> set (update_where (\<lambda>r. c_id r = c_id c) f (credentials d))"
      and fp: "c_token_fingerprint r = fingerprint_for e old"
    then obtain r0 where "r0 \<in> set (credentials d)" "c_id r0 = c_id c \<and> r = f r0 \<or> c_id r0 \<noteq> c_id c \<and> r = r0"
      unfolding set_update_where by blast
    with fp old_new same_fp_same_key [OF wf c(1), of r0] show "c_revoked_at r \<noteq> None"
      by (auto simp: f c(2))
  qed
  then show "resolve_bearer e old k ?d = None" by (simp add: resolve_bearer_key)
  assume t: "t \<noteq> old" "t \<noteq> new"
  have "key_of e t ?d = key_of e t d"
    unfolding key_of_def rows
  proof (rule find_update_irrelevant)
    fix r assume "r \<in> set (credentials d)" "c_id r = c_id c"
    then have "r = c" by (rule same_id_same_key [OF wf c(1)])
    with t c(2) show "\<not> (c_token_fingerprint r = fingerprint_for e t \<and> c_revoked_at r = None) \<and>
        \<not> (c_token_fingerprint (f r) = fingerprint_for e t \<and> c_revoked_at (f r) = None)"
      by (simp add: f fingerprint_inj [OF ok])
  qed
  then show "resolve_bearer e t k ?d = resolve_bearer e t k d"
    by (simp add: resolve_bearer_key split: option.split)
qed

section \<open>A revoked key stays revoked\<close>

definition keeps_revoked :: "db \<Rightarrow> db \<Rightarrow> bool" where
  "keeps_revoked d d' \<longleftrightarrow>
     (\<forall>c \<in> set (credentials d). c_revoked_at c \<noteq> None \<longrightarrow>
        (\<exists>c' \<in> set (credentials d'). c_token_fingerprint c' = c_token_fingerprint c \<and>
           c_revoked_at c' \<noteq> None))"

definition dead_token :: "env \<Rightarrow> string \<Rightarrow> db \<Rightarrow> bool" where
  "dead_token e t d \<longleftrightarrow>
     (\<exists>c \<in> set (credentials d). c_token_fingerprint c = fingerprint_for e t \<and> c_revoked_at c \<noteq> None)"

lemma dead_token_kept: "dead_token e t d \<Longrightarrow> keeps_revoked d d' \<Longrightarrow> dead_token e t d'"
  unfolding dead_token_def keeps_revoked_def by fastforce

lemma dead_token_resolves_nothing:
  assumes "scope_wf e d" "dead_token e t d"
  shows "resolve_bearer e t k d = None"
proof -
  from assms(2) obtain c where c: "c \<in> set (credentials d)" "c_token_fingerprint c = fingerprint_for e t"
      "c_revoked_at c \<noteq> None" by (auto simp: dead_token_def)
  have "key_of e t d = None"
    unfolding key_of_None_iff
  proof (intro ballI impI)
    fix r assume "r \<in> set (credentials d)" "c_token_fingerprint r = fingerprint_for e t"
    then have "r = c" using same_fp_same_key [OF assms(1) c(1)] c(2) by simp
    with c(3) show "c_revoked_at r \<noteq> None" by simp
  qed
  then show ?thesis by (simp add: resolve_bearer_key)
qed

lemma keeps_revoked_frame: "set (credentials d) \<subseteq> set (credentials d') \<Longrightarrow> keeps_revoked d d'"
  unfolding keeps_revoked_def by blast

lemma keeps_revoked_refl: "keeps_revoked d d"
  by (rule keeps_revoked_frame) simp

lemma keeps_revoked_update:
  assumes "\<And>c. c \<in> set (credentials d) \<Longrightarrow> c_id c = cid \<Longrightarrow> c_revoked_at c \<noteq> None \<Longrightarrow>
      c_token_fingerprint (f c) = c_token_fingerprint c \<and> c_revoked_at (f c) \<noteq> None"
    and rows: "credentials d' = update_where (\<lambda>c. c_id c = cid) f (credentials d)"
  shows "keeps_revoked d d'"
  unfolding keeps_revoked_def
proof (intro ballI impI)
  fix c assume c: "c \<in> set (credentials d)" "c_revoked_at c \<noteq> None"
  let ?c = "if c_id c = cid then f c else c"
  have "?c \<in> set (credentials d')" using c(1) by (simp add: rows update_where_def)
  moreover have "c_token_fingerprint ?c = c_token_fingerprint c \<and> c_revoked_at ?c \<noteq> None"
    using assms(1) [OF c(1) _ c(2)] c(2) by (cases "c_id c = cid") (simp_all only: if_True if_False refl simp_thms)
  ultimately show "\<exists>c' \<in> set (credentials d'). c_token_fingerprint c' = c_token_fingerprint c \<and>
      c_revoked_at c' \<noteq> None" by blast
qed

lemma rows_set_credential [simp]:
  "credentials (set_credential cid f d) = update_where (\<lambda>c. c_id c = cid) f (credentials d)"
  by (simp add: set_credential_def)

lemma rows_add [simp]:
  "credentials (add_credential_row c d) = credentials d @ [c]"
  "credentials (add_links cid as d) = credentials d"
  by (simp_all add: add_credential_row_def add_links_def)

lemma keeps_revoked_set:
  "(\<And>c. c_revoked_at c \<noteq> None \<Longrightarrow> c_revoked_at (f c) \<noteq> None) \<Longrightarrow>
   (\<And>c. c_token_fingerprint (f c) = c_token_fingerprint c) \<Longrightarrow>
     keeps_revoked d (set_credential cid f d)"
  by (rule keeps_revoked_update) simp_all

lemma keeps_revoked_rotate_token:
  assumes wf: "scope_wf e d"
  shows "keeps_revoked d (snd (rotate_token e' aid d))"
proof (cases "get_allocation aid d")
  case None
  then show ?thesis by (simp add: rotate_token_def keeps_revoked_frame)
next
  case (Some a)
  show ?thesis
  proof (cases "a_status a = active")
    case False
    with Some show ?thesis by (simp add: rotate_token_def keeps_revoked_frame)
  next
    case active: True
    show ?thesis
    proof (cases "find (\<lambda>c. c_revoked_at c = None) (allocation_credentials aid d)")
      case None
      with Some active show ?thesis
        by (intro keeps_revoked_frame) (auto simp: rotate_token_def Let_def case_prod_beta)
    next
      case (Some c)
      from find_SomeD [OF Some] have c: "c \<in> set (credentials d)" "c_revoked_at c = None"
        by (simp_all add: allocation_credentials_def)
      have "c_revoked_at r = None" if "r \<in> set (credentials d)" "c_id r = c_id c" for r
        using same_id_same_key [OF wf c(1) that] c(2) by simp
      with Some active \<open>get_allocation aid d = Some a\<close> show ?thesis
        by (intro keeps_revoked_update [where cid = "c_id c"])
           (auto simp: rotate_token_def Let_def case_prod_beta)
    qed
  qed
qed

lemma keeps_revoked_rotate_key:
  assumes wf: "scope_wf e d"
  shows "keeps_revoked d (snd (rotate_credential e' cid d))"
proof (cases "get_credential cid d")
  case None
  then show ?thesis by (simp add: rotate_credential_def keeps_revoked_frame)
next
  case (Some c)
  note c = get_credential_mem [OF Some]
  show ?thesis
  proof (cases "c_revoked_at c")
    case None
    have "c_revoked_at r = None" if "r \<in> set (credentials d)" "c_id r = cid" for r
      using same_id_same_key [OF wf _ that(1), of c] that(2) c None by simp
    with Some None show ?thesis
      by (intro keeps_revoked_update [where cid = cid])
         (auto simp: rotate_credential_def Let_def case_prod_beta)
  next
    case (Some t)
    with \<open>get_credential cid d = Some c\<close> show ?thesis
      by (simp add: rotate_credential_def keeps_revoked_frame)
  qed
qed

lemma keeps_revoked_simple:
  "keeps_revoked d (snd (create_allocation e' mid model memo creator subject quota cost origin d))"
  "keeps_revoked d (snd (revoke e' aid creator d))" "keeps_revoked d (snd (pause e' aid creator d))"
  "keeps_revoked d (snd (resume e' aid creator d))"
  "keeps_revoked d (snd (create_member_credential e' owner name aids d))"
  "keeps_revoked d (snd (patch_credential_scope cid adds removes d))"
proof -
  show "keeps_revoked d (snd (create_allocation e' mid model memo creator subject quota cost origin d))"
  proof (cases "fst (create_allocation e' mid model memo creator subject quota cost origin d)")
    case (Inl err)
    then show ?thesis
      by (intro keeps_revoked_frame)
         (auto simp: create_allocation_def Let_def case_prod_beta split: if_splits option.splits)
  next
    case (Inr r)
    then have "create_allocation e' mid model memo creator subject quota cost origin d =
        (Inr r, snd (create_allocation e' mid model memo creator subject quota cost origin d))"
      by (metis prod.collapse)
    then obtain m d0 where run: "issue_allocation e' m model memo creator quota cost origin d0 =
        (r, snd (create_allocation e' mid model memo creator subject quota cost origin d))"
      and d0: "d0 = d \<or> (\<exists>s. d0 = snd (ensure_external_member e' s d))"
      by (rule create_issues)
    from d0 have "credentials d0 = credentials d" by auto
    with issue_tables(2) [OF run] show ?thesis by (intro keeps_revoked_frame) auto
  qed
  show "keeps_revoked d (snd (revoke e' aid creator d))"
    by (intro keeps_revoked_frame)
       (simp add: revoke_def lock_reclaim_def set_allocation_def Let_def split: option.split)
  show "keeps_revoked d (snd (pause e' aid creator d))" "keeps_revoked d (snd (resume e' aid creator d))"
    by (intro keeps_revoked_frame,
        simp add: pause_def resume_def set_allocation_def split: option.split)+
  show "keeps_revoked d (snd (create_member_credential e' owner name aids d))"
    by (intro keeps_revoked_frame)
       (auto simp: create_member_credential_def Let_def case_prod_beta split: sum.split)
  show "keeps_revoked d (snd (patch_credential_scope cid adds removes d))"
    using patch_session [of cid adds removes d]
    by (intro keeps_revoked_frame) (auto simp: flush_scope_def Let_def)
qed

lemma keeps_revoked_key_ops:
  "keeps_revoked d (snd (rename_credential cid name d))"
  "keeps_revoked d (snd (revoke_credential e' cid d))"
  "keeps_revoked d (snd (lookup_credential_by_token e' token d))"
  by (auto simp: rename_credential_def revoke_credential_def lookup_credential_by_token_def Let_def
      keeps_revoked_refl split: option.split intro!: keeps_revoked_set)

lemma keeps_revoked_step:
  assumes "alloc_step e d d'" "scope_wf e d"
  shows "keeps_revoked d d'"
  using assms(1)
  by cases (use assms(2) in \<open>simp_all add: keeps_revoked_simple keeps_revoked_key_ops keeps_revoked_frame
      keeps_revoked_rotate_token keeps_revoked_rotate_key\<close>)

section \<open>Patching a scope\<close>

text \<open>The abstract state of a key: the ids of the allocations in its scope.\<close>

definition scope_ids :: "db \<Rightarrow> string \<Rightarrow> string set" where
  "scope_ids d cid = ca_allocation_id ` {l \<in> set (credential_allocations d). ca_credential_id l = cid}"

lemma add_links_set [simp]:
  "set (credential_allocations (add_links cid as d)) = set (credential_allocations d) \<union>
     (\<lambda>a. \<lparr>ca_credential_id = cid, ca_allocation_id = a_id a, ca_resource_model = a_resource_model a\<rparr>) ` set as"
  by (auto simp: add_links_def)

lemma scope_ids_add: "scope_ids (add_links c as d) cid = scope_ids d cid \<union> (if c = cid then a_id ` set as else {})"
proof -
  have "scope_ids (add_links c as d) cid = ca_allocation_id ` {l \<in> set (credential_allocations d). ca_credential_id l = cid}
      \<union> ca_allocation_id ` {l \<in> (\<lambda>a. \<lparr>ca_credential_id = c, ca_allocation_id = a_id a,
           ca_resource_model = a_resource_model a\<rparr>) ` set as. ca_credential_id l = cid}"
    by (simp only: scope_ids_def add_links_set image_Un [symmetric] Collect_disj_eq [symmetric] Un_iff conj_disj_distribR)
  also have "{l \<in> (\<lambda>a. \<lparr>ca_credential_id = c, ca_allocation_id = a_id a,
           ca_resource_model = a_resource_model a\<rparr>) ` set as. ca_credential_id l = cid} =
      (if c = cid then (\<lambda>a. \<lparr>ca_credential_id = c, ca_allocation_id = a_id a,
           ca_resource_model = a_resource_model a\<rparr>) ` set as else {})"
    by auto
  finally show ?thesis by (auto simp: scope_ids_def image_image)
qed

lemma scope_ids_delete:
  "scope_ids (credential_allocations_update (delete_where
      (\<lambda>l. ca_credential_id l = c \<and> ca_allocation_id l \<in> set removes)) d) cid =
   scope_ids d cid - (if c = cid then set removes else {})"
  by (auto simp: scope_ids_def)

lemma flush_scope_ids:
  assumes "flush_scope cid adds removes d = (Inr u, d')"
  shows "scope_ids d' cid = (scope_ids d cid \<union> a_id ` set adds) - set removes"
    and "other \<noteq> cid \<Longrightarrow> scope_ids d' other = scope_ids d other"
  using assms by (auto simp: flush_scope_def Let_def scope_ids_delete scope_ids_add split: if_splits)

lemma patch_flush:
  assumes "patch_credential_scope cid add remove d = (r, d')"
  shows "(\<exists>err. r = Inl err) \<and> d' = d \<or> r = Inr None \<and> d' = d \<or>
    (\<exists>c adds. get_credential cid d = Some c \<and> r = Inr (Some c) \<and>
       a_id ` set adds = set add - scope_ids d cid \<and>
       flush_scope cid adds (filter (\<lambda>x. x \<in> set remove) (map ca_allocation_id
          (filter (\<lambda>l. ca_credential_id l = cid) (credential_allocations d)))) d = (Inr (), d') \<and>
       (adds \<noteq> [] \<or> \<not> scope_ids d cid \<subseteq> set remove))"
proof (cases "get_credential cid d")
  case None
  with assms show ?thesis by (simp add: patch_credential_scope_def)
next
  case (Some c)
  let ?links = "filter (\<lambda>l. ca_credential_id l = cid) (credential_allocations d)"
  let ?aids = "filter (\<lambda>a. a \<notin> set (map ca_allocation_id ?links)) add"
  let ?removes = "filter (\<lambda>x. x \<in> set remove) (map ca_allocation_id ?links)"
  have linked: "set (map ca_allocation_id ?links) = scope_ids d cid"
    by (simp add: scope_ids_def)
  show ?thesis
  proof (cases "owned_allocations (c_member_id c) ?aids d")
    case (Inl err)
    with Some have "patch_credential_scope cid add remove d = (Inl err, d)"
      by (simp add: patch_credential_scope_def)
    with assms have "r = Inl err" "d' = d" by simp_all
    then show ?thesis by blast
  next
    case (Inr adds)
    have adds: "a_id ` set adds = set add - scope_ids d cid"
      using owned_allocations_sound(3) [OF Inr] linked by auto
    let ?kept = "filter (\<lambda>l. ca_allocation_id l \<notin> set remove) ?links"
    have kept: "?kept \<noteq> [] \<longleftrightarrow> \<not> scope_ids d cid \<subseteq> set remove"
      by (auto simp: filter_empty_conv scope_ids_def)
    have flush_err: "flush_scope cid adds ?removes d = (Inl err, d1) \<Longrightarrow> d1 = d" for err d1
      by (simp add: flush_scope_def Let_def split: if_splits)
    show ?thesis
    proof (cases "find (\<lambda>a. a_resource_model a \<in> set (map ca_resource_model ?kept)) adds = None \<and>
        \<not> (?kept = [] \<and> adds = [])")
      case False
      with Some Inr assms show ?thesis
        by (auto simp: patch_credential_scope_def Let_def split: option.splits if_splits)
    next
      case True
      then have run: "patch_credential_scope cid add remove d =
          (case flush_scope cid adds ?removes d of (Inl err, d1) \<Rightarrow> (Inl err, d1)
             | (Inr _, d1) \<Rightarrow> (Inr (Some c), d1))"
        using Some Inr by (auto simp: patch_credential_scope_def Let_def)
      show ?thesis
      proof (cases "flush_scope cid adds ?removes d")
        case (Pair x d1)
        show ?thesis
        proof (cases x)
          case (Inl err)
          with Pair run assms flush_err [of err d1] show ?thesis by simp
        next
          case (Inr u)
          from Inr Pair run assms have "r = Inr (Some c)" "d1 = d'" by simp_all
          moreover have "flush_scope cid adds ?removes d = (Inr (), d')"
            using Pair Inr \<open>d1 = d'\<close> by simp
          moreover have "adds \<noteq> [] \<or> \<not> scope_ids d cid \<subseteq> set remove"
            using True kept by blast
          ultimately show ?thesis using Some adds by blast
        qed
      qed
    qed
  qed
qed

end
