(* ===== verification/AllocationTheorems.thy ===== *)
theory AllocationTheorems
  imports AllocationSpec
begin

text \<open>
  The properties of allocations and application keys, and their witnesses.
\<close>

section \<open>A concrete run\<close>

definition one_grant :: db where
  "one_grant = snd (create_allocation sample_env None ''azure/gpt-4o'' None None (Some ''Ann@x.org'')
     None None origin_admin empty_db)"

definition one_token :: string where
  "one_token = token_prefix @ token_urlsafe sample_env 1"

lemma one_grant_rows:
  "credentials one_grant = [\<lparr>c_id = ''U000'', c_member_id = ''U'', c_name = default_credential_name,
     c_token_fingerprint = CHR ''h'' # one_token, c_token_prefix = take 8 one_token,
     c_created_at = 1000000000, c_last_used_at = None, c_revoked_at = None\<rparr>]"
  "map a_id (allocations one_grant) = [''U00'']"
  "map a_resource_model (allocations one_grant) = [''azure/gpt-4o'']"
  "map a_status (allocations one_grant) = [active]"
  "credential_allocations one_grant =
     [\<lparr>ca_credential_id = ''U000'', ca_allocation_id = ''U00'', ca_resource_model = ''azure/gpt-4o''\<rparr>]"
  "fresh one_grant = 4"
  by (simp_all add: one_grant_def one_token_def create_allocation_def ensure_external_member_def
      issue_allocation_def Let_def case_prod_beta empty_db_def sample_env_def new_credential_def
      add_credential_row_def add_links_def fingerprint_for_def token_prefix_def tick_def
      bootstrap_admin_def numeral_nat)

definition one_owner :: member where
  "one_owner = hd (members one_grant)"

lemma one_grant_owner: "map a_member_id (allocations one_grant) = [''U'']" "m_id one_owner = ''U''"
  "device_auths one_grant = []" "oauth_auths one_grant = []" "oauth_cfg one_grant = None"
  "get_member (m_id one_owner) one_grant = Some one_owner"
  by (simp_all add: one_owner_def one_grant_def create_allocation_def ensure_external_member_def
      issue_allocation_def Let_def case_prod_beta empty_db_def sample_env_def new_credential_def
      add_credential_row_def add_links_def tick_def numeral_nat get_member_def)

lemma one_grant_owned: "\<exists>a. owned_allocations ''U'' [''U00''] one_grant = Inr [a]"
  using one_grant_rows(2) one_grant_owner(1)
  by (cases "allocations one_grant") (auto simp: owned_allocations_def get_allocation_def)

lemma one_grant_reach: "alloc_reach sample_env one_grant"
proof -
  have "alloc_reach sample_env empty_db" by (rule alloc_reach.start) (simp_all add: empty_db_def)
  moreover have "alloc_step sample_env empty_db (snd (create_allocation (at_time sample_env (now sample_env))
      None ''azure/gpt-4o'' None None (Some ''Ann@x.org'') None None origin_admin empty_db))"
    by (rule alloc_step.by_create)
  ultimately show ?thesis unfolding one_grant_def by (auto intro: alloc_reach.step)
qed

lemma one_grant_wf: "scope_wf sample_env one_grant"
  unfolding one_grant_def
  by (rule scope_wf_create [OF sample_env_ok scope_wf_start]) (simp_all add: empty_db_def)

section \<open>Properties\<close>

text \<open>C11: at every reachable session, whatever sequence of issuing, rotating, pausing, resuming,
  revoking and scope patching led there and whatever the other components did to their own tables,
  keys, fingerprints and primary keys are unique and each scope link joins a key with an
  allocation of the key's own member, with at most one link per key and model.\<close>

theorem reachable_scopes_well_formed:
  "alloc_reach e d \<Longrightarrow> env_ok e \<Longrightarrow> scope_wf e d"
proof (induction rule: alloc_reach.induct)
  case (start d)
  then show ?case by (simp add: scope_wf_start)
next
  case (step d d')
  then show ?case by (blast intro: scope_wf_step)
qed

theorem reachable_scopes_well_formed_witness: "scope_wf sample_env one_grant"
  by (rule reachable_scopes_well_formed [OF one_grant_reach sample_env_ok])

text \<open>C5: a bearer token and a requested model resolve to an allocation exactly when some unrevoked
  key has the token's fingerprint and its scope grants that model: the allocation of exactly this
  model, or, for a model named without provider that no allocation of the scope has exactly, the
  only allocation whose model is this one under some provider.  The allocation always belongs to
  the member who owns the key.\<close>

theorem bearer_resolution:
  assumes "scope_wf e d"
  shows "resolve_bearer e token model d = Some a \<longleftrightarrow>
    (\<exists>c \<in> set (credentials d). c_token_fingerprint c = fingerprint_for e token \<and>
       c_revoked_at c = None \<and> grants d c model a \<and> a_member_id a = c_member_id c)"
proof -
  have owner: "a_member_id a = c_member_id c" if "c \<in> set (credentials d)" "grants d c model a" for c
  proof -
    from that(2) obtain l where "(l, a) \<in> set (scope_join (c_id c) d)"
      by (fastforce simp: grants_def scope_of_def scope_join_mem)
    from scope_join_wf(1) [OF assms this that(1)] show ?thesis .
  qed
  have "resolve_bearer e token model d = Some a \<longleftrightarrow>
      (\<exists>c. key_of e token d = Some c \<and> grants d c model a)"
    using resolve_grants [OF assms] key_of_mem [of e token d]
    by (auto simp: resolve_bearer_key split: option.split)
  then show ?thesis
    using key_of_mem [of e token d] key_of_in [OF assms] owner by metis
qed

theorem bearer_resolution_witness:
  "resolve_bearer sample_env one_token ''gpt-4o'' one_grant = Some (hd (allocations one_grant)) \<longleftrightarrow>
    (\<exists>c \<in> set (credentials one_grant). c_token_fingerprint c = fingerprint_for sample_env one_token \<and>
       c_revoked_at c = None \<and> grants one_grant c ''gpt-4o'' (hd (allocations one_grant)) \<and>
       a_member_id (hd (allocations one_grant)) = c_member_id c)"
  by (rule bearer_resolution [OF one_grant_wf])

text \<open>Creating an allocation returns a token that resolves to that allocation for its model, and
  changes what no other token resolves to.\<close>

theorem create_then_resolve:
  assumes ok: "env_ok e" and wf: "scope_wf e d"
    and run: "create_allocation e mid model memo creator subject quota cost origin d = (Inr r, d')"
  shows "resolve_bearer e (g_plaintext (ac_token r)) model d' = Some (ac_allocation r) \<and>
    (\<forall>t k. t \<noteq> g_plaintext (ac_token r) \<longrightarrow> resolve_bearer e t k d' = resolve_bearer e t k d)"
proof -
  from run obtain m d0 where issue: "issue_allocation e m model memo creator quota cost origin d0 = (r, d')"
      and d0: "d0 = d \<or> (\<exists>s. d0 = snd (ensure_external_member e s d))"
    by (rule create_issues)
  have "scope_wf e d0" using d0 wf scope_wf_ensure_member by blast
  moreover have "resolve_bearer e t k d0 = resolve_bearer e t k d" for t k
    using d0 by (auto intro: resolve_bearer_cong)
  ultimately show ?thesis using issue_resolves [OF ok _ issue] by simp
qed

theorem create_then_resolve_witness:
  "\<exists>r. create_allocation sample_env None ''azure/gpt-4o'' None None (Some ''Ann@x.org'') None None
        origin_admin empty_db = (Inr r, one_grant) \<and>
     resolve_bearer sample_env (g_plaintext (ac_token r)) ''azure/gpt-4o'' one_grant = Some (ac_allocation r)"
proof -
  obtain r where r: "create_allocation sample_env None ''azure/gpt-4o'' None None (Some ''Ann@x.org'')
      None None origin_admin empty_db = (Inr r, one_grant)"
    by (simp add: one_grant_def create_allocation_def case_prod_beta)
  have "scope_wf sample_env empty_db" by (rule scope_wf_start) (simp_all add: empty_db_def)
  from create_then_resolve [OF sample_env_ok this r] r show ?thesis by blast
qed

text \<open>C9: rotating a usable key always succeeds; from then on the new token resolves exactly as the
  old one did, the old one resolves nothing, and no other token is affected.\<close>

theorem rotate_replaces_token:
  assumes ok: "env_ok e" and wf: "scope_wf e d" and key: "key_of e old d = Some c"
  shows "\<exists>c' tok d'. rotate_credential e (c_id c) d = (Inr (Some (c', tok)), d') \<and>
    (\<forall>k. resolve_bearer e (g_plaintext tok) k d' = resolve_bearer e old k d) \<and>
    (\<forall>k. resolve_bearer e old k d' = None) \<and>
    (\<forall>t k. t \<noteq> old \<longrightarrow> t \<noteq> g_plaintext tok \<longrightarrow> resolve_bearer e t k d' = resolve_bearer e t k d)"
proof -
  let ?tok = "fst (generate_token e d)"
  let ?f = "\<lambda>c. c\<lparr>c_token_fingerprint := g_fingerprint ?tok, c_token_prefix := g_prefix ?tok,
    c_last_used_at := None\<rparr>"
  let ?d = "set_credential (c_id c) ?f (tick d)"
  have c: "get_credential (c_id c) d = Some c" "c_revoked_at c = None"
    using get_credential_in [OF wf] key_of_mem [OF key] by auto
  have run: "rotate_credential e (c_id c) d = (Inr (Some (?f c, ?tok)), ?d)"
    using c by (simp add: rotate_credential_def Let_def case_prod_beta)
  note r = rotate_resolves [OF ok wf key, of "g_plaintext ?tok" ?f]
  have "resolve_bearer e (g_plaintext ?tok) k ?d = resolve_bearer e old k d" for k
    by (rule r) simp_all
  moreover have "resolve_bearer e old k ?d = None" for k by (rule r) simp_all
  moreover have "resolve_bearer e t k ?d = resolve_bearer e t k d"
    if "t \<noteq> old" "t \<noteq> g_plaintext ?tok" for t k
    by (rule r) (simp_all add: that del: generate_token_fields(1), simp_all)
  ultimately show ?thesis using run by blast
qed

lemma one_grant_key: "key_of sample_env one_token one_grant = Some (hd (credentials one_grant))"
  by (simp add: key_of_def one_grant_rows fingerprint_for_def sample_env_def)

theorem rotate_replaces_token_witness:
  "\<exists>c' tok d'. rotate_credential sample_env (c_id (hd (credentials one_grant))) one_grant =
       (Inr (Some (c', tok)), d') \<and>
     (\<forall>k. resolve_bearer sample_env one_token k d' = None)"
  using rotate_replaces_token [OF sample_env_ok one_grant_wf one_grant_key] by blast

text \<open>Once a key is revoked its token resolves nothing, and no later sequence of operations
  (rotation of the key or of the allocation's token included) makes it resolve again.\<close>

theorem revoked_key_stays_dead:
  assumes ok: "env_ok e" and wf: "scope_wf e d" and key: "key_of e token d = Some c"
    and run: "revoke_credential e (c_id c) d = (r, d')" and later: "(alloc_step e)\<^sup>*\<^sup>* d' d''"
  shows "resolve_bearer e token model d'' = None"
proof -
  have c: "c \<in> set (credentials d)" "c_token_fingerprint c = fingerprint_for e token" "c_revoked_at c = None"
    using key_of_mem [OF key] by auto
  have "get_credential (c_id c) d = Some c" by (rule get_credential_in [OF wf c(1)])
  with c(3) run have d': "d' = set_credential (c_id c) (\<lambda>c. c\<lparr>c_revoked_at := Some (now e)\<rparr>) d"
    by (simp add: revoke_credential_def)
  have "c\<lparr>c_revoked_at := Some (now e)\<rparr> \<in> set (credentials d')"
    using c(1) by (auto simp: d' set_update_where)
  with c(2) have dead: "dead_token e token d'"
    unfolding dead_token_def by (intro bexI) simp_all
  have wf': "scope_wf e d'" using scope_wf_revoke_key [OF wf, of e "c_id c"] run by simp
  from later have "dead_token e token d'' \<and> scope_wf e d''"
  proof (induction rule: rtranclp_induct)
    case base
    from dead wf' show ?case by simp
  next
    case (step x y)
    then show ?case
      using dead_token_kept [OF _ keeps_revoked_step] scope_wf_step [OF _ ok] by blast
  qed
  then show ?thesis by (blast intro: dead_token_resolves_nothing)
qed

theorem revoked_key_stays_dead_witness:
  "resolve_bearer sample_env one_token ''azure/gpt-4o''
     (snd (rotate_token sample_env ''U00'' (snd (revoke_credential sample_env ''U000'' one_grant)))) = None"
proof -
  let ?d = "snd (revoke_credential sample_env ''U000'' one_grant)"
  have id: "c_id (hd (credentials one_grant)) = ''U000''" by (simp add: one_grant_rows)
  have "alloc_step sample_env ?d (snd (rotate_token (at_time sample_env (now sample_env)) ''U00'' ?d))"
    by (rule alloc_step.by_rotate_token)
  then have run: "(alloc_step sample_env)\<^sup>*\<^sup>* ?d (snd (rotate_token sample_env ''U00'' ?d))"
    by auto
  show ?thesis
    by (rule revoked_key_stays_dead [OF sample_env_ok one_grant_wf one_grant_key _ run])
       (simp add: id prod_eq_iff)
qed

text \<open>A scope patch is atomic.  If it succeeds, the key's scope is what it was less the removed
  ids plus the added ones, is not empty, no other key's scope and no allocation or key changed;
  if it does not, the session is as it was.\<close>

theorem patch_scope_effect:
  assumes "patch_credential_scope cid add remove d = (r, d')"
  shows "(case r of
      Inr (Some c) \<Rightarrow>
        scope_ids d' cid = (scope_ids d cid - set remove) \<union> (set add - scope_ids d cid) \<and>
        scope_ids d' cid \<noteq> {} \<and> (\<forall>other. other \<noteq> cid \<longrightarrow> scope_ids d' other = scope_ids d other) \<and>
        credentials d' = credentials d \<and> allocations d' = allocations d
    | _ \<Rightarrow> d' = d)"
proof (cases "\<exists>c. r = Inr (Some c)")
  case False
  with patch_flush [OF assms] have "d' = d" by blast
  with False show ?thesis by (auto split: sum.split option.split)
next
  case True
  let ?removes = "filter (\<lambda>x. x \<in> set remove) (map ca_allocation_id
          (filter (\<lambda>l. ca_credential_id l = cid) (credential_allocations d)))"
  from True have "\<not> (\<exists>err. r = Inl err)" "r \<noteq> Inr None" by auto
  with patch_flush [OF assms] obtain c adds
    where r: "r = Inr (Some c)" and adds: "a_id ` set adds = set add - scope_ids d cid"
      and flush: "flush_scope cid adds ?removes d = (Inr (), d')"
      and some: "adds \<noteq> [] \<or> \<not> scope_ids d cid \<subseteq> set remove"
    by blast
  have "set ?removes = scope_ids d cid \<inter> set remove" by (auto simp: scope_ids_def)
  with flush_scope_ids(1) [OF flush] adds
  have ids: "scope_ids d' cid = (scope_ids d cid - set remove) \<union> (set add - scope_ids d cid)" by auto
  moreover have "scope_ids d' cid \<noteq> {}"
    using some adds unfolding ids by (metis Diff_eq_empty_iff Un_empty image_is_empty set_empty)
  moreover have "credentials d' = credentials d \<and> allocations d' = allocations d"
    using flush by (auto simp: flush_scope_def Let_def add_links_def split: if_splits)
  ultimately show ?thesis using r flush_scope_ids(2) [OF flush] by simp
qed

theorem patch_scope_effect_witness:
  "\<exists>r d'. patch_credential_scope ''U000'' [] [''U00''] one_grant = (r, d') \<and> r = Inl EmptyScope \<and>
     (case r of
      Inr (Some c) \<Rightarrow>
        scope_ids d' ''U000'' = (scope_ids one_grant ''U000'' - set [''U00'']) \<union>
          (set [] - scope_ids one_grant ''U000'') \<and>
        scope_ids d' ''U000'' \<noteq> {} \<and>
        (\<forall>other. other \<noteq> ''U000'' \<longrightarrow> scope_ids d' other = scope_ids one_grant other) \<and>
        credentials d' = credentials one_grant \<and> allocations d' = allocations one_grant
    | _ \<Rightarrow> d' = one_grant)"
proof -
  have run: "patch_credential_scope ''U000'' [] [''U00''] one_grant = (Inl EmptyScope, one_grant)"
    by (simp add: patch_credential_scope_def get_credential_def one_grant_rows owned_allocations_def Let_def)
  from run patch_scope_effect [OF run] show ?thesis by blast
qed

text \<open>Replacing an allocation of a scope by another allocation of the same model in one patch
  passes the duplicate check, which looks at the links that are kept, and then fails at the flush:
  the new link is inserted before the old one is deleted, against the unique constraint on key
  and model.\<close>

theorem patch_swap_same_model_fails:
  assumes wf: "scope_wf e d" and key: "get_credential cid d = Some c"
    and old: "l \<in> set (credential_allocations d)" "ca_credential_id l = cid"
    and swap: "get_allocation b d = Some new" "a_member_id new = c_member_id c"
      "a_resource_model new = ca_resource_model l" "b \<notin> scope_ids d cid"
  shows "patch_credential_scope cid [b] [ca_allocation_id l] d = (Inl IntegrityError, d)"
proof -
  let ?links = "filter (\<lambda>l. ca_credential_id l = cid) (credential_allocations d)"
  have "b \<notin> ca_allocation_id ` set ?links" using swap(4) by (simp add: scope_ids_def)
  then have aids: "filter (\<lambda>a. a \<notin> set (map ca_allocation_id ?links)) [b] = [b]" by simp
  have owned: "owned_allocations (c_member_id c) [b] d = Inr [new]"
    using swap by (simp add: owned_allocations_def)
  have kept: "ca_resource_model k \<noteq> a_resource_model new"
    if "k \<in> set ?links" "ca_allocation_id k \<noteq> ca_allocation_id l" for k
  proof
    assume "ca_resource_model k = a_resource_model new"
    then have "k = l"
      by (intro distinct_map_eqD [of "\<lambda>l. (ca_credential_id l, ca_resource_model l)" "credential_allocations d"])
         (use wf that old swap(3) in \<open>simp_all add: scope_wf_def links_wf_def\<close>)
    with that(2) show False by simp
  qed
  then have "a_resource_model new \<notin> ca_resource_model `
      set (filter (\<lambda>l'. ca_allocation_id l' \<notin> set [ca_allocation_id l]) ?links)"
    by (metis (no_types, lifting) filter_set imageE list.set_intros(1) set_filter mem_Collect_eq)
  then have dup: "find (\<lambda>a. a_resource_model a \<in> set (map ca_resource_model
      (filter (\<lambda>l'. ca_allocation_id l' \<notin> set [ca_allocation_id l]) ?links))) [new] = None" by simp
  have "a_resource_model new \<in> ca_resource_model ` set ?links"
    using old swap(3) by auto
  then have flush: "flush_scope cid [new] rs d = (Inl IntegrityError, d)" for rs
    by (simp add: flush_scope_def)
  show ?thesis
    unfolding patch_credential_scope_def Let_def key option.case aids owned sum.case dup flush
    by simp
qed

text \<open>Two grants of one model to one member, the second not yet in the scope of the first key.\<close>

definition two_grants :: db where
  "two_grants = snd (create_allocation sample_env None ''azure/gpt-4o'' None None (Some ''Ann@x.org'')
     None None origin_admin one_grant)"

theorem patch_swap_same_model_fails_witness:
  "patch_credential_scope ''U000'' [''U00000''] [''U00''] two_grants = (Inl IntegrityError, two_grants)"
proof -
  have wf: "scope_wf sample_env two_grants"
    unfolding two_grants_def by (rule scope_wf_create [OF sample_env_ok one_grant_wf])
  let ?l = "\<lparr>ca_credential_id = ''U000'', ca_allocation_id = ''U00'', ca_resource_model = ''azure/gpt-4o''\<rparr>"
  have "get_credential ''U000'' two_grants = Some (hd (credentials two_grants))"
    "?l \<in> set (credential_allocations two_grants)"
    "get_allocation ''U00000'' two_grants = Some (last (allocations two_grants))"
    "a_member_id (last (allocations two_grants)) = c_member_id (hd (credentials two_grants))"
    "a_resource_model (last (allocations two_grants)) = ca_resource_model ?l"
    "''U00000'' \<notin> scope_ids two_grants ''U000''"
    by (simp_all add: two_grants_def one_grant_def create_allocation_def ensure_external_member_def
      issue_allocation_def Let_def case_prod_beta empty_db_def sample_env_def new_credential_def
      add_credential_row_def add_links_def fingerprint_for_def token_prefix_def tick_def
      bootstrap_admin_def numeral_nat get_credential_def get_allocation_def scope_ids_def lower_def
      lower_char_def) auto
  from patch_swap_same_model_fails [OF wf this(1,2) _ this(3-6)] show ?thesis by simp
qed

end
