(* ===== verification/PyTime.thy ===== *)
theory PyTime
  imports Prelude
begin

text \<open>
  The calendar of \<open>datetime\<close>: a month is counted by \<open>12 * year + month - 1\<close>, and the month of
  a time is found by stepping through the months from January 1970, where the timestamps start.
\<close>

definition is_leap :: "int \<Rightarrow> bool" where
  "is_leap y \<longleftrightarrow> 4 dvd y \<and> (\<not> 100 dvd y \<or> 400 dvd y)"

definition month_days :: "int \<Rightarrow> int" where
  "month_days m =
     (let y = m div 12; k = m mod 12 in
      if k = 1 then (if is_leap y then 29 else 28)
      else if k = 3 \<or> k = 5 \<or> k = 8 \<or> k = 10 then 30 else 31)"

definition month_length :: "int \<Rightarrow> int" where
  "month_length m = month_days m * seconds 86400"

lemma month_length_pos [simp]: "0 < month_length m"
  by (simp add: month_length_def month_days_def Let_def)

function month_from :: "int \<Rightarrow> timestamp \<Rightarrow> timestamp \<Rightarrow> int \<times> timestamp" where
  "month_from m start t =
     (if t < start + month_length m then (m, start)
      else month_from (m + 1) (start + month_length m) t)"
  by pat_completeness auto
termination
proof (relation "measure (\<lambda>(m, start, t). nat (t - start))", goal_cases)
  case (2 m start t)
  then have "start < t" using month_length_pos [of m] by linarith
  then show ?case using month_length_pos [of m] by simp
qed simp

declare month_from.simps [simp del]

definition epoch_month :: int where
  "epoch_month = 12 * 1970"

text \<open>The month a time falls in and the time it starts.\<close>

definition month_at :: "timestamp \<Rightarrow> int \<times> timestamp" where
  "month_at t = month_from epoch_month 0 t"

abbreviation month_start_of :: "timestamp \<Rightarrow> timestamp" where
  "month_start_of t \<equiv> snd (month_at t)"

text \<open>\<open>strftime\<close> with year and month.\<close>

definition year_month :: "int \<Rightarrow> int \<times> int" where
  "year_month m = (m div 12, m mod 12 + 1)"

lemma year_month_inj: "year_month m = year_month m' \<longleftrightarrow> m = m'"
proof
  assume "year_month m = year_month m'"
  then have "m div 12 = m' div 12" "m mod 12 = m' mod 12" by (simp_all add: year_month_def)
  then show "m = m'" by (metis div_mult_mod_eq)
qed simp

lemma month_from_bounds:
  assumes "start \<le> t" and "month_from m start t = (k, s)"
  shows "s \<le> t \<and> t < s + month_length k"
  using assms
proof (induction m start t rule: month_from.induct)
  case (1 m start t)
  show ?case
  proof (cases "t < start + month_length m")
    case True
    with "1.prems" show ?thesis by (simp add: month_from.simps [of m])
  next
    case False
    with "1.prems"(2) have "month_from (m + 1) (start + month_length m) t = (k, s)"
      by (simp add: month_from.simps [of m])
    with "1.IH" [OF False] False show ?thesis by simp
  qed
qed

lemma month_at_bounds:
  assumes "0 \<le> t"
  shows "month_start_of t \<le> t" "t < month_start_of t + month_length (fst (month_at t))"
  using month_from_bounds [of 0 t epoch_month "fst (month_at t)" "month_start_of t"] assms
  by (simp_all add: month_at_def)

lemma month_from_same:
  assumes "month_from m start t = (k, s)" "s \<le> t'" "t' \<le> t" "start \<le> t'"
  shows "month_from m start t' = (k, s)"
  using assms
proof (induction m start t rule: month_from.induct)
  case (1 m start t)
  show ?case
  proof (cases "t < start + month_length m")
    case True
    with "1.prems"(1) have "m = k" "start = s" by (simp_all add: month_from.simps [of m start t])
    with True "1.prems"(3) show ?thesis by (subst month_from.simps) simp
  next
    case False
    with "1.prems"(1) have step: "month_from (m + 1) (start + month_length m) t = (k, s)"
      by (simp add: month_from.simps [of m])
    have "start + month_length m \<le> s"
    proof -
      have "a \<le> snd (month_from n a u)" for n a u
      proof (induction n a u rule: month_from.induct)
        case (1 n a u)
        show ?case
        proof (cases "u < a + month_length n")
          case False
          with 1 have "a + month_length n \<le> snd (month_from n a u)"
            by (simp add: month_from.simps [of n a u])
          with month_length_pos [of n] show ?thesis by linarith
        qed (simp add: month_from.simps [of n a u])
      qed
      from this [of "start + month_length m" "m + 1" t] step show ?thesis by simp
    qed
    with "1.prems"(2) have "\<not> t' < start + month_length m" by simp
    with "1.IH" [OF False step "1.prems"(2,3)] show ?thesis
      by (subst month_from.simps) simp
  qed
qed

lemma month_at_same:
  "month_start_of t \<le> t' \<Longrightarrow> t' \<le> t \<Longrightarrow> 0 \<le> t' \<Longrightarrow> month_at t' = month_at t"
  unfolding month_at_def
  by (metis month_from_same prod.collapse)

end
