(* ===== verification/Quota.thy ===== *)
theory Quota
  imports Samples PyTime
begin

text \<open>
  \<open>services/quota.py\<close>: the successful usage of an allocation in the current month, in tokens
  and in cost, and the two caps.  Both caps are one interface, the locale \<open>monthly_cap\<close>: an
  allocation is over its cap when the cap is at most what it used.
\<close>

section \<open>The service\<close>

definition current_month_start_utc :: "timestamp \<Rightarrow> timestamp" where
  "current_month_start_utc n = month_start_of n"

text \<open>The rows the two sums range over.\<close>

definition month_calls :: "timestamp \<Rightarrow> string \<Rightarrow> db \<Rightarrow> call_record list" where
  "month_calls start aid d =
     filter (\<lambda>r. r_allocation_id r = Some aid \<and> r_outcome r = success \<and> start \<le> r_started_at r)
       (call_records d)"

text \<open>A SUM skips NULLs, and \<open>coalesce\<close> turns the sum of no rows into 0.\<close>

definition sum_column :: "('r \<Rightarrow> int option) \<Rightarrow> 'r list \<Rightarrow> int" where
  "sum_column f rs = sum_list (List.map_filter f rs)"

definition current_month_usage :: "env \<Rightarrow> string \<Rightarrow> db \<Rightarrow> int" where
  "current_month_usage e aid d =
     sum_column r_total_tokens (month_calls (current_month_start_utc (now e)) aid d)"

definition is_over_quota :: "allocation \<Rightarrow> int \<Rightarrow> bool" where
  "is_over_quota a usage =
     (case a_quota_tokens a of None \<Rightarrow> False | Some cap \<Rightarrow> cap \<le> usage)"

definition current_month_cost :: "env \<Rightarrow> string \<Rightarrow> db \<Rightarrow> decimal" where
  "current_month_cost e aid d =
     dec_sum (List.map_filter r_cost_usd (month_calls (current_month_start_utc (now e)) aid d))"

definition is_over_cost_quota :: "allocation \<Rightarrow> decimal \<Rightarrow> bool" where
  "is_over_cost_quota a cost =
     (case a_quota_cost a of None \<Rightarrow> False | Some cap \<Rightarrow> dec_le cap cost)"

section \<open>Caps\<close>

text \<open>
  Serving calls one after the other, each admitted, and its record written, only while the gate
  is not closed.
\<close>

fun serve :: "(db \<Rightarrow> bool) \<Rightarrow> call_record list \<Rightarrow> db \<Rightarrow> db" where
  "serve gate [] d = d"
| "serve gate (r # rs) d =
     serve gate rs (if gate d then d else call_records_update (\<lambda>rows. rows @ [r]) d)"

text \<open>
  What the two caps share: an amount per call, whose sum in some exact measure is the usage, and
  the comparison of that measure with the cap.
\<close>

locale monthly_cap =
  fixes cap :: "allocation \<Rightarrow> 'u option"
    and amount :: "call_record \<Rightarrow> 'u option"
    and usage :: "env \<Rightarrow> string \<Rightarrow> db \<Rightarrow> 'u"
    and over :: "allocation \<Rightarrow> 'u \<Rightarrow> bool"
    and measure_of :: "'u \<Rightarrow> rat"
  assumes over_iff: "over a u \<longleftrightarrow> (\<exists>c. cap a = Some c \<and> measure_of c \<le> measure_of u)"
    and usage_sum: "measure_of (usage e aid d) =
      (\<Sum>u \<leftarrow> List.map_filter amount (month_calls (current_month_start_utc (now e)) aid d). measure_of u)"
begin

definition spent :: "call_record \<Rightarrow> rat" where
  "spent r = (case amount r of None \<Rightarrow> 0 | Some u \<Rightarrow> measure_of u)"

lemma usage_spent:
  "measure_of (usage e aid d) =
     (\<Sum>r \<leftarrow> month_calls (current_month_start_utc (now e)) aid d. spent r)"
proof -
  have "(\<Sum>u \<leftarrow> List.map_filter amount rs. measure_of u) = (\<Sum>r \<leftarrow> rs. spent r)" for rs
    by (induction rs) (auto simp: List.map_filter_simps spent_def split: option.split)
  then show ?thesis by (simp add: usage_sum)
qed

lemma unlimited: "cap a = None \<Longrightarrow> \<not> over a u"
  by (simp add: over_iff)

text \<open>Recording one more call.\<close>

lemma usage_recorded:
  "measure_of (usage e aid (call_records_update (\<lambda>rs. rs @ [r]) d)) =
     measure_of (usage e aid d) +
       (if r_allocation_id r = Some aid \<and> r_outcome r = success \<and>
           current_month_start_utc (now e) \<le> r_started_at r then spent r else 0)"
  by (simp add: usage_spent month_calls_def)

lemma serve_bound:
  assumes "cap a = Some c"
    and "\<And>r. r \<in> set rs \<Longrightarrow> spent r \<le> b" and "0 \<le> b"
    and "measure_of (usage e (a_id a) d) < measure_of c + b"
  shows "measure_of (usage e (a_id a) (serve (\<lambda>d. over a (usage e (a_id a) d)) rs d)) < measure_of c + b"
  using assms
proof (induction rs arbitrary: d)
  case (Cons r rs)
  have "measure_of (usage e (a_id a) (call_records_update (\<lambda>rows. rows @ [r]) d)) < measure_of c + b"
    if "\<not> over a (usage e (a_id a) d)"
  proof -
    from that Cons.prems(1) have "measure_of (usage e (a_id a) d) < measure_of c"
      by (simp add: over_iff)
    moreover have "spent r \<le> b" using Cons.prems(2) by simp
    ultimately show ?thesis using Cons.prems(3,4) by (simp add: usage_recorded)
  qed
  with Cons show ?case by simp
qed simp

text \<open>Past the cap nothing is recorded.\<close>

lemma serve_over: "over a (usage e (a_id a) d) \<Longrightarrow> serve (\<lambda>d. over a (usage e (a_id a) d)) rs d = d"
  by (induction rs) simp_all

end

interpretation token_cap: monthly_cap a_quota_tokens r_total_tokens current_month_usage is_over_quota of_int
proof unfold_locales
  show "is_over_quota a u \<longleftrightarrow> (\<exists>c. a_quota_tokens a = Some c \<and> (of_int c :: rat) \<le> of_int u)" for a u
    by (simp add: is_over_quota_def split: option.split)
next
  have "(of_int (sum_list us) :: rat) = (\<Sum>u \<leftarrow> us. of_int u)" for us
    by (induction us) simp_all
  then show "(of_int (current_month_usage e aid d) :: rat) =
      (\<Sum>u \<leftarrow> List.map_filter r_total_tokens (month_calls (current_month_start_utc (now e)) aid d). of_int u)"
    for e aid d
    by (simp add: current_month_usage_def sum_column_def)
qed

interpretation cost_cap: monthly_cap a_quota_cost r_cost_usd current_month_cost is_over_cost_quota dec_val
  by unfold_locales
     (simp_all add: is_over_cost_quota_def dec_le_val current_month_cost_def dec_val_sum split: option.split)

section \<open>Properties\<close>

text \<open>Calls that are admitted one after the other, each only while the allocation is below its
  token cap, take the month's usage past the cap by less than one call.\<close>

theorem token_cap_overshoot:
  assumes "a_quota_tokens a = Some c" "0 \<le> b" "current_month_usage e (a_id a) d < c + b"
    and "\<forall>r \<in> set rs. \<forall>t. r_total_tokens r = Some t \<longrightarrow> t \<le> b"
  shows "current_month_usage e (a_id a) (serve (\<lambda>d. is_over_quota a (current_month_usage e (a_id a) d)) rs d) < c + b"
proof -
  have spent: "token_cap.spent r \<le> of_int b" if "r \<in> set rs" for r
    using assms(2,4) that by (auto simp: token_cap.spent_def split: option.split)
  have "(of_int (current_month_usage e (a_id a) d) :: rat) < of_int c + of_int b"
    using assms(3) by (simp only: of_int_add [symmetric] of_int_less_iff)
  from token_cap.serve_bound [OF assms(1) spent _ this] assms(2)
  have "(of_int (current_month_usage e (a_id a) (serve (\<lambda>d. is_over_quota a (current_month_usage e (a_id a) d)) rs d)) :: rat) < of_int (c + b)"
    by simp
  then show ?thesis by (simp only: of_int_less_iff)
qed

definition sample_call :: "string \<Rightarrow> int \<Rightarrow> timestamp \<Rightarrow> call_record" where
  "sample_call aid tokens t =
     \<lparr>r_id = ''r'', r_request_id = ''q'', r_allocation_id = Some aid, r_subject = None,
      r_model = None, r_started_at = t, r_finished_at = t, r_status_code = 200,
      r_outcome = success, r_prompt_tokens = None, r_completion_tokens = None,
      r_total_tokens = Some tokens, r_reasoning_tokens = None, r_cached_tokens = None,
      r_cost_usd = None, r_quantity = None, r_unit = None, r_error_message = None\<rparr>"

theorem token_cap_overshoot_witness:
  "current_month_usage sample_env ''a1''
     (serve (\<lambda>d. is_over_quota ((sample_allocation ''a1'' ''azure/m'')\<lparr>a_quota_tokens := Some 100\<rparr>)
          (current_month_usage sample_env ''a1'' d))
        [sample_call ''a1'' 90 1000000000, sample_call ''a1'' 80 1000000000] empty_db) < 100 + 90"
  using token_cap_overshoot [of "(sample_allocation ''a1'' ''azure/m'')\<lparr>a_quota_tokens := Some 100\<rparr>"
      100 90 sample_env empty_db "[sample_call ''a1'' 90 1000000000, sample_call ''a1'' 80 1000000000]"]
  by (simp add: sample_allocation_def current_month_usage_def sum_column_def month_calls_def
      empty_db_def sample_call_def List.map_filter_simps)

end
