(* ===== verification/QuotaPool.thy ===== *)
theory QuotaPool
  imports Quota "HOL-Library.Product_Lexorder"
begin

text \<open>
  \<open>services/quota_pool.py\<close>: the monthly redistribution of the token pool.  \<open>compute_rebalance\<close>
  is the pure apportionment, with Python's float division where the source divides;
  \<open>apply_rebalance\<close> reads the pool from the session, writes the new quotas and the log.  The
  callers are \<open>update_pool_config\<close> and \<open>manual_rebalance\<close> (\<open>api/quota_pool.py\<close>) and the cron
  job (\<open>cli/run_rebalance.py\<close>).
\<close>

section \<open>The apportionment\<close>

record pool_member =
  pm_id :: string
  pm_usage :: int

record rebalance_result =
  rr_id :: string
  rr_quota :: int
  rr_reason :: string

datatype pool_error =
    PoolDisabled | PoolIdle | PoolExhaustedByReserved int int nat | RebalanceConservation
  | ColumnOutOfRange

definition previous_month_range_utc :: "timestamp \<Rightarrow> timestamp \<times> timestamp" where
  "previous_month_range_utc n =
     (let (m, this_start) = month_at n in (this_start - month_length (m - 1), this_start))"

definition add_at :: "nat \<Rightarrow> int \<Rightarrow> int list \<Rightarrow> int list" where
  "add_at k x xs = xs[k := xs ! k + x]"

definition assert_conservation :: "rebalance_result list \<Rightarrow> int \<Rightarrow> int \<Rightarrow> pool_error + rebalance_result list" where
  "assert_conservation results reserved T =
     (if sum_list (map rr_quota results) + reserved \<noteq> T then Inl RebalanceConservation
      else Inr results)"

text \<open>One share of the bonus: true division, then truncation.\<close>

definition bonus_share :: "int \<Rightarrow> int \<Rightarrow> int \<Rightarrow> int" where
  "bonus_share bonus total_usage u =
     (if u = 0 then 0 else py_int_of_float (py_truediv (bonus * u) total_usage))"

definition compute_rebalance ::
  "int \<Rightarrow> int \<Rightarrow> int \<Rightarrow> pool_member list \<Rightarrow> pool_error + rebalance_result list" where
  "compute_rebalance T base reserved ms =
     (let N = length ms in
      if N = 0 then Inr []
      else
        (let distributable = T - reserved in
         if distributable < base * int N
         then Inl (PoolExhaustedByReserved distributable base N)
         else
           (let total_usage = sum_list (map pm_usage ms) in
            if total_usage = 0 then
              (let each = distributable div int N;
                   leftover = distributable - each * int N;
                   target = argmax pm_id ms;
                   quotas = add_at target leftover (replicate N each)
               in assert_conservation
                    (map2 (\<lambda>m q. \<lparr>rr_id = pm_id m, rr_quota = q, rr_reason = ''first_round''\<rparr>) ms quotas)
                    reserved T)
            else
              (let bonus = distributable - base * int N;
                   shares = map (\<lambda>m. bonus_share bonus total_usage (pm_usage m)) ms;
                   leftover = bonus - sum_list shares;
                   target = argmax (\<lambda>m. (pm_usage m, pm_id m)) ms;
                   shares' = add_at target leftover shares
               in assert_conservation
                    (map2 (\<lambda>m s. \<lparr>rr_id = pm_id m, rr_quota = base + s,
                                   rr_reason = (if pm_usage m = 0 then ''floor'' else ''ratio'')\<rparr>)
                       ms shares')
                    reserved T))))"

section \<open>The pool in the session\<close>

definition get_pool_config :: "env \<Rightarrow> db \<Rightarrow> pool_config \<times> db" where
  "get_pool_config e d =
     (case pool d of
        Some c \<Rightarrow> (c, d)
      | None \<Rightarrow>
          (let c = \<lparr>pool_total = pool_total_tokens_per_month (cfg e),
                    pool_floor = pool_floor_per_allocation (cfg e),
                    pool_updated_at = now e, pool_updated_by = None\<rparr>
           in (c, d\<lparr>pool := Some c\<rparr>)))"

definition in_pool :: "allocation \<Rightarrow> bool" where
  "in_pool a \<longleftrightarrow> a_status a = active \<and> \<not> a_is_service a \<and> \<not> a_quota_locked a"

definition is_reserved :: "allocation \<Rightarrow> bool" where
  "is_reserved a \<longleftrightarrow> a_status a = active \<and> (a_is_service a \<or> a_quota_locked a)"

definition quota_or_zero :: "allocation \<Rightarrow> int" where
  "quota_or_zero a = (case a_quota_tokens a of None \<Rightarrow> 0 | Some q \<Rightarrow> q)"

definition active_pool_member_count :: "db \<Rightarrow> nat" where
  "active_pool_member_count d = length (filter in_pool (allocations d))"

definition period_calls :: "timestamp \<times> timestamp \<Rightarrow> db \<Rightarrow> call_record list" where
  "period_calls period d =
     filter (\<lambda>r. r_outcome r = success \<and> fst period \<le> r_started_at r \<and> r_started_at r < snd period)
       (call_records d)"

definition recent_month_usage :: "env \<Rightarrow> db \<Rightarrow> int" where
  "recent_month_usage e d =
     sum_column r_total_tokens (period_calls (previous_month_range_utc (now e)) d)"

record pool_suggestion =
  ps_recent :: int
  ps_members :: nat
  ps_total :: int
  ps_floor :: int

definition suggest_pool_config :: "env \<Rightarrow> db \<Rightarrow> pool_suggestion" where
  "suggest_pool_config e d =
     (let recent = recent_month_usage e d;
          n = active_pool_member_count d;
          doubled = recent * 2
      in \<lparr>ps_recent = recent, ps_members = n, ps_total = doubled,
          ps_floor = (if 0 < n \<and> 0 < doubled then max 1000 (doubled div (2 * int n)) else 1000)\<rparr>)"

definition trigger_actor :: "string \<Rightarrow> actor_type" where
  "trigger_actor trigger = (if trigger = ''cron'' then actor_system else actor_admin)"

definition write_failure_audit :: "env \<Rightarrow> string \<Rightarrow> audit_event \<Rightarrow> string \<Rightarrow> db \<Rightarrow> db" where
  "write_failure_audit e trigger ev reason d =
     audit_record e ev (trigger_actor trigger) (Some trigger) (Some ''quota_pool'') None
       [(''reason'', JStr reason)] d"

definition reserved_total :: "db \<Rightarrow> int" where
  "reserved_total d = sum_list (map quota_or_zero (filter is_reserved (allocations d)))"

text \<open>The outer join with last month's successful calls, grouped by allocation and sorted.\<close>

definition pool_members :: "timestamp \<times> timestamp \<Rightarrow> db \<Rightarrow> pool_member list" where
  "pool_members period d =
     map (\<lambda>a. \<lparr>pm_id = a_id a,
               pm_usage = sum_column r_total_tokens
                  (filter (\<lambda>r. r_allocation_id r = Some (a_id a)) (period_calls period d))\<rparr>)
       (sort_key a_id (filter in_pool (allocations d)))"

definition before_quota :: "string \<Rightarrow> db \<Rightarrow> int" where
  "before_quota aid d =
     (case find (\<lambda>a. a_id a = aid) (allocations d) of None \<Rightarrow> 0 | Some a \<Rightarrow> quota_or_zero a)"

text \<open>The loop that fills the log: details, number of changes, and the target of the leftover.\<close>

definition log_details :: "db \<Rightarrow> pool_member list \<Rightarrow> rebalance_result list \<Rightarrow> rebalance_detail list" where
  "log_details d ms rs =
     map2 (\<lambda>m r. \<lparr>rd_id = rr_id r, rd_before = before_quota (pm_id m) d, rd_after = rr_quota r,
                  rd_usage = pm_usage m, rd_reason = rr_reason r\<rparr>) ms rs"

fun leftover_scan :: "pool_member list \<Rightarrow> int \<Rightarrow> string option \<Rightarrow> string option" where
  "leftover_scan [] max_usage target = target"
| "leftover_scan (m # ms) max_usage target =
     (if max_usage \<le> pm_usage m then leftover_scan ms (pm_usage m) (Some (pm_id m))
      else leftover_scan ms max_usage target)"

definition write_quota :: "rebalance_result \<Rightarrow> db \<Rightarrow> db" where
  "write_quota r d =
     allocations_update (update_where (\<lambda>a. a_id a = rr_id r \<and> in_pool a)
       (\<lambda>a. a\<lparr>a_quota_tokens := Some (rr_quota r)\<rparr>)) d"

text \<open>\<open>T_before\<close> and \<open>T_after\<close> are 32-bit columns.\<close>

definition fits_int32 :: "int \<Rightarrow> bool" where
  "fits_int32 n \<longleftrightarrow> - (2 ^ 31) \<le> n \<and> n < 2 ^ 31"

text \<open>The unique index on the month of the rebalances triggered by cron.\<close>

definition cron_log_exists :: "rebalance_log \<Rightarrow> db \<Rightarrow> bool" where
  "cron_log_exists l d =
     (rl_triggered_by l = ''cron'' \<and>
      list_ex (\<lambda>l'. rl_triggered_by l' = ''cron'' \<and> rl_period l' = rl_period l) (rebalance_logs d))"

definition rebalance_entry ::
  "env \<Rightarrow> string \<Rightarrow> int \<Rightarrow> int \<Rightarrow> pool_member list \<Rightarrow> rebalance_result list \<Rightarrow> db \<Rightarrow> string
     \<Rightarrow> rebalance_log" where
  "rebalance_entry e trigger T reserved ms results d lid =
     (let details = log_details d ms results in
      \<lparr>rl_id = lid, rl_period = year_month (fst (month_at (now e)) - 1), rl_triggered_by = trigger,
       rl_started_at = now e, rl_finished_at = now e, rl_T_before = T, rl_T_after = T,
       rl_scanned = length ms,
       rl_changed = length (filter (\<lambda>x. rd_after x \<noteq> rd_before x) details),
       rl_allocations = details, rl_reserved_total = reserved,
       rl_leftover_target = leftover_scan ms (- 1) None\<rparr>)"

text \<open>The second half of \<open>apply_rebalance\<close>: the updates, the log row and the audit entry.  \<open>d0\<close> is
  the session at the start of the transaction, \<open>d\<close> the one after the configuration was read.\<close>

definition write_rebalance ::
  "env \<Rightarrow> string \<Rightarrow> int \<Rightarrow> int \<Rightarrow> pool_member list \<Rightarrow> rebalance_result list \<Rightarrow> db \<Rightarrow> db
     \<Rightarrow> (pool_error + rebalance_log option) \<times> db" where
  "write_rebalance e trigger T reserved ms results d0 d =
     (let d2 = fold write_quota results d;
          (lid, d3) = new_ulid e d2;
          entry = rebalance_entry e trigger T reserved ms results d lid
      in
      if \<not> fits_int32 T then (Inl ColumnOutOfRange, rollback_to d0 d3)
      else if cron_log_exists entry d3 then (Inr None, rollback_to d0 d3)
      else (Inr (Some entry),
            audit_record e quota_pool_rebalanced (trigger_actor trigger) (Some trigger)
              (Some ''rebalance_log'') (Some lid)
              [(''scanned'', JInt (int (rl_scanned entry))),
               (''changed'', JInt (int (rl_changed entry))), (''T'', JInt T)]
              (rebalance_logs_update (\<lambda>ls. ls @ [entry]) d3)))"

definition apply_rebalance ::
  "env \<Rightarrow> string \<Rightarrow> db \<Rightarrow> (pool_error + rebalance_log option) \<times> db" where
  "apply_rebalance e trigger d =
     (let (c, d1) = get_pool_config e d; T = pool_total c; base = pool_floor c in
      if T = 0
      then (Inl PoolDisabled, write_failure_audit e trigger pool_idle ''pool disabled (T=0)'' d1)
      else
        (let reserved = reserved_total d1;
             ms = pool_members (previous_month_range_utc (now e)) d1
         in
         if ms = []
         then (Inl PoolIdle, write_failure_audit e trigger pool_idle ''no eligible pool members'' d1)
         else case compute_rebalance T base reserved ms of
           Inl (PoolExhaustedByReserved x f n) \<Rightarrow>
             (Inl (PoolExhaustedByReserved x f n),
              write_failure_audit e trigger pool_exhausted_by_reserved ''exhausted'' d1)
         | Inl err \<Rightarrow> (Inl err, d1)
         | Inr results \<Rightarrow>
             (case assert_conservation results reserved T of
                Inl err \<Rightarrow> (Inl err, d1)
              | Inr _ \<Rightarrow> write_rebalance e trigger T reserved ms results d d1)))"

section \<open>The callers\<close>

text \<open>\<open>PUT /quota-pool/config\<close>; the value on success is the warning.\<close>

definition update_pool_config :: "env \<Rightarrow> int \<Rightarrow> int \<Rightarrow> db \<Rightarrow> (unit + int option) \<times> db" where
  "update_pool_config e new_total base d =
     (let n = active_pool_member_count d in
      if new_total < base * int n then (Inl (), d)
      else
        (let (c, d1) = get_pool_config e d;
             c' = c\<lparr>pool_total := new_total, pool_floor := base, pool_updated_at := now e,
                    pool_updated_by := Some ''admin''\<rparr>;
             d2 = audit_record e pool_config_updated actor_admin None (Some ''pool_config'') (Some ''1'')
                    [(''total_tokens_per_month'', JInt new_total), (''floor_per_allocation'', JInt base)]
                    (d1\<lparr>pool := Some c'\<rparr>);
             recent = recent_month_usage e d2
         in (Inr (if recent > new_total then Some recent else None), d2)))"

text \<open>\<open>POST /quota-pool/rebalance\<close>: the error code, or the log (none when deduplicated).  The
  three business failures are committed, so that their audit entry stays.\<close>

definition manual_rebalance :: "env \<Rightarrow> db \<Rightarrow> (string + rebalance_log option) \<times> db" where
  "manual_rebalance e d =
     (case apply_rebalance e ''admin:manual'' d of
        (Inl PoolDisabled, d1) \<Rightarrow> (Inl ''pool_disabled'', d1)
      | (Inl (PoolExhaustedByReserved x f n), d1) \<Rightarrow> (Inl ''pool_exhausted_by_reserved'', d1)
      | (Inl PoolIdle, d1) \<Rightarrow> (Inl ''pool_idle'', d1)
      | (Inl RebalanceConservation, d1) \<Rightarrow> (Inl ''rebalance_failed'', rollback_to d d1)
      | (Inl ColumnOutOfRange, d1) \<Rightarrow> (Inl ''internal_error'', rollback_to d d1)
      | (Inr l, d1) \<Rightarrow> (Inr l, d1))"

text \<open>The exit code of the cron job; an exception nothing catches ends Python with 1.\<close>

definition run_rebalance :: "env \<Rightarrow> db \<Rightarrow> int \<times> db" where
  "run_rebalance e d =
     (case apply_rebalance e ''cron'' d of
        (Inr _, d1) \<Rightarrow> (0, d1)
      | (Inl PoolDisabled, d1) \<Rightarrow> (1, d1)
      | (Inl PoolIdle, d1) \<Rightarrow> (1, d1)
      | (Inl (PoolExhaustedByReserved x f n), d1) \<Rightarrow> (1, d1)
      | (Inl RebalanceConservation, d1) \<Rightarrow> (2, rollback_to d d1)
      | (Inl ColumnOutOfRange, d1) \<Rightarrow> (1, rollback_to d d1))"

end
