(* ===== verification/QuotaPoolTheorems.thy ===== *)
theory QuotaPoolTheorems
  imports QuotaPool "HOL-Library.Multiset"
begin

text \<open>
  What the redistribution of the token pool guarantees: conservation at any magnitude of the
  numbers (the float divisions included), the floor and the order of the shares where the floats
  are exact, and the effect of \<open>apply_rebalance\<close> on the session.
\<close>

section \<open>Sums of shares\<close>

lemma sum_add_at: "k < length xs \<Longrightarrow> sum_list (add_at k x xs) = sum_list xs + x"
  unfolding add_at_def by (induction xs arbitrary: k) (auto split: nat.split)

lemma length_add_at [simp]: "length (add_at k x xs) = length xs"
  by (simp add: add_at_def)

lemma nth_add_at: "i < length xs \<Longrightarrow> add_at k x xs ! i = xs ! i + (if i = k then x else 0)"
  by (simp add: add_at_def nth_list_update)

section \<open>The result in closed form\<close>

text \<open>The quotas, before they are paired with the members.\<close>

definition rebalanced :: "int \<Rightarrow> int \<Rightarrow> int \<Rightarrow> pool_member list \<Rightarrow> int list" where
  "rebalanced T base reserved ms =
     (let N = int (length ms); room = T - reserved; used = sum_list (map pm_usage ms) in
      if used = 0
      then add_at (argmax pm_id ms) (room - room div N * N) (replicate (length ms) (room div N))
      else map (\<lambda>s. base + s)
             (add_at (argmax (\<lambda>m. (pm_usage m, pm_id m)) ms)
               (room - base * N - (\<Sum>m \<leftarrow> ms. bonus_share (room - base * N) used (pm_usage m)))
               (map (\<lambda>m. bonus_share (room - base * N) used (pm_usage m)) ms)))"

lemma length_rebalanced [simp]: "length (rebalanced T base r ms) = length ms"
  by (simp add: rebalanced_def Let_def)

lemma sum_list_shift: "sum_list (map (\<lambda>s. b + s) xs) = b * int (length xs) + sum_list (xs :: int list)"
  by (induction xs) (simp_all add: algebra_simps)

lemma sum_rebalanced:
  assumes "ms \<noteq> []"
  shows "sum_list (rebalanced T base r ms) = T - r"
proof (cases "sum_list (map pm_usage ms) = 0")
  case True
  then show ?thesis
    using argmax_less [OF assms, of pm_id]
    by (simp add: rebalanced_def Let_def sum_add_at sum_list_replicate)
next
  case False
  then show ?thesis
    using argmax_less [OF assms, of "\<lambda>m. (pm_usage m, pm_id m)"]
    by (simp add: rebalanced_def Let_def sum_list_shift sum_add_at)
qed

lemma map_map2_snd:
  "length qs = length ms \<Longrightarrow> (\<And>m q. k (F m q) = f q) \<Longrightarrow> map k (map2 F ms qs) = map f qs"
  by (induction ms arbitrary: qs) (auto simp: length_Suc_conv)

lemma map_map2_fst:
  "length qs = length ms \<Longrightarrow> (\<And>m q. k (F m q) = g m) \<Longrightarrow> map k (map2 F ms qs) = map g ms"
  by (induction ms arbitrary: qs) (auto simp: length_Suc_conv)

lemma compute_rebalance_cases:
  assumes "ms \<noteq> []"
  shows "(T - r < base * int (length ms) \<and>
       compute_rebalance T base r ms = Inl (PoolExhaustedByReserved (T - r) base (length ms))) \<or>
    (base * int (length ms) \<le> T - r \<and>
       (\<exists>rs. compute_rebalance T base r ms = Inr rs \<and> map rr_id rs = map pm_id ms \<and>
          map rr_quota rs = rebalanced T base r ms))"
proof (cases "T - r < base * int (length ms)")
  case True
  with assms show ?thesis by (simp add: compute_rebalance_def Let_def)
next
  case False
  have keep: "assert_conservation rs r T = Inr rs" if "map rr_quota rs = rebalanced T base r ms" for rs
    using that sum_rebalanced [OF assms, of T base r] by (simp add: assert_conservation_def)
  show ?thesis
  proof (cases "sum_list (map pm_usage ms) = 0")
    case used: True
    let ?rs = "map2 (\<lambda>m q. \<lparr>rr_id = pm_id m, rr_quota = q, rr_reason = ''first_round''\<rparr>) ms
        (rebalanced T base r ms)"
    have "map rr_quota ?rs = map (\<lambda>q. q) (rebalanced T base r ms)" by (rule map_map2_snd) simp_all
    then have rs: "map rr_quota ?rs = rebalanced T base r ms" by (simp only: map_ident)
    have ids: "map rr_id ?rs = map pm_id ms" by (rule map_map2_fst) simp_all
    have "compute_rebalance T base r ms = assert_conservation ?rs r T"
      using False used assms by (simp add: compute_rebalance_def rebalanced_def Let_def)
    with keep [OF rs] rs ids False show ?thesis by (intro disjI2 conjI exI [of _ ?rs]) simp_all
  next
    case used: False
    let ?ss = "add_at (argmax (\<lambda>m. (pm_usage m, pm_id m)) ms)
        (T - r - base * int (length ms) - (\<Sum>m \<leftarrow> ms. bonus_share (T - r - base * int (length ms))
           (sum_list (map pm_usage ms)) (pm_usage m)))
        (map (\<lambda>m. bonus_share (T - r - base * int (length ms)) (sum_list (map pm_usage ms)) (pm_usage m)) ms)"
    let ?rs = "map2 (\<lambda>m s. \<lparr>rr_id = pm_id m, rr_quota = base + s,
        rr_reason = (if pm_usage m = 0 then ''floor'' else ''ratio'')\<rparr>) ms ?ss"
    have "map rr_quota ?rs = map (\<lambda>s. base + s) ?ss" by (rule map_map2_snd) simp_all
    then have rs: "map rr_quota ?rs = rebalanced T base r ms"
      using used by (simp only: rebalanced_def Let_def if_False)
    have ids: "map rr_id ?rs = map pm_id ms" by (rule map_map2_fst) simp_all
    have "compute_rebalance T base r ms = assert_conservation ?rs r T"
      using False used assms by (simp add: compute_rebalance_def Let_def)
    with keep [OF rs] rs ids False show ?thesis by (intro disjI2 conjI exI [of _ ?rs]) simp_all
  qed
qed

section \<open>Conservation\<close>

text \<open>C10: for any numbers, however large and however the float divisions round, the redistribution
  either refuses because the floors do not fit into what is left of the total, and exactly then,
  or returns one quota per member, in order, whose sum with the reserved quotas is the total.
  The conservation error is never raised.\<close>

theorem rebalance_conserves:
  "case compute_rebalance T base r ms of
     Inl err \<Rightarrow> ms \<noteq> [] \<and> T - r < base * int (length ms) \<and>
       err = PoolExhaustedByReserved (T - r) base (length ms)
   | Inr rs \<Rightarrow> map rr_id rs = map pm_id ms \<and>
       (ms = [] \<or> base * int (length ms) \<le> T - r \<and> sum_list (map rr_quota rs) + r = T)"
proof (cases "ms = []")
  case True
  then show ?thesis by (simp add: compute_rebalance_def)
next
  case False
  from compute_rebalance_cases [OF False, of T r base] sum_rebalanced [OF False, of T base r] False
  show ?thesis by auto
qed

section \<open>Where the floats are exact\<close>

lemma bonus_share_exact:
  assumes "0 \<le> u" "0 \<le> bonus" "0 < used" "bonus * u < 2 ^ 53"
  shows "bonus_share bonus used u = bonus * u div used"
  using assms by (simp add: bonus_share_def int_truediv_exact)

lemma sum_divs:
  assumes "0 < (n :: int)"
  shows "(\<Sum>x \<leftarrow> xs. f x div n) \<le> (\<Sum>x \<leftarrow> xs. f x) div n \<and>
    (\<Sum>x \<leftarrow> xs. f x) div n \<le> (\<Sum>x \<leftarrow> xs. f x div n) + int (length xs)"
proof -
  have "n * (\<Sum>x \<leftarrow> xs. f x div n) \<le> (\<Sum>x \<leftarrow> xs. f x)"
  proof (induction xs)
    case (Cons x xs)
    have "n * (f x div n) \<le> f x"
      using pos_mod_sign [OF assms, of "f x"] mult_div_mod_eq [of n "f x"] by linarith
    with Cons show ?case by (simp add: distrib_left)
  qed simp
  then have low: "(\<Sum>x \<leftarrow> xs. f x div n) \<le> (\<Sum>x \<leftarrow> xs. f x) div n"
    using zdiv_mono1 [OF _ assms] assms by fastforce
  have "(\<Sum>x \<leftarrow> xs. f x) \<le> n * ((\<Sum>x \<leftarrow> xs. f x div n) + int (length xs))"
  proof (induction xs)
    case (Cons x xs)
    have "f x \<le> n * (f x div n) + n"
      using pos_mod_bound [OF assms, of "f x"] mult_div_mod_eq [of n "f x"] by linarith
    with Cons show ?case by (simp add: algebra_simps)
  qed simp
  from zdiv_mono1 [OF this assms] assms low show ?thesis by simp
qed

lemma usage_le_sum:
  "\<forall>m \<in> set ms. 0 \<le> pm_usage m \<Longrightarrow> m \<in> set ms \<Longrightarrow> pm_usage m \<le> (\<Sum>m \<leftarrow> ms. pm_usage m)"
proof (induction ms)
  case (Cons x xs)
  then have "0 \<le> (\<Sum>m \<leftarrow> xs. pm_usage m)" by (intro sum_list_nonneg) auto
  with Cons show ?case by auto
qed simp

text \<open>The quotas in terms of integer division, with the leftover at its bounds.\<close>

lemma rebalanced_exact:
  assumes ms: "ms \<noteq> []" and nonneg: "\<forall>m \<in> set ms. 0 \<le> pm_usage m"
    and room: "base * int (length ms) \<le> T - r"
    and used: "used = (\<Sum>m \<leftarrow> ms. pm_usage m)" "0 < used"
    and bonus: "bonus = T - r - base * int (length ms)" "bonus * used < 2 ^ 53"
  obtains leftover where "0 \<le> leftover" "leftover \<le> int (length ms)"
    "\<And>i. i < length ms \<Longrightarrow> rebalanced T base r ms ! i = base + bonus * pm_usage (ms ! i) div used +
       (if i = argmax (\<lambda>m. (pm_usage m, pm_id m)) ms then leftover else 0)"
proof
  let ?k = "argmax (\<lambda>m. (pm_usage m, pm_id m)) ms"
  let ?leftover = "bonus - (\<Sum>m \<leftarrow> ms. bonus * pm_usage m div used)"
  have b0: "0 \<le> bonus" using room bonus by simp
  have share: "bonus_share bonus used (pm_usage m) = bonus * pm_usage m div used" if "m \<in> set ms" for m
  proof (rule bonus_share_exact)
    have "bonus * pm_usage m \<le> bonus * used"
      using usage_le_sum [OF nonneg that] b0 by (simp add: used mult_left_mono)
    with bonus(2) show "bonus * pm_usage m < 2 ^ 53" by linarith
  qed (use nonneg that b0 used in auto)
  then have shares: "map (\<lambda>m. bonus_share bonus used (pm_usage m)) ms =
      map (\<lambda>m. bonus * pm_usage m div used) ms"
    by (intro map_cong) simp_all
  have "(\<Sum>m \<leftarrow> ms. bonus * pm_usage m) = bonus * used"
    by (simp add: used sum_list_const_mult)
  then have "(\<Sum>m \<leftarrow> ms. bonus * pm_usage m) div used = bonus" using used by simp
  with sum_divs [OF used(2), of "\<lambda>m. bonus * pm_usage m" ms]
  show "0 \<le> ?leftover" "?leftover \<le> int (length ms)" by simp_all
  fix i assume i: "i < length ms"
  have "rebalanced T base r ms ! i = base + add_at ?k ?leftover
      (map (\<lambda>m. bonus * pm_usage m div used) ms) ! i"
    using used(2) i shares unfolding used(1) bonus(1) by (simp add: rebalanced_def Let_def del: map_eq_conv)
  with i show "rebalanced T base r ms ! i = base + bonus * pm_usage (ms ! i) div used +
      (if i = ?k then ?leftover else 0)"
    by (simp add: nth_add_at)
qed

text \<open>When the products stay below \<open>2^53\<close>, the float divisions are exact: every member gets
  at least the floor, whoever used more gets no less, and every quota is the floor plus the
  proportional share rounded down, the leftover of at most one token per member apart.\<close>

theorem rebalance_floor_and_order:
  assumes run: "compute_rebalance T base r ms = Inr rs" and nonneg: "\<forall>m \<in> set ms. 0 \<le> pm_usage m"
    and small: "(T - r - base * int (length ms)) * sum_list (map pm_usage ms) < 2 ^ 53"
    and i: "i < length ms" and j: "j < length ms"
  shows "base \<le> rr_quota (rs ! i) \<and>
    (pm_usage (ms ! i) < pm_usage (ms ! j) \<longrightarrow> rr_quota (rs ! i) \<le> rr_quota (rs ! j)) \<and>
    (0 < sum_list (map pm_usage ms) \<longrightarrow>
       (let share = (T - r - base * int (length ms)) * pm_usage (ms ! i) div sum_list (map pm_usage ms)
        in base + share \<le> rr_quota (rs ! i) \<and> rr_quota (rs ! i) \<le> base + share + int (length ms)))"
proof -
  have ms: "ms \<noteq> []" using i by auto
  from compute_rebalance_cases [OF ms, of T r base] run
  have room: "base * int (length ms) \<le> T - r" and rs: "map rr_quota rs = rebalanced T base r ms"
    by auto
  have len: "length rs = length ms" using rs by (metis length_map length_rebalanced)
  have q: "rr_quota (rs ! k) = rebalanced T base r ms ! k" if "k < length ms" for k
    using that by (simp add: len flip: rs)
  define used where "used = (\<Sum>m \<leftarrow> ms. pm_usage m)"
  have used0: "0 \<le> used" unfolding used_def using nonneg by (intro sum_list_nonneg) auto
  have le: "pm_usage m \<le> used" if "m \<in> set ms" for m
    unfolding used_def by (rule usage_le_sum [OF nonneg that])
  show ?thesis
  proof (cases "used = 0")
    case True
    have zero: "pm_usage (ms ! k) = 0" if "k < length ms" for k
      using le [of "ms ! k"] nonneg that True by (metis nth_mem antisym)
    let ?N = "int (length ms)"
    have N: "0 < ?N" using ms by simp
    have "base * ?N div ?N \<le> (T - r) div ?N" using room N by (intro zdiv_mono1) auto
    then have "base \<le> (T - r) div ?N" using N by simp
    moreover have "0 \<le> T - r - (T - r) div ?N * ?N"
      using N by (simp add: minus_div_mult_eq_mod)
    moreover have "rr_quota (rs ! i) = (T - r) div ?N +
        (if i = argmax pm_id ms then T - r - (T - r) div ?N * ?N else 0)"
      using i True by (simp add: q rebalanced_def used_def nth_add_at Let_def)
    ultimately have "base \<le> rr_quota (rs ! i)" by simp
    with zero [OF i] zero [OF j] True show ?thesis by (simp add: used_def)
  next
    case False
    with used0 have used: "0 < used" by simp
    define bonus where "bonus = T - r - base * int (length ms)"
    have b0: "0 \<le> bonus" using room by (simp add: bonus_def)
    obtain leftover where left: "0 \<le> leftover" "leftover \<le> int (length ms)"
      and quota: "\<And>k. k < length ms \<Longrightarrow> rebalanced T base r ms ! k = base + bonus * pm_usage (ms ! k) div used +
         (if k = argmax (\<lambda>m. (pm_usage m, pm_id m)) ms then leftover else 0)"
      using rebalanced_exact [OF ms nonneg room used_def used bonus_def] small
      unfolding used_def bonus_def by blast
    have share0: "0 \<le> bonus * pm_usage (ms ! i) div used"
      using b0 used nonneg i by (simp add: pos_imp_zdiv_nonneg_iff)
    have "rr_quota (rs ! i) \<le> rr_quota (rs ! j)" if less: "pm_usage (ms ! i) < pm_usage (ms ! j)"
    proof -
      have "(pm_usage (ms ! j), pm_id (ms ! j)) \<le>
          (\<lambda>m. (pm_usage m, pm_id m)) (ms ! argmax (\<lambda>m. (pm_usage m, pm_id m)) ms)"
        using argmax_ge [OF j, of "\<lambda>m. (pm_usage m, pm_id m)"] by simp
      with less have "i \<noteq> argmax (\<lambda>m. (pm_usage m, pm_id m)) ms" by auto
      moreover have "bonus * pm_usage (ms ! i) div used \<le> bonus * pm_usage (ms ! j) div used"
        using less b0 used by (intro zdiv_mono1 mult_left_mono) auto
      moreover have "base + bonus * pm_usage (ms ! j) div used \<le> rr_quota (rs ! j)"
        using left by (simp only: q [OF j] quota [OF j]) simp
      ultimately show ?thesis by (simp add: q [OF i] quota [OF i])
    qed
    moreover have "base \<le> rr_quota (rs ! i)"
      using left share0 by (simp add: q [OF i] quota [OF i])
    ultimately show ?thesis using left
      by (simp add: q [OF i] quota [OF i] Let_def flip: used_def bonus_def)
  qed
qed

text \<open>The units of the source's example: two members, one of them idle.\<close>

definition sample_pool :: "pool_member list" where
  "sample_pool = [\<lparr>pm_id = ''a1'', pm_usage = 30\<rparr>, \<lparr>pm_id = ''a2'', pm_usage = 0\<rparr>,
     \<lparr>pm_id = ''a3'', pm_usage = 10\<rparr>]"

lemma sample_rebalance: "\<exists>rs. compute_rebalance 1000 100 50 sample_pool = Inr rs \<and>
    map rr_quota rs = rebalanced 1000 100 50 sample_pool"
  using compute_rebalance_cases [of sample_pool 1000 50 100]
  by (simp add: sample_pool_def) blast

theorem rebalance_floor_and_order_witness:
  "\<exists>rs. compute_rebalance 1000 100 50 sample_pool = Inr rs \<and>
     100 \<le> rr_quota (rs ! 1) \<and> rr_quota (rs ! 2) \<le> rr_quota (rs ! 0)"
proof -
  obtain rs where rs: "compute_rebalance 1000 100 50 sample_pool = Inr rs"
    using sample_rebalance by blast
  have nonneg: "\<forall>m \<in> set sample_pool. 0 \<le> pm_usage m" by (simp add: sample_pool_def)
  have "100 \<le> rr_quota (rs ! 1)"
    using rebalance_floor_and_order [OF rs nonneg, of 1 1] by (simp add: sample_pool_def)
  moreover have "rr_quota (rs ! 2) \<le> rr_quota (rs ! 0)"
    using rebalance_floor_and_order [OF rs nonneg, of 2 0] by (simp add: sample_pool_def)
  ultimately show ?thesis using rs by blast
qed

section \<open>The effect on the session\<close>

lemma pool_config_frame [simp]:
  "allocations (snd (get_pool_config e d)) = allocations d"
  "rebalance_logs (snd (get_pool_config e d)) = rebalance_logs d"
  "call_records (snd (get_pool_config e d)) = call_records d"
  "fresh (snd (get_pool_config e d)) = fresh d"
  by (simp_all add: get_pool_config_def Let_def split: option.split)

lemma pool_config_again: "fst (get_pool_config e' (snd (get_pool_config e d))) = fst (get_pool_config e d)"
  by (simp add: get_pool_config_def Let_def split: option.split)

definition apply_quotas :: "rebalance_result list \<Rightarrow> allocation \<Rightarrow> allocation" where
  "apply_quotas rs a =
     (if in_pool a then (case find (\<lambda>r. rr_id r = a_id a) rs of None \<Rightarrow> a
        | Some r \<Rightarrow> a\<lparr>a_quota_tokens := Some (rr_quota r)\<rparr>) else a)"

lemma in_pool_quota [simp]: "in_pool (a\<lparr>a_quota_tokens := q\<rparr>) = in_pool a"
  by (simp add: in_pool_def)

lemma write_quotas:
  assumes "distinct (map rr_id rs)"
  shows "allocations (fold write_quota rs d) = map (apply_quotas rs) (allocations d) \<and>
    rebalance_logs (fold write_quota rs d) = rebalance_logs d \<and> fresh (fold write_quota rs d) = fresh d"
  using assms
proof (induction rs arbitrary: d)
  case Nil
  have "apply_quotas [] = (\<lambda>a. a)" by (rule ext) (simp add: apply_quotas_def)
  then show ?case by simp
next
  case (Cons r rs)
  have none: "find (\<lambda>x. rr_id x = rr_id r) rs = None"
    using Cons.prems by (auto simp: find_None_ball) (metis image_eqI)
  have step: "apply_quotas rs (if a_id a = rr_id r \<and> in_pool a
        then a\<lparr>a_quota_tokens := Some (rr_quota r)\<rparr> else a) = apply_quotas (r # rs) a" for a
    using none by (auto simp: apply_quotas_def)
  from Cons have "allocations (fold write_quota rs (write_quota r d)) =
      map (apply_quotas rs) (allocations (write_quota r d))" by simp
  also have "\<dots> = map (apply_quotas (r # rs)) (allocations d)"
    using step by (simp add: write_quota_def update_where_def)
  finally have rows: "allocations (fold write_quota rs (write_quota r d)) =
      map (apply_quotas (r # rs)) (allocations d)" .
  have "rebalance_logs (write_quota r d) = rebalance_logs d" "fresh (write_quota r d) = fresh d"
    by (simp_all add: write_quota_def)
  with rows Cons.IH [of "write_quota r d"] Cons.prems show ?case by simp
qed

lemma apply_quotas_cases: "apply_quotas rs a = a \<or> (\<exists>q. in_pool a \<and> apply_quotas rs a = a\<lparr>a_quota_tokens := q\<rparr>)"
  by (auto simp: apply_quotas_def split: option.split)

lemma apply_quotas_frame [simp]:
  "a_id (apply_quotas rs a) = a_id a" "a_status (apply_quotas rs a) = a_status a"
  "in_pool (apply_quotas rs a) = in_pool a" "is_reserved (apply_quotas rs a) = is_reserved a"
  using apply_quotas_cases [of rs a] by (auto simp: is_reserved_def)

lemma sum_map_mset: "mset xs = mset ys \<Longrightarrow> sum_list (map g xs) = (sum_list (map g ys) :: int)"
  by (metis mset_map sum_mset_sum_list)

lemma sum_by_ids:
  assumes ids: "mset (map rr_id rs) = mset (map a_id as)" and dist: "distinct (map rr_id rs)"
    and in_pool: "\<And>a. a \<in> set as \<Longrightarrow> in_pool a"
  shows "sum_list (map (\<lambda>a. quota_or_zero (apply_quotas rs a)) as) = sum_list (map rr_quota rs)"
proof -
  define q where "q i = (case find (\<lambda>r. rr_id r = i) rs of None \<Rightarrow> 0 | Some r \<Rightarrow> rr_quota r)" for i
  have "quota_or_zero (apply_quotas rs a) = q (a_id a)" if a: "a \<in> set as" for a
  proof -
    have "a_id a \<in> set (map a_id as)" using a by simp
    then have "a_id a \<in> set (map rr_id rs)" using mset_eq_setD [OF ids] by simp
    then obtain r where "r \<in> set rs" "rr_id r = a_id a" by auto
    with find_unique [OF dist] have "find (\<lambda>r. rr_id r = a_id a) rs = Some r" by metis
    then show ?thesis using in_pool [OF a] by (simp add: apply_quotas_def quota_or_zero_def q_def)
  qed
  then have "map (\<lambda>a. quota_or_zero (apply_quotas rs a)) as = map q (map a_id as)"
    by simp
  then have "sum_list (map (\<lambda>a. quota_or_zero (apply_quotas rs a)) as) = sum_list (map q (map rr_id rs))"
    using sum_map_mset [OF ids, of q] by (simp only:)
  moreover have "map q (map rr_id rs) = map rr_quota rs"
    using find_unique [OF dist] by (simp add: q_def)
  ultimately show ?thesis by (simp only:)
qed

lemma sum_active_split:
  "sum_list (map quota_or_zero (filter (\<lambda>a. a_status a = active) as)) =
     sum_list (map quota_or_zero (filter in_pool as)) + sum_list (map quota_or_zero (filter is_reserved as))"
  by (induction as) (auto simp: in_pool_def is_reserved_def)

lemma pool_members_ids:
  "map pm_id (pool_members p d) = map a_id (sort_key a_id (filter in_pool (allocations d)))"
  by (simp add: pool_members_def comp_def)

lemma failure_audit_frame [simp]:
  "allocations (write_failure_audit e t ev r d) = allocations d"
  "rebalance_logs (write_failure_audit e t ev r d) = rebalance_logs d"
  by (simp_all add: write_failure_audit_def)

text \<open>A run either stops before writing, with nothing but an audit entry, or writes the result
  of the apportionment.\<close>

lemma apply_cases:
  assumes run: "apply_rebalance e trigger d = (r, d')" and ids: "distinct (map a_id (allocations d))"
  obtains (stopped) err where "r = Inl err" "allocations d' = allocations d" "rebalance_logs d' = rebalance_logs d"
  | (written) c d1 ms rs where "get_pool_config e d = (c, d1)"
      "write_rebalance e trigger (pool_total c) (reserved_total d) ms rs d d1 = (r, d')"
      "distinct (map rr_id rs)" "mset (map rr_id rs) = mset (map a_id (filter in_pool (allocations d)))"
      "sum_list (map rr_quota rs) + reserved_total d = pool_total c"
proof -
  define c where "c = fst (get_pool_config e d)"
  define d1 where "d1 = snd (get_pool_config e d)"
  have cd: "get_pool_config e d = (c, d1)" by (simp add: c_def d1_def)
  define ms where "ms = pool_members (previous_month_range_utc (now e)) d1"
  have d1: "allocations d1 = allocations d" "rebalance_logs d1 = rebalance_logs d" by (simp_all add: d1_def)
  have reserved: "reserved_total d1 = reserved_total d" by (simp add: reserved_total_def d1)
  show thesis
  proof (cases "pool_total c = 0 \<or> ms = []")
    case True
    have "\<exists>err t. (r, d') = (Inl err, write_failure_audit e trigger pool_idle t d1)"
    proof (cases "pool_total c = 0")
      case True
      with run show ?thesis by (auto simp: apply_rebalance_def cd)
    next
      case False
      with run True show ?thesis by (auto simp: apply_rebalance_def cd Let_def simp flip: ms_def)
    qed
    then show thesis by (elim exE) (rule stopped, simp_all add: d1)
  next
    case False
    then have ms: "ms \<noteq> []" by simp
    from compute_rebalance_cases [OF ms, of "pool_total c" "reserved_total d" "pool_floor c"]
    show thesis
    proof (elim disjE conjE exE)
      assume "compute_rebalance (pool_total c) (pool_floor c) (reserved_total d) ms =
          Inl (PoolExhaustedByReserved (pool_total c - reserved_total d) (pool_floor c) (length ms))"
      with run False show thesis
        by (intro stopped) (auto simp: apply_rebalance_def cd Let_def reserved d1 simp flip: ms_def)
    next
      fix rs
      assume rs: "compute_rebalance (pool_total c) (pool_floor c) (reserved_total d) ms = Inr rs"
        "map rr_id rs = map pm_id ms"
        "map rr_quota rs = rebalanced (pool_total c) (pool_floor c) (reserved_total d) ms"
      have total: "sum_list (map rr_quota rs) + reserved_total d = pool_total c"
        using sum_rebalanced [OF ms, of "pool_total c" "pool_floor c" "reserved_total d"] rs(3) by simp
      have rids: "mset (map rr_id rs) = mset (map a_id (filter in_pool (allocations d)))"
        by (simp add: rs(2) ms_def pool_members_ids d1)
      have "distinct (map a_id (filter in_pool (allocations d)))"
        using ids by (simp add: distinct_map_filter)
      with rids have dist: "distinct (map rr_id rs)" by (metis mset_eq_imp_distinct_iff)
      have "write_rebalance e trigger (pool_total c) (reserved_total d) ms rs d d1 = (r, d')"
        using run False rs(1) total
        by (simp add: apply_rebalance_def cd Let_def reserved assert_conservation_def flip: ms_def)
      from written [OF cd this dist rids total] show thesis .
    qed
  qed
qed

lemma write_rebalance_cases:
  assumes run: "write_rebalance e trigger T res ms rs d0 d = (r, d')" and dist: "distinct (map rr_id rs)"
  shows "(r = Inl ColumnOutOfRange \<and> \<not> fits_int32 T \<or> r = Inr None) \<and> d' = rollback_to d0 (tick d) \<or>
    (\<exists>l. r = Inr (Some l) \<and> fits_int32 T \<and> \<not> cron_log_exists l d \<and> rl_triggered_by l = trigger \<and>
       rl_period l = year_month (fst (month_at (now e)) - 1) \<and>
       allocations d' = map (apply_quotas rs) (allocations d) \<and> rebalance_logs d' = rebalance_logs d @ [l])"
  using run write_quotas [OF dist, of d]
  by (auto simp: write_rebalance_def new_ulid_def Let_def rebalance_entry_def cron_log_exists_def
      rollback_to_def split: if_splits)

text \<open>After a successful run the quotas of the active allocations add up to the configured
  total exactly; only quotas of pool allocations changed, and one log row was added.\<close>

theorem apply_rebalance_conserves:
  assumes run: "apply_rebalance e trigger d = (Inr (Some l), d')" and ids: "distinct (map a_id (allocations d))"
  shows "sum_list (map quota_or_zero (filter (\<lambda>a. a_status a = active) (allocations d'))) =
      pool_total (fst (get_pool_config e d)) \<and>
    filter (\<lambda>a. \<not> in_pool a) (allocations d') = filter (\<lambda>a. \<not> in_pool a) (allocations d) \<and>
    map (\<lambda>a. a\<lparr>a_quota_tokens := None\<rparr>) (allocations d') =
      map (\<lambda>a. a\<lparr>a_quota_tokens := None\<rparr>) (allocations d) \<and>
    rebalance_logs d' = rebalance_logs d @ [l]"
  using run ids
proof (cases rule: apply_cases)
  case (written c d1 ms rs)
  have d1: "allocations d1 = allocations d" "rebalance_logs d1 = rebalance_logs d"
    using pool_config_frame [of e d] written(1) by simp_all
  from write_rebalance_cases [OF written(2,3)] d1
  have d': "allocations d' = map (apply_quotas rs) (allocations d)" "rebalance_logs d' = rebalance_logs d @ [l]"
    by auto
  have pool_rows: "filter in_pool (allocations d') = map (apply_quotas rs) (filter in_pool (allocations d))"
    and reserved_rows: "filter is_reserved (allocations d') = map (apply_quotas rs) (filter is_reserved (allocations d))"
    and other_rows: "filter (\<lambda>a. \<not> in_pool a) (allocations d') =
        map (apply_quotas rs) (filter (\<lambda>a. \<not> in_pool a) (allocations d))"
    by (simp_all add: d' filter_map comp_def)
  have same: "map (apply_quotas rs) xs = xs" if "\<forall>a \<in> set xs. \<not> in_pool a" for xs
    using that by (intro map_idI) (simp add: apply_quotas_def)
  have "sum_list (map quota_or_zero (filter in_pool (allocations d'))) = sum_list (map rr_quota rs)"
    using sum_by_ids [OF written(4,3)] by (simp add: pool_rows comp_def)
  moreover have "sum_list (map quota_or_zero (filter is_reserved (allocations d'))) = reserved_total d"
    using same [of "filter is_reserved (allocations d)"]
    by (simp add: reserved_rows reserved_total_def is_reserved_def in_pool_def)
  moreover have "map (\<lambda>a. a\<lparr>a_quota_tokens := None\<rparr>) (allocations d') =
      map (\<lambda>a. a\<lparr>a_quota_tokens := None\<rparr>) (allocations d)"
  proof -
    have "(apply_quotas rs a)\<lparr>a_quota_tokens := None\<rparr> = a\<lparr>a_quota_tokens := None\<rparr>" for a
      using apply_quotas_cases [of rs a] by auto
    then show ?thesis by (simp add: d')
  qed
  ultimately show ?thesis
    using written(1,5) same [of "filter (\<lambda>a. \<not> in_pool a) (allocations d)"]
    by (simp add: sum_active_split other_rows d'(2))
qed simp

definition pool_db :: db where
  "pool_db = empty_db\<lparr>allocations :=
     [sample_allocation ''a1'' ''azure/m'',
      (sample_allocation ''a2'' ''azure/m'')\<lparr>a_is_service := True, a_quota_tokens := Some 5000\<rparr>]\<rparr>"

lemma pool_db_run: "\<exists>l d'. apply_rebalance sample_env ''cron'' pool_db = (Inr (Some l), d')"
proof -
  have "\<exists>r d'. apply_rebalance sample_env ''cron'' pool_db = (r, d')" by simp
  show ?thesis
    by (simp add: apply_rebalance_def get_pool_config_def pool_db_def empty_db_def Let_def sample_env_def
        sample_settings_def reserved_total_def is_reserved_def sample_allocation_def pool_members_def
        in_pool_def compute_rebalance_def quota_or_zero_def period_calls_def sum_column_def
        List.map_filter_simps add_at_def assert_conservation_def write_rebalance_def new_ulid_def
        fits_int32_def cron_log_exists_def rebalance_entry_def write_quota_def)
qed

theorem apply_rebalance_conserves_witness:
  "\<exists>l d'. apply_rebalance sample_env ''cron'' pool_db = (Inr (Some l), d') \<and>
     sum_list (map quota_or_zero (filter (\<lambda>a. a_status a = active) (allocations d'))) = 1000000"
proof -
  from pool_db_run obtain l d' where run: "apply_rebalance sample_env ''cron'' pool_db = (Inr (Some l), d')"
    by blast
  have "distinct (map a_id (allocations pool_db))" by (simp add: pool_db_def sample_allocation_def)
  from apply_rebalance_conserves [OF run this]
  have "sum_list (map quota_or_zero (filter (\<lambda>a. a_status a = active) (allocations d'))) =
      pool_total (fst (get_pool_config sample_env pool_db))" by blast
  moreover have "pool_total (fst (get_pool_config sample_env pool_db)) = 1000000"
    by (simp add: get_pool_config_def pool_db_def empty_db_def sample_env_def sample_settings_def Let_def)
  ultimately show ?thesis using run by (intro exI [of _ l] exI [of _ d']) (simp only: simp_thms)
qed

lemma apply_failure:
  assumes run: "apply_rebalance e trigger d = (r, d')" and ids: "distinct (map a_id (allocations d))"
    and fail: "\<forall>l. r \<noteq> Inr (Some l)"
  shows "allocations d' = allocations d" "rebalance_logs d' = rebalance_logs d"
proof -
  from run ids have "allocations d' = allocations d \<and> rebalance_logs d' = rebalance_logs d"
  proof (cases rule: apply_cases)
    case (written c d1 ms rs)
    from write_rebalance_cases [OF written(2,3)] fail have "d' = rollback_to d (tick d1)" by auto
    then show ?thesis by (simp add: rollback_to_def)
  qed simp
  then show "allocations d' = allocations d" "rebalance_logs d' = rebalance_logs d" by simp_all
qed

lemma apply_success:
  assumes run: "apply_rebalance e trigger d = (Inr (Some l), d')" and ids: "distinct (map a_id (allocations d))"
  shows "\<not> cron_log_exists l d" "rl_triggered_by l = trigger"
    "rl_period l = year_month (fst (month_at (now e)) - 1)" "l \<in> set (rebalance_logs d')"
    "fits_int32 (pool_total (fst (get_pool_config e d)))"
proof -
  from run ids have "\<not> cron_log_exists l d \<and> rl_triggered_by l = trigger \<and>
    rl_period l = year_month (fst (month_at (now e)) - 1) \<and> l \<in> set (rebalance_logs d') \<and>
    fits_int32 (pool_total (fst (get_pool_config e d)))"
  proof (cases rule: apply_cases)
    case (written c d1 ms rs)
    have "rebalance_logs d1 = rebalance_logs d" using pool_config_frame(2) [of e d] written(1) by simp
    with write_rebalance_cases [OF written(2,3)] written(1) show ?thesis
      by (auto simp: cron_log_exists_def)
  qed simp
  then show "\<not> cron_log_exists l d" "rl_triggered_by l = trigger"
    "rl_period l = year_month (fst (month_at (now e)) - 1)" "l \<in> set (rebalance_logs d')"
    "fits_int32 (pool_total (fst (get_pool_config e d)))" by simp_all
qed

text \<open>After cron rebalanced a month, every further cron run of that month, whatever happened
  to the session in between as long as the log row is there, changes no quota and adds no log row.\<close>

theorem cron_once_per_month:
  assumes first: "apply_rebalance e ''cron'' d = (Inr (Some l), d1)" "distinct (map a_id (allocations d))"
    and between: "set (rebalance_logs d1) \<subseteq> set (rebalance_logs d2)" "distinct (map a_id (allocations d2))"
    and same_month: "fst (month_at (now e')) = fst (month_at (now e))"
    and again: "apply_rebalance e' ''cron'' d2 = (r, d3)"
  shows "(\<forall>l'. r \<noteq> Inr (Some l')) \<and> allocations d3 = allocations d2 \<and> rebalance_logs d3 = rebalance_logs d2"
proof -
  have "r \<noteq> Inr (Some l')" for l'
  proof
    assume r: "r = Inr (Some l')"
    note l = apply_success [OF first] and l' = apply_success [OF again [unfolded r] between(2)]
    have "l \<in> set (rebalance_logs d2)" using l(4) between(1) by blast
    moreover have "rl_triggered_by l = ''cron''" "rl_period l = rl_period l'"
      using l(2,3) l'(3) same_month by simp_all
    ultimately have "list_ex (\<lambda>x. rl_triggered_by x = ''cron'' \<and> rl_period x = rl_period l') (rebalance_logs d2)"
      by (auto simp: list_ex_iff)
    with l'(1,2) show False by (simp add: cron_log_exists_def)
  qed
  with apply_failure [OF again between(2)] show ?thesis by blast
qed

theorem cron_once_per_month_witness:
  "\<exists>l d1. apply_rebalance sample_env ''cron'' pool_db = (Inr (Some l), d1) \<and>
     allocations (snd (apply_rebalance sample_env ''cron'' d1)) = allocations d1"
proof -
  from pool_db_run obtain l d1 where run: "apply_rebalance sample_env ''cron'' pool_db = (Inr (Some l), d1)"
    by blast
  have ids: "distinct (map a_id (allocations pool_db))" by (simp add: pool_db_def sample_allocation_def)
  have "map a_id (map (\<lambda>a. a\<lparr>a_quota_tokens := None\<rparr>) (allocations d1)) =
      map a_id (map (\<lambda>a. a\<lparr>a_quota_tokens := None\<rparr>) (allocations pool_db))"
  proof -
    from run ids show ?thesis
    proof (cases rule: apply_cases)
      case (written c d2 ms rs)
      then have "allocations d1 = map (apply_quotas rs) (allocations pool_db)"
        using write_rebalance_cases [OF written(2,3)] pool_config_frame(1) [of sample_env pool_db] by auto
      then show ?thesis by (simp add: comp_def)
    qed simp
  qed
  then have ids1: "distinct (map a_id (allocations d1))" using ids by (simp add: comp_def)
  obtain r d3 where again: "apply_rebalance sample_env ''cron'' d1 = (r, d3)" by fastforce
  from cron_once_per_month [OF run ids subset_refl ids1 refl again] again run show ?thesis by auto
qed

text \<open>The administrator may set a total of \<open>2^31\<close> tokens or more, which the configuration and
  the quotas can hold, but the 32-bit columns of the log cannot: with such a total no rebalance
  ever succeeds, and every attempt leaves the quotas as they were.\<close>

theorem large_total_never_rebalances:
  assumes set_config: "update_pool_config e total_T base d = (Inr warning, d1)" and big: "2 ^ 31 \<le> total_T"
    and ids: "distinct (map a_id (allocations d))"
    and run: "apply_rebalance e' trigger d1 = (r, d2)"
  shows "(\<forall>l. r \<noteq> Inr l) \<and> allocations d2 = allocations d"
proof -
  have d1: "allocations d1 = allocations d" "pool_total (fst (get_pool_config e' d1)) = total_T"
    using set_config
    by (auto simp: update_pool_config_def get_pool_config_def Let_def case_prod_beta split: if_splits option.splits)
  have ids1: "distinct (map a_id (allocations d1))" using ids d1 by simp
  have "r \<noteq> Inr l" for l
    using run ids1
  proof (cases rule: apply_cases)
    case (written c d0 ms rs)
    then have "\<not> fits_int32 (pool_total c)" using d1(2) big by (simp add: fits_int32_def)
    with written(2) show ?thesis by (auto simp: write_rebalance_def Let_def case_prod_beta)
  qed simp
  with apply_failure [OF run ids1] d1 show ?thesis by auto
qed

theorem large_total_never_rebalances_witness:
  "\<exists>w d1. update_pool_config sample_env 3000000000 1000 pool_db = (Inr w, d1) \<and>
     (\<forall>l. fst (apply_rebalance sample_env ''admin:manual'' d1) \<noteq> Inr l)"
proof -
  obtain w d1 where cfg: "update_pool_config sample_env 3000000000 1000 pool_db = (Inr w, d1)"
    by (simp add: update_pool_config_def active_pool_member_count_def pool_db_def sample_allocation_def
        in_pool_def case_prod_beta Let_def)
  have ids: "distinct (map a_id (allocations pool_db))" by (simp add: pool_db_def sample_allocation_def)
  obtain r d2 where run: "apply_rebalance sample_env ''admin:manual'' d1 = (r, d2)" by fastforce
  from large_total_never_rebalances [OF cfg _ ids run] cfg run show ?thesis by auto
qed

end
