(* ===== verification/Pricing.thy ===== *)
theory Pricing
  imports Samples
begin

text \<open>
  \<open>services/pricing.py\<close>: the price in effect at the time of a call, the cost of a call, and the
  append-only maintenance of price versions.  Costs are computed with the \<open>Decimal\<close> arithmetic
  of \<open>PyNum\<close>.  A price column is \<open>NUMERIC(12, 8)\<close>: the database rounds a value to eight places
  and refuses one of five or more integer digits.
\<close>

section \<open>Reading prices\<close>

record price =
  pr_input_per_1k :: decimal
  pr_output_per_1k :: decimal
  pr_provider :: string
  pr_model :: string
  pr_effective_from :: timestamp
  pr_cached_input_per_1k :: "decimal option"
  pr_price_unit :: "string option"
  pr_price_per_unit :: "decimal option"

definition price_of_row :: "price_list \<Rightarrow> price" where
  "price_of_row row =
     \<lparr>pr_input_per_1k = p_input_per_1k row, pr_output_per_1k = p_output_per_1k row,
      pr_provider = p_provider row, pr_model = p_model row,
      pr_effective_from = p_effective_from row,
      pr_cached_input_per_1k = p_cached_input_per_1k row, pr_price_unit = p_price_unit row,
      pr_price_per_unit = p_price_per_unit row\<rparr>"

definition lookup_price_for_call :: "string \<Rightarrow> string \<Rightarrow> timestamp \<Rightarrow> db \<Rightarrow> price option" where
  "lookup_price_for_call provider model call_time d =
     (case sort_key (\<lambda>p. - p_effective_from p)
             (filter (\<lambda>p. p_provider p = provider \<and> p_model p = model \<and>
                          p_effective_from p \<le> call_time) (prices d)) of
        [] \<Rightarrow> None
      | row # _ \<Rightarrow> Some (price_of_row row))"

definition zero_if_none :: "int option \<Rightarrow> decimal" where
  "zero_if_none n = dec_of_int (case n of None \<Rightarrow> 0 | Some k \<Rightarrow> k)"

definition calculate_cost ::
  "price option \<Rightarrow> int option \<Rightarrow> int option \<Rightarrow> int option \<Rightarrow> decimal option" where
  "calculate_cost price prompt_tokens completion_tokens cached_tokens =
     (case price of None \<Rightarrow> None
      | Some p \<Rightarrow>
          (let cached = zero_if_none cached_tokens;
               pt = zero_if_none prompt_tokens;
               diff = dec_sub pt cached;
               (full_input, cached) = (if dec_coeff diff < 0 then (dec_of_int 0, pt) else (diff, cached));
               ct = zero_if_none completion_tokens;
               cached_rate = (case pr_cached_input_per_1k p of
                                Some r \<Rightarrow> r | None \<Rightarrow> pr_input_per_1k p)
           in Some (dec_add
                (dec_add (dec_mul (dec_div1000 full_input) (pr_input_per_1k p))
                         (dec_mul (dec_div1000 cached) cached_rate))
                (dec_mul (dec_div1000 ct) (pr_output_per_1k p)))))"

definition calculate_unit_cost :: "int option \<Rightarrow> decimal option \<Rightarrow> decimal" where
  "calculate_unit_cost quantity price_per_unit =
     (case (quantity, price_per_unit) of
        (Some q, Some p) \<Rightarrow> if q = 0 then dec_of_int 0 else dec_mul (dec_of_int q) p
      | _ \<Rightarrow> dec_of_int 0)"

section \<open>The versions of a price\<close>

text \<open>All timestamps are UTC instants, so \<open>_aware\<close> is the identity.\<close>

definition select_current_version :: "price_list list \<Rightarrow> timestamp \<Rightarrow> price_list option" where
  "select_current_version versions t =
     (let eligible = filter (\<lambda>v. p_effective_from v \<le> t) versions in
      if eligible = [] then None else Some (eligible ! argmax p_effective_from eligible))"

definition price_key :: "price_list \<Rightarrow> string \<times> string" where
  "price_key p = (p_provider p, p_model p)"

text \<open>The grouping by key: the keys in the order of their first row, each with its rows.\<close>

definition by_key :: "db \<Rightarrow> ((string \<times> string) \<times> price_list list) list" where
  "by_key d = map (\<lambda>k. (k, filter (\<lambda>p. price_key p = k) (prices d))) (dedupe (map price_key (prices d)))"

record price_view =
  pv_input_per_1k :: decimal
  pv_output_per_1k :: decimal
  pv_cached_input_per_1k :: "decimal option"
  pv_unit :: "(string \<times> decimal) option"

definition price_view_of :: "price_list \<Rightarrow> price_view" where
  "price_view_of cur =
     \<lparr>pv_input_per_1k = p_input_per_1k cur, pv_output_per_1k = p_output_per_1k cur,
      pv_cached_input_per_1k = p_cached_input_per_1k cur,
      pv_unit = (case (p_price_unit cur, p_price_per_unit cur) of
                   (Some u, Some p) \<Rightarrow> Some (u, p) | _ \<Rightarrow> None)\<rparr>"

definition current_price_map :: "timestamp \<Rightarrow> db \<Rightarrow> ((string \<times> string) \<times> price_view) list" where
  "current_price_map t d =
     List.map_filter (\<lambda>(k, versions).
       map_option (\<lambda>cur. (k, price_view_of cur)) (select_current_version versions t)) (by_key d)"

definition price_for_slug ::
  "((string \<times> string) \<times> price_view) list \<Rightarrow> string \<Rightarrow> string \<Rightarrow> price_view option" where
  "price_for_slug price_map provider slug = map_of price_map (provider, model_key slug)"

record price_row =
  row_provider :: string
  row_model :: string
  row_slug :: string
  row_display_name :: string
  row_current :: "price_list option"
  row_in_catalog :: bool

definition list_catalog_prices :: "timestamp \<Rightarrow> db \<Rightarrow> price_row list" where
  "list_catalog_prices t d =
     (let key = (\<lambda>m. (mc_provider m, model_key (mc_slug m)));
          versions = (\<lambda>k. case map_of (by_key d) k of None \<Rightarrow> [] | Some vs \<Rightarrow> vs);
          listed = map (\<lambda>m. \<lparr>row_provider = mc_provider m, row_model = model_key (mc_slug m),
                      row_slug = mc_slug m, row_display_name = mc_display_name m,
                      row_current = select_current_version (versions (key m)) t,
                      row_in_catalog = True\<rparr>) (catalog d);
          orphans = map (\<lambda>(k, vs). \<lparr>row_provider = fst k, row_model = snd k,
                      row_slug = fst k @ ''/'' @ snd k, row_display_name = [],
                      row_current = select_current_version vs t, row_in_catalog = False\<rparr>)
                    (filter (\<lambda>(k, vs). k \<notin> set (map key (catalog d))) (by_key d))
      in sort_key row_slug listed @ sort_key row_slug orphans)"

definition list_history :: "env \<Rightarrow> string \<Rightarrow> string \<Rightarrow> db \<Rightarrow> (price_list \<times> bool) list" where
  "list_history e provider model d =
     (let versions = sort_key (\<lambda>p. - p_effective_from p)
            (filter (\<lambda>p. p_provider p = provider \<and> p_model p = model) (prices d));
          current = map_option p_id (select_current_version versions (now e))
      in map (\<lambda>v. (v, current = Some (p_id v))) versions)"

section \<open>Adding a version\<close>

text \<open>A \<open>Decimal\<close> read from text; no value at all when the text is not a number.\<close>

datatype py_decimal = Fin decimal | NaN | Inf bool

datatype price_error = InvalidPrice | DuplicateVersion | InvalidOperation | NumericOverflow

text \<open>\<open>x < 0\<close>; an ordering comparison with a NaN raises \<open>InvalidOperation\<close>.\<close>

definition py_negative :: "py_decimal \<Rightarrow> price_error + bool" where
  "py_negative x = (case x of Fin d \<Rightarrow> Inr (dec_coeff d < 0) | Inf neg \<Rightarrow> Inr neg
                    | NaN \<Rightarrow> Inl InvalidOperation)"

fun any_negative :: "py_decimal list \<Rightarrow> price_error + bool" where
  "any_negative [] = Inr False"
| "any_negative (x # xs) =
     (case py_negative x of Inl err \<Rightarrow> Inl err | Inr True \<Rightarrow> Inr True | Inr False \<Rightarrow> any_negative xs)"

text \<open>Storing into \<open>NUMERIC(12, 8)\<close>: rounding half away from zero.\<close>

definition round_half_up :: "rat \<Rightarrow> int" where
  "round_half_up q = (if q < 0 then - \<lfloor>- q + 1/2\<rfloor> else \<lfloor>q + 1/2\<rfloor>)"

definition numeric_12_8 :: "py_decimal \<Rightarrow> decimal option" where
  "numeric_12_8 x = (case x of
       Fin d \<Rightarrow> (let c = round_half_up (dec_val d * 10 ^ 8) in
                 if \<bar>c\<bar> < 10 ^ 12 then Some (Dec c (- 8)) else None)
     | _ \<Rightarrow> None)"

text \<open>An optional price column: the outer option is the failure to store.\<close>

definition numeric_column :: "py_decimal option \<Rightarrow> decimal option option" where
  "numeric_column x = (case x of None \<Rightarrow> Some None | Some v \<Rightarrow> map_option Some (numeric_12_8 v))"

definition create_version ::
  "env \<Rightarrow> string \<Rightarrow> string \<Rightarrow> py_decimal option \<Rightarrow> py_decimal option \<Rightarrow> timestamp
     \<Rightarrow> py_decimal option option \<Rightarrow> string option \<Rightarrow> py_decimal option option
     \<Rightarrow> string option \<Rightarrow> string \<Rightarrow> db \<Rightarrow> (price_error + price_list \<times> bool) \<times> db" where
  "create_version e provider model input_per_1k output_per_1k effective_from cached_input_per_1k
       price_unit price_per_unit source_note created_by d =
     (case (input_per_1k, output_per_1k) of
        (Some inp, Some outp) \<Rightarrow>
          if cached_input_per_1k = Some None \<or> price_per_unit = Some None then (Inl InvalidPrice, d)
          else
            (let cached = Option.bind cached_input_per_1k (\<lambda>x. x);
                 per_unit = Option.bind price_per_unit (\<lambda>x. x);
                 opt = (\<lambda>x. case x of None \<Rightarrow> [] | Some v \<Rightarrow> [v]) in
             case any_negative ([inp, outp] @ opt cached @ opt per_unit) of
               Inl err \<Rightarrow> (Inl err, d)
             | Inr True \<Rightarrow> (Inl InvalidPrice, d)
             | Inr False \<Rightarrow>
                 (let (pid, d1) = new_ulid e d in
                  case (numeric_12_8 inp, numeric_12_8 outp, numeric_column cached,
                        numeric_column per_unit) of
                    (Some inp', Some outp', Some cached', Some per_unit') \<Rightarrow>
                      (let row = \<lparr>p_id = pid, p_provider = provider, p_model = model,
                              p_input_per_1k = inp', p_output_per_1k = outp',
                              p_cached_input_per_1k = cached',
                              p_price_unit = (if price_unit = Some [] then None else price_unit),
                              p_price_per_unit = per_unit', p_effective_from = effective_from,
                              p_created_at = now e, p_created_by = created_by,
                              p_source_note = source_note\<rparr>
                       in
                       if list_ex (\<lambda>p. price_key p = (provider, model) \<and>
                                       p_effective_from p = effective_from) (prices d1)
                       then (Inl DuplicateVersion, rollback_to d d1)
                       else
                         (let d2 = prices_update (\<lambda>ps. ps @ [row]) d1;
                              d3 = audit_record e price_version_added actor_admin (Some created_by)
                                     (Some ''model'') (Some (provider @ ''/'' @ model))
                                     [(''provider'', JStr provider), (''model'', JStr model),
                                      (''effective_from'', JInt effective_from)] d2
                          in (Inr (row, select_current_version [row] (now e) \<noteq> None), d3)))
                  | _ \<Rightarrow> (Inl NumericOverflow, rollback_to d d1)))
      | _ \<Rightarrow> (Inl InvalidPrice, d))"

end
