(* ===== verification/PricingTheorems.thy ===== *)
theory PricingTheorems
  imports Pricing
begin

text \<open>
  What the price list guarantees: the rows stay well formed, a call is billed with the version in
  effect when it was made, whatever is added later, the display shows the price that is billed,
  and the decimal arithmetic of a cost is exact for every price the table can hold.
\<close>

section \<open>Well-formed prices\<close>

definition column_ok :: "decimal \<Rightarrow> bool" where
  "column_ok x \<longleftrightarrow> dec_exp x = - 8 \<and> 0 \<le> dec_coeff x \<and> dec_coeff x < 10 ^ 12"

definition price_row_ok :: "price_list \<Rightarrow> bool" where
  "price_row_ok p \<longleftrightarrow> column_ok (p_input_per_1k p) \<and> column_ok (p_output_per_1k p) \<and>
     (\<forall>c. p_cached_input_per_1k p = Some c \<longrightarrow> column_ok c) \<and>
     (\<forall>c. p_price_per_unit p = Some c \<longrightarrow> column_ok c)"

definition version_key :: "price_list \<Rightarrow> (string \<times> string) \<times> timestamp" where
  "version_key p = (price_key p, p_effective_from p)"

definition prices_wf :: "db \<Rightarrow> bool" where
  "prices_wf d \<longleftrightarrow> (\<forall>p \<in> set (prices d). price_row_ok p) \<and> distinct (map version_key (prices d))"

lemma numeric_12_8_ok:
  assumes "numeric_12_8 x = Some y" "py_negative x = Inr False"
  shows "column_ok y"
proof -
  from assms obtain v where x: "x = Fin v" by (cases x) (auto simp: numeric_12_8_def)
  with assms(2) have "0 \<le> dec_coeff v" by (simp add: py_negative_def)
  then have "0 \<le> dec_val v * 10 ^ 8" by (simp add: dec_val_def)
  then have "0 \<le> round_half_up (dec_val v * 10 ^ 8)" by (simp add: round_half_up_def)
  with assms(1) x show ?thesis
    by (auto simp: numeric_12_8_def Let_def column_ok_def split: if_splits)
qed

lemma any_negative_FalseD:
  "any_negative xs = Inr False \<Longrightarrow> x \<in> set xs \<Longrightarrow> py_negative x = Inr False"
  by (induction xs) (auto split: sum.splits bool.splits)

text \<open>What a successful call did.\<close>

lemma create_version_success:
  assumes "create_version e provider model inp outp eff cached unit_name per_unit src by_whom d = (Inr (row, cur), d')"
  shows "prices d' = prices d @ [row]" "price_key row = (provider, model)" "p_effective_from row = eff"
    "price_row_ok row" "version_key row \<notin> set (map version_key (prices d))"
proof -
  from assms obtain i ov where io: "inp = Some i" "outp = Some ov"
    by (auto simp: create_version_def split: option.splits prod.splits)
  let ?c = "Option.bind cached (\<lambda>x. x)" and ?u = "Option.bind per_unit (\<lambda>x. x)"
  let ?opt = "\<lambda>x. case x of None \<Rightarrow> [] | Some v \<Rightarrow> [v]"
  have neg: "any_negative ([i, ov] @ ?opt ?c @ ?opt ?u) = Inr False"
    using assms io by (auto simp: create_version_def Let_def split: sum.splits bool.splits if_splits)
  from assms io neg obtain i' o' c' u' where cols: "numeric_12_8 i = Some i'" "numeric_12_8 ov = Some o'"
      "numeric_column ?c = Some c'" "numeric_column ?u = Some u'"
    by (auto simp: create_version_def Let_def new_ulid_def split: option.splits if_splits)
  from assms io neg cols show "prices d' = prices d @ [row]" "price_key row = (provider, model)"
      "p_effective_from row = eff" "version_key row \<notin> set (map version_key (prices d))"
    by (auto simp: create_version_def Let_def new_ulid_def price_key_def version_key_def list_ex_iff
        split: if_splits)
  have row: "p_input_per_1k row = i'" "p_output_per_1k row = o'" "p_cached_input_per_1k row = c'"
      "p_price_per_unit row = u'"
    using assms io neg cols by (auto simp: create_version_def Let_def new_ulid_def split: if_splits)
  have opt_ok: "column_ok y"
    if "numeric_column x = Some (Some y)" "\<And>v. x = Some v \<Longrightarrow> py_negative v = Inr False" for x y
    using that numeric_12_8_ok by (auto simp: numeric_column_def split: option.splits)
  have neg_c: "\<And>v. ?c = Some v \<Longrightarrow> py_negative v = Inr False"
    and neg_u: "\<And>v. ?u = Some v \<Longrightarrow> py_negative v = Inr False"
    using any_negative_FalseD [OF neg] by simp_all
  have "column_ok i'" "column_ok o'"
    using numeric_12_8_ok [OF cols(1)] numeric_12_8_ok [OF cols(2)] any_negative_FalseD [OF neg]
    by simp_all
  moreover have "column_ok x" if "c' = Some x" for x
    using opt_ok [of ?c x] neg_c cols(3) that by simp
  moreover have "column_ok x" if "u' = Some x" for x
    using opt_ok [of ?u x] neg_u cols(4) that by simp
  ultimately show "price_row_ok row" by (simp add: price_row_ok_def row)
qed

lemma create_version_failure:
  assumes "create_version e provider model inp outp eff cached unit_name per_unit src by_whom d = (Inl err, d')"
  shows "prices d' = prices d"
  using assms
  by (auto simp: create_version_def Let_def new_ulid_def rollback_to_def
      split: option.splits sum.splits bool.splits if_splits)

section \<open>The version in effect\<close>

definition in_effect :: "price_list list \<Rightarrow> timestamp \<Rightarrow> price_list \<Rightarrow> bool" where
  "in_effect vs t r \<longleftrightarrow> r \<in> set vs \<and> p_effective_from r \<le> t \<and>
     (\<forall>v \<in> set vs. p_effective_from v \<le> t \<longrightarrow> p_effective_from v \<le> p_effective_from r)"

lemma current_in_effect: "select_current_version vs t = Some r \<Longrightarrow> in_effect vs t r"
proof -
  assume cur: "select_current_version vs t = Some r"
  let ?el = "filter (\<lambda>v. p_effective_from v \<le> t) vs"
  from cur have r: "r = ?el ! argmax p_effective_from ?el" and ne: "?el \<noteq> []"
    by (auto simp: select_current_version_def Let_def split: if_splits)
  have "r \<in> set ?el" unfolding r using argmax_less [OF ne] by (rule nth_mem)
  moreover have "p_effective_from v \<le> p_effective_from r" if "v \<in> set ?el" for v
    using that argmax_ge [of _ ?el p_effective_from] unfolding r by (metis in_set_conv_nth)
  ultimately show ?thesis by (simp add: in_effect_def)
qed

lemma current_None_iff: "select_current_version vs t = None \<longleftrightarrow> (\<forall>v \<in> set vs. t < p_effective_from v)"
  by (auto simp: select_current_version_def Let_def filter_empty_conv not_le)

lemma in_effect_unique:
  "distinct (map p_effective_from vs) \<Longrightarrow> in_effect vs t r \<Longrightarrow> in_effect vs t r' \<Longrightarrow> r = r'"
  by (rule distinct_map_eqD [of p_effective_from vs]) (auto simp: in_effect_def intro: antisym)

lemma current_iff:
  assumes "distinct (map p_effective_from vs)"
  shows "select_current_version vs t = Some r \<longleftrightarrow> in_effect vs t r"
proof
  assume r: "in_effect vs t r"
  then have "\<not> t < p_effective_from r" "r \<in> set vs" by (simp_all add: in_effect_def)
  then have "select_current_version vs t \<noteq> None" unfolding current_None_iff by blast
  then obtain r' where r': "select_current_version vs t = Some r'" by blast
  have "r' = r" by (rule in_effect_unique [OF assms current_in_effect [OF r'] r])
  with r' show "select_current_version vs t = Some r" by simp
qed (rule current_in_effect)

abbreviation versions :: "string \<Rightarrow> string \<Rightarrow> db \<Rightarrow> price_list list" where
  "versions provider model d \<equiv> filter (\<lambda>p. price_key p = (provider, model)) (prices d)"

lemma versions_distinct: "prices_wf d \<Longrightarrow> distinct (map p_effective_from (versions provider model d))"
  by (auto simp: prices_wf_def distinct_map inj_on_def version_key_def)

text \<open>The query and the selection in Python agree.\<close>

lemma lookup_current:
  assumes wf: "prices_wf d"
  shows "lookup_price_for_call provider model t d =
    map_option price_of_row (select_current_version (versions provider model d) t)"
proof -
  define el where "el = filter (\<lambda>p. p_provider p = provider \<and> p_model p = model \<and> p_effective_from p \<le> t) (prices d)"
  define s where "s = sort_key (\<lambda>p. - p_effective_from p) el"
  have set_s: "set s = set el" and sorted_s: "sorted (map (\<lambda>p. - p_effective_from p) s)"
    by (simp_all add: s_def)
  have lookup: "lookup_price_for_call provider model t d = (case s of [] \<Rightarrow> None | row # _ \<Rightarrow> Some (price_of_row row))"
    by (simp add: lookup_price_for_call_def s_def el_def)
  show ?thesis
  proof (cases s)
    case Nil
    then have "set el = {}" using set_s by simp
    then have "select_current_version (versions provider model d) t = None"
      unfolding current_None_iff el_def by (auto simp: price_key_def not_le)
    with Nil lookup show ?thesis by simp
  next
    case (Cons r rs)
    have "p_effective_from v \<le> p_effective_from r" if "v \<in> set el" for v
      using that sorted_s unfolding set_s [symmetric] Cons by auto
    moreover have "r \<in> set el" using set_s Cons by auto
    ultimately have "in_effect (versions provider model d) t r"
      by (simp add: in_effect_def price_key_def el_def)
    with current_iff [OF versions_distinct [OF wf]]
    have "select_current_version (versions provider model d) t = Some r" by blast
    with Cons lookup show ?thesis by simp
  qed
qed

section \<open>Costs\<close>

lemma dec_mul_column:
  assumes "column_ok p" "0 \<le> n" "n < 2 ^ 31"
  shows "dec_mul (dec_div1000 (dec_of_int n)) p = Dec (n * dec_coeff p) (- 11)"
proof -
  have div: "dec_div1000 (dec_of_int n) = Dec n (- 3)"
    unfolding dec_div1000_def dec_of_int_def using assms(2,3) by (simp add: dec_fix_exact)
  have "n * dec_coeff p \<le> (2 ^ 31) * (10 ^ 12)"
    using assms by (intro mult_mono) (simp_all add: column_ok_def)
  moreover have "0 \<le> n * dec_coeff p" using assms by (simp add: column_ok_def)
  ultimately show ?thesis
    using assms(1) by (simp add: dec_mul_def div column_ok_def dec_fix_exact)
qed

lemma dec_add_same_exp:
  "\<bar>c + c'\<bar> < 10 ^ 28 \<Longrightarrow> dec_add (Dec c e) (Dec c' e) = Dec (c + c') e"
  by (simp add: dec_add_def dec_plus_exact_def Let_def dec_fix_exact)

lemma dec_sub_int:
  "\<bar>a - b\<bar> < 10 ^ 28 \<Longrightarrow> dec_sub (dec_of_int a) (dec_of_int b) = dec_of_int (a - b)"
  by (simp add: dec_sub_def dec_of_int_def dec_plus_exact_def Let_def dec_fix_exact)

definition count :: "int option \<Rightarrow> int" where
  "count n = (case n of None \<Rightarrow> 0 | Some k \<Rightarrow> k)"

definition small_count :: "int option \<Rightarrow> bool" where
  "small_count n \<longleftrightarrow> 0 \<le> count n \<and> count n < 2 ^ 31"

lemma three_terms:
  assumes "column_ok p" "column_ok q" "column_ok r"
    and "0 \<le> x" "x < 2 ^ 31" "0 \<le> y" "y < 2 ^ 31" "0 \<le> z" "z < 2 ^ 31"
  shows "dec_val (dec_add (dec_add (dec_mul (dec_div1000 (dec_of_int x)) p)
        (dec_mul (dec_div1000 (dec_of_int y)) q)) (dec_mul (dec_div1000 (dec_of_int z)) r)) =
    (of_int x * dec_val p + of_int y * dec_val q + of_int z * dec_val r) / 1000"
proof -
  have bound: "0 \<le> n * dec_coeff c \<and> n * dec_coeff c \<le> 2 ^ 31 * 10 ^ 12"
    if "column_ok c" "0 \<le> n" "n < 2 ^ 31" for c n
    using mult_mono [of n "2 ^ 31" "dec_coeff c" "10 ^ 12"] that by (simp add: column_ok_def)
  have val: "dec_val c = of_int (dec_coeff c) * 10 powi (- 8)" if "column_ok c" for c
    using that by (simp add: dec_val_def column_ok_def)
  let ?a = "x * dec_coeff p" and ?b = "y * dec_coeff q" and ?c = "z * dec_coeff r"
  have ab: "dec_add (Dec ?a (- 11)) (Dec ?b (- 11)) = Dec (?a + ?b) (- 11)"
    using bound [OF assms(1,4,5)] bound [OF assms(2,6,7)] by (intro dec_add_same_exp) simp
  have abc: "dec_add (Dec (?a + ?b) (- 11)) (Dec ?c (- 11)) = Dec (?a + ?b + ?c) (- 11)"
    using bound [OF assms(1,4,5)] bound [OF assms(2,6,7)] bound [OF assms(3,8,9)]
    by (intro dec_add_same_exp) simp
  have "dec_val (Dec (?a + ?b + ?c) (- 11)) = of_int (?a + ?b + ?c) * 10 powi (- 11)"
    by (simp add: dec_val_def)
  then have "dec_val (Dec (?a + ?b + ?c) (- 11)) =
      (of_int x * dec_val p + of_int y * dec_val q + of_int z * dec_val r) / 1000"
    by (simp add: val [OF assms(1)] val [OF assms(2)] val [OF assms(3)] power_int_def field_simps)
  then show ?thesis
    unfolding dec_mul_column [OF assms(1,4,5)] dec_mul_column [OF assms(2,6,7)]
      dec_mul_column [OF assms(3,8,9)] ab abc .
qed

section \<open>Properties\<close>

text \<open>Adding a version keeps the price list well formed (one row per provider, model and
  effective time; every column a nonnegative number of eight decimals below 10000), and an attempt
  that fails, for whatever reason, leaves the price list as it was.\<close>

theorem create_version_keeps_prices:
  assumes "prices_wf d"
    and "create_version e provider model inp outp eff cached unit_name per_unit src by_whom d = (r, d')"
  shows "prices_wf d' \<and> (case r of Inl err \<Rightarrow> prices d' = prices d
    | Inr (row, cur) \<Rightarrow> prices d' = prices d @ [row] \<and> (cur \<longleftrightarrow> eff \<le> now e))"
proof (cases r)
  case (Inl err)
  with create_version_failure assms show ?thesis by (auto simp: prices_wf_def)
next
  case (Inr x)
  obtain row cur where x: "x = (row, cur)" by fastforce
  note s = create_version_success [OF assms(2) [unfolded Inr x]]
  have "cur \<longleftrightarrow> select_current_version [row] (now e) \<noteq> None"
    using assms(2) unfolding Inr x
    by (auto simp: create_version_def Let_def new_ulid_def
        split: option.splits sum.splits bool.splits if_splits)
  then have "cur \<longleftrightarrow> eff \<le> now e" using s(3) by (auto simp: select_current_version_def Let_def)
  with s assms(1) Inr x show ?thesis by (auto simp: prices_wf_def)
qed


text \<open>A version added later changes no bill of the past.  After a version effective from
  \<open>eff\<close> was added, the price of a call is unchanged for every other model and for every call
  before \<open>eff\<close>; for the others it is the new version unless a later one was in effect already.\<close>

theorem new_version_point_in_time:
  assumes wf: "prices_wf d"
    and run: "create_version e provider model inp outp eff cached unit_name per_unit src by_whom d = (Inr (row, cur), d')"
  shows "lookup_price_for_call prov mdl t d' =
    (if (prov, mdl) = (provider, model) \<and> eff \<le> t \<and>
        (\<forall>v \<in> set (versions provider model d). p_effective_from v \<le> t \<longrightarrow> p_effective_from v < eff)
     then Some (price_of_row row) else lookup_price_for_call prov mdl t d)"
proof -
  note s = create_version_success [OF run]
  have wf': "prices_wf d'" using wf s by (auto simp: prices_wf_def)
  have vs: "versions prov mdl d' = versions prov mdl d @ (if (prov, mdl) = (provider, model) then [row] else [])"
    by (simp add: s(1,2))
  show ?thesis
  proof (cases "(prov, mdl) = (provider, model) \<and> eff \<le> t \<and>
      (\<forall>v \<in> set (versions provider model d). p_effective_from v \<le> t \<longrightarrow> p_effective_from v < eff)")
    case True
    then have "in_effect (versions prov mdl d') t row"
      unfolding vs by (auto simp: in_effect_def s(3))
    with current_iff [OF versions_distinct [OF wf']]
    have "select_current_version (versions prov mdl d') t = Some row" by blast
    with True show ?thesis by (simp add: lookup_current [OF wf'])
  next
    case False
    have "select_current_version (versions prov mdl d') t = select_current_version (versions prov mdl d) t"
    proof (cases "(prov, mdl) = (provider, model)")
      case same: True
      show ?thesis
      proof (cases "eff \<le> t")
        case le: True
        with False same obtain v where v: "v \<in> set (versions prov mdl d)" "p_effective_from v \<le> t" "eff \<le> p_effective_from v"
          by (auto simp: not_less)
        then have "select_current_version (versions prov mdl d) t \<noteq> None"
          unfolding current_None_iff by (meson not_less)
        then obtain r where r: "select_current_version (versions prov mdl d) t = Some r" by blast
        from current_in_effect [OF r] v have "in_effect (versions prov mdl d') t r"
          unfolding vs in_effect_def by (auto simp: s(3) intro: order_trans)
        with current_iff [OF versions_distinct [OF wf']] r show ?thesis by simp
      next
        case False
        with same show ?thesis unfolding vs by (simp add: select_current_version_def s(3))
      qed
    qed (simp only: vs if_False append_Nil2)
    then show ?thesis
      by (simp only: if_not_P [OF False] lookup_current [OF wf] lookup_current [OF wf'])
  qed
qed

lemma set_by_key: "(k, vs) \<in> set (by_key d) \<longleftrightarrow>
    vs = filter (\<lambda>p. price_key p = k) (prices d) \<and> vs \<noteq> []"
  by (auto simp: by_key_def image_iff filter_empty_conv)

lemma keys_by_key: "map fst (by_key d) = dedupe (map price_key (prices d))"
  by (simp add: by_key_def comp_def)

lemma distinct_dedupe: "distinct (dedupe xs)"
  by (induction xs rule: dedupe.induct) auto

lemma map_of_filtered:
  "distinct (map fst kvs) \<Longrightarrow> map_of (List.map_filter (\<lambda>(k, v). map_option (\<lambda>x. (k, g x)) (f v)) kvs) k =
     Option.bind (map_of kvs k) (\<lambda>v. map_option g (f v))"
proof (induction kvs arbitrary: k)
  case Nil
  then show ?case by (simp add: List.map_filter_simps)
next
  case (Cons kv kvs)
  obtain k' v where kv: "kv = (k', v)" by fastforce
  have none: "map_of kvs k' = None" using Cons.prems kv by (simp add: map_of_eq_None_iff)
  from Cons.IH Cons.prems have IH: "map_of (List.map_filter (\<lambda>(k, v). map_option (\<lambda>x. (k, g x)) (f v)) kvs) k =
     Option.bind (map_of kvs k) (\<lambda>v. map_option g (f v))" for k by simp
  show ?case
    by (cases "f v"; cases "k = k'") (simp_all add: kv List.map_filter_simps IH none)
qed

lemma price_map_entry:
  "map_of (current_price_map t d) (provider, model) =
     map_option price_view_of (select_current_version (versions provider model d) t)"
proof -
  have dist: "distinct (map fst (by_key d))" by (simp add: keys_by_key distinct_dedupe)
  have entry: "Option.bind (map_of (by_key d) (provider, model)) (\<lambda>vs. map_option price_view_of (select_current_version vs t)) =
      map_option price_view_of (select_current_version (versions provider model d) t)"
  proof (cases "versions provider model d = []")
    case True
    then have "map_of (by_key d) (provider, model) = None"
      by (auto simp: map_of_eq_None_iff set_by_key)
    with True show ?thesis by (simp add: select_current_version_def)
  next
    case False
    then have "((provider, model), versions provider model d) \<in> set (by_key d)"
      by (simp add: set_by_key)
    with dist have "map_of (by_key d) (provider, model) = Some (versions provider model d)"
      by (simp add: map_of_eq_Some_iff)
    then show ?thesis by simp
  qed
  with map_of_filtered [OF dist, of price_view_of "\<lambda>vs. select_current_version vs t"] show ?thesis
    by (simp add: current_price_map_def)
qed

text \<open>The price shown for a catalog model is the price that would be billed now: both come
  from the same version, and one is missing exactly when the other is.\<close>

theorem display_is_billed:
  assumes "prices_wf d"
  shows "\<exists>v. lookup_price_for_call provider (model_key slug) t d = map_option price_of_row v \<and>
    price_for_slug (current_price_map t d) provider slug = map_option price_view_of v"
  by (intro exI [of _ "select_current_version (versions provider (model_key slug) d) t"] conjI)
     (simp_all add: lookup_current [OF assms] price_for_slug_def price_map_entry)

section \<open>A concrete price list\<close>

definition sample_price :: "timestamp \<Rightarrow> int \<Rightarrow> price_list" where
  "sample_price t c =
     \<lparr>p_id = ''p'', p_provider = ''azure'', p_model = ''gpt-4o'', p_input_per_1k = Dec c (- 8),
      p_output_per_1k = Dec (2 * c) (- 8), p_cached_input_per_1k = None, p_price_unit = None,
      p_price_per_unit = None, p_effective_from = t, p_created_at = 0, p_created_by = ''admin'',
      p_source_note = None\<rparr>"

definition price_db :: db where
  "price_db = empty_db\<lparr>prices := [sample_price 5 100000, sample_price 10 300000]\<rparr>"

lemma price_db_wf: "prices_wf price_db"
  by (simp add: prices_wf_def price_db_def sample_price_def price_row_ok_def column_ok_def version_key_def)

lemma price_db_lookup: "lookup_price_for_call ''azure'' ''gpt-4o'' 7 price_db = Some (price_of_row (sample_price 5 100000))"
  by (simp add: lookup_price_for_call_def price_db_def sample_price_def price_of_row_def)

definition price_db_more :: "(price_error + price_list \<times> bool) \<times> db" where
  "price_db_more = create_version sample_env ''azure'' ''gpt-4o'' (Some (Fin (Dec 2 (- 3))))
     (Some (Fin (Dec 4 (- 3)))) 20 None None None None ''admin'' price_db"

lemma price_db_more_ok: "\<exists>row d'. price_db_more = (Inr (row, True), d')"
  by (simp add: price_db_more_def create_version_def Let_def new_ulid_def py_negative_def
      numeric_12_8_def numeric_column_def round_half_up_def dec_val_def price_db_def sample_price_def
      price_key_def sample_env_def select_current_version_def power_int_def
      power_divide)

theorem create_version_keeps_prices_witness: "prices_wf (snd price_db_more)"
  using create_version_keeps_prices [OF price_db_wf, of sample_env _ _ _ _ _ _ _ _ _ _ "fst price_db_more" "snd price_db_more"]
  unfolding price_db_more_def by (metis prod.collapse)


theorem new_version_point_in_time_witness:
  "lookup_price_for_call ''azure'' ''gpt-4o'' 7 (snd price_db_more) = lookup_price_for_call ''azure'' ''gpt-4o'' 7 price_db"
proof -
  from price_db_more_ok obtain row d' where run: "price_db_more = (Inr (row, True), d')" by blast
  from new_version_point_in_time [OF price_db_wf run [unfolded price_db_more_def], of "''azure''" "''gpt-4o''" 7]
  have "lookup_price_for_call ''azure'' ''gpt-4o'' 7 d' = lookup_price_for_call ''azure'' ''gpt-4o'' 7 price_db"
    by simp
  moreover have "d' = snd price_db_more" by (simp only: run snd_conv)
  ultimately show ?thesis by (simp only:)
qed

theorem display_is_billed_witness:
  "\<exists>v. lookup_price_for_call ''azure'' (model_key ''azure/gpt-4o'') 7 price_db = map_option price_of_row v \<and>
     price_for_slug (current_price_map 7 price_db) ''azure'' ''azure/gpt-4o'' = map_option price_view_of v"
  by (rule display_is_billed [OF price_db_wf])

end
