(* ===== verification/ModelAccess.thy ===== *)
theory ModelAccess
  imports Samples
begin

text \<open>
  \<open>services/model_access.py\<close>: who may see and use a model.  A model is visible to a member when
  its provider has an active credential and the access policy admits the member's tags; a denied
  tag wins over everything.  Sets of tags and providers are lists read as sets.
\<close>

record chain_entry =
  ce_check :: string
  ce_pass :: bool
  ce_hits :: "string list"

text \<open>The tags two sets share, as \<open>sorted(a & b)\<close> prints them.\<close>

definition hits :: "string list \<Rightarrow> string list \<Rightarrow> string list" where
  "hits tags held = sort (dedupe (filter (\<lambda>t. t \<in> set held) tags))"

definition evaluate_visibility ::
  "model_catalog \<Rightarrow> string list \<Rightarrow> string list \<Rightarrow> bool \<times> chain_entry list" where
  "evaluate_visibility model tags active_providers =
     (let has_cred = (mc_provider model \<in> set active_providers);
          chain = [\<lparr>ce_check = ''credential_gate'', ce_pass = has_cred, ce_hits = []\<rparr>] in
      if \<not> has_cred then (False, chain)
      else
        (let chain = chain @ [\<lparr>ce_check = ''default_access'', ce_pass = True, ce_hits = []\<rparr>];
             deny_hits = hits (mc_denied_tags model) tags;
             chain = chain @ [\<lparr>ce_check = ''deny_tags'', ce_pass = (deny_hits = []), ce_hits = deny_hits\<rparr>] in
         if deny_hits \<noteq> [] then (False, chain)
         else if mc_default_access model = access_open then (True, chain)
         else
           (let allow_hits = hits (mc_allowed_tags model) tags in
            (allow_hits \<noteq> [],
             chain @ [\<lparr>ce_check = ''allow_tags'', ce_pass = (allow_hits \<noteq> []), ce_hits = allow_hits\<rparr>]))))"

definition access_policy_allows :: "model_catalog \<Rightarrow> string list \<Rightarrow> bool" where
  "access_policy_allows model tags =
     (if list_ex (\<lambda>t. t \<in> set tags) (mc_denied_tags model) then False
      else if mc_default_access model = access_open then True
      else list_ex (\<lambda>t. t \<in> set tags) (mc_allowed_tags model))"

definition get_member_tags :: "string \<Rightarrow> db \<Rightarrow> string list" where
  "get_member_tags mid d = map mt_tag (filter (\<lambda>t. mt_member_id t = mid) (member_tags d))"

definition get_providers_with_active_credentials :: "db \<Rightarrow> string list" where
  "get_providers_with_active_credentials d =
     map pc_provider (filter (\<lambda>c. pc_status c = pc_active) (provider_creds d))"

definition visible_to_member :: "member \<Rightarrow> model_catalog list \<Rightarrow> db \<Rightarrow> model_catalog list" where
  "visible_to_member m models d =
     (let tags = get_member_tags (m_id m) d;
          active_providers = get_providers_with_active_credentials d
      in filter (\<lambda>mc. mc_provider mc \<in> set active_providers \<and> access_policy_allows mc tags) models)"

definition is_accessible :: "member \<Rightarrow> model_catalog \<Rightarrow> db \<Rightarrow> bool" where
  "is_accessible m model d =
     (if mc_provider model \<notin> set (get_providers_with_active_credentials d) then False
      else access_policy_allows model (get_member_tags (m_id m) d))"

section \<open>Properties\<close>

lemma hits_Nil: "hits tags held = [] \<longleftrightarrow> set tags \<inter> set held = {}"
proof -
  have "set (hits tags held) = set tags \<inter> set held" by (auto simp: hits_def)
  then show ?thesis by (metis set_empty)
qed

text \<open>The three places that decide about a model agree.  The explained decision is the
  credential gate and the access policy together, which is what the proxy checks and what the
  catalog filters by; and its reason chain is sound: the model is visible exactly when every check
  of the chain passed, and only the last check of a chain can fail.\<close>

theorem visibility_agrees:
  "let (visible, chain) = evaluate_visibility mc (get_member_tags (m_id m) d)
         (get_providers_with_active_credentials d)
   in visible = is_accessible m mc d \<and> visible = (mc \<in> set (visible_to_member m [mc] d)) \<and>
      visible = list_all ce_pass chain \<and> list_all ce_pass (butlast chain)"
  by (auto simp: evaluate_visibility_def is_accessible_def visible_to_member_def
      access_policy_allows_def hits_Nil list_ex_iff Let_def)

end
