(* ===== verification/MemberTags.thy ===== *)
theory MemberTags
  imports ModelAccess
begin

text \<open>
  \<open>services/member_tags.py\<close>: the tags of members.  The primary key of the table is member and
  tag.
\<close>

datatype tag_error = TagMemberNotFound | InvalidTag | UnsafeRegex

definition list_for_member :: "string \<Rightarrow> db \<Rightarrow> string list" where
  "list_for_member mid d = sort (get_member_tags mid d)"

definition list_for_member_detail :: "string \<Rightarrow> db \<Rightarrow> member_tag list" where
  "list_for_member_detail mid d =
     sort_key mt_tag (filter (\<lambda>t. mt_member_id t = mid) (member_tags d))"

definition or_bootstrap :: "string option \<Rightarrow> string" where
  "or_bootstrap by_whom = (case by_whom of Some (c # cs) \<Rightarrow> c # cs | _ \<Rightarrow> ''bootstrap-admin'')"

text \<open>The loop of \<open>add\<close>: whether an invalid tag stopped it, the tags the member has then, whether
  anything was added, and the session.\<close>

fun add_loop ::
  "(string \<Rightarrow> member_tag) \<Rightarrow> string list \<Rightarrow> string list \<Rightarrow> bool \<Rightarrow> db \<Rightarrow> bool \<times> string list \<times> bool \<times> db" where
  "add_loop row [] existing added d = (True, existing, added, d)"
| "add_loop row (tag # tags) existing added d =
     (if \<not> validate_tag tag then (False, existing, added, d)
      else if tag \<in> set existing then add_loop row tags existing added d
      else add_loop row tags (existing @ [tag]) True
             (member_tags_update (\<lambda>ts. ts @ [row tag]) d))"

definition add_tags ::
  "env \<Rightarrow> string \<Rightarrow> string list \<Rightarrow> string option \<Rightarrow> tag_source \<Rightarrow> string option \<Rightarrow> db
     \<Rightarrow> (tag_error + string list) \<times> db" where
  "add_tags e mid tags added_by src rule_id d =
     (case find (\<lambda>m. m_id m = mid) (members d) of
        None \<Rightarrow> (Inl TagMemberNotFound, d)
      | Some m \<Rightarrow>
          (let row = (\<lambda>tag. \<lparr>mt_member_id = mid, mt_tag = tag, mt_added_by = or_bootstrap added_by,
                             mt_added_at = now e, mt_source = src, mt_rule_id = rule_id\<rparr>) in
           case add_loop row tags (list_for_member mid d) False d of
             (False, existing, added, d1) \<Rightarrow> (Inl InvalidTag, d1)
           | (True, existing, False, d1) \<Rightarrow> (Inr (sort existing), d1)
           | (True, existing, True, d1) \<Rightarrow>
               (Inr (sort existing),
                audit_record e member_tag_added
                  (if src = manual then actor_admin else actor_system) added_by
                  (Some ''member'') (Some mid)
                  ([(''tags'', JList (map JStr (sort (dedupe tags)))),
                    (''source'', JStr (case src of manual \<Rightarrow> ''manual'' | auto_source \<Rightarrow> ''auto''))] @
                   (case (src, rule_id) of (auto_source, Some r) \<Rightarrow> [(''rule_id'', JStr r)] | _ \<Rightarrow> [])) d1)))"

definition remove_tags ::
  "env \<Rightarrow> string \<Rightarrow> string list \<Rightarrow> string option \<Rightarrow> db \<Rightarrow> (tag_error + unit) \<times> db" where
  "remove_tags e mid tags removed_by d =
     (case find (\<lambda>m. m_id m = mid) (members d) of
        None \<Rightarrow> (Inl TagMemberNotFound, d)
      | Some m \<Rightarrow>
          (let gone = (\<lambda>t. mt_member_id t = mid \<and> mt_tag t \<in> set tags);
               d1 = member_tags_update (delete_where gone) d
           in (Inr (), if list_ex gone (member_tags d)
                       then audit_record e member_tag_removed actor_admin removed_by (Some ''member'')
                              (Some mid) [(''tags'', JList (map JStr tags))] d1
                       else d1)))"

definition bulk_apply ::
  "env \<Rightarrow> string \<Rightarrow> string list \<Rightarrow> string option \<Rightarrow> db \<Rightarrow> (tag_error + nat \<times> nat) \<times> db" where
  "bulk_apply e tag member_ids applied_by d =
     (if \<not> validate_tag tag then (Inl InvalidTag, d)
      else
        (let already = dedupe (map mt_member_id
               (filter (\<lambda>t. mt_tag t = tag \<and> mt_member_id t \<in> set member_ids) (member_tags d)));
             to_add = filter (\<lambda>m. m \<notin> set already) member_ids;
             valid_ids = map m_id (filter (\<lambda>m. m_id m \<in> set to_add) (members d));
             rows = map (\<lambda>mid. \<lparr>mt_member_id = mid, mt_tag = tag, mt_added_by = or_bootstrap applied_by,
                       mt_added_at = now e, mt_source = manual, mt_rule_id = None\<rparr>) valid_ids;
             d1 = member_tags_update (\<lambda>ts. ts @ rows) d
         in (Inr (length valid_ids, length already),
             if valid_ids = [] then d1
             else audit_record e member_tag_bulk_added actor_admin applied_by (Some ''tag'') (Some tag)
                    [(''member_ids'', JList (map JStr valid_ids)),
                     (''skipped_already_tagged'', JList (map JStr already))] d1)))"

definition list_distinct :: "db \<Rightarrow> (string \<times> nat) list" where
  "list_distinct d =
     map (\<lambda>tag. (tag, length (filter (\<lambda>t. mt_tag t = tag) (member_tags d))))
       (sort (dedupe (map mt_tag (member_tags d))))"

definition delete_tag_globally :: "env \<Rightarrow> string \<Rightarrow> string option \<Rightarrow> db \<Rightarrow> nat \<times> db" where
  "delete_tag_globally e tag deleted_by d =
     (let cnt = length (filter (\<lambda>t. mt_tag t = tag) (member_tags d));
          d1 = member_tags_update (delete_where (\<lambda>t. mt_tag t = tag)) d
      in (cnt, if cnt > 0
               then audit_record e member_tag_removed actor_admin deleted_by (Some ''tag'') (Some tag)
                      [(''removed_count'', JInt (int cnt)), (''scope'', JStr ''global'')] d1
               else d1))"

end
