(* ===== verification/TagRules.thy ===== *)
theory TagRules
  imports MemberTags
begin

text \<open>
  \<open>services/tag_rules.py\<close>: the rules that tag a member at first registration.  The regular
  expression engine is the parameter \<open>re_engine\<close>: whether a pattern compiles, and whether a
  compiled pattern matches a whole string.  The two fixed patterns of \<open>guard_regex\<close> itself are
  matched by hand.
\<close>

record re_engine =
  re_compiles :: "string \<Rightarrow> bool"
  re_fullmatch :: "string \<Rightarrow> string \<Rightarrow> bool"

definition localpart_max :: nat where
  "localpart_max = 64"

definition max_quantifiers :: nat where
  "max_quantifiers = 10"

text \<open>The search for \<open>\([^)]*[+*][^)]*\)[+*?]\<close>: an opening parenthesis whose text up to the next
  closing one holds a quantifier, the closing one being followed by a quantifier.\<close>

definition starred_group :: "string \<Rightarrow> bool" where
  "starred_group s =
     (let body = takeWhile (\<lambda>c. c \<noteq> CHR '')'') s; rest = drop (length body) s in
      list_ex (\<lambda>c. c = CHR ''+'' \<or> c = CHR ''*'') body \<and> length rest \<ge> 2 \<and>
      rest ! 1 \<in> set ''+*?'')"

fun nested_quantifier :: "string \<Rightarrow> bool" where
  "nested_quantifier [] = False"
| "nested_quantifier (c # s) = ((c = CHR ''('' \<and> starred_group s) \<or> nested_quantifier s)"

definition count_quantifiers :: "string \<Rightarrow> nat" where
  "count_quantifiers s = length (filter (\<lambda>c. c \<in> set ''+*{'') s)"

definition guard_regex :: "re_engine \<Rightarrow> string \<Rightarrow> tag_error + string" where
  "guard_regex re pattern =
     (let raw = strip pattern in
      if raw = [] then Inl UnsafeRegex
      else if nested_quantifier raw then Inl UnsafeRegex
      else if count_quantifiers raw > max_quantifiers then Inl UnsafeRegex
      else if \<not> re_compiles re raw then Inl UnsafeRegex
      else if starts_with ''^'' raw \<and> ends_with ''$'' raw then Inr raw
      else Inr (''^(?:'' @ raw @ '')$''))"

text \<open>A pattern that does not compile never matches; the source logs a warning.\<close>

definition safe_fullmatch :: "re_engine \<Rightarrow> string \<Rightarrow> string \<Rightarrow> bool" where
  "safe_fullmatch re pattern s = (if re_compiles re pattern then re_fullmatch re pattern s else False)"

definition matches_rule :: "re_engine \<Rightarrow> tag_rule \<Rightarrow> string \<Rightarrow> string \<Rightarrow> string \<Rightarrow> bool" where
  "matches_rule re rule email local_part domain =
     (case tr_matcher_type rule of
        always \<Rightarrow> True
      | email_localpart_regex \<Rightarrow> safe_fullmatch re (tr_pattern rule) local_part
      | identifier_regex \<Rightarrow> safe_fullmatch re (tr_pattern rule) email
      | email_suffix \<Rightarrow> ends_with (lower (tr_pattern rule)) (lower email)
      | email_domain \<Rightarrow> lower domain = lower (tr_pattern rule))"

definition evaluate :: "re_engine \<Rightarrow> string \<Rightarrow> tag_rule list \<Rightarrow> tag_rule option" where
  "evaluate re email rules =
     (let local_part = take localpart_max (before_char (CHR ''@'') email);
          domain = after_char (CHR ''@'') email
      in find (\<lambda>r. tr_enabled r \<and> matches_rule re r email local_part domain)
           (sort_key tr_order_index rules))"

definition list_rules :: "db \<Rightarrow> tag_rule list" where
  "list_rules d = sort_key tr_order_index (tag_rules d)"

definition enabled_sorted :: "db \<Rightarrow> tag_rule list" where
  "enabled_sorted d = filter tr_enabled (list_rules d)"

definition normalize_pattern :: "re_engine \<Rightarrow> matcher_type \<Rightarrow> string \<Rightarrow> tag_error + string" where
  "normalize_pattern re mt pattern =
     (if mt = email_localpart_regex \<or> mt = identifier_regex then guard_regex re pattern
      else if mt = always then Inr []
      else Inr (strip pattern))"

definition create_rule ::
  "env \<Rightarrow> re_engine \<Rightarrow> matcher_type \<Rightarrow> string \<Rightarrow> string \<Rightarrow> bool \<Rightarrow> string \<Rightarrow> db
     \<Rightarrow> (tag_error + tag_rule) \<times> db" where
  "create_rule e re mt tag pattern enabled created_by d =
     (if \<not> validate_tag tag then (Inl InvalidTag, d)
      else case normalize_pattern re mt pattern of
        Inl err \<Rightarrow> (Inl err, d)
      | Inr stored \<Rightarrow>
          (let next_order = (case map tr_order_index (tag_rules d) of
                               [] \<Rightarrow> 0 | x # xs \<Rightarrow> Max (set (x # xs)) + 1);
               (rid, d1) = new_ulid e d;
               rule = \<lparr>tr_id = rid, tr_order_index = next_order, tr_matcher_type = mt,
                       tr_pattern = stored, tr_tag = tag, tr_enabled = enabled,
                       tr_created_at = now e, tr_created_by = created_by\<rparr>
           in (Inr rule, tag_rules_update (\<lambda>rs. rs @ [rule]) d1)))"

definition get_rule :: "string \<Rightarrow> db \<Rightarrow> tag_rule option" where
  "get_rule rid d = find (\<lambda>r. tr_id r = rid) (tag_rules d)"

definition set_rule :: "string \<Rightarrow> (tag_rule \<Rightarrow> tag_rule) \<Rightarrow> db \<Rightarrow> db" where
  "set_rule rid f d = tag_rules_update (update_where (\<lambda>r. tr_id r = rid) f) d"

text \<open>The assignments to the row are in the session when a later step raises.\<close>

definition update_rule ::
  "re_engine \<Rightarrow> string \<Rightarrow> matcher_type option \<Rightarrow> string option \<Rightarrow> string option \<Rightarrow> bool option \<Rightarrow> db
     \<Rightarrow> (tag_error + tag_rule option) \<times> db" where
  "update_rule re rid mt pattern tag enabled d =
     (case get_rule rid d of
        None \<Rightarrow> (Inr None, d)
      | Some rule \<Rightarrow>
          if tag \<noteq> None \<and> \<not> validate_tag (the tag) then (Inl InvalidTag, d)
          else
            (let eff_mt = (case mt of Some t \<Rightarrow> t | None \<Rightarrow> tr_matcher_type rule);
                 rule1 = rule\<lparr>tr_tag := (case tag of Some t \<Rightarrow> t | None \<Rightarrow> tr_tag rule),
                              tr_matcher_type := eff_mt\<rparr>;
                 d1 = set_rule rid (\<lambda>_. rule1) d;
                 new_pattern = (if pattern \<noteq> None \<or> mt \<noteq> None
                    then normalize_pattern re eff_mt (case pattern of Some p \<Rightarrow> p | None \<Rightarrow> tr_pattern rule)
                    else Inr (tr_pattern rule))
             in case new_pattern of
                  Inl err \<Rightarrow> (Inl err, d1)
                | Inr p \<Rightarrow>
                    (let rule2 = rule1\<lparr>tr_pattern := p,
                           tr_enabled := (case enabled of Some b \<Rightarrow> b | None \<Rightarrow> tr_enabled rule)\<rparr>
                     in (Inr (Some rule2), set_rule rid (\<lambda>_. rule2) d1))))"

definition delete_rule :: "string \<Rightarrow> db \<Rightarrow> bool \<times> db" where
  "delete_rule rid d =
     (case get_rule rid d of
        None \<Rightarrow> (False, d)
      | Some _ \<Rightarrow> (True, tag_rules_update (delete_where (\<lambda>r. tr_id r = rid)) d))"

text \<open>\<open>enumerate(order)\<close>: each id gets its position.\<close>

definition renumber :: "string list \<Rightarrow> tag_rule list \<Rightarrow> tag_rule list" where
  "renumber order rules =
     fold (\<lambda>(i, rid). update_where (\<lambda>r. tr_id r = rid) (\<lambda>r. r\<lparr>tr_order_index := int i\<rparr>))
       (List.enumerate 0 order) rules"

definition reorder :: "string list \<Rightarrow> db \<Rightarrow> tag_rule list option \<times> db" where
  "reorder order d =
     (let rules = list_rules d in
      if set (map tr_id rules) \<noteq> set order \<or> length order \<noteq> length rules then (None, d)
      else (let d1 = tag_rules_update (renumber order) d in (Some (list_rules d1), d1)))"

definition test_email :: "re_engine \<Rightarrow> string \<Rightarrow> db \<Rightarrow> tag_rule option" where
  "test_email re email d = evaluate re email (enabled_sorted d)"

definition apply_to_new_member ::
  "env \<Rightarrow> re_engine \<Rightarrow> string \<Rightarrow> string \<Rightarrow> string \<Rightarrow> db \<Rightarrow> string option \<times> db" where
  "apply_to_new_member e re mid email applied_by d =
     (case evaluate re email (enabled_sorted d) of
        None \<Rightarrow> (None, d)
      | Some r \<Rightarrow>
          (case add_tags e mid [tr_tag r] (Some applied_by) auto_source (Some (tr_id r)) d of
             (Inl err, d1) \<Rightarrow> (None, d1)
           | (Inr _, d1) \<Rightarrow> (Some (tr_tag r), d1)))"

end
