(* ===== verification/TagTheorems.thy ===== *)
theory TagTheorems
  imports TagRules "HOL-Library.Multiset"
begin

text \<open>
  What tags and tag rules guarantee: adding tags is idempotent, rules are evaluated first match
  first in their order, a new rule comes last, and a reordering takes effect as given.
\<close>

section \<open>Tags of a member\<close>

lemma set_list_for_member: "set (list_for_member mid d) = set (get_member_tags mid d)"
  by (simp add: list_for_member_def)

lemma add_loop_effect:
  assumes "add_loop row tags existing added d = (ok, ex', added', d')"
    and "\<And>t. mt_member_id (row t) = mid \<and> mt_tag (row t) = t"
  shows "\<exists>new. d' = member_tags_update (\<lambda>ts. ts @ map row new) d \<and> ex' = existing @ new \<and>
    (distinct existing \<longrightarrow> distinct (existing @ new)) \<and> set new \<subseteq> set tags \<and>
    (ok \<longrightarrow> set tags \<subseteq> set ex' \<and> list_all validate_tag tags) \<and> (added' \<longleftrightarrow> added \<or> new \<noteq> [])"
  using assms(1)
proof (induction row tags existing added d rule: add_loop.induct)
  case (1 row existing added d)
  then show ?case by (intro exI [of _ "[]"]) auto
next
  case (2 row tag tags existing added d)
  show ?case
  proof (cases "validate_tag tag")
    case False
    with "2.prems" show ?thesis by (intro exI [of _ "[]"]) auto
  next
    case valid: True
    show ?thesis
    proof (cases "tag \<in> set existing")
      case True
      from True valid "2.prems" have "add_loop row tags existing added d = (ok, ex', added', d')" by simp
      from "2.IH"(1) [OF _ _ this] True valid obtain new where
        "d' = member_tags_update (\<lambda>ts. ts @ map row new) d" "ex' = existing @ new"
        "distinct existing \<longrightarrow> distinct (existing @ new)" "set new \<subseteq> set tags"
        "ok \<longrightarrow> set tags \<subseteq> set ex' \<and> list_all validate_tag tags" "added' \<longleftrightarrow> added \<or> new \<noteq> []"
        by auto
      with True valid show ?thesis by (intro exI [of _ new]) auto
    next
      case False
      with valid "2.prems" have "add_loop row tags (existing @ [tag]) True
          (member_tags_update (\<lambda>ts. ts @ [row tag]) d) = (ok, ex', added', d')" by simp
      from "2.IH"(2) [OF _ False this] valid obtain new where
        "d' = member_tags_update (\<lambda>ts. ts @ map row new) (member_tags_update (\<lambda>ts. ts @ [row tag]) d)"
        "ex' = (existing @ [tag]) @ new"
        "distinct (existing @ [tag]) \<longrightarrow> distinct ((existing @ [tag]) @ new)" "set new \<subseteq> set tags"
        "ok \<longrightarrow> set tags \<subseteq> set ex' \<and> list_all validate_tag tags" "added' \<longleftrightarrow> True \<or> new \<noteq> []"
        by blast
      with False valid show ?thesis by (intro exI [of _ "tag # new"]) auto
    qed
  qed
qed

lemma add_loop_nothing:
  "set tags \<subseteq> set existing \<Longrightarrow> list_all validate_tag tags \<Longrightarrow>
     add_loop row tags existing added d = (True, existing, added, d)"
  by (induction row tags existing added d rule: add_loop.induct) auto

text \<open>Adding tags to a member is idempotent: the member then has exactly the old and the new
  tags, all of them well formed, no other member's tags change, and the same call again changes
  nothing at all.\<close>

theorem add_tags_idempotent:
  assumes run: "add_tags e mid tags added_by src rule_id d = (Inr l, d')"
  shows "l = list_for_member mid d' \<and> set l = set (get_member_tags mid d) \<union> set tags \<and>
    list_all validate_tag tags \<and>
    (\<forall>other. other \<noteq> mid \<longrightarrow> get_member_tags other d' = get_member_tags other d) \<and>
    add_tags e' mid tags by' src' rule' d' = (Inr l, d')"
proof -
  let ?row = "\<lambda>tag. \<lparr>mt_member_id = mid, mt_tag = tag, mt_added_by = or_bootstrap added_by,
    mt_added_at = now e, mt_source = src, mt_rule_id = rule_id\<rparr>"
  from run obtain m where m: "find (\<lambda>m. m_id m = mid) (members d) = Some m"
    by (auto simp: add_tags_def split: option.splits)
  obtain ok ex added d1 where loop: "add_loop ?row tags (list_for_member mid d) False d = (ok, ex, added, d1)"
    by (metis prod_cases4)
  have ok: "ok" and l: "l = sort ex" and d': "member_tags d' = member_tags d1" "members d' = members d1"
    using run m loop by (auto simp: add_tags_def split: bool.splits)
  from add_loop_effect [OF loop, of mid] ok obtain new where
    new: "d1 = member_tags_update (\<lambda>ts. ts @ map ?row new) d" "ex = list_for_member mid d @ new"
      "set new \<subseteq> set tags" "set tags \<subseteq> set ex" "list_all validate_tag tags"
    by auto
  have tags': "get_member_tags mid d' = get_member_tags mid d @ new"
    by (simp add: get_member_tags_def d' new(1) comp_def)
  have "l = list_for_member mid d'"
    unfolding l new(2) list_for_member_def tags'
    by (rule properties_for_sort [symmetric]) (simp_all add: ac_simps)
  moreover have "set l = set (get_member_tags mid d) \<union> set tags"
    using new(3,4) by (auto simp: l new(2) set_list_for_member)
  moreover have "get_member_tags other d' = get_member_tags other d" if "other \<noteq> mid" for other
    using that by (simp add: get_member_tags_def d' new(1) comp_def)
  moreover have "add_tags e' mid tags by' src' rule' d' = (Inr l, d')"
  proof -
    have "set tags \<subseteq> set (list_for_member mid d')" using \<open>l = list_for_member mid d'\<close> calculation(2) by auto
    from add_loop_nothing [OF this new(5)] show ?thesis
      using m calculation(1) by (simp add: add_tags_def d' new(1) list_for_member_def sorted_sort_id)
  qed
  ultimately show ?thesis using new(5) by blast
qed

definition member_db :: db where
  "member_db = empty_db\<lparr>members := [sample_member]\<rparr>"

lemma member_db_add: "\<exists>d'. add_tags sample_env ''m1'' [''staff'', ''lab''] None manual None member_db = (Inr [''lab'', ''staff''], d')"
  by (simp add: add_tags_def member_db_def sample_member_def empty_db_def list_for_member_def get_member_tags_def
      validate_tag_def tag_body_def is_lower_letter_def tag_char_def)

theorem add_tags_idempotent_witness:
  "\<exists>d'. add_tags sample_env ''m1'' [''staff'', ''lab''] None manual None member_db = (Inr [''lab'', ''staff''], d') \<and>
     add_tags sample_env ''m1'' [''staff'', ''lab''] None manual None d' = (Inr [''lab'', ''staff''], d')"
proof -
  from member_db_add obtain d' where "add_tags sample_env ''m1'' [''staff'', ''lab''] None manual None member_db =
      (Inr [''lab'', ''staff''], d')" by blast
  from add_tags_idempotent [OF this, of sample_env None manual None] this show ?thesis by blast
qed

section \<open>Evaluating rules\<close>

definition applies :: "re_engine \<Rightarrow> string \<Rightarrow> tag_rule \<Rightarrow> bool" where
  "applies re email r \<longleftrightarrow> tr_enabled r \<and>
     matches_rule re r email (take localpart_max (before_char (CHR ''@'') email)) (after_char (CHR ''@'') email)"

lemma evaluate_find: "evaluate re email rules = find (applies re email) (sort_key tr_order_index rules)"
  by (simp add: evaluate_def applies_def [abs_def] Let_def)

lemma find_sorted_first:
  "sorted (map k xs) \<Longrightarrow> find p xs = Some x \<Longrightarrow> y \<in> set xs \<Longrightarrow> p y \<Longrightarrow> k x \<le> k y"
  by (induction xs) (auto split: if_splits dest: find_SomeD)

text \<open>A login is tagged by the first rule, in the order of the rules, that is enabled and
  matches it, and by none exactly when no enabled rule matches.\<close>

theorem evaluate_first_match:
  "case evaluate re email rules of
     None \<Rightarrow> \<forall>r \<in> set rules. \<not> applies re email r
   | Some r \<Rightarrow> r \<in> set rules \<and> applies re email r \<and>
       (\<forall>r' \<in> set rules. applies re email r' \<longrightarrow> tr_order_index r \<le> tr_order_index r')"
proof (cases "evaluate re email rules")
  case None
  then have "\<forall>r \<in> set rules. \<not> applies re email r" by (simp add: evaluate_find find_None_ball)
  with None show ?thesis by simp
next
  case (Some r)
  then have f: "find (applies re email) (sort_key tr_order_index rules) = Some r"
    by (simp add: evaluate_find)
  have "tr_order_index r \<le> tr_order_index r'" if "r' \<in> set rules" "applies re email r'" for r'
    by (rule find_sorted_first [OF sorted_sort_key f]) (use that in simp_all)
  with Some find_SomeD [OF f] show ?thesis by simp
qed

definition sample_re :: re_engine where
  "sample_re = \<lparr>re_compiles = (\<lambda>p. True), re_fullmatch = (\<lambda>p s. p = s)\<rparr>"

definition sample_rule :: "string \<Rightarrow> int \<Rightarrow> matcher_type \<Rightarrow> string \<Rightarrow> tag_rule" where
  "sample_rule rid i mt p = \<lparr>tr_id = rid, tr_order_index = i, tr_matcher_type = mt, tr_pattern = p,
     tr_tag = ''staff'', tr_enabled = True, tr_created_at = 0, tr_created_by = ''admin''\<rparr>"

theorem evaluate_first_match_witness:
  "tr_id (the (evaluate sample_re ''ann@lab.org''
     [sample_rule ''r2'' 2 always '''', sample_rule ''r1'' 1 email_domain ''lab.org''])) = ''r1''"
  using evaluate_first_match [where re = sample_re and email = "''ann@lab.org''" and
      rules = "[sample_rule ''r2'' 2 always '''', sample_rule ''r1'' 1 email_domain ''lab.org'']"]
  by (simp add: applies_def matches_rule_def sample_rule_def after_char_def lower_def lower_char_def
      split: option.splits) auto

text \<open>A new rule comes last: every login that some rule matched before is tagged by the same
  rule as before, and the new rule decides only the others.\<close>

theorem new_rule_is_last:
  assumes "create_rule e re mt tag pattern enabled creator d = (Inr rule, d')"
  shows "evaluate re' email (tag_rules d') =
    (case evaluate re' email (tag_rules d) of Some r \<Rightarrow> Some r
     | None \<Rightarrow> if applies re' email rule then Some rule else None)"
proof -
  from assms have rows: "tag_rules d' = tag_rules d @ [rule]"
    and order: "\<forall>r \<in> set (tag_rules d). tr_order_index r < tr_order_index rule"
    by (auto simp: create_rule_def Let_def new_ulid_def less_le_trans le_less_trans
        split: if_splits sum.splits list.splits)
  have "sort_key tr_order_index (tag_rules d @ [rule]) = sort_key tr_order_index (tag_rules d) @ [rule]"
  proof (rule properties_for_sort_key)
    fix k
    show "filter (\<lambda>x. tr_order_index k = tr_order_index x) (sort_key tr_order_index (tag_rules d) @ [rule]) =
        filter (\<lambda>x. tr_order_index k = tr_order_index x) (tag_rules d @ [rule])"
      using sort_key_stable [of tr_order_index "tr_order_index k" "tag_rules d"]
      by (simp add: eq_commute [of "tr_order_index k"])
  qed (use order in \<open>auto simp: sorted_append\<close>)
  then show ?thesis by (simp add: evaluate_find rows find_append split: option.split)
qed

definition rule_db :: db where
  "rule_db = empty_db\<lparr>tag_rules := [sample_rule ''r1'' 3 always []]\<rparr>"

theorem new_rule_is_last_witness:
  "\<exists>rule d'. create_rule sample_env sample_re email_domain ''lab'' ''lab.org'' True ''admin'' rule_db = (Inr rule, d') \<and>
     evaluate sample_re ''ann@lab.org'' (tag_rules d') = Some (sample_rule ''r1'' 3 always [])"
proof -
  have "\<exists>rule d'. create_rule sample_env sample_re email_domain ''lab'' ''lab.org'' True ''admin'' rule_db = (Inr rule, d')"
    by (simp add: create_rule_def normalize_pattern_def validate_tag_def tag_body_def is_lower_letter_def
        tag_char_def Let_def case_prod_beta)
  then obtain rule d' where run: "create_rule sample_env sample_re email_domain ''lab'' ''lab.org'' True ''admin'' rule_db = (Inr rule, d')"
    by blast
  have "evaluate sample_re ''ann@lab.org'' (tag_rules rule_db) = Some (sample_rule ''r1'' 3 always [])"
    by (simp add: evaluate_def rule_db_def sample_rule_def matches_rule_def Let_def)
  with new_rule_is_last [OF run, of sample_re "''ann@lab.org''"] run show ?thesis by auto
qed

section \<open>Reordering\<close>

lemma renumber_row:
  assumes "distinct order"
  shows "fold (\<lambda>(i, rid). update_where (\<lambda>r. tr_id r = rid) (\<lambda>r. r\<lparr>tr_order_index := int i\<rparr>))
      (List.enumerate n order) rules =
    map (\<lambda>r. case map_of (zip order [n..<n + length order]) (tr_id r) of
       None \<Rightarrow> r | Some i \<Rightarrow> r\<lparr>tr_order_index := int i\<rparr>) rules"
  using assms
proof (induction order arbitrary: n rules)
  case (Cons rid order)
  have "map_of (zip order [Suc n..<Suc n + length order]) rid = None"
    using Cons.prems by (auto simp: map_of_eq_None_iff dest: set_zip_leftD)
  moreover have "[n..<n + length (rid # order)] = n # [Suc n..<Suc n + length order]"
    by (simp add: upt_conv_Cons del: upt_Suc)
  ultimately show ?case
    using Cons by (auto simp: update_where_def simp del: upt_Suc split: option.split dest: set_zip_leftD)
qed simp

lemma perm_iff:
  assumes "distinct xs"
  shows "set xs = set ys \<and> length ys = length xs \<longleftrightarrow> mset ys = mset xs"
proof
  assume eq: "set xs = set ys \<and> length ys = length xs"
  have "card (set ys) = length ys" using eq distinct_card [OF assms] by simp
  then have "distinct ys" by (rule card_distinct)
  with eq assms show "mset ys = mset xs" using set_eq_iff_mset_eq_distinct by metis
next
  assume m: "mset ys = mset xs"
  from mset_eq_setD [OF m] mset_eq_length [OF m] show "set xs = set ys \<and> length ys = length xs" by simp
qed

definition placed :: "string list \<Rightarrow> tag_rule \<Rightarrow> tag_rule" where
  "placed order r = (case map_of (zip order [0..<length order]) (tr_id r) of
     None \<Rightarrow> r | Some i \<Rightarrow> r\<lparr>tr_order_index := int i\<rparr>)"

lemma renumber_placed: "distinct order \<Longrightarrow> renumber order rules = map (placed order) rules"
  using renumber_row [of order 0 rules] by (simp add: renumber_def placed_def [abs_def])

lemma tr_id_placed [simp]: "tr_id (placed order r) = tr_id r"
  by (simp add: placed_def split: option.split)

lemma placed_position:
  assumes "distinct order" "tr_id r \<in> set order"
  shows "\<exists>i < length order. tr_order_index (placed order r) = int i \<and> order ! i = tr_id r"
proof -
  from assms(2) obtain i where i: "i < length order" "order ! i = tr_id r"
    unfolding in_set_conv_nth by blast
  have "map_of (zip order [0..<length order]) (order ! i) = Some ([0..<length order] ! i)"
    by (rule map_of_zip_nth) (use assms(1) i in simp_all)
  with i show ?thesis by (intro exI [of _ i]) (simp add: placed_def)
qed

text \<open>A list sorted by positions that are a permutation of \<open>0..<n\<close> lists those positions.\<close>

lemma positions_sorted:
  assumes "sorted (map g xs)" "length xs = n" "\<And>x. x \<in> set xs \<Longrightarrow> \<exists>i < n. g x = int i \<and> f x = ys ! i"
    and "distinct (map f xs)" "length ys = n"
  shows "map g xs = map int [0..<n]" "map f xs = ys"
proof -
  have fg: "f x = ys ! nat (g x)" "g x \<in> int ` {0..<n}" if "x \<in> set xs" for x
    using assms(3) [OF that] by auto
  have "distinct (map g xs)"
    using assms(4) fg(1) by (auto simp: distinct_map inj_on_def)
  have "set (map g xs) \<subseteq> set (map int [0..<n])"
    using fg(2) by auto
  moreover have c: "card (set (map g xs)) = n" "card (set (map int [0..<n])) = n"
    using distinct_card [OF \<open>distinct (map g xs)\<close>] assms(2) by (simp_all add: card_image)
  ultimately have "set (map g xs) = set (map int [0..<n])"
    by (intro card_subset_eq) (simp_all only: c finite_set)
  then show idx: "map g xs = map int [0..<n]"
    by (intro sorted_distinct_set_unique) (use assms(1) \<open>distinct (map g xs)\<close> in \<open>simp_all add: sorted_map distinct_map\<close>)
  have "map f xs = map (\<lambda>x. ys ! nat (g x)) xs" using fg(1) by simp
  also have "\<dots> = map (\<lambda>i. ys ! nat i) (map g xs)" by simp
  also have "\<dots> = ys" unfolding idx using assms(5) map_nth [of ys] by (simp add: comp_def)
  finally show "map f xs = ys" .
qed

text \<open>A reordering succeeds exactly for the permutations of the rules' ids, and then the rules
  are evaluated in the given order, numbered from 0.\<close>

theorem reorder_takes_effect:
  assumes ids: "distinct (map tr_id (tag_rules d))" and run: "reorder order d = (r, d')"
  shows "(r \<noteq> None \<longleftrightarrow> mset order = mset (map tr_id (tag_rules d))) \<and>
    (r = None \<longrightarrow> d' = d) \<and>
    (r \<noteq> None \<longrightarrow> map tr_id (list_rules d') = order \<and>
       map tr_order_index (list_rules d') = map int [0..<length order])"
proof (cases "mset order = mset (map tr_id (tag_rules d))")
  case False
  have "\<not> (set (map tr_id (list_rules d)) = set order \<and> length order = length (list_rules d))"
    using perm_iff [OF ids, of order] False by (simp add: list_rules_def)
  with run False show ?thesis by (auto simp: reorder_def Let_def)
next
  case True
  let ?d = "tag_rules_update (renumber order) d"
  have "set (map tr_id (list_rules d)) = set order \<and> length order = length (list_rules d)"
    using perm_iff [OF ids, of order] True by (simp add: list_rules_def)
  with run have r: "r = Some (list_rules ?d)" "d' = ?d" by (auto simp: reorder_def Let_def)
  have dist: "distinct order" using mset_eq_imp_distinct_iff [OF True] ids by simp
  have rows: "tag_rules ?d = map (placed order) (tag_rules d)" by (simp add: renumber_placed [OF dist])
  have pos: "\<exists>i < length order. tr_order_index x = int i \<and> tr_id x = order ! i"
    if "x \<in> set (list_rules ?d)" for x
  proof -
    from that obtain y where y: "y \<in> set (tag_rules d)" "x = placed order y"
      by (auto simp: list_rules_def rows)
    have "tr_id y \<in> set order" using mset_eq_setD [OF True] y(1) by simp
    from placed_position [OF dist this] y(2) show ?thesis by auto
  qed
  have "mset (map tr_id (list_rules ?d)) = mset (map tr_id (tag_rules ?d))" by (simp add: list_rules_def)
  also have "map tr_id (tag_rules ?d) = map tr_id (tag_rules d)" by (simp add: rows comp_def)
  finally have "distinct (map tr_id (list_rules ?d))" using mset_eq_imp_distinct_iff ids by blast
  moreover have "length (list_rules ?d) = length order"
    using mset_eq_length [OF True] by (simp add: list_rules_def rows)
  moreover have "sorted (map tr_order_index (list_rules ?d))" by (simp add: list_rules_def)
  ultimately have "map tr_order_index (list_rules ?d) = map int [0..<length order]" "map tr_id (list_rules ?d) = order"
    using positions_sorted [of tr_order_index "list_rules ?d" "length order" tr_id order] pos by auto
  with r True show ?thesis by simp
qed

theorem reorder_takes_effect_witness:
  "map tr_id (list_rules (snd (reorder [''r2'', ''r1'']
     (empty_db\<lparr>tag_rules := [sample_rule ''r1'' 3 always [], sample_rule ''r2'' 4 always []]\<rparr>)))) = [''r2'', ''r1'']"
proof -
  let ?d = "empty_db\<lparr>tag_rules := [sample_rule ''r1'' 3 always [], sample_rule ''r2'' 4 always []]\<rparr>"
  have ids: "distinct (map tr_id (tag_rules ?d))" by (simp add: sample_rule_def)
  obtain r d' where run: "reorder [''r2'', ''r1''] ?d = (r, d')" by fastforce
  from reorder_takes_effect [OF ids run] run show ?thesis by (auto simp: sample_rule_def)
qed

section \<open>The regular expression guard\<close>

text \<open>The guard is not stable under its own output, and does not see a quantified group around
  another group.  It accepts \<open>a+(b)*\<close> and stores \<open>^(?:a+(b)*)$\<close>, which it refuses when it is given
  it again, as an update that only changes the matcher type does; and it accepts \<open>((a+)b)+\<close>.\<close>

theorem guard_regex_unstable:
  assumes "re_compiles re ''a+(b)*''" "re_compiles re ''((a+)b)+''"
    and "get_rule rid d = Some rule" "tr_pattern rule = ''^(?:a+(b)*)$''"
  shows "guard_regex re ''a+(b)*'' = Inr ''^(?:a+(b)*)$'' \<and>
    fst (update_rule re rid (Some identifier_regex) None None None d) = Inl UnsafeRegex \<and>
    guard_regex re ''((a+)b)+'' = Inr ''^(?:((a+)b)+)$''"
proof -
  have "guard_regex re ''a+(b)*'' = Inr ''^(?:a+(b)*)$''"
    using assms(1)
    by (simp add: guard_regex_def Let_def strip_def lstrip_def is_space_def starred_group_def
        count_quantifiers_def max_quantifiers_def starts_with_def)
  moreover have "guard_regex re ''((a+)b)+'' = Inr ''^(?:((a+)b)+)$''"
    using assms(2)
    by (simp add: guard_regex_def Let_def strip_def lstrip_def is_space_def starred_group_def
        count_quantifiers_def max_quantifiers_def starts_with_def)
  moreover have "guard_regex re ''^(?:a+(b)*)$'' = Inl UnsafeRegex"
    by (simp add: guard_regex_def Let_def strip_def lstrip_def is_space_def starred_group_def)
  then have "fst (update_rule re rid (Some identifier_regex) None None None d) = Inl UnsafeRegex"
    by (simp add: update_rule_def assms(3,4) normalize_pattern_def Let_def)
  ultimately show ?thesis by blast
qed

theorem guard_regex_unstable_witness:
  "fst (update_rule sample_re ''r1'' (Some identifier_regex) None None None
     (empty_db\<lparr>tag_rules := [sample_rule ''r1'' 0 email_localpart_regex ''^(?:a+(b)*)$'']\<rparr>)) = Inl UnsafeRegex"
  using guard_regex_unstable [of sample_re "''r1''"
      "empty_db\<lparr>tag_rules := [sample_rule ''r1'' 0 email_localpart_regex ''^(?:a+(b)*)$'']\<rparr>"
      "sample_rule ''r1'' 0 email_localpart_regex ''^(?:a+(b)*)$''"]
  by (simp add: sample_re_def get_rule_def sample_rule_def)

end
