(* ===== verification/SelfService.thy ===== *)
theory SelfService
  imports ModelAccess Allocations
begin

text \<open>
  \<open>services/self_service.py\<close>: a member claims an allocation of a model opened for self-service.
  The lock that forbids claiming a revoked model again is written by \<open>lock_reclaim\<close> and removed
  by \<open>unlock\<close> (\<open>api/admin_self_service.py\<close>).
\<close>

datatype claim_reason =
    MemberInactive | ModelNotSelfService | ModelForbidden | AlreadyClaimed | ReclaimLocked | ModelNotFound

definition evaluate_claim_eligibility ::
  "bool \<Rightarrow> model_catalog \<Rightarrow> string list \<Rightarrow> string list \<Rightarrow> bool \<Rightarrow> bool \<Rightarrow> claim_reason option" where
  "evaluate_claim_eligibility is_active model tags active_providers has_active_self_alloc locked =
     (if \<not> is_active then Some MemberInactive
      else if \<not> mc_self_service_enabled model then Some ModelNotSelfService
      else if \<not> fst (evaluate_visibility model tags active_providers) then Some ModelForbidden
      else if has_active_self_alloc then Some AlreadyClaimed
      else if locked then Some ReclaimLocked
      else None)"

definition active_self_alloc :: "string \<Rightarrow> string \<Rightarrow> allocation \<Rightarrow> bool" where
  "active_self_alloc mid slug a \<longleftrightarrow> a_member_id a = mid \<and> a_resource_model a = slug \<and>
     a_origin a = origin_self_service \<and> a_status a = active"

definition has_active_self_alloc :: "string \<Rightarrow> string \<Rightarrow> db \<Rightarrow> bool" where
  "has_active_self_alloc mid slug d = list_ex (active_self_alloc mid slug) (allocations d)"

definition is_locked :: "string \<Rightarrow> string \<Rightarrow> db \<Rightarrow> bool" where
  "is_locked mid slug d =
     list_ex (\<lambda>l. l_member_id l = mid \<and> l_model_slug l = slug) (reclaim_locks d)"

definition get_model :: "string \<Rightarrow> db \<Rightarrow> model_catalog option" where
  "get_model slug d = find (\<lambda>mc. mc_slug mc = slug) (catalog d)"

definition check_claim :: "member \<Rightarrow> string \<Rightarrow> db \<Rightarrow> claim_reason option \<times> model_catalog option" where
  "check_claim m slug d =
     (case get_model slug d of
        None \<Rightarrow> (Some ModelNotFound, None)
      | Some model \<Rightarrow>
          (evaluate_claim_eligibility (m_status m = member_active) model (get_member_tags (m_id m) d)
             (get_providers_with_active_credentials d) (has_active_self_alloc (m_id m) slug d)
             (is_locked (m_id m) slug d),
           Some model))"

definition claim :: "env \<Rightarrow> member \<Rightarrow> string \<Rightarrow> db \<Rightarrow> ((claim_reason + alloc_error) + allocation_created) \<times> db" where
  "claim e m slug d =
     (case check_claim m slug d of
        (None, Some model) \<Rightarrow>
          (case create_allocation e (Some (m_id m)) slug None (Some (''self-service:'' @ m_id m)) None
                  (mc_self_service_default_quota model) None origin_self_service d of
             (Inl err, d1) \<Rightarrow> (Inl (Inr err), d1)
           | (Inr r, d1) \<Rightarrow>
               (Inr r,
                audit_record e self_service_claimed actor_member (Some (m_id m)) (Some ''model'')
                  (Some slug)
                  [(''allocation_id'', JStr (a_id (ac_allocation r))),
                   (''quota'', case mc_self_service_default_quota model of
                                 None \<Rightarrow> JNull | Some q \<Rightarrow> JInt q)] d1))
      | (Some reason, _) \<Rightarrow> (Inl (Inl reason), d)
      | (None, None) \<Rightarrow> (Inl (Inl ModelNotFound), d))"

definition existing_active :: "string \<Rightarrow> string \<Rightarrow> db \<Rightarrow> allocation option" where
  "existing_active mid slug d = find (active_self_alloc mid slug) (allocations d)"

datatype claim_state = Claimable | StateReclaimLocked

definition list_claimable :: "member \<Rightarrow> db \<Rightarrow> (model_catalog \<times> claim_state) list" where
  "list_claimable m d =
     (if m_status m \<noteq> member_active then []
      else
        (let tags = get_member_tags (m_id m) d;
             active_providers = get_providers_with_active_credentials d;
             held = map a_resource_model
                      (filter (\<lambda>a. a_member_id a = m_id m \<and> a_status a = active) (allocations d))
         in map (\<lambda>mc. (mc, if is_locked (m_id m) (mc_slug mc) d then StateReclaimLocked else Claimable))
              (filter (\<lambda>mc. mc_self_service_enabled mc \<and>
                            fst (evaluate_visibility mc tags active_providers) \<and>
                            mc_slug mc \<notin> set held)
                 (catalog d))))"

definition self_service_config :: "model_catalog \<Rightarrow> json" where
  "self_service_config mc = JObj
     [(''slug'', JStr (mc_slug mc)), (''self_service_enabled'', JBool (mc_self_service_enabled mc)),
      (''self_service_default_quota'',
       case mc_self_service_default_quota mc of None \<Rightarrow> JNull | Some q \<Rightarrow> JInt q)]"

text \<open>\<open>PATCH .../self-service\<close>: the value is whether it was accepted (none when there is no such
  model).\<close>

definition patch_self_service :: "env \<Rightarrow> string \<Rightarrow> bool \<Rightarrow> int option \<Rightarrow> db \<Rightarrow> bool option \<times> db" where
  "patch_self_service e slug enabled default_quota d =
     (case get_model slug d of
        None \<Rightarrow> (None, d)
      | Some model \<Rightarrow>
          if enabled \<and> (case default_quota of None \<Rightarrow> True | Some q \<Rightarrow> q \<le> 0) then (Some False, d)
          else
            (let f = (\<lambda>mc. if enabled
                 then mc\<lparr>mc_self_service_enabled := True, mc_self_service_default_quota := default_quota\<rparr>
                 else mc\<lparr>mc_self_service_enabled := False\<rparr>)
             in (Some True,
                 audit_record e model_access_policy_updated actor_admin None (Some ''model'') (Some slug)
                   [(''self_service'', self_service_config (f model))]
                   (catalog_update (update_where (\<lambda>mc. mc_slug mc = slug) f) d))))"

definition unlock :: "env \<Rightarrow> string \<Rightarrow> string \<Rightarrow> db \<Rightarrow> db" where
  "unlock e mid slug d =
     (let gone = (\<lambda>l. l_member_id l = mid \<and> l_model_slug l = slug);
          d1 = reclaim_locks_update (delete_where gone) d
      in if list_ex gone (reclaim_locks d)
         then audit_record e self_service_unlocked actor_admin None (Some ''member'') (Some mid)
                [(''model'', JStr slug)] d1
         else d1)"

end
