(* ===== verification/SelfServiceTheorems.thy ===== *)
theory SelfServiceTheorems
  imports SelfService AllocationSpec
begin

text \<open>
  What self-service guarantees: a claim passes every gate and cannot be repeated while its
  allocation is active, and a revocation locks the model until an administrator unlocks it.  The
  last property is about the gap between the two: a paused allocation blocks nothing.
\<close>

section \<open>Frames\<close>

definition same_policy :: "db \<Rightarrow> db \<Rightarrow> bool" where
  "same_policy d d' \<longleftrightarrow> catalog d' = catalog d \<and> member_tags d' = member_tags d \<and>
     provider_creds d' = provider_creds d \<and> reclaim_locks d' = reclaim_locks d"

lemma issue_same_policy:
  "issue_allocation e m model memo creator quota cost origin d = (r, d') \<Longrightarrow>
     same_policy d d' \<and> members d' = members d"
  by (auto simp: issue_allocation_def Let_def case_prod_beta same_policy_def add_links_def
      add_credential_row_def)

lemma check_claim_cong:
  "same_policy d d' \<Longrightarrow> has_active_self_alloc (m_id m) slug d' = has_active_self_alloc (m_id m) slug d \<Longrightarrow>
     check_claim m slug d' = check_claim m slug d"
  by (simp add: same_policy_def check_claim_def get_model_def get_member_tags_def
      get_providers_with_active_credentials_def is_locked_def split: option.split)

text \<open>What a successful claim did.\<close>

lemma claim_success:
  assumes "claim e m slug d = (Inr r, d')"
  obtains model d1 row where "check_claim m slug d = (None, Some model)" "get_member (m_id m) d = Some row"
    "issue_allocation e row slug None (Some (''self-service:'' @ m_id m)) (mc_self_service_default_quota model)
       None origin_self_service d = (r, d1)"
    "allocations d' = allocations d1" "same_policy d1 d'" "members d' = members d1"
    "slug \<noteq> []"
proof -
  from assms obtain model where model: "check_claim m slug d = (None, Some model)"
    by (auto simp: claim_def split: prod.splits option.splits sum.splits)
  obtain x d1 where create: "create_allocation e (Some (m_id m)) slug None (Some (''self-service:'' @ m_id m)) None
      (mc_self_service_default_quota model) None origin_self_service d = (x, d1)" by fastforce
  with assms model have x: "x = Inr r" and d': "allocations d' = allocations d1" "same_policy d1 d'" "members d' = members d1"
    by (auto simp: claim_def same_policy_def split: sum.splits)
  from create x obtain row where "get_member (m_id m) d = Some row"
    "issue_allocation e row slug None (Some (''self-service:'' @ m_id m)) (mc_self_service_default_quota model)
       None origin_self_service d = (r, d1)" "slug \<noteq> []"
    by (auto simp: create_allocation_def case_prod_beta prod_eq_iff split: if_splits option.splits)
  with model d' that show thesis by blast
qed

lemma get_member_id: "get_member mid d = Some row \<Longrightarrow> m_id row = mid"
  unfolding get_member_def by (drule find_SomeD) simp

lemma claimed_row:
  assumes "issue_allocation e row slug memo creator quota None origin_self_service d = (r, d1)"
  shows "active_self_alloc (m_id row) slug (ac_allocation r)" "a_quota_tokens (ac_allocation r) = quota"
  using assms by (auto simp: issue_allocation_def Let_def case_prod_beta active_self_alloc_def)

lemma check_claim_passes:
  "check_claim m slug d = (None, Some model) \<longleftrightarrow>
     get_model slug d = Some model \<and> m_status m = member_active \<and> mc_self_service_enabled model \<and>
     fst (evaluate_visibility model (get_member_tags (m_id m) d) (get_providers_with_active_credentials d)) \<and>
     \<not> has_active_self_alloc (m_id m) slug d \<and> \<not> is_locked (m_id m) slug d"
  by (auto simp: check_claim_def evaluate_claim_eligibility_def split: option.splits if_splits)

lemma policy_reads:
  assumes "same_policy d d'"
  shows "get_model slug d' = get_model slug d" "get_member_tags mid d' = get_member_tags mid d"
    "get_providers_with_active_credentials d' = get_providers_with_active_credentials d"
    "is_locked mid slug d' = is_locked mid slug d"
  using assms by (simp_all add: same_policy_def get_model_def get_member_tags_def
      get_providers_with_active_credentials_def is_locked_def)

lemma scope_wf_claim: "env_ok e \<Longrightarrow> scope_wf e d \<Longrightarrow> scope_wf e (snd (claim e m slug d))"
  using scope_wf_create [of e d "Some (m_id m)" slug None "Some (''self-service:'' @ m_id m)" None _ None origin_self_service]
  by (simp add: claim_def case_prod_beta split: option.split sum.split)

text \<open>Pausing and resuming the allocation at a known place of the table.\<close>

lemma update_middle:
  assumes "a_id a = aid" "\<And>x. x \<in> set xs \<Longrightarrow> a_id x \<noteq> aid" "\<And>x. x \<in> set ys \<Longrightarrow> a_id x \<noteq> aid"
  shows "update_where (\<lambda>x. a_id x = aid) f (xs @ a # ys) = xs @ f a # ys"
    and "find (\<lambda>x. a_id x = aid) (xs @ a # ys) = Some a"
proof -
  have "update_where (\<lambda>x. a_id x = aid) f zs = zs" if "\<And>x. x \<in> set zs \<Longrightarrow> a_id x \<noteq> aid" for zs
    by (rule update_where_idI) (use that in blast)
  with assms show "update_where (\<lambda>x. a_id x = aid) f (xs @ a # ys) = xs @ f a # ys" by simp
  have "find (\<lambda>x. a_id x = aid) xs = None" using assms(2) by (simp add: find_None_ball)
  with assms(1) show "find (\<lambda>x. a_id x = aid) (xs @ a # ys) = Some a" by (simp add: find_append)
qed

lemma pause_row:
  assumes "allocations d = xs @ a # ys" "a_id a = aid" "a_status a = active"
    "\<And>x. x \<in> set xs \<Longrightarrow> a_id x \<noteq> aid" "\<And>x. x \<in> set ys \<Longrightarrow> a_id x \<noteq> aid"
  shows "allocations (snd (pause e aid admin d)) = xs @ a\<lparr>a_status := paused\<rparr> # ys"
  using assms update_middle [of a aid xs ys]
  by (simp add: pause_def get_allocation_def set_allocation_def)

lemma resume_row:
  assumes "allocations d = xs @ a # ys" "a_id a = aid" "a_status a = paused"
    "\<And>x. x \<in> set xs \<Longrightarrow> a_id x \<noteq> aid" "\<And>x. x \<in> set ys \<Longrightarrow> a_id x \<noteq> aid"
  shows "allocations (snd (resume e aid admin d)) = xs @ a\<lparr>a_status := active\<rparr> # ys"
  using assms update_middle [of a aid xs ys]
  by (simp add: resume_def get_allocation_def set_allocation_def)

lemma pause_frame:
  "same_policy d (snd (pause e aid admin d))" "members (snd (pause e aid admin d)) = members d"
  by (auto simp: pause_def same_policy_def set_allocation_def split: option.split)

section \<open>Properties\<close>

text \<open>C20: a claim succeeds only for an active member, on a model that is opened for self-service
  and visible to the member, without an active self-service allocation or a lock; it issues an
  active allocation of exactly this model and member with the model's default quota, and while
  that allocation stays active the member cannot claim the model again.\<close>

theorem claim_gates_and_once:
  assumes run: "claim e m slug d = (Inr r, d')"
  shows "\<exists>model. get_model slug d = Some model \<and> m_status m = member_active \<and> mc_self_service_enabled model \<and>
      fst (evaluate_visibility model (get_member_tags (m_id m) d) (get_providers_with_active_credentials d)) \<and>
      \<not> has_active_self_alloc (m_id m) slug d \<and> \<not> is_locked (m_id m) slug d \<and>
      active_self_alloc (m_id m) slug (ac_allocation r) \<and>
      a_quota_tokens (ac_allocation r) = mc_self_service_default_quota model \<and>
      allocations d' = allocations d @ [ac_allocation r] \<and>
      claim e' m slug d' = (Inl (Inl AlreadyClaimed), d')"
proof -
  from run obtain model d1 row where c: "check_claim m slug d = (None, Some model)" "get_member (m_id m) d = Some row"
    "issue_allocation e row slug None (Some (''self-service:'' @ m_id m)) (mc_self_service_default_quota model)
       None origin_self_service d = (r, d1)"
    "allocations d' = allocations d1" "same_policy d1 d'" "members d' = members d1"
    by (rule claim_success)
  have id: "m_id row = m_id m" by (rule get_member_id [OF c(2)])
  note row = claimed_row [OF c(3), unfolded id]
  have rows: "allocations d' = allocations d @ [ac_allocation r]" using issue_tables(1) [OF c(3)] c(4) by simp
  have "same_policy d d'" using issue_same_policy [OF c(3)] c(5) by (auto simp: same_policy_def)
  moreover have "has_active_self_alloc (m_id m) slug d'"
    using row(1) rows by (simp add: has_active_self_alloc_def)
  ultimately have "check_claim m slug d' = (Some AlreadyClaimed, Some model)"
    using c(1) unfolding check_claim_passes
    by (simp add: check_claim_def evaluate_claim_eligibility_def policy_reads)
  then have "claim e' m slug d' = (Inl (Inl AlreadyClaimed), d')" by (simp add: claim_def)
  with c(1) row rows show ?thesis by (auto simp: check_claim_passes)
qed

text \<open>Revoking a self-service allocation locks the model for its member: until the lock is
  removed no claim of this model by this member succeeds, and removing it lifts the lock.\<close>

theorem revocation_locks_model:
  assumes a: "get_allocation aid d = Some a" "a_origin a = origin_self_service" "a_status a \<noteq> revoked"
    and run: "revoke e aid admin d = (r, d')"
    and later: "reclaim_locks d'' = reclaim_locks d'" and m: "m_id m = a_member_id a"
  shows "(\<forall>x. fst (claim e' m (a_resource_model a) d'') \<noteq> Inr x) \<and>
    \<not> is_locked (a_member_id a) (a_resource_model a) (unlock e'' (a_member_id a) (a_resource_model a) d'')"
proof -
  have "is_locked (a_member_id a) (a_resource_model a) d'"
    using a run by (auto simp: revoke_def lock_reclaim_def Let_def set_allocation_def is_locked_def list_ex_iff)
  then have "is_locked (m_id m) (a_resource_model a) d''" using later m by (simp add: is_locked_def)
  then have "fst (claim e' m (a_resource_model a) d'') \<noteq> Inr x" for x
    by (metis check_claim_passes claim_success prod.collapse)
  moreover have "\<not> is_locked (a_member_id a) (a_resource_model a) (unlock e'' (a_member_id a) (a_resource_model a) d'')"
    by (auto simp: is_locked_def unlock_def Let_def list_ex_iff)
  ultimately show ?thesis by blast
qed

text \<open>A pause does not hold.  After an administrator paused an allocation a member had claimed,
  the member can claim the same model again at once, and resuming the paused one leaves the member
  with two active self-service allocations of one model.\<close>

theorem paused_claim_can_be_repeated:
  assumes ok: "env_ok e" and wf: "scope_wf e d" and run: "claim e m slug d = (Inr r, d1)"
    and p: "d2 = snd (pause e (a_id (ac_allocation r)) admin d1)"
  shows "\<exists>r2 d3 d4. claim e m slug d2 = (Inr r2, d3) \<and> d4 = snd (resume e (a_id (ac_allocation r)) admin d3) \<and>
    length (filter (active_self_alloc (m_id m) slug) (allocations d4)) = 2"
proof -
  from run obtain model d0 row where c: "check_claim m slug d = (None, Some model)" "get_member (m_id m) d = Some row"
    "issue_allocation e row slug None (Some (''self-service:'' @ m_id m)) (mc_self_service_default_quota model)
       None origin_self_service d = (r, d0)"
    "allocations d1 = allocations d0" "same_policy d0 d1" "members d1 = members d0" "slug \<noteq> []"
    by (rule claim_success)
  define a where "a = ac_allocation r"
  have id: "m_id row = m_id m" by (rule get_member_id [OF c(2)])
  have a: "active_self_alloc (m_id m) slug a" using claimed_row(1) [OF c(3)] id by (simp add: a_def)
  have aid: "a_id a = ulid e (Suc (fresh d))" using issue_tables(4) [OF c(3)] by (simp add: a_def)
  have rows1: "allocations d1 = allocations d @ [a]" using issue_tables(1) [OF c(3)] c(4) by (simp add: a_def)
  have new_a: "a_id x \<noteq> a_id a" if "x \<in> set (allocations d)" for x
    using wf not_drawn_later [OF ok, of "fresh d" "Suc (fresh d)"] that by (auto simp: scope_wf_def keys_wf_def aid)
  have rows2: "allocations d2 = allocations d @ [a\<lparr>a_status := paused\<rparr>]"
    using pause_row [of d1 "allocations d" a "[]"] rows1 a new_a by (simp add: p a_def active_self_alloc_def)
  have none: "\<not> has_active_self_alloc (m_id m) slug d" using c(1) by (simp add: check_claim_passes)
  then have none2: "\<not> has_active_self_alloc (m_id m) slug d2"
    by (simp add: has_active_self_alloc_def rows2 active_self_alloc_def)
  have "same_policy d d2"
    using issue_same_policy [OF c(3)] c(5) pause_frame(1) [of d1 e "a_id a" admin]
    by (auto simp: same_policy_def p a_def)
  then have check2: "check_claim m slug d2 = (None, Some model)"
    using c(1) none2 by (simp add: check_claim_passes policy_reads)
  have "members d2 = members d"
    using issue_same_policy [OF c(3)] c(6) pause_frame(2) [of e "a_id a" admin d1] by (simp add: p a_def)
  then have member2: "get_member (m_id m) d2 = Some row" using c(2) by (simp add: get_member_def)
  obtain r2 d0' where issue2: "issue_allocation e row slug None (Some (''self-service:'' @ m_id m))
      (mc_self_service_default_quota model) None origin_self_service d2 = (r2, d0')" by fastforce
  define a2 where "a2 = ac_allocation r2"
  have a2: "active_self_alloc (m_id m) slug a2" using claimed_row(1) [OF issue2] id by (simp add: a2_def)
  from check2 member2 issue2 c(7) obtain d3 where claim2: "claim e m slug d2 = (Inr r2, d3)"
      and d3: "allocations d3 = allocations d0'"
    by (simp add: claim_def create_allocation_def)
  have rows3: "allocations d3 = allocations d @ a\<lparr>a_status := paused\<rparr> # [a2]"
    using issue_tables(1) [OF issue2] d3 rows2 by (simp add: a2_def)
  have "scope_wf e d1" using scope_wf_claim [OF ok wf, of m slug] run by simp
  then have wf2: "scope_wf e d2" unfolding p by (rule scope_wf_pause)
  have "a_id a2 \<noteq> a_id a"
    using wf2 rows2 not_drawn_later [OF ok, of "fresh d2" "Suc (fresh d2)"] issue_tables(4) [OF issue2]
    by (auto simp: scope_wf_def keys_wf_def a2_def)
  then have "allocations (snd (resume e (a_id a) admin d3)) =
      allocations d @ (a\<lparr>a_status := paused\<rparr>)\<lparr>a_status := active\<rparr> # [a2]"
    by (intro resume_row [OF rows3]) (auto dest: new_a)
  then have "length (filter (active_self_alloc (m_id m) slug) (allocations (snd (resume e (a_id a) admin d3)))) = 2"
    using a a2 none by (simp add: has_active_self_alloc_def list_ex_iff active_self_alloc_def filter_empty_conv)
  with claim2 show ?thesis unfolding a_def by blast
qed

section \<open>A concrete claim\<close>

definition sample_model :: model_catalog where
  "sample_model = \<lparr>mc_slug = ''azure/gpt-4o'', mc_provider = ''azure'', mc_display_name = ''GPT-4o'',
     mc_family = ''gpt'', mc_description = [], mc_modality_input = [], mc_modality_output = [],
     mc_capabilities = [], mc_context_window = 128000, mc_cost_tier = ''mid'', mc_recommended_for = [],
     mc_tags = [], mc_example_request = JNull, mc_official_doc_url = None, mc_status = ''active'',
     mc_deprecation_note = None, mc_created_at = 0, mc_updated_at = 0, mc_default_access = access_open,
     mc_allowed_tags = [], mc_denied_tags = [], mc_self_service_enabled = True,
     mc_self_service_default_quota = Some 1000, mc_litellm_sync = None\<rparr>"

definition sample_provider_credential :: provider_credential where
  "sample_provider_credential = \<lparr>pc_id = ''k1'', pc_provider = ''azure'', pc_label = ''main'', pc_enc_key = ''fkey'',
     pc_fingerprint = ''fp'', pc_base_url = None, pc_extra_config = None, pc_status = pc_active,
     pc_last_used_at = None, pc_created_at = 0, pc_created_by = ''admin'', pc_disabled_at = None\<rparr>"

definition claim_db :: db where
  "claim_db = empty_db\<lparr>members := [sample_member], catalog := [sample_model],
     provider_creds := [sample_provider_credential]\<rparr>"

lemma claim_db_run: "\<exists>r d'. claim sample_env sample_member ''azure/gpt-4o'' claim_db = (Inr r, d')"
  by (simp add: claim_def check_claim_def get_model_def claim_db_def sample_model_def sample_member_def
      evaluate_claim_eligibility_def evaluate_visibility_def get_providers_with_active_credentials_def
      sample_provider_credential_def hits_def has_active_self_alloc_def is_locked_def empty_db_def
      create_allocation_def get_member_def case_prod_beta)

lemma claim_db_wf: "scope_wf sample_env claim_db"
  by (rule scope_wf_start) (simp_all add: claim_db_def empty_db_def)

theorem claim_gates_and_once_witness:
  "\<exists>r d'. claim sample_env sample_member ''azure/gpt-4o'' claim_db = (Inr r, d') \<and>
     claim sample_env sample_member ''azure/gpt-4o'' d' = (Inl (Inl AlreadyClaimed), d')"
proof -
  from claim_db_run obtain r d' where run: "claim sample_env sample_member ''azure/gpt-4o'' claim_db = (Inr r, d')"
    by blast
  from claim_gates_and_once [OF run, of sample_env] run show ?thesis by blast
qed

definition claimed_allocation :: allocation where
  "claimed_allocation = (sample_allocation ''a1'' ''azure/gpt-4o'')\<lparr>a_origin := origin_self_service\<rparr>"

theorem revocation_locks_model_witness:
  "\<forall>r. fst (claim sample_env sample_member ''azure/gpt-4o''
     (snd (revoke sample_env ''a1'' None (claim_db\<lparr>allocations := [claimed_allocation]\<rparr>)))) \<noteq> Inr r"
proof -
  let ?d = "claim_db\<lparr>allocations := [claimed_allocation]\<rparr>"
  have a: "get_allocation ''a1'' ?d = Some claimed_allocation" "a_origin claimed_allocation = origin_self_service"
      "a_status claimed_allocation \<noteq> revoked" "m_id sample_member = a_member_id claimed_allocation"
      "a_resource_model claimed_allocation = ''azure/gpt-4o''"
    by (simp_all add: get_allocation_def claimed_allocation_def sample_allocation_def sample_member_def)
  obtain x d' where run: "revoke sample_env ''a1'' None ?d = (x, d')" by fastforce
  from revocation_locks_model [OF a(1-3) run refl a(4), of sample_env sample_env] run a(5) show ?thesis by simp
qed

theorem paused_claim_can_be_repeated_witness:
  "\<exists>r d1 r2 d3. claim sample_env sample_member ''azure/gpt-4o'' claim_db = (Inr r, d1) \<and>
     claim sample_env sample_member ''azure/gpt-4o'' (snd (pause sample_env (a_id (ac_allocation r)) None d1)) = (Inr r2, d3)"
proof -
  from claim_db_run obtain r d' where run: "claim sample_env sample_member ''azure/gpt-4o'' claim_db = (Inr r, d')"
    by blast
  from paused_claim_can_be_repeated [OF sample_env_ok claim_db_wf run refl] run show ?thesis by blast
qed

end
