(* ===== verification/DeviceFlow.thy ===== *)
theory DeviceFlow
  imports AllocationSpec
begin

text \<open>
  \<open>services/device_flow.py\<close> and its endpoints (\<open>api/device.py\<close>, the device endpoints of
  \<open>api/me.py\<close>): an install script starts a request and polls it by its device code; the member
  approves it in the browser by its user code, which mints an application key and leaves the
  token, encrypted, on the row for the next poll.  One definition per method of
  \<open>DeviceFlowService\<close> and per endpoint that turns its exceptions into a status.
\<close>

section \<open>Starting a request\<close>

definition user_code_alphabet :: string where
  "user_code_alphabet = ''ABCDEFGHJKMNPQRSTUVWXYZ23456789''"

definition device_expires_in :: int where
  "device_expires_in = 600"

definition device_interval :: int where
  "device_interval = 5"

definition gen_user_code :: "env \<Rightarrow> db \<Rightarrow> string \<times> db" where
  "gen_user_code e d =
     (let raw = map (\<lambda>k. user_code_alphabet ! randbelow e (fresh d + k) (length user_code_alphabet)) [0..<8]
      in (take 4 raw @ ''-'' @ drop 4 raw, d\<lparr>fresh := fresh d + 8\<rparr>))"

definition user_code_taken :: "string \<Rightarrow> db \<Rightarrow> bool" where
  "user_code_taken code d = list_ex (\<lambda>r. d_user_code r = code) (device_auths d)"

text \<open>The loop \<open>for _ in range(5)\<close>: it breaks at the first code that is free.\<close>

fun retry_user_code :: "env \<Rightarrow> nat \<Rightarrow> string \<Rightarrow> db \<Rightarrow> string \<times> db" where
  "retry_user_code e 0 code d = (code, d)"
| "retry_user_code e (Suc k) code d =
     (if user_code_taken code d
      then (let (code', d1) = gen_user_code e d in retry_user_code e k code' d1)
      else (code, d))"

record authorize_result =
  ar_device_code :: string
  ar_user_code :: string
  ar_verification_uri :: string
  ar_verification_uri_complete :: string
  ar_expires_in :: int
  ar_interval :: int

definition non_empty :: "string option \<Rightarrow> string option" where
  "non_empty s = (case s of Some (c # cs) \<Rightarrow> s | _ \<Rightarrow> None)"

definition new_device_auth ::
  "env \<Rightarrow> string \<Rightarrow> string \<Rightarrow> string \<Rightarrow> string option \<Rightarrow> device_authorization" where
  "new_device_auth e did device_code user_code label =
     \<lparr>d_id = did, d_device_code = device_code, d_user_code = user_code, d_status = device_pending,
      d_device_label = non_empty label, d_member_id = None, d_allocation_id = None,
      d_credential_id = None, d_encrypted_token = None, d_created_at = now e,
      d_expires_at = now e + seconds device_expires_in, d_approved_at = None,
      d_last_polled_at = None, d_poll_interval = device_interval\<rparr>"

text \<open>The primary key and the two unique indexes; a violation is raised at the flush.\<close>

definition device_unique :: "device_authorization \<Rightarrow> db \<Rightarrow> bool" where
  "device_unique row d = list_all (\<lambda>r. d_id r \<noteq> d_id row \<and> d_device_code r \<noteq> d_device_code row \<and>
     d_user_code r \<noteq> d_user_code row) (device_auths d)"

definition authorize :: "env \<Rightarrow> string option \<Rightarrow> db \<Rightarrow> (alloc_error + authorize_result) \<times> db" where
  "authorize e label d =
     (let device_code = token_urlsafe e (fresh d);
          (code0, d1) = gen_user_code e (tick d);
          (user_code, d2) = retry_user_code e 5 code0 d1;
          (did, d3) = new_ulid e d2;
          row = new_device_auth e did device_code user_code label
      in if device_unique row d3
         then (Inr \<lparr>ar_device_code = device_code, ar_user_code = user_code,
                     ar_verification_uri = ''/device'',
                     ar_verification_uri_complete = ''/device?code='' @ user_code,
                     ar_expires_in = device_expires_in, ar_interval = device_interval\<rparr>,
               device_auths_update (\<lambda>rs. rs @ [row]) d3)
         else (Inl IntegrityError, d3))"

section \<open>The member decides\<close>

definition by_user_code :: "string \<Rightarrow> db \<Rightarrow> device_authorization option" where
  "by_user_code code d = find (\<lambda>r. d_user_code r = code) (device_auths d)"

definition set_device ::
  "string \<Rightarrow> (device_authorization \<Rightarrow> device_authorization) \<Rightarrow> db \<Rightarrow> db" where
  "set_device did f d = device_auths_update (update_where (\<lambda>r. d_id r = did) f) d"

definition get_pending_device ::
  "env \<Rightarrow> string \<Rightarrow> db \<Rightarrow> device_authorization option \<times> db" where
  "get_pending_device e code d =
     (case by_user_code code d of
        None \<Rightarrow> (None, d)
      | Some row \<Rightarrow>
          if d_status row \<noteq> device_pending then (None, d)
          else if d_expires_at row \<le> now e
          then (None, set_device (d_id row) (\<lambda>r. r\<lparr>d_status := device_expired\<rparr>) d)
          else (Some row, d))"

datatype device_error = DeviceAuthError | DeviceScope alloc_error

definition approve_device ::
  "env \<Rightarrow> string \<Rightarrow> member \<Rightarrow> string list \<Rightarrow> db \<Rightarrow> (device_error + device_authorization) \<times> db" where
  "approve_device e code m aids d =
     (case get_pending_device e code d of
        (None, d1) \<Rightarrow> (Inl DeviceAuthError, d1)
      | (Some row, d1) \<Rightarrow>
          if aids = [] then (Inl (DeviceScope EmptyScope), d1)
          else
            (let name = (case non_empty (d_device_label row) of None \<Rightarrow> ''Codex'' | Some l \<Rightarrow> l) in
             case create_member_credential e (m_id m) name aids d1 of
               (Inl err, d2) \<Rightarrow> (Inl (DeviceScope err), d2)
             | (Inr (c, tok), d2) \<Rightarrow>
                 (let f = (\<lambda>r. r\<lparr>d_member_id := Some (m_id m), d_allocation_id := Some (hd aids),
                              d_credential_id := Some (c_id c),
                              d_encrypted_token := Some (encrypt e (fresh d2) (g_plaintext tok)),
                              d_status := device_approved, d_approved_at := Some (now e)\<rparr>)
                  in (Inr (f row),
                      audit_record e device_authorization_approved actor_member (Some (m_id m))
                        (Some ''device_authorization'') (Some (d_id row))
                        [(''allocation_ids'', JList (map JStr aids)),
                         (''credential_id'', JStr (c_id c))]
                        (set_device (d_id row) f (tick d2))))))"

definition deny_device :: "env \<Rightarrow> string \<Rightarrow> member \<Rightarrow> db \<Rightarrow> bool \<times> db" where
  "deny_device e code m d =
     (case get_pending_device e code d of
        (None, d1) \<Rightarrow> (False, d1)
      | (Some row, d1) \<Rightarrow>
          (True,
           audit_record e device_authorization_denied actor_member (Some (m_id m))
             (Some ''device_authorization'') (Some (d_id row)) []
             (set_device (d_id row) (\<lambda>r. r\<lparr>d_status := device_denied\<rparr>) d1)))"

section \<open>The script polls\<close>

record poll_result =
  po_status :: string
  po_token :: "string option"
  po_token_prefix :: "string option"
  po_credential_id :: "string option"
  po_model :: "string option"

definition poll_status :: "string \<Rightarrow> poll_result" where
  "poll_status s = \<lparr>po_status = s, po_token = None, po_token_prefix = None, po_credential_id = None,
     po_model = None\<rparr>"

definition by_device_code :: "string \<Rightarrow> db \<Rightarrow> device_authorization option" where
  "by_device_code code d = find (\<lambda>r. d_device_code r = code) (device_auths d)"

text \<open>The model to pin: the bare slug if it is unambiguous in the scope of the key.\<close>

definition pinned_model :: "device_authorization \<Rightarrow> db \<Rightarrow> string option" where
  "pinned_model row d =
     (case d_allocation_id row of
        None \<Rightarrow> None
      | Some aid \<Rightarrow>
          (case get_allocation aid d of
             None \<Rightarrow> None
           | Some a \<Rightarrow>
               (let repr_model = a_resource_model a;
                    bare = split_last (CHR ''/'') repr_model;
                    scope = map ca_resource_model
                      (filter (\<lambda>l. Some (ca_credential_id l) = d_credential_id row) (credential_allocations d));
                    same_bare = filter (\<lambda>m. split_last (CHR ''/'') m = bare) scope
                in Some (if length same_bare = 1 then bare else repr_model))))"

text \<open>\<open>None\<close> is the exception of a token that does not decrypt.\<close>

definition poll :: "env \<Rightarrow> string \<Rightarrow> db \<Rightarrow> poll_result option \<times> db" where
  "poll e code d =
     (case by_device_code code d of
        None \<Rightarrow> (Some (poll_status ''not_found''), d)
      | Some row \<Rightarrow>
          (case d_status row of
             device_pending \<Rightarrow>
               if d_expires_at row \<le> now e
               then (Some (poll_status ''expired_token''),
                     set_device (d_id row) (\<lambda>r. r\<lparr>d_status := device_expired\<rparr>) d)
               else
                 (let d1 = set_device (d_id row) (\<lambda>r. r\<lparr>d_last_polled_at := Some (now e)\<rparr>) d in
                  case d_last_polled_at row of
                    Some prev \<Rightarrow>
                      if now e - prev < seconds (d_poll_interval row)
                      then (Some (poll_status ''slow_down''), d1)
                      else (Some (poll_status ''authorization_pending''), d1)
                  | None \<Rightarrow> (Some (poll_status ''authorization_pending''), d1))
           | device_denied \<Rightarrow> (Some (poll_status ''access_denied''), d)
           | device_expired \<Rightarrow> (Some (poll_status ''expired_token''), d)
           | device_approved \<Rightarrow>
               (case d_encrypted_token row of
                  None \<Rightarrow> (Some (poll_status ''expired_token''), d)
                | Some enc \<Rightarrow>
                    (case decrypt e enc of
                       None \<Rightarrow> (None, d)
                     | Some plaintext \<Rightarrow>
                         (Some \<lparr>po_status = ''success'', po_token = Some plaintext,
                                po_token_prefix = Some (take 8 plaintext),
                                po_credential_id = d_credential_id row,
                                po_model = pinned_model row d\<rparr>,
                          set_device (d_id row) (\<lambda>r. r\<lparr>d_encrypted_token := None\<rparr>) d)))))"

section \<open>The endpoints\<close>

text \<open>\<open>POST /device/token\<close>: the status code and, on success, the body.  A JSON response, whatever its
  code, is committed; an exception is a 500 and rolled back.\<close>

definition device_token :: "env \<Rightarrow> string \<Rightarrow> db \<Rightarrow> (int \<times> poll_result option) \<times> db" where
  "device_token e code d =
     (case poll e code d of
        (None, d1) \<Rightarrow> ((500, None), rollback_to d d1)
      | (Some res, d1) \<Rightarrow>
          ((if po_status res = ''success'' then 200
            else if po_status res = ''not_found'' then 404 else 400, Some res), d1))"

text \<open>The approval and the denial of \<open>api/me.py\<close>: an \<open>HTTPException\<close> rolls the session back.\<close>

definition approve_my_device_request ::
  "env \<Rightarrow> string \<Rightarrow> member \<Rightarrow> string list \<Rightarrow> db \<Rightarrow> int \<times> db" where
  "approve_my_device_request e code m aids d =
     (case approve_device e code m aids d of
        (Inr row, d1) \<Rightarrow> (204, d1)
      | (Inl (DeviceScope (NotOwned a)), d1) \<Rightarrow> (403, rollback_to d d1)
      | (Inl (DeviceScope _), d1) \<Rightarrow> (409, rollback_to d d1)
      | (Inl DeviceAuthError, d1) \<Rightarrow> (404, rollback_to d d1))"

definition deny_my_device_request :: "env \<Rightarrow> string \<Rightarrow> member \<Rightarrow> db \<Rightarrow> int \<times> db" where
  "deny_my_device_request e code m d =
     (case deny_device e code m d of (True, d1) \<Rightarrow> (204, d1) | (False, d1) \<Rightarrow> (404, rollback_to d d1))"

definition get_my_device_request ::
  "env \<Rightarrow> string \<Rightarrow> db \<Rightarrow> (int \<times> device_authorization option) \<times> db" where
  "get_my_device_request e code d =
     (case get_pending_device e code d of
        (Some row, d1) \<Rightarrow> ((200, Some row), d1)
      | (None, d1) \<Rightarrow> ((404, None), rollback_to d d1))"

end
