(* ===== verification/OneShot.thy ===== *)
theory OneShot
  imports AllocationSpec
begin

text \<open>
  The interface of things that are handed out once: a device token, an authorization code, an
  invitation.  \<open>delivers k d d'\<close> says that using \<open>k\<close> in session \<open>d\<close> succeeds and leaves \<open>d'\<close>,
  \<open>spent k\<close> that it can never succeed again; the operations of the component are \<open>step\<close>.  The
  client's lemma is \<open>never_again\<close>.  Then what both browser flows rely on when they mint an
  application key (\<open>create_member_credential\<close>): its token calls exactly the chosen allocations.
\<close>

section \<open>Single use\<close>

locale one_shot =
  fixes inv :: "'d \<Rightarrow> bool" and step :: "'d \<Rightarrow> 'd \<Rightarrow> bool"
    and delivers :: "'k \<Rightarrow> 'd \<Rightarrow> 'd \<Rightarrow> bool" and spent :: "'k \<Rightarrow> 'd \<Rightarrow> bool"
  assumes inv_step: "inv d \<Longrightarrow> step d d' \<Longrightarrow> inv d'"
    and spent_step: "inv d \<Longrightarrow> step d d' \<Longrightarrow> spent k d \<Longrightarrow> spent k d'"
    and delivery_steps: "delivers k d d' \<Longrightarrow> step d d'"
    and delivery_spends: "inv d \<Longrightarrow> delivers k d d' \<Longrightarrow> spent k d'"
    and spent_no_delivery: "inv d \<Longrightarrow> spent k d \<Longrightarrow> \<not> delivers k d d'"
begin

lemma inv_run: "step\<^sup>*\<^sup>* d d' \<Longrightarrow> inv d \<Longrightarrow> inv d'"
  by (induction rule: rtranclp_induct) (auto intro: inv_step)

lemma spent_run: "step\<^sup>*\<^sup>* d d' \<Longrightarrow> inv d \<Longrightarrow> spent k d \<Longrightarrow> spent k d'"
proof (induction rule: rtranclp_induct)
  case (step y z)
  then show ?case using inv_run spent_step by blast
qed

lemma never_again:
  assumes "inv d" "delivers k d d1" "step\<^sup>*\<^sup>* d1 d2"
  shows "\<not> delivers k d2 d3"
proof -
  have "inv d1" using assms(1,2) delivery_steps inv_step by blast
  moreover have "spent k d1" using assms(1,2) by (rule delivery_spends)
  ultimately show ?thesis
    using spent_no_delivery inv_run [OF assms(3)] spent_run [OF assms(3)] by blast
qed

end

section \<open>What a new key grants\<close>

lemma create_key_runs:
  assumes run: "create_member_credential e mid name aids d = (Inr (c, tok), d')"
  obtains allocs where "owned_allocations mid aids d = Inr allocs" "aids \<noteq> []"
    "c = new_credential e (ulid e (Suc (fresh d))) mid name tok" "tok = fst (generate_token e d)"
    "d' = add_links (c_id c) allocs (add_credential_row c (tick (tick d)))"
proof -
  from run obtain allocs where a: "owned_allocations mid aids d = Inr allocs" "aids \<noteq> []"
    by (auto simp: create_member_credential_def split: if_splits sum.splits)
  with run show ?thesis
    by (intro that [of allocs])
       (auto simp: create_member_credential_def Let_def case_prod_beta new_credential_def)
qed

lemma create_key_frame:
  assumes "create_member_credential e mid name aids d = (r, d')"
  shows "allocations d' = allocations d" "device_auths d' = device_auths d"
    "oauth_auths d' = oauth_auths d" "members d' = members d" "fresh d \<le> fresh d'"
    "\<exists>err. r = Inl err \<Longrightarrow> d' = d"
  using assms
  by (auto simp: create_member_credential_def Let_def case_prod_beta add_links_def
      add_credential_row_def split: if_splits sum.splits)

lemma create_key_row:
  assumes run: "create_member_credential e mid name aids d = (Inr (c, tok), d')"
  shows "c \<in> set (credentials d')" "c_member_id c = mid" "c_revoked_at c = None"
    "c_token_fingerprint c = fingerprint_for e (g_plaintext tok)" "c_name c = name"
    "g_plaintext tok = token_prefix @ token_urlsafe e (fresh d)"
    "c_id c = ulid e (Suc (fresh d))"
proof -
  from create_key_runs [OF run] obtain allocs
    where c: "c = new_credential e (ulid e (Suc (fresh d))) mid name tok" "tok = fst (generate_token e d)"
      "d' = add_links (c_id c) allocs (add_credential_row c (tick (tick d)))" by blast
  show "c \<in> set (credentials d')" by (simp add: c(3))
  show "c_member_id c = mid" "c_revoked_at c = None" "c_name c = name" "c_id c = ulid e (Suc (fresh d))"
    by (simp_all add: c(1) new_credential_def)
  show "c_token_fingerprint c = fingerprint_for e (g_plaintext tok)"
    "g_plaintext tok = token_prefix @ token_urlsafe e (fresh d)"
    by (simp_all add: c(1,2) new_credential_def)
qed

lemma create_key_scope:
  assumes ok: "env_ok e" and wf: "scope_wf e d"
    and run: "create_member_credential e mid name aids d = (Inr (c, tok), d')"
  shows "scope_of d' c = {a \<in> set (allocations d). a_id a \<in> set aids}"
    and "a \<in> scope_of d' c \<Longrightarrow> a_member_id a = mid"
proof -
  from create_key_runs [OF run] obtain allocs
    where own: "owned_allocations mid aids d = Inr allocs"
      and d': "d' = add_links (c_id c) allocs (add_credential_row c (tick (tick d)))" by metis
  have id: "c_id c = ulid e (Suc (fresh d))" by (rule create_key_row(7) [OF run])
  from owned_allocations_sound [OF own]
  have allocs: "owned_scope mid d allocs" "a_id ` set allocs = set aids"
    by (simp_all add: owned_scope_def)
  have old: "ca_credential_id l \<noteq> c_id c" if "l \<in> set (credential_allocations d)" for l
    using link_credential_drawn [OF wf that] not_drawn_later [OF ok, of "fresh d" "Suc (fresh d)"]
    by (auto simp: id)
  have links: "set (credential_allocations d') = set (credential_allocations d) \<union>
      (\<lambda>b. \<lparr>ca_credential_id = c_id c, ca_allocation_id = a_id b, ca_resource_model = a_resource_model b\<rparr>) `
        set allocs"
    by (simp add: d' add_links_def add_credential_row_def)
  have "(\<exists>l \<in> set (credential_allocations d'). ca_credential_id l = c_id c \<and> ca_allocation_id l = a_id a) \<longleftrightarrow>
      a_id a \<in> a_id ` set allocs" for a :: allocation
    unfolding links bex_Un using old by (auto simp: image_iff eq_commute)
  then have "scope_of d' c = {a \<in> set (allocations d). a_id a \<in> a_id ` set allocs}"
    unfolding scope_of_def using create_key_frame(1) [OF run] by simp
  with allocs(2) show scope: "scope_of d' c = {a \<in> set (allocations d). a_id a \<in> set aids}" by simp
  assume "a \<in> scope_of d' c"
  then have "a \<in> set (allocations d)" "a_id a \<in> a_id ` set allocs" using scope allocs(2) by auto
  then obtain b where b: "b \<in> set allocs" "a_id b = a_id a" by auto
  then have "b = a"
    using allocs(1) \<open>a \<in> set (allocations d)\<close> wf
    by (intro distinct_map_eqD [of a_id "allocations d"]) (auto simp: owned_scope_def scope_wf_def keys_wf_def)
  with b(1) allocs(1) show "a_member_id a = mid" by (auto simp: owned_scope_def)
qed

text \<open>The token of a new key calls the chosen allocations by their models, and nothing else.\<close>

lemma create_key_grants:
  assumes ok: "env_ok e" and wf: "scope_wf e d"
    and run: "create_member_credential e mid name aids d = (Inr (c, tok), d')"
  shows "scope_wf e d'" and "key_of e (g_plaintext tok) d' = Some c"
    and "resolve_bearer e (g_plaintext tok) model d' = Some a \<longleftrightarrow> grants d' c model a"
    and "b \<in> set (allocations d) \<Longrightarrow> a_id b \<in> set aids \<Longrightarrow> grants d' c (a_resource_model b) b"
    and "grants d' c model a \<Longrightarrow> a_id a \<in> set aids \<and> a_member_id a = mid"
proof -
  show wf': "scope_wf e d'" using scope_wf_create_key [OF ok wf, of mid name aids] run by simp
  note row = create_key_row [OF run]
  show key: "key_of e (g_plaintext tok) d' = Some c"
    by (rule key_of_in [OF wf' row(1,3,4)])
  show "resolve_bearer e (g_plaintext tok) model d' = Some a \<longleftrightarrow> grants d' c model a"
    using resolve_grants [OF wf' row(1)] key by (simp add: resolve_bearer_key)
  show "grants d' c (a_resource_model b) b" if "b \<in> set (allocations d)" "a_id b \<in> set aids"
    using that create_key_scope(1) [OF ok wf run] by (simp add: grants_def)
  assume "grants d' c model a"
  then show "a_id a \<in> set aids \<and> a_member_id a = mid"
    using create_key_scope [OF ok wf run] by (auto simp: grants_def)
qed

lemma resolve_at_time [simp]:
  "resolve_bearer (at_time e t) token k d = resolve_bearer e token k d"
  by (simp add: resolve_bearer_key key_of_def fingerprint_for_def)

lemma create_key_for_owned:
  assumes "owned_allocations mid aids d = Inr allocs" "aids \<noteq> []"
  shows "\<exists>c tok dk. create_member_credential e mid name aids d = (Inr (c, tok), dk)"
  using assms by (simp add: create_member_credential_def case_prod_beta Let_def)

lemma owned_loop_cong:
  "allocations d' = allocations d \<Longrightarrow> owned_loop mid d' aids allocs models = owned_loop mid d aids allocs models"
  by (induction aids arbitrary: allocs models) (auto simp: get_allocation_def split: option.split)

lemma owned_allocations_cong:
  "allocations d' = allocations d \<Longrightarrow> owned_allocations mid aids d' = owned_allocations mid aids d"
  unfolding owned_allocations_def by (rule owned_loop_cong)

end
