(* ===== verification/DeviceTheorems.thy ===== *)
theory DeviceTheorems
  imports DeviceFlow OneShot AllocationTheorems
begin

text \<open>
  The device flow: its unique columns stay unique and a finished row stays finished (the
  interpretation of \<open>one_shot\<close>), a token is delivered at most once, the delivered token is an
  application key for exactly the approved allocations, and the pinned model can be called.
\<close>

section \<open>Runs\<close>

inductive dev_step :: "env \<Rightarrow> db \<Rightarrow> db \<Rightarrow> bool" for e where
  by_authorize: "dev_step e d (snd (authorize (at_time e t) label d))"
| by_view: "dev_step e d (snd (get_pending_device (at_time e t) code d))"
| by_approve: "dev_step e d (snd (approve_device (at_time e t) code m aids d))"
| by_deny: "dev_step e d (snd (deny_device (at_time e t) code m d))"
| by_poll: "dev_step e d (snd (poll (at_time e t) code d))"
| by_others: "device_auths d' = device_auths d \<Longrightarrow> dev_step e d d'"

definition dev_wf :: "db \<Rightarrow> bool" where
  "dev_wf d \<longleftrightarrow> distinct (map d_id (device_auths d)) \<and>
     distinct (map d_device_code (device_auths d)) \<and> distinct (map d_user_code (device_auths d))"

text \<open>Nothing can be handed out any more.\<close>

definition finished :: "device_authorization \<Rightarrow> bool" where
  "finished r \<longleftrightarrow> d_status r = device_denied \<or> d_status r = device_expired \<or>
     d_status r = device_approved \<and> d_encrypted_token r = None"

definition dev_spent :: "string \<Rightarrow> db \<Rightarrow> bool" where
  "dev_spent code d \<longleftrightarrow> (\<exists>r \<in> set (device_auths d). d_device_code r = code \<and> finished r)"

definition same_codes :: "(device_authorization \<Rightarrow> device_authorization) \<Rightarrow> bool" where
  "same_codes f \<longleftrightarrow> (\<forall>r. d_id (f r) = d_id r \<and> d_device_code (f r) = d_device_code r \<and>
     d_user_code (f r) = d_user_code r)"

text \<open>What a step does to the table: nothing, one new row, or one write to an unfinished row.\<close>

inductive dev_write :: "db \<Rightarrow> db \<Rightarrow> bool" where
  keep: "device_auths d' = device_auths d \<Longrightarrow> dev_write d d'"
| add: "device_auths d' = device_auths d @ [r] \<Longrightarrow> device_unique r d \<Longrightarrow> dev_write d d'"
| edit: "device_auths d' = update_where (\<lambda>x. d_id x = d_id r) f (device_auths d) \<Longrightarrow>
    r \<in> set (device_auths d) \<Longrightarrow> \<not> finished r \<Longrightarrow> same_codes f \<Longrightarrow> dev_write d d'"

lemma device_unique_cong: "device_auths d' = device_auths d \<Longrightarrow> device_unique r d' = device_unique r d"
  by (simp add: device_unique_def)

lemma gen_user_code_frame [simp]: "device_auths (snd (gen_user_code e d)) = device_auths d"
  by (simp add: gen_user_code_def Let_def)

lemma retry_frame [simp]: "device_auths (snd (retry_user_code e k code d)) = device_auths d"
  by (induction e k code d rule: retry_user_code.induct) (auto simp: case_prod_beta)

lemma authorize_write: "dev_write d (snd (authorize e label d))"
proof -
  let ?d1 = "snd (gen_user_code e (tick d))"
  let ?d2 = "snd (retry_user_code e 5 (fst (gen_user_code e (tick d))) ?d1)"
  let ?row = "new_device_auth e (ulid e (fresh ?d2)) (token_urlsafe e (fresh d))
    (fst (retry_user_code e 5 (fst (gen_user_code e (tick d))) ?d1)) label"
  show ?thesis
  proof (cases "device_unique ?row (tick ?d2)")
    case True
    then have "device_unique ?row d" by (simp add: device_unique_def)
    with True show ?thesis
      by (intro dev_write.add [of _ _ ?row]) (simp_all add: authorize_def Let_def case_prod_beta)
  next
    case False
    then show ?thesis
      by (intro dev_write.keep) (simp add: authorize_def Let_def case_prod_beta)
  qed
qed

lemma by_user_code_mem:
  "by_user_code code d = Some r \<Longrightarrow> r \<in> set (device_auths d) \<and> d_user_code r = code"
  unfolding by_user_code_def by (drule find_SomeD) simp

lemma by_device_code_mem:
  "by_device_code code d = Some r \<Longrightarrow> r \<in> set (device_auths d) \<and> d_device_code r = code"
  unfolding by_device_code_def by (drule find_SomeD) simp

lemma rows_set_device [simp]:
  "device_auths (set_device did f d) = update_where (\<lambda>r. d_id r = did) f (device_auths d)"
  by (simp add: set_device_def)

lemma pending_unfinished: "d_status r = device_pending \<Longrightarrow> \<not> finished r"
  by (simp add: finished_def)

lemma get_pending_write: "dev_write d (snd (get_pending_device e code d))"
proof (cases "by_user_code code d")
  case None
  then show ?thesis by (simp add: get_pending_device_def dev_write.keep)
next
  case (Some r)
  show ?thesis
  proof (cases "d_status r = device_pending \<and> d_expires_at r \<le> now e")
    case True
    with Some by_user_code_mem [OF Some] show ?thesis
      by (intro dev_write.edit [of _ r "\<lambda>r. r\<lparr>d_status := device_expired\<rparr>"])
         (auto simp: get_pending_device_def same_codes_def finished_def)
  next
    case False
    with Some show ?thesis
      by (intro dev_write.keep) (auto simp: get_pending_device_def)
  qed
qed

text \<open>A row that is handed to the member is pending, unexpired and in the session as it was.\<close>

lemma get_pending_found:
  assumes "get_pending_device e code d = (Some r, d1)"
  shows "d1 = d \<and> r \<in> set (device_auths d) \<and> d_user_code r = code \<and> d_status r = device_pending \<and>
    now e < d_expires_at r"
  using assms by_user_code_mem [of code d]
  by (auto simp: get_pending_device_def split: option.splits if_splits)

lemma approve_cases:
  assumes run: "approve_device e code m aids d = (res, d')"
  obtains (fail) "\<exists>err. res = Inl err" "d' = snd (get_pending_device e code d)"
  | (ok) r c tok d2 name
      and f :: "device_authorization \<Rightarrow> device_authorization" where "get_pending_device e code d = (Some r, d)"
      "name = (case non_empty (d_device_label r) of None \<Rightarrow> ''Codex'' | Some l \<Rightarrow> l)"
      "create_member_credential e (m_id m) name aids d = (Inr (c, tok), d2)" "res = Inr (f r)"
      "f = (\<lambda>r. r\<lparr>d_member_id := Some (m_id m), d_allocation_id := Some (hd aids),
         d_credential_id := Some (c_id c),
         d_encrypted_token := Some (encrypt e (fresh d2) (g_plaintext tok)),
         d_status := device_approved, d_approved_at := Some (now e)\<rparr>)"
      "device_auths d' = update_where (\<lambda>x. d_id x = d_id r) f (device_auths d)"
      "credentials d' = credentials d2" "allocations d' = allocations d2"
      "credential_allocations d' = credential_allocations d2"
proof (cases "get_pending_device e code d")
  case (Pair found d1)
  show ?thesis
  proof (cases found)
    case None
    with Pair run show ?thesis by (intro fail) (auto simp: approve_device_def)
  next
    case (Some r)
    with Pair have d1: "d1 = d" using get_pending_found by blast
    define name where "name = (case non_empty (d_device_label r) of None \<Rightarrow> ''Codex'' | Some l \<Rightarrow> l)"
    obtain created d2 where made: "create_member_credential e (m_id m) name aids d = (created, d2)"
      by fastforce
    show ?thesis
    proof (cases "\<exists>c tok. aids \<noteq> [] \<and> created = Inr (c, tok)")
      case True
      then obtain c tok where created: "created = Inr (c, tok)" and ne: "aids \<noteq> []" by blast
      define f :: "device_authorization \<Rightarrow> device_authorization" where "f = (\<lambda>r. r\<lparr>d_member_id := Some (m_id m), d_allocation_id := Some (hd aids),
         d_credential_id := Some (c_id c),
         d_encrypted_token := Some (encrypt e (fresh d2) (g_plaintext tok)),
         d_status := device_approved, d_approved_at := Some (now e)\<rparr>)"
      have "(res, d') = (Inr (f r), audit_record e device_authorization_approved actor_member (Some (m_id m))
          (Some ''device_authorization'') (Some (d_id r))
          [(''allocation_ids'', JList (map JStr aids)), (''credential_id'', JStr (c_id c))]
          (set_device (d_id r) f (tick d2)))"
        unfolding run [symmetric] using Pair Some d1 ne made created
        by (simp add: approve_device_def Let_def f_def name_def)
      with create_key_frame(2) [OF made] Pair Some d1 made created show ?thesis
        by (intro ok [of r name c tok d2 f]) (auto simp: f_def name_def set_device_def)
    next
      case False
      have "d2 = d" if "\<exists>err. created = Inl err" using create_key_frame(6) [OF made that] .
      with False Pair Some d1 made run show ?thesis
        by (intro fail) (auto simp: approve_device_def Let_def name_def split: if_splits sum.splits)
    qed
  qed
qed

lemma approve_write: "dev_write d (snd (approve_device e code m aids d))"
proof (cases "approve_device e code m aids d")
  case (Pair res d')
  then show ?thesis
  proof (cases rule: approve_cases)
    case fail
    with Pair get_pending_write show ?thesis by simp
  next
    case (ok r c tok d2 name f)
    with Pair get_pending_found [OF ok(1)] show ?thesis
      by (intro dev_write.edit [of _ r f]) (simp_all add: same_codes_def pending_unfinished)
  qed
qed

lemma deny_write: "dev_write d (snd (deny_device e code m d))"
proof (cases "get_pending_device e code d")
  case (Pair found d1)
  show ?thesis
  proof (cases found)
    case None
    with Pair get_pending_write [of d e code] show ?thesis by (simp add: deny_device_def)
  next
    case (Some r)
    with Pair get_pending_found [of e code d r d1] show ?thesis
      by (intro dev_write.edit [of _ r "\<lambda>r. r\<lparr>d_status := device_denied\<rparr>"])
         (simp_all add: deny_device_def same_codes_def pending_unfinished)
  qed
qed

lemma poll_write: "dev_write d (snd (poll e code d))"
proof (cases "by_device_code code d")
  case None
  then show ?thesis by (simp add: poll_def dev_write.keep)
next
  case (Some r)
  have r: "r \<in> set (device_auths d)" using by_device_code_mem [OF Some] by simp
  show ?thesis
  proof (cases "finished r")
    case True
    with Some show ?thesis
      by (intro dev_write.keep) (auto simp: poll_def finished_def)
  next
    case False
    have "\<exists>f. same_codes f \<and> (device_auths (snd (poll e code d)) = device_auths d \<or>
        device_auths (snd (poll e code d)) = update_where (\<lambda>x. d_id x = d_id r) f (device_auths d))"
    proof (cases "d_status r = device_pending")
      case True
      show ?thesis
        by (rule exI [of _ "if d_expires_at r \<le> now e then \<lambda>r. r\<lparr>d_status := device_expired\<rparr>
              else (\<lambda>r. r\<lparr>d_last_polled_at := Some (now e)\<rparr>)"])
           (use Some True in \<open>auto simp: poll_def same_codes_def Let_def split: option.split\<close>)
    next
      case nonpending: False
      show ?thesis
        by (rule exI [of _ "\<lambda>r. r\<lparr>d_encrypted_token := None\<rparr>"])
           (use Some nonpending in \<open>auto simp: poll_def same_codes_def split: option.split device_status.split\<close>)
    qed
    with r False show ?thesis by (auto intro: dev_write.intros)
  qed
qed

lemma dev_step_write: "dev_step e d d' \<Longrightarrow> dev_write d d'"
  by (induction rule: dev_step.induct)
     (rule authorize_write get_pending_write approve_write deny_write poll_write | simp add: dev_write.keep)+

lemma distinct_update_where:
  "(\<And>r. key (f r) = key r) \<Longrightarrow> distinct (map key (update_where p f rs)) = distinct (map key rs)"
  by (simp add: map_update_where)

lemma dev_write_wf:
  assumes "dev_write d d'" "dev_wf d"
  shows "dev_wf d'"
  using assms(1)
proof cases
  case keep
  with assms(2) show ?thesis by (simp add: dev_wf_def)
next
  case (add r)
  with assms(2) show ?thesis by (auto simp: dev_wf_def device_unique_def list_all_iff)
next
  case (edit r f)
  with assms(2) show ?thesis by (simp add: dev_wf_def same_codes_def map_update_where)
qed

lemma dev_write_spent:
  assumes "dev_write d d'" "dev_wf d" "dev_spent code d"
  shows "dev_spent code d'"
proof -
  from assms(3) obtain x where x: "x \<in> set (device_auths d)" "d_device_code x = code" "finished x"
    unfolding dev_spent_def by blast
  from assms(1) have "x \<in> set (device_auths d')"
  proof cases
    case (edit r f)
    have "d_id x \<noteq> d_id r"
    proof
      assume "d_id x = d_id r"
      then have "x = r" using assms(2) x(1) edit(2)
        by (intro distinct_map_eqD [of d_id "device_auths d"]) (simp_all add: dev_wf_def)
      with x(3) edit(3) show False by simp
    qed
    with x(1) show ?thesis unfolding edit(1) by (auto simp: set_update_where)
  qed (use x(1) in simp_all)
  with x show ?thesis unfolding dev_spent_def by blast
qed

definition dev_delivers :: "env \<Rightarrow> string \<Rightarrow> db \<Rightarrow> db \<Rightarrow> bool" where
  "dev_delivers e code d d' \<longleftrightarrow>
     (\<exists>t res. poll (at_time e t) code d = (Some res, d') \<and> po_token res \<noteq> None)"

lemma poll_delivers:
  assumes "poll e code d = (Some res, d')" "po_token res \<noteq> None"
  obtains r enc plaintext where "by_device_code code d = Some r" "d_status r = device_approved"
    "d_encrypted_token r = Some enc" "decrypt e enc = Some plaintext" "po_token res = Some plaintext"
    "d' = set_device (d_id r) (\<lambda>r. r\<lparr>d_encrypted_token := None\<rparr>) d"
  using assms
  by (auto simp: poll_def poll_status_def Let_def split: option.splits device_status.splits if_splits)

lemma delivery_finishes:
  assumes "dev_delivers e code d d'"
  shows "dev_spent code d'"
proof -
  from assms obtain t res where run: "poll (at_time e t) code d = (Some res, d')" "po_token res \<noteq> None"
    unfolding dev_delivers_def by blast
  from poll_delivers [OF run] obtain r where r: "by_device_code code d = Some r"
      "d_status r = device_approved" "d' = set_device (d_id r) (\<lambda>r. r\<lparr>d_encrypted_token := None\<rparr>) d"
    by metis
  let ?r = "r\<lparr>d_encrypted_token := None\<rparr>"
  have "?r \<in> set (device_auths d')"
    using by_device_code_mem [OF r(1)] unfolding r(3) by (auto simp: set_update_where)
  then show ?thesis using r(2) by_device_code_mem [OF r(1)]
    unfolding dev_spent_def by (intro bexI [of _ ?r]) (simp_all add: finished_def)
qed

lemma spent_delivers_nothing:
  assumes wf: "dev_wf d" and spent: "dev_spent code d"
  shows "\<not> dev_delivers e code d d'"
proof
  assume "dev_delivers e code d d'"
  then obtain t res where run: "poll (at_time e t) code d = (Some res, d')" "po_token res \<noteq> None"
    unfolding dev_delivers_def by blast
  from poll_delivers [OF run] obtain r enc where r: "by_device_code code d = Some r"
      "d_status r = device_approved" "d_encrypted_token r = Some enc" by metis
  from spent obtain x where x: "x \<in> set (device_auths d)" "d_device_code x = code" "finished x"
    unfolding dev_spent_def by blast
  have "x = r" using by_device_code_mem [OF r(1)] x(1,2) wf
    by (intro distinct_map_eqD [of d_device_code "device_auths d"]) (simp_all add: dev_wf_def)
  with x(3) r(2,3) show False by (simp add: finished_def)
qed

lemma delivery_is_poll: "dev_delivers e code d d' \<Longrightarrow> dev_step e d d'"
  unfolding dev_delivers_def using dev_step.by_poll [of e d] by (metis snd_conv)

interpretation device: one_shot dev_wf "dev_step e" "dev_delivers e" dev_spent for e
proof
  show "dev_wf d'" if "dev_wf d" "dev_step e d d'" for d d'
    using dev_write_wf dev_step_write that by blast
  show "dev_spent k d'" if "dev_wf d" "dev_step e d d'" "dev_spent k d" for d d' k
    using dev_write_spent dev_step_write that by blast
qed (simp_all add: delivery_is_poll delivery_finishes spent_delivers_nothing)

section \<open>The flow end to end\<close>

lemma authorize_result:
  assumes "authorize e label d = (Inr res, d1)"
  obtains row where "device_auths d1 = device_auths d @ [row]" "d_device_code row = ar_device_code res"
    "d_user_code row = ar_user_code res" "d_status row = device_pending"
    "d_expires_at row = now e + seconds device_expires_in"
  using assms
  by (auto simp: authorize_def new_device_auth_def Let_def case_prod_beta split: if_splits)

lemma gen_user_code_scope [simp]:
  "allocations (snd (gen_user_code e d)) = allocations d"
  "credentials (snd (gen_user_code e d)) = credentials d"
  "credential_allocations (snd (gen_user_code e d)) = credential_allocations d"
  "fresh (snd (gen_user_code e d)) = fresh d + 8"
  by (simp_all add: gen_user_code_def Let_def)

lemma retry_scope [simp]:
  "allocations (snd (retry_user_code e k code d)) = allocations d"
  "credentials (snd (retry_user_code e k code d)) = credentials d"
  "credential_allocations (snd (retry_user_code e k code d)) = credential_allocations d"
  by (induction e k code d rule: retry_user_code.induct) (auto simp: case_prod_beta)

lemma retry_fresh: "fresh d \<le> fresh (snd (retry_user_code e k code d))"
proof (induction k arbitrary: code d)
  case (Suc k)
  show ?case
    using Suc.IH [of "snd (gen_user_code e d)" "fst (gen_user_code e d)"] by (simp add: case_prod_beta)
qed simp

lemma authorize_scope:
  assumes "authorize e label d = (res, d1)"
  shows "allocations d1 = allocations d" "credentials d1 = credentials d"
    "credential_allocations d1 = credential_allocations d" "fresh d \<le> fresh d1"
proof -
  let ?d2 = "snd (retry_user_code e 5 (fst (gen_user_code e (tick d))) (snd (gen_user_code e (tick d))))"
  have rows: "allocations d1 = allocations ?d2" "credentials d1 = credentials ?d2"
    "credential_allocations d1 = credential_allocations ?d2" "fresh d1 = Suc (fresh ?d2)"
    using assms by (auto simp: authorize_def Let_def case_prod_beta split: if_splits)
  then show "allocations d1 = allocations d" "credentials d1 = credentials d"
    "credential_allocations d1 = credential_allocations d" by simp_all
  have "fresh (snd (gen_user_code e (tick d))) \<le> fresh ?d2" by (rule retry_fresh)
  with rows(4) show "fresh d \<le> fresh d1" by simp
qed

text \<open>What a successful approval leaves: the row it approved, ready for the next poll.\<close>

lemma approve_result:
  assumes wf: "dev_wf d" and run: "approve_device e code m aids d = (Inr row, d2)"
  obtains r c tok dk n where "r \<in> set (device_auths d)" "d_user_code r = code" "now e < d_expires_at r"
    "create_member_credential e (m_id m)
       (case non_empty (d_device_label r) of None \<Rightarrow> ''Codex'' | Some l \<Rightarrow> l) aids d = (Inr (c, tok), dk)"
    "by_device_code (d_device_code r) d2 = Some row" "d_status row = device_approved"
    "d_encrypted_token row = Some (encrypt e n (g_plaintext tok))" "d_credential_id row = Some (c_id c)"
    "d_allocation_id row = Some (hd aids)"
    "credentials d2 = credentials dk" "allocations d2 = allocations dk"
    "credential_allocations d2 = credential_allocations dk"
  using run
proof (cases rule: approve_cases)
  case fail
  then show ?thesis by simp
next
  case (ok r c tok dk name f)
  from get_pending_found [OF ok(1)]
  have r: "r \<in> set (device_auths d)" "d_user_code r = code" "now e < d_expires_at r" by simp_all
  have "dev_wf d2" using dev_write_wf [OF approve_write wf, of e code m aids] run by simp
  moreover have "f r \<in> set (device_auths d2)" using r(1) by (auto simp: ok(6) set_update_where)
  moreover have "row = f r" "d_device_code (f r) = d_device_code r" using ok(4) by (simp_all add: ok(5))
  ultimately have "by_device_code (d_device_code r) d2 = Some row"
    unfolding by_device_code_def using find_unique [of d_device_code "device_auths d2" "f r"]
    by (simp add: dev_wf_def)
  with r ok that [of r c tok dk "fresh dk"] show ?thesis by simp
qed

lemma poll_approved:
  assumes "by_device_code code d = Some r" "d_status r = device_approved"
    "d_encrypted_token r = Some enc" "decrypt e enc = Some plaintext"
  shows "poll e code d =
    (Some \<lparr>po_status = ''success'', po_token = Some plaintext, po_token_prefix = Some (take 8 plaintext),
           po_credential_id = d_credential_id r, po_model = pinned_model r d\<rparr>,
     set_device (d_id r) (\<lambda>r. r\<lparr>d_encrypted_token := None\<rparr>) d)"
  using assms by (simp add: poll_def)

lemma resolve_set_device [simp]:
  "resolve_bearer e t k (set_device did f d) = resolve_bearer e t k d"
  by (rule resolve_bearer_cong) (simp_all add: set_device_def)

text \<open>The model the script pins can be called with the new token: it resolves to the
  representative allocation, whichever slug was chosen.\<close>

lemma length_one: "length xs = 1 \<Longrightarrow> \<exists>x. xs = [x]"
  by (cases xs) auto

lemma pinned_model_grants:
  assumes wf: "scope_wf e d" and c: "c \<in> set (credentials d)" and key: "d_credential_id r = Some (c_id c)"
    and a: "a \<in> scope_of d c" "d_allocation_id r = Some (a_id a)"
    and flat: "CHR ''/'' \<notin> set (split_last (CHR ''/'') (a_resource_model a))"
  shows "\<exists>model. pinned_model r d = Some model \<and> grants d c model a"
proof -
  let ?bare = "split_last (CHR ''/'') (a_resource_model a)"
  let ?scope = "map ca_resource_model (filter (\<lambda>l. ca_credential_id l = c_id c) (credential_allocations d))"
  let ?same = "filter (\<lambda>m. split_last (CHR ''/'') m = ?bare) ?scope"
  have "?scope = map a_resource_model (scope_allocations (c_id c) d)"
    using scope_join_models [OF wf, of "c_id c"]
    by (simp add: scope_allocations_def split_def comp_def)
  then have models: "set ?scope = a_resource_model ` scope_of d c"
    by (metis list.set_map set_scope_allocations)
  have dist: "distinct (map a_resource_model (scope_allocations (c_id c) d))"
    by (rule scope_allocations_distinct [OF wf])
  have same: "b = a" if "b \<in> scope_of d c" "a_resource_model b = a_resource_model a" for b
    using dist that a(1) by (metis distinct_map_eqD set_scope_allocations)
  have got: "get_allocation (a_id a) d = Some a"
    using get_allocation_in [OF wf] a(1) by (simp add: scope_of_def)
  show ?thesis
  proof (cases "length ?same = 1")
    case False
    with got have "pinned_model r d = Some (a_resource_model a)"
      by (simp add: pinned_model_def a(2) key)
    with a(1) show ?thesis by (auto simp: grants_def)
  next
    case True
    with got have pin: "pinned_model r d = Some ?bare"
      by (simp add: pinned_model_def a(2) key)
    from True obtain m where m: "?same = [m]" using length_one by blast
    have only: "m' = m" if "m' \<in> a_resource_model ` scope_of d c" "split_last (CHR ''/'') m' = ?bare" for m'
    proof -
      have "m' \<in> set ?same" using that models by simp
      with m show ?thesis by simp
    qed
    have m_a: "m = a_resource_model a" using only [of "a_resource_model a"] a(1) by simp
    have unique: "b = a" if "b \<in> scope_of d c" "model_key (a_resource_model b) = ?bare" for b
      using same [OF that(1)] only [of "a_resource_model b"] that by (simp add: model_key_def m_a)
    have exact: "b = a" if "b \<in> scope_of d c" "a_resource_model b = ?bare" for b
      using unique [OF that(1)] that(2) flat by (simp add: model_key_def split_last_no)
    have "grants d c ?bare a"
      using a(1) flat unique exact by (auto simp: grants_def model_key_def)
    with pin show ?thesis by blast
  qed
qed

lemma approved_pins:
  assumes ok: "env_ok e" and wf: "scope_wf e d"
    and made: "create_member_credential e mid name aids d = (Inr (c, tok), dk)"
    and row: "d_credential_id row = Some (c_id c)" "d_allocation_id row = Some (hd aids)"
  shows "\<exists>a model. get_allocation (hd aids) d = Some a \<and> pinned_model row dk = Some model \<and>
    (CHR ''/'' \<notin> set (split_last (CHR ''/'') (a_resource_model a)) \<longrightarrow> grants dk c model a)"
proof -
  note g = create_key_grants [OF ok wf made]
  from create_key_runs [OF made] obtain allocs where own: "owned_allocations mid aids d = Inr allocs"
    and ne: "aids \<noteq> []" by metis
  then have "hd aids \<in> a_id ` set allocs" using owned_allocations_sound(3) [OF own] by simp
  then obtain a where "a \<in> set allocs" "a_id a = hd aids" by auto
  with owned_allocations_sound(1) [OF own] have a: "a \<in> set (allocations d)" "a_id a = hd aids" by auto
  have got: "get_allocation (hd aids) d = Some a" using get_allocation_in [OF wf a(1)] a(2) by simp
  moreover have "get_allocation (hd aids) dk = Some a"
    using got create_key_frame(1) [OF made] by (simp add: get_allocation_def)
  then obtain model where model: "pinned_model row dk = Some model"
    by (simp add: pinned_model_def row Let_def)
  moreover have "a \<in> scope_of dk c"
    using create_key_scope(1) [OF ok wf made] a ne by simp
  then have "grants dk c model a" if "CHR ''/'' \<notin> set (split_last (CHR ''/'') (a_resource_model a))"
    using pinned_model_grants [OF g(1) create_key_row(1) [OF made] row(1) _ _ that] model row(2) a(2) by simp
  ultimately show ?thesis by blast
qed

text \<open>A device receives its token at most once.  After a poll delivered a token for a device
  code, no later poll of that code delivers one, whatever operations on any request happen in
  between and at whatever times.\<close>

theorem device_token_once:
  assumes wf: "dev_wf d" and first: "poll (at_time e t) code d = (Some res, d1)" "po_token res \<noteq> None"
    and run: "(dev_step e)\<^sup>*\<^sup>* d1 d2" and again: "poll (at_time e t') code d2 = (Some res', d3)"
  shows "po_token res' = None"
proof -
  have "dev_delivers e code d d1" using first by (auto simp: dev_delivers_def)
  from device.never_again [OF wf this run, of d3] again show ?thesis
    by (auto simp: dev_delivers_def)
qed

text \<open>What an approval of a request that was started makes: a key of the member, whose encrypted token the
  row of the request holds.\<close>

lemma approval_of_start:
  assumes ok: "env_ok e" and wf: "scope_wf e d" "dev_wf d"
    and start: "authorize (at_time e t0) label d = (Inr res, d1)"
    and approval: "approve_device (at_time e t1) (ar_user_code res) m aids d1 = (Inr row, d2)"
  obtains c tok dk n name where "t1 < t0 + seconds 600" "allocations d1 = allocations d"
    "scope_wf (at_time e t1) d1" "create_member_credential (at_time e t1) (m_id m) name aids d1 = (Inr (c, tok), dk)"
    "by_device_code (ar_device_code res) d2 = Some row" "d_status row = device_approved"
    "d_encrypted_token row = Some (encrypt (at_time e t1) n (g_plaintext tok))" "d_credential_id row = Some (c_id c)"
    "d_allocation_id row = Some (hd aids)"
    "credentials d2 = credentials dk" "allocations d2 = allocations dk"
    "credential_allocations d2 = credential_allocations dk"
proof -
  let ?e1 = "at_time e t1"
  have wf1: "dev_wf d1" using dev_write_wf [OF authorize_write wf(2), of "at_time e t0" label] start by simp
  note scope = authorize_scope [OF start]
  have swf1: "scope_wf ?e1 d1" using scope_wf_frame [OF wf(1) scope(1-3)] scope(4) by simp
  from authorize_result [OF start] obtain r0 where r0: "device_auths d1 = device_auths d @ [r0]"
      "d_device_code r0 = ar_device_code res" "d_user_code r0 = ar_user_code res"
      "d_expires_at r0 = t0 + seconds device_expires_in" by auto
  obtain r c tok dk n
    where r: "r \<in> set (device_auths d1)" "d_user_code r = ar_user_code res" "now ?e1 < d_expires_at r"
      and made: "create_member_credential ?e1 (m_id m)
        (case non_empty (d_device_label r) of None \<Rightarrow> ''Codex'' | Some l \<Rightarrow> l) aids d1 = (Inr (c, tok), dk)"
      and row: "by_device_code (d_device_code r) d2 = Some row" "d_status row = device_approved"
        "d_encrypted_token row = Some (encrypt ?e1 n (g_plaintext tok))" "d_credential_id row = Some (c_id c)"
        "d_allocation_id row = Some (hd aids)"
      and d2: "credentials d2 = credentials dk" "allocations d2 = allocations dk"
        "credential_allocations d2 = credential_allocations dk"
    by (rule approve_result [OF wf1 approval])
  have "r = r0" using wf1 r(1,2) r0(1,3)
    by (intro distinct_map_eqD [of d_user_code "device_auths d1"]) (simp_all add: dev_wf_def)
  with r r0 have code: "d_device_code r = ar_device_code res" and time: "t1 < t0 + seconds 600"
    by (simp_all add: device_expires_in_def)
  show thesis
    by (rule that [OF time scope(1) swf1 made row(1) [unfolded code] row(2-5) d2])
qed


section \<open>A run\<close>

lemma retry_free: "\<not> user_code_taken code d \<Longrightarrow> retry_user_code e k code d = (code, d)"
  by (cases k) simp_all

lemma authorize_first:
  assumes "device_auths d = []"
  shows "\<exists>res d1. authorize e label d = (Inr res, d1)"
  using assms by (simp add: authorize_def Let_def case_prod_beta device_unique_def)

lemma approve_pending:
  assumes "get_pending_device e code d = (Some r, d)" "owned_allocations (m_id m) aids d = Inr allocs" "aids \<noteq> []"
  shows "\<exists>row d'. approve_device e code m aids d = (Inr row, d')"
proof -
  from create_key_for_owned [OF assms(2,3)] obtain c tok dk where
    "create_member_credential e (m_id m) (case non_empty (d_device_label r) of None \<Rightarrow> ''Codex'' | Some l \<Rightarrow> l)
       aids d = (Inr (c, tok), dk)" by blast
  with assms(1,3) show ?thesis by (simp add: approve_device_def Let_def)
qed

lemma one_device_run:
  "\<exists>res d1 row d2. authorize (at_time sample_env 0) None one_grant = (Inr res, d1) \<and>
     approve_device (at_time sample_env (seconds 60)) (ar_user_code res) one_owner [''U00''] d1 = (Inr row, d2)"
proof -
  obtain res d1 where start: "authorize (at_time sample_env 0) None one_grant = (Inr res, d1)"
    using authorize_first [OF one_grant_owner(3)] by blast
  from authorize_result [OF start] obtain r where r: "device_auths d1 = [r]"
      "d_user_code r = ar_user_code res" "d_status r = device_pending"
      "d_expires_at r = seconds device_expires_in" by (auto simp: one_grant_owner(3))
  have pending: "get_pending_device (at_time sample_env (seconds 60)) (ar_user_code res) d1 = (Some r, d1)"
    by (simp add: get_pending_device_def by_user_code_def r device_expires_in_def)
  from one_grant_owned obtain a where "owned_allocations ''U'' [''U00''] one_grant = Inr [a]" by blast
  then have "owned_allocations (m_id one_owner) [''U00''] d1 = Inr [a]"
    using owned_allocations_cong [OF authorize_scope(1) [OF start]] by (simp only: one_grant_owner(2))
  from approve_pending [OF pending this] start show ?thesis by blast
qed

lemma one_grant_dev_wf: "dev_wf one_grant"
  by (simp add: dev_wf_def one_grant_owner(3))

lemma sample_fernet: "decrypt sample_env (encrypt sample_env n s) = Some s"
  by (simp add: sample_env_def)


theorem device_token_once_witness:
  "\<exists>res d1 row d2 res1 d3 res2 d4. authorize (at_time sample_env 0) None one_grant = (Inr res, d1) \<and>
     approve_device (at_time sample_env (seconds 60)) (ar_user_code res) one_owner [''U00''] d1 = (Inr row, d2) \<and>
     poll (at_time sample_env (seconds 65)) (ar_device_code res) d2 = (Some res1, d3) \<and> po_token res1 \<noteq> None \<and>
     poll (at_time sample_env (seconds 70)) (ar_device_code res) d3 = (Some res2, d4) \<and> po_token res2 = None"
proof -
  from one_device_run obtain res d1 row d2 where run:
    "authorize (at_time sample_env 0) None one_grant = (Inr res, d1)"
    "approve_device (at_time sample_env (seconds 60)) (ar_user_code res) one_owner [''U00''] d1 = (Inr row, d2)"
    by blast
  have wf1: "dev_wf d1"
    using dev_write_wf [OF authorize_write one_grant_dev_wf, of "at_time sample_env 0" None] run(1) by simp
  have wf: "dev_wf d2"
    using dev_write_wf [OF approve_write wf1, of "at_time sample_env (seconds 60)" "ar_user_code res" one_owner
        "[''U00'']"] run(2) by simp
  obtain r and tok :: generated_token and n where row: "by_device_code (d_device_code r) d2 = Some row"
      "d_status row = device_approved"
      "d_encrypted_token row = Some (encrypt (at_time sample_env (seconds 60)) n (g_plaintext tok))"
      "r \<in> set (device_auths d1)"
    by (rule approve_result [OF wf1 run(2)]) blast
  obtain r0 where "device_auths d1 = device_auths one_grant @ [r0]" "d_device_code r0 = ar_device_code res"
    by (rule authorize_result [OF run(1)]) blast
  with row(4) have code: "d_device_code r = ar_device_code res" by (simp add: one_grant_owner(3))
  have "decrypt (at_time sample_env (seconds 65))
      (encrypt (at_time sample_env (seconds 60)) n (g_plaintext tok)) = Some (g_plaintext tok)"
    using sample_fernet by simp
  note first_poll = poll_approved [OF row(1-3) this, unfolded code]
  then obtain res1 d3 where first: "poll (at_time sample_env (seconds 65)) (ar_device_code res) d2 = (Some res1, d3)"
      "po_token res1 \<noteq> None" by simp
  have d3: "d3 = set_device (d_id row) (\<lambda>r. r\<lparr>d_encrypted_token := None\<rparr>) d2"
    using first_poll first(1) by simp
  have "by_device_code (ar_device_code res) d3 = Some (row\<lparr>d_encrypted_token := None\<rparr>)"
    using row(1) code by (simp add: d3 by_device_code_def find_update_where)
  then have "fst (poll (at_time sample_env (seconds 70)) (ar_device_code res) d3) \<noteq> None"
    using row(2) by (simp add: poll_def)
  then obtain res2 d4 where second: "poll (at_time sample_env (seconds 70)) (ar_device_code res) d3 = (Some res2, d4)"
    by (metis prod.collapse not_None_eq)
  have "po_token res2 = None"
    by (rule device_token_once [OF wf first _ second]) simp
  with run first second show ?thesis by blast
qed

end
