(* ===== verification/OAuth.thy ===== *)
theory OAuth
  imports AllocationSpec
begin

text \<open>
  \<open>services/oauth.py\<close> and its endpoints (\<open>api/oauth.py\<close>, \<open>api/admin_oauth.py\<close>): the
  authorization code flow with PKCE for first-party web applications.  A member consents, an
  approved consent carries a short-lived code, and the application exchanges code and verifier
  for an application key.  \<open>OAuthError code\<close> is the source's exception; \<open>OAuthScope\<close> stands for
  the \<open>PermissionError\<close>, \<open>ValueError\<close> or \<open>IntegrityError\<close> that passes through.
\<close>

datatype oauth_error = OAuthError string | OAuthScope alloc_error

section \<open>Configuration and checks\<close>

definition get_oauth_config :: "env \<Rightarrow> db \<Rightarrow> oauth_config \<times> db" where
  "get_oauth_config e d =
     (case oauth_cfg d of
        Some c \<Rightarrow> (c, d)
      | None \<Rightarrow>
          (let c = \<lparr>oc_redirect_allowlist = oauth_redirect_allowlist (cfg e), oc_updated_at = now e,
                    oc_updated_by = None\<rparr>
           in (c, d\<lparr>oauth_cfg := Some c\<rparr>)))"

definition update_oauth_config :: "env \<Rightarrow> string \<Rightarrow> member option \<Rightarrow> db \<Rightarrow> db" where
  "update_oauth_config e allowlist admin d =
     (let (c, d1) = get_oauth_config e d in
      d1\<lparr>oauth_cfg := Some (c\<lparr>oc_redirect_allowlist := allowlist, oc_updated_at := now e,
            oc_updated_by := Some (case admin of None \<Rightarrow> ''admin'' | Some m \<Rightarrow> m_id m)\<rparr>)\<rparr>)"

definition validate_redirect_uri :: "string \<Rightarrow> string list \<Rightarrow> bool" where
  "validate_redirect_uri uri prefixes = (prefixes \<noteq> [] \<and> list_ex (\<lambda>p. starts_with p uri) prefixes)"

definition verify_pkce_s256 :: "env \<Rightarrow> string \<Rightarrow> string \<Rightarrow> bool" where
  "verify_pkce_s256 e code_verifier code_challenge = (sha256_b64url e code_verifier = code_challenge)"

definition consent_ttl :: int where
  "consent_ttl = 600"

definition code_ttl :: int where
  "code_ttl = 120"

section \<open>Consent\<close>

definition create_consent ::
  "env \<Rightarrow> member \<Rightarrow> string \<Rightarrow> string \<Rightarrow> string \<Rightarrow> string \<Rightarrow> string option \<Rightarrow> string option \<Rightarrow> db
     \<Rightarrow> (oauth_error + oauth_authorization) \<times> db" where
  "create_consent e m client_name redirect_uri code_challenge challenge_method state scope d =
     (let (c, d1) = get_oauth_config e d in
      if \<not> validate_redirect_uri redirect_uri (parse_allowlist (Some (oc_redirect_allowlist c)))
      then (Inl (OAuthError ''redirect_uri_not_allowed''), d1)
      else if challenge_method \<noteq> ''S256'' then (Inl (OAuthError ''invalid_request''), d1)
      else if length code_challenge < 43 then (Inl (OAuthError ''invalid_request''), d1)
      else if strip client_name = [] then (Inl (OAuthError ''invalid_request''), d1)
      else
        (let (oid, d2) = new_ulid e d1;
             row = \<lparr>o_id = oid, o_client_name = take 128 (strip client_name),
                    o_redirect_uri = redirect_uri, o_state = state, o_scope = scope,
                    o_code_challenge = code_challenge, o_member_id = m_id m,
                    o_status = oauth_pending, o_allocation_ids = None, o_code = None,
                    o_credential_id = None, o_created_at = now e,
                    o_expires_at = now e + seconds consent_ttl, o_approved_at = None,
                    o_consumed_at = None\<rparr>
         in if list_ex (\<lambda>r. o_id r = oid) (oauth_auths d2) then (Inl (OAuthScope IntegrityError), d2)
            else (Inr row, oauth_auths_update (\<lambda>rs. rs @ [row]) d2)))"

definition get_authorization :: "string \<Rightarrow> db \<Rightarrow> oauth_authorization option" where
  "get_authorization oid d = find (\<lambda>r. o_id r = oid) (oauth_auths d)"

definition set_authorization ::
  "string \<Rightarrow> (oauth_authorization \<Rightarrow> oauth_authorization) \<Rightarrow> db \<Rightarrow> db" where
  "set_authorization oid f d = oauth_auths_update (update_where (\<lambda>r. o_id r = oid) f) d"

definition get_pending_consent ::
  "env \<Rightarrow> string \<Rightarrow> member \<Rightarrow> db \<Rightarrow> oauth_authorization option \<times> db" where
  "get_pending_consent e oid m d =
     (case get_authorization oid d of
        None \<Rightarrow> (None, d)
      | Some row \<Rightarrow>
          if o_member_id row \<noteq> m_id m then (None, d)
          else if o_status row \<noteq> oauth_pending then (None, d)
          else if o_expires_at row \<le> now e
          then (None, set_authorization oid (\<lambda>r. r\<lparr>o_status := oauth_expired\<rparr>) d)
          else (Some row, d))"

definition approve_consent ::
  "env \<Rightarrow> string \<Rightarrow> member \<Rightarrow> string list \<Rightarrow> db \<Rightarrow> (oauth_error + oauth_authorization) \<times> db" where
  "approve_consent e oid m aids d =
     (case get_pending_consent e oid m d of
        (None, d1) \<Rightarrow> (Inl (OAuthError ''not_found''), d1)
      | (Some row, d1) \<Rightarrow>
          (let owned = map a_id (filter (\<lambda>a. a_member_id a = m_id m) (allocations d1)) in
           if aids = [] then (Inl (OAuthError ''invalid_scope''), d1)
           else if list_ex (\<lambda>a. a \<notin> set owned) aids then (Inl (OAuthError ''invalid_scope''), d1)
           else
             (let code = token_urlsafe e (fresh d1);
                  f = (\<lambda>r. r\<lparr>o_allocation_ids := Some aids, o_code := Some code,
                             o_status := oauth_approved, o_approved_at := Some (now e),
                             o_expires_at := now e + seconds code_ttl\<rparr>)
              in if list_ex (\<lambda>r. o_code r = Some code) (oauth_auths d1)
                 then (Inl (OAuthScope IntegrityError), tick d1)
                 else (Inr (f row), set_authorization oid f (tick d1)))))"

definition deny_consent ::
  "env \<Rightarrow> string \<Rightarrow> member \<Rightarrow> db \<Rightarrow> oauth_authorization option \<times> db" where
  "deny_consent e oid m d =
     (case get_pending_consent e oid m d of
        (None, d1) \<Rightarrow> (None, d1)
      | (Some row, d1) \<Rightarrow>
          (Some (row\<lparr>o_status := oauth_denied\<rparr>),
           set_authorization oid (\<lambda>r. r\<lparr>o_status := oauth_denied\<rparr>) d1))"

section \<open>Exchange\<close>

definition by_code :: "string \<Rightarrow> db \<Rightarrow> oauth_authorization option" where
  "by_code code d = find (\<lambda>r. o_code r = Some code) (oauth_auths d)"

definition list_or_empty :: "string list option \<Rightarrow> string list" where
  "list_or_empty xs = (case xs of None \<Rightarrow> [] | Some ys \<Rightarrow> ys)"

definition exchange ::
  "env \<Rightarrow> string \<Rightarrow> string \<Rightarrow> string \<Rightarrow> db
     \<Rightarrow> (oauth_error + credential \<times> generated_token \<times> oauth_authorization) \<times> db" where
  "exchange e code redirect_uri code_verifier d =
     (case by_code code d of
        None \<Rightarrow> (Inl (OAuthError ''invalid_grant''), d)
      | Some row \<Rightarrow>
          if o_status row \<noteq> oauth_approved then (Inl (OAuthError ''invalid_grant''), d)
          else if o_expires_at row \<le> now e
          then (Inl (OAuthError ''invalid_grant''),
                set_authorization (o_id row) (\<lambda>r. r\<lparr>o_status := oauth_expired\<rparr>) d)
          else if redirect_uri \<noteq> o_redirect_uri row then (Inl (OAuthError ''invalid_grant''), d)
          else if \<not> verify_pkce_s256 e code_verifier (o_code_challenge row)
          then (Inl (OAuthError ''invalid_grant''), d)
          else (case get_member (o_member_id row) d of
            None \<Rightarrow> (Inl (OAuthError ''invalid_grant''), d)
          | Some m \<Rightarrow>
              (case create_member_credential e (o_member_id row) (o_client_name row)
                      (list_or_empty (o_allocation_ids row)) d of
                 (Inl err, d1) \<Rightarrow> (Inl (OAuthScope err), d1)
               | (Inr (c, tok), d1) \<Rightarrow>
                   (let f = (\<lambda>r. r\<lparr>o_status := oauth_consumed, o_consumed_at := Some (now e),
                                  o_credential_id := Some (c_id c)\<rparr>)
                    in (Inr (c, tok, f row), set_authorization (o_id row) f d1)))))"

section \<open>The endpoints\<close>

text \<open>An \<open>OAuthError\<close> of the token endpoint is answered with a JSON response, so what it wrote is
  committed; the same error at the session endpoints is an \<open>HTTPException\<close> and rolled back.\<close>

definition oauth_token ::
  "env \<Rightarrow> string \<Rightarrow> string \<Rightarrow> string \<Rightarrow> string \<Rightarrow> db
     \<Rightarrow> (int \<times> (credential \<times> generated_token \<times> oauth_authorization) option) \<times> db" where
  "oauth_token e grant_type code redirect_uri code_verifier d =
     (if grant_type \<noteq> ''authorization_code'' then ((400, None), d)
      else case exchange e code redirect_uri code_verifier d of
        (Inr r, d1) \<Rightarrow> ((200, Some r), d1)
      | (Inl (OAuthError err), d1) \<Rightarrow> ((400, None), d1)
      | (Inl (OAuthScope err), d1) \<Rightarrow> ((500, None), rollback_to d d1))"

definition post_consent ::
  "env \<Rightarrow> member \<Rightarrow> string \<Rightarrow> string \<Rightarrow> string \<Rightarrow> string \<Rightarrow> string option \<Rightarrow> string option \<Rightarrow> db
     \<Rightarrow> (int \<times> (oauth_authorization \<times> (string \<times> string) list) option) \<times> db" where
  "post_consent e m client_name redirect_uri code_challenge challenge_method state scope d =
     (case create_consent e m client_name redirect_uri code_challenge challenge_method state scope d of
        (Inr row, d1) \<Rightarrow>
          ((200, Some (row, map (\<lambda>a. (a_id a, a_resource_model a))
              (sort_key (\<lambda>a. - a_created_at a)
                (filter (\<lambda>a. a_member_id a = m_id m \<and> a_status a = active) (allocations d1))))), d1)
      | (Inl (OAuthError err), d1) \<Rightarrow> ((400, None), rollback_to d d1)
      | (Inl (OAuthScope err), d1) \<Rightarrow> ((500, None), rollback_to d d1))"

definition post_approve ::
  "env \<Rightarrow> string \<Rightarrow> member \<Rightarrow> string list \<Rightarrow> db
     \<Rightarrow> (int \<times> (string \<times> string option \<times> string option) option) \<times> db" where
  "post_approve e oid m aids d =
     (case approve_consent e oid m aids d of
        (Inr row, d1) \<Rightarrow> ((200, Some (o_redirect_uri row, o_code row, o_state row)), d1)
      | (Inl (OAuthError err), d1) \<Rightarrow>
          ((if err = ''not_found'' then 404 else 400, None), rollback_to d d1)
      | (Inl (OAuthScope err), d1) \<Rightarrow> ((500, None), rollback_to d d1))"

definition post_deny ::
  "env \<Rightarrow> string \<Rightarrow> member \<Rightarrow> db \<Rightarrow> (int \<times> (string \<times> string option) option) \<times> db" where
  "post_deny e oid m d =
     (case deny_consent e oid m d of
        (Some row, d1) \<Rightarrow> ((200, Some (o_redirect_uri row, o_state row)), d1)
      | (None, d1) \<Rightarrow> ((404, None), rollback_to d d1))"

end
