(* ===== verification/OAuthTheorems.thy ===== *)
theory OAuthTheorems
  imports OAuth OneShot AllocationTheorems
begin

text \<open>
  The authorization code flow: codes stay unique and a closed authorization stays closed (the
  interpretation of \<open>one_shot\<close>), a code is exchanged at most once, the exchange is bound to the
  consent, and what the redirect allowlist refuses.
\<close>

section \<open>Runs\<close>

inductive oauth_step :: "env \<Rightarrow> db \<Rightarrow> db \<Rightarrow> bool" for e where
  by_consent: "oauth_step e d (snd (create_consent (at_time e t) m client uri challenge meth state scope d))"
| by_view: "oauth_step e d (snd (get_pending_consent (at_time e t) oid m d))"
| by_approve: "oauth_step e d (snd (approve_consent (at_time e t) oid m aids d))"
| by_deny: "oauth_step e d (snd (deny_consent (at_time e t) oid m d))"
| by_exchange: "oauth_step e d (snd (exchange (at_time e t) code uri verifier d))"
| by_others: "oauth_auths d' = oauth_auths d \<Longrightarrow> oauth_step e d d'"

definition codes_unique :: "oauth_authorization list \<Rightarrow> bool" where
  "codes_unique rs \<longleftrightarrow>
     (\<forall>r \<in> set rs. \<forall>r' \<in> set rs. o_code r \<noteq> None \<longrightarrow> o_code r = o_code r' \<longrightarrow> r = r')"

definition oauth_wf :: "db \<Rightarrow> bool" where
  "oauth_wf d \<longleftrightarrow> distinct (map o_id (oauth_auths d)) \<and> codes_unique (oauth_auths d)"

definition closed_auth :: "oauth_authorization \<Rightarrow> bool" where
  "closed_auth r \<longleftrightarrow> o_status r \<noteq> oauth_pending \<and> o_status r \<noteq> oauth_approved"

definition code_spent :: "string \<Rightarrow> db \<Rightarrow> bool" where
  "code_spent code d \<longleftrightarrow> (\<exists>r \<in> set (oauth_auths d). o_code r = Some code \<and> closed_auth r)"

text \<open>What a step does to the table: nothing, a new row without a code, or a write to one row that
  is still open, which keeps its code or gives it a new one.\<close>

definition new_code_ok :: "string option \<Rightarrow> oauth_authorization \<Rightarrow> db \<Rightarrow> bool" where
  "new_code_ok c r d \<longleftrightarrow> c = o_code r \<or> (\<forall>x \<in> set (oauth_auths d). o_code x \<noteq> c)"

inductive oauth_write :: "db \<Rightarrow> db \<Rightarrow> bool" where
  keep: "oauth_auths d' = oauth_auths d \<Longrightarrow> oauth_write d d'"
| add: "oauth_auths d' = oauth_auths d @ [r] \<Longrightarrow> o_id r \<notin> o_id ` set (oauth_auths d) \<Longrightarrow>
    o_code r = None \<Longrightarrow> oauth_write d d'"
| edit: "oauth_auths d' = update_where (\<lambda>x. o_id x = o_id r) f (oauth_auths d) \<Longrightarrow>
    r \<in> set (oauth_auths d) \<Longrightarrow> \<not> closed_auth r \<Longrightarrow> (\<And>x. o_id (f x) = o_id x) \<Longrightarrow>
    new_code_ok (o_code (f r)) r d \<Longrightarrow> oauth_write d d'"

lemma get_config_frame [simp]:
  "oauth_auths (snd (get_oauth_config e d)) = oauth_auths d"
  "allocations (snd (get_oauth_config e d)) = allocations d"
  by (simp_all add: get_oauth_config_def Let_def split: option.split)

lemma rows_set_authorization [simp]:
  "oauth_auths (set_authorization oid f d) = update_where (\<lambda>r. o_id r = oid) f (oauth_auths d)"
  by (simp add: set_authorization_def)

lemma get_authorization_mem:
  "get_authorization oid d = Some r \<Longrightarrow> r \<in> set (oauth_auths d) \<and> o_id r = oid"
  unfolding get_authorization_def by (drule find_SomeD) simp

lemma by_code_mem: "by_code code d = Some r \<Longrightarrow> r \<in> set (oauth_auths d) \<and> o_code r = Some code"
  unfolding by_code_def by (drule find_SomeD) simp

lemma consent_write: "oauth_write d (snd (create_consent e m client uri challenge meth state scope d))"
proof (cases "\<exists>row. fst (create_consent e m client uri challenge meth state scope d) = Inr row")
  case True
  then obtain row where "fst (create_consent e m client uri challenge meth state scope d) = Inr row" by blast
  then show ?thesis
    by (intro oauth_write.add [of _ _ row])
       (auto simp: create_consent_def Let_def case_prod_beta list_ex_iff split: if_splits)
next
  case False
  then show ?thesis
    by (intro oauth_write.keep)
       (auto simp: create_consent_def Let_def case_prod_beta split: if_splits)
qed

lemma pending_consent_found:
  assumes "get_pending_consent e oid m d = (Some r, d1)"
  shows "d1 = d \<and> get_authorization oid d = Some r \<and> o_member_id r = m_id m \<and>
    o_status r = oauth_pending \<and> now e < o_expires_at r"
  using assms by (auto simp: get_pending_consent_def split: option.splits if_splits)

lemma pending_write: "oauth_write d (snd (get_pending_consent e oid m d))"
proof (cases "get_authorization oid d")
  case None
  then show ?thesis by (simp add: get_pending_consent_def oauth_write.keep)
next
  case (Some r)
  show ?thesis
  proof (cases "o_member_id r = m_id m \<and> o_status r = oauth_pending \<and> o_expires_at r \<le> now e")
    case True
    with Some get_authorization_mem [OF Some] show ?thesis
      by (intro oauth_write.edit [of _ r "\<lambda>r. r\<lparr>o_status := oauth_expired\<rparr>"])
         (auto simp: get_pending_consent_def closed_auth_def new_code_ok_def)
  next
    case False
    with Some show ?thesis
      by (intro oauth_write.keep) (auto simp: get_pending_consent_def)
  qed
qed

text \<open>How an approval can end.\<close>

lemma approve_consent_cases:
  assumes run: "approve_consent e oid m aids d = (res, d')"
  obtains (fail) "\<exists>err. res = Inl err" "oauth_auths d' = oauth_auths (snd (get_pending_consent e oid m d))"
  | (ok) r and f :: "oauth_authorization \<Rightarrow> oauth_authorization" where
      "get_pending_consent e oid m d = (Some r, d)" "aids \<noteq> []"
      "\<And>a. a \<in> set aids \<Longrightarrow> \<exists>x \<in> set (allocations d). a_id x = a \<and> a_member_id x = m_id m"
      "f = (\<lambda>r. r\<lparr>o_allocation_ids := Some aids, o_code := Some (token_urlsafe e (fresh d)),
         o_status := oauth_approved, o_approved_at := Some (now e),
         o_expires_at := now e + seconds code_ttl\<rparr>)"
      "\<And>x. x \<in> set (oauth_auths d) \<Longrightarrow> o_code x \<noteq> Some (token_urlsafe e (fresh d))"
      "res = Inr (f r)" "d' = set_authorization oid f (tick d)"
proof (cases "get_pending_consent e oid m d")
  case (Pair found d1)
  show ?thesis
  proof (cases found)
    case None
    with Pair run show ?thesis by (intro fail) (auto simp: approve_consent_def)
  next
    case (Some r)
    with Pair have d1: "d1 = d" using pending_consent_found by blast
    show ?thesis
    proof (cases res)
      case (Inl err)
      with Pair Some d1 run show ?thesis
        by (intro fail) (auto simp: approve_consent_def Let_def split: if_splits)
    next
      case (Inr row)
      with Pair Some d1 run show ?thesis
        by (intro ok [of r "\<lambda>r. r\<lparr>o_allocation_ids := Some aids, o_code := Some (token_urlsafe e (fresh d)),
              o_status := oauth_approved, o_approved_at := Some (now e),
              o_expires_at := now e + seconds code_ttl\<rparr>"])
           (auto simp: approve_consent_def Let_def list_ex_iff split: if_splits)
    qed
  qed
qed

lemma approve_consent_write: "oauth_write d (snd (approve_consent e oid m aids d))"
proof (cases "approve_consent e oid m aids d")
  case (Pair res d')
  then show ?thesis
  proof (cases rule: approve_consent_cases)
    case fail
    from pending_write [of d e oid m] have "oauth_write d d'"
      by cases (use fail(2) in \<open>auto intro: oauth_write.intros\<close>)
    with Pair show ?thesis by simp
  next
    case (ok r f)
    with pending_consent_found [OF ok(1)] get_authorization_mem [of oid d r] Pair show ?thesis
      by (intro oauth_write.edit [of _ r f]) (auto simp: closed_auth_def new_code_ok_def)
  qed
qed

lemma deny_consent_write: "oauth_write d (snd (deny_consent e oid m d))"
proof (cases "get_pending_consent e oid m d")
  case (Pair found d1)
  show ?thesis
  proof (cases found)
    case None
    with Pair pending_write [of d e oid m] show ?thesis by (simp add: deny_consent_def)
  next
    case (Some r)
    with Pair pending_consent_found [of e oid m d r d1] get_authorization_mem [of oid d r] show ?thesis
      by (intro oauth_write.edit [of _ r "\<lambda>r. r\<lparr>o_status := oauth_denied\<rparr>"])
         (auto simp: deny_consent_def closed_auth_def new_code_ok_def)
  qed
qed

text \<open>How an exchange can end: it succeeds, or the row expires, or the table stays as it was.\<close>

lemma exchange_ok:
  assumes "exchange e code uri verifier d = (Inr (c, tok, row), d')"
  obtains r m dk where "by_code code d = Some r" "o_status r = oauth_approved" "now e < o_expires_at r"
    "uri = o_redirect_uri r" "sha256_b64url e verifier = o_code_challenge r"
    "get_member (o_member_id r) d = Some m"
    "create_member_credential e (o_member_id r) (o_client_name r) (list_or_empty (o_allocation_ids r)) d =
       (Inr (c, tok), dk)"
    "d' = set_authorization (o_id r) (\<lambda>r. r\<lparr>o_status := oauth_consumed, o_consumed_at := Some (now e),
       o_credential_id := Some (c_id c)\<rparr>) dk"
  using assms
  by (auto simp: exchange_def verify_pkce_s256_def Let_def split: option.splits if_splits sum.splits prod.splits)

lemma exchange_fail:
  assumes "exchange e code uri verifier d = (Inl err, d')"
  shows "d' = d \<or> (\<exists>r. by_code code d = Some r \<and> o_status r = oauth_approved \<and> o_expires_at r \<le> now e \<and>
    d' = set_authorization (o_id r) (\<lambda>r. r\<lparr>o_status := oauth_expired\<rparr>) d)"
  using assms create_key_frame(6)
  by (auto simp: exchange_def Let_def split: option.splits if_splits sum.splits prod.splits)

lemma exchange_write: "oauth_write d (snd (exchange e code uri verifier d))"
proof (cases "exchange e code uri verifier d")
  case (Pair res d')
  show ?thesis
  proof (cases res)
    case (Inl err)
    with Pair have "exchange e code uri verifier d = (Inl err, d')" by simp
    from exchange_fail [OF this] show ?thesis
    proof
      assume "d' = d"
      with Pair show ?thesis by (simp add: oauth_write.keep)
    next
      assume "\<exists>r. by_code code d = Some r \<and> o_status r = oauth_approved \<and> o_expires_at r \<le> now e \<and>
        d' = set_authorization (o_id r) (\<lambda>r. r\<lparr>o_status := oauth_expired\<rparr>) d"
      with Pair by_code_mem show ?thesis
        by (auto intro!: oauth_write.edit [where f = "\<lambda>r. r\<lparr>o_status := oauth_expired\<rparr>"]
            simp: closed_auth_def new_code_ok_def)
    qed
  next
    case (Inr x)
    then obtain c tok row where x: "res = Inr (c, tok, row)" by (cases x) auto
    with Pair have run: "exchange e code uri verifier d = (Inr (c, tok, row), d')" by simp
    from exchange_ok [OF run] obtain r dk where r: "by_code code d = Some r" "o_status r = oauth_approved"
      and made: "create_member_credential e (o_member_id r) (o_client_name r)
        (list_or_empty (o_allocation_ids r)) d = (Inr (c, tok), dk)"
      and d': "d' = set_authorization (o_id r) (\<lambda>r. r\<lparr>o_status := oauth_consumed,
        o_consumed_at := Some (now e), o_credential_id := Some (c_id c)\<rparr>) dk" by metis
    with Pair by_code_mem [OF r(1)] create_key_frame(3) [OF made] show ?thesis
      by (intro oauth_write.edit [of _ r "\<lambda>r. r\<lparr>o_status := oauth_consumed,
          o_consumed_at := Some (now e), o_credential_id := Some (c_id c)\<rparr>"])
         (simp_all add: closed_auth_def new_code_ok_def)
  qed
qed

lemma oauth_step_write: "oauth_step e d d' \<Longrightarrow> oauth_write d d'"
  by (induction rule: oauth_step.induct)
     (rule consent_write pending_write approve_consent_write deny_consent_write exchange_write |
      simp add: oauth_write.keep)+

lemma codes_unique_append: "codes_unique rs \<Longrightarrow> o_code r = None \<Longrightarrow> codes_unique (rs @ [r])"
  unfolding codes_unique_def by (metis Un_iff set_append set_ConsD singletonD set_simps(2) empty_iff list.set(1))

lemma codes_uniqueD:
  "codes_unique rs \<Longrightarrow> r \<in> set rs \<Longrightarrow> r' \<in> set rs \<Longrightarrow> o_code r \<noteq> None \<Longrightarrow> o_code r = o_code r' \<Longrightarrow> r = r'"
  unfolding codes_unique_def by blast

lemma oauth_write_wf:
  assumes "oauth_write d d'" "oauth_wf d"
  shows "oauth_wf d'"
  using assms(1)
proof cases
  case keep
  with assms(2) show ?thesis by (simp add: oauth_wf_def)
next
  case (add r)
  have "codes_unique (oauth_auths d @ [r])"
    by (rule codes_unique_append) (use assms(2) add(3) in \<open>simp_all add: oauth_wf_def\<close>)
  with assms(2) add(1,2) show ?thesis by (simp add: oauth_wf_def)
next
  case (edit r f)
  have ids: "distinct (map o_id (oauth_auths d'))"
    using assms(2) edit(1,4) by (simp add: oauth_wf_def map_update_where)
  have one: "x = r" if "x \<in> set (oauth_auths d)" "o_id x = o_id r" for x
    using assms(2) that edit(2) by (intro distinct_map_eqD [of o_id "oauth_auths d"]) (simp_all add: oauth_wf_def)
  have old: "x = y" if "x \<in> set (oauth_auths d)" "y \<in> set (oauth_auths d)" "o_code x \<noteq> None"
    "o_code x = o_code y" for x y
    by (rule codes_uniqueD [OF _ that]) (use assms(2) in \<open>simp add: oauth_wf_def\<close>)
  have rows: "\<exists>x0 \<in> set (oauth_auths d). x = (if x0 = r then f r else x0)"
    if x: "x \<in> set (oauth_auths d')" for x
  proof -
    from x obtain x0 where x0: "x0 \<in> set (oauth_auths d)"
      "o_id x0 = o_id r \<and> x = f x0 \<or> o_id x0 \<noteq> o_id r \<and> x = x0"
      unfolding edit(1) set_update_where by blast
    show ?thesis
    proof (cases "x0 = r")
      case True
      with x0 show ?thesis by (intro bexI [of _ r]) auto
    next
      case False
      with x0 one [of x0] show ?thesis by (intro bexI [of _ x0]) auto
    qed
  qed
  have clash: "o_code x \<noteq> o_code (f r)" if "x \<in> set (oauth_auths d)" "x \<noteq> r" "o_code x \<noteq> None" for x
  proof (cases "o_code (f r) = o_code r")
    case True
    with old [OF that(1) edit(2) that(3)] that(2) show ?thesis by metis
  next
    case False
    with edit(5) that(1) show ?thesis by (simp add: new_code_ok_def)
  qed
  have "codes_unique (oauth_auths d')"
    unfolding codes_unique_def
  proof (intro ballI impI)
    fix x y assume x: "x \<in> set (oauth_auths d')" and y: "y \<in> set (oauth_auths d')"
      and code: "o_code x \<noteq> None" "o_code x = o_code y"
    from rows [OF x] obtain x0 where x0: "x0 \<in> set (oauth_auths d)" "x = (if x0 = r then f r else x0)" ..
    from rows [OF y] obtain y0 where y0: "y0 \<in> set (oauth_auths d)" "y = (if y0 = r then f r else y0)" ..
    have "x0 = y0"
    proof (cases "x0 = r"; cases "y0 = r")
      assume "x0 = r" "y0 \<noteq> r"
      with clash [of y0] x0 y0 code show ?thesis by simp
    next
      assume "x0 \<noteq> r" "y0 = r"
      with clash [of x0] x0 y0 code show ?thesis by simp
    next
      assume "x0 \<noteq> r" "y0 \<noteq> r"
      with old [of x0 y0] x0 y0 code show ?thesis by simp
    qed simp
    with x0(2) y0(2) show "x = y" by simp
  qed
  with ids show ?thesis by (simp add: oauth_wf_def)
qed

lemma oauth_write_spent:
  assumes "oauth_write d d'" "oauth_wf d" "code_spent code d"
  shows "code_spent code d'"
proof -
  from assms(3) obtain x where x: "x \<in> set (oauth_auths d)" "o_code x = Some code" "closed_auth x"
    unfolding code_spent_def by blast
  from assms(1) have "x \<in> set (oauth_auths d')"
  proof cases
    case (edit r f)
    have "o_id x \<noteq> o_id r"
    proof
      assume "o_id x = o_id r"
      then have "x = r" using assms(2) x(1) edit(2)
        by (intro distinct_map_eqD [of o_id "oauth_auths d"]) (simp_all add: oauth_wf_def)
      with x(3) edit(3) show False by simp
    qed
    with x(1) show ?thesis unfolding edit(1) by (auto simp: set_update_where)
  qed (use x(1) in simp_all)
  with x show ?thesis unfolding code_spent_def by blast
qed

definition exchanges :: "env \<Rightarrow> string \<Rightarrow> db \<Rightarrow> db \<Rightarrow> bool" where
  "exchanges e code d d' \<longleftrightarrow>
     (\<exists>t uri verifier r. exchange (at_time e t) code uri verifier d = (Inr r, d'))"

lemma exchange_is_step: "exchanges e code d d' \<Longrightarrow> oauth_step e d d'"
  unfolding exchanges_def using oauth_step.by_exchange [of e d] by (metis snd_conv)

lemma exchange_spends:
  assumes "exchanges e code d d'"
  shows "code_spent code d'"
proof -
  from assms obtain t uri verifier x where "exchange (at_time e t) code uri verifier d = (Inr x, d')"
    unfolding exchanges_def by blast
  then obtain c tok row where run: "exchange (at_time e t) code uri verifier d = (Inr (c, tok, row), d')"
    by (cases x) auto
  obtain r m dk where r: "by_code code d = Some r"
    and made: "create_member_credential (at_time e t) (o_member_id r) (o_client_name r)
        (list_or_empty (o_allocation_ids r)) d = (Inr (c, tok), dk)"
    and d': "d' = set_authorization (o_id r) (\<lambda>r. r\<lparr>o_status := oauth_consumed,
        o_consumed_at := Some (now (at_time e t)), o_credential_id := Some (c_id c)\<rparr>) dk"
    by (rule exchange_ok [OF run])
  let ?r = "r\<lparr>o_status := oauth_consumed, o_consumed_at := Some (now (at_time e t)),
      o_credential_id := Some (c_id c)\<rparr>"
  have "?r \<in> set (oauth_auths d')"
    using by_code_mem [OF r] create_key_frame(3) [OF made] unfolding d' by (auto simp: set_update_where)
  then show ?thesis using by_code_mem [OF r]
    unfolding code_spent_def by (intro bexI [of _ ?r]) (simp_all add: closed_auth_def)
qed

lemma spent_code_no_exchange:
  assumes wf: "oauth_wf d" and spent: "code_spent code d"
  shows "\<not> exchanges e code d d'"
proof
  assume "exchanges e code d d'"
  then obtain t uri verifier x where run: "exchange (at_time e t) code uri verifier d = (Inr x, d')"
    unfolding exchanges_def by blast
  then obtain r where r: "by_code code d = Some r" "o_status r = oauth_approved"
    by (cases x) (auto elim: exchange_ok)
  from spent obtain y where y: "y \<in> set (oauth_auths d)" "o_code y = Some code" "closed_auth y"
    unfolding code_spent_def by blast
  have "y = r" using by_code_mem [OF r(1)] y(1,2) wf by (simp add: oauth_wf_def codes_unique_def)
  with y(3) r(2) show False by (simp add: closed_auth_def)
qed

interpretation oauth: one_shot oauth_wf "oauth_step e" "exchanges e" code_spent for e
proof
  show "oauth_wf d'" if "oauth_wf d" "oauth_step e d d'" for d d'
    using oauth_write_wf oauth_step_write that by blast
  show "code_spent k d'" if "oauth_wf d" "oauth_step e d d'" "code_spent k d" for d d' k
    using oauth_write_spent oauth_step_write that by blast
qed (simp_all add: exchange_is_step exchange_spends spent_code_no_exchange)

section \<open>Properties\<close>

lemma by_code_in:
  assumes "oauth_wf d" "r \<in> set (oauth_auths d)" "o_code r = Some code"
  shows "by_code code d = Some r"
proof -
  have "by_code code d \<noteq> None"
    using assms(2,3) by (auto simp: by_code_def find_None_ball)
  then obtain r' where r': "by_code code d = Some r'" by blast
  have "r' = r"
    by (rule codes_uniqueD [of "oauth_auths d"])
       (use assms by_code_mem [OF r'] in \<open>simp_all add: oauth_wf_def\<close>)
  with r' show ?thesis by simp
qed

lemma get_authorization_in:
  "oauth_wf d \<Longrightarrow> r \<in> set (oauth_auths d) \<Longrightarrow> get_authorization (o_id r) d = Some r"
  unfolding get_authorization_def by (rule find_unique) (simp_all add: oauth_wf_def)

text \<open>An approval leaves the consent, with a code and the shorter deadline.\<close>

lemma approve_consent_result:
  assumes wf: "oauth_wf d" and run: "approve_consent e oid m aids d = (Inr row, d')"
  obtains r code where "get_authorization oid d = Some r" "o_member_id r = m_id m"
    "row = r\<lparr>o_allocation_ids := Some aids, o_code := Some code, o_status := oauth_approved,
       o_approved_at := Some (now e), o_expires_at := now e + seconds code_ttl\<rparr>"
    "by_code code d' = Some row" "oauth_wf d'" "aids \<noteq> []" "allocations d' = allocations d"
    "credentials d' = credentials d" "credential_allocations d' = credential_allocations d"
    "members d' = members d" "fresh d \<le> fresh d'"
  using run
proof (cases rule: approve_consent_cases)
  case fail
  then show ?thesis by simp
next
  case (ok r f)
  note found = pending_consent_found [OF ok(1)]
  have wf': "oauth_wf d'"
    using oauth_write_wf [OF approve_consent_write wf, of e oid m aids] run by simp
  have row: "row = f r" using ok(6) by simp
  have "f r \<in> set (oauth_auths d')"
    using found get_authorization_mem [of oid d r] by (auto simp: ok(7) set_update_where)
  then have "by_code (token_urlsafe e (fresh d)) d' = Some row"
    by (intro by_code_in [OF wf']) (simp_all add: row ok(4))
  with found row wf' ok(2) show ?thesis
    by (intro that [of r "token_urlsafe e (fresh d)"]) (simp_all add: ok(4,7) set_authorization_def)
qed

lemma exchange_passes:
  assumes "by_code code d = Some r" "o_status r = oauth_approved" "now e < o_expires_at r"
    "uri = o_redirect_uri r" "sha256_b64url e verifier = o_code_challenge r" "get_member (o_member_id r) d = Some m"
  shows "exchange e code uri verifier d =
    (case create_member_credential e (o_member_id r) (o_client_name r) (list_or_empty (o_allocation_ids r)) d of
       (Inl err, d1) \<Rightarrow> (Inl (OAuthScope err), d1)
     | (Inr (c, tok), d1) \<Rightarrow>
         (Inr (c, tok, r\<lparr>o_status := oauth_consumed, o_consumed_at := Some (now e),
             o_credential_id := Some (c_id c)\<rparr>),
          set_authorization (o_id r) (\<lambda>r. r\<lparr>o_status := oauth_consumed, o_consumed_at := Some (now e),
             o_credential_id := Some (c_id c)\<rparr>) d1))"
  using assms by (auto simp: exchange_def verify_pkce_s256_def Let_def split: prod.split sum.split)

lemma exchange_refuses:
  assumes "by_code code d = Some r"
    and "o_status r \<noteq> oauth_approved \<or> o_expires_at r \<le> now e \<or> uri \<noteq> o_redirect_uri r \<or>
      sha256_b64url e verifier \<noteq> o_code_challenge r"
  shows "fst (exchange e code uri verifier d) = Inl (OAuthError ''invalid_grant'')"
  using assms by (auto simp: exchange_def verify_pkce_s256_def)

lemma consent_result:
  assumes "create_consent e m client uri challenge meth state scope d = (Inr row, d1)"
  shows "oauth_auths d1 = oauth_auths d @ [row]" "o_redirect_uri row = uri" "o_code_challenge row = challenge"
    "o_member_id row = m_id m" "allocations d1 = allocations d" "credentials d1 = credentials d"
    "credential_allocations d1 = credential_allocations d" "members d1 = members d" "fresh d \<le> fresh d1"
  using assms
  by (auto simp: create_consent_def get_oauth_config_def Let_def case_prod_beta split: if_splits option.splits)

lemma resolve_set_authorization [simp]:
  "resolve_bearer e t k (set_authorization oid f d) = resolve_bearer e t k d"
  by (rule resolve_bearer_cong) (simp_all add: set_authorization_def)

text \<open>An authorization code is exchanged at most once: after an exchange succeeded, every later
  exchange of the same code is refused, with whatever redirect and verifier, whatever operations
  on any authorization happen in between and at whatever times.\<close>

theorem oauth_code_once:
  assumes wf: "oauth_wf d" and first: "exchange (at_time e t) code uri verifier d = (Inr r, d1)"
    and run: "(oauth_step e)\<^sup>*\<^sup>* d1 d2"
  shows "\<exists>err. fst (exchange (at_time e t') code uri' verifier' d2) = Inl err"
proof (cases "exchange (at_time e t') code uri' verifier' d2")
  case (Pair res d3)
  have "exchanges e code d d1" unfolding exchanges_def using first by blast
  from oauth.never_again [OF wf this run, of d3] have "\<nexists>x. res = Inr x"
    unfolding exchanges_def using Pair by blast
  then obtain err where "res = Inl err" by (metis sum.exhaust)
  with Pair show ?thesis by simp
qed

text \<open>An approved code that is still valid, with its address and verifier, delivers a key for the chosen
  allocations.\<close>

lemma exchange_delivers:
  assumes ok: "env_ok e" and wf: "scope_wf e d"
    and code: "by_code code d = Some r" "o_status r = oauth_approved" "o_member_id r = mid" "o_allocation_ids r = Some aids"
    and own: "owned_allocations mid aids d = Inr allocs" "get_member mid d = Some m" "aids \<noteq> []"
    and t: "t < o_expires_at r" "sha256_b64url e verifier = o_code_challenge r"
  shows "\<exists>c tok r' d'. exchange (at_time e t) code (o_redirect_uri r) verifier d = (Inr (c, tok, r'), d') \<and>
    (\<forall>a \<in> set (allocations d). a_id a \<in> set aids \<longrightarrow>
       resolve_bearer e (g_plaintext tok) (a_resource_model a) d' = Some a) \<and>
    (\<forall>k a. resolve_bearer e (g_plaintext tok) k d' = Some a \<longrightarrow> a_id a \<in> set aids \<and> a_member_id a = mid)"
proof -
  from create_key_for_owned [OF own(1,3)] obtain k tok dk where
    made: "create_member_credential (at_time e t) mid (o_client_name r) aids d = (Inr (k, tok), dk)"
    by blast
  have "exchange (at_time e t) code (o_redirect_uri r) verifier d = (Inr (k, tok, r\<lparr>o_status := oauth_consumed,
      o_consumed_at := Some t, o_credential_id := Some (c_id k)\<rparr>), set_authorization (o_id r)
        (\<lambda>r. r\<lparr>o_status := oauth_consumed, o_consumed_at := Some t, o_credential_id := Some (c_id k)\<rparr>) dk)"
    using exchange_passes [OF code(1,2), of "at_time e t" "o_redirect_uri r" verifier m] t made own(2)
    by (simp add: code list_or_empty_def)
  moreover have "env_ok (at_time e t)" "scope_wf (at_time e t) d" using ok wf by simp_all
  note g = create_key_grants [OF this made]
  ultimately show ?thesis
    using g(3-5) by (intro exI conjI) (assumption | simp)+
qed


lemma starts_with_iff: "starts_with p s \<longleftrightarrow> (\<exists>rest. s = p @ rest)"
  unfolding starts_with_def by (metis append_take_drop_id append_eq_conv_conj)

text \<open>The redirect allowlist fails closed: a consent is refused with \<open>redirect_uri_not_allowed\<close>
  exactly when no entry of the configured list (by default the one of the settings) is a non-empty
  prefix of the redirect; in particular always when the list is empty, blank or only separators.\<close>

theorem redirect_fails_closed:
  "fst (create_consent e m client uri challenge meth state scope d) =
     Inl (OAuthError ''redirect_uri_not_allowed'') \<longleftrightarrow>
   (\<nexists>p rest. p \<in> set (parse_allowlist (Some (oc_redirect_allowlist (fst (get_oauth_config e d))))) \<and>
      p \<noteq> [] \<and> uri = p @ rest)"
proof -
  let ?ps = "parse_allowlist (Some (oc_redirect_allowlist (fst (get_oauth_config e d))))"
  have "validate_redirect_uri uri ?ps \<longleftrightarrow> (\<exists>p rest. p \<in> set ?ps \<and> p \<noteq> [] \<and> uri = p @ rest)"
    using parse_allowlist_nonempty
    by (auto simp: validate_redirect_uri_def list_ex_iff starts_with_iff)
  moreover have "fst (create_consent e m client uri challenge meth state scope d) =
      Inl (OAuthError ''redirect_uri_not_allowed'') \<longleftrightarrow> \<not> validate_redirect_uri uri ?ps"
    by (simp add: create_consent_def Let_def case_prod_beta)
  ultimately show ?thesis by simp
qed

text \<open>An approval of two allocations of one model is accepted and gets its code, but the code can
  never be exchanged: the exchange that passes every check of the flow ends in the exception of the
  key's scope, a 500 that leaves the session as it was.\<close>

theorem duplicate_scope_never_exchanges:
  assumes wf: "oauth_wf d" and approval: "approve_consent (at_time e t) oid m aids d = (Inr row, d1)"
    and dup: "owned_allocations (m_id m) aids d = Inl err" and member: "get_member (m_id m) d = Some m'"
  shows "\<exists>code. o_code row = Some code \<and>
    (\<forall>t' verifier. t' < t + seconds 120 \<and> sha256_b64url e verifier = o_code_challenge row \<longrightarrow>
       oauth_token (at_time e t') ''authorization_code'' code (o_redirect_uri row) verifier d1 = ((500, None), d1)) \<and>
    (\<forall>t' uri verifier. \<nexists>x. fst (exchange (at_time e t') code uri verifier d1) = Inr x)"
proof -
  obtain r code where r: "get_authorization oid d = Some r" "o_member_id r = m_id m"
    and row: "row = r\<lparr>o_allocation_ids := Some aids, o_code := Some code, o_status := oauth_approved,
       o_approved_at := Some (now (at_time e t)), o_expires_at := now (at_time e t) + seconds code_ttl\<rparr>"
    and code: "by_code code d1 = Some row" and ne: "aids \<noteq> []"
    and d1: "allocations d1 = allocations d" "members d1 = members d"
    by (rule approve_consent_result [OF wf approval])
  have f: "o_code row = Some code" "o_status row = oauth_approved" "o_expires_at row = t + seconds 120"
    "o_member_id row = m_id m" "o_allocation_ids row = Some aids"
    using r by (simp_all add: row code_ttl_def)
  have "owned_allocations (m_id m) aids d1 = Inl err" "get_member (m_id m) d1 = Some m'"
    using dup member owned_allocations_cong [OF d1(1)] d1(2) by (simp_all add: get_member_def)
  then have made: "create_member_credential e' (m_id m) name aids d1 = (Inl err, d1)" for e' name
    using ne by (simp add: create_member_credential_def)
  have stuck: "exchange (at_time e t') code (o_redirect_uri row) verifier d1 = (Inl (OAuthScope err), d1)"
    if "t' < t + seconds 120" "sha256_b64url e verifier = o_code_challenge row" for t' verifier
    using exchange_passes [OF code f(2), of "at_time e t'" "o_redirect_uri row" verifier m'] that
      \<open>get_member (m_id m) d1 = Some m'\<close> made
    by (simp add: f list_or_empty_def)
  have "\<nexists>x. fst (exchange (at_time e t') code uri verifier d1) = Inr x" for t' uri verifier
  proof (rule notI, elim exE)
    fix x assume "fst (exchange (at_time e t') code uri verifier d1) = Inr x"
    then obtain c tok r' d2 where run: "exchange (at_time e t') code uri verifier d1 = (Inr (c, tok, r'), d2)"
      by (metis prod.collapse)
    obtain r1 m1 dk where "by_code code d1 = Some r1"
      "create_member_credential (at_time e t') (o_member_id r1) (o_client_name r1)
         (list_or_empty (o_allocation_ids r1)) d1 = (Inr (c, tok), dk)"
      by (rule exchange_ok [OF run])
    with code made f(4,5) show False by (simp add: list_or_empty_def)
  qed
  moreover have "oauth_token (at_time e t') ''authorization_code'' code (o_redirect_uri row) verifier d1 =
      ((500, None), d1)"
    if "t' < t + seconds 120" "sha256_b64url e verifier = o_code_challenge row" for t' verifier
    using stuck [OF that] by (simp add: oauth_token_def rollback_to_def)
  ultimately show ?thesis using f(1) by blast
qed

section \<open>A run\<close>

definition sample_verifier :: string where
  "sample_verifier = replicate 42 (CHR ''v'')"

lemma sample_allowlist: "parse_allowlist (Some ''https://app.example/'') = [''https://app.example/'']"
  by code_simp

lemma sample_consent:
  assumes "oauth_auths d = []" "oauth_cfg d = None"
  shows "\<exists>row d1. create_consent (at_time sample_env 0) m ''App'' ''https://app.example/cb''
    (CHR ''b'' # sample_verifier) ''S256'' None None d = (Inr row, d1)"
proof -
  have allow: "parse_allowlist (Some (oc_redirect_allowlist (fst (get_oauth_config (at_time sample_env 0) d)))) =
      [''https://app.example/'']"
    using assms(2) sample_allowlist by (simp add: get_oauth_config_def sample_env_def sample_settings_def Let_def)
  have "strip ''App'' \<noteq> []" by code_simp
  with assms(1) allow show ?thesis
    by (simp add: create_consent_def Let_def case_prod_beta validate_redirect_uri_def starts_with_def
        sample_verifier_def)
qed

lemma approve_consent_ok:
  assumes "oauth_auths d = [r]" "o_code r = None" "o_member_id r = m_id m" "o_status r = oauth_pending"
    "now e < o_expires_at r" "aids \<noteq> []"
    "\<And>a. a \<in> set aids \<Longrightarrow> \<exists>x \<in> set (allocations d). a_id x = a \<and> a_member_id x = m_id m"
  shows "\<exists>row d'. approve_consent e (o_id r) m aids d = (Inr row, d')"
proof -
  have "\<not> list_ex (\<lambda>a. a \<notin> set (map a_id (filter (\<lambda>a. a_member_id a = m_id m) (allocations d)))) aids"
    using assms(7) by (fastforce simp: list_ex_iff)
  with assms(1-6) show ?thesis
    by (simp add: approve_consent_def get_pending_consent_def get_authorization_def Let_def)
qed

lemma sample_consent_row:
  assumes "create_consent (at_time sample_env 0) m client uri challenge meth state scope d = (Inr row, d1)"
  shows "o_code row = None" "o_status row = oauth_pending" "o_expires_at row = seconds 600"
  using assms
  by (auto simp: create_consent_def Let_def case_prod_beta consent_ttl_def split: if_splits)

lemma sample_oauth_run:
  assumes d: "oauth_auths d = []" "oauth_cfg d = None" and ne: "aids \<noteq> []"
    and own: "\<And>a. a \<in> set aids \<Longrightarrow> \<exists>x \<in> set (allocations d). a_id x = a \<and> a_member_id x = m_id m"
  shows "\<exists>row d1 row' d2. create_consent (at_time sample_env 0) m ''App'' ''https://app.example/cb''
      (CHR ''b'' # sample_verifier) ''S256'' None None d = (Inr row, d1) \<and>
    approve_consent (at_time sample_env (seconds 60)) (o_id row) m aids d1 = (Inr row', d2)"
proof -
  obtain row d1 where run: "create_consent (at_time sample_env 0) m ''App'' ''https://app.example/cb''
      (CHR ''b'' # sample_verifier) ''S256'' None None d = (Inr row, d1)"
    using sample_consent [OF d] by blast
  note c = consent_result [OF run] and r = sample_consent_row [OF run]
  have "\<exists>row' d2. approve_consent (at_time sample_env (seconds 60)) (o_id row) m aids d1 = (Inr row', d2)"
    by (rule approve_consent_ok) (use c r d ne own in simp_all)
  with run show ?thesis by blast
qed

lemma one_grant_oauth_wf: "oauth_wf one_grant"
  by (simp add: oauth_wf_def codes_unique_def one_grant_owner)

lemma one_grant_owns: "a \<in> set [''U00''] \<Longrightarrow>
    \<exists>x \<in> set (allocations one_grant). a_id x = a \<and> a_member_id x = m_id one_owner"
  using one_grant_rows(2) one_grant_owner(1,2) by (cases "allocations one_grant") auto

lemma sample_hash: "sha256_b64url sample_env sample_verifier = CHR ''b'' # sample_verifier"
    "sha256_b64url sample_env ''x'' \<noteq> CHR ''b'' # sample_verifier"
  by (simp_all add: sample_env_def sample_verifier_def numeral_eq_Suc)

lemma one_oauth_run:
  "\<exists>row d1 row' d2. create_consent (at_time sample_env 0) one_owner ''App''
       ''https://app.example/cb'' (CHR ''b'' # sample_verifier) ''S256'' None None one_grant = (Inr row, d1) \<and>
     approve_consent (at_time sample_env (seconds 60)) (o_id row) one_owner [''U00''] d1 = (Inr row', d2)"
  by (rule sample_oauth_run [OF one_grant_owner(4,5)]) (simp, rule one_grant_owns)


theorem oauth_code_once_witness:
  "\<exists>d2 code c tok r d3 err. exchange (at_time sample_env (seconds 65)) code ''https://app.example/cb''
       sample_verifier d2 = (Inr (c, tok, r), d3) \<and>
     fst (exchange (at_time sample_env (seconds 70)) code ''https://app.example/cb'' sample_verifier d3) = Inl err"
proof -
  obtain row d1 row' d2 where run: "create_consent (at_time sample_env 0) one_owner ''App''
       ''https://app.example/cb'' (CHR ''b'' # sample_verifier) ''S256'' None None one_grant = (Inr row, d1)"
     "approve_consent (at_time sample_env (seconds 60)) (o_id row) one_owner [''U00''] d1 = (Inr row', d2)"
    using one_oauth_run by blast
  from one_grant_owned obtain a where own: "owned_allocations (m_id one_owner) [''U00''] one_grant = Inr [a]"
    unfolding one_grant_owner(2) by blast
  have wf1: "oauth_wf d1"
    using oauth_write_wf [OF consent_write one_grant_oauth_wf, of "at_time sample_env 0" one_owner "''App''"
        "''https://app.example/cb''" "CHR ''b'' # sample_verifier" "''S256''" None None] run(1) by simp
  have ne: "[''U00''] \<noteq> []" by simp
  obtain r code where r: "get_authorization (o_id row) d1 = Some r" "o_member_id r = m_id one_owner"
    and row': "row' = r\<lparr>o_allocation_ids := Some [''U00''], o_code := Some code, o_status := oauth_approved,
       o_approved_at := Some (now (at_time sample_env (seconds 60))),
       o_expires_at := now (at_time sample_env (seconds 60)) + seconds code_ttl\<rparr>"
    and code: "by_code code d2 = Some row'" "oauth_wf d2"
    and d2: "allocations d2 = allocations d1" "members d2 = members d1"
    by (rule approve_consent_result [OF wf1 run(2)])
  note c = consent_result [OF run(1)]
  have "get_authorization (o_id row) d1 = Some row" by (rule get_authorization_in [OF wf1]) (simp add: c(1))
  with r(1) have "r = row" by simp
  with row' c(2,3) have f: "o_status row' = oauth_approved" "o_redirect_uri row' = ''https://app.example/cb''"
    "o_code_challenge row' = CHR ''b'' # sample_verifier" "o_expires_at row' = seconds 180"
    "o_member_id row' = m_id one_owner" "o_allocation_ids row' = Some [''U00'']"
    using r(2) by (simp_all add: code_ttl_def)
  have own2: "owned_allocations (m_id one_owner) [''U00''] d2 = Inr [a]"
    using own owned_allocations_cong [of d2 one_grant] d2(1) c(5) by simp
  have mem: "get_member (m_id one_owner) d2 = Some one_owner"
    using one_grant_owner(6) d2(2) c(8) by (simp add: get_member_def)
  from create_key_for_owned [OF own2 ne] obtain k tok dk where
    "create_member_credential (at_time sample_env (seconds 65)) (m_id one_owner) (o_client_name row') [''U00''] d2 =
      (Inr (k, tok), dk)" by blast
  then obtain x d3 where first: "exchange (at_time sample_env (seconds 65)) code ''https://app.example/cb''
      sample_verifier d2 = (Inr (k, tok, x), d3)"
    using exchange_passes [OF code(1) f(1), of "at_time sample_env (seconds 65)" "''https://app.example/cb''"
        sample_verifier one_owner] mem sample_hash
    by (simp add: f list_or_empty_def)
  from oauth_code_once [OF code(2) first rtranclp.rtrancl_refl] first show ?thesis by blast
qed

lemma two_grants_owner: "oauth_auths two_grants = []" "oauth_cfg two_grants = None"
    "get_member (m_id one_owner) two_grants = Some one_owner"
    "\<exists>err. owned_allocations (m_id one_owner) [''U00'', ''U00000''] two_grants = Inl err"
    "a \<in> set [''U00'', ''U00000''] \<Longrightarrow>
       \<exists>x \<in> set (allocations two_grants). a_id x = a \<and> a_member_id x = m_id one_owner"
  by (auto simp: one_owner_def two_grants_def one_grant_def create_allocation_def ensure_external_member_def
      issue_allocation_def Let_def case_prod_beta empty_db_def sample_env_def new_credential_def
      add_credential_row_def add_links_def tick_def numeral_nat get_member_def owned_allocations_def
      get_allocation_def lower_def lower_char_def)

theorem duplicate_scope_never_exchanges_witness:
  "\<exists>row d1 row' d2 code. create_consent (at_time sample_env 0) one_owner ''App''
       ''https://app.example/cb'' (CHR ''b'' # sample_verifier) ''S256'' None None two_grants = (Inr row, d1) \<and>
     approve_consent (at_time sample_env (seconds 60)) (o_id row) one_owner [''U00'', ''U00000''] d1 = (Inr row', d2) \<and>
     oauth_token (at_time sample_env (seconds 65)) ''authorization_code'' code (o_redirect_uri row')
       sample_verifier d2 = ((500, None), d2)"
proof -
  obtain row d1 row' d2 where run: "create_consent (at_time sample_env 0) one_owner ''App''
       ''https://app.example/cb'' (CHR ''b'' # sample_verifier) ''S256'' None None two_grants = (Inr row, d1)"
     "approve_consent (at_time sample_env (seconds 60)) (o_id row) one_owner [''U00'', ''U00000''] d1 = (Inr row', d2)"
    using sample_oauth_run [OF two_grants_owner(1,2) _ two_grants_owner(5)]
    by (metis list.distinct(1))
  note c = consent_result [OF run(1)]
  have wf: "oauth_wf two_grants" by (simp add: oauth_wf_def codes_unique_def two_grants_owner)
  have wf1: "oauth_wf d1"
    using oauth_write_wf [OF consent_write wf, of "at_time sample_env 0" one_owner "''App''"
        "''https://app.example/cb''" "CHR ''b'' # sample_verifier" "''S256''" None None] run(1) by simp
  from two_grants_owner(4) obtain err where
    "owned_allocations (m_id one_owner) [''U00'', ''U00000''] two_grants = Inl err" by blast
  then have dup: "owned_allocations (m_id one_owner) [''U00'', ''U00000''] d1 = Inl err"
    using owned_allocations_cong [OF c(5)] by simp
  have mem: "get_member (m_id one_owner) d1 = Some one_owner"
    using two_grants_owner(3) c(8) by (simp add: get_member_def)
  have challenge: "o_code_challenge row' = CHR ''b'' # sample_verifier"
  proof -
    obtain r code where "get_authorization (o_id row) d1 = Some r" "o_code_challenge row' = o_code_challenge r"
      by (rule approve_consent_result [OF wf1 run(2)]) simp
    moreover have "get_authorization (o_id row) d1 = Some row"
      by (rule get_authorization_in [OF wf1]) (simp add: c(1))
    ultimately show ?thesis using c(3) by simp
  qed
  have early: "seconds 65 < seconds 60 + seconds 120" by simp
  from duplicate_scope_never_exchanges [OF wf1 run(2) dup mem] show ?thesis
  proof (elim exE conjE, goal_cases)
    case (1 code)
    have "sha256_b64url sample_env sample_verifier = o_code_challenge row'"
      using challenge sample_hash(1) by simp
    from 1(2) [rule_format, OF conjI, OF early this] run show ?case by (intro exI conjI) assumption+
  qed
qed

end
