(* ===== verification/ProviderTheorems.thy ===== *)
theory ProviderTheorems
  imports ProviderCreds AllocationSpec "HOL-Library.Multiset"
begin

text \<open>
  Round robin.  The specification is a first-in first-out queue of ids: a use moves the head to
  the end.  The locale \<open>rotation\<close> states what the proxy relies on and derives fairness from it;
  its interpretation on \<open>get_next\<close> is the refinement: the sorted table is such a queue, as long
  as the clock moves between two uses.
\<close>

section \<open>The specification\<close>

text \<open>\<open>queue s\<close> is the order in state \<open>s\<close>, \<open>use t s\<close> the use at time \<open>t\<close>, \<open>ok t s\<close> its condition.\<close>

locale rotation =
  fixes queue :: "'s \<Rightarrow> 'i list" and used :: "'t \<Rightarrow> 's \<Rightarrow> 'i option \<times> 's" and ok :: "'t \<Rightarrow> 's \<Rightarrow> bool"
  assumes used_head: "ok t s \<Longrightarrow> queue s \<noteq> [] \<Longrightarrow> fst (used t s) = Some (hd (queue s))"
    and used_rotates: "ok t s \<Longrightarrow> queue s \<noteq> [] \<Longrightarrow> queue (snd (used t s)) = rotate1 (queue s)"
begin

text \<open>The uses at the times \<open>ts\<close>, one after the other.\<close>

fun uses :: "'t list \<Rightarrow> 's \<Rightarrow> 'i option list \<times> 's" where
  "uses [] s = ([], s)"
| "uses (t # ts) s = (case used t s of (i, s') \<Rightarrow> (case uses ts s' of (is, s'') \<Rightarrow> (i # is, s'')))"

fun oks :: "'t list \<Rightarrow> 's \<Rightarrow> bool" where
  "oks [] s = True"
| "oks (t # ts) s = (ok t s \<and> oks ts (snd (used t s)))"

lemma uses_queue:
  assumes "oks ts s" "queue s \<noteq> []"
  shows "queue (snd (uses ts s)) = rotate (length ts) (queue s)"
  using assms
proof (induction ts arbitrary: s)
  case (Cons t ts)
  then have "queue (snd (used t s)) = rotate1 (queue s)" by (intro used_rotates) simp_all
  moreover from this Cons.prems(2) have "queue (snd (used t s)) \<noteq> []" by simp
  ultimately show ?case using Cons by (simp add: case_prod_beta rotate1_rotate_swap)
qed simp

lemma uses_ids:
  assumes "oks ts s" "queue s \<noteq> []" "k < length ts"
  shows "fst (uses ts s) ! k = Some (queue s ! (k mod length (queue s)))"
  using assms
proof (induction ts arbitrary: s k)
  case (Cons t ts)
  have ok: "ok t s" "queue s \<noteq> []" using Cons.prems by simp_all
  have q: "queue (snd (used t s)) = rotate1 (queue s)" by (rule used_rotates [OF ok])
  show ?case
  proof (cases k)
    case 0
    with used_head [OF ok] ok(2) show ?thesis by (simp add: case_prod_beta hd_conv_nth)
  next
    case (Suc k')
    with Cons q have "fst (uses ts (snd (used t s))) ! k' =
        Some (rotate1 (queue s) ! (k' mod length (queue s)))" by simp
    also have "rotate1 (queue s) ! (k' mod length (queue s)) = queue s ! (k mod length (queue s))"
      using ok(2) Suc by (simp add: nth_rotate1 mod_Suc_eq)
    finally show ?thesis using Suc by (simp add: case_prod_beta)
  qed
qed simp

text \<open>In any \<open>n\<close> successive uses of a queue of \<open>n\<close>, each of the ids is used exactly once.\<close>

lemma uses_fair:
  assumes "oks ts s" "queue s \<noteq> []" "length ts = length (queue s)"
  shows "fst (uses ts s) = map Some (queue s)"
proof (rule nth_equalityI)
  have "length (fst (uses ts s)) = length ts" for ts s
    by (induction ts arbitrary: s) (simp_all add: case_prod_beta)
  then show "length (fst (uses ts s)) = length (map Some (queue s))" using assms(3) by simp
  then show "fst (uses ts s) ! i = map Some (queue s) ! i" if "i < length (fst (uses ts s))" for i
    using that uses_ids [OF assms(1,2), of i] assms(3) by simp
qed

end

section \<open>Sorting a row to the end\<close>

lemma filter_replaced_out:
  "\<not> P r' \<Longrightarrow> filter P (map (\<lambda>x. if x = r then r' else x) xs) = filter (\<lambda>x. P x \<and> x \<noteq> r) xs"
  by (induction xs) auto

lemma filter_replaced_in:
  "P r' \<Longrightarrow> r \<in> set xs \<Longrightarrow> distinct xs \<Longrightarrow> (\<And>x. x \<in> set xs \<Longrightarrow> \<not> P x) \<Longrightarrow>
     filter P (map (\<lambda>x. if x = r then r' else x) xs) = [r']"
proof (induction xs)
  case (Cons y ys)
  show ?case
  proof (cases "y = r")
    case True
    with Cons.prems have "filter P (map (\<lambda>x. if x = r then r' else x) ys) = []"
      by (auto simp: filter_empty_conv)
    with True Cons.prems(1) show ?thesis by simp
  next
    case False
    with Cons show ?thesis by simp
  qed
qed simp

lemma mset_replaced:
  "r \<in> set xs \<Longrightarrow> distinct xs \<Longrightarrow>
     mset (map (\<lambda>x. if x = r then r' else x) xs) = add_mset r' (mset (remove1 r xs))"
proof (induction xs)
  case (Cons y ys)
  show ?case
  proof (cases "y = r")
    case True
    with Cons.prems have "map (\<lambda>x. if x = r then r' else x) ys = ys" by (intro map_idI) auto
    with True show ?thesis by simp
  next
    case False
    with Cons show ?thesis by simp
  qed
qed simp

text \<open>Replacing the first row of a sorted table by one with a larger key rotates it.\<close>

lemma sort_key_rotate:
  assumes sorted: "sort_key f xs = r # rs" and dist: "distinct xs"
    and new: "\<And>x. x \<in> set xs \<Longrightarrow> f x < f r'"
  shows "sort_key f (map (\<lambda>x. if x = r then r' else x) xs) = rs @ [r']"
proof (rule properties_for_sort_key)
  have set_eq: "set xs = insert r (set rs)" by (metis sorted set_sort list.simps(15))
  have drs: "distinct (r # rs)" by (metis sorted dist distinct_sort)
  have "mset xs = add_mset r (mset rs)" by (metis sorted mset_sort mset.simps(2))
  then show "mset (rs @ [r']) = mset (map (\<lambda>x. if x = r then r' else x) xs)"
    using mset_replaced [of r xs r'] set_eq dist by (simp add: mset_remove1)
  have "sorted (map f (r # rs))" by (metis sorted sorted_sort_key)
  moreover have "f x \<le> f r'" if "x \<in> set rs" for x using new [of x] that set_eq by simp
  ultimately show "sorted (map f (rs @ [r']))" by (auto simp: sorted_append)
  fix k assume k: "k \<in> set (rs @ [r'])"
  have fresh: "f x \<noteq> f r'" if "x \<in> set xs" for x using new [OF that] by simp
  have fresh': "\<not> f r' = f x" if "x \<in> set xs" for x using fresh [OF that] by (rule not_sym)
  have r_in: "r \<in> set xs" using set_eq by blast
  show "filter (\<lambda>x. f k = f x) (rs @ [r']) = filter (\<lambda>x. f k = f x) (map (\<lambda>x. if x = r then r' else x) xs)"
  proof (cases "f k = f r'")
    case True
    have "filter (\<lambda>x. f r' = f x) rs = []" using fresh' set_eq unfolding filter_empty_conv by blast
    moreover have "filter (\<lambda>x. f r' = f x) (map (\<lambda>x. if x = r then r' else x) xs) = [r']"
      using filter_replaced_in [of "\<lambda>x. f r' = f x" r' r xs] r_in dist fresh' by blast
    ultimately show ?thesis using True by simp
  next
    case False
    then have "filter (\<lambda>x. f k = f x) (map (\<lambda>x. if x = r then r' else x) xs) =
        filter (\<lambda>x. x \<noteq> r) (filter (\<lambda>x. f k = f x) xs)"
      by (subst filter_replaced_out) (simp_all add: conj_commute)
    also have "filter (\<lambda>x. f k = f x) xs = filter (\<lambda>x. f k = f x) (r # rs)"
      using sort_key_stable [of f "f k" xs] sorted by (simp add: eq_commute)
    also have "filter (\<lambda>x. x \<noteq> r) (filter (\<lambda>x. f k = f x) (r # rs)) = filter (\<lambda>x. f k = f x) rs"
      using drs by (induction rs) auto
    finally show ?thesis using False by simp
  qed
qed

section \<open>The refinement\<close>

definition ready :: "env \<Rightarrow> string \<Rightarrow> timestamp \<Rightarrow> db \<Rightarrow> bool" where
  "ready e provider t d \<longleftrightarrow> distinct (map pc_id (provider_creds d)) \<and>
     (\<forall>c \<in> set (active_creds provider d). decrypt e (pc_enc_key c) \<noteq> None \<and>
        (\<forall>u. pc_last_used_at c = Some u \<longrightarrow> u < t))"

definition next_id :: "env \<Rightarrow> string \<Rightarrow> timestamp \<Rightarrow> db \<Rightarrow> string option \<times> db" where
  "next_id e provider t d =
     (case get_next (at_time e t) provider d of
        (Inr (Some c), d1) \<Rightarrow> (Some (rc_id c), d1)
      | (_, d1) \<Rightarrow> (None, d1))"

lemma rows_set_provider_cred [simp]:
  "provider_creds (set_provider_cred pid f d) = update_where (\<lambda>c. pc_id c = pid) f (provider_creds d)"
  by (simp add: set_provider_cred_def)

lemma active_creds_mem: "c \<in> set (active_creds provider d) \<Longrightarrow> c \<in> set (provider_creds d)"
  by (simp add: active_creds_def)

lemma distinct_active:
  "distinct (map pc_id (provider_creds d)) \<Longrightarrow> distinct (map pc_id (active_creds provider d))"
  by (auto simp: active_creds_def distinct_map inj_on_def)

lemma head_active: "rotation_order provider d = c # cs \<Longrightarrow> c \<in> set (active_creds provider d)"
  unfolding rotation_order_def by (metis list.set_intros(1) set_sort)

lemma get_next_runs:
  assumes "ready e provider t d" "rotation_order provider d = c # cs"
  obtains key d' where "decrypt e (pc_enc_key c) = Some key"
    "get_next (at_time e t) provider d = (Inr (Some (resolved_of c key)), d')"
    "provider_creds d' = update_where (\<lambda>x. pc_id x = pc_id c) (\<lambda>x. x\<lparr>pc_last_used_at := Some t\<rparr>)
       (provider_creds d)"
proof -
  from assms head_active obtain key where key: "decrypt e (pc_enc_key c) = Some key"
    unfolding ready_def by blast
  with assms(2) show ?thesis
    by (intro that [OF key, of "snd (get_next (at_time e t) provider d)"])
       (simp_all add: get_next_def Let_def)
qed

lemma rotation_order_used:
  assumes ready: "ready e provider t d" and order: "rotation_order provider d = c # cs"
    and rows: "provider_creds d' = update_where (\<lambda>x. pc_id x = pc_id c)
      (\<lambda>x. x\<lparr>pc_last_used_at := Some t\<rparr>) (provider_creds d)"
  shows "rotation_order provider d' = cs @ [c\<lparr>pc_last_used_at := Some t\<rparr>]"
proof -
  let ?r = "c\<lparr>pc_last_used_at := Some t\<rparr>" and ?xs = "active_creds provider d"
  have dist: "distinct (map pc_id ?xs)" using ready distinct_active unfolding ready_def by blast
  have c: "c \<in> set ?xs" by (rule head_active [OF order])
  have "active_creds provider d' = update_where (\<lambda>x. pc_id x = pc_id c) (\<lambda>x. x\<lparr>pc_last_used_at := Some t\<rparr>) ?xs"
    unfolding active_creds_def rows by (rule filter_update_where) simp
  also have "\<dots> = map (\<lambda>x. if x = c then ?r else x) ?xs"
    unfolding update_where_def using distinct_map_eqD [OF dist _ c] by (intro map_cong) auto
  finally have active: "active_creds provider d' = map (\<lambda>x. if x = c then ?r else x) ?xs" .
  have "use_order x < use_order ?r" if "x \<in> set ?xs" for x
    using ready that by (auto simp: ready_def use_order_def less_prod_def split: option.split)
  then show ?thesis
    unfolding rotation_order_def active
    using order dist by (intro sort_key_rotate) (simp_all add: rotation_order_def distinct_map)
qed

interpretation round_robin: rotation "\<lambda>d. map pc_id (rotation_order provider d)" "next_id e provider"
    "ready e provider" for e provider
proof
  fix t d assume ready: "ready e provider t d" and ne: "map pc_id (rotation_order provider d) \<noteq> []"
  then obtain c cs where order: "rotation_order provider d = c # cs"
    by (cases "rotation_order provider d") auto
  obtain key d' where run: "get_next (at_time e t) provider d = (Inr (Some (resolved_of c key)), d')"
    and rows: "provider_creds d' = update_where (\<lambda>x. pc_id x = pc_id c)
      (\<lambda>x. x\<lparr>pc_last_used_at := Some t\<rparr>) (provider_creds d)"
    by (rule get_next_runs [OF ready order])
  show "fst (next_id e provider t d) = Some (hd (map pc_id (rotation_order provider d)))"
    by (simp add: next_id_def run order resolved_of_def)
  show "map pc_id (rotation_order provider (snd (next_id e provider t d))) =
      rotate1 (map pc_id (rotation_order provider d))"
    using rotation_order_used [OF ready order rows] by (simp add: next_id_def run order)
qed

text \<open>C17: picking the next key of a provider implements a first-in first-out queue: with ids unique,
  the keys readable and the clock past every earlier use, the key picked is the head of the order
  (never used before least recently used), and the order afterwards is the old one with this key
  moved to the end.\<close>

theorem get_next_refines_queue:
  assumes "ready e provider t d" and "rotation_order provider d \<noteq> []"
  shows "fst (next_id e provider t d) = Some (hd (map pc_id (rotation_order provider d))) \<and>
    map pc_id (rotation_order provider (snd (next_id e provider t d))) =
      rotate1 (map pc_id (rotation_order provider d))"
  using round_robin.used_head [OF assms(1)] round_robin.used_rotates [OF assms(1)] assms(2) by simp

section \<open>Fairness\<close>

text \<open>The ids picked by successive calls at the times \<open>ts\<close>.\<close>

fun picks :: "env \<Rightarrow> string \<Rightarrow> timestamp list \<Rightarrow> db \<Rightarrow> string option list" where
  "picks e provider [] d = []"
| "picks e provider (t # ts) d =
     (case next_id e provider t d of (i, d') \<Rightarrow> i # picks e provider ts d')"

lemma picks_uses: "picks e provider ts d = fst (round_robin.uses e provider ts d)"
  by (induction ts arbitrary: d) (simp_all add: case_prod_beta)

lemma ready_next:
  assumes ready: "ready e provider t d" and order: "rotation_order provider d \<noteq> []" and later: "t < u"
  shows "ready e provider u (snd (next_id e provider t d))"
proof -
  from order obtain c cs where order: "rotation_order provider d = c # cs"
    by (cases "rotation_order provider d") auto
  obtain key d' where key: "decrypt e (pc_enc_key c) = Some key"
    and run: "get_next (at_time e t) provider d = (Inr (Some (resolved_of c key)), d')"
    and rows: "provider_creds d' = update_where (\<lambda>x. pc_id x = pc_id c)
      (\<lambda>x. x\<lparr>pc_last_used_at := Some t\<rparr>) (provider_creds d)"
    by (rule get_next_runs [OF ready order])
  have set_active: "set (active_creds provider x) = set (rotation_order provider x)" for x
    by (simp add: rotation_order_def)
  have old: "set (active_creds provider d) = insert c (set cs)" using order set_active [of d] by simp
  have new: "set (active_creds provider d') = insert (c\<lparr>pc_last_used_at := Some t\<rparr>) (set cs)"
    using rotation_order_used [OF ready order rows] set_active [of d'] by simp
  have "distinct (map pc_id (provider_creds d'))"
    using ready unfolding rows ready_def by (simp add: map_update_where)
  moreover have "decrypt e (pc_enc_key x) \<noteq> None \<and> (\<forall>v. pc_last_used_at x = Some v \<longrightarrow> v < u)"
    if "x \<in> set (active_creds provider d')" for x
  proof (cases "x = c\<lparr>pc_last_used_at := Some t\<rparr>")
    case True
    with key later show ?thesis by simp
  next
    case False
    with that new old ready have "decrypt e (pc_enc_key x) \<noteq> None"
      "\<forall>v. pc_last_used_at x = Some v \<longrightarrow> v < t" unfolding ready_def by auto
    with later show ?thesis by fastforce
  qed
  ultimately show ?thesis by (simp add: ready_def next_id_def run)
qed

lemma next_keeps_active:
  assumes "ready e provider t d" "rotation_order provider d \<noteq> []"
  shows "rotation_order provider (snd (next_id e provider t d)) \<noteq> []"
  using round_robin.used_rotates [OF assms(1)] assms(2) by (metis Nil_is_map_conv rotate1_is_Nil_conv)

lemma ready_all:
  "ready e provider (hd ts) d \<Longrightarrow> rotation_order provider d \<noteq> [] \<Longrightarrow> sorted_wrt (<) ts \<Longrightarrow>
     round_robin.oks e provider ts d"
proof (induction ts arbitrary: d)
  case (Cons t ts)
  show ?case
  proof (cases ts)
    case Nil
    with Cons.prems show ?thesis by simp
  next
    case (Cons u us)
    with Cons.prems Cons.IH [of "snd (next_id e provider t d)"] ready_next [of e provider t d u]
      next_keeps_active [of e provider t d] show ?thesis by simp
  qed
qed simp

text \<open>C18: the rotation is fair: among as many successive calls as a provider has active keys, at
  increasing times, every active key is used exactly once, in the order they stood.\<close>

theorem round_robin_fair:
  assumes "ready e provider (hd ts) d" and "sorted_wrt (<) ts" and "ts \<noteq> []"
    and "length ts = length (active_creds provider d)"
  shows "picks e provider ts d = map (Some \<circ> pc_id) (rotation_order provider d) \<and>
    set (rotation_order provider d) = set (active_creds provider d) \<and>
    distinct (picks e provider ts d)"
proof -
  have ne: "rotation_order provider d \<noteq> []" using assms(3,4) unfolding rotation_order_def by (metis length_0_conv length_sort)
  have "picks e provider ts d = map Some (map pc_id (rotation_order provider d))"
    unfolding picks_uses
    by (rule round_robin.uses_fair [OF ready_all [OF assms(1) ne assms(2)]])
       (use ne assms(4) in \<open>simp_all add: rotation_order_def\<close>)
  moreover have "distinct (map pc_id (rotation_order provider d))"
    using assms(1) distinct_active unfolding ready_def rotation_order_def
    by (metis distinct_map distinct_sort set_sort)
  ultimately show ?thesis
    by (simp add: rotation_order_def distinct_map inj_on_def)
qed

section \<open>A run\<close>

definition sample_key :: "string \<Rightarrow> timestamp option \<Rightarrow> provider_credential" where
  "sample_key pid used =
     \<lparr>pc_id = pid, pc_provider = ''azure'', pc_label = pid, pc_enc_key = CHR ''f'' # pid,
      pc_fingerprint = [], pc_base_url = None, pc_extra_config = None, pc_status = pc_active,
      pc_last_used_at = used, pc_created_at = 0, pc_created_by = ''admin'', pc_disabled_at = None\<rparr>"

definition two_keys :: db where
  "two_keys = empty_db\<lparr>provider_creds := [sample_key ''k1'' (Some 5), sample_key ''k2'' None]\<rparr>"

lemma two_keys_rows: "active_creds ''azure'' two_keys = [sample_key ''k1'' (Some 5), sample_key ''k2'' None]"
    "rotation_order ''azure'' two_keys = [sample_key ''k2'' None, sample_key ''k1'' (Some 5)]"
  by (simp_all add: active_creds_def rotation_order_def two_keys_def sample_key_def use_order_def)

lemma two_keys_ready: "5 < t \<Longrightarrow> ready sample_env ''azure'' t two_keys"
  unfolding ready_def two_keys_rows
  by (simp add: two_keys_def sample_key_def sample_env_def)

theorem get_next_refines_queue_witness:
  "fst (next_id sample_env ''azure'' 10 two_keys) = Some ''k2'' \<and>
   map pc_id (rotation_order ''azure'' (snd (next_id sample_env ''azure'' 10 two_keys))) = [''k1'', ''k2'']"
  using get_next_refines_queue [OF two_keys_ready [of 10]] by (simp add: two_keys_rows sample_key_def)

theorem round_robin_fair_witness:
  "picks sample_env ''azure'' [10, 20] two_keys = [Some ''k2'', Some ''k1'']"
  using round_robin_fair [of sample_env "''azure''" "[10, 20]" two_keys] two_keys_ready [of 10]
  by (simp add: two_keys_rows sample_key_def)

end
