(* ===== verification/Records.thy ===== *)
theory Records
  imports Allocations "HOL-Library.Product_Lexorder"
begin

text \<open>
  \<open>services/records.py\<close> and \<open>api/records.py\<close>: the call records, their redaction on the way in,
  and the two listings, newest first, which page by a cursor: the id of the last record seen.
  The cursor compares the sort key of that record, and following it returns every record once.
\<close>

section \<open>Writing\<close>

text \<open>What a caller of \<open>record_call\<close> passes, its optional arguments as a record of \<open>None\<close>s.\<close>

record call_facts =
  cf_prompt :: "int option"
  cf_completion :: "int option"
  cf_total :: "int option"
  cf_reasoning :: "int option"
  cf_cached :: "int option"
  cf_quantity :: "int option"
  cf_unit :: "string option"
  cf_cost :: "decimal option"
  cf_error :: "string option"

definition no_facts :: call_facts where
  "no_facts = \<lparr>cf_prompt = None, cf_completion = None, cf_total = None, cf_reasoning = None,
     cf_cached = None, cf_quantity = None, cf_unit = None, cf_cost = None, cf_error = None\<rparr>"

definition record_call ::
  "env \<Rightarrow> string \<Rightarrow> allocation option \<Rightarrow> string option \<Rightarrow> timestamp \<Rightarrow> int \<Rightarrow> call_outcome \<Rightarrow> call_facts
     \<Rightarrow> db \<Rightarrow> call_record \<times> db" where
  "record_call e request_id alloc model started_at status_code outcome f d =
     (let (rid, d1) = new_ulid e d;
          r = \<lparr>r_id = rid, r_request_id = (if request_id = [] then ''unknown'' else request_id),
               r_allocation_id = map_option a_id alloc, r_subject = map_option a_subject_snapshot alloc,
               r_model = model, r_started_at = started_at, r_finished_at = now e,
               r_status_code = status_code, r_outcome = outcome, r_prompt_tokens = cf_prompt f,
               r_completion_tokens = cf_completion f, r_total_tokens = cf_total f,
               r_reasoning_tokens = cf_reasoning f, r_cached_tokens = cf_cached f,
               r_cost_usd = cf_cost f, r_quantity = cf_quantity f, r_unit = cf_unit f,
               r_error_message = (case cf_error f of
                   Some (c # cs) \<Rightarrow> Some (redact_string (cfg e) (c # cs)) | _ \<Rightarrow> None)\<rparr>
      in (r, call_records_update (\<lambda>rs. rs @ [r]) d1))"

section \<open>Listing\<close>

definition record_key :: "call_record \<Rightarrow> timestamp \<times> string" where
  "record_key r = (r_started_at r, r_id r)"

text \<open>\<open>ORDER BY started_at DESC, id DESC\<close>.\<close>

definition newest_first :: "call_record list \<Rightarrow> call_record list" where
  "newest_first rs = rev (sort_key record_key rs)"

text \<open>The subquery for the start of the cursor's record is NULL if there is none, and then no
  comparison holds.  An empty cursor is no cursor.\<close>

definition after_cursor :: "string option \<Rightarrow> db \<Rightarrow> call_record \<Rightarrow> bool" where
  "after_cursor before d r =
     (case before of
        None \<Rightarrow> True
      | Some b \<Rightarrow>
          if b = [] then True
          else (case find (\<lambda>p. r_id p = b) (call_records d) of
            None \<Rightarrow> False
          | Some p \<Rightarrow> r_started_at r < r_started_at p \<or>
              r_started_at r = r_started_at p \<and> r_id r < b))"

definition list_for_allocation :: "string \<Rightarrow> nat \<Rightarrow> string option \<Rightarrow> db \<Rightarrow> call_record list" where
  "list_for_allocation aid limit before d =
     take limit (newest_first
       (filter (\<lambda>r. r_allocation_id r = Some aid \<and> after_cursor before d r) (call_records d)))"

record record_filter =
  rf_member :: "string option"
  rf_allocation :: "string option"
  rf_subject :: "string option"
  rf_from :: "timestamp option"
  rf_to :: "timestamp option"
  rf_outcome :: "call_outcome option"

definition selects :: "record_filter \<Rightarrow> db \<Rightarrow> call_record \<Rightarrow> bool" where
  "selects f d r \<longleftrightarrow>
     (case rf_allocation f of None \<Rightarrow> True | Some a \<Rightarrow> r_allocation_id r = Some a) \<and>
     (case rf_member f of None \<Rightarrow> True
      | Some m \<Rightarrow> r_allocation_id r \<in> Some ` a_id ` set (filter (\<lambda>a. a_member_id a = m) (allocations d))) \<and>
     (case rf_subject f of None \<Rightarrow> True | Some s \<Rightarrow> r_subject r = Some s) \<and>
     (case rf_from f of None \<Rightarrow> True | Some t \<Rightarrow> t \<le> r_started_at r) \<and>
     (case rf_to f of None \<Rightarrow> True | Some t \<Rightarrow> r_started_at r < t) \<and>
     (case rf_outcome f of None \<Rightarrow> True | Some out \<Rightarrow> r_outcome r = out)"

definition list_records :: "record_filter \<Rightarrow> nat \<Rightarrow> string option \<Rightarrow> db \<Rightarrow> call_record list" where
  "list_records f limit before d =
     take limit (newest_first (filter (\<lambda>r. selects f d r \<and> after_cursor before d r) (call_records d)))"

section \<open>The endpoints\<close>

definition list_allocation_calls ::
  "string \<Rightarrow> nat \<Rightarrow> string option \<Rightarrow> db \<Rightarrow> int \<times> call_record list" where
  "list_allocation_calls aid limit before d =
     (if limit < 1 \<or> 1000 < limit then (422, [])
      else if get_allocation aid d = None then (404, [])
      else (200, list_for_allocation aid limit before d))"

text \<open>One record more than asked for is read, to know whether there is a next page.\<close>

definition get_records ::
  "record_filter \<Rightarrow> nat \<Rightarrow> string option \<Rightarrow> db \<Rightarrow> int \<times> call_record list \<times> string option" where
  "get_records f limit before d =
     (if limit < 1 \<or> 200 < limit then (422, [], None)
      else
        (let records = list_records f (limit + 1) before d;
             items = take limit records
         in (200, items,
             if limit < length records \<and> items \<noteq> [] then Some (r_id (last items)) else None)))"

section \<open>A cursor drops what was seen\<close>

lemma filter_before:
  fixes key :: "'r \<Rightarrow> 'k::linorder"
  assumes "sorted_wrt (\<lambda>x y. key y < key x) (xs @ r # ys)"
  shows "filter (\<lambda>x. key x < key r) (xs @ r # ys) = ys"
proof -
  have "\<not> key x < key r" if "x \<in> set xs" for x
    using assms that by (fastforce simp: sorted_wrt_append)
  moreover have "key y < key r" if "y \<in> set ys" for y
    using assms that by (simp add: sorted_wrt_append)
  ultimately show ?thesis by (simp add: filter_empty_conv)
qed

lemma newest_first_filter: "newest_first (filter p rs) = filter p (newest_first rs)"
  unfolding newest_first_def by (simp add: rev_filter [symmetric] filter_sort)

lemma newest_first_sorted:
  assumes "distinct (map r_id rs)"
  shows "sorted_wrt (\<lambda>x y. record_key y < record_key x) (newest_first rs)"
proof -
  have keys: "distinct (map record_key rs)"
    using assms by (auto simp: distinct_map inj_on_def record_key_def)
  then have "distinct (map record_key (sort_key record_key rs))" by (simp add: distinct_map)
  moreover have "sorted (map record_key (sort_key record_key rs))" by simp
  ultimately have "sorted_wrt (<) (map record_key (sort_key record_key rs))"
    by (simp add: strict_sorted_iff)
  then show ?thesis
    by (simp add: newest_first_def sorted_wrt_rev sorted_wrt_map)
qed

lemma set_newest_first [simp]: "set (newest_first rs) = set rs"
  by (simp add: newest_first_def)

lemma after_cursor_key:
  assumes "distinct (map r_id (call_records d))" "p \<in> set (call_records d)" "r_id p \<noteq> []"
  shows "after_cursor (Some (r_id p)) d r \<longleftrightarrow> record_key r < record_key p"
  using find_unique [OF assms(1,2)] assms(3)
  by (auto simp: after_cursor_def record_key_def less_prod_def)

text \<open>The page after a record of a selection is the selection from there on.\<close>

lemma page_after:
  assumes ids: "distinct (map r_id (call_records d))" "\<And>r. r \<in> set (call_records d) \<Longrightarrow> r_id r \<noteq> []"
    and split: "newest_first (filter p (call_records d)) = xs @ r # ys"
  shows "newest_first (filter (\<lambda>x. p x \<and> after_cursor (Some (r_id r)) d x) (call_records d)) = ys"
proof -
  have "r \<in> set (newest_first (filter p (call_records d)))" using split by simp
  then have r: "r \<in> set (call_records d)" by simp
  have sorted: "sorted_wrt (\<lambda>x y. record_key y < record_key x) (xs @ r # ys)"
    using newest_first_sorted [of "filter p (call_records d)"] ids(1) split
    by (simp add: distinct_map inj_on_def)
  have "filter (\<lambda>x. p x \<and> after_cursor (Some (r_id r)) d x) (call_records d) =
      filter (\<lambda>x. record_key x < record_key r) (filter p (call_records d))"
    using after_cursor_key [OF ids(1) r ids(2) [OF r]] by (simp add: conj_commute)
  then show ?thesis
    using filter_before [OF sorted] split by (simp add: newest_first_filter del: filter_filter)
qed

text \<open>Following the cursor: page after page until there is no next one.  \<open>fuel\<close> bounds the number of
  requests; one more than there are records is enough.\<close>

fun follow :: "nat \<Rightarrow> record_filter \<Rightarrow> nat \<Rightarrow> string option \<Rightarrow> db \<Rightarrow> call_record list option" where
  "follow 0 f limit before d = None"
| "follow (Suc fuel) f limit before d =
     (case get_records f limit before d of
        (code, items, None) \<Rightarrow> Some items
      | (code, items, Some b) \<Rightarrow> map_option ((@) items) (follow fuel f limit (Some b) d))"

lemma follow_from:
  assumes ids: "distinct (map r_id (call_records d))" "\<And>r. r \<in> set (call_records d) \<Longrightarrow> r_id r \<noteq> []"
    and limit: "1 \<le> limit" "limit \<le> 200"
    and all: "newest_first (filter (selects f d) (call_records d)) = xs @ ys"
    and page: "newest_first (filter (\<lambda>r. selects f d r \<and> after_cursor before d r) (call_records d)) = ys"
    and fuel: "length ys < fuel"
  shows "follow fuel f limit before d = Some ys"
  using all page fuel
proof (induction fuel arbitrary: xs ys before)
  case (Suc fuel)
  have got: "list_records f (limit + 1) before d = take (limit + 1) ys"
    using Suc.prems(2) by (simp add: list_records_def)
  show ?case
  proof (cases "limit < length ys")
    case False
    with limit got show ?thesis by (simp add: get_records_def Let_def)
  next
    case True
    define items where "items = take limit ys"
    have ne: "items \<noteq> []" using True limit by (auto simp: items_def)
    have items: "items = butlast items @ [last items]" using ne by simp
    have split: "newest_first (filter (selects f d) (call_records d)) =
        (xs @ butlast items) @ last items # drop limit ys"
      using Suc.prems(1) items by (metis append.assoc append_Cons append_Nil append_take_drop_id items_def)
    have next_page: "get_records f limit before d = (200, items, Some (r_id (last items)))"
      using limit True ne got by (simp add: get_records_def items_def min_def Let_def)
    have "follow fuel f limit (Some (r_id (last items))) d = Some (drop limit ys)"
    proof (rule Suc.IH)
      show "newest_first (filter (selects f d) (call_records d)) = (xs @ items) @ drop limit ys"
        using Suc.prems(1) by (simp add: items_def)
      show "newest_first (filter (\<lambda>r. selects f d r \<and> after_cursor (Some (r_id (last items))) d r)
          (call_records d)) = drop limit ys"
        by (rule page_after [OF ids split])
      show "length (drop limit ys) < fuel" using Suc.prems(3) limit True by simp
    qed
    then show ?thesis by (simp add: next_page items_def)
  qed
qed simp

text \<open>C21: paging through the records by the cursor ends, after at most one request per record and one
  more, and returns every selected record exactly once, newest first: no record is skipped or
  repeated at a page boundary, also where records started at the same instant.\<close>

theorem paging_returns_all:
  assumes "distinct (map r_id (call_records d))" and "\<And>r. r \<in> set (call_records d) \<Longrightarrow> r_id r \<noteq> []"
    and "1 \<le> limit" and "limit \<le> 200" and "length (call_records d) < fuel"
  shows "follow fuel f limit None d = Some (newest_first (filter (selects f d) (call_records d)))"
proof (rule follow_from [OF assms(1-4), where xs = "[]"])
  have "length (filter (selects f d) (call_records d)) \<le> length (call_records d)" by (rule length_filter_le)
  with assms(5) show "length (newest_first (filter (selects f d) (call_records d))) < fuel"
    by (simp only: newest_first_def length_rev length_sort)
qed (simp_all add: after_cursor_def)

definition sample_record :: "string \<Rightarrow> timestamp \<Rightarrow> call_record" where
  "sample_record rid t = (fst (record_call sample_env [] None None t 200 success no_facts empty_db))\<lparr>r_id := rid\<rparr>"

definition three_records :: db where
  "three_records = empty_db\<lparr>call_records := [sample_record ''a'' 5, sample_record ''b'' 5, sample_record ''c'' 4]\<rparr>"

theorem paging_returns_all_witness:
  "map_option (map r_id) (follow 4 \<lparr>rf_member = None, rf_allocation = None, rf_subject = None, rf_from = None,
      rf_to = None, rf_outcome = Some success\<rparr> 1 None three_records) = Some [''b'', ''a'', ''c'']"
proof -
  have rows: "call_records three_records = [sample_record ''a'' 5, sample_record ''b'' 5, sample_record ''c'' 4]"
    by (simp add: three_records_def)
  have ids: "r_id (sample_record i t) = i" "r_started_at (sample_record i t) = t"
    "r_outcome (sample_record i t) = success" for i t
    by (simp_all add: sample_record_def record_call_def Let_def case_prod_beta)
  have "follow 4 f 1 None three_records = Some (newest_first (filter (selects f three_records) (call_records three_records)))"
    for f
    by (rule paging_returns_all) (auto simp: rows ids)
  then show ?thesis
    by (simp add: rows selects_def ids newest_first_def record_key_def)
qed

end
