(* ===== verification/Preflight.thy ===== *)
theory Preflight
  imports AllocationSpec SelfService Quota ProviderCreds
begin

text \<open>
  What every proxied call passes before the upstream is called: \<open>proxy/auth.py\<close>,
  \<open>proxy/guard.py\<close>, \<open>proxy/preflight.py\<close>, the model listing of \<open>proxy/models.py\<close> and the outcome
  of a rejection (\<open>proxy/router.py\<close>).  The texts of the messages are presentation and not
  modelled.  An exception that nothing catches (an upstream key that does not decrypt) is \<open>Inl\<close>.
\<close>

section \<open>The bearer header\<close>

text \<open>\<open>None\<close> is the 401 of a missing or empty token.\<close>

definition parse_bearer_token :: "string option \<Rightarrow> string option" where
  "parse_bearer_token authorization =
     (case authorization of
        None \<Rightarrow> None
      | Some h \<Rightarrow>
          if h = [] \<or> \<not> starts_with ''bearer '' (lower h) then None
          else (let token = strip (after_char (CHR '' '') h) in if token = [] then None else Some token))"

definition enforce_model_binding :: "allocation \<Rightarrow> string \<Rightarrow> bool" where
  "enforce_model_binding a model = (model = a_resource_model a)"

text \<open>\<open>resolve_allocation\<close>: the status code of the refusal, or the allocation.\<close>

definition resolve_allocation :: "env \<Rightarrow> string \<Rightarrow> db \<Rightarrow> (int + allocation) \<times> db" where
  "resolve_allocation e token d =
     (case lookup_by_token e token d of
        (None, d1) \<Rightarrow> (Inl 401, d1)
      | (Some a, d1) \<Rightarrow> (if a_status a = revoked then Inl 403 else Inr a, d1))"

section \<open>The pipeline\<close>

record preflight_success =
  pf_allocation :: allocation
  pf_provider :: string
  pf_resolved :: resolved_credential
  pf_upstream_model :: string
  pf_canonical_model :: string

datatype preflight_result =
    PreflightSuccess preflight_success
  | PreflightRejection string int "allocation option"

text \<open>The provider's next key; for Azure the key of the environment when the table has none.\<close>

definition resolve_credential ::
  "env \<Rightarrow> string \<Rightarrow> db \<Rightarrow> (provider_error + resolved_credential) \<times> db" where
  "resolve_credential e provider d =
     (case get_next e provider d of
        (Inl err, d1) \<Rightarrow> (Inl err, d1)
      | (Inr (Some c), d1) \<Rightarrow> (Inr c, d1)
      | (Inr None, d1) \<Rightarrow>
          if provider = ''azure'' \<and> azure_openai_api_key (cfg e) \<noteq> []
          then (Inr \<lparr>rc_id = ''env-fallback'', rc_provider = ''azure'', rc_label = ''env-fallback'',
                     rc_api_key = azure_openai_api_key (cfg e),
                     rc_base_url = (let b = azure_openai_api_base (cfg e) in if b = [] then None else Some b),
                     rc_extra_config = Some [(''api_version'', JStr (azure_openai_api_version (cfg e)))]\<rparr>, d1)
          else (Inl (ProviderUnavailable provider), d1))"

text \<open>The defensive check of the model access policy.\<close>

definition model_forbidden :: "allocation \<Rightarrow> string \<Rightarrow> db \<Rightarrow> bool" where
  "model_forbidden a model d =
     (case get_model model d of
        None \<Rightarrow> False
      | Some mc \<Rightarrow>
          (case get_member (a_member_id a) d of None \<Rightarrow> False | Some m \<Rightarrow> \<not> is_accessible m mc d))"

definition token_quota_reached :: "env \<Rightarrow> allocation \<Rightarrow> db \<Rightarrow> bool" where
  "token_quota_reached e a d =
     (a_quota_tokens a \<noteq> None \<and> is_over_quota a (current_month_usage e (a_id a) d))"

definition cost_quota_reached :: "env \<Rightarrow> allocation \<Rightarrow> db \<Rightarrow> bool" where
  "cost_quota_reached e a d =
     (a_quota_cost a \<noteq> None \<and> is_over_cost_quota a (current_month_cost e (a_id a) d))"

text \<open>The checks after the allocation is known, in their order: the code of the first that fails.\<close>

definition allocation_refusal :: "env \<Rightarrow> allocation \<Rightarrow> db \<Rightarrow> string option" where
  "allocation_refusal e a d =
     (let canonical = a_resource_model a; provider = fst (parse_provider canonical) in
      if \<not> check_allowed provider (allowed_providers (cfg e)) then Some ''provider_not_allowed''
      else if a_status a = revoked then Some ''allocation_revoked''
      else if a_status a = quarantined then Some ''allocation_quarantined''
      else if a_status a = paused then Some ''allocation_paused''
      else if token_quota_reached e a d then Some ''quota_exceeded''
      else if cost_quota_reached e a d then Some ''cost_quota_exceeded''
      else if \<not> enforce_model_binding a canonical then Some ''model_mismatch''
      else if model_forbidden a canonical d then Some ''model_forbidden''
      else None)"

definition run_preflight ::
  "env \<Rightarrow> string \<Rightarrow> string \<Rightarrow> db \<Rightarrow> (provider_error + preflight_result) \<times> db" where
  "run_preflight e token requested_model d =
     (case lookup_credential_by_token e token d of
        (None, d1) \<Rightarrow> (Inr (PreflightRejection ''unauthorized'' 401 None), d1)
      | (Some c, d1) \<Rightarrow>
          (case resolve_scope_allocation c requested_model d1 of
             None \<Rightarrow> (Inr (PreflightRejection ''model_mismatch'' 403 (first_scope_allocation c d1)), d1)
           | Some a \<Rightarrow>
               (case allocation_refusal e a d1 of
                  Some code \<Rightarrow> (Inr (PreflightRejection code 403 (Some a)), d1)
                | None \<Rightarrow>
                    (let canonical = a_resource_model a; provider = fst (parse_provider canonical) in
                     case resolve_credential e provider d1 of
                       (Inl (ProviderUnavailable p), d2) \<Rightarrow>
                         (Inr (PreflightRejection ''provider_unavailable'' 503 (Some a)), d2)
                     | (Inl err, d2) \<Rightarrow> (Inl err, d2)
                     | (Inr key, d2) \<Rightarrow>
                         (Inr (PreflightSuccess
                            \<lparr>pf_allocation = a, pf_provider = provider, pf_resolved = key,
                             pf_upstream_model = (if CHR ''/'' \<in> set canonical then canonical
                                                  else provider @ ''/'' @ canonical),
                             pf_canonical_model = canonical\<rparr>), d2)))))"

section \<open>Outcomes\<close>

definition outcome_for_code :: "string \<Rightarrow> call_outcome" where
  "outcome_for_code code =
     (case map_of
        [(''unauthorized'', rejected_unauthenticated), (''allocation_revoked'', rejected_revoked),
         (''model_mismatch'', rejected_model_mismatch), (''provider_not_allowed'', rejected_provider),
         (''allocation_quarantined'', rejected_quarantined), (''allocation_paused'', rejected_paused),
         (''quota_exceeded'', rejected_quota_exceeded),
         (''cost_quota_exceeded'', rejected_cost_quota_exceeded),
         (''model_forbidden'', rejected_model_forbidden),
         (''model_not_responses_capable'', rejected_model_unsupported),
         (''response_forbidden'', rejected_response_forbidden),
         (''response_not_found'', rejected_response_not_found),
         (''upstream_invalid_request'', upstream_invalid_request),
         (''upstream_error'', upstream_error)] code of
        None \<Rightarrow> gateway_error | Some out \<Rightarrow> out)"

text \<open>An exception of the upstream library: its HTTP status, where it has one.\<close>

definition classify_upstream_exc :: "int option \<Rightarrow> string \<times> int" where
  "classify_upstream_exc status_code =
     (case status_code of
        Some sc \<Rightarrow>
          if 400 \<le> sc \<and> sc < 500 \<and> sc \<noteq> 401 \<and> sc \<noteq> 403 then (''upstream_invalid_request'', sc)
          else (''upstream_error'', 502)
      | None \<Rightarrow> (''upstream_error'', 502))"

section \<open>Listing the models of a key\<close>

record model_obj =
  mo_id :: string
  mo_created :: int
  mo_owned_by :: string

text \<open>\<open>int(created.timestamp())\<close>: seconds, truncated toward zero.\<close>

definition epoch_seconds :: "timestamp \<Rightarrow> int" where
  "epoch_seconds t = (if 0 \<le> t then t div 1000000 else - ((- t) div 1000000))"

definition model_obj_of :: "allocation \<Rightarrow> db \<Rightarrow> model_obj" where
  "model_obj_of a d =
     \<lparr>mo_id = a_resource_model a,
      mo_created = epoch_seconds (case get_model (a_resource_model a) d of
          Some mc \<Rightarrow> mc_created_at mc | None \<Rightarrow> a_created_at a),
      mo_owned_by = fst (parse_provider (a_resource_model a))\<rparr>"

definition bearer_credential :: "env \<Rightarrow> string option \<Rightarrow> db \<Rightarrow> credential option \<times> db" where
  "bearer_credential e authorization d =
     (case parse_bearer_token authorization of
        None \<Rightarrow> (None, d)
      | Some token \<Rightarrow> lookup_credential_by_token e token d)"

definition list_models :: "env \<Rightarrow> string option \<Rightarrow> db \<Rightarrow> (int \<times> model_obj list) \<times> db" where
  "list_models e authorization d =
     (case bearer_credential e authorization d of
        (None, d1) \<Rightarrow> ((401, []), d1)
      | (Some c, d1) \<Rightarrow>
          ((200, map (\<lambda>a. model_obj_of a d1) (list_active_scope_allocations c d1)), d1))"

definition retrieve_model :: "env \<Rightarrow> string option \<Rightarrow> string \<Rightarrow> db \<Rightarrow> (int \<times> model_obj option) \<times> db" where
  "retrieve_model e authorization model_id d =
     (case bearer_credential e authorization d of
        (None, d1) \<Rightarrow> ((401, None), d1)
      | (Some c, d1) \<Rightarrow>
          (case resolve_scope_allocation c model_id d1 of
             None \<Rightarrow> ((404, None), d1)
           | Some a \<Rightarrow>
               if a_status a = active then ((200, Some (model_obj_of a d1)), d1) else ((404, None), d1)))"

end
