(* ===== verification/PreflightTheorems.thy ===== *)
theory PreflightTheorems
  imports Preflight ProviderTheorems OneShot AllocationTheorems SelfServiceTheorems
begin

text \<open>
  What the pipeline guarantees: a call is admitted exactly when its token, model, allocation,
  quotas, policy and upstream key allow it; a rejection is attributed to an allocation of the
  calling key; the models a key lists are the models it can call; and which rejections cannot
  happen.
\<close>

section \<open>Reading does not depend on the touch of a key\<close>

lemma lookup_tables:
  assumes "lookup_credential_by_token e token d = (r, d1)"
  shows "call_records d1 = call_records d" "catalog d1 = catalog d" "members d1 = members d"
    "member_tags d1 = member_tags d" "provider_creds d1 = provider_creds d"
    "allocations d1 = allocations d" "credential_allocations d1 = credential_allocations d"
    "audit_log d1 = audit_log d" "fresh d1 = fresh d" "prices d1 = prices d"
  using assms
  by (auto simp: lookup_credential_by_token_def Let_def set_credential_def split: option.splits)

lemma allocation_refusal_cong:
  assumes "call_records d1 = call_records d" "catalog d1 = catalog d" "members d1 = members d"
    "member_tags d1 = member_tags d" "provider_creds d1 = provider_creds d"
  shows "allocation_refusal e a d1 = allocation_refusal e a d"
  unfolding allocation_refusal_def model_forbidden_def token_quota_reached_def cost_quota_reached_def
    current_month_usage_def current_month_cost_def month_calls_def get_model_def get_member_def
    is_accessible_def get_member_tags_def get_providers_with_active_credentials_def assms ..

lemma rotation_order_cong:
  "provider_creds d1 = provider_creds d \<Longrightarrow> rotation_order p d1 = rotation_order p d"
  by (simp add: rotation_order_def active_creds_def)

lemma lookup_key:
  "lookup_credential_by_token e token d =
     (case key_of e token d of None \<Rightarrow> (None, d) | Some c \<Rightarrow> (Some (touch e c), set_credential (c_id c) (touch e) d))"
  by (simp add: lookup_credential_by_token_def key_of_def Let_def)

lemma resolve_touched:
  "resolve_scope_allocation (touch e c) model d = resolve_scope_allocation c model d"
  by (rule resolve_join_cong) simp

text \<open>The pipeline over the session before the key is touched.\<close>

lemma run_preflight_cases:
  "fst (run_preflight e token model d) =
     (case key_of e token d of
        None \<Rightarrow> Inr (PreflightRejection ''unauthorized'' 401 None)
      | Some c \<Rightarrow>
          (case resolve_bearer e token model d of
             None \<Rightarrow> Inr (PreflightRejection ''model_mismatch'' 403 (first_scope_allocation c d))
           | Some a \<Rightarrow>
               (case allocation_refusal e a d of
                  Some code \<Rightarrow> Inr (PreflightRejection code 403 (Some a))
                | None \<Rightarrow>
                    (case fst (resolve_credential e (fst (parse_provider (a_resource_model a)))
                                (set_credential (c_id c) (touch e) d)) of
                       Inl (ProviderUnavailable p) \<Rightarrow> Inr (PreflightRejection ''provider_unavailable'' 503 (Some a))
                     | Inl err \<Rightarrow> Inl err
                     | Inr key \<Rightarrow> Inr (PreflightSuccess
                            \<lparr>pf_allocation = a, pf_provider = fst (parse_provider (a_resource_model a)),
                             pf_resolved = key,
                             pf_upstream_model =
                               (if CHR ''/'' \<in> set (a_resource_model a) then a_resource_model a
                                else fst (parse_provider (a_resource_model a)) @ ''/'' @ a_resource_model a),
                             pf_canonical_model = a_resource_model a\<rparr>)))))"
proof (cases "key_of e token d")
  case None
  then show ?thesis by (simp add: run_preflight_def lookup_key)
next
  case key: (Some c)
  let ?d1 = "set_credential (c_id c) (touch e) d"
  have look: "lookup_credential_by_token e token d = (Some (touch e c), ?d1)"
    by (simp add: lookup_key key)
  have refusal: "allocation_refusal e a ?d1 = allocation_refusal e a d" for a
    by (rule allocation_refusal_cong) (rule lookup_tables [OF look])+
  have repr: "first_scope_allocation (touch e c) ?d1 = first_scope_allocation c d"
    by (simp add: first_scope_allocation_def scope_allocations_def scope_join_def set_credential_def)
  have bearer: "resolve_bearer e token model d = resolve_scope_allocation c model d"
    by (simp add: resolve_bearer_key key)
  have touched: "resolve_scope_allocation (touch e c) model ?d1 = resolve_scope_allocation c model d"
    by (simp add: resolve_touched)
  show ?thesis
  proof (cases "resolve_scope_allocation c model d")
    case None
    then show ?thesis
      by (simp only: run_preflight_def look repr bearer touched key None option.case prod.case fst_conv)
  next
    case (Some a)
    show ?thesis
    proof (cases "allocation_refusal e a d")
      case None
      show ?thesis
        by (simp only: run_preflight_def look refusal bearer touched key None Some option.case prod.case Let_def)
          (simp split: sum.split prod.split provider_error.split)
    next
      case (Some code)
      with \<open>resolve_scope_allocation c model d = Some a\<close> show ?thesis
        by (simp only: run_preflight_def look refusal bearer touched key option.case prod.case Let_def fst_conv)
    qed
  qed
qed

section \<open>Admission\<close>

text \<open>
  The specification: the token is a live key, its scope grants the model as this allocation, and
  the allocation is in use, below its caps and open to its owner.
\<close>

definition admits :: "env \<Rightarrow> string \<Rightarrow> string \<Rightarrow> db \<Rightarrow> allocation \<Rightarrow> bool" where
  "admits e token model d a \<longleftrightarrow>
     (\<exists>c. key_of e token d = Some c \<and> grants d c model a) \<and> a_status a = active \<and>
     check_allowed (fst (parse_provider (a_resource_model a))) (allowed_providers (cfg e)) \<and>
     (\<forall>cap. a_quota_tokens a = Some cap \<longrightarrow> current_month_usage e (a_id a) d < cap) \<and>
     (\<forall>cap. a_quota_cost a = Some cap \<longrightarrow>
        dec_val (current_month_cost e (a_id a) d) < dec_val cap) \<and>
     (\<forall>mc m. get_model (a_resource_model a) d = Some mc \<longrightarrow> get_member (a_member_id a) d = Some m \<longrightarrow>
        is_accessible m mc d)"

text \<open>The upstream key a provider has: its least recently used one, or Azure's of the environment.\<close>

definition upstream_key :: "env \<Rightarrow> string \<Rightarrow> db \<Rightarrow> resolved_credential option" where
  "upstream_key e provider d =
     (case rotation_order provider d of
        c # _ \<Rightarrow> map_option (resolved_of c) (decrypt e (pc_enc_key c))
      | [] \<Rightarrow>
          if provider = ''azure'' \<and> azure_openai_api_key (cfg e) \<noteq> []
          then Some \<lparr>rc_id = ''env-fallback'', rc_provider = ''azure'', rc_label = ''env-fallback'',
                     rc_api_key = azure_openai_api_key (cfg e),
                     rc_base_url = (let b = azure_openai_api_base (cfg e) in if b = [] then None else Some b),
                     rc_extra_config = Some [(''api_version'', JStr (azure_openai_api_version (cfg e)))]\<rparr>
          else None)"

definition admitted :: "allocation \<Rightarrow> resolved_credential \<Rightarrow> preflight_success" where
  "admitted a key =
     \<lparr>pf_allocation = a, pf_provider = fst (parse_provider (a_resource_model a)), pf_resolved = key,
      pf_upstream_model = (if CHR ''/'' \<in> set (a_resource_model a) then a_resource_model a
                           else fst (parse_provider (a_resource_model a)) @ ''/'' @ a_resource_model a),
      pf_canonical_model = a_resource_model a\<rparr>"

lemma allocation_refusal_None:
  "allocation_refusal e a d = None \<longleftrightarrow>
     a_status a = active \<and>
     check_allowed (fst (parse_provider (a_resource_model a))) (allowed_providers (cfg e)) \<and>
     (\<forall>cap. a_quota_tokens a = Some cap \<longrightarrow> current_month_usage e (a_id a) d < cap) \<and>
     (\<forall>cap. a_quota_cost a = Some cap \<longrightarrow>
        dec_val (current_month_cost e (a_id a) d) < dec_val cap) \<and>
     (\<forall>mc m. get_model (a_resource_model a) d = Some mc \<longrightarrow> get_member (a_member_id a) d = Some m \<longrightarrow>
        is_accessible m mc d)"
proof -
  have tokens: "token_quota_reached e a d \<longleftrightarrow>
      \<not> (\<forall>cap. a_quota_tokens a = Some cap \<longrightarrow> current_month_usage e (a_id a) d < cap)"
    by (auto simp: token_quota_reached_def is_over_quota_def)
  have cost: "cost_quota_reached e a d \<longleftrightarrow>
      \<not> (\<forall>cap. a_quota_cost a = Some cap \<longrightarrow> dec_val (current_month_cost e (a_id a) d) < dec_val cap)"
    by (auto simp: cost_quota_reached_def is_over_cost_quota_def dec_le_val)
  have policy: "model_forbidden a (a_resource_model a) d \<longleftrightarrow>
      \<not> (\<forall>mc m. get_model (a_resource_model a) d = Some mc \<longrightarrow> get_member (a_member_id a) d = Some m \<longrightarrow>
        is_accessible m mc d)"
    by (auto simp: model_forbidden_def split: option.split)
  show ?thesis
    unfolding allocation_refusal_def tokens cost policy Let_def
    by (cases "a_status a") (simp_all add: enforce_model_binding_def)
qed

lemma resolve_credential_key:
  "fst (resolve_credential e provider d) = Inr key \<longleftrightarrow> upstream_key e provider d = Some key"
  by (auto simp: resolve_credential_def upstream_key_def get_next_def Let_def
      split: list.split option.split)

lemma upstream_key_touched: "upstream_key e p (set_credential cid f d) = upstream_key e p d"
  by (simp add: upstream_key_def rotation_order_def active_creds_def set_credential_def)

text \<open>C1: the pipeline lets a call through exactly when the specification admits it and its
  provider has a key that can be read; and then with the allocation the scope grants and the key
  that is least recently used.\<close>

theorem preflight_admits_iff:
  assumes "scope_wf e d"
  shows "fst (run_preflight e token model d) = Inr (PreflightSuccess s) \<longleftrightarrow>
    (\<exists>a key. admits e token model d a \<and>
       upstream_key e (fst (parse_provider (a_resource_model a))) d = Some key \<and> s = admitted a key)"
proof (cases "key_of e token d")
  case None
  then show ?thesis by (simp add: run_preflight_cases admits_def)
next
  case key: (Some c)
  then have c: "c \<in> set (credentials d)" using key_of_mem by blast
  have bearer: "resolve_bearer e token model d = Some a \<longleftrightarrow> grants d c model a" for a
    by (simp add: resolve_bearer_key key resolve_grants [OF assms c])
  have admits: "admits e token model d a \<longleftrightarrow>
      resolve_bearer e token model d = Some a \<and> allocation_refusal e a d = None" for a
    unfolding admits_def key allocation_refusal_None bearer by simp
  have credential: "fst (resolve_credential e p (set_credential (c_id c) (touch e) d)) = Inr k \<longleftrightarrow>
      upstream_key e p d = Some k" for p k
    by (simp add: resolve_credential_key upstream_key_touched)
  show ?thesis
  proof (cases "resolve_bearer e token model d")
    case None
    then show ?thesis by (simp add: run_preflight_cases key admits)
  next
    case bound: (Some a)
    show ?thesis
    proof (cases "allocation_refusal e a d")
      case None
      then show ?thesis
        by (auto simp: run_preflight_cases key admits bound admitted_def credential [symmetric]
            split: sum.split provider_error.split)
    qed (simp add: run_preflight_cases key admits bound)
  qed
qed

lemma one_grant_unused: "catalog one_grant = []" "call_records one_grant = []" "provider_creds one_grant = []"
    "map a_quota_tokens (allocations one_grant) = [None]" "map a_quota_cost (allocations one_grant) = [None]"
  by (simp_all add: one_grant_def create_allocation_def ensure_external_member_def
      issue_allocation_def Let_def case_prod_beta empty_db_def sample_env_def new_credential_def
      add_credential_row_def add_links_def tick_def)

lemma gpt_4o_provider: "parse_provider ''azure/gpt-4o'' = (''azure'', ''gpt-4o'')"
    "check_allowed ''azure'' (allowed_providers (cfg sample_env))"
  by (simp_all add: parse_provider_def before_char_def after_char_def lower_def lower_char_def
      check_allowed_def sample_env_def sample_settings_def)

lemma one_grant_admits:
  obtains a where "allocations one_grant = [a]" "a_resource_model a = ''azure/gpt-4o''"
    "admits sample_env one_token ''gpt-4o'' one_grant a"
proof -
  obtain a where a: "allocations one_grant = [a]" "a_id a = ''U00''" "a_resource_model a = ''azure/gpt-4o''"
      "a_status a = active" "a_quota_tokens a = None" "a_quota_cost a = None"
    using one_grant_rows(2-4) one_grant_unused(4,5) by (cases "allocations one_grant") auto
  obtain c where c: "key_of sample_env one_token one_grant = Some c" "c_id c = ''U000''"
    by (simp add: key_of_def one_grant_rows(1) fingerprint_for_def sample_env_def)
  have "resolve_scope_allocation c ''gpt-4o'' one_grant = Some a"
    by (simp add: resolve_scope_allocation_def scope_join_def scope_allocations_def one_grant_rows(5)
        a c(2) split_last_def after_char_def before_char_def)
  then have "grants one_grant c ''gpt-4o'' a"
    using resolve_grants [OF one_grant_wf] key_of_mem [OF c(1)] by blast
  then have "admits sample_env one_token ''gpt-4o'' one_grant a"
    using c(1) by (simp add: admits_def a get_model_def one_grant_unused(1) gpt_4o_provider)
  with a that show thesis by blast
qed

theorem preflight_admits_iff_witness:
  "\<exists>s. fst (run_preflight sample_env one_token ''gpt-4o'' one_grant) = Inr (PreflightSuccess s) \<and>
     pf_canonical_model s = ''azure/gpt-4o'' \<and> rc_id (pf_resolved s) = ''env-fallback''"
proof -
  obtain a where a: "a_resource_model a = ''azure/gpt-4o''"
      "admits sample_env one_token ''gpt-4o'' one_grant a"
    by (rule one_grant_admits)
  obtain key where "upstream_key sample_env (fst (parse_provider (a_resource_model a))) one_grant = Some key"
      "rc_id key = ''env-fallback''"
    by (simp add: a gpt_4o_provider upstream_key_def rotation_order_def active_creds_def one_grant_unused(3)
        sample_env_def sample_settings_def)
  with preflight_admits_iff [OF one_grant_wf] a show ?thesis
    by (fastforce simp: admitted_def)
qed

section \<open>A rejection that cannot happen\<close>

text \<open>For a model of the catalog filed under the provider its name gives, neither the key of
  the environment nor the 503 for a provider without keys can be reached: without an active key of
  the provider in the table, the access check, which asks for one, has refused the call before,
  if nothing else did.\<close>

theorem env_fallback_unreachable:
  assumes "key_of e token d = Some c" and "resolve_bearer e token model d = Some a"
    and "get_model (a_resource_model a) d = Some mc"
    and "mc_provider mc = fst (parse_provider (a_resource_model a))"
    and "get_member (a_member_id a) d = Some m"
    and "active_creds (mc_provider mc) d = []"
  shows "\<exists>code. fst (run_preflight e token model d) = Inr (PreflightRejection code 403 (Some a))"
proof -
  have "mc_provider mc \<notin> set (get_providers_with_active_credentials d)"
    using assms(6) by (auto simp: get_providers_with_active_credentials_def active_creds_def filter_empty_conv)
  then have "model_forbidden a (a_resource_model a) d"
    by (simp add: model_forbidden_def assms is_accessible_def)
  then have "allocation_refusal e a d \<noteq> None"
    by (simp add: allocation_refusal_def Let_def)
  then obtain code where "allocation_refusal e a d = Some code" by blast
  then show ?thesis by (simp add: run_preflight_cases assms(1,2))
qed

section \<open>Listed models\<close>

lemma bearer_credential_key:
  "bearer_credential e auth d =
     (case Option.bind (parse_bearer_token auth) (\<lambda>t. key_of e t d) of
        None \<Rightarrow> (None, d) | Some c \<Rightarrow> (Some (touch e c), set_credential (c_id c) (touch e) d))"
  by (simp add: bearer_credential_def lookup_key split: option.split)

lemma model_obj_touched [simp]: "model_obj_of a (set_credential cid f d) = model_obj_of a d"
  by (simp add: model_obj_of_def get_model_def set_credential_def)

lemma listed_touched [simp]:
  "list_active_scope_allocations (touch e c) (set_credential cid f d) = list_active_scope_allocations c d"
  by (simp add: list_active_scope_allocations_def scope_allocations_def scope_join_def set_credential_def)

lemma listed_mem:
  "a \<in> set (list_active_scope_allocations c d) \<longleftrightarrow> a \<in> scope_of d c \<and> a_status a = active"
  by (simp add: list_active_scope_allocations_def flip: set_scope_allocations)

text \<open>The models a key lists are exactly the models it can look up, and an identifier of the
  list, sent back, finds the entry it came with.\<close>

theorem listed_models_resolve:
  assumes "scope_wf e d" and "fst (list_models e auth d) = (200, objs)"
  shows "set objs = {obj. \<exists>name. fst (retrieve_model e auth name d) = (200, Some obj)} \<and>
    (\<forall>obj \<in> set objs. fst (retrieve_model e auth (mo_id obj) d) = (200, Some obj))"
proof -
  obtain c t where t: "parse_bearer_token auth = Some t" "key_of e t d = Some c"
    using assms(2) by (auto simp: list_models_def bearer_credential_key bind_eq_Some_conv split: option.splits)
  have c: "c \<in> set (credentials d)" using key_of_mem [OF t(2)] by simp
  have bearer: "bearer_credential e auth d = (Some (touch e c), set_credential (c_id c) (touch e) d)"
    by (simp add: bearer_credential_key t)
  have objs: "set objs = (\<lambda>a. model_obj_of a d) ` {a \<in> scope_of d c. a_status a = active}"
    using assms(2) by (auto simp: list_models_def bearer listed_mem)
  have get: "fst (retrieve_model e auth name d) = (200, Some obj) \<longleftrightarrow>
      (\<exists>a. grants d c name a \<and> a_status a = active \<and> obj = model_obj_of a d)" for name obj
    unfolding resolve_grants [OF assms(1) c, symmetric]
    by (auto simp: retrieve_model_def bearer resolve_touched split: option.split)
  have own: "grants d c (a_resource_model a) a" if "a \<in> scope_of d c" for a
    using that by (simp add: grants_def)
  have "mo_id (model_obj_of a d) = a_resource_model a" for a
    by (simp add: model_obj_of_def)
  with own have "fst (retrieve_model e auth (mo_id obj) d) = (200, Some obj)" if "obj \<in> set objs" for obj
    using that unfolding get objs by force
  moreover have "obj \<in> set objs" if "fst (retrieve_model e auth name d) = (200, Some obj)" for name obj
    using that unfolding get objs grants_def by blast
  ultimately show ?thesis by blast
qed

text \<open>The granted model, in the catalog.\<close>

definition cataloged_grant :: db where
  "cataloged_grant = one_grant\<lparr>catalog := [sample_model]\<rparr>"

lemma cataloged_grant_keys:
  "key_of e t cataloged_grant = key_of e t one_grant"
  "resolve_scope_allocation c model cataloged_grant = resolve_scope_allocation c model one_grant"
  "get_member mid cataloged_grant = get_member mid one_grant"
  "active_creds p cataloged_grant = []"
  by (simp_all add: cataloged_grant_def key_of_def resolve_scope_allocation_def scope_join_def
      scope_allocations_def get_member_def active_creds_def one_grant_unused(3))

theorem env_fallback_unreachable_witness:
  "azure_openai_api_key (cfg sample_env) \<noteq> [] \<and>
   (\<exists>code a. fst (run_preflight sample_env one_token ''gpt-4o'' cataloged_grant) =
      Inr (PreflightRejection code 403 (Some a)))"
proof
  obtain a where a: "allocations one_grant = [a]" "a_resource_model a = ''azure/gpt-4o''"
      "admits sample_env one_token ''gpt-4o'' one_grant a"
    by (rule one_grant_admits)
  then obtain c where c: "key_of sample_env one_token one_grant = Some c" "grants one_grant c ''gpt-4o'' a"
    by (auto simp: admits_def)
  have bearer: "resolve_bearer sample_env one_token ''gpt-4o'' cataloged_grant = Some a"
    using resolve_grants [OF one_grant_wf] key_of_mem [OF c(1)] c
    by (simp add: resolve_bearer_key cataloged_grant_keys)
  have owner: "get_member (a_member_id a) cataloged_grant = Some one_owner"
    using one_grant_owner(1,2,6) a(1) by (simp add: cataloged_grant_keys)
  have model: "get_model (a_resource_model a) cataloged_grant = Some sample_model"
    by (simp add: get_model_def cataloged_grant_def a(2) sample_model_def)
  have provider: "mc_provider sample_model = fst (parse_provider (a_resource_model a))"
    by (simp add: a(2) gpt_4o_provider sample_model_def)
  have key: "key_of sample_env one_token cataloged_grant = Some c"
    by (simp add: cataloged_grant_keys c)
  show "\<exists>code a. fst (run_preflight sample_env one_token ''gpt-4o'' cataloged_grant) =
      Inr (PreflightRejection code 403 (Some a))"
    using env_fallback_unreachable [OF key bearer model provider owner cataloged_grant_keys(4)] by blast
qed (simp add: sample_env_def sample_settings_def)

lemma lower_bearer: "lower ''Bearer '' = ''bearer ''"
  by code_simp

lemma lower_append: "lower (s @ t) = lower s @ lower t"
  by (simp add: lower_def)

definition one_header :: "string option" where
  "one_header = Some (''Bearer '' @ one_token)"

lemma one_header_token: "parse_bearer_token one_header = Some one_token"
proof -
  have "starts_with ''bearer '' (lower (''Bearer '' @ one_token))"
    unfolding starts_with_def lower_append lower_bearer by simp
  then show ?thesis
    by (simp add: one_header_def parse_bearer_token_def after_char_def
        one_token_def token_prefix_def strip_def lstrip_def is_space_def sample_env_def)
qed

theorem listed_models_resolve_witness:
  "\<exists>obj. fst (list_models sample_env one_header one_grant) = (200, [obj]) \<and>
     mo_id obj = ''azure/gpt-4o'' \<and>
     fst (retrieve_model sample_env one_header (mo_id obj) one_grant) = (200, Some obj)"
proof -
  obtain a where a: "allocations one_grant = [a]" "a_id a = ''U00''" "a_resource_model a = ''azure/gpt-4o''"
      "a_status a = active"
    using one_grant_rows(2-4) by (cases "allocations one_grant") auto
  obtain c where c: "key_of sample_env one_token one_grant = Some c" "c_id c = ''U000''"
    by (simp add: key_of_def one_grant_rows(1) fingerprint_for_def sample_env_def)
  have listed: "fst (list_models sample_env one_header one_grant) = (200, [model_obj_of a one_grant])"
    by (simp add: list_models_def bearer_credential_key one_header_token c list_active_scope_allocations_def
        scope_allocations_def scope_join_def set_credential_def one_grant_rows(5) a
        model_obj_of_def get_model_def)
  have "mo_id (model_obj_of a one_grant) = ''azure/gpt-4o''" by (simp add: model_obj_of_def a)
  with listed_models_resolve [OF one_grant_wf listed] listed show ?thesis by force
qed

end
