(* ===== verification/StoredResponses.thy ===== *)
theory StoredResponses
  imports SelfService
begin

text \<open>
  \<open>services/stored_responses.py\<close>: which allocation owns a stored response, so that only it can
  continue the conversation; and \<open>services/responses_support.py\<close>: whether a model can be driven
  through the responses endpoint, kept as markers in the capabilities of its catalog row.
\<close>

section \<open>Stored responses\<close>

definition days :: "int \<Rightarrow> int" where
  "days n = n * 86400 * 1000000"

text \<open>\<open>session.merge\<close>: the row of this primary key is overwritten, or added.\<close>

definition store_response :: "env \<Rightarrow> string \<Rightarrow> string \<Rightarrow> string \<Rightarrow> int \<Rightarrow> db \<Rightarrow> db" where
  "store_response e allocation_id provider upstream_response_id ttl_days d =
     (let row = \<lparr>sr_response_id = upstream_response_id, sr_allocation_id = allocation_id,
                 sr_provider = provider, sr_upstream_response_id = Some upstream_response_id,
                 sr_created_at = now e, sr_expires_at = now e + days ttl_days\<rparr>;
          same = (\<lambda>r. sr_response_id r = upstream_response_id)
      in stored_responses_update
           (\<lambda>rs. if list_ex same rs then update_where same (\<lambda>_. row) rs else rs @ [row]) d)"

datatype continuation = Owned string | NotFound | Forbidden

definition resolve_for_continuation :: "env \<Rightarrow> string \<Rightarrow> string \<Rightarrow> string \<Rightarrow> db \<Rightarrow> continuation" where
  "resolve_for_continuation e response_id allocation_id provider d =
     (case find (\<lambda>r. sr_response_id r = response_id) (stored_responses d) of
        None \<Rightarrow> NotFound
      | Some r \<Rightarrow>
          if sr_expires_at r \<le> now e then NotFound
          else if sr_allocation_id r \<noteq> allocation_id \<or> sr_provider r \<noteq> provider then Forbidden
          else Owned (case sr_upstream_response_id r of
                        Some (c # cs) \<Rightarrow> c # cs | _ \<Rightarrow> sr_response_id r))"

definition cleanup_expired :: "env \<Rightarrow> db \<Rightarrow> nat \<times> db" where
  "cleanup_expired e d =
     (let gone = (\<lambda>r. sr_expires_at r \<le> now e)
      in (length (filter gone (stored_responses d)), stored_responses_update (delete_where gone) d))"

section \<open>Responses support\<close>

definition responses :: string where "responses = ''responses''"
definition responses_blocked :: string where "responses_blocked = ''responses:blocked''"
definition responses_tested :: string where "responses_tested = ''responses:tested''"
definition responses_manual :: string where "responses_manual = ''responses:manual''"

definition all_markers :: "string list" where
  "all_markers = [responses, responses_blocked, responses_tested, responses_manual]"

datatype support_state = Available | Unavailable | Unknown
datatype support_source = Tested | Manual

type_synonym support = "support_state \<times> support_source option"

definition get_support :: "string list \<Rightarrow> support" where
  "get_support caps =
     (if responses_blocked \<in> set caps then (Unavailable, Some Manual)
      else if responses \<in> set caps
      then (Available, if responses_tested \<in> set caps then Some Tested
                       else if responses_manual \<in> set caps then Some Manual else None)
      else (Unknown, None))"

fun without_markers :: "string list \<Rightarrow> string list \<Rightarrow> string list" where
  "without_markers out [] = out"
| "without_markers out (c # cs) =
     without_markers (if c \<in> set all_markers \<or> c \<in> set out then out else out @ [c]) cs"

definition set_markers :: "string list \<Rightarrow> string list \<Rightarrow> string list" where
  "set_markers caps markers = without_markers [] caps @ markers"

definition mark_tested_ok :: "string list \<Rightarrow> string list" where
  "mark_tested_ok caps = set_markers caps [responses, responses_tested]"

definition mark_tested_failed :: "string list \<Rightarrow> string list" where
  "mark_tested_failed caps = set_markers caps []"

definition mark_manual_on :: "string list \<Rightarrow> string list" where
  "mark_manual_on caps = set_markers caps [responses, responses_manual]"

definition mark_manual_off :: "string list \<Rightarrow> string list" where
  "mark_manual_off caps = set_markers caps [responses_blocked, responses_manual]"

definition strip_internal :: "string list \<Rightarrow> string list" where
  "strip_internal caps = filter (\<lambda>c. c = responses \<or> \<not> starts_with ''responses:'' c) caps"

definition preserve_into :: "string list \<Rightarrow> string list \<Rightarrow> string list" where
  "preserve_into new_caps old_caps =
     filter (\<lambda>c. c \<notin> set all_markers) new_caps @ filter (\<lambda>c. c \<in> set old_caps) all_markers"

definition lookup_support :: "string \<Rightarrow> db \<Rightarrow> support" where
  "lookup_support slug d =
     (case get_model slug d of None \<Rightarrow> (Unknown, None) | Some row \<Rightarrow> get_support (mc_capabilities row))"

end
