(* ===== verification/Upstream.thy ===== *)
theory Upstream
  imports ProviderCreds
begin

text \<open>
  JSON objects as the proxy reads them, and \<open>proxy/upstream.py\<close>: how the resolved credential and
  the request become the keyword arguments of a call of litellm.  litellm itself is a function
  argument, applied to the number of the attempt, the name of its function and the keyword
  arguments; it returns or raises an exception.
\<close>

section \<open>Reading JSON\<close>

definition truthy :: "json \<Rightarrow> bool" where
  "truthy j = (case j of
      JNull \<Rightarrow> False | JBool b \<Rightarrow> b | JInt n \<Rightarrow> n \<noteq> 0 | JNum q \<Rightarrow> q \<noteq> 0
    | JStr s \<Rightarrow> s \<noteq> [] | JList xs \<Rightarrow> xs \<noteq> [] | JObj kvs \<Rightarrow> kvs \<noteq> [])"

text \<open>\<open>kvs.get(k)\<close>: a missing key reads as \<open>None\<close>.\<close>

definition jget :: "(string \<times> json) list \<Rightarrow> string \<Rightarrow> json" where
  "jget kvs k = (case map_of kvs k of None \<Rightarrow> JNull | Some v \<Rightarrow> v)"

text \<open>\<open>v or {}\<close>, and then read as an object; \<open>None\<close> when it is none.\<close>

definition obj_or_empty :: "json \<Rightarrow> (string \<times> json) list option" where
  "obj_or_empty j = (if \<not> truthy j then Some [] else case j of JObj kvs \<Rightarrow> Some kvs | _ \<Rightarrow> None)"

text \<open>
  A value written to an integer column: \<open>None\<close> is NULL, a Boolean is an integer of Python, and
  the driver refuses everything else, which is the outer \<open>None\<close>.
\<close>

definition int_column :: "json \<Rightarrow> int option option" where
  "int_column j = (case j of
      JNull \<Rightarrow> Some None | JInt n \<Rightarrow> Some (Some n) | JBool b \<Rightarrow> Some (Some (if b then 1 else 0))
    | _ \<Rightarrow> None)"

text \<open>The same for a text column.\<close>

definition text_column :: "json \<Rightarrow> string option option" where
  "text_column j = (case j of JNull \<Rightarrow> Some None | JStr s \<Rightarrow> Some (Some s) | _ \<Rightarrow> None)"

text \<open>\<open>p in s\<close> for strings.\<close>

definition substring :: "string \<Rightarrow> string \<Rightarrow> bool" where
  "substring p s = list_ex (\<lambda>i. starts_with p (drop i s)) [0..<Suc (length s)]"

section \<open>Keyword arguments\<close>

text \<open>A field of a request: JSON, or an uploaded file with its name.\<close>

datatype arg = Arg json | Upload string string

type_synonym kwargs = "(string \<times> arg) list"

text \<open>An exception: its HTTP status, its code where that is a number, and its text.\<close>

record exc =
  ex_status :: "int option"
  ex_code :: "int option"
  ex_text :: string

datatype 'a attempt = Raised exc | Returned 'a

text \<open>What a call that does not stream returns.\<close>

datatype upstream_body = Payload "(string \<times> json) list" | Bytes string

type_synonym 'a litellm = "nat \<Rightarrow> string \<Rightarrow> kwargs \<Rightarrow> 'a attempt"

definition str_arg :: "string \<Rightarrow> arg" where
  "str_arg s = Arg (JStr s)"

definition truthy_arg :: "arg \<Rightarrow> bool" where
  "truthy_arg a = (case a of Arg j \<Rightarrow> truthy j | Upload _ _ \<Rightarrow> True)"

text \<open>The credential part every wrapper starts with, from \<open>creds\<close> (\<open>proxy/endpoint_spec.py\<close>):
  the base and the version only when they are not empty.\<close>

definition creds :: "resolved_credential \<Rightarrow> kwargs" where
  "creds r =
     [(''api_key'', str_arg (rc_api_key r)),
      (''api_base'', case rc_base_url r of None \<Rightarrow> Arg JNull | Some b \<Rightarrow> str_arg b),
      (''api_version'', Arg (jget (case rc_extra_config r of None \<Rightarrow> [] | Some kvs \<Rightarrow> kvs) ''api_version''))]"

definition credential_args :: "resolved_credential \<Rightarrow> kwargs" where
  "credential_args r =
     filter (\<lambda>(k, a). k = ''api_key'' \<or> truthy_arg a) (creds r)"

text \<open>\<open>_extra\<close>: the optional arguments that are not \<open>None\<close> come on top.\<close>

definition extra :: "resolved_credential \<Rightarrow> kwargs \<Rightarrow> kwargs" where
  "extra r kws = credential_args r @ filter (\<lambda>(k, a). a \<noteq> Arg JNull) kws"

definition acompletion_args :: "string \<Rightarrow> arg \<Rightarrow> resolved_credential \<Rightarrow> kwargs \<Rightarrow> kwargs" where
  "acompletion_args model messages r kws =
     [(''model'', str_arg model), (''messages'', messages)] @ credential_args r @ kws"

definition aresponses_args :: "string \<Rightarrow> arg \<Rightarrow> resolved_credential \<Rightarrow> kwargs \<Rightarrow> kwargs" where
  "aresponses_args model inp r kws = [(''model'', str_arg model), (''input'', inp)] @ extra r kws"

definition aembedding_args :: "string \<Rightarrow> arg \<Rightarrow> resolved_credential \<Rightarrow> kwargs \<Rightarrow> kwargs" where
  "aembedding_args model inp r kws = [(''model'', str_arg model), (''input'', inp)] @ extra r kws"

definition aspeech_args :: "string \<Rightarrow> arg \<Rightarrow> arg \<Rightarrow> resolved_credential \<Rightarrow> kwargs \<Rightarrow> kwargs" where
  "aspeech_args model inp voice r kws =
     [(''model'', str_arg model), (''input'', inp), (''voice'', voice)] @ extra r kws"

definition aimage_generation_args :: "string \<Rightarrow> arg \<Rightarrow> resolved_credential \<Rightarrow> kwargs \<Rightarrow> kwargs" where
  "aimage_generation_args model prompt r kws =
     [(''model'', str_arg model), (''prompt'', prompt)] @ extra r kws"

text \<open>OCR of Azure lives under another prefix of litellm.\<close>

definition aocr_args :: "string \<Rightarrow> arg \<Rightarrow> resolved_credential \<Rightarrow> kwargs \<Rightarrow> kwargs" where
  "aocr_args model document r kws =
     (let model = (if starts_with ''azure/'' model then ''azure_ai/'' @ drop 6 model else model)
      in [(''model'', str_arg model), (''document'', document)] @ extra r kws)"

definition arerank_args :: "string \<Rightarrow> arg \<Rightarrow> arg \<Rightarrow> resolved_credential \<Rightarrow> kwargs \<Rightarrow> kwargs" where
  "arerank_args model query documents r kws =
     [(''model'', str_arg model), (''query'', query), (''documents'', documents)] @ extra r kws"

definition atranscription_args :: "string \<Rightarrow> arg \<Rightarrow> resolved_credential \<Rightarrow> kwargs \<Rightarrow> kwargs" where
  "atranscription_args model file r kws =
     [(''model'', str_arg model), (''file'', file)] @ extra r kws"

definition amoderation_args :: "string \<Rightarrow> arg \<Rightarrow> resolved_credential \<Rightarrow> kwargs \<Rightarrow> kwargs" where
  "amoderation_args model inp r kws = [(''model'', str_arg model), (''input'', inp)] @ extra r kws"

definition asearch_args :: "string \<Rightarrow> arg \<Rightarrow> resolved_credential \<Rightarrow> kwargs \<Rightarrow> kwargs" where
  "asearch_args search_provider query r kws =
     [(''search_provider'', str_arg search_provider), (''query'', query)] @ extra r kws"

definition aimage_edit_args :: "string \<Rightarrow> arg \<Rightarrow> arg \<Rightarrow> resolved_credential \<Rightarrow> kwargs \<Rightarrow> kwargs" where
  "aimage_edit_args model img prompt r kws =
     [(''model'', str_arg model), (''image'', img), (''prompt'', prompt)] @ extra r kws"

section \<open>The realtime address\<close>

definition build_realtime_url :: "string \<Rightarrow> string option \<Rightarrow> string \<Rightarrow> string" where
  "build_realtime_url api_version api_base provider =
     (let base = (case api_base of None \<Rightarrow> [] | Some b \<Rightarrow> rev (dropWhile (\<lambda>c. c = CHR ''/'') (rev b)));
          base = (if starts_with ''https://'' base then ''wss://'' @ drop 8 base
                  else if starts_with ''http://'' base then ''ws://'' @ drop 7 base
                  else base)
      in if provider = ''openai''
         then (if base = [] then ''wss://api.openai.com'' else base) @ ''/v1/realtime?intent=transcription''
         else base @ ''/openai/realtime?api-version='' @ api_version @ ''&intent=transcription'')"

end
