(* ===== verification/Engine.thy ===== *)
theory Engine
  imports Upstream Preflight Records Pricing
begin

text \<open>
  The non-streaming endpoints: \<open>proxy/endpoint_spec.py\<close> (what an endpoint is and how its calls
  are metered), \<open>proxy/registry.py\<close> (the endpoints) and \<open>proxy/engine.py\<close> (the flow they share).
  An exception that no handler catches is \<open>Crash\<close>: the request's session is rolled back, but the
  use of an upstream key, committed on its own, stays.  The texts of the rejections are an argument.
\<close>

section \<open>Replies\<close>

text \<open>A frame of a stream: the type of the event (or null) and its data, or the final mark.\<close>

datatype frame = Frame json json | Done

datatype reply =
    Rejected int string
  | Answered "(string \<times> json) list"
  | Binary string
  | Streamed "frame list"
  | Crash

type_synonym texts = "string \<Rightarrow> db \<Rightarrow> string"

definition crash :: "db \<Rightarrow> db \<Rightarrow> reply \<times> db" where
  "crash d d' =
     (Crash, (rollback_to d d')\<lparr>provider_creds := provider_creds d', audit_log := audit_log d'\<rparr>)"

text \<open>What the callers share: a request with its start, its id and what is known of it.\<close>

definition reject_call ::
  "env \<Rightarrow> string \<Rightarrow> allocation option \<Rightarrow> string option \<Rightarrow> string \<Rightarrow> string \<Rightarrow> int \<Rightarrow> db \<Rightarrow> reply \<times> db" where
  "reject_call e request_id alloc model code message http_status d =
     (Rejected http_status code,
      snd (record_call e request_id alloc model (now e) http_status (outcome_for_code code)
             (no_facts\<lparr>cf_error := Some message\<rparr>) d))"

definition upstream_message :: "string \<Rightarrow> string \<Rightarrow> string" where
  "upstream_message code text =
     (if code = ''upstream_invalid_request'' then ''upstream rejected the request: '' @ text
      else ''upstream call failed: '' @ text)"

definition reject_upstream ::
  "env \<Rightarrow> string \<Rightarrow> allocation \<Rightarrow> string \<Rightarrow> exc \<Rightarrow> db \<Rightarrow> reply \<times> db" where
  "reject_upstream e request_id a model ex d =
     (case classify_upstream_exc (ex_status ex) of
        (code, http_status) \<Rightarrow>
          reject_call e request_id (Some a) (Some model) code (upstream_message code (ex_text ex))
            http_status d)"

section \<open>Meters\<close>

type_synonym fields = "(string \<times> arg) list"

datatype meter =
    TokenMeter
  | UnitMeter string "fields \<Rightarrow> (string \<times> json) list \<Rightarrow> int option option"

text \<open>\<open>TokenMeter.measure\<close>; \<open>None\<close> when a count is not an integer.\<close>

definition first_present :: "(string \<times> json) list \<Rightarrow> string \<Rightarrow> string \<Rightarrow> json" where
  "first_present kvs k k' = (if jget kvs k = JNull then jget kvs k' else jget kvs k)"

definition token_counts :: "(string \<times> json) list \<Rightarrow> (int option \<times> int \<times> int option) option" where
  "token_counts payload =
     Option.bind (obj_or_empty (jget payload ''usage'')) (\<lambda>usage.
     Option.bind (int_column (first_present usage ''prompt_tokens'' ''input_tokens'')) (\<lambda>pt.
     Option.bind (let ct = first_present usage ''completion_tokens'' ''output_tokens''
                  in if truthy ct then int_column ct else Some (Some 0)) (\<lambda>ct.
     Option.bind (int_column (jget usage ''total_tokens'')) (\<lambda>tt.
       let ct = (case ct of Some n \<Rightarrow> n | None \<Rightarrow> 0) in
       Some (pt, ct, if tt = None then map_option (\<lambda>p. p + ct) pt else tt)))))"

definition measure_tokens :: "(string \<times> json) list \<Rightarrow> price option \<Rightarrow> call_facts option" where
  "measure_tokens payload p =
     map_option (\<lambda>(pt, ct, tt). no_facts\<lparr>cf_prompt := pt, cf_completion := Some ct, cf_total := tt,
         cf_cost := calculate_cost p pt (Some ct) None\<rparr>)
       (token_counts payload)"

definition measure_units ::
  "string \<Rightarrow> (fields \<Rightarrow> (string \<times> json) list \<Rightarrow> int option option) \<Rightarrow> fields \<Rightarrow> (string \<times> json) list
     \<Rightarrow> price option \<Rightarrow> call_facts option" where
  "measure_units unit_name quantity_fn fs payload p =
     map_option (\<lambda>quantity.
         let per_unit = (case p of None \<Rightarrow> None
               | Some p \<Rightarrow> if pr_price_unit p = Some unit_name then pr_price_per_unit p else None)
         in no_facts\<lparr>cf_quantity := quantity, cf_unit := Some unit_name,
              cf_cost := Some (calculate_unit_cost quantity per_unit)\<rparr>)
       (quantity_fn fs payload)"

definition measure_call :: "meter \<Rightarrow> fields \<Rightarrow> (string \<times> json) list \<Rightarrow> price option \<Rightarrow> call_facts option" where
  "measure_call m fs payload p =
     (case m of TokenMeter \<Rightarrow> measure_tokens payload p
      | UnitMeter unit_name q \<Rightarrow> measure_units unit_name q fs payload p)"

section \<open>Endpoints\<close>

datatype shape = JsonShape | OtherShape

text \<open>\<open>OtherShape\<close> is multipart for a request and bytes for a response.\<close>

record endpoint_spec =
  es_path :: string
  es_call :: "upstream_body litellm \<Rightarrow> fields \<Rightarrow> resolved_credential \<Rightarrow> string \<Rightarrow> upstream_body attempt"
  es_meter :: meter
  es_input :: shape
  es_output :: shape
  es_required :: "string list"

definition field :: "fields \<Rightarrow> string \<Rightarrow> arg" where
  "field fs k = (case map_of fs k of None \<Rightarrow> Arg JNull | Some v \<Rightarrow> v)"

text \<open>\<open>_ocr_pages\<close>, \<open>_image_count\<close>, the length of the speech input.\<close>

definition json_list_length :: "json \<Rightarrow> int option" where
  "json_list_length j = (case j of JList xs \<Rightarrow> Some (int (length xs)) | _ \<Rightarrow> None)"

definition ocr_pages :: "(string \<times> json) list \<Rightarrow> int option" where
  "ocr_pages payload =
     (let pages = json_list_length (jget payload ''pages'') in
      case jget payload ''usage_info'' of
        JObj usage \<Rightarrow>
          (case jget usage ''pages_processed'' of
             JInt n \<Rightarrow> Some n | JBool b \<Rightarrow> Some (if b then 1 else 0) | _ \<Rightarrow> pages)
      | _ \<Rightarrow> pages)"

definition image_count :: "(string \<times> json) list \<Rightarrow> int option" where
  "image_count payload = json_list_length (jget payload ''data'')"

definition input_length :: "fields \<Rightarrow> int option option" where
  "input_length fs =
     (case field fs ''input'' of
        Arg (JStr s) \<Rightarrow> Some (Some (int (length s)))
      | Arg (JList xs) \<Rightarrow> Some (Some (int (length xs)))
      | Arg (JObj kvs) \<Rightarrow> Some (Some (int (length kvs)))
      | _ \<Rightarrow> None)"

text \<open>The optional fields that are forwarded when the client sent them.\<close>

definition sent :: "string list \<Rightarrow> fields \<Rightarrow> kwargs" where
  "sent ks fs = map (\<lambda>k. (k, field fs k)) (filter (\<lambda>k. field fs k \<noteq> Arg JNull) ks)"

definition ocr_passthrough :: "string list" where
  "ocr_passthrough =
     [''pages'', ''include_image_base64'', ''image_limit'', ''image_min_size'',
      ''bbox_annotation_format'', ''document_annotation_format'', ''id'']"

definition stt_passthrough :: "string list" where
  "stt_passthrough =
     [''language'', ''prompt'', ''response_format'', ''chunking_strategy'',
      ''timestamp_granularities'', ''include'']"

text \<open>A diarization model may demand a chunking strategy: one retry with \<open>auto\<close>.\<close>

definition transcription_call ::
  "upstream_body litellm \<Rightarrow> fields \<Rightarrow> resolved_credential \<Rightarrow> string \<Rightarrow> upstream_body attempt" where
  "transcription_call up fs r m =
     (let more = sent stt_passthrough fs in
      case up 0 ''atranscription'' (atranscription_args m (field fs ''file'') r more) of
        Raised ex \<Rightarrow>
          if substring ''chunking_strategy'' (ex_text ex) \<and> ''chunking_strategy'' \<notin> set (map fst more)
          then up 1 ''atranscription'' (atranscription_args m (field fs ''file'') r
                 ((''chunking_strategy'', str_arg ''auto'') # more))
          else Raised ex
      | Returned out \<Rightarrow> Returned out)"

definition json_spec ::
  "string \<Rightarrow> string list \<Rightarrow> meter \<Rightarrow> (upstream_body litellm \<Rightarrow> fields \<Rightarrow> resolved_credential \<Rightarrow> string \<Rightarrow> upstream_body attempt)
     \<Rightarrow> endpoint_spec" where
  "json_spec path required m call =
     \<lparr>es_path = path, es_call = call, es_meter = m, es_input = JsonShape, es_output = JsonShape,
      es_required = required\<rparr>"

definition specs :: "endpoint_spec list" where
  "specs =
     [json_spec ''/embeddings'' [''input''] TokenMeter
        (\<lambda>up f r m. up 0 ''aembedding'' (aembedding_args m (field f ''input'') r [])),
      json_spec ''/ocr'' [''document''] (UnitMeter ''page'' (\<lambda>f p. Some (ocr_pages p)))
        (\<lambda>up f r m. up 0 ''aocr'' (aocr_args m (field f ''document'') r (sent ocr_passthrough f))),
      json_spec ''/images/generations'' [''prompt''] TokenMeter
        (\<lambda>up f r m. up 0 ''aimage_generation'' (aimage_generation_args m (field f ''prompt'') r [])),
      json_spec ''/rerank'' [''query'', ''documents''] (UnitMeter ''query'' (\<lambda>f p. Some (Some 1)))
        (\<lambda>up f r m. up 0 ''arerank'' (arerank_args m (field f ''query'') (field f ''documents'') r [])),
      (json_spec ''/audio/speech'' [''input''] (UnitMeter ''character'' (\<lambda>f p. input_length f))
        (\<lambda>up f r m. up 0 ''aspeech'' (aspeech_args m (field f ''input'')
           (if truthy_arg (field f ''voice'') then field f ''voice'' else str_arg ''alloy'') r [])))
        \<lparr>es_output := OtherShape\<rparr>,
      (json_spec ''/audio/transcriptions'' [''file''] TokenMeter transcription_call)\<lparr>es_input := OtherShape\<rparr>,
      json_spec ''/moderations'' [''input''] TokenMeter
        (\<lambda>up f r m. up 0 ''amoderation'' (amoderation_args m (field f ''input'') r [])),
      json_spec ''/search'' [''query''] (UnitMeter ''query'' (\<lambda>f p. Some (Some 1)))
        (\<lambda>up f r m. up 0 ''asearch'' (asearch_args m (field f ''query'') r [])),
      (json_spec ''/images/edits'' [''image''] (UnitMeter ''image'' (\<lambda>f p. Some (image_count p)))
        (\<lambda>up f r m. up 0 ''aimage_edit'' (aimage_edit_args m (field f ''image'') (field f ''prompt'') r [])))
        \<lparr>es_input := OtherShape\<rparr>]"

section \<open>The flow\<close>

text \<open>The body of a request: no JSON at all, a JSON value, or the items of a form in their order.\<close>

datatype request_body = NotJson | Json json | Form "(string \<times> arg) list"

text \<open>\<open>_parse\<close>: the model and the fields; a repeated form field keeps its last value, which is the
  first of the reversed items.\<close>

definition parse_request :: "endpoint_spec \<Rightarrow> request_body \<Rightarrow> (json \<times> fields) option" where
  "parse_request spec body =
     (case body of
        Json (JObj kvs) \<Rightarrow> Some (jget kvs ''model'', map (\<lambda>(k, v). (k, Arg v)) kvs)
      | Form items \<Rightarrow>
          (let fs = rev items in
           Some (case field fs ''model'' of Arg (JStr s) \<Rightarrow> JStr s | _ \<Rightarrow> JNull, fs))
      | _ \<Rightarrow> None)"

text \<open>After the pipeline: the call, the bill and the record.\<close>

definition serve_call ::
  "env \<Rightarrow> upstream_body litellm \<Rightarrow> endpoint_spec \<Rightarrow> string \<Rightarrow> string \<Rightarrow> fields \<Rightarrow> preflight_success \<Rightarrow> db \<Rightarrow> db \<Rightarrow> reply \<times> db" where
  "serve_call e up spec request_id model fs ok d0 d =
     (case es_call spec up fs (pf_resolved ok) (pf_upstream_model ok) of
        Raised ex \<Rightarrow> reject_upstream e request_id (pf_allocation ok) model ex d
      | Returned out \<Rightarrow>
          (let binary = (es_output spec = OtherShape);
               bytes = (case out of Bytes b \<Rightarrow> b | _ \<Rightarrow> []);
               payload = (if binary then Some [] else case out of Payload kvs \<Rightarrow> Some kvs | _ \<Rightarrow> None);
               p = lookup_price_for_call (pf_provider ok) (model_key model) (now e) d
           in case Option.bind payload (\<lambda>pl. measure_call (es_meter spec) fs pl p) of
                None \<Rightarrow> crash d0 d
              | Some facts \<Rightarrow>
                  (if binary then Binary bytes else Answered (the payload),
                   snd (record_call e request_id (Some (pf_allocation ok)) (Some model) (now e) 200 success
                          facts d))))"

text \<open>A rejection of the pipeline, recorded on the allocation it names.\<close>

definition run_endpoint ::
  "env \<Rightarrow> upstream_body litellm \<Rightarrow> texts \<Rightarrow> endpoint_spec \<Rightarrow> string \<Rightarrow> string option \<Rightarrow> request_body \<Rightarrow> db \<Rightarrow> reply \<times> db" where
  "run_endpoint e up txt spec request_id authorization body d =
     (case parse_bearer_token authorization of
        None \<Rightarrow> reject_call e request_id None None ''unauthorized'' (txt ''unauthorized'' d) 401 d
      | Some token \<Rightarrow>
          (case parse_request spec body of
             None \<Rightarrow> reject_call e request_id None None ''bad_request'' (txt ''bad_request'' d) 400 d
           | Some (model, fs) \<Rightarrow>
               (case model of
                  JStr name \<Rightarrow>
                    if list_ex (\<lambda>k. field fs k = Arg JNull) (es_required spec)
                    then reject_call e request_id None (Some name) ''bad_request'' (txt ''bad_request'' d) 400 d
                    else
                      (case run_preflight e token name d of
                         (Inl err, d1) \<Rightarrow> crash d d1
                       | (Inr (PreflightRejection code http_status alloc), d1) \<Rightarrow>
                           reject_call e request_id alloc (Some name) code (txt code d1) http_status d1
                       | (Inr (PreflightSuccess ok), d1) \<Rightarrow>
                           serve_call e up spec request_id name fs ok d d1)
                | JNull \<Rightarrow> reject_call e request_id None None ''bad_request'' (txt ''bad_request'' d) 400 d
                | _ \<Rightarrow> crash d d)))"

end
