(* ===== verification/ChatProxy.thy ===== *)
theory ChatProxy
  imports Engine
begin

text \<open>
  \<open>proxy/router.py\<close>, \<open>POST /chat/completions\<close>: the call with its retries, the stream of events and
  the bill.  The patterns of \<open>_rejected_param\<close> are written as functions on ASCII text.  A stream
  is the list of its chunks and whether it ends or raises; the client takes a number of frames and
  then disconnects, which aborts the generator at the next \<open>yield\<close>.
\<close>

section \<open>Parameters the upstream rejects\<close>

definition word_char :: "char \<Rightarrow> bool" where
  "word_char c = (c \<in> set ''abcdefghijklmnopqrstuvwxyzABCDEFGHIJKLMNOPQRSTUVWXYZ0123456789_.'')"

definition after_prefix :: "string \<Rightarrow> string \<Rightarrow> string option" where
  "after_prefix p s = (if starts_with p s then Some (drop (length p) s) else None)"

definition or_else :: "'a option \<Rightarrow> 'a option \<Rightarrow> 'a option" where
  "or_else x y = (case x of None \<Rightarrow> y | Some v \<Rightarrow> Some v)"

text \<open>\<open>'([\w.]+)'\<close> at the start of a text: the name and the rest.\<close>

definition quoted :: "string \<Rightarrow> (string \<times> string) option" where
  "quoted s =
     Option.bind (after_prefix [CHR 0x27] s) (\<lambda>r.
       let name = takeWhile word_char r in
       if name = [] then None
       else map_option (\<lambda>rest. (name, rest)) (after_prefix [CHR 0x27] (dropWhile word_char r)))"

definition unsupported :: "string \<Rightarrow> string option" where
  "unsupported s = or_else (after_prefix ''Unsupported'' s) (after_prefix ''unsupported'' s)"

definition starts_with_space :: "string \<Rightarrow> bool" where
  "starts_with_space s = (case s of [] \<Rightarrow> False | c # _ \<Rightarrow> is_space c)"

definition pattern_value :: "string \<Rightarrow> string option" where
  "pattern_value s =
     Option.bind (unsupported s) (\<lambda>r.
     Option.bind (or_else (after_prefix '' value'' r) (after_prefix '' parameter'' r)) (\<lambda>r.
       let r = (case after_prefix '':'' r of Some r' \<Rightarrow> r' | None \<Rightarrow> r)
       in map_option fst (quoted (lstrip r))))"

definition pattern_support :: "string \<Rightarrow> string option" where
  "pattern_support s =
     Option.bind (quoted s) (\<lambda>(name, r).
       if starts_with_space r \<and> starts_with ''does not support'' (lstrip r) then Some name else None)"

definition pattern_bare :: "string \<Rightarrow> string option" where
  "pattern_bare s =
     Option.bind (unsupported s) (\<lambda>r.
       if starts_with_space r then map_option fst (quoted (lstrip r)) else None)"

text \<open>\<open>re.search\<close>: the leftmost match.\<close>

fun search :: "(string \<Rightarrow> string option) \<Rightarrow> string \<Rightarrow> string option" where
  "search pat [] = pat []"
| "search pat (c # cs) = (case pat (c # cs) of Some x \<Rightarrow> Some x | None \<Rightarrow> search pat cs)"

definition rejected_param :: "string \<Rightarrow> string option" where
  "rejected_param message =
     or_else (search pattern_value message)
       (or_else (search pattern_support message) (search pattern_bare message))"

section \<open>The call and its retries\<close>

function call_upstream ::
  "'a litellm \<Rightarrow> (kwargs \<Rightarrow> kwargs) \<Rightarrow> nat \<Rightarrow> kwargs \<Rightarrow> 'a attempt" where
  "call_upstream up build n droppable =
     (case up n ''acompletion'' (build droppable) of
        Raised ex \<Rightarrow>
          (case rejected_param (ex_text ex) of
             Some param \<Rightarrow>
               if param \<in> set (map fst droppable)
               then call_upstream up build (Suc n) (filter (\<lambda>(k, a). k \<noteq> param) droppable)
               else Raised ex
           | None \<Rightarrow> Raised ex)
      | Returned x \<Rightarrow> Returned x)"
  by pat_completeness auto

termination
proof (relation "measure (\<lambda>(up, build, n, droppable). length droppable)")
  fix param and droppable :: kwargs
  assume "param \<in> set (map fst droppable)"
  then show "((up :: 'a litellm, build :: kwargs \<Rightarrow> kwargs, Suc n, filter (\<lambda>(k, a). k \<noteq> param) droppable),
      up, build, n, droppable) \<in> measure (\<lambda>(up, build, n, droppable). length droppable)" for up build n
    by (auto intro!: length_filter_less)
qed simp

declare call_upstream.simps [simp del]

definition chat_passthrough :: "string list" where
  "chat_passthrough =
     [''temperature'', ''top_p'', ''n'', ''stop'', ''max_tokens'', ''max_completion_tokens'',
      ''presence_penalty'', ''frequency_penalty'', ''logit_bias'', ''logprobs'', ''top_logprobs'',
      ''response_format'', ''seed'', ''tools'', ''tool_choice'', ''parallel_tool_calls'',
      ''reasoning_effort'', ''user'']"

section \<open>The bill\<close>

text \<open>\<open>None\<close> when the record cannot be written.\<close>

definition bill_chat ::
  "env \<Rightarrow> string \<Rightarrow> allocation \<Rightarrow> string \<Rightarrow> string \<Rightarrow> json \<Rightarrow> db \<Rightarrow> db option" where
  "bill_chat e request_id a model provider usage d =
     (case usage of
        JObj kvs \<Rightarrow>
          (case (int_column (jget kvs ''prompt_tokens''), int_column (jget kvs ''completion_tokens''),
                 int_column (jget kvs ''total_tokens'')) of
             (Some pt, Some ct, Some tt) \<Rightarrow>
               Some (snd (record_call e request_id (Some a) (Some model) (now e) 200 success
                 (no_facts\<lparr>cf_prompt := pt, cf_completion := ct, cf_total := tt,
                    cf_cost := calculate_cost (lookup_price_for_call provider (model_key model) (now e) d)
                                 pt ct None\<rparr>) d))
           | _ \<Rightarrow> None)
      | _ \<Rightarrow> None)"

text \<open>\<open>_record_fresh\<close>: in a session of its own; a failure is only logged.\<close>

definition record_fresh :: "(json \<Rightarrow> db \<Rightarrow> db option) \<Rightarrow> json \<Rightarrow> db \<Rightarrow> db" where
  "record_fresh bill usage d = (case bill usage d of Some d' \<Rightarrow> d' | None \<Rightarrow> d)"

section \<open>The stream\<close>

definition without_usage :: "(string \<times> json) list \<Rightarrow> json" where
  "without_usage kvs = JObj (map (\<lambda>(k, v). if k = ''usage'' then (k, JNull) else (k, v)) kvs)"

text \<open>What is relayed of a chunk.\<close>

definition relayed :: "bool \<Rightarrow> (string \<times> json) list \<Rightarrow> frame list" where
  "relayed client_wants_usage kvs =
     (if truthy (jget kvs ''usage'') \<and> \<not> client_wants_usage
      then if truthy (jget kvs ''choices'') then [Frame JNull (without_usage kvs)] else []
      else [Frame JNull (JObj kvs)])"

text \<open>
  \<open>event_gen\<close>: \<open>record\<close> writes the bill, \<open>room\<close> is the number of frames the client still takes,
  \<open>captured\<close> the last usage seen.  A chunk that is no object raises.  However the loop is left, the
  \<open>finally\<close> clause bills what was captured unless a bill was written.
\<close>

fun chat_events ::
  "(json \<Rightarrow> db \<Rightarrow> db) \<Rightarrow> bool \<Rightarrow> nat \<Rightarrow> json list \<Rightarrow> bool \<Rightarrow> json \<Rightarrow> bool \<Rightarrow> db \<Rightarrow> frame list \<times> db" where
  "chat_events write wants room [] raises captured persisted d =
     (if raises \<or> room = 0 then [] else [Done],
      if persisted then d else write captured d)"
| "chat_events write wants room (chunk # chunks) raises captured persisted d =
     (case chunk of
        JObj kvs \<Rightarrow>
          (let usage = jget kvs ''usage'';
               seen = truthy usage;
               captured' = (if seen then usage else captured);
               d' = (if seen \<and> \<not> persisted then write usage d else d);
               persisted' = (persisted \<or> seen)
           in case relayed wants kvs of
                [] \<Rightarrow> chat_events write wants room chunks raises captured' persisted' d'
              | f # _ \<Rightarrow>
                  if room = 0 then ([], if persisted' then d' else write captured' d')
                  else (case chat_events write wants (room - 1) chunks raises captured' persisted' d' of
                          (fs, d'') \<Rightarrow> (f # fs, d'')))
      | _ \<Rightarrow> ([], if persisted then d else write captured d))"

section \<open>The handler\<close>

definition chat_arguments ::
  "preflight_success \<Rightarrow> json \<Rightarrow> kwargs \<Rightarrow> kwargs \<Rightarrow> kwargs" where
  "chat_arguments ok messages stream_args droppable =
     acompletion_args (pf_upstream_model ok) (Arg messages) (pf_resolved ok)
       ((''drop_params'', Arg (JBool True)) # droppable @ stream_args)"

text \<open>\<open>{**stream_options, "include_usage": True}\<close>.\<close>

definition with_usage :: "(string \<times> json) list \<Rightarrow> json" where
  "with_usage options =
     JObj (filter (\<lambda>(k, v). k \<noteq> ''include_usage'') options @ [(''include_usage'', JBool True)])"

type_synonym stream = "json list \<times> bool"

definition serve_chat ::
  "env \<Rightarrow> upstream_body litellm \<Rightarrow> stream litellm \<Rightarrow> nat \<Rightarrow> string \<Rightarrow> string \<Rightarrow> (string \<times> json) list
     \<Rightarrow> preflight_success \<Rightarrow> db \<Rightarrow> db \<Rightarrow> reply \<times> db" where
  "serve_chat e up up_stream room request_id model body ok d0 d =
     (let messages = jget body ''messages'';
          droppable = sent chat_passthrough (map (\<lambda>(k, v). (k, Arg v)) body);
          bill = bill_chat e request_id (pf_allocation ok) model (pf_provider ok) in
      if truthy (jget body ''stream'') then
        (case obj_or_empty (jget body ''stream_options'') of
           None \<Rightarrow> crash d0 d
         | Some options \<Rightarrow>
             (let stream_args = [(''stream'', Arg (JBool True)), (''stream_options'', Arg (with_usage options))] in
              case call_upstream up_stream (chat_arguments ok messages stream_args) 0 droppable of
                Raised ex \<Rightarrow> reject_upstream e request_id (pf_allocation ok) model ex d
              | Returned (chunks, raises) \<Rightarrow>
                  (case chat_events (record_fresh bill) (truthy (jget options ''include_usage'')) room
                          chunks raises (JObj []) False d of
                     (frames, d') \<Rightarrow> (Streamed frames, d'))))
      else
        (case call_upstream up (chat_arguments ok messages []) 0 droppable of
           Raised ex \<Rightarrow> reject_upstream e request_id (pf_allocation ok) model ex d
         | Returned (Bytes b) \<Rightarrow> crash d0 d
         | Returned (Payload payload) \<Rightarrow>
             (case bill (if truthy (jget payload ''usage'') then jget payload ''usage'' else JObj []) d of
                None \<Rightarrow> crash d0 d
              | Some d' \<Rightarrow> (Answered payload, d'))))"

definition proxy_chat_completions ::
  "env \<Rightarrow> upstream_body litellm \<Rightarrow> stream litellm \<Rightarrow> nat \<Rightarrow> texts \<Rightarrow> string \<Rightarrow> string option \<Rightarrow> request_body
     \<Rightarrow> db \<Rightarrow> reply \<times> db" where
  "proxy_chat_completions e up up_stream room txt request_id authorization body d =
     (case parse_bearer_token authorization of
        None \<Rightarrow> reject_call e request_id None None ''unauthorized'' (txt ''unauthorized'' d) 401 d
      | Some token \<Rightarrow>
          (case body of
             Json (JObj kvs) \<Rightarrow>
               (case (jget kvs ''model'', jget kvs ''messages'') of
                  (JStr name, JList messages) \<Rightarrow>
                    (case run_preflight e token name d of
                       (Inl err, d1) \<Rightarrow> crash d d1
                     | (Inr (PreflightRejection code http_status alloc), d1) \<Rightarrow>
                         reject_call e request_id alloc (Some name) code (txt code d1) http_status d1
                     | (Inr (PreflightSuccess ok), d1) \<Rightarrow>
                         serve_chat e up up_stream room request_id name kvs ok d d1)
                | (model, _) \<Rightarrow>
                    (case text_column model of
                       None \<Rightarrow> crash d d
                     | Some name \<Rightarrow>
                         reject_call e request_id None name ''bad_request'' (txt ''bad_request'' d) 400 d))
           | Json _ \<Rightarrow> crash d d
           | _ \<Rightarrow> reject_call e request_id None None ''bad_request'' (txt ''bad_request'' d) 400 d))"

end
