(* ===== verification/ResponsesProxy.thy ===== *)
theory ResponsesProxy
  imports StoredResponses ChatProxy
begin

text \<open>
  \<open>proxy/responses.py\<close>, \<open>POST /responses\<close>: the manual switch of a model, the continuation of stored
  conversations, the stream of events with its bill or its failure record, and the audit entry for
  an upstream key that has gone bad.  Python's rendering of a JSON value that is no string, which
  only reaches an error text, is the argument \<open>render\<close>.
\<close>

section \<open>Usage and errors\<close>

definition as_dict :: "json \<Rightarrow> (string \<times> json) list" where
  "as_dict j = (case j of JObj kvs \<Rightarrow> kvs | _ \<Rightarrow> [])"

record mapped_usage =
  mu_prompt :: json
  mu_completion :: json
  mu_total :: json
  mu_reasoning :: json
  mu_cached :: json

definition map_usage :: "json \<Rightarrow> mapped_usage" where
  "map_usage usage =
     (let u = as_dict usage;
          otd = as_dict (jget u ''output_tokens_details'');
          itd = as_dict (jget u ''input_tokens_details'')
      in \<lparr>mu_prompt = jget u ''input_tokens'', mu_completion = jget u ''output_tokens'',
          mu_total = jget u ''total_tokens'', mu_reasoning = jget otd ''reasoning_tokens'',
          mu_cached = jget itd ''cached_tokens''\<rparr>)"

definition is_auth_failure :: "exc \<Rightarrow> bool" where
  "is_auth_failure ex =
     (let code = (case ex_status ex of Some n \<Rightarrow> if n \<noteq> 0 then Some n else ex_code ex | None \<Rightarrow> ex_code ex);
          text = lower (ex_text ex)
      in code = Some 401 \<or> code = Some 403 \<or> substring ''401'' text \<or> substring ''403'' text \<or>
         substring ''invalid api key'' text \<or> substring ''unauthorized'' text)"

definition emit_credential_auth_failed :: "env \<Rightarrow> exc \<Rightarrow> string \<Rightarrow> string \<Rightarrow> db \<Rightarrow> db" where
  "emit_credential_auth_failed e ex provider credential_id d =
     (if is_auth_failure ex
      then audit_record e provider_credential_auth_failed actor_system None
             (Some ''provider_credential'') (Some credential_id)
             [(''provider'', JStr provider), (''error'', JStr (take 300 (ex_text ex)))] d
      else d)"

section \<open>The bill\<close>

text \<open>\<open>_persist_responses_call\<close>; \<open>None\<close> when a row cannot be written.\<close>

definition persist_responses_call ::
  "env \<Rightarrow> string \<Rightarrow> allocation \<Rightarrow> string \<Rightarrow> string \<Rightarrow> bool \<Rightarrow> json \<Rightarrow> json \<Rightarrow> db \<Rightarrow> db option" where
  "persist_responses_call e request_id a model provider want_store usage response_id d =
     (let m = map_usage usage in
      case (int_column (mu_prompt m), int_column (mu_completion m), int_column (mu_total m),
            int_column (mu_reasoning m), int_column (mu_cached m)) of
        (Some pt, Some ct, Some tt, Some rt, Some cached) \<Rightarrow>
          (let d1 = snd (record_call e request_id (Some a) (Some model) (now e) 200 success
                 (no_facts\<lparr>cf_prompt := pt, cf_completion := ct, cf_total := tt, cf_reasoning := rt,
                    cf_cached := cached,
                    cf_cost := calculate_cost (lookup_price_for_call provider (model_key model) (now e) d)
                                 pt ct cached\<rparr>) d)
           in if want_store
              then (case text_column response_id of
                      None \<Rightarrow> None
                    | Some None \<Rightarrow> Some d1
                    | Some (Some rid) \<Rightarrow> Some (store_response e (a_id a) provider rid 30 d1))
              else Some d1)
      | _ \<Rightarrow> None)"

section \<open>The stream\<close>

definition py_str :: "(json \<Rightarrow> string) \<Rightarrow> json \<Rightarrow> string" where
  "py_str render j = (case j of JStr s \<Rightarrow> s | _ \<Rightarrow> render j)"

text \<open>\<open>x or y or \<dots>\<close> with a default.\<close>

fun first_truthy :: "json list \<Rightarrow> json \<Rightarrow> json" where
  "first_truthy [] dflt = dflt"
| "first_truthy (j # js) dflt = (if truthy j then j else first_truthy js dflt)"

definition failure_text :: "(json \<Rightarrow> string) \<Rightarrow> (string \<times> json) list \<Rightarrow> string" where
  "failure_text render event =
     (let resp = as_dict (jget event ''response'');
          err = as_dict (jget resp ''error'');
          incomplete = as_dict (jget resp ''incomplete_details'');
          sd_err = as_dict (jget (as_dict (jget resp ''status_details'')) ''error'');
          err_code = first_truthy [jget err ''code'', jget sd_err ''code'', jget incomplete ''reason'',
                                   jget resp ''status''] (JStr ''unknown'');
          err_msg = first_truthy [jget err ''message'', jget sd_err ''message'',
                                  jget incomplete ''description''] (JStr ''(no error message)'')
      in py_str render err_code @ '': '' @ py_str render err_msg)"

text \<open>The text of the exception of \<open>payload_obj.get\<close> on a value that is no object.\<close>

definition no_get_text :: "json \<Rightarrow> string" where
  "no_get_text j =
     (let q = [CHR 0x27];
          name = (case j of JNull \<Rightarrow> ''NoneType'' | JBool _ \<Rightarrow> ''bool'' | JInt _ \<Rightarrow> ''int'' | JNum _ \<Rightarrow> ''float''
                  | JStr _ \<Rightarrow> ''str'' | JList _ \<Rightarrow> ''list'' | JObj _ \<Rightarrow> ''dict'')
      in q @ name @ q @ '' object has no attribute '' @ q @ ''get'' @ q)"

definition exception_text :: "string \<Rightarrow> string" where
  "exception_text text = take 500 (''stream_exception: '' @ text)"

text \<open>
  \<open>event_gen\<close> writes with \<open>finish\<close> (usage and response id) or \<open>failed\<close> (a text).  An exception of
  the stream, or an event that is no object, is recorded and ends the stream quietly.
\<close>

fun response_events ::
  "(json \<Rightarrow> string) \<Rightarrow> (json \<Rightarrow> json \<Rightarrow> db \<Rightarrow> db) \<Rightarrow> (string \<Rightarrow> db \<Rightarrow> db) \<Rightarrow> nat \<Rightarrow> json list \<Rightarrow> string option
     \<Rightarrow> bool \<Rightarrow> db \<Rightarrow> frame list \<times> db" where
  "response_events render finish failed room [] raises persisted d =
     ([], if persisted then d
          else (case raises of None \<Rightarrow> finish JNull JNull d
                | Some text \<Rightarrow> failed (exception_text text) d))"
| "response_events render finish failed room (event # events) raises persisted d =
     (case event of
        JObj kvs \<Rightarrow>
          (let etype = jget kvs ''type'';
               completes = (etype = JStr ''response.completed'' \<and> \<not> persisted);
               fails = (etype = JStr ''response.failed'' \<and> \<not> persisted);
               resp = as_dict (jget kvs ''response'');
               d' = (if completes then finish (jget resp ''usage'') (jget resp ''id'') d
                     else if fails then failed (failure_text render kvs) d
                     else d);
               persisted' = (persisted \<or> completes \<or> fails)
           in if room = 0 then ([], if persisted' then d' else finish JNull JNull d')
              else (case response_events render finish failed (room - 1) events raises persisted' d' of
                      (fs, d'') \<Rightarrow> (Frame (if truthy etype then etype else JNull) event # fs, d'')))
      | _ \<Rightarrow>
          ([], if persisted then d
               else failed (exception_text (no_get_text event)) d))"

section \<open>The handler\<close>

definition responses_passthrough :: "string list" where
  "responses_passthrough =
     [''instructions'', ''tools'', ''tool_choice'', ''parallel_tool_calls'', ''reasoning'', ''include'',
      ''store'', ''max_output_tokens'', ''temperature'', ''top_p'', ''text'', ''metadata'', ''truncation'']"

type_synonym event_stream = "json list \<times> string option"

definition record_failed :: "env \<Rightarrow> string \<Rightarrow> allocation \<Rightarrow> string \<Rightarrow> string \<Rightarrow> db \<Rightarrow> db" where
  "record_failed e request_id a model message d =
     snd (record_call e request_id (Some a) (Some model) (now e) 200 upstream_error
            (no_facts\<lparr>cf_error := Some (take 500 message)\<rparr>) d)"

text \<open>The call itself: \<open>continuation_args\<close> holds the id of the stored response, if any.\<close>

definition call_responses ::
  "env \<Rightarrow> (json \<Rightarrow> string) \<Rightarrow> upstream_body litellm \<Rightarrow> event_stream litellm \<Rightarrow> nat \<Rightarrow> string
     \<Rightarrow> (string \<times> json) list \<Rightarrow> kwargs \<Rightarrow> preflight_success \<Rightarrow> db \<Rightarrow> db \<Rightarrow> reply \<times> db" where
  "call_responses e render up up_stream room request_id body continuation_args ok d0 d =
     (let a = pf_allocation ok; model = pf_canonical_model ok;
          kws = sent responses_passthrough (map (\<lambda>(k, v). (k, Arg v)) body) @ continuation_args;
          arguments = aresponses_args (pf_upstream_model ok) (Arg (jget body ''input'')) (pf_resolved ok);
          persist = persist_responses_call e request_id a model (pf_provider ok)
                      (truthy (jget body ''store''));
          refuse = (\<lambda>ex. reject_upstream e request_id a model ex
                      (emit_credential_auth_failed e ex (pf_provider ok) (rc_id (pf_resolved ok)) d)) in
      if truthy (jget body ''stream'') then
        (case up_stream 0 ''aresponses'' (arguments ((''stream'', Arg (JBool True)) # kws)) of
           Raised ex \<Rightarrow> refuse ex
         | Returned (events, raises) \<Rightarrow>
             (case response_events render
                     (\<lambda>usage rid d. case persist usage rid d of Some d' \<Rightarrow> d' | None \<Rightarrow> d)
                     (record_failed e request_id a model) room events raises False d of
                (frames, d') \<Rightarrow> (Streamed frames, d')))
      else
        (case up 0 ''aresponses'' (arguments kws) of
           Raised ex \<Rightarrow> refuse ex
         | Returned out \<Rightarrow>
             (let payload = (case out of Payload kvs \<Rightarrow> kvs | Bytes b \<Rightarrow> []) in
              case persist (jget payload ''usage'') (jget payload ''id'') d of
                None \<Rightarrow> crash d0 d
              | Some d' \<Rightarrow> (Answered payload, d'))))"

definition serve_responses ::
  "env \<Rightarrow> (json \<Rightarrow> string) \<Rightarrow> upstream_body litellm \<Rightarrow> event_stream litellm \<Rightarrow> nat \<Rightarrow> texts \<Rightarrow> string
     \<Rightarrow> (string \<times> json) list \<Rightarrow> preflight_success \<Rightarrow> db \<Rightarrow> db \<Rightarrow> reply \<times> db" where
  "serve_responses e render up up_stream room txt request_id body ok d0 d =
     (let a = pf_allocation ok; model = pf_canonical_model ok;
          reject = (\<lambda>code http_status.
             reject_call e request_id (Some a) (Some model) code (txt code d) http_status d);
          go = (\<lambda>args. call_responses e render up up_stream room request_id body args ok d0 d) in
      if fst (lookup_support model d) = Unavailable then reject ''model_responses_disabled'' 400
      else
        (case jget body ''previous_response_id'' of
           JNull \<Rightarrow> go []
         | JStr prev \<Rightarrow>
             (case resolve_for_continuation e prev (a_id a) (pf_provider ok) d of
                NotFound \<Rightarrow> reject ''response_not_found'' 404
              | Forbidden \<Rightarrow> reject ''response_forbidden'' 403
              | Owned rid \<Rightarrow> go [(''previous_response_id'', str_arg rid)])
         | _ \<Rightarrow> crash d0 d))"

definition proxy_responses ::
  "env \<Rightarrow> (json \<Rightarrow> string) \<Rightarrow> upstream_body litellm \<Rightarrow> event_stream litellm \<Rightarrow> nat \<Rightarrow> texts \<Rightarrow> string
     \<Rightarrow> string option \<Rightarrow> request_body \<Rightarrow> db \<Rightarrow> reply \<times> db" where
  "proxy_responses e render up up_stream room txt request_id authorization body d =
     (case parse_bearer_token authorization of
        None \<Rightarrow> reject_call e request_id None None ''unauthorized'' (txt ''unauthorized'' d) 401 d
      | Some token \<Rightarrow>
          (case body of
             Json (JObj kvs) \<Rightarrow>
               (case text_column (jget kvs ''model'') of
                  None \<Rightarrow> crash d d
                | Some None \<Rightarrow> reject_call e request_id None None ''bad_request'' (txt ''bad_request'' d) 400 d
                | Some (Some name) \<Rightarrow>
                    if jget kvs ''input'' = JNull
                    then reject_call e request_id None (Some name) ''bad_request'' (txt ''bad_request'' d) 400 d
                    else
                      (case run_preflight e token name d of
                         (Inl err, d1) \<Rightarrow> crash d d1
                       | (Inr (PreflightRejection code http_status alloc), d1) \<Rightarrow>
                           reject_call e request_id alloc (Some name) code (txt code d1) http_status d1
                       | (Inr (PreflightSuccess ok), d1) \<Rightarrow>
                           serve_responses e render up up_stream room txt request_id kvs ok d d1))
           | Json _ \<Rightarrow> crash d d
           | _ \<Rightarrow> reject_call e request_id None None ''bad_request'' (txt ''bad_request'' d) 400 d))"

end
