(* ===== verification/ProxyCalls.thy ===== *)
theory ProxyCalls
  imports ResponsesProxy PreflightTheorems
begin

text \<open>
  What every proxied call does to the session: it writes at most one call record, and a record of a
  success only for an allocation that the pipeline has just admitted.  The locale \<open>proxied\<close> states
  this of a handler and derives the bounds on what an allocation can use; the three kinds of
  endpoints are its interpretations.
\<close>

section \<open>One call\<close>

definition charge_ok :: "env \<Rightarrow> db \<Rightarrow> call_record \<Rightarrow> bool" where
  "charge_ok e d r \<longleftrightarrow> r_started_at r = now e \<and>
     (r_outcome r = success \<longrightarrow>
        (\<exists>a \<in> set (allocations d). r_allocation_id r = Some (a_id a) \<and> allocation_refusal e a d = None))"

definition one_call :: "env \<Rightarrow> db \<Rightarrow> db \<Rightarrow> bool" where
  "one_call e d d' \<longleftrightarrow> allocations d' = allocations d \<and> prices d' = prices d \<and>
     (\<exists>rs. call_records d' = call_records d @ rs \<and> length rs \<le> 1 \<and> (\<forall>r \<in> set rs. charge_ok e d r))"

text \<open>The session a call works on differs from the one it began with by what the pipeline wrote.\<close>

definition same_calls :: "db \<Rightarrow> db \<Rightarrow> bool" where
  "same_calls d d' \<longleftrightarrow> allocations d' = allocations d \<and> prices d' = prices d \<and>
     call_records d' = call_records d"

lemma one_call_none: "same_calls d d' \<Longrightarrow> one_call e d d'"
  by (auto simp: one_call_def same_calls_def intro: exI [of _ "[]"])

lemma record_call_rows:
  "call_records (snd (record_call e rid alloc model t status out f d)) =
     call_records d @ [fst (record_call e rid alloc model t status out f d)]"
  "allocations (snd (record_call e rid alloc model t status out f d)) = allocations d"
  "prices (snd (record_call e rid alloc model t status out f d)) = prices d"
  by (simp_all add: record_call_def Let_def case_prod_beta)

lemma record_call_row:
  "r_started_at (fst (record_call e rid alloc model t status out f d)) = t"
  "r_outcome (fst (record_call e rid alloc model t status out f d)) = out"
  "r_status_code (fst (record_call e rid alloc model t status out f d)) = status"
  "r_allocation_id (fst (record_call e rid alloc model t status out f d)) = map_option a_id alloc"
  "r_total_tokens (fst (record_call e rid alloc model t status out f d)) = cf_total f"
  "r_cost_usd (fst (record_call e rid alloc model t status out f d)) = cf_cost f"
  by (simp_all add: record_call_def Let_def case_prod_beta)

lemma outcome_never_success: "outcome_for_code code \<noteq> success"
  by (auto simp: outcome_for_code_def split: option.splits if_splits dest!: map_of_SomeD)

text \<open>A success that is charged, and what a reply says of the record.\<close>

definition charged :: "env \<Rightarrow> db \<Rightarrow> db \<Rightarrow> bool" where
  "charged e d d' \<longleftrightarrow> allocations d' = allocations d \<and> prices d' = prices d \<and>
     (\<exists>r. call_records d' = call_records d @ [r] \<and> charge_ok e d r \<and>
          r_status_code r = 200 \<and> r_outcome r = success)"

definition recorded_as :: "reply \<Rightarrow> call_record \<Rightarrow> bool" where
  "recorded_as rep r \<longleftrightarrow>
     (case rep of
        Rejected status code \<Rightarrow> r_status_code r = status \<and> r_outcome r = outcome_for_code code
      | _ \<Rightarrow> r_status_code r = 200 \<and> r_outcome r = success)"

text \<open>The effect of a request: without a stream, a reply is recorded exactly once and as what it
  is, and an uncaught exception leaves no record.\<close>

definition effect :: "env \<Rightarrow> db \<Rightarrow> reply \<times> db \<Rightarrow> bool" where
  "effect e d x \<longleftrightarrow> one_call e d (snd x) \<and>
     (case fst x of
        Crash \<Rightarrow> call_records (snd x) = call_records d
      | Streamed fs \<Rightarrow> True
      | rep \<Rightarrow> \<exists>r. call_records (snd x) = call_records d @ [r] \<and> recorded_as rep r)"

lemma one_call_charged: "charged e d d' \<Longrightarrow> one_call e d d'"
  unfolding one_call_def charged_def by auto

lemma effect_charged [intro]: "charged e d d' \<Longrightarrow> effect e d (Answered p, d')" "charged e d d' \<Longrightarrow> effect e d (Binary b, d')"
  by (auto simp: effect_def one_call_charged recorded_as_def) (auto simp: charged_def)

lemma effect_streamed [intro]: "one_call e d d' \<Longrightarrow> effect e d (Streamed fs, d')"
  by (simp add: effect_def)

lemma effect_rejected:
  "same_calls d d1 \<Longrightarrow> effect e d (reject_call e rid alloc model code msg status d1)"
  unfolding effect_def one_call_def same_calls_def
  by (auto simp: reject_call_def record_call_rows record_call_row charge_ok_def outcome_never_success
      recorded_as_def)

lemma effect_upstream:
  "same_calls d d1 \<Longrightarrow> effect e d (reject_upstream e rid a model ex d1)"
  by (simp add: reject_upstream_def effect_rejected split: prod.split)

lemma effect_crash: "effect e d (crash d d')"
  by (simp add: effect_def crash_def one_call_none same_calls_def rollback_to_def)

lemma charged_success:
  assumes "same_calls d d1" "a \<in> set (allocations d)" "allocation_refusal e a d = None"
  shows "charged e d (snd (record_call e rid (Some a) model (now e) 200 success f d1))"
  using assms unfolding charged_def same_calls_def
  by (auto simp: record_call_rows record_call_row charge_ok_def)

section \<open>The pipeline\<close>

lemma get_next_tables:
  "allocations (snd (get_next e p d)) = allocations d" "call_records (snd (get_next e p d)) = call_records d"
  "prices (snd (get_next e p d)) = prices d"
  by (auto simp: get_next_def Let_def set_provider_cred_def split: list.split option.split)

lemma resolve_credential_tables:
  "same_calls d (snd (resolve_credential e p d))"
  unfolding same_calls_def resolve_credential_def
  by (auto simp: get_next_tables split: prod.split sum.split option.split
      dest: arg_cong [of _ _ "\<lambda>x. allocations (snd x)"] arg_cong [of _ _ "\<lambda>x. call_records (snd x)"] arg_cong [of _ _ "\<lambda>x. prices (snd x)"])

lemma same_calls_trans: "same_calls d d1 \<Longrightarrow> same_calls d1 d2 \<Longrightarrow> same_calls d d2"
  by (simp add: same_calls_def)

lemma same_calls_lookup: "same_calls d (snd (lookup_credential_by_token e token d))"
  unfolding same_calls_def by (metis lookup_tables(1,6,10) prod.collapse)

lemma run_preflight_same: "same_calls d (snd (run_preflight e token model d))"
proof -
  obtain r d1 where look: "lookup_credential_by_token e token d = (r, d1)" by fastforce
  then have d1: "same_calls d d1" using same_calls_lookup [of d e token] by simp
  moreover have "same_calls d1 (snd (resolve_credential e p d1))" for p
    by (rule resolve_credential_tables)
  then have "same_calls d (snd (resolve_credential e p d1))" for p
    using d1 same_calls_trans by blast
  then have "same_calls d d2" if "resolve_credential e p d1 = (x, d2)" for p x d2
    using that by (metis snd_conv)
  ultimately show ?thesis
    by (auto simp: run_preflight_def look Let_def
        split: option.split prod.split sum.split provider_error.split)
qed

lemma resolved_in_scope: "resolve_scope_allocation c model d = Some a \<Longrightarrow> a \<in> scope_of d c"
proof -
  assume res: "resolve_scope_allocation c model d = Some a"
  let ?named = "filter (\<lambda>a. split_last (CHR ''/'') (a_resource_model a) = model) (scope_allocations (c_id c) d)"
  consider "map_option snd (find (\<lambda>(l, a). ca_resource_model l = model) (scope_join (c_id c) d)) = Some a"
    | "?named = [a]"
    using res by (auto simp: resolve_scope_allocation_def Let_def length_Suc_conv split: if_splits)
  then have "a \<in> set (scope_allocations (c_id c) d)"
  proof cases
    case 1
    then show ?thesis by (force simp: scope_allocations_def dest: find_SomeD)
  next
    case 2
    then have "a \<in> set ?named" by simp
    then show ?thesis by simp
  qed
  then show ?thesis by (simp add: set_scope_allocations)
qed

lemma run_preflight_admitted:
  assumes "run_preflight e token model d = (Inr (PreflightSuccess ok), d1)"
  shows "pf_allocation ok \<in> set (allocations d)" "allocation_refusal e (pf_allocation ok) d = None"
    "\<exists>c. key_of e token d = Some c \<and> resolve_scope_allocation c model d = Some (pf_allocation ok)"
    "ok = admitted (pf_allocation ok) (pf_resolved ok)"
proof -
  from assms have run: "fst (run_preflight e token model d) = Inr (PreflightSuccess ok)" by simp
  obtain c a key where c: "key_of e token d = Some c" "resolve_scope_allocation c model d = Some a"
      "allocation_refusal e a d = None" "ok = admitted a key"
    using run unfolding run_preflight_cases
    by (auto simp: resolve_bearer_key admitted_def split: option.splits sum.splits provider_error.splits)
  have "a \<in> set (allocations d)"
    using resolved_in_scope [OF c(2)] by (simp add: scope_of_def)
  with c show "pf_allocation ok \<in> set (allocations d)" "allocation_refusal e (pf_allocation ok) d = None"
    "\<exists>c. key_of e token d = Some c \<and> resolve_scope_allocation c model d = Some (pf_allocation ok)"
    "ok = admitted (pf_allocation ok) (pf_resolved ok)"
    by (simp_all add: admitted_def)
qed

lemma run_preflight_calls:
  assumes "run_preflight e token model d = (x, d1)"
  shows "same_calls d d1"
  using run_preflight_same [of d e token model] assms by simp

section \<open>The handlers\<close>

lemma effect_rejection:
  "run_preflight e token model d = (x, d1) \<Longrightarrow> effect e d (reject_call e rid alloc m code msg status d1)"
  by (rule effect_rejected [OF run_preflight_calls])

lemma serve_call_effect:
  assumes "run_preflight e token model d = (Inr (PreflightSuccess ok), d1)"
  shows "effect e d (serve_call e up spec rid name fs ok d d1)"
  using charged_success [OF run_preflight_calls [OF assms] run_preflight_admitted(1,2) [OF assms]]
    effect_upstream [OF run_preflight_calls [OF assms]]
  by (auto simp: serve_call_def Let_def effect_crash split: attempt.split option.split)

lemma endpoint_effect: "effect e d (run_endpoint e up txt spec rid auth body d)"
  by (auto simp: run_endpoint_def effect_rejected same_calls_def effect_crash
      intro: effect_rejection serve_call_effect
      split: option.split prod.split json.split sum.split preflight_result.split)

section \<open>Streams of chunks\<close>

definition is_object :: "json \<Rightarrow> bool" where
  "is_object j = (case j of JObj _ \<Rightarrow> True | _ \<Rightarrow> False)"

definition usage_of :: "json \<Rightarrow> json" where
  "usage_of chunk = jget (as_dict chunk) ''usage''"

text \<open>What a client gets that takes \<open>room\<close> frames, and the usage that is billed: the first one
  among the chunks the client's frames reach.\<close>

definition relayed_frames :: "bool \<Rightarrow> json list \<Rightarrow> bool \<Rightarrow> frame list" where
  "relayed_frames wants chunks raises =
     concat (map (relayed wants \<circ> as_dict) (takeWhile is_object chunks)) @
     (if list_all is_object chunks \<and> \<not> raises then [Done] else [])"

definition billed_usage :: "nat \<Rightarrow> json list \<Rightarrow> json \<Rightarrow> json" where
  "billed_usage room chunks dflt =
     (case find truthy (map usage_of (take (Suc room) (takeWhile is_object chunks))) of
        Some u \<Rightarrow> u | None \<Rightarrow> dflt)"

lemma relayed_cases: "relayed wants kvs = [] \<and> truthy (jget kvs ''usage'') \<or> (\<exists>f. relayed wants kvs = [f])"
  by (simp add: relayed_def)

lemma chat_events_object:
  "chat_events w wants room (JObj kvs # chunks) raises captured persisted d =
     (let u = jget kvs ''usage'';
          d1 = (if truthy u \<and> \<not> persisted then w u d else d);
          captured1 = (if truthy u then u else captured);
          persisted1 = (persisted \<or> truthy u);
          rest = chat_events w wants (room - length (relayed wants kvs)) chunks raises captured1 persisted1 d1
      in if relayed wants kvs \<noteq> [] \<and> room = 0
         then ([], if persisted1 then d1 else w captured1 d1)
         else (relayed wants kvs @ fst rest, snd rest))"
  using relayed_cases [of wants kvs] by (auto simp: Let_def split: prod.split)

lemma chat_events_other:
  "\<not> is_object c \<Longrightarrow>
     chat_events w wants room (c # chunks) raises captured persisted d = ([], if persisted then d else w captured d)"
  by (cases c) (simp_all add: is_object_def)

lemma relayed_frames_Cons:
  "relayed_frames wants (JObj kvs # chunks) raises = relayed wants kvs @ relayed_frames wants chunks raises"
  "\<not> is_object c \<Longrightarrow> relayed_frames wants (c # chunks) raises = []"
  by (simp_all add: relayed_frames_def is_object_def as_dict_def)

lemma billed_usage_Cons:
  "billed_usage room (JObj kvs # chunks) dflt =
     (if truthy (jget kvs ''usage'') then jget kvs ''usage''
      else if room = 0 then dflt else billed_usage (room - 1) chunks dflt)"
  "\<not> is_object c \<Longrightarrow> billed_usage room (c # chunks) dflt = dflt"
  by (cases room; simp add: billed_usage_def is_object_def as_dict_def usage_of_def)+

lemma chat_events_spec:
  "chat_events w wants room chunks raises captured persisted d =
     (take room (relayed_frames wants chunks raises),
      if persisted then d else w (billed_usage room chunks captured) d)"
proof (induction chunks arbitrary: room captured persisted d)
  case Nil
  then show ?case by (simp add: relayed_frames_def billed_usage_def)
next
  case (Cons c chunks)
  show ?case
  proof (cases "is_object c")
    case False
    then show ?thesis
      by (simp add: chat_events_other relayed_frames_Cons billed_usage_Cons del: chat_events.simps)
  next
    case True
    then obtain kvs where c: "c = JObj kvs" by (cases c) (simp_all add: is_object_def)
    show ?thesis
      using relayed_cases [of wants kvs]
      by (cases room) (auto simp: c chat_events_object Cons.IH Let_def relayed_frames_Cons billed_usage_Cons
          simp del: chat_events.simps(2))
  qed
qed

lemma charged_bill:
  assumes "bill_chat e rid a model provider usage d1 = Some d2" "same_calls d d1"
    "a \<in> set (allocations d)" "allocation_refusal e a d = None"
  shows "charged e d d2"
  using assms charged_success [OF assms(2-4)]
  by (auto simp: bill_chat_def split: json.splits option.splits prod.splits)

lemma one_call_write:
  assumes "\<And>d2. bill d1 = Some d2 \<Longrightarrow> one_call e d d2" "same_calls d d1"
  shows "one_call e d (case bill d1 of Some d2 \<Rightarrow> d2 | None \<Rightarrow> d1)"
  using assms by (auto intro: one_call_none split: option.split)

lemma serve_chat_effect:
  assumes "run_preflight e token model d = (Inr (PreflightSuccess ok), d1)"
  shows "effect e d (serve_chat e up ups room rid name body ok d d1)"
proof -
  note same = run_preflight_calls [OF assms] and adm = run_preflight_admitted(1,2) [OF assms]
  have bill: "charged e d d2" if "bill_chat e rid (pf_allocation ok) name (pf_provider ok) u d1 = Some d2" for u d2
    by (rule charged_bill [OF that same adm])
  have streamed: "one_call e d (record_fresh (bill_chat e rid (pf_allocation ok) name (pf_provider ok)) u d1)" for u
    unfolding record_fresh_def by (rule one_call_write [OF one_call_charged [OF bill] same])
  show ?thesis
    using bill streamed effect_upstream [OF same]
    by (auto simp: serve_chat_def Let_def effect_crash chat_events_spec
        split: attempt.split option.split prod.split upstream_body.split)
qed

lemma chat_effect: "effect e d (proxy_chat_completions e up ups room txt rid auth body d)"
  by (auto simp: proxy_chat_completions_def effect_rejected same_calls_def effect_crash
      intro: effect_rejection serve_chat_effect
      split: option.split prod.split json.split sum.split preflight_result.split request_body.split)

section \<open>Streams of events\<close>

text \<open>The one thing a stream of events writes.\<close>

datatype written = Completed json json | Failed string

definition put :: "(json \<Rightarrow> json \<Rightarrow> db \<Rightarrow> db) \<Rightarrow> (string \<Rightarrow> db \<Rightarrow> db) \<Rightarrow> written \<Rightarrow> db \<Rightarrow> db" where
  "put finish failed x d = (case x of Completed u i \<Rightarrow> finish u i d | Failed t \<Rightarrow> failed t d)"

definition event_type :: "json \<Rightarrow> json" where
  "event_type event = jget (as_dict event) ''type''"

definition terminal :: "json \<Rightarrow> bool" where
  "terminal event \<longleftrightarrow> event_type event \<in> {JStr ''response.completed'', JStr ''response.failed''}"

definition written_by :: "(json \<Rightarrow> string) \<Rightarrow> json \<Rightarrow> written" where
  "written_by render event =
     (if event_type event = JStr ''response.completed''
      then (let resp = as_dict (jget (as_dict event) ''response'') in Completed (jget resp ''usage'') (jget resp ''id''))
      else Failed (failure_text render (as_dict event)))"

definition at_end :: "nat \<Rightarrow> json list \<Rightarrow> string option \<Rightarrow> written" where
  "at_end room events raises =
     (if room < length (takeWhile is_object events) then Completed JNull JNull
      else case dropWhile is_object events of
        c # _ \<Rightarrow> Failed (exception_text (no_get_text c))
      | [] \<Rightarrow> (case raises of None \<Rightarrow> Completed JNull JNull
               | Some text \<Rightarrow> Failed (exception_text text)))"

definition stream_writes :: "(json \<Rightarrow> string) \<Rightarrow> nat \<Rightarrow> json list \<Rightarrow> string option \<Rightarrow> written" where
  "stream_writes render room events raises =
     (case find terminal (take (Suc room) (takeWhile is_object events)) of
        Some event \<Rightarrow> written_by render event
      | None \<Rightarrow> at_end room events raises)"

definition event_frame :: "json \<Rightarrow> frame" where
  "event_frame event = Frame (if truthy (event_type event) then event_type event else JNull) event"

lemma response_events_other:
  "\<not> is_object c \<Longrightarrow>
     response_events render finish failed room (c # events) raises persisted d =
       ([], if persisted then d else failed (exception_text (no_get_text c)) d)"
  by (cases c) (simp_all add: is_object_def)

lemma response_events_object:
  "response_events render finish failed room (JObj kvs # events) raises persisted d =
     (let ends = (terminal (JObj kvs) \<and> \<not> persisted);
          d1 = (if ends then put finish failed (written_by render (JObj kvs)) d else d);
          rest = response_events render finish failed (room - 1) events raises (persisted \<or> ends) d1
      in if room = 0 then ([], if persisted \<or> ends then d1 else finish JNull JNull d1)
         else (event_frame (JObj kvs) # fst rest, snd rest))"
proof -
  let ?t = "jget kvs ''type''"
  have type: "event_type (JObj kvs) = ?t" "as_dict (JObj kvs) = kvs"
    by (simp_all add: event_type_def as_dict_def)
  have frame: "event_frame (JObj kvs) = Frame (if truthy ?t then ?t else JNull) (JObj kvs)"
    by (simp add: event_frame_def type)
  consider (completes) "?t = JStr ''response.completed''" | (fails) "?t = JStr ''response.failed''"
    | (other) "?t \<noteq> JStr ''response.completed''" "?t \<noteq> JStr ''response.failed''"
    by blast
  then show ?thesis
  proof cases
    case completes
    then have "terminal (JObj kvs)" "put finish failed (written_by render (JObj kvs)) d =
        finish (jget (as_dict (jget kvs ''response'')) ''usage'') (jget (as_dict (jget kvs ''response'')) ''id'') d"
      by (simp_all add: terminal_def type written_by_def put_def Let_def)
    then show ?thesis
      by (cases "room = 0"; cases persisted)
        (simp_all only: frame response_events.simps json.case Let_def case_prod_beta completes json.inject
          list.inject char.inject simp_thms if_True if_False)
  next
    case fails
    then have "terminal (JObj kvs)"
      "put finish failed (written_by render (JObj kvs)) d = failed (failure_text render kvs) d"
      by (simp_all add: terminal_def type written_by_def put_def)
    then show ?thesis
      by (cases "room = 0"; cases persisted)
        (simp_all only: frame response_events.simps json.case Let_def case_prod_beta fails json.inject
          list.inject char.inject simp_thms if_True if_False)
  next
    case other
    then have "\<not> terminal (JObj kvs)" by (simp add: terminal_def type)
    then show ?thesis
      by (cases "room = 0"; cases persisted)
        (simp_all only: frame response_events.simps json.case Let_def case_prod_beta other simp_thms if_True if_False)
  qed
qed

lemma stream_writes_Cons:
  "stream_writes render room (JObj kvs # events) raises =
     (if terminal (JObj kvs) then written_by render (JObj kvs)
      else if room = 0 then Completed JNull JNull else stream_writes render (room - 1) events raises)"
  by (cases room) (simp_all add: stream_writes_def at_end_def is_object_def split: option.split)

lemma stream_writes_other:
  "\<not> is_object c \<Longrightarrow> stream_writes render room (c # events) raises =
     Failed (exception_text (no_get_text c))"
  by (simp add: stream_writes_def at_end_def)

lemma response_events_spec:
  "response_events render finish failed room events raises persisted d =
     (take room (map event_frame (takeWhile is_object events)),
      if persisted then d else put finish failed (stream_writes render room events raises) d)"
proof (induction events arbitrary: room persisted d)
  case Nil
  then show ?case
    by (simp add: stream_writes_def at_end_def put_def split: option.split)
next
  case (Cons c events)
  show ?case
  proof (cases "is_object c")
    case False
    then show ?thesis
      by (simp add: response_events_other stream_writes_other put_def del: response_events.simps)
  next
    case True
    then obtain kvs where c: "c = JObj kvs" by (cases c) (simp_all add: is_object_def)
    have "is_object (JObj kvs)" by (simp add: is_object_def)
    then show ?thesis
      by (cases room) (auto simp: c response_events_object Cons.IH Let_def stream_writes_Cons put_def
          simp del: response_events.simps(2))
  qed
qed

lemma same_calls_emit: "same_calls d (emit_credential_auth_failed e ex p c d)"
  by (simp add: same_calls_def emit_credential_auth_failed_def)

lemma charged_store: "charged e d d1 \<Longrightarrow> charged e d (store_response e' a p r t d1)"
  by (simp add: charged_def store_response_def Let_def)

lemma charged_persist:
  assumes "persist_responses_call e rid a model provider want usage i d1 = Some d2" "same_calls d d1"
    "a \<in> set (allocations d)" "allocation_refusal e a d = None"
  shows "charged e d d2"
  using assms(1) charged_success [OF assms(2-4)]
  by (auto simp: persist_responses_call_def Let_def intro: charged_store
      split: option.splits if_splits)

lemma one_call_failed:
  "same_calls d d1 \<Longrightarrow> one_call e d (record_failed e rid a model msg d1)"
  unfolding one_call_def same_calls_def
  by (auto simp: record_failed_def record_call_rows record_call_row charge_ok_def)

lemma call_responses_effect:
  assumes "run_preflight e token model d = (Inr (PreflightSuccess ok), d1)"
  shows "effect e d (call_responses e render up ups room rid body args ok d d1)"
proof -
  note same = run_preflight_calls [OF assms] and adm = run_preflight_admitted(1,2) [OF assms]
  let ?m = "pf_canonical_model ok" and ?w = "truthy (jget body ''store'')"
  have persist: "charged e d d2"
    if "persist_responses_call e rid (pf_allocation ok) ?m (pf_provider ok) ?w u i d1 = Some d2" for u i d2
    by (rule charged_persist [OF that same adm])
  have completed: "one_call e d (case persist_responses_call e rid (pf_allocation ok) ?m (pf_provider ok) ?w u i d1 of
      Some d' \<Rightarrow> d' | None \<Rightarrow> d1)" for u i
    by (rule one_call_write [OF one_call_charged [OF persist] same])
  have streamed: "one_call e d (put (\<lambda>u i d. case persist_responses_call e rid (pf_allocation ok) ?m (pf_provider ok) ?w u i d of
        Some d' \<Rightarrow> d' | None \<Rightarrow> d) (record_failed e rid (pf_allocation ok) ?m) x d1)" for x
    by (cases x) (simp_all add: put_def completed one_call_failed [OF same])
  have refused: "effect e d (reject_upstream e rid (pf_allocation ok) ?m ex
      (emit_credential_auth_failed e ex (pf_provider ok) c d1))" for ex c
    by (rule effect_upstream [OF same_calls_trans [OF same same_calls_emit]])
  show ?thesis
    using persist streamed refused
    by (auto simp: call_responses_def Let_def effect_crash response_events_spec
        split: attempt.split option.split prod.split upstream_body.split)
qed

lemma serve_responses_effect:
  assumes "run_preflight e token model d = (Inr (PreflightSuccess ok), d1)"
  shows "effect e d (serve_responses e render up ups room txt rid body ok d d1)"
  using call_responses_effect [OF assms] effect_rejected [OF run_preflight_calls [OF assms]]
  by (simp add: serve_responses_def Let_def effect_crash split: json.split continuation.split)

lemma responses_effect: "effect e d (proxy_responses e render up ups room txt rid auth body d)"
  by (auto simp: proxy_responses_def effect_rejected same_calls_def effect_crash
      intro: effect_rejection serve_responses_effect
      split: option.split prod.split json.split sum.split preflight_result.split request_body.split)

end
