(* ===== verification/ProxyTheorems.thy ===== *)
theory ProxyTheorems
  imports ProxyCalls PricingTheorems
begin

text \<open>
  The proxy as a whole: whatever mix of requests to the chat, responses and registry endpoints
  arrives, and however the upstream answers, the records, bills and caps stay right.  The locale
  \<open>capped_calls\<close> joins the contract of a handler with that of a cap.
\<close>

section \<open>Requests one after the other\<close>

fun traffic :: "(env \<Rightarrow> 'q \<Rightarrow> db \<Rightarrow> 'r \<times> db) \<Rightarrow> env \<Rightarrow> (timestamp \<times> 'q) list \<Rightarrow> db \<Rightarrow> db" where
  "traffic handle e [] d = d"
| "traffic handle e ((t, q) # qs) d = traffic handle e qs (snd (handle (at_time e t) q d))"

locale proxied =
  fixes handle :: "env \<Rightarrow> 'q \<Rightarrow> db \<Rightarrow> 'r \<times> db"
  assumes one: "one_call e d (snd (handle e q d))"
begin

lemma allocations_kept: "allocations (traffic handle e qs d) = allocations d"
proof (induction qs arbitrary: d)
  case (Cons tq qs)
  then show ?case using one [of "at_time e (fst tq)" d "snd tq"]
    by (cases tq) (simp add: one_call_def)
qed simp

lemma records_kept: "set (call_records d) \<subseteq> set (call_records (traffic handle e qs d))"
proof (induction qs arbitrary: d)
  case (Cons tq qs)
  obtain t q where tq: "tq = (t, q)" by fastforce
  have "set (call_records d) \<subseteq> set (call_records (snd (handle (at_time e t) q d)))"
    using one [of "at_time e t" d q] by (auto simp: one_call_def)
  with Cons.IH show ?case unfolding tq traffic.simps by blast
qed simp

end

text \<open>A cap that the pipeline checks.\<close>

locale capped_calls = proxied handle + monthly_cap cap amount usage over measure_of
  for handle :: "env \<Rightarrow> 'q \<Rightarrow> db \<Rightarrow> 'r \<times> db"
    and cap :: "allocation \<Rightarrow> 'u option"
    and amount :: "call_record \<Rightarrow> 'u option"
    and usage :: "env \<Rightarrow> string \<Rightarrow> db \<Rightarrow> 'u"
    and over :: "allocation \<Rightarrow> 'u \<Rightarrow> bool"
    and measure_of :: "'u \<Rightarrow> rat" +
  assumes checked: "allocation_refusal e a d = None \<Longrightarrow> cap a = Some c \<Longrightarrow>
    measure_of (usage e (a_id a) d) < measure_of c"
begin

lemma usage_appended:
  "call_records d' = call_records d @ [r] \<Longrightarrow>
     measure_of (usage e aid d') = measure_of (usage e aid d) +
       (if r_allocation_id r = Some aid \<and> r_outcome r = success \<and>
           current_month_start_utc (now e) \<le> r_started_at r then spent r else 0)"
  by (simp add: usage_spent month_calls_def)

lemma usage_same_calls:
  "call_records d' = call_records d \<Longrightarrow> measure_of (usage e aid d') = measure_of (usage e aid d)"
  by (simp add: usage_spent month_calls_def)

lemma usage_same_month:
  "current_month_start_utc t = current_month_start_utc (now e) \<Longrightarrow>
     measure_of (usage (at_time e t) aid d) = measure_of (usage e aid d)"
  by (simp add: usage_spent)

lemma call_bound:
  assumes one: "one_call (at_time e t) d d'" and ids: "distinct (map a_id (allocations d))"
    and a: "a \<in> set (allocations d)" "cap a = Some c"
    and month: "current_month_start_utc t = current_month_start_utc (now e)"
    and small: "\<And>r. r \<in> set (call_records d') \<Longrightarrow> spent r \<le> b" and b: "0 \<le> b"
    and usage: "measure_of (usage e (a_id a) d) < measure_of c + b"
  shows "measure_of (usage e (a_id a) d') < measure_of c + b"
proof -
  obtain rs where rs: "call_records d' = call_records d @ rs" "length rs \<le> 1"
      "\<And>r. r \<in> set rs \<Longrightarrow> charge_ok (at_time e t) d r"
    using one by (auto simp: one_call_def)
  show ?thesis
  proof (cases rs)
    case Nil
    then show ?thesis using usage usage_same_calls [of d' d e] rs(1) by simp
  next
    case (Cons r rs')
    then have r: "call_records d' = call_records d @ [r]" "charge_ok (at_time e t) d r" "spent r \<le> b"
      using rs small by auto
    show ?thesis
    proof (cases "r_allocation_id r = Some (a_id a) \<and> r_outcome r = success")
      case False
      then show ?thesis using usage by (auto simp: usage_appended [OF r(1)])
    next
      case True
      then obtain a' where "a' \<in> set (allocations d)" "a_id a' = a_id a"
          "allocation_refusal (at_time e t) a' d = None"
        using r(2) by (auto simp: charge_ok_def)
      then have "allocation_refusal (at_time e t) a d = None"
        using distinct_map_eqD [OF ids] a(1) by metis
      then have "measure_of (usage e (a_id a) d) < measure_of c"
        using checked [of "at_time e t" a d c] a(2) usage_same_month [OF month] by simp
      then show ?thesis using r(3) b by (simp add: usage_appended [OF r(1)])
    qed
  qed
qed

lemma traffic_bound:
  assumes "distinct (map a_id (allocations d))" "a \<in> set (allocations d)" "cap a = Some c"
    and "\<And>t q. (t, q) \<in> set qs \<Longrightarrow> current_month_start_utc t = current_month_start_utc (now e)"
    and "\<And>r. r \<in> set (call_records (traffic handle e qs d)) \<Longrightarrow> spent r \<le> b" and "0 \<le> b"
    and "measure_of (usage e (a_id a) d) < measure_of c + b"
  shows "measure_of (usage e (a_id a) (traffic handle e qs d)) < measure_of c + b"
  using assms
proof (induction qs arbitrary: d)
  case (Cons tq qs)
  obtain t q where tq: "tq = (t, q)" by fastforce
  let ?d = "snd (handle (at_time e t) q d)"
  have one: "one_call (at_time e t) d ?d" by (rule one)
  have small: "spent r \<le> b" if "r \<in> set (call_records ?d)" for r
    using Cons.prems(5) that records_kept [of ?d e qs] by (auto simp: tq)
  have "measure_of (usage e (a_id a) ?d) < measure_of c + b"
    by (rule call_bound [OF one Cons.prems(1-3) _ small Cons.prems(6,7)])
      (use Cons.prems(4) in \<open>auto simp: tq\<close>)
  moreover have "allocations ?d = allocations d" using one by (simp add: one_call_def)
  ultimately show ?case using Cons.IH [of ?d] Cons.prems by (auto simp: tq)
qed simp

end

section \<open>The proxy\<close>

text \<open>A request of any kind, together with how the upstream behaves while it is served.\<close>

datatype proxy_request =
    EndpointRequest endpoint_spec "upstream_body litellm" string "string option" request_body
  | ChatRequest "upstream_body litellm" "stream litellm" nat string "string option" request_body
  | ResponsesRequest "upstream_body litellm" "event_stream litellm" nat string "string option" request_body

definition proxy :: "texts \<Rightarrow> (json \<Rightarrow> string) \<Rightarrow> env \<Rightarrow> proxy_request \<Rightarrow> db \<Rightarrow> reply \<times> db" where
  "proxy txt render e q d =
     (case q of
        EndpointRequest spec up rid auth body \<Rightarrow> run_endpoint e up txt spec rid auth body d
      | ChatRequest up ups room rid auth body \<Rightarrow> proxy_chat_completions e up ups room txt rid auth body d
      | ResponsesRequest up ups room rid auth body \<Rightarrow> proxy_responses e render up ups room txt rid auth body d)"

lemma proxy_effect: "effect e d (proxy txt render e q d)"
  by (simp add: proxy_def endpoint_effect chat_effect responses_effect split: proxy_request.split)

lemma refusal_tokens:
  "allocation_refusal e a d = None \<Longrightarrow> a_quota_tokens a = Some c \<Longrightarrow>
     (of_int (current_month_usage e (a_id a) d) :: rat) < of_int c"
  by (simp add: allocation_refusal_None)

lemma refusal_cost:
  "allocation_refusal e a d = None \<Longrightarrow> a_quota_cost a = Some c \<Longrightarrow>
     dec_val (current_month_cost e (a_id a) d) < dec_val c"
  by (simp add: allocation_refusal_None)

interpretation proxy_tokens: capped_calls "proxy tx render" a_quota_tokens r_total_tokens
    current_month_usage is_over_quota of_int for tx render
  by unfold_locales (use proxy_effect refusal_tokens in \<open>auto simp: effect_def\<close>)

interpretation proxy_cost: capped_calls "proxy tx render" a_quota_cost r_cost_usd
    current_month_cost is_over_cost_quota dec_val for tx render
  by unfold_locales (rule refusal_cost)

section \<open>Properties\<close>




section \<open>Naming the model by its alias\<close>

text \<open>The session without the model names as the clients wrote them.\<close>

definition forget_names :: "db \<Rightarrow> db" where
  "forget_names d = call_records_update (map (\<lambda>r. r\<lparr>r_model := None\<rparr>)) d"

text \<open>A request for a model, in a JSON body.\<close>

definition ask :: "string \<Rightarrow> (string \<times> json) list \<Rightarrow> request_body" where
  "ask name kvs = Json (JObj ((''model'', JStr name) # kvs))"

lemma run_preflight_same_name:
  assumes "key_of e token d = Some c" "resolve_scope_allocation c name d = resolve_scope_allocation c name' d"
  shows "run_preflight e token name d = run_preflight e token name' d"
  by (simp add: run_preflight_def lookup_key assms resolve_touched)

lemma granted_names:
  assumes wf: "scope_wf e d" and key: "key_of e token d = Some c" and grants: "grants d c name a"
  shows "resolve_scope_allocation c name d = Some a"
    "resolve_scope_allocation c (a_resource_model a) d = Some a"
    "model_key name = model_key (a_resource_model a)"
proof -
  have c: "c \<in> set (credentials d)" using key_of_mem [OF key] by blast
  show "resolve_scope_allocation c name d = Some a" using resolve_grants [OF wf c] grants by simp
  have "grants d c (a_resource_model a) a" using grants by (simp add: grants_def)
  then show "resolve_scope_allocation c (a_resource_model a) d = Some a" using resolve_grants [OF wf c] by simp
  show "model_key name = model_key (a_resource_model a)"
    using grants by (auto simp: grants_def model_key_def split_last_def)
qed

lemma forget_record:
  "forget_names (snd (record_call e rid al m t st out f d)) = forget_names (snd (record_call e rid al m' t st out f d))"
  by (simp add: forget_names_def record_call_def Let_def case_prod_beta)

lemma forget_rejected:
  "fst (reject_call e rid al m code msg st d) = fst (reject_call e rid al m' code msg st d)"
  "forget_names (snd (reject_call e rid al m code msg st d)) = forget_names (snd (reject_call e rid al m' code msg st d))"
  by (simp_all add: reject_call_def forget_record [of e rid al m _ _ _ _ _ m'])

lemma forget_upstream:
  "fst (reject_upstream e rid a m ex d) = fst (reject_upstream e rid a m' ex d)"
  "forget_names (snd (reject_upstream e rid a m ex d)) = forget_names (snd (reject_upstream e rid a m' ex d))"
  by (simp_all add: reject_upstream_def forget_rejected(1) [of e rid _ "Some m" _ _ _ _ "Some m'"]
      forget_rejected(2) [of e rid _ "Some m" _ _ _ _ "Some m'"] split: prod.split)

lemma field_other: "k \<noteq> ''model'' \<Longrightarrow> field ((''model'', x) # fs) k = field fs k"
  by (simp add: field_def)

lemma sent_other: "''model'' \<notin> set ks \<Longrightarrow> sent ks ((''model'', x) # fs) = sent ks fs"
  unfolding sent_def by (induction ks) (auto simp: field_other)

lemma transcription_other:
  "transcription_call up ((''model'', x) # fs) r m = transcription_call up fs r m"
  by (simp add: transcription_call_def sent_other field_other stt_passthrough_def Let_def split: attempt.split)

lemma specs_ignore_model:
  assumes "spec \<in> set specs"
  shows "es_call spec up ((''model'', x) # fs) r m = es_call spec up fs r m"
    "measure_call (es_meter spec) ((''model'', x) # fs) pl p = measure_call (es_meter spec) fs pl p"
    "list_ex (\<lambda>k. field ((''model'', x) # fs) k = Arg JNull) (es_required spec) \<longleftrightarrow>
       list_ex (\<lambda>k. field fs k = Arg JNull) (es_required spec)"
  using assms
  by (auto simp: specs_def json_spec_def field_other sent_other transcription_other input_length_def
      measure_call_def measure_units_def ocr_passthrough_def)

lemma serve_call_names:
  assumes "spec \<in> set specs" "model_key m = model_key m'"
  shows "fst (serve_call e up spec rid m ((''model'', x) # fs) ok d0 d) =
      fst (serve_call e up spec rid m' ((''model'', x') # fs) ok d0 d)"
    "forget_names (snd (serve_call e up spec rid m ((''model'', x) # fs) ok d0 d)) =
      forget_names (snd (serve_call e up spec rid m' ((''model'', x') # fs) ok d0 d))"
  using forget_record [of e rid _ "Some m" _ _ _ _ _ "Some m'"] forget_upstream [of e rid _ m _ _ m']
  by (simp_all add: serve_call_def specs_ignore_model [OF assms(1)] assms(2) Let_def
      split: attempt.split option.split)

lemma endpoint_names:
  assumes spec: "spec \<in> set specs" and wf: "scope_wf e d" and token: "parse_bearer_token auth = Some token"
    and key: "key_of e token d = Some c" and grants: "grants d c name a"
  shows "fst (run_endpoint e up tx spec rid auth (ask name kvs) d) =
      fst (run_endpoint e up tx spec rid auth (ask (a_resource_model a) kvs) d)"
    "forget_names (snd (run_endpoint e up tx spec rid auth (ask name kvs) d)) =
      forget_names (snd (run_endpoint e up tx spec rid auth (ask (a_resource_model a) kvs) d))"
proof -
  note names = granted_names [OF wf key grants]
  have flight: "run_preflight e token name d = run_preflight e token (a_resource_model a) d"
    by (rule run_preflight_same_name [OF key]) (simp add: names)
  have parsed: "parse_request spec (ask n kvs) =
      Some (JStr n, (''model'', Arg (JStr n)) # map (\<lambda>(k, v). (k, Arg v)) kvs)" for n
    by (simp add: parse_request_def ask_def jget_def)
  show "fst (run_endpoint e up tx spec rid auth (ask name kvs) d) =
      fst (run_endpoint e up tx spec rid auth (ask (a_resource_model a) kvs) d)"
    "forget_names (snd (run_endpoint e up tx spec rid auth (ask name kvs) d)) =
      forget_names (snd (run_endpoint e up tx spec rid auth (ask (a_resource_model a) kvs) d))"
    using forget_rejected [of e rid _ "Some name" _ _ _ _ "Some (a_resource_model a)"]
      serve_call_names [OF spec names(3)]
    by (simp_all add: run_endpoint_def token parsed flight specs_ignore_model(3) [OF spec]
        split: sum.split prod.split preflight_result.split)
qed

lemma jget_other: "k \<noteq> ''model'' \<Longrightarrow> jget ((''model'', x) # kvs) k = jget kvs k"
  by (simp add: jget_def)

lemma forget_bill:
  assumes "model_key m = model_key m'"
  shows "map_option forget_names (bill_chat e rid a m p u d) = map_option forget_names (bill_chat e rid a m' p u d)"
  using forget_record [of e rid "Some a" "Some m" _ _ _ _ d "Some m'"]
  by (simp add: bill_chat_def assms split: json.split option.split)

lemma forget_fresh:
  assumes "model_key m = model_key m'"
  shows "forget_names (record_fresh (bill_chat e rid a m p) u d) = forget_names (record_fresh (bill_chat e rid a m' p) u d)"
  using forget_bill [OF assms, of e rid a p u d] by (auto simp: record_fresh_def split: option.splits)

lemma forget_answer:
  assumes "model_key m = model_key m'"
  shows "fst (case bill_chat e rid a m p u d of None \<Rightarrow> crash d0 d | Some d' \<Rightarrow> (Answered pl, d')) =
      fst (case bill_chat e rid a m' p u d of None \<Rightarrow> crash d0 d | Some d' \<Rightarrow> (Answered pl, d'))"
    "forget_names (snd (case bill_chat e rid a m p u d of None \<Rightarrow> crash d0 d | Some d' \<Rightarrow> (Answered pl, d'))) =
      forget_names (snd (case bill_chat e rid a m' p u d of None \<Rightarrow> crash d0 d | Some d' \<Rightarrow> (Answered pl, d')))"
  using forget_bill [OF assms, of e rid a p u d] by (auto split: option.splits)

lemma serve_chat_names:
  assumes "model_key m = model_key m'"
  shows "fst (serve_chat e up ups room rid m ((''model'', x) # kvs) ok d0 d) =
      fst (serve_chat e up ups room rid m' ((''model'', x') # kvs) ok d0 d)" (is ?same)
    and "forget_names (snd (serve_chat e up ups room rid m ((''model'', x) # kvs) ok d0 d)) =
      forget_names (snd (serve_chat e up ups room rid m' ((''model'', x') # kvs) ok d0 d))" (is ?forget)
proof -
  have args: "sent chat_passthrough ((''model'', y) # fs) = sent chat_passthrough fs" for y fs
    by (rule sent_other) (simp add: chat_passthrough_def)
  note [simp] = jget_other args Let_def chat_events_spec forget_upstream [of e rid _ m _ _ m']
    forget_answer [OF assms] forget_fresh [OF assms]
  show ?same ?forget
    by (cases "obj_or_empty (jget kvs ''stream_options'')";
        simp add: serve_chat_def split: attempt.split prod.split upstream_body.split)+
qed

text \<open>The request with another model and body, and its parts.\<close>

fun naming :: "string \<Rightarrow> (string \<times> json) list \<Rightarrow> proxy_request \<Rightarrow> proxy_request" where
  "naming name kvs (EndpointRequest spec up rid auth body) = EndpointRequest spec up rid auth (ask name kvs)"
| "naming name kvs (ChatRequest up ups room rid auth body) = ChatRequest up ups room rid auth (ask name kvs)"
| "naming name kvs (ResponsesRequest up ups room rid auth body) = ResponsesRequest up ups room rid auth (ask name kvs)"

fun authorization_of :: "proxy_request \<Rightarrow> string option" where
  "authorization_of (EndpointRequest spec up rid auth body) = auth"
| "authorization_of (ChatRequest up ups room rid auth body) = auth"
| "authorization_of (ResponsesRequest up ups room rid auth body) = auth"

fun registered :: "proxy_request \<Rightarrow> bool" where
  "registered (EndpointRequest spec up rid auth body) \<longleftrightarrow> spec \<in> set specs"
| "registered _ \<longleftrightarrow> True"

lemma chat_names:
  assumes wf: "scope_wf e d" and token: "parse_bearer_token auth = Some token"
    and key: "key_of e token d = Some c" and grants: "grants d c name a"
  shows "fst (proxy_chat_completions e up ups room tx rid auth (ask name kvs) d) =
      fst (proxy_chat_completions e up ups room tx rid auth (ask (a_resource_model a) kvs) d)"
    "forget_names (snd (proxy_chat_completions e up ups room tx rid auth (ask name kvs) d)) =
      forget_names (snd (proxy_chat_completions e up ups room tx rid auth (ask (a_resource_model a) kvs) d))"
proof -
  note names = granted_names [OF wf key grants]
  have flight: "run_preflight e token name d = run_preflight e token (a_resource_model a) d"
    by (rule run_preflight_same_name [OF key]) (simp add: names)
  have model: "jget ((''model'', JStr n) # kvs) ''model'' = JStr n" for n by (simp add: jget_def)
  note [simp] = token model flight ask_def jget_other text_column_def serve_chat_names [OF names(3)]
    forget_rejected [of e rid _ "Some name" _ _ _ _ "Some (a_resource_model a)"]
  show "fst (proxy_chat_completions e up ups room tx rid auth (ask name kvs) d) =
      fst (proxy_chat_completions e up ups room tx rid auth (ask (a_resource_model a) kvs) d)"
    "forget_names (snd (proxy_chat_completions e up ups room tx rid auth (ask name kvs) d)) =
      forget_names (snd (proxy_chat_completions e up ups room tx rid auth (ask (a_resource_model a) kvs) d))"
    by (simp add: proxy_chat_completions_def split: json.split sum.split prod.split preflight_result.split)+
qed

lemma responses_names:
  assumes wf: "scope_wf e d" and token: "parse_bearer_token auth = Some token"
    and key: "key_of e token d = Some c" and grants: "grants d c name a"
  shows "fst (proxy_responses e render up ups room tx rid auth (ask name kvs) d) =
      fst (proxy_responses e render up ups room tx rid auth (ask (a_resource_model a) kvs) d)"
    "forget_names (snd (proxy_responses e render up ups room tx rid auth (ask name kvs) d)) =
      forget_names (snd (proxy_responses e render up ups room tx rid auth (ask (a_resource_model a) kvs) d))"
proof -
  note names = granted_names [OF wf key grants]
  have flight: "run_preflight e token name d = run_preflight e token (a_resource_model a) d"
    by (rule run_preflight_same_name [OF key]) (simp add: names)
  have args: "sent responses_passthrough ((''model'', y) # fs) = sent responses_passthrough fs" for y fs
    by (rule sent_other) (simp add: responses_passthrough_def)
  have call: "call_responses e render up ups room rid ((''model'', x) # kvs) more ok d0 d1 =
      call_responses e render up ups room rid ((''model'', x') # kvs) more ok d0 d1" for x x' more ok d0 d1
    by (simp add: call_responses_def jget_other args Let_def)
  have serve: "serve_responses e render up ups room tx rid ((''model'', x) # kvs) ok d0 d1 =
      serve_responses e render up ups room tx rid ((''model'', x') # kvs) ok d0 d1" for x x' ok d0 d1
    by (simp add: serve_responses_def jget_other Let_def call [of x _ _ _ _ x'] split: json.split continuation.split)
  have model: "jget ((''model'', JStr n) # kvs) ''model'' = JStr n" for n by (simp add: jget_def)
  note [simp] = token model flight ask_def jget_other text_column_def
    serve [of "JStr name" _ _ _ "JStr (a_resource_model a)"]
    forget_rejected [of e rid _ "Some name" _ _ _ _ "Some (a_resource_model a)"]
  show "fst (proxy_responses e render up ups room tx rid auth (ask name kvs) d) =
      fst (proxy_responses e render up ups room tx rid auth (ask (a_resource_model a) kvs) d)"
    "forget_names (snd (proxy_responses e render up ups room tx rid auth (ask name kvs) d)) =
      forget_names (snd (proxy_responses e render up ups room tx rid auth (ask (a_resource_model a) kvs) d))"
    by (simp add: proxy_responses_def split: sum.split prod.split preflight_result.split)+
qed


section \<open>Concrete traffic\<close>

text \<open>An embeddings request for the granted model, whose upstream reports 90 tokens.\<close>

definition sample_upstream :: "upstream_body litellm" where
  "sample_upstream n f kws =
     Returned (Payload [(''usage'', JObj [(''prompt_tokens'', JInt 90), (''total_tokens'', JInt 90)])])"

definition sample_request :: proxy_request where
  "sample_request = EndpointRequest (hd specs) sample_upstream ''q'' one_header
     (ask ''gpt-4o'' [(''input'', JStr ''hi'')])"

lemma rejected_row:
  "r \<in> set (call_records (snd (reject_call e rid al m code msg st d))) \<longleftrightarrow>
     r \<in> set (call_records d) \<or>
     r = fst (record_call e rid al m (now e) st (outcome_for_code code) (no_facts\<lparr>cf_error := Some msg\<rparr>) d)"
  by (auto simp: reject_call_def record_call_rows)

lemma sample_counts:
  "token_counts [(''usage'', JObj [(''prompt_tokens'', JInt 90), (''total_tokens'', JInt 90)])] =
     Some (Some 90, 0, Some 90)"
  by (simp add: token_counts_def jget_def obj_or_empty_def truthy_def int_column_def first_present_def)

lemma unpriced: "prices d = [] \<Longrightarrow> lookup_price_for_call p m t d = None"
  by (simp add: lookup_price_for_call_def)

lemma sample_row:
  assumes "r \<in> set (call_records (snd (proxy tx render e sample_request d)))" "prices d = []"
  shows "r \<in> set (call_records d) \<or> r_total_tokens r \<in> {None, Some 90} \<and> r_cost_usd r = None"
proof -
  have parsed: "parse_request (hd specs) (ask ''gpt-4o'' [(''input'', JStr ''hi'')]) =
      Some (JStr ''gpt-4o'', [(''model'', Arg (JStr ''gpt-4o'')), (''input'', Arg (JStr ''hi''))])"
    by (simp add: parse_request_def ask_def jget_def)
  have spec: "es_call (hd specs) sample_upstream fs res m =
      Returned (Payload [(''usage'', JObj [(''prompt_tokens'', JInt 90), (''total_tokens'', JInt 90)])])"
    "es_meter (hd specs) = TokenMeter" "es_output (hd specs) = JsonShape" "es_required (hd specs) = [''input'']"
    for fs res m
    by (simp_all add: specs_def json_spec_def sample_upstream_def)
  have same: "call_records d1 = call_records d" "prices d1 = []" if "run_preflight e t m d = (x, d1)" for t m x d1
    using run_preflight_calls [OF that] assms(2) by (simp_all add: same_calls_def)
  show ?thesis
    using assms(1)
    by (auto simp: proxy_def sample_request_def run_endpoint_def parsed spec field_def serve_call_def Let_def
        rejected_row record_call_row record_call_rows same unpriced measure_call_def measure_tokens_def
        sample_counts calculate_cost_def no_facts_def crash_def rollback_to_def
        split: option.splits sum.splits prod.splits preflight_result.splits)
qed

definition capped_grant :: db where
  "capped_grant = allocations_update
     (map (\<lambda>a. a\<lparr>a_quota_tokens := Some 100, a_quota_cost := Some (Dec 1 0)\<rparr>)) one_grant"

lemma one_grant_unpriced: "prices one_grant = []"
  by (simp add: one_grant_def create_allocation_def ensure_external_member_def
      issue_allocation_def Let_def case_prod_beta empty_db_def sample_env_def new_credential_def
      add_credential_row_def add_links_def tick_def)

lemma sample_traffic_rows:
  assumes "r \<in> set (call_records (traffic (proxy tx render) e [(t1, sample_request), (t2, sample_request)] capped_grant))"
  shows "r_total_tokens r \<in> {None, Some 90} \<and> r_cost_usd r = None"
proof -
  let ?d = "snd (proxy tx render (at_time e t1) sample_request capped_grant)"
  have none: "prices capped_grant = []" "call_records capped_grant = []"
    by (simp_all add: capped_grant_def one_grant_unpriced one_grant_unused)
  then have "prices ?d = []"
    using proxy_effect [of "at_time e t1" capped_grant tx render sample_request]
    by (simp add: effect_def one_call_def)
  then have "r \<in> set (call_records ?d) \<or> r_total_tokens r \<in> {None, Some 90} \<and> r_cost_usd r = None"
    using sample_row assms by fastforce
  then show ?thesis using sample_row [of r tx render "at_time e t1" capped_grant] none by auto
qed

lemma capped_grant_row:
  obtains a where "allocations capped_grant = [a]" "a_id a = ''U00''" "a_quota_tokens a = Some 100"
    "a_quota_cost a = Some (Dec 1 0)"
  using one_grant_rows(2) by (cases "allocations one_grant") (auto simp: capped_grant_def)

definition sample_traffic :: db where
  "sample_traffic = traffic (proxy (\<lambda>c d. []) (\<lambda>j. [])) sample_env
     [(1000000000, sample_request), (1000000000, sample_request)] capped_grant"

lemma sample_month: "\<forall>(t, q) \<in> set [(1000000000, sample_request), (1000000000, sample_request)].
    current_month_start_utc t = current_month_start_utc (now sample_env)"
  by (simp add: sample_env_def)

lemma sample_small: "r \<in> set (call_records sample_traffic) \<Longrightarrow> r_total_tokens r \<in> {None, Some 90} \<and> r_cost_usd r = None"
  unfolding sample_traffic_def by (rule sample_traffic_rows)

lemma capped_grant_unused: "current_month_usage sample_env aid capped_grant = 0"
    "dec_val (current_month_cost sample_env aid capped_grant) = 0"
  by (simp_all add: current_month_usage_def sum_column_def current_month_cost_def dec_val_sum month_calls_def
      capped_grant_def one_grant_unused List.map_filter_simps)




end
