(* ===== verification/StreamTheorems.thy ===== *)
theory StreamTheorems
  imports ProxyTheorems
begin

text \<open>
  Streams, retries and stored conversations: what a stream relays and bills, how often a rejected
  call is repeated, and who can continue a stored response.
\<close>

section \<open>Streams\<close>

definition leaks_usage :: "frame \<Rightarrow> bool" where
  "leaks_usage f = (case f of Frame _ data \<Rightarrow> truthy (usage_of data) | Done \<Rightarrow> False)"

lemma usage_removed: "jget (map (\<lambda>(k, v). if k = ''usage'' then (k, JNull) else (k, v)) kvs) ''usage'' = JNull"
  by (induction kvs) (auto simp: jget_def)

lemma relayed_no_usage: "f \<in> set (relayed False kvs) \<Longrightarrow> \<not> leaks_usage f"
  by (auto simp: relayed_def leaks_usage_def usage_of_def without_usage_def as_dict_def usage_removed truthy_def
      split: if_splits)


text \<open>An event stream of the responses endpoint writes exactly one thing however it ends: the bill
  of the first event that completes, or the failure of the first that fails, among the events the
  client's frames reach; without one, the failure that broke the stream or an empty bill.\<close>

theorem responses_write_once:
  "response_events render finish failed room events raises False d =
     (take room (map event_frame (takeWhile is_object events)),
      put finish failed (stream_writes render room events raises) d)"
  by (simp add: response_events_spec)

section \<open>Retries\<close>

definition without_params :: "string list \<Rightarrow> kwargs \<Rightarrow> kwargs" where
  "without_params ps kws = filter (\<lambda>(k, a). k \<notin> set ps) kws"

lemma without_params_simps [simp]:
  "without_params [] kws = kws"
  "without_params ps (filter (\<lambda>(k, a). k \<noteq> p) kws) = without_params (p # ps) kws"
  by (auto simp: without_params_def case_prod_beta intro: filter_cong)

text \<open>The calls of one request: \<open>ps\<close> are the parameters given up, in order.\<close>

definition retried :: "'a litellm \<Rightarrow> (kwargs \<Rightarrow> kwargs) \<Rightarrow> nat \<Rightarrow> kwargs \<Rightarrow> string list \<Rightarrow> bool" where
  "retried up build n kws ps \<longleftrightarrow> distinct ps \<and> set ps \<subseteq> set (map fst kws) \<and>
     (\<forall>i < length ps. \<exists>ex. up (n + i) ''acompletion'' (build (without_params (take i ps) kws)) = Raised ex \<and>
        rejected_param (ex_text ex) = Some (ps ! i))"

lemma retried_Cons:
  assumes "up n ''acompletion'' (build kws) = Raised ex" "rejected_param (ex_text ex) = Some p"
    "p \<in> set (map fst kws)" "retried up build (Suc n) (filter (\<lambda>(k, a). k \<noteq> p) kws) ps"
  shows "retried up build n kws (p # ps)"
proof -
  have "\<exists>ex. up (n + i) ''acompletion'' (build (without_params (take i (p # ps)) kws)) = Raised ex \<and>
      rejected_param (ex_text ex) = Some ((p # ps) ! i)" if "i < length (p # ps)" for i
  proof (cases i)
    case 0
    with assms show ?thesis by simp
  next
    case (Suc j)
    with that assms(4) show ?thesis by (auto simp: retried_def)
  qed
  with assms(3,4) show ?thesis by (auto simp: retried_def)
qed

text \<open>The retry loop ends: it repeats the call at most once per parameter the client sent, each
  time giving up exactly the parameter the upstream has just named, and its result is that of the
  last call, which returned or failed for another reason.\<close>

theorem retries_drop_rejected:
  "\<exists>ps. retried up build n kws ps \<and> length ps \<le> length kws \<and>
     call_upstream up build n kws = up (n + length ps) ''acompletion'' (build (without_params ps kws)) \<and>
     (case call_upstream up build n kws of
        Returned x \<Rightarrow> True
      | Raised ex \<Rightarrow> rejected_param (ex_text ex) \<notin> Some ` set (map fst (without_params ps kws)))"
proof (induction up build n kws rule: call_upstream.induct)
  case (1 up build n kws)
  let ?out = "up n ''acompletion'' (build kws)"
  show ?case
  proof (cases "\<exists>ex p. ?out = Raised ex \<and> rejected_param (ex_text ex) = Some p \<and> p \<in> set (map fst kws)")
    case True
    then obtain ex p where again: "?out = Raised ex" "rejected_param (ex_text ex) = Some p" "p \<in> set (map fst kws)"
      by blast
    let ?kws = "filter (\<lambda>(k, a). k \<noteq> p) kws"
    have step: "call_upstream up build n kws = call_upstream up build (Suc n) ?kws"
      using again by (subst call_upstream.simps) simp
    obtain ps where ps: "retried up build (Suc n) ?kws ps" "length ps \<le> length ?kws"
        "call_upstream up build (Suc n) ?kws = up (Suc n + length ps) ''acompletion'' (build (without_params ps ?kws))"
        "case call_upstream up build (Suc n) ?kws of Returned x \<Rightarrow> True
         | Raised ex \<Rightarrow> rejected_param (ex_text ex) \<notin> Some ` set (map fst (without_params ps ?kws))"
      using 1 [OF again] by blast
    have "length ?kws < length kws" using again(3) by (auto intro!: length_filter_less)
    with ps(1-3) ps(4) [unfolded without_params_simps] retried_Cons [OF again ps(1)] step
    show ?thesis by (intro exI [of _ "p # ps"]) simp
  next
    case False
    then have "call_upstream up build n kws = ?out"
      by (subst call_upstream.simps) (auto split: attempt.split option.split)
    with False show ?thesis
      by (intro exI [of _ "[]"]) (auto simp: retried_def split: attempt.split)
  qed
qed

section \<open>Stored conversations\<close>

lemma find_stored:
  assumes "sr_response_id row = k"
  shows "find (\<lambda>r. sr_response_id r = i)
      (if list_ex (\<lambda>r. sr_response_id r = k) rs then update_where (\<lambda>r. sr_response_id r = k) (\<lambda>_. row) rs
       else rs @ [row]) =
    (if i = k then Some row else find (\<lambda>r. sr_response_id r = i) rs)"
proof -
  have upd: "find (\<lambda>r. sr_response_id r = i) (update_where (\<lambda>r. sr_response_id r = k) (\<lambda>_. row) rs) =
      (if i = k then if list_ex (\<lambda>r. sr_response_id r = k) rs then Some row else None
       else find (\<lambda>r. sr_response_id r = i) rs)" for rs
    using assms by (induction rs) auto
  have "find (\<lambda>r. sr_response_id r = k) rs = None" if "\<not> list_ex (\<lambda>r. sr_response_id r = k) rs"
    using that by (auto simp: find_None_ball list_ex_iff)
  with upd [of rs] show ?thesis using assms by (auto simp: find_append split: option.split)
qed

text \<open>A response stored for an allocation and a provider can be continued, until it expires,
  by exactly this allocation on this provider, under its own id; nobody else can, and every other
  stored response is as before.\<close>

theorem stored_response_owned:
  "resolve_for_continuation (at_time e t') rid a p (store_response (at_time e t) a0 p0 rid0 ttl d) =
     (if rid = rid0
      then (if t + days ttl \<le> t' then NotFound else if (a, p) = (a0, p0) then Owned rid else Forbidden)
      else resolve_for_continuation (at_time e t') rid a p d)"
  by (auto simp: resolve_for_continuation_def store_response_def Let_def find_stored split: list.split)

end
