(* ===== verification/Sessions.thy ===== *)
theory Sessions
  imports Allocations
begin

text \<open>
  Browser sessions (\<open>auth/sessions.py\<close>), invitations (\<open>auth/invitations.py\<close>), passwords
  (\<open>auth/local.py\<close>) and the dependencies that guard the member and admin endpoints
  (\<open>api/deps.py\<close>).  A session is found by the digest of its cookie, an invitation by the digest of
  its token; both rows are refused by the database when the primary key is taken, which is the
  \<open>None\<close> of \<open>create_session\<close> and \<open>issue_invitation\<close>.  A session row has its member by a foreign key,
  so the model refuses a session without one.
\<close>

section \<open>Sessions\<close>

definition session_prefix :: string where
  "session_prefix = ''sess_''"

definition session_lifetime :: int where
  "session_lifetime = seconds (24 * 3600)"

definition session_idle :: int where
  "session_idle = seconds (2 * 3600)"

record issued_session =
  is_plaintext :: string
  is_fingerprint :: string
  is_expires_at :: timestamp
  is_member_id :: string

definition new_session :: "env \<Rightarrow> string \<Rightarrow> string \<Rightarrow> string option \<Rightarrow> string option \<Rightarrow> session_row" where
  "new_session e fp mid source_ip user_agent =
     \<lparr>s_id = fp, s_member_id = mid, s_created_at = now e, s_last_seen_at = now e,
      s_expires_at = now e + session_lifetime, s_idle_timeout_at = now e + session_idle,
      s_source_ip = source_ip,
      s_user_agent = (case user_agent of None \<Rightarrow> None | Some u \<Rightarrow> if u = [] then None else Some (take 512 u)),
      s_status = session_active, s_revoked_at = None, s_revoked_reason = None\<rparr>"

definition create_session ::
  "env \<Rightarrow> string \<Rightarrow> string option \<Rightarrow> string option \<Rightarrow> db \<Rightarrow> issued_session option \<times> db" where
  "create_session e mid source_ip user_agent d =
     (let plaintext = session_prefix @ token_urlsafe e (fresh d);
          d1 = tick d;
          row = new_session e (sha256_hex e plaintext) mid source_ip user_agent
      in if list_ex (\<lambda>s. s_id s = s_id row) (sessions d1) then (None, d1)
         else (Some \<lparr>is_plaintext = plaintext, is_fingerprint = s_id row,
                      is_expires_at = s_expires_at row, is_member_id = mid\<rparr>,
               sessions_update (\<lambda>ss. ss @ [row]) d1))"

definition lookup_session :: "env \<Rightarrow> string \<Rightarrow> db \<Rightarrow> session_row option" where
  "lookup_session e plaintext d =
     (if plaintext = [] then None
      else find (\<lambda>s. s_id s = sha256_hex e plaintext) (sessions d))"

definition set_session :: "string \<Rightarrow> (session_row \<Rightarrow> session_row) \<Rightarrow> db \<Rightarrow> db" where
  "set_session sid f d = sessions_update (update_where (\<lambda>s. s_id s = sid) f) d"

definition revoke_row :: "env \<Rightarrow> string \<Rightarrow> session_row \<Rightarrow> session_row" where
  "revoke_row e reason s =
     s\<lparr>s_status := session_revoked, s_revoked_at := Some (now e), s_revoked_reason := Some reason\<rparr>"

definition touch_row :: "env \<Rightarrow> session_row \<Rightarrow> session_row" where
  "touch_row e s = s\<lparr>s_last_seen_at := now e, s_idle_timeout_at := now e + session_idle\<rparr>"

definition validate_session :: "env \<Rightarrow> string \<Rightarrow> db \<Rightarrow> member option \<times> db" where
  "validate_session e plaintext d =
     (case lookup_session e plaintext d of
        None \<Rightarrow> (None, d)
      | Some s \<Rightarrow>
          if s_status s \<noteq> session_active then (None, d)
          else if s_expires_at s \<le> now e \<or> s_idle_timeout_at s \<le> now e then (None, d)
          else (case get_member (s_member_id s) d of
             None \<Rightarrow> (None, d)
           | Some m \<Rightarrow>
               if m_status m \<noteq> member_active
               then (None, set_session (s_id s) (revoke_row e ''member_disabled'') d)
               else (Some m, set_session (s_id s) (touch_row e) d)))"

definition revoke_session :: "env \<Rightarrow> string \<Rightarrow> string \<Rightarrow> db \<Rightarrow> db" where
  "revoke_session e plaintext reason d =
     sessions_update (update_where
       (\<lambda>s. s_id s = sha256_hex e plaintext \<and> s_status s = session_active) (revoke_row e reason)) d"

definition revoke_all_for_member :: "env \<Rightarrow> string \<Rightarrow> string \<Rightarrow> db \<Rightarrow> nat \<times> db" where
  "revoke_all_for_member e mid reason d =
     (let p = (\<lambda>s. s_member_id s = mid \<and> s_status s = session_active)
      in (length (filter p (sessions d)), sessions_update (update_where p (revoke_row e reason)) d))"

section \<open>Invitations\<close>

definition invitation_prefix :: string where
  "invitation_prefix = ''invite_''"

definition invitation_lifetime :: int where
  "invitation_lifetime = seconds (48 * 3600)"

record issued_invitation =
  ii_plaintext :: string
  ii_fingerprint :: string
  ii_prefix :: string
  ii_member_id :: string
  ii_expires_at :: timestamp

definition issue_invitation ::
  "env \<Rightarrow> string \<Rightarrow> string \<Rightarrow> db \<Rightarrow> issued_invitation option \<times> db" where
  "issue_invitation e mid created_by d =
     (let plaintext = invitation_prefix @ token_urlsafe e (fresh d);
          d1 = tick d;
          row = \<lparr>i_token_fingerprint = sha256_hex e plaintext, i_token_prefix = take 12 plaintext,
                 i_member_id = mid, i_created_at = now e, i_expires_at = now e + invitation_lifetime,
                 i_used_at = None, i_created_by = created_by\<rparr>
      in if list_ex (\<lambda>i. i_token_fingerprint i = i_token_fingerprint row) (invitations d1) then (None, d1)
         else (Some \<lparr>ii_plaintext = plaintext, ii_fingerprint = i_token_fingerprint row,
                      ii_prefix = take 12 plaintext, ii_member_id = mid,
                      ii_expires_at = i_expires_at row\<rparr>,
               invitations_update (\<lambda>is. is @ [row]) d1))"

definition lookup_invitation :: "env \<Rightarrow> string \<Rightarrow> db \<Rightarrow> invitation_token option" where
  "lookup_invitation e plaintext d =
     find (\<lambda>i. i_token_fingerprint i = sha256_hex e plaintext) (invitations d)"

definition set_invitation :: "string \<Rightarrow> (invitation_token \<Rightarrow> invitation_token) \<Rightarrow> db \<Rightarrow> db" where
  "set_invitation fp f d = invitations_update (update_where (\<lambda>i. i_token_fingerprint i = fp) f) d"

definition consume_invitation :: "env \<Rightarrow> string \<Rightarrow> db \<Rightarrow> member option \<times> db" where
  "consume_invitation e plaintext d =
     (case lookup_invitation e plaintext d of
        None \<Rightarrow> (None, d)
      | Some i \<Rightarrow>
          if i_used_at i \<noteq> None \<or> i_expires_at i \<le> now e then (None, d)
          else (case get_member (i_member_id i) d of
             None \<Rightarrow> (None, d)
           | Some m \<Rightarrow>
               (Some m, set_invitation (i_token_fingerprint i) (\<lambda>i. i\<lparr>i_used_at := Some (now e)\<rparr>) d)))"

section \<open>Passwords\<close>

datatype password_error = PasswordTooShort | PasswordTooCommon

definition common_passwords :: "string list" where
  "common_passwords =
     [''password123'', ''qwerty12345'', ''letmein2024'', ''12345678901'',
      ''admin12345'', ''iloveyou123'', ''welcome123!'', ''passw0rd!!'']"

definition min_password_length :: nat where
  "min_password_length = 10"

definition enforce_policy :: "string \<Rightarrow> password_error option" where
  "enforce_policy plaintext =
     (if length plaintext < min_password_length then Some PasswordTooShort
      else if lower plaintext \<in> set common_passwords then Some PasswordTooCommon
      else None)"

definition hash_password :: "env \<Rightarrow> string \<Rightarrow> db \<Rightarrow> (password_error + string) \<times> db" where
  "hash_password e plaintext d =
     (case enforce_policy plaintext of
        Some err \<Rightarrow> (Inl err, d)
      | None \<Rightarrow> (Inr (argon_hash e (fresh d) plaintext), tick d))"

definition verify_password :: "env \<Rightarrow> string \<Rightarrow> string \<Rightarrow> bool" where
  "verify_password e stored_hash plaintext = argon_verify e stored_hash plaintext"

section \<open>Who is asking\<close>

text \<open>
  The guards read the cookie in a session of their own, which they commit before they raise; an
  error is its status and code.  \<open>require_admin\<close> returns no member for the bootstrap token.
\<close>

type_synonym http_error = "int \<times> string"

definition nonempty_text :: "string option \<Rightarrow> bool" where
  "nonempty_text t = (case t of None \<Rightarrow> False | Some s \<Rightarrow> s \<noteq> [])"

definition require_admin ::
  "env \<Rightarrow> string option \<Rightarrow> string option \<Rightarrow> db \<Rightarrow> (http_error + member option) \<times> db" where
  "require_admin e x_admin_token session_cookie d =
     (if nonempty_text x_admin_token \<and> x_admin_token = Some (admin_bootstrap_token (cfg e))
      then (Inr None, d)
      else case session_cookie of
        None \<Rightarrow> (Inl (401, ''unauthorized''), d)
      | Some c \<Rightarrow>
          if c = [] then (Inl (401, ''unauthorized''), d)
          else (case validate_session e c d of
             (None, d1) \<Rightarrow> (Inl (401, ''unauthorized''), d1)
           | (Some m, d1) \<Rightarrow>
               if m_status m \<noteq> member_active then (Inl (403, ''member_disabled''), d1)
               else if \<not> m_is_admin m then (Inl (403, ''not_admin''), d1)
               else (Inr (Some m), d1)))"

definition current_member ::
  "env \<Rightarrow> string option \<Rightarrow> db \<Rightarrow> (http_error + member) \<times> db" where
  "current_member e session_cookie d =
     (case validate_session e (case session_cookie of None \<Rightarrow> [] | Some c \<Rightarrow> c) d of
        (None, d1) \<Rightarrow> (Inl (401, ''unauthorized''), d1)
      | (Some m, d1) \<Rightarrow> (Inr m, d1))"

definition require_csrf :: "string option \<Rightarrow> string option \<Rightarrow> http_error option" where
  "require_csrf csrf_cookie x_csrf_token =
     (if \<not> nonempty_text csrf_cookie \<or> \<not> nonempty_text x_csrf_token \<or> csrf_cookie \<noteq> x_csrf_token
      then Some (403, ''csrf_failed'') else None)"

definition require_active_member ::
  "env \<Rightarrow> string option \<Rightarrow> db \<Rightarrow> (http_error + member) \<times> db" where
  "require_active_member e session_cookie d =
     (case current_member e session_cookie d of
        (Inl err, d1) \<Rightarrow> (Inl err, d1)
      | (Inr m, d1) \<Rightarrow>
          if m_status m \<noteq> member_active then (Inl (403, ''member_disabled''), d1) else (Inr m, d1))"

end
