(* ===== verification/IpAddress.thy ===== *)
theory IpAddress
  imports PyText "HOL-Library.Word"
begin

unbundle bit_operations_syntax

text \<open>
  The part of the standard library's \<open>ipaddress\<close> that \<open>auth/policy.py\<close> uses: \<open>ip_address\<close>,
  \<open>ip_network\<close> with \<open>strict=False\<close>, and \<open>in\<close>.  An IPv4 address is a 32-bit word, an IPv6 address a
  128-bit word; a network is the pair of its address and its netmask.  \<open>None\<close> is \<open>ValueError\<close>.
  The lemma \<open>masked_prefix\<close> says what the masks mean: a network of prefix length \<open>p\<close> contains the
  addresses that share its first \<open>p\<close> bits.
\<close>

section \<open>IPv4\<close>

definition ascii_digits :: "string \<Rightarrow> bool" where
  "ascii_digits s = (s \<noteq> [] \<and> list_all is_digit s)"

definition decimal_value :: "string \<Rightarrow> nat" where
  "decimal_value s = foldl (\<lambda>n c. n * 10 + (of_char c - 48)) 0 s"

definition parse_octet :: "string \<Rightarrow> nat option" where
  "parse_octet s =
     (if \<not> ascii_digits s \<or> 3 < length s \<or> (s \<noteq> ''0'' \<and> hd s = CHR ''0'') \<or> 255 < decimal_value s
      then None else Some (decimal_value s))"

definition ipv4_from_string :: "string \<Rightarrow> 32 word option" where
  "ipv4_from_string s =
     (let octets = split_on (\<lambda>c. c = CHR ''.'') [] s in
      if length octets \<noteq> 4 then None
      else map_option (foldl (\<lambda>w n. push_bit 8 w OR of_nat n) 0) (those (map parse_octet octets)))"

section \<open>IPv6\<close>

definition is_hex :: "char \<Rightarrow> bool" where
  "is_hex c = (let n = (of_char c :: nat) in is_digit c \<or> (65 \<le> n \<and> n \<le> 70) \<or> (97 \<le> n \<and> n \<le> 102))"

definition hex_value :: "char \<Rightarrow> nat" where
  "hex_value c = (let n = (of_char c :: nat) in
     if n \<le> 57 then n - 48 else if n \<le> 70 then n - 55 else n - 87)"

definition parse_hextet :: "string \<Rightarrow> nat option" where
  "parse_hextet s =
     (if s = [] \<or> \<not> list_all is_hex s \<or> 4 < length s then None
      else Some (foldl (\<lambda>n c. n * 16 + hex_value c) 0 s))"

fun hex_string :: "nat \<Rightarrow> string" where
  "hex_string n =
     (let digit = (\<lambda>k. if k < 10 then char_of (k + 48) else char_of (k + 87 :: nat)) in
      if n < 16 then [digit n] else hex_string (n div 16) @ [digit (n mod 16)])"

declare hex_string.simps [simp del]

definition join_hextets :: "128 word \<Rightarrow> string list \<Rightarrow> 128 word option" where
  "join_hextets w parts =
     map_option (foldl (\<lambda>w n. push_bit 16 w OR of_nat n) w) (those (map parse_hextet parts))"

text \<open>An IPv4 suffix is rewritten as two hextets.\<close>

definition embedded_ipv4 :: "string list \<Rightarrow> string list option" where
  "embedded_ipv4 parts =
     (if CHR ''.'' \<notin> set (last parts) then Some parts
      else case ipv4_from_string (last parts) of
        None \<Rightarrow> None
      | Some v \<Rightarrow> Some (butlast parts @
          [hex_string (unat (drop_bit 16 v AND 0xFFFF)), hex_string (unat (v AND 0xFFFF))]))"

text \<open>The positions, endpoints excluded, at which nothing stands between two colons.\<close>

definition skips :: "string list \<Rightarrow> nat list" where
  "skips parts = filter (\<lambda>i. parts ! i = []) [1..<length parts - 1]"

definition ipv6_parts :: "string list \<Rightarrow> 128 word option" where
  "ipv6_parts parts =
     (if 9 < length parts then None
      else case skips parts of
        [] \<Rightarrow>
          if length parts \<noteq> 8 \<or> hd parts = [] \<or> last parts = [] then None else join_hextets 0 parts
      | [i] \<Rightarrow>
          (let n = length parts;
               hi = (if hd parts = [] then i - 1 else i);
               lo = (if last parts = [] then n - i - 1 - 1 else n - i - 1)
           in if (hd parts = [] \<and> hi \<noteq> 0) \<or> (last parts = [] \<and> lo \<noteq> 0) \<or> 8 < hi + lo + 1 then None
              else case join_hextets 0 (take hi parts) of
                None \<Rightarrow> None
              | Some w \<Rightarrow> join_hextets (push_bit (16 * (8 - (hi + lo))) w) (drop (n - lo) parts))
      | _ \<Rightarrow> None)"

definition ipv6_from_string :: "string \<Rightarrow> 128 word option" where
  "ipv6_from_string s =
     (let parts = split_on (\<lambda>c. c = CHR '':'') [] s in
      if length parts < 3 then None
      else case embedded_ipv4 parts of None \<Rightarrow> None | Some ps \<Rightarrow> ipv6_parts ps)"

text \<open>\<open>IPv6Address\<close>: a scope id after a percent sign is split off; it must be there and hold no other.\<close>

definition ipv6_address :: "string \<Rightarrow> 128 word option" where
  "ipv6_address s =
     (if CHR ''/'' \<in> set s then None
      else if CHR ''%'' \<in> set s
      then (let scope = after_char (CHR ''%'') s in
            if scope = [] \<or> CHR ''%'' \<in> set scope then None
            else ipv6_from_string (before_char (CHR ''%'') s))
      else ipv6_from_string s)"

datatype ip = V4 "32 word" | V6 "128 word"

definition ip_address :: "string \<Rightarrow> ip option" where
  "ip_address s =
     (case ipv4_from_string s of
        Some v \<Rightarrow> Some (V4 v)
      | None \<Rightarrow> map_option V6 (ipv6_address s))"

section \<open>Networks\<close>

definition netmask :: "nat \<Rightarrow> 'a::len word" where
  "netmask p = (- 1) XOR drop_bit p (- 1)"

definition prefix_from_string :: "nat \<Rightarrow> string \<Rightarrow> nat option" where
  "prefix_from_string bits s =
     (if ascii_digits s \<and> decimal_value s \<le> bits then Some (decimal_value s) else None)"

text \<open>The prefix length of a netmask written as an address: ones, then zeros.\<close>

definition prefix_from_mask :: "32 word \<Rightarrow> nat option" where
  "prefix_from_mask v =
     (let zeros = length (takeWhile (\<lambda>i. \<not> bit v i) [0..<32]); p = 32 - zeros in
      if drop_bit zeros v = mask p then Some p else None)"

definition ipv4_prefix :: "string \<Rightarrow> nat option" where
  "ipv4_prefix s =
     (case prefix_from_string 32 s of
        Some p \<Rightarrow> Some p
      | None \<Rightarrow>
          (case ipv4_from_string s of
             None \<Rightarrow> None
           | Some v \<Rightarrow>
               (case prefix_from_mask v of
                  Some p \<Rightarrow> Some p
                | None \<Rightarrow> prefix_from_mask (NOT v))))"

datatype network = Net4 "32 word" "32 word" | Net6 "128 word" "128 word"

text \<open>\<open>_split_optional_netmask\<close>: the address and, if there is one, the text after the slash.\<close>

definition split_network :: "string \<Rightarrow> (string \<times> string option) option" where
  "split_network s =
     (case split_on (\<lambda>c. c = CHR ''/'') [] s of
        [a] \<Rightarrow> Some (a, None)
      | [a, m] \<Rightarrow> Some (a, Some m)
      | _ \<Rightarrow> None)"

definition ipv4_network :: "string \<times> string option \<Rightarrow> network option" where
  "ipv4_network = (\<lambda>(a, m).
     (case (ipv4_from_string a, case m of None \<Rightarrow> Some 32 | Some t \<Rightarrow> ipv4_prefix t) of
        (Some v, Some p) \<Rightarrow> Some (Net4 (v AND netmask p) (netmask p))
      | _ \<Rightarrow> None))"

definition ipv6_network :: "string \<times> string option \<Rightarrow> network option" where
  "ipv6_network = (\<lambda>(a, m).
     (case (ipv6_address a, case m of None \<Rightarrow> Some 128 | Some t \<Rightarrow> prefix_from_string 128 t) of
        (Some v, Some p) \<Rightarrow> Some (Net6 (v AND netmask p) (netmask p))
      | _ \<Rightarrow> None))"

definition ip_network :: "string \<Rightarrow> network option" where
  "ip_network s =
     (case split_network s of
        None \<Rightarrow> None
      | Some am \<Rightarrow>
          (case ipv4_network am of Some n \<Rightarrow> Some n | None \<Rightarrow> ipv6_network am))"

fun in_network :: "ip \<Rightarrow> network \<Rightarrow> bool" where
  "in_network (V4 a) (Net4 n m) = (a AND m = n)"
| "in_network (V6 a) (Net6 n m) = (a AND m = n)"
| "in_network _ _ = False"

section \<open>What a netmask selects\<close>

lemma bit_netmask:
  "p \<le> LENGTH('a) \<Longrightarrow> bit (netmask p :: 'a::len word) i \<longleftrightarrow> i < LENGTH('a) \<and> LENGTH('a) - p \<le> i"
  by (auto simp: netmask_def bit_simps)

lemma masked_prefix:
  fixes a b :: "'a::len word"
  assumes "p \<le> LENGTH('a)"
  shows "a AND netmask p = b AND netmask p \<longleftrightarrow> drop_bit (LENGTH('a) - p) a = drop_bit (LENGTH('a) - p) b"
    (is "?masked \<longleftrightarrow> ?shifted")
proof
  assume ?masked
  then have eq: "bit a i = bit b i" if "i < LENGTH('a)" "LENGTH('a) - p \<le> i" for i
    using that bit_netmask [OF assms] by (metis bit_and_iff)
  show ?shifted
  proof (rule bit_word_eqI)
    fix i
    show "bit (drop_bit (LENGTH('a) - p) a) i = bit (drop_bit (LENGTH('a) - p) b) i"
      using eq [of "LENGTH('a) - p + i"]
      by (metis bit_drop_bit_eq comp_apply le_add1 bit_imp_le_length not_less)
  qed
next
  assume ?shifted
  then have eq: "bit a i = bit b i" if "LENGTH('a) - p \<le> i" for i
    using that by (metis bit_drop_bit_eq comp_apply le_add_diff_inverse)
  show ?masked
    by (rule bit_word_eqI) (use eq bit_netmask [OF assms] in \<open>auto simp: bit_and_iff\<close>)
qed

lemma prefix_from_string_le: "prefix_from_string n s = Some p \<Longrightarrow> p \<le> n"
  by (auto simp: prefix_from_string_def split: if_splits)

lemma prefix_from_mask_le: "prefix_from_mask v = Some p \<Longrightarrow> p \<le> 32"
  by (auto simp: prefix_from_mask_def Let_def split: if_splits)

lemma ipv4_prefix_le: "ipv4_prefix s = Some p \<Longrightarrow> p \<le> 32"
  by (auto simp: ipv4_prefix_def dest: prefix_from_string_le prefix_from_mask_le split: option.splits)

text \<open>The networks \<open>ip_network\<close> returns are prefixes.\<close>

lemma ipv4_network_prefix:
  assumes "ipv4_network am = Some n"
  obtains v p where "p \<le> 32" "n = Net4 (v AND netmask p) (netmask p)"
    "ipv4_from_string (fst am) = Some v"
  using assms
  by (auto simp: ipv4_network_def dest: ipv4_prefix_le split: prod.splits option.splits intro: that)

lemma ipv6_network_prefix:
  assumes "ipv6_network am = Some n"
  obtains v p where "p \<le> 128" "n = Net6 (v AND netmask p) (netmask p)"
    "ipv6_address (fst am) = Some v"
  using assms
  by (auto simp: ipv6_network_def dest: prefix_from_string_le split: prod.splits option.splits
      intro: that)

end
