(* ===== verification/Policy.thy ===== *)
theory Policy
  imports Models IpAddress
begin

text \<open>
  Who may log in from where: \<open>auth/policy.py\<close> and the tables behind it, which
  \<open>services/access_control.py\<close> edits and \<open>api/admin_access.py\<close> exposes.  The specification of the
  source restrictions, \<open>covers\<close>, speaks of the leading bits two addresses share.
\<close>

section \<open>The policy\<close>

definition normalize_email :: "string \<Rightarrow> string" where
  "normalize_email raw = lower (strip raw)"

definition is_source_allowed :: "db \<Rightarrow> string option \<Rightarrow> bool" where
  "is_source_allowed d source_ip =
     (let rs = filter rs_enabled (restrictions d) in
      if rs = [] then True
      else case source_ip of
        None \<Rightarrow> False
      | Some s \<Rightarrow>
          if s = [] then False
          else (case ip_address s of
             None \<Rightarrow> False
           | Some a \<Rightarrow>
               list_ex (\<lambda>r. case ip_network (rs_cidr r) of None \<Rightarrow> False | Some n \<Rightarrow> in_network a n) rs))"

definition email_domain_of :: "string \<Rightarrow> string" where
  "email_domain_of email = (if CHR ''@'' \<in> set email then rsplit_last (CHR ''@'') email else [])"

definition matches_auto_rule :: "db \<Rightarrow> string \<Rightarrow> bool" where
  "matches_auto_rule d email_n =
     list_ex (\<lambda>r. lower (ar_pattern r) = email_domain_of email_n) (filter ar_enabled (auto_rules d))"

definition active_admins :: "db \<Rightarrow> member list" where
  "active_admins d = filter (\<lambda>m. m_is_admin m \<and> m_status m = member_active) (members d)"

definition is_email_allowed :: "db \<Rightarrow> string \<Rightarrow> bool" where
  "is_email_allowed d email =
     (let email_n = normalize_email email in
      if matches_auto_rule d email_n then True
      else if 0 < length (active_admins d)
      then find (\<lambda>m. m_email m = email_n \<and> m_status m = member_active) (members d) \<noteq> None
      else find (\<lambda>w. w_email w = email_n) (whitelist d) \<noteq> None)"

section \<open>Editing the tables\<close>

definition list_whitelist :: "db \<Rightarrow> email_whitelist list" where
  "list_whitelist d = sort_key w_email (whitelist d)"

definition add_whitelist ::
  "env \<Rightarrow> string \<Rightarrow> string \<Rightarrow> string option \<Rightarrow> db \<Rightarrow> email_whitelist \<times> db" where
  "add_whitelist e email added_by note_text d =
     (let email_n = normalize_email email in
      case find (\<lambda>w. w_email w = email_n) (whitelist d) of
        Some w \<Rightarrow>
          (let f = (\<lambda>w. w\<lparr>w_note := note_text, w_added_by := added_by\<rparr>)
           in (f w, whitelist_update (update_where (\<lambda>w. w_email w = email_n) f) d))
      | None \<Rightarrow>
          (let w = \<lparr>w_email = email_n, w_added_at = now e, w_added_by = added_by, w_note = note_text\<rparr>
           in (w, whitelist_update (\<lambda>ws. ws @ [w]) d)))"

definition remove_whitelist :: "string \<Rightarrow> db \<Rightarrow> bool \<times> db" where
  "remove_whitelist email d =
     (let email_n = normalize_email email in
      case find (\<lambda>w. w_email w = email_n) (whitelist d) of
        None \<Rightarrow> (False, d)
      | Some w \<Rightarrow> (True, whitelist_update (delete_where (\<lambda>w. w_email w = email_n)) d))"

definition list_auto_rules :: "db \<Rightarrow> auto_register_rule list" where
  "list_auto_rules d = sort_key ar_created_at (auto_rules d)"

definition create_auto_rule ::
  "env \<Rightarrow> string \<Rightarrow> bool \<Rightarrow> string \<Rightarrow> string option \<Rightarrow> db \<Rightarrow> auto_register_rule \<times> db" where
  "create_auto_rule e pattern enabled created_by note_text d =
     (let (rid, d1) = (ulid e (fresh d), tick d);
          r = \<lparr>ar_id = rid, ar_pattern = lower (strip pattern), ar_enabled = enabled,
               ar_created_at = now e, ar_created_by = created_by, ar_note = note_text\<rparr>
      in (r, auto_rules_update (\<lambda>rs. rs @ [r]) d1))"

definition delete_auto_rule :: "string \<Rightarrow> db \<Rightarrow> bool \<times> db" where
  "delete_auto_rule rid d =
     (case find (\<lambda>r. ar_id r = rid) (auto_rules d) of
        None \<Rightarrow> (False, d)
      | Some r \<Rightarrow> (True, auto_rules_update (delete_where (\<lambda>r. ar_id r = rid)) d))"

definition list_source_restrictions :: "db \<Rightarrow> source_restriction list" where
  "list_source_restrictions d = sort_key rs_created_at (restrictions d)"

definition create_source_restriction ::
  "env \<Rightarrow> string \<Rightarrow> bool \<Rightarrow> string \<Rightarrow> string option \<Rightarrow> db \<Rightarrow> source_restriction \<times> db" where
  "create_source_restriction e cidr enabled created_by note_text d =
     (let (rid, d1) = (ulid e (fresh d), tick d);
          r = \<lparr>rs_id = rid, rs_cidr = cidr, rs_enabled = enabled, rs_created_at = now e,
               rs_created_by = created_by, rs_note = note_text\<rparr>
      in (r, restrictions_update (\<lambda>rs. rs @ [r]) d1))"

definition delete_source_restriction :: "string \<Rightarrow> db \<Rightarrow> bool \<times> db" where
  "delete_source_restriction rid d =
     (case find (\<lambda>r. rs_id r = rid) (restrictions d) of
        None \<Rightarrow> (False, d)
      | Some r \<Rightarrow> (True, restrictions_update (delete_where (\<lambda>r. rs_id r = rid)) d))"

text \<open>The endpoints: 201 and the row, 204, or 404, which is an exception.\<close>

definition access_admin :: string where
  "access_admin = ''bootstrap-admin''"

definition post_whitelist :: "env \<Rightarrow> string \<Rightarrow> string option \<Rightarrow> db \<Rightarrow> (int \<times> email_whitelist) \<times> db" where
  "post_whitelist e email note_text d =
     (let (w, d1) = add_whitelist e email access_admin note_text d in ((201, w), d1))"

definition delete_whitelist :: "string \<Rightarrow> db \<Rightarrow> int \<times> db" where
  "delete_whitelist email d =
     (case remove_whitelist email d of (True, d1) \<Rightarrow> (204, d1) | (False, d1) \<Rightarrow> (404, rollback_to d d1))"

definition post_rule ::
  "env \<Rightarrow> string \<Rightarrow> bool \<Rightarrow> string option \<Rightarrow> db \<Rightarrow> (int \<times> auto_register_rule) \<times> db" where
  "post_rule e pattern enabled note_text d =
     (let (r, d1) = create_auto_rule e pattern enabled access_admin note_text d in ((201, r), d1))"

definition delete_rule_endpoint :: "string \<Rightarrow> db \<Rightarrow> int \<times> db" where
  "delete_rule_endpoint rid d =
     (case delete_auto_rule rid d of (True, d1) \<Rightarrow> (204, d1) | (False, d1) \<Rightarrow> (404, rollback_to d d1))"

definition post_source_restriction ::
  "env \<Rightarrow> string \<Rightarrow> bool \<Rightarrow> string option \<Rightarrow> db \<Rightarrow> (int \<times> source_restriction) \<times> db" where
  "post_source_restriction e cidr enabled note_text d =
     (let (r, d1) = create_source_restriction e cidr enabled access_admin note_text d in ((201, r), d1))"

definition delete_source_restriction_endpoint :: "string \<Rightarrow> db \<Rightarrow> int \<times> db" where
  "delete_source_restriction_endpoint rid d =
     (case delete_source_restriction rid d of
        (True, d1) \<Rightarrow> (204, d1) | (False, d1) \<Rightarrow> (404, rollback_to d d1))"

section \<open>What a restriction covers\<close>

text \<open>
  The text of a restriction covers an address if it reads as an address of the same family and a
  prefix length (by default all bits), and the two addresses agree on that many leading bits.
\<close>

definition covers4 :: "string \<Rightarrow> 32 word \<Rightarrow> bool" where
  "covers4 cidr a \<longleftrightarrow>
     (\<exists>base suffix v p. split_network cidr = Some (base, suffix) \<and> ipv4_from_string base = Some v \<and>
        (case suffix of None \<Rightarrow> p = 32 | Some t \<Rightarrow> ipv4_prefix t = Some p) \<and> p \<le> 32 \<and>
        drop_bit (32 - p) a = drop_bit (32 - p) v)"

definition covers6 :: "string \<Rightarrow> 128 word \<Rightarrow> bool" where
  "covers6 cidr a \<longleftrightarrow>
     (\<exists>base suffix v p. split_network cidr = Some (base, suffix) \<and> ipv6_address base = Some v \<and>
        (case suffix of None \<Rightarrow> p = 128 | Some t \<Rightarrow> prefix_from_string 128 t = Some p) \<and> p \<le> 128 \<and>
        drop_bit (128 - p) a = drop_bit (128 - p) v)"

definition covers :: "string \<Rightarrow> ip \<Rightarrow> bool" where
  "covers cidr a = (case a of V4 w \<Rightarrow> covers4 cidr w | V6 w \<Rightarrow> covers6 cidr w)"

lemma length_split_on: "length (split_on p acc s) = Suc (length (filter p s))"
  by (induction p acc s rule: split_on.induct) auto

lemma digits_only: "ascii_digits s \<Longrightarrow> \<forall>c \<in> set s. is_digit c"
  by (simp add: ascii_digits_def list_all_iff)

lemma those_Some: "those xs = Some ys \<Longrightarrow> x \<in> set xs \<Longrightarrow> x \<noteq> None"
  by (induction xs arbitrary: ys) (auto split: option.splits)

lemma split_on_join:
  "concat (split_on p acc s) = rev acc @ filter (\<lambda>c. \<not> p c) s"
  by (induction p acc s rule: split_on.induct) auto

text \<open>A text is not an address of both families: an IPv4 address has no colon.\<close>

lemma ipv4_no_colon:
  assumes "ipv4_from_string s = Some v"
  shows "CHR '':'' \<notin> set s"
proof
  assume c: "CHR '':'' \<in> set s"
  let ?os = "split_on (\<lambda>c. c = CHR ''.'') [] s"
  have "CHR '':'' \<in> set (concat ?os)" unfolding split_on_join using c by simp
  then obtain x where x: "x \<in> set ?os" "CHR '':'' \<in> set x" by auto
  from assms obtain ns where "those (map parse_octet ?os) = Some ns"
    by (auto simp: ipv4_from_string_def Let_def split: if_splits)
  from those_Some [OF this, of "parse_octet x"] x(1) have "parse_octet x \<noteq> None" by simp
  then have "is_digit (CHR '':'')"
    using x(2) digits_only [of x] by (auto simp: parse_octet_def split: if_splits)
  then show False by (simp add: is_digit_def)
qed

lemma ipv6_colon:
  assumes "ipv6_address s = Some v"
  shows "CHR '':'' \<in> set s"
proof (rule ccontr)
  assume no: "CHR '':'' \<notin> set s"
  have none: "ipv6_from_string t = None" if "CHR '':'' \<notin> set t" for t
  proof -
    have "filter (\<lambda>c. c = CHR '':'') t = []" using that by (auto simp: filter_empty_conv)
    then show ?thesis by (simp add: ipv6_from_string_def Let_def length_split_on)
  qed
  have "CHR '':'' \<notin> set (before_char (CHR ''%'') s)"
    using no by (auto simp: before_char_def dest: set_takeWhileD)
  with no none assms show False by (auto simp: ipv6_address_def Let_def split: if_splits)
qed

lemma not_both: "ipv4_from_string s = Some v \<Longrightarrow> ipv6_address s = None"
  using ipv4_no_colon ipv6_colon by (metis not_None_eq)

lemma in_ipv4_network:
  "(case ip_network cidr of None \<Rightarrow> False | Some n \<Rightarrow> in_network (V4 a) n) \<longleftrightarrow> covers4 cidr a"
proof (cases "split_network cidr")
  case (Some am)
  obtain base suffix where am: "am = (base, suffix)" by fastforce
  let ?p = "case suffix of None \<Rightarrow> Some 32 | Some t \<Rightarrow> ipv4_prefix t"
  have no6: "(case ipv6_network am of None \<Rightarrow> False | Some n \<Rightarrow> in_network (V4 a) n) = False"
    by (auto simp: ipv6_network_def am split: option.splits)
  show ?thesis
  proof (cases "\<exists>v p. ipv4_from_string base = Some v \<and> ?p = Some p")
    case True
    then obtain v p where vp: "ipv4_from_string base = Some v" "?p = Some p" by blast
    then have p: "p \<le> 32" by (auto dest: ipv4_prefix_le split: option.splits)
    with vp Some am masked_prefix [of p a v] show ?thesis
      by (auto simp: ip_network_def ipv4_network_def covers4_def split: option.splits)
  next
    case False
    then have "ipv4_network am = None" "\<not> covers4 cidr a"
      using Some am by (auto simp: ipv4_network_def covers4_def split: option.splits)
    with Some no6 show ?thesis by (simp add: ip_network_def)
  qed
qed (simp add: ip_network_def covers4_def)

lemma in_ipv6_network:
  "(case ip_network cidr of None \<Rightarrow> False | Some n \<Rightarrow> in_network (V6 a) n) \<longleftrightarrow> covers6 cidr a"
proof (cases "split_network cidr")
  case (Some am)
  obtain base suffix where am: "am = (base, suffix)" by fastforce
  let ?p = "case suffix of None \<Rightarrow> Some 128 | Some t \<Rightarrow> prefix_from_string 128 t"
  show ?thesis
  proof (cases "\<exists>v p. ipv6_address base = Some v \<and> ?p = Some p")
    case True
    then obtain v p where vp: "ipv6_address base = Some v" "?p = Some p" by blast
    then have p: "p \<le> 128" by (auto dest: prefix_from_string_le split: option.splits)
    have "ipv4_from_string base = None" using vp(1) not_both [of base] by (metis not_None_eq)
    with vp Some am p masked_prefix [of p a v] show ?thesis
      by (auto simp: ip_network_def ipv4_network_def ipv6_network_def covers6_def split: option.splits)
  next
    case False
    then have "ipv6_network am = None" "\<not> covers6 cidr a"
      using Some am by (auto simp: ipv6_network_def covers6_def split: option.splits)
    with Some show ?thesis
      by (auto simp: ip_network_def ipv4_network_def am split: option.splits)
  qed
qed (simp add: ip_network_def covers6_def)

lemma in_network_covers:
  "(case ip_network cidr of None \<Rightarrow> False | Some n \<Rightarrow> in_network a n) \<longleftrightarrow> covers cidr a"
  unfolding covers_def by (cases a) (simp_all only: in_ipv4_network in_ipv6_network ip.case)

text \<open>The source restrictions: without an enabled one every source may log in; with one, exactly the
  sources whose address shares the leading bits of an enabled restriction.  A restriction whose text
  does not parse covers nothing, so it locks out everyone no other restriction lets in.\<close>

theorem source_restrictions_prefix:
  "is_source_allowed d source_ip \<longleftrightarrow>
     filter rs_enabled (restrictions d) = [] \<or>
     (\<exists>s a r. source_ip = Some s \<and> ip_address s = Some a \<and>
        r \<in> set (restrictions d) \<and> rs_enabled r \<and> covers (rs_cidr r) a)"
proof -
  have "ip_address [] = None" by code_simp
  then show ?thesis
    by (auto simp: is_source_allowed_def Let_def in_network_covers list_ex_iff filter_empty_conv
        split: option.splits)
qed

end
