(* ===== verification/Login.thy ===== *)
theory Login
  imports Sessions Policy TagRules
begin

text \<open>
  Logging in: the rate limiter (\<open>auth/ratelimit.py\<close>), the local password login, the invitation page,
  logout and the Google login of \<open>api/auth.py\<close>, and what of \<open>auth/google_oidc.py\<close> decides about an
  identity.  Google itself is the record \<open>google\<close>: the answer of the token endpoint and the claims of
  a verified id token.  A JSON error response is committed like any other response; an exception is
  rolled back.
\<close>

section \<open>The rate limiter\<close>

definition attempt_window :: int where
  "attempt_window = seconds 60"

definition attempt_threshold :: nat where
  "attempt_threshold = 5"

definition lock_duration :: int where
  "lock_duration = seconds (15 * 60)"

definition ip_lock_email :: string where
  "ip_lock_email = ''(ip-lock)''"

definition add_attempt ::
  "env \<Rightarrow> string \<Rightarrow> attempt_outcome \<Rightarrow> string option \<Rightarrow> db \<Rightarrow> db" where
  "add_attempt e email outcome source_ip d =
     tick (password_attempts_update (\<lambda>ps. ps @
       [\<lparr>pa_id = ulid e (fresh d), pa_email = email, pa_attempted_at = now e,
         pa_source_ip = source_ip, pa_outcome = outcome\<rparr>]) d)"

definition record_attempt ::
  "env \<Rightarrow> string \<Rightarrow> attempt_outcome \<Rightarrow> string option \<Rightarrow> db \<Rightarrow> db" where
  "record_attempt e email outcome source_ip d = add_attempt e (lower email) outcome source_ip d"

definition failed_guess :: "password_attempt \<Rightarrow> bool" where
  "failed_guess p = (pa_outcome p = bad_password \<or> pa_outcome p = unknown_email)"

definition is_ip_locked :: "env \<Rightarrow> string option \<Rightarrow> db \<Rightarrow> bool \<times> db" where
  "is_ip_locked e source_ip d =
     (if \<not> nonempty_text source_ip then (False, d)
      else if list_ex (\<lambda>p. pa_source_ip p = source_ip \<and> pa_outcome p = attempt_locked \<and>
                now e - lock_duration \<le> pa_attempted_at p) (password_attempts d)
      then (True, d)
      else if perip_lockout_threshold (cfg e) \<le>
                length (filter (\<lambda>p. pa_source_ip p = source_ip \<and>
                  now e - attempt_window \<le> pa_attempted_at p \<and> failed_guess p) (password_attempts d))
      then (True, add_attempt e ip_lock_email attempt_locked source_ip d)
      else (False, d))"

definition is_locked_email :: "env \<Rightarrow> string \<Rightarrow> db \<Rightarrow> bool \<times> db" where
  "is_locked_email e email d =
     (let email_n = lower email in
      if list_ex (\<lambda>p. pa_email p = email_n \<and> pa_outcome p = attempt_locked \<and>
           now e - lock_duration \<le> pa_attempted_at p) (password_attempts d)
      then (True, d)
      else if attempt_threshold \<le>
                length (filter (\<lambda>p. pa_email p = email_n \<and>
                  now e - attempt_window \<le> pa_attempted_at p \<and> failed_guess p) (password_attempts d))
      then (True, record_attempt e email attempt_locked None d)
      else (False, d))"

section \<open>Responses\<close>

text \<open>
  An error body, an exception, a login with its cookie and member, a redirect with its cookie, the
  redirect to Google with state, nonce and code challenge, and the pages.
\<close>

datatype auth_response =
    ErrorBody int string
  | Raised int string
  | LoggedIn string member
  | RedirectTo string string
  | GoogleRedirect string string string
  | LoggedOut
  | InvitationPage string
  | InvitationInvalid

text \<open>\<open>request.client\<close> is its host; without it, the first entry of the forwarding header.\<close>

definition client_ip :: "string option \<Rightarrow> string option \<Rightarrow> string option" where
  "client_ip host forwarded =
     (case host of
        Some h \<Rightarrow> Some h
      | None \<Rightarrow>
          (let first = strip (before_char (CHR '','') (case forwarded of None \<Rightarrow> [] | Some x \<Rightarrow> x))
           in if first = [] then None else Some first))"

section \<open>The local login\<close>

definition local_login ::
  "env \<Rightarrow> string \<Rightarrow> string \<Rightarrow> string option \<Rightarrow> string option \<Rightarrow> db \<Rightarrow> auth_response \<times> db" where
  "local_login e raw_email password ip user_agent d =
     (let email = normalize_identifier raw_email;
          refused = ErrorBody 401 ''invalid_credentials'' in
      if \<not> is_source_allowed d ip then (ErrorBody 401 ''source_not_allowed'', d)
      else case is_ip_locked e ip d of
        (True, d1) \<Rightarrow> (ErrorBody 429 ''rate_limited'', d1)
      | (False, d1) \<Rightarrow>
          (case is_locked_email e email d1 of
             (True, d2) \<Rightarrow> (ErrorBody 429 ''rate_limited'', d2)
           | (False, d2) \<Rightarrow>
               (case find (\<lambda>m. m_email m = email) (members d2) of
                  None \<Rightarrow>
                    (refused,
                     audit_record_full e login_failure actor_anonymous None None None ip None None
                       [(''reason'', JStr ''unknown_email''), (''email'', JStr email)] None
                       (record_attempt e email unknown_email ip d2))
                | Some m \<Rightarrow>
                    if m_provider m \<noteq> local_password \<or> m_password_hash m = None
                    then (refused, record_attempt e email bad_password ip d2)
                    else if m_status m \<noteq> member_active
                    then (refused, record_attempt e email attempt_disabled ip d2)
                    else if \<not> verify_password e (the (m_password_hash m)) password
                    then (refused,
                          audit_record_full e login_failure actor_member (Some (m_id m)) None None ip None None
                            [(''reason'', JStr ''bad_password''), (''email'', JStr email)] None
                            (record_attempt e email bad_password ip d2))
                    else (case create_session e (m_id m) ip user_agent
                                 (record_attempt e email attempt_success ip d2) of
                       (None, d3) \<Rightarrow> (Raised 500 ''internal'', rollback_to d d3)
                     | (Some s, d3) \<Rightarrow>
                         (LoggedIn (is_plaintext s) m,
                          audit_record_full e login_success actor_member (Some (m_id m)) None None ip None None
                            [(''provider'', JStr ''local_password'')] None d3)))))"

definition logout_endpoint :: "env \<Rightarrow> string option \<Rightarrow> db \<Rightarrow> auth_response \<times> db" where
  "logout_endpoint e session_cookie d =
     (case session_cookie of
        None \<Rightarrow> (LoggedOut, d)
      | Some c \<Rightarrow> (LoggedOut, if c = [] then d else revoke_session e c ''logout'' d))"

section \<open>Invitations\<close>

definition invitation_view :: "env \<Rightarrow> string \<Rightarrow> db \<Rightarrow> auth_response" where
  "invitation_view e token d =
     (case lookup_invitation e token d of
        None \<Rightarrow> InvitationInvalid
      | Some i \<Rightarrow>
          if i_used_at i \<noteq> None \<or> i_expires_at i \<le> now e then InvitationInvalid
          else InvitationPage (i_token_prefix i))"

definition set_member :: "string \<Rightarrow> (member \<Rightarrow> member) \<Rightarrow> db \<Rightarrow> db" where
  "set_member mid f d = members_update (update_where (\<lambda>m. m_id m = mid) f) d"

definition invitation_accept ::
  "env \<Rightarrow> string \<Rightarrow> string \<Rightarrow> string option \<Rightarrow> string option \<Rightarrow> db \<Rightarrow> auth_response \<times> db" where
  "invitation_accept e token password ip user_agent d =
     (if enforce_policy password \<noteq> None then (ErrorBody 400 ''weak_password'', d)
      else case consume_invitation e token d of
        (None, d1) \<Rightarrow> (ErrorBody 404 ''invalid_token'', d1)
      | (Some m, d1) \<Rightarrow>
          (case hash_password e password d1 of
             (Inl err, d2) \<Rightarrow> (Raised 500 ''internal'', rollback_to d d2)
           | (Inr h, d2) \<Rightarrow>
               (let d3 = set_member (m_id m) (\<lambda>m. m\<lparr>m_password_hash := Some h\<rparr>) d2;
                    d4 = audit_record_full e invitation_used actor_member (Some (m_id m)) None None ip
                           None None [] None d3
                in case create_session e (m_id m) ip user_agent d4 of
                  (None, d5) \<Rightarrow> (Raised 500 ''internal'', rollback_to d d5)
                | (Some s, d5) \<Rightarrow> (LoggedIn (is_plaintext s) (m\<lparr>m_password_hash := Some h\<rparr>), d5))))"

section \<open>Google\<close>

text \<open>
  The claims the code reads.  \<open>exchange_code code verifier\<close> is the status of the token endpoint and the
  id token of its answer, \<open>verify_id_token token nonce\<close> the claims once signature, issuer, audience,
  expiry and nonce are checked, or the text of the \<open>JoseError\<close> the source turns into an \<open>AuthError\<close>; a
  network failure is an exception nothing catches, here \<open>None\<close>.
\<close>

record oidc_claims =
  cl_sub :: "string option"
  cl_email :: "string option"
  cl_email_verified :: "bool option"
  cl_name :: "string option"

record google =
  discovery_ok :: bool
  exchange_code :: "string \<Rightarrow> string \<Rightarrow> (int \<times> string option) option"
  verify_id_token :: "string \<Rightarrow> string \<Rightarrow> (string + oidc_claims) option"

record auth_result =
  ar_external_id :: string
  ar_email :: string
  ar_display_name :: string

definition claim_str :: "string option \<Rightarrow> string" where
  "claim_str s = (case s of None \<Rightarrow> ''None'' | Some x \<Rightarrow> x)"

text \<open>\<open>None\<close> is the uncaught exception, \<open>Some (Inl msg)\<close> the \<open>AuthError\<close>.\<close>

definition oidc_authenticate ::
  "google \<Rightarrow> string \<Rightarrow> string \<Rightarrow> string \<Rightarrow> (string + auth_result) option" where
  "oidc_authenticate g code verifier nonce =
     (if \<not> discovery_ok g then None
      else case exchange_code g code verifier of
        None \<Rightarrow> None
      | Some (status, id_token) \<Rightarrow>
          if status \<noteq> 200 then Some (Inl ''token exchange failed'')
          else if \<not> nonempty_text id_token then Some (Inl ''no id_token from upstream'')
          else (case verify_id_token g (the id_token) nonce of
             None \<Rightarrow> None
           | Some (Inl msg) \<Rightarrow> Some (Inl (''id_token validation failed: '' @ msg))
           | Some (Inr cl) \<Rightarrow>
               if \<not> nonempty_text (cl_email cl) \<or> cl_email_verified cl = Some False
               then Some (Inl ''email missing or unverified'')
               else Some (Inr \<lparr>ar_external_id = claim_str (cl_sub cl), ar_email = lower (the (cl_email cl)),
                   ar_display_name = (if nonempty_text (cl_name cl) then the (cl_name cl)
                                      else the (cl_email cl))\<rparr>)))"

definition oidc_state_ttl :: int where
  "oidc_state_ttl = seconds (10 * 60)"

definition oidc_start ::
  "env \<Rightarrow> google \<Rightarrow> string option \<Rightarrow> string \<Rightarrow> db \<Rightarrow> auth_response \<times> db" where
  "oidc_start e g ip next_url d =
     (if google_oauth_client_id (cfg e) = [] then (ErrorBody 503 ''provider_not_configured'', d)
      else if \<not> is_source_allowed d ip then (ErrorBody 401 ''source_not_allowed'', d)
      else if \<not> discovery_ok g then (Raised 500 ''internal'', d)
      else
        (let next_url = (if starts_with ''/'' next_url then next_url else ''/me'');
             (state, d1) = (token_urlsafe e (fresh d), tick d);
             (nonce, d2) = (token_urlsafe e (fresh d1), tick d1);
             (verifier, d3) = (token_urlsafe e (fresh d2), tick d2);
             row = \<lparr>os_state = state, os_nonce = nonce, os_code_verifier = verifier,
                    os_redirect_to = next_url, os_created_at = now e,
                    os_expires_at = now e + oidc_state_ttl\<rparr>
         in if list_ex (\<lambda>s. os_state s = state) (oidc_states d3)
            then (Raised 500 ''internal'', rollback_to d d3)
            else (GoogleRedirect state nonce (sha256_b64url e verifier),
                  oidc_states_update (\<lambda>ss. ss @ [row]) d3)))"

definition new_google_member :: "env \<Rightarrow> string \<Rightarrow> auth_result \<Rightarrow> member" where
  "new_google_member e mid res =
     \<lparr>m_id = mid, m_email = ar_email res, m_provider = google_oidc,
      m_external_id = Some (ar_external_id res), m_display_name = ar_display_name res,
      m_status = member_active, m_password_hash = None, m_created_at = now e, m_disabled_at = None,
      m_created_by = ''auto_register'', m_is_admin = False\<rparr>"

text \<open>\<open>Inl ()\<close> is the conflict with an email of another provider.  A newly registered member is tagged by
  the rules.\<close>

definition find_or_create_oidc_member ::
  "env \<Rightarrow> re_engine \<Rightarrow> auth_result \<Rightarrow> db \<Rightarrow> (unit + member) \<times> db" where
  "find_or_create_oidc_member e re res d =
     (case find (\<lambda>m. m_email m = ar_email res) (members d) of
        Some m \<Rightarrow> if m_provider m \<noteq> google_oidc then (Inl (), d) else (Inr m, d)
      | None \<Rightarrow>
          (let m = new_google_member e (ulid e (fresh d)) res;
               d1 = members_update (\<lambda>ms. ms @ [m]) (tick d);
               (tag, d2) = apply_to_new_member e re (m_id m) (m_email m) ''auto_register'' d1
           in (Inr m, d2)))"

definition oidc_callback ::
  "env \<Rightarrow> google \<Rightarrow> re_engine \<Rightarrow> string \<Rightarrow> string \<Rightarrow> string option \<Rightarrow> string option \<Rightarrow> db
     \<Rightarrow> auth_response \<times> db" where
  "oidc_callback e g re code state ip user_agent d =
     (case find (\<lambda>s. os_state s = state) (oidc_states d) of
        None \<Rightarrow> (ErrorBody 401 ''invalid_state'', d)
      | Some s \<Rightarrow>
          if os_expires_at s \<le> now e then (ErrorBody 401 ''invalid_state'', d)
          else
            (let d1 = oidc_states_update (delete_where (\<lambda>s. os_state s = state)) d in
             case oidc_authenticate g code (os_code_verifier s) (os_nonce s) of
               None \<Rightarrow> (Raised 500 ''internal'', d)
             | Some (Inl msg) \<Rightarrow>
                 (ErrorBody 401 ''invalid_credentials'',
                  audit_record_full e login_failure actor_anonymous None None None ip None None
                    [(''reason'', JStr ''invalid_credentials''), (''stage'', JStr ''oidc''),
                     (''message'', JStr msg)] None d1)
             | Some (Inr res) \<Rightarrow>
                 if \<not> is_email_allowed d1 (ar_email res)
                 then (ErrorBody 401 ''not_allowed'',
                       audit_record_full e login_failure actor_anonymous None None None ip None None
                         [(''reason'', JStr ''not_allowed''), (''email'', JStr (ar_email res))] None d1)
                 else (case find_or_create_oidc_member e re res d1 of
                   (Inl _, d2) \<Rightarrow> (Raised 409 ''provider_conflict'', rollback_to d d2)
                 | (Inr m, d2) \<Rightarrow>
                     if m_status m \<noteq> member_active then (ErrorBody 401 ''disabled'', d2)
                     else (case create_session e (m_id m) ip user_agent d2 of
                        (None, d3) \<Rightarrow> (Raised 500 ''internal'', rollback_to d d3)
                      | (Some sess, d3) \<Rightarrow>
                          (RedirectTo (os_redirect_to s) (is_plaintext sess),
                           audit_record_full e login_success actor_member (Some (m_id m)) None None ip None
                             None [(''provider'', JStr ''google_oidc'')] None d3)))))"

end
