(* ===== verification/Members.thy ===== *)
theory Members
  imports Login MemberTags
begin

text \<open>
  The members: \<open>services/members.py\<close> and the administrator's endpoints of \<open>api/admin_members.py\<close>,
  one by one and in bulk.  Deleting a member removes its keys, links and allocations and detaches its
  call records by hand, and everything else that refers to it by the foreign keys of the production
  database (\<open>ON DELETE CASCADE\<close> and \<open>SET NULL\<close>), which are \<open>cascade_credentials\<close>,
  \<open>cascade_allocations\<close> and \<open>cascade_member\<close>.
\<close>

section \<open>The service\<close>

datatype member_error =
    MemberAlreadyExists | MemberValueError | LastAdminCannotDemote | CannotDeleteSelf
  | LastAdminCannotDelete | MemberIntegrityError

definition get_by_email :: "string \<Rightarrow> db \<Rightarrow> member option" where
  "get_by_email email d = find (\<lambda>m. m_email m = lower (strip email)) (members d)"

text \<open>The password of a new member: hashed if one is given, to be set by invitation, or an error.\<close>

definition prepare_password ::
  "env \<Rightarrow> string option \<Rightarrow> bool \<Rightarrow> member \<Rightarrow> db \<Rightarrow> (member_error + member) \<times> db" where
  "prepare_password e initial_password send_invitation m d =
     (if m_provider m \<noteq> local_password then (Inr m, d)
      else if nonempty_text initial_password
      then (case hash_password e (the initial_password) d of
              (Inl err, d1) \<Rightarrow> (Inl MemberValueError, d1)
            | (Inr h, d1) \<Rightarrow> (Inr (m\<lparr>m_password_hash := Some h\<rparr>), d1))
      else if send_invitation then (Inr m, d)
      else (Inl MemberValueError, d))"

text \<open>Once it is prepared: the row, the tags of the rules and the invitation.\<close>

definition register_member ::
  "env \<Rightarrow> re_engine \<Rightarrow> string option \<Rightarrow> bool \<Rightarrow> member \<Rightarrow> db \<Rightarrow> (member_error + member \<times> string option) \<times> db" where
  "register_member e re initial_password send_invitation m d =
     (let d1 = members_update (\<lambda>ms. ms @ [m]) d;
          (tag, d2) = apply_to_new_member e re (m_id m) (m_email m) ''auto_register'' d1
      in if m_provider m = local_password \<and> initial_password = None \<and> send_invitation
         then (case issue_invitation e (m_id m) (m_created_by m) d2 of
                 (None, d3) \<Rightarrow> (Inl MemberIntegrityError, d3)
               | (Some i, d3) \<Rightarrow> (Inr (m, Some (ii_plaintext i)), d3))
         else (Inr (m, None), d2))"

definition create_member ::
  "env \<Rightarrow> re_engine \<Rightarrow> string \<Rightarrow> member_provider \<Rightarrow> string option \<Rightarrow> string option \<Rightarrow> string option
     \<Rightarrow> bool \<Rightarrow> string \<Rightarrow> db \<Rightarrow> (member_error + member \<times> string option) \<times> db" where
  "create_member e re email provider display_name external_id initial_password send_invitation created_by d =
     (let email_n = lower (strip email) in
      case find (\<lambda>m. m_email m = email_n) (members d) of
        Some _ \<Rightarrow> (Inl MemberAlreadyExists, d)
      | None \<Rightarrow>
          (let (mid, d1) = (ulid e (fresh d), tick d);
               m = \<lparr>m_id = mid, m_email = email_n, m_provider = provider, m_external_id = external_id,
                    m_display_name = (if nonempty_text display_name then the display_name else email_n),
                    m_status = member_active, m_password_hash = None, m_created_at = now e,
                    m_disabled_at = None, m_created_by = created_by, m_is_admin = False\<rparr>
           in case prepare_password e initial_password send_invitation m d1 of
             (Inl err, d2) \<Rightarrow> (Inl err, d2)
           | (Inr m, d2) \<Rightarrow> register_member e re initial_password send_invitation m d2))"

text \<open>SQL's \<open>LIKE\<close>: a percent sign is any text, an underscore any character, a backslash quotes.\<close>

fun sql_like :: "string \<Rightarrow> string \<Rightarrow> bool" where
  "sql_like [] s = (s = [])"
| "sql_like (p # ps) [] = (p = CHR ''%'' \<and> sql_like ps [])"
| "sql_like (p # ps) (c # cs) =
     (if p = CHR ''%'' then sql_like ps (c # cs) \<or> sql_like (p # ps) cs
      else if p = CHR ''_'' then sql_like ps cs
      else if p = CHR 0x5C then (case ps of [] \<Rightarrow> False | q # qs \<Rightarrow> q = c \<and> sql_like qs cs)
      else p = c \<and> sql_like ps cs)"

definition list_members ::
  "member_provider option \<Rightarrow> member_status option \<Rightarrow> string option \<Rightarrow> db \<Rightarrow> member list" where
  "list_members provider status q d =
     sort_key (\<lambda>m. - m_created_at m)
       (filter (\<lambda>m. (case provider of None \<Rightarrow> True | Some p \<Rightarrow> m_provider m = p) \<and>
          (case status of None \<Rightarrow> True | Some s \<Rightarrow> m_status m = s) \<and>
          (nonempty_text q \<longrightarrow>
             (let like = ''%'' @ lower (the q) @ ''%''
              in sql_like like (m_email m) \<or> sql_like like (m_display_name m)))) (members d))"

definition update_member ::
  "env \<Rightarrow> string \<Rightarrow> string option \<Rightarrow> member_status option \<Rightarrow> db \<Rightarrow> member option \<times> db" where
  "update_member e mid display_name status d =
     (case get_member mid d of
        None \<Rightarrow> (None, d)
      | Some m \<Rightarrow>
          (let named = (\<lambda>m. case display_name of None \<Rightarrow> m | Some n \<Rightarrow> m\<lparr>m_display_name := n\<rparr>);
               d1 = set_member mid named d
           in case status of
             None \<Rightarrow> (Some (named m), d1)
           | Some st \<Rightarrow>
               if st = m_status m then (Some (named m), d1)
               else if st = member_disabled
               then (let f = (\<lambda>m. m\<lparr>m_status := st, m_disabled_at := Some (now e)\<rparr>)
                     in (Some (f (named m)),
                         snd (revoke_all_for_member e mid ''member_disabled'' (set_member mid f d1))))
               else (let f = (\<lambda>m. m\<lparr>m_status := st\<rparr>)
                     in (Some (f (named m)), set_member mid f d1))))"

definition set_is_admin ::
  "env \<Rightarrow> string \<Rightarrow> bool \<Rightarrow> string \<Rightarrow> db \<Rightarrow> (member_error + member option) \<times> db" where
  "set_is_admin e mid is_admin actor d =
     (case get_member mid d of
        None \<Rightarrow> (Inr None, d)
      | Some m \<Rightarrow>
          if m_is_admin m = is_admin then (Inr (Some m), d)
          else if \<not> is_admin \<and> length (active_admins d) \<le> 1 then (Inl LastAdminCannotDemote, d)
          else (let f = (\<lambda>m. m\<lparr>m_is_admin := is_admin\<rparr>)
                in (Inr (Some (f m)),
                    audit_record e (if is_admin then member_promoted else member_demoted) actor_admin
                      (Some actor) (Some ''member'') (Some mid) [] (set_member mid f d))))"

section \<open>Deletion\<close>

definition cascade_credentials :: "string list \<Rightarrow> db \<Rightarrow> db" where
  "cascade_credentials cids d =
     device_auths_update (update_where (\<lambda>r. \<exists>c \<in> set cids. d_credential_id r = Some c)
         (\<lambda>r. r\<lparr>d_credential_id := None\<rparr>))
      (oauth_auths_update (update_where (\<lambda>r. \<exists>c \<in> set cids. o_credential_id r = Some c)
         (\<lambda>r. r\<lparr>o_credential_id := None\<rparr>)) d)"

definition cascade_allocations :: "string list \<Rightarrow> db \<Rightarrow> db" where
  "cascade_allocations aids d =
     device_auths_update (delete_where (\<lambda>r. \<exists>a \<in> set aids. d_allocation_id r = Some a))
      (stored_responses_update (delete_where (\<lambda>r. sr_allocation_id r \<in> set aids)) d)"

definition cascade_member :: "string \<Rightarrow> db \<Rightarrow> db" where
  "cascade_member mid d =
     sessions_update (delete_where (\<lambda>s. s_member_id s = mid))
      (invitations_update (delete_where (\<lambda>i. i_member_id i = mid))
       (member_tags_update (delete_where (\<lambda>t. mt_member_id t = mid))
        (oauth_auths_update (delete_where (\<lambda>r. o_member_id r = mid))
         (device_auths_update (delete_where (\<lambda>r. d_member_id r = Some mid))
          (reclaim_locks_update (delete_where (\<lambda>l. l_member_id l = mid)) d)))))"

definition ids_or_blank :: "string list \<Rightarrow> string list" where
  "ids_or_blank ids = (if ids = [] then [''''] else ids)"

definition remove_member_rows :: "string \<Rightarrow> string list \<Rightarrow> string list \<Rightarrow> db \<Rightarrow> db" where
  "remove_member_rows mid aids cids d =
     (let orphan = (\<lambda>r. r\<lparr>r_allocation_id := None\<rparr>);
          d1 = (if aids = [] then d
                else call_records_update
                  (update_where (\<lambda>r. \<exists>a \<in> set aids. r_allocation_id r = Some a) orphan) d);
          d2 = (if cids = [] \<and> aids = [] then d1
                else credential_allocations_update (delete_where (\<lambda>l.
                  ca_credential_id l \<in> set (ids_or_blank cids) \<or>
                  ca_allocation_id l \<in> set (ids_or_blank aids))) d1);
          d3 = (if cids = [] then d2
                else cascade_credentials cids (credentials_update (delete_where (\<lambda>c. c_id c \<in> set cids)) d2));
          d4 = (if aids = [] then d3
                else cascade_allocations aids (allocations_update (delete_where (\<lambda>a. a_id a \<in> set aids)) d3))
      in cascade_member mid (members_update (delete_where (\<lambda>m. m_id m = mid)) d4))"

definition delete_member ::
  "env \<Rightarrow> string \<Rightarrow> string option \<Rightarrow> string \<Rightarrow> db \<Rightarrow> (member_error + bool) \<times> db" where
  "delete_member e mid acting_admin_id actor d =
     (case get_member mid d of
        None \<Rightarrow> (Inr False, d)
      | Some m \<Rightarrow>
          if acting_admin_id = Some mid then (Inl CannotDeleteSelf, d)
          else if m_is_admin m \<and> m_status m = member_active \<and>
                  filter (\<lambda>x. m_id x \<noteq> mid) (active_admins d) = []
          then (Inl LastAdminCannotDelete, d)
          else
            (let aids = map a_id (filter (\<lambda>a. a_member_id a = mid) (allocations d));
                 cids = map c_id (filter (\<lambda>c. c_member_id c = mid) (credentials d))
             in (Inr True,
                 audit_record e member_deleted actor_admin (Some actor) (Some ''member'') (Some mid) []
                   (remove_member_rows mid aids cids d))))"

section \<open>The endpoints\<close>

type_synonym 'a http = "(http_error + 'a) \<times> db"

definition failed :: "db \<Rightarrow> int \<Rightarrow> string \<Rightarrow> db \<Rightarrow> 'a http" where
  "failed d code reason d' = (Inl (code, reason), rollback_to d d')"

definition post_member ::
  "env \<Rightarrow> re_engine \<Rightarrow> string \<Rightarrow> member_provider \<Rightarrow> string option \<Rightarrow> string option \<Rightarrow> string option
     \<Rightarrow> bool \<Rightarrow> db \<Rightarrow> (member \<times> string option) http" where
  "post_member e re email provider display_name external_id initial_password send_invitation d =
     (case validate_identifier email of
        Inl err \<Rightarrow> failed d 400 ''bad_request'' d
      | Inr ident \<Rightarrow>
          (case create_member e re ident provider display_name external_id initial_password
                  send_invitation ''bootstrap-admin'' d of
             (Inl MemberAlreadyExists, d1) \<Rightarrow> failed d 409 ''member_exists'' d1
           | (Inl MemberValueError, d1) \<Rightarrow> failed d 400 ''bad_request'' d1
           | (Inl _, d1) \<Rightarrow> failed d 500 ''internal'' d1
           | (Inr made, d1) \<Rightarrow> (Inr made, d1)))"

definition patch_member ::
  "env \<Rightarrow> string \<Rightarrow> string option \<Rightarrow> member_status option \<Rightarrow> bool option \<Rightarrow> db \<Rightarrow> member http" where
  "patch_member e mid display_name status is_admin d =
     (case update_member e mid display_name status d of
        (None, d1) \<Rightarrow> failed d 404 ''not_found'' d1
      | (Some m, d1) \<Rightarrow>
          (case is_admin of
             None \<Rightarrow> (Inr m, d1)
           | Some b \<Rightarrow>
               (case set_is_admin e mid b ''admin'' d1 of
                  (Inl err, d2) \<Rightarrow> failed d 409 ''last_admin_cannot_demote'' d2
                | (Inr None, d2) \<Rightarrow> failed d 404 ''not_found'' d2
                | (Inr (Some m), d2) \<Rightarrow> (Inr m, d2))))"

definition delete_member_endpoint ::
  "env \<Rightarrow> string \<Rightarrow> member option \<Rightarrow> db \<Rightarrow> unit http" where
  "delete_member_endpoint e mid admin d =
     (case delete_member e mid (map_option m_id admin) ''admin'' d of
        (Inl CannotDeleteSelf, d1) \<Rightarrow> failed d 403 ''cannot_delete_self'' d1
      | (Inl _, d1) \<Rightarrow> failed d 409 ''last_admin'' d1
      | (Inr False, d1) \<Rightarrow> failed d 404 ''not_found'' d1
      | (Inr True, d1) \<Rightarrow> (Inr (), d1))"

text \<open>
  The bulk operations treat every item in a transaction of its own: a failed item is rolled back
  and reported, the others go on.  The result lists the items with their status and reason.
\<close>

type_synonym item = "string \<times> string \<times> string option"

fun bulk :: "(string \<Rightarrow> db \<Rightarrow> (string \<times> string option) \<times> db) \<Rightarrow> string list \<Rightarrow> db \<Rightarrow> item list \<times> db" where
  "bulk f [] d = ([], d)"
| "bulk f (i # is) d =
     (case f i d of ((status, reason), d1) \<Rightarrow>
        (case bulk f is d1 of (items, d2) \<Rightarrow> ((i, status, reason) # items, d2)))"

definition delete_item :: "env \<Rightarrow> string option \<Rightarrow> string \<Rightarrow> db \<Rightarrow> (string \<times> string option) \<times> db" where
  "delete_item e acting mid d =
     (case delete_member e mid acting ''admin'' d of
        (Inr True, d1) \<Rightarrow> ((''deleted'', None), d1)
      | (Inr False, d1) \<Rightarrow> ((''failed'', Some ''not_found''), d1)
      | (Inl CannotDeleteSelf, d1) \<Rightarrow> ((''failed'', Some ''cannot_delete_self''), rollback_to d d1)
      | (Inl _, d1) \<Rightarrow> ((''failed'', Some ''last_admin''), rollback_to d d1))"

definition bulk_delete_members :: "env \<Rightarrow> string list \<Rightarrow> member option \<Rightarrow> db \<Rightarrow> item list http" where
  "bulk_delete_members e mids admin d =
     (if mids = [] then failed d 400 ''bad_request'' d
      else (case bulk (delete_item e (map_option m_id admin)) mids d of (items, d1) \<Rightarrow> (Inr items, d1)))"

text \<open>\<open>str.splitlines\<close> on ASCII text; the empty line between a carriage return and its line feed is
  dropped with the blank ones.\<close>

definition line_break :: "char \<Rightarrow> bool" where
  "line_break c = (let n = (of_char c :: nat) in (10 \<le> n \<and> n \<le> 13) \<or> (28 \<le> n \<and> n \<le> 30))"

definition identifier_lines :: "string \<Rightarrow> string list" where
  "identifier_lines t = filter (\<lambda>l. l \<noteq> []) (map (\<lambda>l. lower (strip l)) (split_on line_break [] t))"

text \<open>The loop ends early, with \<open>None\<close>, at an exception that it does not catch.\<close>

fun create_loop ::
  "env \<Rightarrow> re_engine \<Rightarrow> string set \<Rightarrow> string list \<Rightarrow> db \<Rightarrow> item list option \<times> db" where
  "create_loop e re seen [] d = (Some [], d)"
| "create_loop e re seen (email # rest) d =
     (if email \<in> seen
      then (let (items, d1) = create_loop e re seen rest d
            in (map_option (\<lambda>xs. (email, ''duplicate'', None) # xs) items, d1))
      else case validate_identifier email of
        Inl err \<Rightarrow>
          (let (items, d1) = create_loop e re (insert email seen) rest d
           in (map_option (\<lambda>xs. (email, ''invalid'', None) # xs) items, d1))
      | Inr ident \<Rightarrow>
          (case create_member e re email local_password None None None True ''bulk-admin'' d of
             (Inl MemberAlreadyExists, d1) \<Rightarrow>
               (let (items, d2) = create_loop e re (insert email seen) rest (rollback_to d d1)
                in (map_option (\<lambda>xs. (email, ''exists'', None) # xs) items, d2))
           | (Inl _, d1) \<Rightarrow> (None, rollback_to d d1)
           | (Inr (m, invite), d1) \<Rightarrow>
               (let d2 = audit_record e member_created actor_admin (Some ''bulk-admin'') (Some ''member'')
                           (Some (m_id m)) [] d1;
                    (items, d3) = create_loop e re (insert email seen) rest d2
                in (map_option (\<lambda>xs. (email, ''created'', invite) # xs) items, d3))))"

definition bulk_create_members :: "env \<Rightarrow> re_engine \<Rightarrow> string \<Rightarrow> db \<Rightarrow> item list http" where
  "bulk_create_members e re emails d =
     (let lines = identifier_lines emails in
      if lines = [] then failed d 400 ''bad_request'' d
      else case create_loop e re {} lines d of
        (None, d1) \<Rightarrow> (Inl (500, ''internal''), d1)
      | (Some items, d1) \<Rightarrow> (Inr items, d1))"

text \<open>The active administrators are read once and shrink as the batch disables them.\<close>

fun status_loop ::
  "env \<Rightarrow> string \<Rightarrow> member_status \<Rightarrow> string set \<Rightarrow> string list \<Rightarrow> db \<Rightarrow> item list \<times> db" where
  "status_loop e acting st admins [] d = ([], d)"
| "status_loop e acting st admins (mid # rest) d =
     (if st = member_disabled \<and> mid \<in> admins \<and> card admins \<le> 1
      then (let (items, d1) = status_loop e acting st admins rest d
            in ((mid, ''failed'', Some ''last_admin'') # items, d1))
      else case update_member e mid None (Some st) d of
        (None, d1) \<Rightarrow>
          (let (items, d2) = status_loop e acting st admins rest (rollback_to d d1)
           in ((mid, ''failed'', Some ''not_found'') # items, d2))
      | (Some m, d1) \<Rightarrow>
          (let d2 = audit_record e (if st = member_disabled then member_was_disabled else member_enabled)
                      actor_admin (Some acting) (Some ''member'') (Some mid) [] d1;
               left = (if st = member_disabled then admins - {mid} else admins);
               (items, d3) = status_loop e acting st left rest d2
           in ((mid, ''changed'', None) # items, d3)))"

definition acting_name :: "member option \<Rightarrow> string" where
  "acting_name admin = (case admin of None \<Rightarrow> ''admin'' | Some m \<Rightarrow> m_id m)"

definition bulk_set_status ::
  "env \<Rightarrow> string list \<Rightarrow> member_status \<Rightarrow> member option \<Rightarrow> db \<Rightarrow> item list http" where
  "bulk_set_status e mids st admin d =
     (if mids = [] then failed d 400 ''bad_request'' d
      else (let admins = (if st = member_disabled then m_id ` set (active_admins d) else {});
                (items, d1) = status_loop e (acting_name admin) st admins mids d
            in (Inr items, d1)))"

definition tags_item ::
  "env \<Rightarrow> string \<Rightarrow> string list \<Rightarrow> string list \<Rightarrow> string \<Rightarrow> db \<Rightarrow> (string \<times> string option) \<times> db" where
  "tags_item e acting add remove mid d =
     (let lost = (\<lambda>err d1. ((''failed'', Some (if err = TagMemberNotFound then ''not_found'' else ''internal'')),
                      rollback_to d d1));
          removing = (\<lambda>d1. if remove = [] then ((''changed'', None), d1)
            else case remove_tags e mid remove (Some acting) d1 of
              (Inl err, d2) \<Rightarrow> lost err d2 | (Inr _, d2) \<Rightarrow> ((''changed'', None), d2))
      in if add = [] then removing d
         else case add_tags e mid add (Some acting) manual None d of
           (Inl err, d1) \<Rightarrow> lost err d1 | (Inr _, d1) \<Rightarrow> removing d1)"

definition bulk_tags ::
  "env \<Rightarrow> string list \<Rightarrow> string list \<Rightarrow> string list \<Rightarrow> member option \<Rightarrow> db \<Rightarrow> item list http" where
  "bulk_tags e mids add remove admin d =
     (if mids = [] then failed d 400 ''bad_request'' d
      else if \<not> list_all validate_tag add then failed d 500 ''internal'' d
      else (let gone = filter (\<lambda>t. t \<noteq> []) (map (\<lambda>t. lower (strip t)) remove) in
            if add = [] \<and> gone = [] then failed d 400 ''bad_request'' d
            else case bulk (tags_item e (acting_name admin) add gone) mids d of
              (items, d1) \<Rightarrow> (Inr items, d1)))"

definition allocate_item ::
  "env \<Rightarrow> string \<Rightarrow> string \<Rightarrow> int option \<Rightarrow> decimal option \<Rightarrow> string \<Rightarrow> db
     \<Rightarrow> (string \<times> string option) \<times> db" where
  "allocate_item e acting model quota cost mid d =
     (if list_ex (\<lambda>a. a_member_id a = mid \<and> a_resource_model a = model \<and> a_status a = active) (allocations d)
      then ((''skipped'', Some ''already_has''), d)
      else if get_member mid d = None then ((''failed'', Some ''not_found''), d)
      else case create_allocation e (Some mid) model None (Some acting) None quota cost origin_admin d of
        (Inl err, d1) \<Rightarrow> ((''failed'', Some ''internal''), rollback_to d d1)
      | (Inr a, d1) \<Rightarrow> ((''granted'', None), d1))"

definition bulk_allocate ::
  "env \<Rightarrow> string list \<Rightarrow> string \<Rightarrow> int option \<Rightarrow> decimal option \<Rightarrow> member option \<Rightarrow> db \<Rightarrow> item list http" where
  "bulk_allocate e mids model quota cost admin d =
     (if mids = [] \<or> strip model = [] then failed d 400 ''bad_request'' d
      else (case bulk (allocate_item e (acting_name admin) model quota cost) mids d of
        (items, d1) \<Rightarrow> (Inr items, d1)))"

definition list_member_sessions :: "string \<Rightarrow> db \<Rightarrow> session_row list http" where
  "list_member_sessions mid d =
     (if get_member mid d = None then failed d 404 ''not_found'' d
      else (Inr (sort_key (\<lambda>s. - s_last_seen_at s) (filter (\<lambda>s. s_member_id s = mid) (sessions d))), d))"

definition revoke_member_sessions :: "env \<Rightarrow> string \<Rightarrow> db \<Rightarrow> db" where
  "revoke_member_sessions e mid d = snd (revoke_all_for_member e mid ''manual'' d)"

end
