(* ===== verification/Window.thy ===== *)
theory Window
  imports Prelude
begin

text \<open>
  The interface of things that are limited per window of time: guesses at a password, logins of an
  address, alerts and e-mails of one kind.  A component keeps the times of its events in the state
  (\<open>stamps\<close>) and adds one only after it has counted fewer than \<open>limit\<close> in the last \<open>width\<close>.  The
  client's lemma is \<open>never_more\<close>: over any run at times that do not go back, no window of that width,
  wherever it starts, holds more than \<open>limit\<close> events.
\<close>

section \<open>Runs in time\<close>

text \<open>\<open>timed_run step (t, d) (t', d')\<close>: operations at times from \<open>t\<close> to \<open>t'\<close> lead from \<open>d\<close> to \<open>d'\<close>.\<close>

inductive timed_run :: "(timestamp \<Rightarrow> 'd \<Rightarrow> 'd \<Rightarrow> bool) \<Rightarrow> timestamp \<times> 'd \<Rightarrow> timestamp \<times> 'd \<Rightarrow> bool"
  for step :: "timestamp \<Rightarrow> 'd \<Rightarrow> 'd \<Rightarrow> bool" where
  here: "timed_run step x x"
| later: "timed_run step x (t, d) \<Longrightarrow> t \<le> t' \<Longrightarrow> step t' d d' \<Longrightarrow> timed_run step x (t', d')"

lemma timed_run_one: "t \<le> t' \<Longrightarrow> step t' d d' \<Longrightarrow> timed_run step (t, d) (t', d')"
  by (rule timed_run.later [OF timed_run.here])

lemma timed_run_trans:
  assumes "timed_run step y z" "timed_run step x y"
  shows "timed_run step x z"
  using assms by (induction rule: timed_run.induct) (auto intro: timed_run.later)

lemma timed_run_invariant:
  assumes "timed_run step x y" "P (snd x)" "\<And>t d d'. step t d d' \<Longrightarrow> P d \<Longrightarrow> P d'"
  shows "P (snd y)"
  using assms(1,2) by (induction rule: timed_run.induct) (auto dest: assms(3))

lemma timed_run_mono: "timed_run step x y \<Longrightarrow> fst x \<le> fst y"
  by (induction rule: timed_run.induct) auto

section \<open>The limit\<close>

definition in_window :: "timestamp \<Rightarrow> int \<Rightarrow> timestamp list \<Rightarrow> nat" where
  "in_window a w ss = length (filter (\<lambda>s. a \<le> s \<and> s \<le> a + w) ss)"

lemma in_window_Nil [simp]: "in_window a w [] = 0"
  by (simp add: in_window_def)

lemma in_window_snoc:
  "in_window a w (ss @ [s]) = in_window a w ss + (if a \<le> s \<and> s \<le> a + w then 1 else 0)"
  by (simp add: in_window_def)

lemma length_filter_mono: "(\<And>x. p x \<Longrightarrow> q x) \<Longrightarrow> length (filter p xs) \<le> length (filter q xs)"
  by (induction xs) auto

lemma in_window_filter: "in_window a w (filter p ss) \<le> in_window a w ss"
  unfolding in_window_def by (induction ss) auto

locale windowed =
  fixes stamps :: "'d \<Rightarrow> timestamp list" and step :: "timestamp \<Rightarrow> 'd \<Rightarrow> 'd \<Rightarrow> bool"
    and width :: int and limit :: nat
  assumes one_event: "step t d d' \<Longrightarrow>
      (\<exists>p. stamps d' = filter p (stamps d)) \<or>
      (stamps d' = stamps d @ [t] \<and> length (filter (\<lambda>s. t - width \<le> s) (stamps d)) < limit)"
begin

lemma never_more_from:
  assumes run: "timed_run step x y"
    and past: "\<And>s. s \<in> set (stamps (snd x)) \<Longrightarrow> s \<le> fst x"
    and few: "\<And>a. in_window a width (stamps (snd x)) \<le> limit"
  shows "(\<forall>s \<in> set (stamps (snd y)). s \<le> fst y) \<and> (\<forall>a. in_window a width (stamps (snd y)) \<le> limit)"
  using run past few
proof (induction rule: timed_run.induct)
  case (later x t d t' d')
  have old: "\<forall>s \<in> set (stamps d). s \<le> t" "\<forall>a. in_window a width (stamps d) \<le> limit"
    using later.IH [OF later.prems] by simp_all
  from one_event [OF later.hyps(3)] show ?case
  proof
    assume "\<exists>p. stamps d' = filter p (stamps d)"
    then obtain p where p: "stamps d' = filter p (stamps d)" ..
    have "in_window a width (stamps d') \<le> limit" for a
      unfolding p using in_window_filter old(2) order_trans by blast
    moreover have "\<forall>s \<in> set (stamps d'). s \<le> t'"
      unfolding p using old(1) later.hyps(2) by fastforce
    ultimately show ?thesis by simp
  next
    assume new: "stamps d' = stamps d @ [t'] \<and> length (filter (\<lambda>s. t' - width \<le> s) (stamps d)) < limit"
    have "in_window a width (stamps d') \<le> limit" for a
    proof (cases "a \<le> t' \<and> t' \<le> a + width")
      case True
      then have "in_window a width (stamps d) \<le> length (filter (\<lambda>s. t' - width \<le> s) (stamps d))"
        unfolding in_window_def by (intro length_filter_mono) linarith
      with new True show ?thesis by (simp add: in_window_snoc)
    next
      case False
      then have "in_window a width (stamps d') = in_window a width (stamps d)"
        unfolding conjunct1 [OF new] in_window_snoc by auto
      with old(2) show ?thesis by simp
    qed
    moreover have "\<forall>s \<in> set (stamps d'). s \<le> t'"
      using new old(1) later.hyps(2) by fastforce
    ultimately show ?thesis by simp
  qed
qed auto

lemma never_more:
  assumes "timed_run step (t0, d0) (t, d)" "stamps d0 = []"
  shows "in_window a width (stamps d) \<le> limit"
  using never_more_from [OF assms(1)] assms(2) by simp

end

end
