(* ===== verification/Digests.thy ===== *)
theory Digests
  imports AllocationScope
begin

text \<open>
  Tables whose rows are found by the digest of a secret that was handed out: browser sessions and
  invitations.  The secret is a prefix and a random string, the row keeps only its SHA-256.  The
  definitions take the table (\<open>rows\<close>, \<open>key\<close>), the prefix, a condition every row meets (\<open>fine\<close>) and the
  rows that are used up (\<open>gone\<close>).  \<open>digest_write\<close> is what one operation may do to such a table; it keeps
  the table well formed (\<open>digests_wf\<close>), and a secret whose row is gone never opens anything again
  (\<open>digest_dead\<close>).
\<close>

definition drawn_digest :: "string \<Rightarrow> env \<Rightarrow> nat \<Rightarrow> string \<Rightarrow> bool" where
  "drawn_digest prefix e n i \<longleftrightarrow> (\<exists>k < n. i = sha256_hex e (prefix @ token_urlsafe e k))"

definition digests_wf ::
  "(db \<Rightarrow> 'r list) \<Rightarrow> ('r \<Rightarrow> string) \<Rightarrow> string \<Rightarrow> ('r \<Rightarrow> bool) \<Rightarrow> env \<Rightarrow> db \<Rightarrow> bool" where
  "digests_wf rows key prefix fine e d \<longleftrightarrow> distinct (map key (rows d)) \<and>
     (\<forall>r \<in> set (rows d). drawn_digest prefix e (fresh d) (key r) \<and> fine r)"

inductive digest_write ::
  "(db \<Rightarrow> 'r list) \<Rightarrow> ('r \<Rightarrow> string) \<Rightarrow> string \<Rightarrow> ('r \<Rightarrow> bool) \<Rightarrow> ('r \<Rightarrow> bool) \<Rightarrow> env \<Rightarrow> db \<Rightarrow> db \<Rightarrow> bool"
  for rows key prefix fine gone e d d' where
  keep: "rows d' = rows d \<Longrightarrow> fresh d \<le> fresh d' \<Longrightarrow> digest_write rows key prefix fine gone e d d'"
| add: "rows d' = rows d @ [r] \<Longrightarrow> fine r \<Longrightarrow> key r = sha256_hex e (prefix @ token_urlsafe e k) \<Longrightarrow>
    fresh d \<le> k \<Longrightarrow> k < fresh d' \<Longrightarrow> digest_write rows key prefix fine gone e d d'"
| edit: "rows d' = update_where p f (rows d) \<Longrightarrow> (\<And>r. key (f r) = key r) \<Longrightarrow>
    (\<And>r. fine r \<Longrightarrow> fine (f r)) \<Longrightarrow> (\<And>r. p r \<Longrightarrow> gone r \<Longrightarrow> gone (f r)) \<Longrightarrow> fresh d \<le> fresh d' \<Longrightarrow>
    digest_write rows key prefix fine gone e d d'"
| drop: "rows d' = delete_where p (rows d) \<Longrightarrow> fresh d \<le> fresh d' \<Longrightarrow>
    digest_write rows key prefix fine gone e d d'"

lemma digest_write_env:
  assumes "digest_write rows key prefix fine gone e d d'"
    and "sha256_hex e' = sha256_hex e" "token_urlsafe e' = token_urlsafe e"
  shows "digest_write rows key prefix fine gone e' d d'"
  using assms(1)
proof cases
  case keep
  then show ?thesis by (rule digest_write.keep)
next
  case (add r k)
  then show ?thesis using assms(2,3) by (intro digest_write.add [of rows d' d r fine key e' prefix k]) simp_all
next
  case (edit p f)
  then show ?thesis by (rule digest_write.edit)
next
  case (drop p)
  then show ?thesis by (rule digest_write.drop)
qed

lemma digest_write_at_time [simp]:
  "digest_write rows key prefix fine gone (e\<lparr>now := t\<rparr>) d d' = digest_write rows key prefix fine gone e d d'"
  by (rule iffI; erule digest_write_env) simp_all

lemma drawn_digest_mono: "drawn_digest prefix e n i \<Longrightarrow> n \<le> n' \<Longrightarrow> drawn_digest prefix e n' i"
  unfolding drawn_digest_def using order_less_le_trans by blast

lemma drawn_digest_new:
  "env_ok e \<Longrightarrow> drawn_digest prefix e n (sha256_hex e (prefix @ token_urlsafe e k)) \<longleftrightarrow> k < n"
  by (auto simp: drawn_digest_def env_ok_def inj_eq)

lemma digests_wf_write:
  assumes ok: "env_ok e" and w: "digest_write rows key prefix fine gone e d d'"
    and wf: "digests_wf rows key prefix fine e d"
  shows "digests_wf rows key prefix fine e d'"
  using w
proof cases
  case keep
  with wf show ?thesis by (auto simp: digests_wf_def intro: drawn_digest_mono)
next
  case (add r k)
  have "key r \<noteq> key x" if "x \<in> set (rows d)" for x
  proof -
    have "drawn_digest prefix e (fresh d) (key x)" using wf that by (simp add: digests_wf_def)
    with add(3,4) drawn_digest_new [OF ok, of prefix "fresh d" k] show ?thesis by auto
  qed
  moreover have "drawn_digest prefix e (fresh d') (key r)"
    using add(3,5) drawn_digest_new [OF ok] by simp
  moreover have "fresh d \<le> fresh d'" using add(4,5) by simp
  ultimately show ?thesis using wf add(1,2)
    by (auto simp: digests_wf_def intro: drawn_digest_mono)
next
  case (edit p f)
  have "drawn_digest prefix e (fresh d') (key x) \<and> fine x" if "x \<in> set (rows d')" for x
  proof -
    from that obtain x0 where x0: "x0 \<in> set (rows d)" "key x = key x0" "fine x0 \<Longrightarrow> fine x"
      using edit(2,3) unfolding edit(1) set_update_where by blast
    with wf edit(5) show ?thesis by (auto simp: digests_wf_def intro: drawn_digest_mono)
  qed
  moreover have "distinct (map key (rows d'))"
    using wf edit(1,2) by (simp add: digests_wf_def map_update_where)
  ultimately show ?thesis by (simp add: digests_wf_def)
next
  case (drop p)
  have "distinct (map key (rows d'))"
    using wf drop(1) by (auto simp: digests_wf_def delete_where_def intro: distinct_map_filter)
  with drop wf show ?thesis by (auto simp: digests_wf_def intro: drawn_digest_mono)
qed

text \<open>A secret that was handed out, and that no row answers to unless it is gone.\<close>

definition digest_dead ::
  "(db \<Rightarrow> 'r list) \<Rightarrow> ('r \<Rightarrow> string) \<Rightarrow> string \<Rightarrow> ('r \<Rightarrow> bool) \<Rightarrow> env \<Rightarrow> string \<Rightarrow> db \<Rightarrow> bool" where
  "digest_dead rows key prefix gone e tok d \<longleftrightarrow> (\<exists>k < fresh d. tok = prefix @ token_urlsafe e k) \<and>
     (\<forall>r. find (\<lambda>r. key r = sha256_hex e tok) (rows d) = Some r \<longrightarrow> gone r)"

lemma digest_deadI:
  assumes "k < fresh d" "fresh d \<le> fresh d'" "tok = prefix @ token_urlsafe e k"
    "\<And>r. find (\<lambda>r. key r = sha256_hex e tok) (rows d') = Some r \<Longrightarrow> gone r"
  shows "digest_dead rows key prefix gone e tok d'"
proof -
  have "k < fresh d'" using assms(1,2) by simp
  with assms(3,4) show ?thesis unfolding digest_dead_def by blast
qed

lemma digest_dead_write:
  assumes ok: "env_ok e" and wf: "digests_wf rows key prefix fine e d"
    and w: "digest_write rows key prefix fine gone e d d'" and dead: "digest_dead rows key prefix gone e tok d"
  shows "digest_dead rows key prefix gone e tok d'"
proof -
  obtain k where k: "k < fresh d" "tok = prefix @ token_urlsafe e k"
    using dead unfolding digest_dead_def by blast
  have old: "gone r" if "find (\<lambda>r. key r = sha256_hex e tok) (rows d) = Some r" for r
    using dead that unfolding digest_dead_def by blast
  show ?thesis
  proof (rule digest_deadI [OF k(1) _ k(2)])
    show "fresh d \<le> fresh d'" using w by cases auto
    fix r assume f: "find (\<lambda>r. key r = sha256_hex e tok) (rows d') = Some r"
    show "gone r"
      using w
    proof cases
      case keep
      with f old show ?thesis by simp
    next
      case (add x j)
      have "key x \<noteq> sha256_hex e tok"
        using add(3,4) k ok by (auto simp: env_ok_def inj_eq)
      with add(1) f old show ?thesis by (auto simp: find_append split: option.splits)
    next
      case (edit p g)
      with f obtain r0 where "find (\<lambda>r. key r = sha256_hex e tok) (rows d) = Some r0"
          "r = (if p r0 then g r0 else r0)"
        by (auto simp: find_update_where)
      with old edit(4) show ?thesis by (auto split: if_splits)
    next
      case (drop p)
      then have r: "r \<in> set (rows d)" "key r = sha256_hex e tok" using find_SomeD [OF f] by auto
      have "find (\<lambda>x. key x = key r) (rows d) = Some r"
        using wf r(1) by (intro find_unique) (simp_all add: digests_wf_def)
      with old r(2) show ?thesis by simp
    qed
  qed
qed

text \<open>The ways to make a secret dead: its row becomes gone, or is removed.\<close>

lemma issued_digest:
  assumes "env_ok e" "digests_wf rows key prefix fine e d" "r \<in> set (rows d)" "key r = sha256_hex e tok"
  obtains k where "k < fresh d" "tok = prefix @ token_urlsafe e k"
proof -
  obtain k where "k < fresh d" "key r = sha256_hex e (prefix @ token_urlsafe e k)"
    using assms(2,3) by (auto simp: digests_wf_def drawn_digest_def)
  with assms(1,4) show thesis by (intro that [of k]) (simp_all add: env_ok_def inj_eq)
qed

lemma dead_after_edit:
  assumes ok: "env_ok e" and wf: "digests_wf rows key prefix fine e d"
    and r: "r \<in> set (rows d)" "key r = sha256_hex e tok"
    and w: "rows d' = update_where p f (rows d)" "\<And>x. key (f x) = key x"
    and over: "p r \<Longrightarrow> gone (f r)" "\<not> p r \<Longrightarrow> gone r" and mono: "fresh d \<le> fresh d'"
  shows "digest_dead rows key prefix gone e tok d'"
proof -
  obtain k where k: "k < fresh d" "tok = prefix @ token_urlsafe e k"
    by (rule issued_digest [OF ok wf r])
  have "find (\<lambda>x. key x = sha256_hex e tok) (rows d) = Some r"
    using find_unique [of key "rows d" r] wf r by (simp add: digests_wf_def)
  then have "find (\<lambda>x. key x = sha256_hex e tok) (rows d') = Some (if p r then f r else r)"
    by (simp add: w find_update_where)
  then show ?thesis using over by (intro digest_deadI [OF k(1) mono k(2)]) (auto split: if_splits)
qed

lemma dead_after_drop:
  assumes ok: "env_ok e" and wf: "digests_wf rows key prefix fine e d"
    and r: "r \<in> set (rows d)" "key r = sha256_hex e tok"
    and w: "rows d' = delete_where p (rows d)" "p r" and mono: "fresh d \<le> fresh d'"
  shows "digest_dead rows key prefix gone e tok d'"
proof -
  obtain k where k: "k < fresh d" "tok = prefix @ token_urlsafe e k"
    by (rule issued_digest [OF ok wf r])
  have "x = r" if "x \<in> set (rows d)" "key x = sha256_hex e tok" for x
    using wf r that by (intro distinct_map_eqD [of key "rows d"]) (simp_all add: digests_wf_def)
  then have "find (\<lambda>x. key x = sha256_hex e tok) (rows d') = None"
    using w by (auto simp: find_None_ball)
  then show ?thesis by (intro digest_deadI [OF k(1) mono k(2)]) simp
qed

end
