(* ===== verification/AccountTheorems.thy ===== *)
theory AccountTheorems
  imports LoginTheorems OneShot
begin

text \<open>
  The properties of accounts: how long a session lasts and what ends it for good, what a local login
  takes and gives, how many guesses it allows, and that an invitation and a Google login state work
  once.
\<close>

section \<open>Sessions end for good\<close>

text \<open>The ways to end a session: its own logout, and for all sessions of a member the administrator's
  revocation, disabling the member and deleting it.\<close>

inductive session_end :: "env \<Rightarrow> string \<Rightarrow> string \<Rightarrow> db \<Rightarrow> db \<Rightarrow> bool" for e tok mid d d' where
  by_logout: "logout_endpoint e (Some tok) d = (r, d') \<Longrightarrow> session_end e tok mid d d'"
| by_admin: "d' = revoke_member_sessions e mid d \<Longrightarrow> session_end e tok mid d d'"
| by_disabling: "update_member e mid name (Some member_disabled) d = (u, d') \<Longrightarrow> get_member mid d = Some m \<Longrightarrow>
    m_status m = member_active \<Longrightarrow> session_end e tok mid d d'"
| by_deletion: "delete_member e mid acting actor d = (Inr True, d') \<Longrightarrow> session_end e tok mid d d'"

lemma active_or_revoked: "s_status s = session_active \<or> revoked_session s"
  by (cases "s_status s") (simp_all add: revoked_session_def)

lemma session_end_dead:
  assumes ok: "env_ok e" and wf: "sessions_wf e d" and s: "s \<in> set (sessions d)" "s_id s = sha256_hex e tok"
    and mid: "s_member_id s = mid" and ending: "session_end (at_time e t) tok mid d d'"
  shows "session_dead e tok d'"
  using ending
proof cases
  case (by_logout r)
  have "tok \<noteq> []"
    using issued_digest [OF ok wf s] by (auto simp: session_prefix_def)
  with by_logout have d': "d' = revoke_session (at_time e t) tok ''logout'' d"
    by (simp add: logout_endpoint_def)
  show ?thesis
    by (rule dead_after_edit [OF ok wf s, of _ "\<lambda>s. s_id s = sha256_hex e tok \<and> s_status s = session_active"
        "revoke_row (at_time e t) ''logout''"]) (use s(2) active_or_revoked [of s] in \<open>auto simp: d' revoke_session_def\<close>)
next
  case by_admin
  show ?thesis
    by (rule dead_after_edit [OF ok wf s, of _ "\<lambda>s. s_member_id s = mid \<and> s_status s = session_active"
        "revoke_row (at_time e t) ''manual''"])
       (use mid active_or_revoked [of s] in \<open>auto simp: by_admin revoke_member_sessions_def revoke_all_sessions\<close>)
next
  case (by_disabling name u m)
  then have "sessions d' = update_where (\<lambda>s. s_member_id s = mid \<and> s_status s = session_active)
      (revoke_row (at_time e t) ''member_disabled'') (sessions d)" "fresh d' = fresh d"
    by (auto simp: update_member_def Let_def revoke_all_sessions)
  then show ?thesis
    by (intro dead_after_edit [OF ok wf s, of _ "\<lambda>s. s_member_id s = mid \<and> s_status s = session_active"
        "revoke_row (at_time e t) ''member_disabled''"]) (use mid active_or_revoked [of s] in auto)
next
  case (by_deletion acting actor)
  from by_deletion have "sessions d' = delete_where (\<lambda>s. s_member_id s = mid) (sessions d)" "fresh d \<le> fresh d'"
    by (auto elim!: delete_member_cases simp: remove_rows_frame)
  then show ?thesis
    by (intro dead_after_drop [OF ok wf s, of _ "\<lambda>s. s_member_id s = mid"]) (use mid in auto)
qed

lemma ended_session_dead:
  assumes "env_ok e" "sessions_wf e d" "s \<in> set (sessions d)" "s_id s = sha256_hex e tok"
    and "session_end (at_time e t) tok (s_member_id s) d d1" and "auth_run e (t1, d1) (t2, d2)"
  shows "validate_session (at_time e t3) tok d2 = (None, d2)"
    and "current_member (at_time e t3) (Some tok) d2 = (Inl (401, ''unauthorized''), d2)"
    and "require_admin (at_time e t3) None (Some tok) d2 = (Inl (401, ''unauthorized''), d2)"
proof -
  have dead: "session_dead e tok d1"
    by (rule session_end_dead [OF assms(1-4) refl assms(5)])
  have "session_write e d d1"
    using assms(5)
  proof cases
    case by_admin
    then show ?thesis using revoke_write [of "at_time e t" d] by (simp add: revoke_member_sessions_def revoke_all_sessions)
  qed (auto dest: logout_write update_member_write delete_member_write)
  then have "sessions_wf e d1" using assms(1,2) digests_wf_write by blast
  then have "session_dead e tok d2"
    using run_keeps_dead [OF assms(1,6)] dead by simp
  then show v: "validate_session (at_time e t3) tok d2 = (None, d2)" by (rule dead_validates_nothing)
  show "current_member (at_time e t3) (Some tok) d2 = (Inl (401, ''unauthorized''), d2)"
    "require_admin (at_time e t3) None (Some tok) d2 = (Inl (401, ''unauthorized''), d2)"
    using v by (simp_all add: current_member_def require_admin_def nonempty_text_def)
qed

text \<open>C8: Logging out, revoking a member's sessions, disabling and deleting a member end a session for good:
  whatever happens afterwards, also if the member is enabled again, its cookie opens nothing.\<close>

theorem ended_session_stays_ended:
  assumes "env_ok e" "sessions_wf e d" "s \<in> set (sessions d)" "s_id s = sha256_hex e tok"
    and "session_end (at_time e t) tok (s_member_id s) d d1" and "auth_run e (t1, d1) (t2, d2)"
  shows "validate_session (at_time e t3) tok d2 = (None, d2) \<and>
    current_member (at_time e t3) (Some tok) d2 = (Inl (401, ''unauthorized''), d2) \<and>
    require_admin (at_time e t3) None (Some tok) d2 = (Inl (401, ''unauthorized''), d2)"
  using ended_session_dead [OF assms] by simp

section \<open>How long a session lasts\<close>

lemma validate_Some_iff:
  "fst (validate_session e tok d) = Some m \<longleftrightarrow>
     (\<exists>s. lookup_session e tok d = Some s \<and> s_status s = session_active \<and> now e < s_expires_at s \<and>
        now e < s_idle_timeout_at s \<and> get_member (s_member_id s) d = Some m \<and> m_status m = member_active)"
  by (auto simp: validate_session_def not_le split: option.splits if_splits)

lemma validate_touches:
  assumes "lookup_session e tok d = Some s" "fst (validate_session e tok d) = Some m"
  shows "snd (validate_session e tok d) = set_session (s_id s) (touch_row e) d"
  using assms by (auto simp: validate_session_def split: option.splits if_splits)

lemma session_accepted:
  assumes ok: "env_ok e" and run: "auth_run e (t0, d0) (t1, d)" "sessions d0 = []"
  shows "fst (validate_session (at_time e t) tok d) = Some m \<longleftrightarrow>
    (\<exists>s \<in> set (sessions d). tok \<noteq> [] \<and> s_id s = sha256_hex e tok \<and> s_status s = session_active \<and>
       t < s_created_at s + seconds 86400 \<and> t < s_last_seen_at s + seconds 7200 \<and>
       get_member (s_member_id s) d = Some m \<and> m_status m = member_active)"
    and "fst (validate_session (at_time e t) tok d) = Some m \<Longrightarrow> t < t' \<Longrightarrow> t' < t + seconds 7200 \<Longrightarrow>
      (\<forall>s \<in> set (sessions d). s_id s = sha256_hex e tok \<longrightarrow> t' < s_created_at s + seconds 86400) \<Longrightarrow>
      fst (validate_session (at_time e t') tok (snd (validate_session (at_time e t) tok d))) = Some m"
proof -
  have wf: "sessions_wf e d"
    using run_keeps_wf [OF ok run(1)] run(2) by (simp add: digests_wf_def)
  have look: "lookup_session e tok d = Some s \<longleftrightarrow> tok \<noteq> [] \<and> s \<in> set (sessions d) \<and> s_id s = sha256_hex e tok" for s
    using find_unique [of s_id "sessions d" s] wf
    by (auto simp: lookup_session_def digests_wf_def dest: find_SomeD)
  have times: "s_expires_at s = s_created_at s + seconds 86400" "s_idle_timeout_at s = s_last_seen_at s + seconds 7200"
    if "s \<in> set (sessions d)" for s
    using wf that by (auto simp: digests_wf_def session_times_ok_def session_lifetime_def session_idle_def)
  show iff: "fst (validate_session (at_time e t) tok d) = Some m \<longleftrightarrow>
    (\<exists>s \<in> set (sessions d). tok \<noteq> [] \<and> s_id s = sha256_hex e tok \<and> s_status s = session_active \<and>
       t < s_created_at s + seconds 86400 \<and> t < s_last_seen_at s + seconds 7200 \<and>
       get_member (s_member_id s) d = Some m \<and> m_status m = member_active)" (is "_ \<longleftrightarrow> ?R")
    by (auto simp: validate_Some_iff look times intro!: bexI)
  assume valid: "fst (validate_session (at_time e t) tok d) = Some m" and t': "t < t'" "t' < t + seconds 7200"
    and life: "\<forall>s \<in> set (sessions d). s_id s = sha256_hex e tok \<longrightarrow> t' < s_created_at s + seconds 86400"
  from valid obtain s where s: "lookup_session e tok d = Some s" "s_status s = session_active"
      "get_member (s_member_id s) d = Some m" "m_status m = member_active"
    by (auto simp: validate_Some_iff)
  have touched: "snd (validate_session (at_time e t) tok d) = set_session (s_id s) (touch_row (at_time e t)) d"
    by (rule validate_touches) (use s(1) valid in simp_all)
  let ?d = "set_session (s_id s) (touch_row (at_time e t)) d" and ?s = "touch_row (at_time e t) s"
  have "lookup_session e tok ?d = Some ?s"
    using s(1) by (auto simp: lookup_session_def set_session_def find_update_where split: if_splits)
  moreover have "s_expires_at ?s = s_created_at s + seconds 86400" "s_idle_timeout_at ?s = t + seconds 7200"
    "s_member_id ?s = s_member_id s"
    using times s(1) look by (simp_all add: touch_row_def session_idle_def)
  moreover have "get_member (s_member_id s) ?d = Some m" using s(3) by (simp add: get_member_def set_session_def)
  ultimately show "fst (validate_session (at_time e t') tok (snd (validate_session (at_time e t) tok d))) = Some m"
    unfolding touched validate_Some_iff using s t' life look
    by (intro exI [of _ ?s]) simp
qed

text \<open>In every session reached without a session row to begin with, a cookie is accepted exactly if it
  is that of an unrevoked row of an active member, less than 24 hours after the login and less than
  two hours after the last request; and an accepted request restarts the two hours.\<close>

theorem session_accepted_iff:
  assumes "env_ok e" "auth_run e (t0, d0) (t1, d)" "sessions d0 = []"
  shows "(fst (validate_session (at_time e t) tok d) = Some m \<longleftrightarrow>
      (\<exists>s \<in> set (sessions d). tok \<noteq> [] \<and> s_id s = sha256_hex e tok \<and> s_status s = session_active \<and>
         t < s_created_at s + seconds 86400 \<and> t < s_last_seen_at s + seconds 7200 \<and>
         get_member (s_member_id s) d = Some m \<and> m_status m = member_active)) \<and>
    (fst (validate_session (at_time e t) tok d) = Some m \<longrightarrow> t < t' \<longrightarrow> t' < t + seconds 7200 \<longrightarrow>
      (\<forall>s \<in> set (sessions d). s_id s = sha256_hex e tok \<longrightarrow> t' < s_created_at s + seconds 86400) \<longrightarrow>
      fst (validate_session (at_time e t') tok (snd (validate_session (at_time e t) tok d))) = Some m)"
  using session_accepted(1) [OF assms] session_accepted(2) [OF assms] by blast

section \<open>Guessing passwords\<close>

text \<open>What a step does to the attempts: nothing, or one more row; and a failed guess only while fewer
  than the limit were counted, for its email and, if it has one, for its address.\<close>

definition recent :: "(password_attempt \<Rightarrow> bool) \<Rightarrow> timestamp \<Rightarrow> db \<Rightarrow> nat" where
  "recent p t d = length (filter (\<lambda>a. p a \<and> t - attempt_window \<le> pa_attempted_at a \<and> failed_guess a)
     (password_attempts d))"

inductive attempt_write :: "env \<Rightarrow> timestamp \<Rightarrow> db \<Rightarrow> db \<Rightarrow> bool" for e t d d' where
  same: "password_attempts d' = password_attempts d \<Longrightarrow> attempt_write e t d d'"
| attempt: "password_attempts d' = password_attempts d @ [a] \<Longrightarrow> pa_attempted_at a = t \<Longrightarrow>
    (failed_guess a \<Longrightarrow> recent (\<lambda>x. pa_email x = pa_email a) t d < attempt_threshold) \<Longrightarrow>
    (failed_guess a \<Longrightarrow> nonempty_text (pa_source_ip a) \<Longrightarrow>
       recent (\<lambda>x. pa_source_ip x = pa_source_ip a) t d < perip_lockout_threshold (cfg e)) \<Longrightarrow>
    attempt_write e t d d'"

lemma not_locked_recent:
  assumes "is_locked_email e em d = (False, d1)"
  shows "recent (\<lambda>x. pa_email x = lower em) (now e) d < attempt_threshold"
  using assms by (auto simp: is_locked_email_def recent_def Let_def not_le split: if_splits)

lemma not_ip_locked_recent:
  assumes "is_ip_locked e ip d = (False, d1)" "nonempty_text ip"
  shows "recent (\<lambda>x. pa_source_ip x = ip) (now e) d < perip_lockout_threshold (cfg e)"
  using assms by (auto simp: is_ip_locked_def recent_def not_le split: if_splits)

lemma lower_normalized [simp]: "lower (normalize_identifier s) = normalize_identifier s"
  by (simp add: normalize_identifier_def)

lemma local_login_attempt:
  assumes run: "local_login e raw pw ip ua d = (r, d')"
  shows "attempt_write e (now e) d d'"
proof -
  let ?em = "normalize_identifier raw"
  obtain b1 d1 where l1: "is_ip_locked e ip d = (b1, d1)" by fastforce
  obtain b2 d2 where l2: "is_locked_email e ?em d1 = (b2, d2)" by fastforce
  have marker: "attempt_write e (now e) d x" if "password_attempts x = password_attempts d \<or>
      (\<exists>i em ip'. password_attempts x = password_attempts d @ [\<lparr>pa_id = i, pa_email = em, pa_attempted_at = now e,
         pa_source_ip = ip', pa_outcome = attempt_locked\<rparr>])" for x
    using that by (auto intro: attempt_write.intros simp: failed_guess_def)
  show ?thesis
  proof (cases "\<not> is_source_allowed d ip \<or> b1 \<or> b2")
    case True
    then have "d' = d \<or> (b1 \<and> d' = d1) \<or> (\<not> b1 \<and> b2 \<and> d' = d2)"
      using run l1 l2 by (cases b1; cases b2) (auto simp: local_login_def Let_def split: if_splits)
    moreover have "attempt_write e (now e) d d" by (rule attempt_write.same) simp
    moreover have "attempt_write e (now e) d d1" if b1
      by (rule marker) (use l1 that in \<open>auto simp: is_ip_locked_def split: if_splits\<close>)
    moreover have "attempt_write e (now e) d d2" if "\<not> b1" "b2"
      by (rule marker) (use l1 l2 that is_ip_locked_frame [OF l1] in
        \<open>auto simp: is_locked_email_def record_attempt_def Let_def split: if_splits\<close>)
    ultimately show ?thesis by blast
  next
    case False
    with is_ip_locked_frame [OF l1] l1 have l1': "is_ip_locked e ip d = (False, d)" by simp
    with False l1 l2 is_locked_email_frame [OF l2] have l2': "is_locked_email e ?em d = (False, d)" by auto
    have "password_attempts d' = password_attempts d \<or>
      (\<exists>out. password_attempts d' = password_attempts d @ [\<lparr>pa_id = ulid e (fresh d), pa_email = ?em,
         pa_attempted_at = now e, pa_source_ip = ip, pa_outcome = out\<rparr>])"
      using run False l1' l2'
      by (auto simp: local_login_def Let_def record_attempt_def create_session_Some(5)
          split: option.splits if_splits prod.splits dest: create_session_Some(5) create_session_None(1))
    then show ?thesis
    proof
      assume "\<exists>out. password_attempts d' = password_attempts d @ [\<lparr>pa_id = ulid e (fresh d), pa_email = ?em,
         pa_attempted_at = now e, pa_source_ip = ip, pa_outcome = out\<rparr>]"
      then show ?thesis
        using not_locked_recent [OF l2'] not_ip_locked_recent [OF l1']
        by (elim exE, intro attempt_write.attempt) auto
    qed (rule attempt_write.same)
  qed
qed

lemma attempt_write_at_time [simp]: "attempt_write (at_time e t') = attempt_write e"
  by (intro ext iffI; erule attempt_write.cases; fastforce intro: attempt_write.intros)

lemma auth_step_attempt: "auth_step e t d d' \<Longrightarrow> attempt_write e t d d'"
proof (induction rule: auth_step.induct)
  case (login email password ip ua d r d')
  then show ?case using local_login_attempt [OF login] by simp
next
  case (accept token password ip ua d r d')
  then show ?case
    by (intro attempt_write.same, cases rule: accept_cases)
       (auto dest!: create_session_Some(5) consume_frame)
next
  case (google_back g re code state ip ua d r d')
  then show ?case
    by (intro attempt_write.same, cases rule: oidc_callback_cases)
       (auto dest!: create_session_Some(5) find_or_create_frame)
next
  case (removed mid acting actor d x d')
  then show ?case by (auto intro!: attempt_write.same elim!: delete_member_cases simp: remove_rows_frame)
next
  case (updated mid name status d u d')
  then show ?case
    by (auto intro!: attempt_write.same simp: update_member_def Let_def revoke_all_sessions
        split: option.splits if_splits)
next
  case (logged_out cookie d r d')
  then show ?case
    by (auto intro!: attempt_write.same simp: logout_endpoint_def revoke_session_def split: option.splits if_splits)
qed (auto intro!: attempt_write.same dest: oidc_start_write create_member_frame set_is_admin_frame
       simp: validate_session_def set_session_def revoke_member_sessions_def revoke_all_sessions
       split: option.splits if_splits)

definition guess_times :: "(password_attempt \<Rightarrow> bool) \<Rightarrow> db \<Rightarrow> timestamp list" where
  "guess_times p d = map pa_attempted_at (filter (\<lambda>a. p a \<and> failed_guess a) (password_attempts d))"

lemma guess_times_recent:
  "length (filter (\<lambda>s. t - attempt_window \<le> s) (guess_times p d)) = recent p t d"
  by (simp add: guess_times_def recent_def filter_map o_def conj_ac)

lemma guess_times_window:
  "in_window a w (guess_times p d) =
     length (filter (\<lambda>x. failed_guess x \<and> p x \<and> a \<le> pa_attempted_at x \<and> pa_attempted_at x \<le> a + w)
       (password_attempts d))"
  by (simp add: in_window_def guess_times_def filter_map o_def conj_ac)

lemma guess_step:
  assumes w: "attempt_write e t d d'"
    and few: "\<And>a. p a \<Longrightarrow> failed_guess a \<Longrightarrow> pa_attempted_at a = t \<Longrightarrow>
       password_attempts d' = password_attempts d @ [a] \<Longrightarrow> recent p t d < n"
  shows "(\<exists>q. guess_times p d' = filter q (guess_times p d)) \<or>
    (guess_times p d' = guess_times p d @ [t] \<and>
     length (filter (\<lambda>s. t - attempt_window \<le> s) (guess_times p d)) < n)"
  using w
proof cases
  case same
  then have "guess_times p d' = filter (\<lambda>s. True) (guess_times p d)" by (simp add: guess_times_def)
  then show ?thesis by blast
next
  case (attempt a)
  show ?thesis
  proof (cases "p a \<and> failed_guess a")
    case True
    then have "guess_times p d' = guess_times p d @ [t]" using attempt(1,2) by (simp add: guess_times_def)
    with True few [of a] attempt(1,2) show ?thesis by (simp add: guess_times_recent)
  next
    case False
    then have "guess_times p d' = filter (\<lambda>s. True) (guess_times p d)"
      using attempt(1) by (auto simp: guess_times_def)
    then show ?thesis by blast
  qed
qed

interpretation email_guesses: windowed "guess_times (\<lambda>a. pa_email a = em)" "auth_step e"
    attempt_window attempt_threshold for em e
proof
  fix t d d'
  assume "auth_step e t d d'"
  then have w: "attempt_write e t d d'" by (rule auth_step_attempt)
  show "(\<exists>q. guess_times (\<lambda>a. pa_email a = em) d' = filter q (guess_times (\<lambda>a. pa_email a = em) d)) \<or>
      (guess_times (\<lambda>a. pa_email a = em) d' = guess_times (\<lambda>a. pa_email a = em) d @ [t] \<and>
       length (filter (\<lambda>s. t - attempt_window \<le> s) (guess_times (\<lambda>a. pa_email a = em) d)) < attempt_threshold)"
    by (rule guess_step [OF w]) (use w in \<open>auto elim: attempt_write.cases\<close>)
qed

interpretation ip_guesses: windowed "guess_times (\<lambda>a. pa_source_ip a = Some (c # cs))" "auth_step e"
    attempt_window "perip_lockout_threshold (cfg e)" for c cs e
proof
  fix t d d'
  assume "auth_step e t d d'"
  then have w: "attempt_write e t d d'" by (rule auth_step_attempt)
  show "(\<exists>q. guess_times (\<lambda>a. pa_source_ip a = Some (c # cs)) d' =
        filter q (guess_times (\<lambda>a. pa_source_ip a = Some (c # cs)) d)) \<or>
      (guess_times (\<lambda>a. pa_source_ip a = Some (c # cs)) d' =
         guess_times (\<lambda>a. pa_source_ip a = Some (c # cs)) d @ [t] \<and>
       length (filter (\<lambda>s. t - attempt_window \<le> s) (guess_times (\<lambda>a. pa_source_ip a = Some (c # cs)) d))
         < perip_lockout_threshold (cfg e))"
    by (rule guess_step [OF w]) (use w in \<open>auto elim!: attempt_write.cases simp: nonempty_text_def\<close>)
qed

lemma guesses_in_window:
  assumes "auth_run e (t0, d0) (t, d)" "password_attempts d0 = []"
  shows "length (filter (\<lambda>x. failed_guess x \<and> pa_email x = em \<and> a \<le> pa_attempted_at x \<and>
      pa_attempted_at x \<le> a + seconds 60) (password_attempts d)) \<le> 5"
    and "ip \<noteq> [] \<Longrightarrow> length (filter (\<lambda>x. failed_guess x \<and> pa_source_ip x = Some ip \<and> a \<le> pa_attempted_at x \<and>
      pa_attempted_at x \<le> a + seconds 60) (password_attempts d)) \<le> perip_lockout_threshold (cfg e)"
proof -
  have none: "guess_times p d0 = []" for p using assms(2) by (simp add: guess_times_def)
  show "length (filter (\<lambda>x. failed_guess x \<and> pa_email x = em \<and> a \<le> pa_attempted_at x \<and>
      pa_attempted_at x \<le> a + seconds 60) (password_attempts d)) \<le> 5"
    using email_guesses.never_more [OF assms(1) none, of a]
    by (simp add: guess_times_window attempt_window_def attempt_threshold_def)
  assume "ip \<noteq> []"
  then obtain c cs where "ip = c # cs" by (cases ip) auto
  then show "length (filter (\<lambda>x. failed_guess x \<and> pa_source_ip x = Some ip \<and> a \<le> pa_attempted_at x \<and>
      pa_attempted_at x \<le> a + seconds 60) (password_attempts d)) \<le> perip_lockout_threshold (cfg e)"
    using ip_guesses.never_more [OF assms(1) none, of a]
    by (simp add: guess_times_window attempt_window_def)
qed

text \<open>Over any run, no window of 60 seconds holds more than five failed guesses for one email, nor more
  than the configured number from one address.\<close>

theorem guesses_limited:
  assumes "auth_run e (t0, d0) (t, d)" "password_attempts d0 = []"
  shows "length (filter (\<lambda>x. failed_guess x \<and> pa_email x = em \<and> a \<le> pa_attempted_at x \<and>
      pa_attempted_at x \<le> a + seconds 60) (password_attempts d)) \<le> 5 \<and>
    (ip \<noteq> [] \<longrightarrow> length (filter (\<lambda>x. failed_guess x \<and> pa_source_ip x = Some ip \<and> a \<le> pa_attempted_at x \<and>
      pa_attempted_at x \<le> a + seconds 60) (password_attempts d)) \<le> perip_lockout_threshold (cfg e))"
  using guesses_in_window [OF assms] by blast

definition lock_marker :: "string \<Rightarrow> password_attempt \<Rightarrow> bool" where
  "lock_marker em a \<longleftrightarrow> pa_email a = em \<and> pa_outcome a = attempt_locked"

lemma marker_locks:
  assumes "a \<in> set (password_attempts d)" "lock_marker (lower em) a" "now e - lock_duration \<le> pa_attempted_at a"
  shows "fst (is_locked_email e em d)"
  using assms by (auto simp: is_locked_email_def lock_marker_def Let_def list_ex_iff)

lemma locked_refuses:
  assumes "fst (is_locked_email e (normalize_identifier raw) d)"
  shows "fst (local_login e raw pw ip ua d) \<noteq> LoggedIn tok m"
proof
  assume r: "fst (local_login e raw pw ip ua d) = LoggedIn tok m"
  obtain d' where "local_login e raw pw ip ua d = (LoggedIn tok m, d')" using r by (metis prod.collapse)
  then show False by (cases rule: local_login_cases) (use assms in auto)
qed

lemma attempts_kept: "attempt_write e t d d' \<Longrightarrow> a \<in> set (password_attempts d) \<Longrightarrow> a \<in> set (password_attempts d')"
  by (erule attempt_write.cases) auto

lemma fifth_guess_locks:
  assumes allowed: "is_source_allowed d ip" "\<not> fst (is_ip_locked (at_time e t) ip d)"
    and five: "5 \<le> length (filter (\<lambda>x. pa_email x = normalize_identifier raw \<and> t - seconds 60 \<le> pa_attempted_at x \<and>
      failed_guess x) (password_attempts d))"
    and fresh_lock: "\<forall>x \<in> set (password_attempts d). lock_marker (normalize_identifier raw) x \<longrightarrow>
      pa_attempted_at x < t - seconds 900"
    and run: "auth_run e (t, snd (local_login (at_time e t) raw pw ip ua d)) (t2, d2)" and "t3 \<le> t + seconds 900"
  shows "fst (local_login (at_time e t) raw pw ip ua d) = ErrorBody 429 ''rate_limited''"
    and "fst (local_login (at_time e t3) raw pw' ip' ua' d2) \<noteq> LoggedIn tok m"
proof -
  let ?e = "at_time e t" and ?em = "normalize_identifier raw"
  define a where "a = \<lparr>pa_id = ulid e (fresh d), pa_email = ?em, pa_attempted_at = t, pa_source_ip = None,
    pa_outcome = attempt_locked\<rparr>"
  have l1: "is_ip_locked ?e ip d = (False, d)"
    using allowed(2) is_ip_locked_frame [of ?e ip d] by (metis prod.collapse)
  have "\<not> list_ex (\<lambda>p. pa_email p = ?em \<and> pa_outcome p = attempt_locked \<and> t - lock_duration \<le> pa_attempted_at p)
      (password_attempts d)"
    using fresh_lock by (fastforce simp: list_ex_iff lock_marker_def lock_duration_def)
  then have l2: "is_locked_email ?e ?em d = (True, record_attempt ?e ?em attempt_locked None d)"
    using five by (simp add: is_locked_email_def Let_def attempt_window_def attempt_threshold_def)
  have out: "local_login ?e raw pw ip ua d = (ErrorBody 429 ''rate_limited'', record_attempt ?e ?em attempt_locked None d)"
    using allowed(1) l1 l2 by (simp add: local_login_def Let_def)
  then show "fst (local_login ?e raw pw ip ua d) = ErrorBody 429 ''rate_limited''" by simp
  have "a \<in> set (password_attempts (snd (t, snd (local_login ?e raw pw ip ua d))))"
    by (simp add: out record_attempt_def a_def)
  then have "a \<in> set (password_attempts (snd (t2, d2)))"
    using timed_run_invariant [OF run, of "\<lambda>d. a \<in> set (password_attempts d)"] auth_step_attempt attempts_kept
    by blast
  then have "fst (is_locked_email (at_time e t3) ?em d2)"
    by (intro marker_locks [of a]) (use assms(6) in \<open>auto simp: a_def record_attempt_def lock_marker_def lock_duration_def\<close>)
  then show "fst (local_login (at_time e t3) raw pw' ip' ua' d2) \<noteq> LoggedIn tok m"
    by (rule locked_refuses)
qed


section \<open>Logging in\<close>

lemma digests_session_fresh:
  assumes "env_ok e" "sessions_wf e d" "sessions d1 = sessions d" "fresh d \<le> fresh d1"
  obtains s d2 where "create_session (at_time e t) mid ip ua d1 = (Some s, d2)"
proof (cases "create_session (at_time e t) mid ip ua d1")
  case (Pair so d2)
  have "so \<noteq> None"
  proof
    assume "so = None"
    with Pair create_session_None(2) [of "at_time e t" mid ip ua d1 d2] obtain s
      where s: "s \<in> set (sessions d)" "s_id s = sha256_hex e (session_prefix @ token_urlsafe e (fresh d1))"
      using assms(3) by auto
    obtain k where "k < fresh d" "session_prefix @ token_urlsafe e (fresh d1) = session_prefix @ token_urlsafe e k"
      by (rule issued_digest [OF assms(1,2) s])
    with assms(1,4) show False by (auto simp: env_ok_def inj_eq)
  qed
  with Pair that show thesis by auto
qed

text \<open>The session of a login is accepted while it is less than two hours old.\<close>

lemma new_session_valid:
  assumes ok: "env_ok e" and wf: "sessions_wf e d" and d1: "sessions d1 = sessions d" "fresh d \<le> fresh d1"
    and made: "create_session (at_time e t) (m_id m) ip ua d1 = (Some s, d2)"
    and d3: "sessions d3 = sessions d2" "members d3 = members d2"
    and m: "get_member (m_id m) d1 = Some m" "m_status m = member_active"
    and t: "t \<le> t'" "t' < t + seconds 7200"
  shows "fst (validate_session (at_time e t') (is_plaintext s) d3) = Some m"
proof -
  let ?row = "new_session (at_time e t) (sha256_hex e (is_plaintext s)) (m_id m) ip ua"
  note cs = create_session_Some [OF made]
  have "find (\<lambda>x. s_id x = sha256_hex e (is_plaintext s)) (sessions d) = None"
  proof (rule ccontr)
    assume "find (\<lambda>x. s_id x = sha256_hex e (is_plaintext s)) (sessions d) \<noteq> None"
    then obtain x where "x \<in> set (sessions d)" "s_id x = sha256_hex e (is_plaintext s)"
      by (auto dest: find_SomeD)
    then obtain k where "k < fresh d" "is_plaintext s = session_prefix @ token_urlsafe e k"
      by (rule issued_digest [OF ok wf])
    with cs(1) ok d1(2) show False by (auto simp: env_ok_def inj_eq)
  qed
  moreover have "is_plaintext s \<noteq> []" by (simp add: cs(1) session_prefix_def)
  ultimately have "lookup_session e (is_plaintext s) d3 = Some ?row"
    using cs(2) d1(1) by (simp add: lookup_session_def d3(1) find_append new_session_def)
  moreover have "get_member (m_id m) d3 = Some m" using m(1) cs(4) by (simp add: get_member_def d3(2))
  ultimately show ?thesis
    unfolding validate_Some_iff using m(2) t
    by (intro exI [of _ ?row]) (simp add: new_session_def session_lifetime_def session_idle_def)
qed

lemma local_login_result:
  assumes ok: "env_ok e" and wf: "sessions_wf e d" "distinct (map m_id (members d))"
    and run: "local_login (at_time e t) raw pw ip ua d = (r, d')"
    and pass: "is_source_allowed d ip" "\<not> fst (is_ip_locked (at_time e t) ip d)"
      "\<not> fst (is_locked_email (at_time e t) (normalize_identifier raw) d)"
  shows "(\<exists>tok. r = LoggedIn tok m) \<longleftrightarrow>
      find (\<lambda>m. m_email m = normalize_identifier raw) (members d) = Some m \<and> m_provider m = local_password \<and>
      m_status m = member_active \<and> (\<exists>h. m_password_hash m = Some h \<and> argon_verify e h pw)"
    and "\<exists>a. password_attempts d' = password_attempts d @ [a] \<and> pa_email a = normalize_identifier raw \<and>
      pa_attempted_at a = t \<and> pa_source_ip a = ip \<and> (pa_outcome a = attempt_success \<longleftrightarrow> (\<exists>tok m. r = LoggedIn tok m))"
    and "r = LoggedIn tok m \<Longrightarrow> t \<le> t' \<Longrightarrow> t' < t + seconds 7200 \<Longrightarrow>
      fst (validate_session (at_time e t') tok d') = Some m"
proof -
  let ?e = "at_time e t" and ?em = "normalize_identifier raw"
  let ?d1 = "record_attempt ?e ?em attempt_success ip d"
  have l: "is_ip_locked ?e ip d = (False, d)" "is_locked_email ?e ?em d = (False, d)"
    using pass(2,3) is_ip_locked_frame [of ?e ip d] is_locked_email_frame [of ?e ?em d] by (metis prod.collapse)+
  have d1: "sessions ?d1 = sessions d" "fresh d \<le> fresh ?d1" "members ?d1 = members d"
    by (simp_all add: record_attempt_def)
  define good where "good m \<longleftrightarrow> find (\<lambda>m. m_email m = ?em) (members d) = Some m \<and> m_provider m = local_password \<and>
      m_status m = member_active \<and> (\<exists>h. m_password_hash m = Some h \<and> argon_verify e h pw)" for m
  show iff: "(\<exists>tok. r = LoggedIn tok m) \<longleftrightarrow>
      find (\<lambda>m. m_email m = ?em) (members d) = Some m \<and> m_provider m = local_password \<and>
      m_status m = member_active \<and> (\<exists>h. m_password_hash m = Some h \<and> argon_verify e h pw)" for m
    unfolding good_def [symmetric]
  proof
    assume "\<exists>tok. r = LoggedIn tok m"
    with run show "good m" by (cases rule: local_login_cases) (auto simp: verify_password_def good_def)
  next
    assume good: "good m"
    obtain s d2 where "create_session ?e (m_id m) ip ua ?d1 = (Some s, d2)"
      by (rule digests_session_fresh [OF ok wf(1) d1(1,2)])
    with run pass(1) l good show "\<exists>tok. r = LoggedIn tok m"
      by (auto simp: local_login_def Let_def verify_password_def good_def)
  qed
  show "\<exists>a. password_attempts d' = password_attempts d @ [a] \<and> pa_email a = ?em \<and>
      pa_attempted_at a = t \<and> pa_source_ip a = ip \<and> (pa_outcome a = attempt_success \<longleftrightarrow> (\<exists>tok m. r = LoggedIn tok m))"
  proof (cases "\<exists>m. good m")
    case True
    then obtain m where good: "good m" ..
    obtain s d2 where s: "create_session ?e (m_id m) ip ua ?d1 = (Some s, d2)"
      by (rule digests_session_fresh [OF ok wf(1) d1(1,2)])
    with run pass(1) l good create_session_Some(5) [OF s] show ?thesis
      by (auto simp: local_login_def Let_def verify_password_def good_def record_attempt_def)
  next
    case False
    with run pass(1) l show ?thesis
      by (auto simp: local_login_def Let_def verify_password_def good_def record_attempt_def
          split: option.splits if_splits)
  qed
  assume r: "r = LoggedIn tok m" and t: "t \<le> t'" "t' < t + seconds 7200"
  from run show "fst (validate_session (at_time e t') tok d') = Some m"
  proof (cases rule: local_login_cases)
    case (ok m' s d3)
    with r have m: "m' = m" "tok = is_plaintext s" by simp_all
    have "m \<in> set (members d)" using ok(4) find_SomeD m(1) by fastforce
    then have "get_member (m_id m) ?d1 = Some m"
      using wf(2) find_unique [of m_id "members d" m] by (simp add: get_member_def d1(3))
    then show ?thesis
      unfolding m(2) using \<open>env_ok e\<close> ok(7,9,11) d1 t m(1)
      by (intro new_session_valid [OF _ wf(1) d1(1,2)]) auto
  qed (use r in auto)
qed

text \<open>C6: The local login.  From an allowed source, with address and email unlocked, it logs in exactly
  with the right password of an active member that has one; every outcome is written to the attempts
  of that email, and the cookie it returns is accepted for the next two hours.\<close>

theorem local_login_outcome:
  assumes "env_ok e" "sessions_wf e d" "distinct (map m_id (members d))"
    and "local_login (at_time e t) raw pw ip ua d = (r, d')"
    and "is_source_allowed d ip" "\<not> fst (is_ip_locked (at_time e t) ip d)"
      "\<not> fst (is_locked_email (at_time e t) (normalize_identifier raw) d)"
  shows "((\<exists>tok. r = LoggedIn tok m) \<longleftrightarrow>
      find (\<lambda>m. m_email m = normalize_identifier raw) (members d) = Some m \<and> m_provider m = local_password \<and>
      m_status m = member_active \<and> (\<exists>h. m_password_hash m = Some h \<and> argon_verify e h pw)) \<and>
    (\<exists>a. password_attempts d' = password_attempts d @ [a] \<and> pa_email a = normalize_identifier raw \<and>
      pa_attempted_at a = t \<and> pa_source_ip a = ip \<and> (pa_outcome a = attempt_success \<longleftrightarrow> (\<exists>tok m. r = LoggedIn tok m))) \<and>
    (\<forall>tok t'. r = LoggedIn tok m \<longrightarrow> t \<le> t' \<longrightarrow> t' < t + seconds 7200 \<longrightarrow>
      fst (validate_session (at_time e t') tok d') = Some m)"
  using local_login_result [OF assms] by blast

section \<open>Invitations and Google states work once\<close>

abbreviation invitations_wf :: "env \<Rightarrow> db \<Rightarrow> bool" where
  "invitations_wf \<equiv> digests_wf invitations i_token_fingerprint invitation_prefix (\<lambda>i. True)"

abbreviation invitation_write :: "env \<Rightarrow> db \<Rightarrow> db \<Rightarrow> bool" where
  "invitation_write \<equiv> digest_write invitations i_token_fingerprint invitation_prefix (\<lambda>i. True) (\<lambda>i. i_used_at i \<noteq> None)"

abbreviation invitation_dead :: "env \<Rightarrow> string \<Rightarrow> db \<Rightarrow> bool" where
  "invitation_dead \<equiv> digest_dead invitations i_token_fingerprint invitation_prefix (\<lambda>i. i_used_at i \<noteq> None)"

lemma consume_write:
  assumes "consume_invitation e tok d = (m, d')"
  shows "invitation_write e d d'"
proof -
  have "invitation_write e d (set_invitation fp (\<lambda>i. i\<lparr>i_used_at := Some (now e)\<rparr>) d)" for fp
    by (rule digest_write.edit [where p = "\<lambda>i. i_token_fingerprint i = fp" and f = "\<lambda>i. i\<lparr>i_used_at := Some (now e)\<rparr>"])
       (simp_all add: set_invitation_def)
  with assms show ?thesis
    by (auto simp: consume_invitation_def intro: digest_write.keep split: option.splits if_splits)
qed

lemma digest_write_from:
  assumes "digest_write rows key prefix fine gone e d1 d'" "rows d1 = rows d" "fresh d \<le> fresh d1"
  shows "digest_write rows key prefix fine gone e d d'"
  using assms(1)
proof cases
  case (add r k)
  then show ?thesis using assms(2,3) by (intro digest_write.add [where r = r and k = k]) auto
next
  case (edit p f)
  then show ?thesis using assms(2,3) by (intro digest_write.edit [where p = p and f = f]) auto
qed (use assms in \<open>auto intro: digest_write.intros\<close>)

lemma invitation_write_same:
  "invitation_write e d d1 \<Longrightarrow> invitations d' = invitations d1 \<Longrightarrow> fresh d1 \<le> fresh d' \<Longrightarrow> invitation_write e d d'"
  by (erule digest_write.cases) (auto intro: digest_write.intros)

lemma issue_invitation_write:
  assumes "issue_invitation e mid by_whom d = (x, d')"
  shows "invitation_write e d d'"
proof (cases x)
  case None
  with assms show ?thesis
    by (intro digest_write.keep) (auto simp: issue_invitation_def Let_def split: if_splits)
next
  case (Some i)
  with assms show ?thesis
    by (auto simp: issue_invitation_def Let_def split: if_splits intro!: digest_write.add [where k = "fresh d"])
qed

lemma register_member_invitations:
  assumes "register_member e re pw invite m d = (c, d')"
  shows "invitation_write e d d'"
proof -
  obtain x d2 where tags: "apply_to_new_member e re (m_id m) (m_email m) ''auto_register''
      (members_update (\<lambda>ms. ms @ [m]) d) = (x, d2)" by fastforce
  from apply_tags_frame [OF tags] have d2: "invitations d2 = invitations d" "fresh d \<le> fresh d2" by auto
  obtain y d3 where i: "issue_invitation e (m_id m) (m_created_by m) d2 = (y, d3)" by fastforce
  from assms tags i have "d' = d2 \<or> d' = d3"
    by (auto simp: register_member_def split: option.splits if_splits)
  with d2 digest_write_from [OF issue_invitation_write [OF i] d2] show ?thesis
    by (auto intro: digest_write.keep)
qed

lemma create_member_invitations:
  assumes "create_member e re email prov name ext pw invite by_whom d = (c, d')"
  shows "invitation_write e d d'"
  using assms
proof (cases rule: create_member_cases)
  case (late m d2)
  then show ?thesis
    by (intro digest_write_from [OF register_member_invitations [OF late(6)]]) auto
qed (auto intro: digest_write.keep)

lemma accept_invitation_write:
  assumes accept: "invitation_accept (at_time e t) token password ip ua d = (r, d')"
  shows "invitation_write e d d'"
  using accept
proof (cases rule: accept_cases)
  case refused
  obtain mo d1 where c: "consume_invitation (at_time e t) token d = (mo, d1)" by fastforce
  have "invitations d' = invitations d \<or> invitations d' = invitations d1"
    using accept c refused(6)
    by (auto simp: invitation_accept_def hash_password_def Let_def split: option.splits prod.splits if_splits)
  then show ?thesis
    using invitation_write_same [OF consume_write [OF c], of d'] consume_frame [OF c] refused(3)
    by (auto intro: digest_write.keep)
next
  case (ok m d1 h s)
  have "invitations d' = invitations d1 \<and> fresh d1 \<le> fresh d'"
    using create_session_Some [OF ok(4)] by simp
  then show ?thesis using invitation_write_same [OF consume_write [OF ok(2)]] by simp
qed

lemma auth_step_invitation: "auth_step e t d d' \<Longrightarrow> invitation_write e d d'"
proof (induction rule: auth_step.induct)
  case (accept token password ip ua d r d')
  then show ?case by (rule accept_invitation_write)
next
  case (made re email prov name ext pw invite by_whom d c d')
  then show ?case using create_member_invitations [OF made] by simp
next
  case (login email password ip ua d r d')
  show ?case
    using login
    by (cases rule: local_login_cases) (auto intro!: digest_write.keep dest: create_session_Some(3,6) simp: record_attempt_def)
next
  case (logged_out cookie d r d')
  then show ?case
    by (intro digest_write.keep) (auto simp: logout_endpoint_def revoke_session_def split: option.splits if_splits)
next
  case (google_start g ip next_url d r d')
  show ?case by (rule digest_write.keep) (use oidc_start_write [OF google_start] in auto)
next
  case (google_back g re code state ip ua d r d')
  show ?case
    using google_back
  proof (cases rule: oidc_callback_cases)
    case refused
    then show ?thesis by (intro digest_write.keep)
  next
    case (ok st res m d2 s d3)
    show ?thesis
      by (rule digest_write.keep)
         (use find_or_create_frame [OF ok(5)] create_session_Some(3,6) [OF ok(7)] in \<open>auto simp: ok(9)\<close>)
  qed
next
  case (validate cookie d m d')
  then show ?case
    by (intro digest_write.keep) (auto simp: validate_session_def set_session_def split: option.splits if_splits)
next
  case (updated mid name status d u d')
  then show ?case
    by (intro digest_write.keep)
       (auto simp: update_member_def Let_def revoke_all_sessions split: option.splits if_splits)
next
  case (promoted mid b actor d s d')
  show ?case by (rule digest_write.keep) (use set_is_admin_frame [OF promoted] in auto)
next
  case (removed mid acting actor d x d')
  show ?case
    using removed
  proof (cases rule: delete_member_cases)
    case 1
    then show ?thesis by (intro digest_write.keep) auto
  next
    case (2 m)
    then show ?thesis
      by (intro digest_write.drop [where p = "\<lambda>i. i_member_id i = mid"]) (auto simp: remove_rows_frame)
  qed
next
  case (kicked d mid)
  show ?case by (rule digest_write.keep) (simp_all add: revoke_member_sessions_def revoke_all_sessions)
next
  case (other d' d)
  then show ?case by (intro digest_write.keep)
qed

text \<open>An invitation is the interface \<open>one_shot\<close>: setting the password delivers, and then it is spent.\<close>

definition accepts_invitation :: "env \<Rightarrow> string \<Rightarrow> db \<Rightarrow> db \<Rightarrow> bool" where
  "accepts_invitation e tok d d' \<longleftrightarrow>
     (\<exists>t pw ip ua cookie m. invitation_accept (at_time e t) tok pw ip ua d = (LoggedIn cookie m, d'))"

lemma accepts_consumes:
  assumes "accepts_invitation e tok d d'"
  obtains t m d1 where "consume_invitation (at_time e t) tok d = (Some m, d1)"
    "invitations d' = invitations d1" "fresh d1 \<le> fresh d'"
proof -
  from assms obtain t pw ip ua cookie m where run:
    "invitation_accept (at_time e t) tok pw ip ua d = (LoggedIn cookie m, d')"
    by (auto simp: accepts_invitation_def)
  from run show thesis
  proof (cases rule: accept_cases)
    case (ok m d1 h s)
    with create_session_Some(3,6) [OF ok(4)] show thesis by (intro that [OF ok(2)]) auto
  qed auto
qed

interpretation invitation_once: one_shot "\<lambda>d. env_ok e \<and> invitations_wf e d" "\<lambda>d d'. \<exists>t. auth_step e t d d'"
    "accepts_invitation e" "invitation_dead e" for e
proof
  fix d d' k
  show "env_ok e \<and> invitations_wf e d \<Longrightarrow> \<exists>t. auth_step e t d d' \<Longrightarrow> env_ok e \<and> invitations_wf e d'"
    using auth_step_invitation digests_wf_write by blast
  show "env_ok e \<and> invitations_wf e d \<Longrightarrow> \<exists>t. auth_step e t d d' \<Longrightarrow> invitation_dead e k d \<Longrightarrow> invitation_dead e k d'"
    using auth_step_invitation digest_dead_write by blast
  show "accepts_invitation e k d d' \<Longrightarrow> \<exists>t. auth_step e t d d'"
    unfolding accepts_invitation_def using auth_step.accept by blast
  show "invitation_dead e k d'" if wf: "env_ok e \<and> invitations_wf e d" and acc: "accepts_invitation e k d d'"
  proof -
    obtain t m d1 where c: "consume_invitation (at_time e t) k d = (Some m, d1)"
      and d': "invitations d' = invitations d1" "fresh d1 \<le> fresh d'" by (rule accepts_consumes [OF acc])
    obtain i where i: "lookup_invitation e k d = Some i"
      and d1: "d1 = set_invitation (i_token_fingerprint i) (\<lambda>i. i\<lparr>i_used_at := Some t\<rparr>) d"
      using c by (auto simp: consume_invitation_def lookup_invitation_def split: option.splits if_splits)
    show ?thesis
      by (rule dead_after_edit [where r = i and d = d and fine = "\<lambda>i. True"
            and p = "\<lambda>x. i_token_fingerprint x = i_token_fingerprint i" and f = "\<lambda>i. i\<lparr>i_used_at := Some t\<rparr>"])
         (use wf i d' consume_frame [OF c] in \<open>auto simp: d1 set_invitation_def lookup_invitation_def dest: find_SomeD\<close>)
  qed
  show "\<not> accepts_invitation e k d d'" if dead: "invitation_dead e k d"
  proof
    assume "accepts_invitation e k d d'"
    then obtain t m d1 where c: "consume_invitation (at_time e t) k d = (Some m, d1)" by (rule accepts_consumes)
    then obtain i where "lookup_invitation e k d = Some i" "i_used_at i = None"
      by (auto simp: consume_invitation_def lookup_invitation_def split: option.splits if_splits)
    with dead show False by (auto simp: digest_dead_def lookup_invitation_def)
  qed
qed

lemma run_is_steps: "auth_run e (t, d) (t', d') \<Longrightarrow> (\<lambda>d d'. \<exists>t. auth_step e t d d')\<^sup>*\<^sup>* d d'"
proof (induction "(t, d)" "(t', d')" arbitrary: t' d' rule: timed_run.induct)
  case (later t1 d1 t2 d2)
  show ?case by (rule rtranclp.rtrancl_into_rtrancl [OF later(2)]) (use later(4) in blast)
qed simp

lemma invitation_consumed:
  assumes ok: "env_ok e" and wf: "invitations_wf e d" "distinct (map m_id (members d))"
    and acc: "invitation_accept (at_time e t) tok pw ip ua d = (LoggedIn cookie m, d1)"
    and run: "auth_run e (t1, d1) (t2, d2)"
  shows "\<exists>i \<in> set (invitations d). i_token_fingerprint i = sha256_hex e tok \<and> i_used_at i = None \<and>
      t < i_expires_at i \<and> i_member_id i = m_id m \<and>
      map (\<lambda>m. (m_id m, m_password_hash m)) (members d1) =
      map (\<lambda>m. (m_id m, if m_id m = i_member_id i then Some (argon_hash e (fresh d) pw) else m_password_hash m)) (members d)"
    and "\<nexists>cookie' m'. fst (invitation_accept (at_time e t3) tok pw' ip' ua' d2) = LoggedIn cookie' m'"
proof -
  show "\<nexists>cookie' m'. fst (invitation_accept (at_time e t3) tok pw' ip' ua' d2) = LoggedIn cookie' m'"
  proof
    assume "\<exists>cookie' m'. fst (invitation_accept (at_time e t3) tok pw' ip' ua' d2) = LoggedIn cookie' m'"
    then have "\<exists>d3. accepts_invitation e tok d2 d3"
      unfolding accepts_invitation_def by (metis prod.collapse)
    moreover have "accepts_invitation e tok d d1" using acc unfolding accepts_invitation_def by blast
    ultimately show False
      using invitation_once.never_again [of e d tok d1 d2] ok wf(1) run_is_steps [OF run] by blast
  qed
  from acc show "\<exists>i \<in> set (invitations d). i_token_fingerprint i = sha256_hex e tok \<and> i_used_at i = None \<and>
      t < i_expires_at i \<and> i_member_id i = m_id m \<and>
      map (\<lambda>m. (m_id m, m_password_hash m)) (members d1) =
      map (\<lambda>m. (m_id m, if m_id m = i_member_id i then Some (argon_hash e (fresh d) pw) else m_password_hash m)) (members d)"
  proof (cases rule: accept_cases)
    case (ok m0 dc h s)
    from ok(2) obtain i where i: "lookup_invitation e tok d = Some i" "i_used_at i = None" "t < i_expires_at i"
        "get_member (i_member_id i) d = Some m0"
      and dc: "dc = set_invitation (i_token_fingerprint i) (\<lambda>i. i\<lparr>i_used_at := Some t\<rparr>) d"
      by (auto simp: consume_invitation_def lookup_invitation_def not_le split: option.splits if_splits)
    have m0: "m_id m0 = i_member_id i" using i(4) by (auto simp: get_member_def dest: find_SomeD)
    have "members d1 = update_where (\<lambda>m. m_id m = m_id m0) (\<lambda>m. m\<lparr>m_password_hash := Some h\<rparr>) (members d)"
      using create_session_Some(4) [OF ok(4)] by (simp add: set_member_def dc set_invitation_def)
    then have "map (\<lambda>m. (m_id m, m_password_hash m)) (members d1) =
      map (\<lambda>m. (m_id m, if m_id m = i_member_id i then Some (argon_hash e (fresh d) pw) else m_password_hash m)) (members d)"
      by (simp add: update_where_def o_def m0 ok(3) dc set_invitation_def)
    moreover have "i \<in> set (invitations d)" "i_token_fingerprint i = sha256_hex e tok"
      using i(1) by (auto simp: lookup_invitation_def dest: find_SomeD)
    moreover have "m_id m = m_id m0" using ok(5) by simp
    ultimately show ?thesis using i(2,3) m0 by (intro bexI [of _ i]) simp_all
  qed simp
qed

text \<open>An invitation is accepted once.  It sets the password of its member and no other, it is refused
  from then on whatever happens, and the password it was given is the one that logs the member in.\<close>

theorem invitation_accepted_once:
  assumes "env_ok e" "invitations_wf e d" "distinct (map m_id (members d))"
    and "invitation_accept (at_time e t) tok pw ip ua d = (LoggedIn cookie m, d1)" and "auth_run e (t1, d1) (t2, d2)"
  shows "(\<exists>i \<in> set (invitations d). i_token_fingerprint i = sha256_hex e tok \<and> i_used_at i = None \<and>
      t < i_expires_at i \<and> i_member_id i = m_id m \<and>
      map (\<lambda>m. (m_id m, m_password_hash m)) (members d1) =
      map (\<lambda>m. (m_id m, if m_id m = i_member_id i then Some (argon_hash e (fresh d) pw) else m_password_hash m)) (members d)) \<and>
    (\<nexists>cookie' m'. fst (invitation_accept (at_time e t3) tok pw' ip' ua' d2) = LoggedIn cookie' m')"
  by (intro conjI invitation_consumed [OF assms])

section \<open>Witnesses\<close>

definition account_member :: member where
  "account_member = sample_member\<lparr>m_password_hash := Some ''asecret-pass''\<rparr>"

definition account_db :: db where
  "account_db = empty_db\<lparr>members := [account_member],
     sessions := [new_session (at_time sample_env 0) (''h'' @ session_prefix @ ''t'') ''m1'' None None],
     invitations := [\<lparr>i_token_fingerprint = ''h'' @ invitation_prefix @ ''t'', i_token_prefix = ''invite_t'',
       i_member_id = ''m1'', i_created_at = 0, i_expires_at = invitation_lifetime, i_used_at = None,
       i_created_by = ''admin''\<rparr>], fresh := 1\<rparr>"

definition guessed_db :: db where
  "guessed_db = account_db\<lparr>password_attempts := map (\<lambda>n. \<lparr>pa_id = ''p'', pa_email = ''ann@example.org'',
     pa_attempted_at = n, pa_source_ip = None, pa_outcome = bad_password\<rparr>) [1, 2, 3, 4, 5]\<rparr>"

lemma account_wf: "sessions_wf sample_env account_db" "invitations_wf sample_env account_db"
  "distinct (map m_id (members account_db))"
  by (auto simp: account_db_def digests_wf_def drawn_digest_def sample_env_def new_session_def
      session_times_ok_def empty_db_def)

lemma account_runs:
  "local_login (at_time sample_env 10) ''ann@example.org'' ''secret-pass'' None None account_db =
     (LoggedIn ''sess_t00'' account_member,
      snd (local_login (at_time sample_env 10) ''ann@example.org'' ''secret-pass'' None None account_db))"
  "invitation_accept (at_time sample_env 10) ''invite_t'' ''new-secret-pass1'' None None account_db =
     (LoggedIn ''sess_t000'' (account_member\<lparr>m_password_hash := Some ''anew-secret-pass1''\<rparr>),
      snd (invitation_accept (at_time sample_env 10) ''invite_t'' ''new-secret-pass1'' None None account_db))"
  "fst (is_ip_locked (at_time sample_env 10) None account_db) = False"
  "fst (is_locked_email (at_time sample_env 10) (normalize_identifier ''ann@example.org'') account_db) = False"
  "is_source_allowed account_db None = True"
  by code_simp+

lemma ended_session_stays_ended_witness:
  "validate_session (at_time sample_env 20) ''sess_t''
     (snd (update_member (at_time sample_env 12) ''m1'' None (Some member_active)
        (snd (update_member (at_time sample_env 11) ''m1'' None (Some member_disabled) account_db)))) =
   (None, snd (update_member (at_time sample_env 12) ''m1'' None (Some member_active)
        (snd (update_member (at_time sample_env 11) ''m1'' None (Some member_disabled) account_db))))"
proof -
  let ?s = "new_session (at_time sample_env 0) (''h'' @ session_prefix @ ''t'') ''m1'' None None"
  let ?d1 = "snd (update_member (at_time sample_env 11) ''m1'' None (Some member_disabled) account_db)"
  let ?d2 = "snd (update_member (at_time sample_env 12) ''m1'' None (Some member_active) ?d1)"
  have "session_end (at_time sample_env 11) ''sess_t'' (s_member_id ?s) account_db ?d1"
    by (rule session_end.by_disabling [where name = None and m = account_member and
          u = "fst (update_member (at_time sample_env 11) ''m1'' None (Some member_disabled) account_db)"])
       (simp_all only: prod.collapse, simp_all add: new_session_def account_db_def account_member_def sample_member_def get_member_def)
  moreover have "auth_run sample_env (11, ?d1) (12, ?d2)"
    by (rule timed_run_one) (auto intro: auth_step.updated surjective_pairing)
  ultimately show ?thesis
    by (intro ended_session_stays_ended [THEN conjunct1, OF sample_env_ok account_wf(1), of ?s])
       (simp_all add: account_db_def new_session_def sample_env_def session_prefix_def)
qed

definition login_db :: db where
  "login_db = snd (local_login (at_time sample_env 10) ''ann@example.org'' ''secret-pass'' None None
     (account_db\<lparr>sessions := []\<rparr>))"

lemma session_accepted_iff_witness:
  "fst (validate_session (at_time sample_env (9 + seconds 7200)) ''sess_t00'' login_db) = Some account_member \<and>
   fst (validate_session (at_time sample_env (10 + seconds 7200)) ''sess_t00'' login_db) \<noteq> Some account_member"
proof -
  have run: "auth_run sample_env (0, account_db\<lparr>sessions := []\<rparr>) (10, login_db)"
    unfolding login_db_def by (rule timed_run_one) (auto intro: auth_step.login surjective_pairing)
  have rows: "sessions login_db = [new_session (at_time sample_env 10) ''hsess_t00'' ''m1'' None None]"
    "get_member ''m1'' login_db = Some account_member" "sha256_hex sample_env ''sess_t00'' = ''hsess_t00''"
    by code_simp+
  show ?thesis
    using session_accepted_iff [THEN conjunct1, OF sample_env_ok run, of _ "''sess_t00''" account_member]
    by (simp add: rows new_session_def account_member_def sample_member_def)
qed

lemma guesses_limited_witness:
  "length (filter (\<lambda>x. failed_guess x \<and> pa_email x = ''ann@example.org'' \<and> 0 \<le> pa_attempted_at x \<and>
     pa_attempted_at x \<le> seconds 60)
     (password_attempts (snd (local_login (at_time sample_env 10) ''ann@example.org'' ''guess'' None None account_db)))) \<le> 5"
proof -
  have "auth_run sample_env (0, account_db)
      (10, snd (local_login (at_time sample_env 10) ''ann@example.org'' ''guess'' None None account_db))"
    by (rule timed_run_one) (auto intro: auth_step.login surjective_pairing)
  from guesses_limited [THEN conjunct1, OF this, of "''ann@example.org''" 0] show ?thesis
    by (simp add: account_db_def empty_db_def)
qed


lemma local_login_outcome_witness:
  "fst (validate_session (at_time sample_env (seconds 7200)) ''sess_t00''
     (snd (local_login (at_time sample_env 10) ''ann@example.org'' ''secret-pass'' None None account_db))) =
   Some account_member"
  by (rule local_login_outcome [THEN conjunct2, THEN conjunct2, rule_format, OF sample_env_ok account_wf(1,3) account_runs(1)])
     (simp_all add: account_runs)

lemma invitation_accepted_once_witness:
  "\<nexists>cookie m. fst (invitation_accept (at_time sample_env 20) ''invite_t'' ''another-pass-22'' None None
     (snd (invitation_accept (at_time sample_env 10) ''invite_t'' ''new-secret-pass1'' None None account_db))) =
     LoggedIn cookie m"
  by (rule invitation_accepted_once [THEN conjunct2, OF sample_env_ok account_wf(2,3) account_runs(2) timed_run.here])

end
