(* ===== verification/MemberTheorems.thy ===== *)
theory MemberTheorems
  imports AccountTheorems AllocationTheorems
begin

text \<open>
  The properties of the members: who can be one (\<open>members_wf\<close>, kept by every operation that writes
  members), that the administrators never run out, and what deleting a member leaves of its keys,
  allocations and call records.
\<close>

section \<open>Deleting a member\<close>

lemma remove_rows_tables:
  "allocations (remove_member_rows mid as cs d) = delete_where (\<lambda>a. a_id a \<in> set as) (allocations d)"
  "credentials (remove_member_rows mid as cs d) = delete_where (\<lambda>c. c_id c \<in> set cs) (credentials d)"
  "call_records (remove_member_rows mid as cs d) =
      update_where (\<lambda>r. \<exists>a \<in> set as. r_allocation_id r = Some a) (\<lambda>r. r\<lparr>r_allocation_id := None\<rparr>) (call_records d)"
  "credential_allocations (remove_member_rows mid as cs d) =
      (if cs = [] \<and> as = [] then credential_allocations d
       else delete_where (\<lambda>l. ca_credential_id l \<in> set (ids_or_blank cs) \<or> ca_allocation_id l \<in> set (ids_or_blank as))
         (credential_allocations d))"
  by (simp_all add: remove_member_rows_def cascade_member_def cascade_allocations_def
      cascade_credentials_def Let_def delete_where_def update_where_def)

lemma blank_ids:
  assumes "\<And>l. l \<in> set ls \<Longrightarrow> ca_credential_id l \<noteq> [] \<and> ca_allocation_id l \<noteq> []"
  shows "(if cs = [] \<and> as = [] then ls else delete_where (\<lambda>l. ca_credential_id l \<in> set (ids_or_blank cs) \<or>
      ca_allocation_id l \<in> set (ids_or_blank as)) ls) =
    filter (\<lambda>l. ca_credential_id l \<notin> set cs \<and> ca_allocation_id l \<notin> set as) ls"
  using assms by (auto simp: ids_or_blank_def delete_where_def intro!: filter_cong)

text \<open>The rows a deletion leaves.\<close>

lemma delete_member_tables:
  assumes wf: "scope_wf e d" and ids: "\<forall>k. ulid e k \<noteq> []"
    and run: "delete_member (at_time e t) mid acting actor d = (Inr True, d')"
  shows "allocations d' = filter (\<lambda>a. a_member_id a \<noteq> mid) (allocations d)"
    and "credentials d' = filter (\<lambda>c. c_member_id c \<noteq> mid) (credentials d)"
    and "l \<in> set (credential_allocations d') \<longleftrightarrow> l \<in> set (credential_allocations d) \<and>
      (\<exists>c \<in> set (credentials d'). c_id c = ca_credential_id l) \<and> (\<exists>a \<in> set (allocations d'). a_id a = ca_allocation_id l)"
    and "\<exists>p. credential_allocations d' = filter p (credential_allocations d)"
    and "members d' = filter (\<lambda>m. m_id m \<noteq> mid) (members d)"
    and "call_records d' = map (\<lambda>r. if \<exists>a \<in> set (allocations d). a_member_id a = mid \<and> r_allocation_id r = Some (a_id a)
      then r\<lparr>r_allocation_id := None\<rparr> else r) (call_records d)"
    and "fresh d \<le> fresh d'"
proof -
  let ?as = "map a_id (filter (\<lambda>a. a_member_id a = mid) (allocations d))"
  let ?cs = "map c_id (filter (\<lambda>c. c_member_id c = mid) (credentials d))"
  from run have d': "d' = audit_record (at_time e t) member_deleted actor_admin (Some actor) (Some ''member'') (Some mid) []
       (remove_member_rows mid ?as ?cs d)"
    by (rule delete_member_cases) simp_all
  have key: "c' = c" if "c \<in> set (credentials d)" "c' \<in> set (credentials d)" "c_id c' = c_id c" for c c'
    using same_id_same_key [OF wf that] .
  have alloc: "a' = a" if "a \<in> set (allocations d)" "a' \<in> set (allocations d)" "a_id a' = a_id a" for a a'
    by (rule distinct_map_eqD [of a_id "allocations d"]) (use wf that in \<open>simp_all add: scope_wf_def keys_wf_def\<close>)
  show A: "allocations d' = filter (\<lambda>a. a_member_id a \<noteq> mid) (allocations d)"
    using alloc by (auto simp: d' remove_rows_tables delete_where_def intro!: filter_cong)
  show C: "credentials d' = filter (\<lambda>c. c_member_id c \<noteq> mid) (credentials d)"
    using key by (auto simp: d' remove_rows_tables delete_where_def intro!: filter_cong)
  show "members d' = filter (\<lambda>m. m_id m \<noteq> mid) (members d)" by (simp add: d' remove_rows_frame delete_where_def)
  show "fresh d \<le> fresh d'" by (simp add: d' remove_rows_frame)
  show "call_records d' = map (\<lambda>r. if \<exists>a \<in> set (allocations d). a_member_id a = mid \<and> r_allocation_id r = Some (a_id a)
      then r\<lparr>r_allocation_id := None\<rparr> else r) (call_records d)"
    by (auto simp: d' remove_rows_tables update_where_def)
  have blank: "ca_credential_id l \<noteq> [] \<and> ca_allocation_id l \<noteq> []" if "l \<in> set (credential_allocations d)" for l
    using wf that ids by (fastforce simp: scope_wf_def links_wf_def link_ok_def keys_wf_def drawn_id_def)
  have L: "credential_allocations d' = filter (\<lambda>l. ca_credential_id l \<notin> set ?cs \<and> ca_allocation_id l \<notin> set ?as)
      (credential_allocations d)"
    unfolding d' by (simp only: audit_record_frame remove_rows_tables blank_ids [OF blank])
  then show "\<exists>p. credential_allocations d' = filter p (credential_allocations d)" by blast
  show "l \<in> set (credential_allocations d') \<longleftrightarrow> l \<in> set (credential_allocations d) \<and>
      (\<exists>c \<in> set (credentials d'). c_id c = ca_credential_id l) \<and> (\<exists>a \<in> set (allocations d'). a_id a = ca_allocation_id l)"
  proof
    assume "l \<in> set (credential_allocations d')"
    then have l: "l \<in> set (credential_allocations d)" "ca_credential_id l \<notin> set ?cs" "ca_allocation_id l \<notin> set ?as"
      using L by auto
    from wf l(1) obtain c a where "c \<in> set (credentials d)" "a \<in> set (allocations d)" "c_id c = ca_credential_id l"
        "a_id a = ca_allocation_id l" by (auto simp: scope_wf_def links_wf_def link_ok_def)
    with l show "l \<in> set (credential_allocations d) \<and>
      (\<exists>c \<in> set (credentials d'). c_id c = ca_credential_id l) \<and> (\<exists>a \<in> set (allocations d'). a_id a = ca_allocation_id l)"
      unfolding A C by force
  next
    assume "l \<in> set (credential_allocations d) \<and>
      (\<exists>c \<in> set (credentials d'). c_id c = ca_credential_id l) \<and> (\<exists>a \<in> set (allocations d'). a_id a = ca_allocation_id l)"
    then obtain c a where ca: "l \<in> set (credential_allocations d)" "c \<in> set (credentials d)" "c_member_id c \<noteq> mid"
        "c_id c = ca_credential_id l" "a \<in> set (allocations d)" "a_member_id a \<noteq> mid" "a_id a = ca_allocation_id l"
      unfolding A C by auto
    have "ca_credential_id l \<notin> set ?cs"
    proof
      assume "ca_credential_id l \<in> set ?cs"
      then obtain c' where "c' \<in> set (credentials d)" "c_member_id c' = mid" "c_id c' = c_id c" using ca(4) by auto
      with key ca(2,3) show False by blast
    qed
    moreover have "ca_allocation_id l \<notin> set ?as"
    proof
      assume "ca_allocation_id l \<in> set ?as"
      then obtain a' where "a' \<in> set (allocations d)" "a_member_id a' = mid" "a_id a' = a_id a" using ca(7) by auto
      with alloc ca(5,6) show False by blast
    qed
    ultimately show "l \<in> set (credential_allocations d')" unfolding L using ca(1) by simp
  qed
qed

lemma delete_member_scope:
  assumes wf: "scope_wf e d" and ids: "\<forall>k. ulid e k \<noteq> []"
    and run: "delete_member (at_time e t) mid acting actor d = (Inr True, d')"
  shows "scope_wf e d'"
    and "c \<in> set (credentials d') \<Longrightarrow> scope_of d' c = scope_of d c"
proof -
  note tables = delete_member_tables [OF wf ids run]
  have sub: "distinct (map f (filter p xs))" if "distinct (map f xs)" for f :: "'x \<Rightarrow> 'y" and p xs
    using that by (simp add: distinct_map inj_on_def)
  have "keys_wf e d'"
    using wf tables(7) by (auto simp: scope_wf_def keys_wf_def tables(1,2) sub intro: drawn_id_mono drawn_fp_mono)
  moreover have "links_wf d'"
    unfolding links_wf_def
  proof
    from tables(4) obtain p where "credential_allocations d' = filter p (credential_allocations d)" ..
    then show "distinct (map (\<lambda>l. (ca_credential_id l, ca_resource_model l)) (credential_allocations d'))"
      using wf by (simp add: scope_wf_def links_wf_def sub)
    show "\<forall>l \<in> set (credential_allocations d'). link_ok d' l"
    proof
      fix l assume "l \<in> set (credential_allocations d')"
      then obtain c a where l: "l \<in> set (credential_allocations d)" and ca: "c \<in> set (credentials d')" "c_id c = ca_credential_id l"
          "a \<in> set (allocations d')" "a_id a = ca_allocation_id l"
        using tables(3) by blast
      from l wf obtain c' a' where "c' \<in> set (credentials d)" "a' \<in> set (allocations d)" "c_id c' = ca_credential_id l"
          "a_id a' = ca_allocation_id l" "a_member_id a' = c_member_id c'" "a_resource_model a' = ca_resource_model l"
        by (auto simp: scope_wf_def links_wf_def link_ok_def)
      moreover have "c' = c" using same_id_same_key [OF wf, of c c'] calculation ca tables(2) by simp
      moreover have "a' = a"
        by (rule distinct_map_eqD [of a_id "allocations d"])
           (use calculation ca tables(1) wf in \<open>simp_all add: scope_wf_def keys_wf_def\<close>)
      ultimately show "link_ok d' l" using ca unfolding link_ok_def by metis
    qed
  qed
  ultimately show "scope_wf e d'" by (simp add: scope_wf_def)
  assume c: "c \<in> set (credentials d')"
  have "a \<in> scope_of d' c \<longleftrightarrow> a \<in> scope_of d c" for a
  proof
    assume "a \<in> scope_of d' c"
    then show "a \<in> scope_of d c" unfolding scope_of_def using tables(1,3) by auto
  next
    assume a: "a \<in> scope_of d c"
    then obtain l where l: "l \<in> set (credential_allocations d)" "ca_credential_id l = c_id c" "ca_allocation_id l = a_id a"
        "a \<in> set (allocations d)" unfolding scope_of_def by blast
    then have "(l, a) \<in> set (scope_join (c_id c) d)" by (simp add: scope_join_mem)
    then have "a_member_id a = c_member_id c" using scope_join_wf(1) [OF wf] c tables(2) by auto
    then have "a \<in> set (allocations d')" using c l(4) tables(1,2) by auto
    with l c show "a \<in> scope_of d' c" unfolding scope_of_def using tables(3) [of l] by auto
  qed
  then show "scope_of d' c = scope_of d c" by blast
qed

text \<open>C22: Deleting a member takes away exactly what was its own: its tokens call nothing any more, every
  other token calls what it called, the call records stay, those of the member's allocations without
  their link, and the tables of keys stay well formed.\<close>

theorem delete_member_effect:
  assumes "env_ok e" "scope_wf e d" "\<forall>k. ulid e k \<noteq> []"
    and "delete_member (at_time e t) mid acting actor d = (Inr True, d')"
  shows "scope_wf e d' \<and> get_member mid d' = None \<and>
    (\<forall>tok model a. resolve_bearer e tok model d' = Some a \<longleftrightarrow>
       resolve_bearer e tok model d = Some a \<and> a_member_id a \<noteq> mid) \<and>
    call_records d' = map (\<lambda>r. if \<exists>a \<in> set (allocations d). a_member_id a = mid \<and> r_allocation_id r = Some (a_id a)
      then r\<lparr>r_allocation_id := None\<rparr> else r) (call_records d)"
proof -
  note tables = delete_member_tables [OF assms(2-4)] and wf = delete_member_scope(1) [OF assms(2-4)]
  have "resolve_bearer e tok model d' = Some a \<longleftrightarrow> resolve_bearer e tok model d = Some a \<and> a_member_id a \<noteq> mid"
    for tok model a
  proof (cases "key_of e tok d")
    case None
    then have "key_of e tok d' = None" using tables(2) by (auto simp: key_of_None_iff)
    with None show ?thesis by (simp add: resolve_bearer_key)
  next
    case (Some c)
    note c = key_of_mem [OF Some]
    have owner: "a_member_id a = c_member_id c" if "resolve_scope_allocation c model d = Some a"
    proof -
      have "a \<in> scope_of d c" using that resolve_grants [OF assms(2)] c by (auto simp: grants_def)
      then obtain l where "(l, a) \<in> set (scope_join (c_id c) d)" by (fastforce simp: scope_of_def scope_join_mem)
      then show ?thesis using scope_join_wf(1) [OF assms(2)] c by blast
    qed
    show ?thesis
    proof (cases "c_member_id c = mid")
      case True
      have "key_of e tok d' = None"
        unfolding key_of_None_iff
      proof (intro ballI impI)
        fix c' assume c': "c' \<in> set (credentials d')" "c_token_fingerprint c' = fingerprint_for e tok"
        then have "c' = c" using same_fp_same_key [OF assms(2), of c c'] c tables(2) by simp
        with c' True tables(2) show "c_revoked_at c' \<noteq> None" by simp
      qed
      with Some True owner show ?thesis by (auto simp: resolve_bearer_key)
    next
      case False
      then have c': "c \<in> set (credentials d')" using c tables(2) by simp
      then have "key_of e tok d' = Some c" using key_of_in [OF wf c'] c by blast
      moreover have "grants d' c model a = grants d c model a"
        by (simp add: grants_def delete_member_scope(2) [OF assms(2-4) c'])
      then have "resolve_scope_allocation c model d' = Some a \<longleftrightarrow> resolve_scope_allocation c model d = Some a"
        using resolve_grants [OF wf c'] resolve_grants [OF assms(2)] c by blast
      ultimately show ?thesis using Some owner False by (auto simp: resolve_bearer_key)
    qed
  qed
  moreover have "get_member mid d' = None" by (simp add: get_member_def tables(5) find_None_ball)
  ultimately show ?thesis using wf tables(6) by blast
qed

section \<open>The table of members\<close>

definition members_wf :: "env \<Rightarrow> db \<Rightarrow> bool" where
  "members_wf e d \<longleftrightarrow> distinct (map m_id (members d)) \<and> distinct (map m_email (members d)) \<and>
     (\<forall>m \<in> set (members d). drawn_id e (fresh d) (m_id m))"

text \<open>What an operation may do to the members.  Most are quiet: they change nothing, add a row without
  rights under a new id and email, or edit columns other than id, email, status and rights.  The others
  edit status and rights, or delete rows.\<close>

inductive quiet_write :: "env \<Rightarrow> db \<Rightarrow> db \<Rightarrow> bool" for e d d' where
  keep: "members d' = members d \<Longrightarrow> fresh d \<le> fresh d' \<Longrightarrow> quiet_write e d d'"
| add: "members d' = members d @ [m] \<Longrightarrow> m_id m = ulid e k \<Longrightarrow> fresh d \<le> k \<Longrightarrow> k < fresh d' \<Longrightarrow>
    find (\<lambda>x. m_email x = m_email m) (members d) = None \<Longrightarrow> \<not> m_is_admin m \<Longrightarrow> quiet_write e d d'"
| edit: "members d' = update_where p f (members d) \<Longrightarrow> (\<And>m. m_id (f m) = m_id m) \<Longrightarrow>
    (\<And>m. m_email (f m) = m_email m) \<Longrightarrow> (\<And>m. m_is_admin (f m) = m_is_admin m) \<Longrightarrow>
    (\<And>m. m_status (f m) = m_status m) \<Longrightarrow> fresh d \<le> fresh d' \<Longrightarrow> quiet_write e d d'"

inductive member_write :: "env \<Rightarrow> db \<Rightarrow> db \<Rightarrow> bool" for e d d' where
  quiet: "quiet_write e d d' \<Longrightarrow> member_write e d d'"
| change: "members d' = update_where p f (members d) \<Longrightarrow> (\<And>m. m_id (f m) = m_id m) \<Longrightarrow>
    (\<And>m. m_email (f m) = m_email m) \<Longrightarrow> fresh d \<le> fresh d' \<Longrightarrow> member_write e d d'"
| drop: "members d' = delete_where p (members d) \<Longrightarrow> fresh d \<le> fresh d' \<Longrightarrow> member_write e d d'"

abbreviation member_writes :: "env \<Rightarrow> db \<Rightarrow> db \<Rightarrow> bool" where
  "member_writes e \<equiv> (member_write e)\<^sup>*\<^sup>*"

lemma members_wf_update:
  assumes wf: "members_wf e d" and rows: "members d' = update_where p f (members d)" "fresh d \<le> fresh d'"
    and f: "\<And>m. m_id (f m) = m_id m" "\<And>m. m_email (f m) = m_email m"
  shows "members_wf e d'"
proof -
  have same: "map m_id (members d') = map m_id (members d)" "map m_email (members d') = map m_email (members d)"
    using f by (simp_all add: rows(1) update_where_def)
  have "drawn_id e (fresh d') (m_id x)" if "x \<in> set (members d')" for x
  proof -
    have "m_id x \<in> set (map m_id (members d'))" using that by simp
    then show ?thesis using wf rows(2) drawn_id_mono same(1) by (auto simp: members_wf_def)
  qed
  with same wf show ?thesis by (simp add: members_wf_def)
qed

lemma members_wf_quiet:
  assumes ok: "env_ok e" and w: "quiet_write e d d'" and wf: "members_wf e d"
  shows "members_wf e d'"
  using w
proof cases
  case keep
  then show ?thesis using wf drawn_id_mono by (fastforce simp: members_wf_def)
next
  case (add m k)
  have "ulid e k \<notin> m_id ` set (members d)"
  proof
    assume "ulid e k \<in> m_id ` set (members d)"
    then have "drawn_id e (fresh d) (ulid e k)" using wf by (auto simp: members_wf_def)
    from not_drawn_later [OF ok this] add(3) show False by simp
  qed
  moreover have "m_email m \<notin> m_email ` set (members d)" using add(5) by (auto simp: find_None_ball)
  moreover have "drawn_id e (fresh d') (m_id x)" if "x \<in> set (members d')" for x
  proof (cases "x \<in> set (members d)")
    case True
    with wf have "drawn_id e (fresh d) (m_id x)" by (simp add: members_wf_def)
    then show ?thesis by (rule drawn_id_mono) (use add(3,4) in simp)
  next
    case False
    with that add(1,2,4) show ?thesis by (auto simp: drawn_id_def)
  qed
  ultimately show ?thesis using wf add(1,2) by (auto simp: members_wf_def)
next
  case (edit p f)
  then show ?thesis using members_wf_update [OF wf edit(1) edit(6)] by blast
qed

lemma members_wf_write:
  assumes ok: "env_ok e" and w: "member_write e d d'" and wf: "members_wf e d"
  shows "members_wf e d'"
  using w
proof cases
  case quiet
  then show ?thesis by (rule members_wf_quiet [OF ok _ wf])
next
  case (change p f)
  then show ?thesis using members_wf_update [OF wf change(1) change(4)] by blast
next
  case (drop p)
  then show ?thesis
    using wf drawn_id_mono by (fastforce simp: members_wf_def delete_where_def distinct_map inj_on_def)
qed

lemma members_wf_writes: "member_writes e d d' \<Longrightarrow> env_ok e \<Longrightarrow> members_wf e d \<Longrightarrow> members_wf e d'"
  by (induction rule: rtranclp_induct) (blast intro: members_wf_write)+

lemma quiet_env:
  assumes "ulid e' = ulid e"
  shows "quiet_write e' d d' = quiet_write e d d'"
  by (intro iffI; erule quiet_write.cases) (use assms in \<open>auto intro: quiet_write.intros\<close>)

lemma quiet_at_time [simp]: "quiet_write (at_time e t) = quiet_write e"
  by (intro ext quiet_env) simp

lemma member_write_at_time [simp]: "member_write (at_time e t) = member_write e"
  by (intro ext iffI; erule member_write.cases) (auto intro: member_write.intros)

lemma quiet_from: "quiet_write e d d1 \<Longrightarrow> members d0 = members d \<Longrightarrow> fresh d0 \<le> fresh d \<Longrightarrow>
    members d' = members d1 \<Longrightarrow> fresh d1 \<le> fresh d' \<Longrightarrow> quiet_write e d0 d'"
  by (erule quiet_write.cases) (auto intro: quiet_write.intros)

lemma quiet_mono: "quiet_write e d d' \<Longrightarrow> fresh d \<le> fresh d'"
  by (auto elim: quiet_write.cases)

lemma quiets: "quiet_write e d d' \<Longrightarrow> member_writes e d d'"
  by (rule r_into_rtranclp, rule member_write.quiet)

lemma keeps: "members d' = members d \<Longrightarrow> fresh d \<le> fresh d' \<Longrightarrow> member_writes e d d'"
  by (rule quiets, rule quiet_write.keep)

lemma writes_mono: "member_writes e d d' \<Longrightarrow> fresh d \<le> fresh d'"
  by (induction rule: rtranclp_induct) (auto elim!: member_write.cases dest: quiet_mono)

lemma writes_then_same:
  "member_writes e d d1 \<Longrightarrow> members d' = members d1 \<Longrightarrow> fresh d1 \<le> fresh d' \<Longrightarrow> member_writes e d d'"
  by (rule rtranclp.rtrancl_into_rtrancl) (auto intro: member_write.quiet quiet_write.keep)

subsection \<open>Quiet operations\<close>

lemma create_member_quiet:
  assumes "create_member e re email prov name ext pw invite by_whom d = (c, d')"
  shows "quiet_write e d d'"
  using assms
proof (cases rule: create_member_cases)
  case early
  then show ?thesis by (intro quiet_write.keep) auto
next
  case (late m d2)
  have "members d2 = members d" "fresh d < fresh d2" using late(1) by auto
  with late(2-5) register_member_frame [OF late(6)] show ?thesis
    by (intro quiet_write.add [where m = m and k = "fresh d"]) auto
qed

lemma ensure_member_quiet:
  assumes "ensure_external_member e subject d = (m, d')"
  shows "quiet_write e d d'"
proof (cases "find (\<lambda>m. m_email m = lower subject) (members d)")
  case None
  with assms show ?thesis
    by (intro quiet_write.add [where k = "fresh d" and m = m]) (auto simp: ensure_external_member_def Let_def)
qed (use assms in \<open>auto simp: ensure_external_member_def intro: quiet_write.keep\<close>)

lemma create_allocation_quiet:
  assumes "create_allocation e mid model memo creator subject quota cost origin d = (r, d')"
  shows "quiet_write e d d'"
proof -
  have issue: "members (snd (issue_allocation e m model memo creator quota cost origin d0)) = members d0 \<and>
      fresh d0 \<le> fresh (snd (issue_allocation e m model memo creator quota cost origin d0))" for m d0
    by (simp add: issue_allocation_def Let_def case_prod_beta add_credential_row_def add_links_def)
  have "quiet_write e d (snd (ensure_external_member e s d))" for s
    by (rule ensure_member_quiet [OF surjective_pairing])
  with assms issue show ?thesis
    by (auto simp: create_allocation_def Let_def case_prod_beta split: if_splits option.splits
        intro: quiet_write.keep quiet_from)
qed

lemma accept_quiet:
  assumes "invitation_accept e tok pw ip ua d = (r, d')"
  shows "quiet_write e d d'"
  using assms
proof (cases rule: accept_cases)
  case (ok m d1 h s)
  note frame = consume_frame [OF ok(2)] create_session_Some(3,4) [OF ok(4)]
  let ?f = "\<lambda>m. m\<lparr>m_password_hash := Some h\<rparr>"
  have "members d' = update_where (\<lambda>x. m_id x = m_id m) ?f (members d)" "fresh d \<le> fresh d'"
    using frame by (simp_all add: set_member_def)
  then show ?thesis by (intro quiet_write.edit [where f = ?f]) simp_all
qed (auto intro: quiet_write.keep)

lemma find_or_create_quiet:
  assumes "find_or_create_oidc_member e re res d = (m, d')"
  shows "quiet_write e d d'"
proof (cases "find (\<lambda>m. m_email m = ar_email res) (members d)")
  case None
  with assms show ?thesis
    by (intro quiet_write.add [where k = "fresh d" and m = "new_google_member e (ulid e (fresh d)) res"])
       (auto simp: find_or_create_oidc_member_def Let_def new_google_member_def dest!: apply_tags_frame
          split: prod.splits)
qed (use assms in \<open>auto simp: find_or_create_oidc_member_def intro: quiet_write.keep split: if_splits\<close>)

lemma create_session_frame:
  "create_session e mid ip ua d = (s, d') \<Longrightarrow> members d' = members d \<and> fresh d' = Suc (fresh d)"
  by (auto simp: create_session_def Let_def split: if_splits)

lemma oidc_callback_quiet:
  assumes "oidc_callback e g re code state ip ua d = (r, d')"
  shows "quiet_write e d d'"
proof -
  let ?d1 = "oidc_states_update (delete_where (\<lambda>s. os_state s = state)) d"
  have made: "quiet_write e d x" if "find_or_create_oidc_member e re res ?d1 = (m, d2)" "members x = members d2"
      "fresh d2 \<le> fresh x" for res m d2 x
    by (rule quiet_from [OF find_or_create_quiet [OF that(1)]]) (simp_all add: that)
  have undone: "quiet_write e d (rollback_to d x)" if "find_or_create_oidc_member e re res ?d1 = (m, d2)"
      "fresh d2 \<le> fresh x" for res m d2 x
    using quiet_mono [OF find_or_create_quiet [OF that(1)]] that(2) by (intro quiet_write.keep) simp_all
  from assms show ?thesis
    by (auto simp: oidc_callback_def Let_def intro: made undone quiet_write.keep dest!: create_session_frame
        split: option.splits if_splits prod.splits sum.splits)
qed

lemma local_login_quiet: "local_login e raw pw ip ua d = (r, d') \<Longrightarrow> quiet_write e d d'"
  by (cases rule: local_login_cases, assumption)
     (auto intro!: quiet_write.keep dest: create_session_Some(3,4) simp: record_attempt_def)

subsection \<open>The others\<close>

lemma set_member_write:
  "(\<And>m. m_id (f m) = m_id m) \<Longrightarrow> (\<And>m. m_email (f m) = m_email m) \<Longrightarrow> member_write e d (set_member mid f d)"
  by (rule member_write.change [where p = "\<lambda>m. m_id m = mid" and f = f]) (simp_all add: set_member_def)

lemma update_member_writes:
  assumes "update_member e mid name status d = (u, d')"
  shows "member_writes e d d'"
proof -
  let ?f = "\<lambda>m. case name of None \<Rightarrow> m | Some n \<Rightarrow> m\<lparr>m_display_name := n\<rparr>"
  have one: "member_writes e d (set_member mid ?f d)"
    by (rule r_into_rtranclp, rule set_member_write) (simp_all split: option.split)
  have two: "member_writes e d (set_member mid g (set_member mid ?f d))"
    if "\<And>m. m_id (g m) = m_id m" "\<And>m. m_email (g m) = m_email m" for g
    by (rule rtranclp.rtrancl_into_rtrancl [OF one]) (rule set_member_write, simp_all add: that)
  have last: "member_writes e d (snd (revoke_all_for_member e mid r (set_member mid g (set_member mid ?f d))))"
    if "\<And>m. m_id (g m) = m_id m" "\<And>m. m_email (g m) = m_email m" for g r
    by (rule writes_then_same [OF two [of g]]) (simp_all add: that revoke_all_sessions)
  from assms one two last show ?thesis
    by (auto simp: update_member_def Let_def split: option.splits if_splits)
qed

lemma set_is_admin_writes:
  assumes "set_is_admin e mid b actor d = (r, d')"
  shows "member_writes e d d'"
proof -
  have "member_writes e d (set_member mid (\<lambda>m. m\<lparr>m_is_admin := b\<rparr>) d)"
    by (rule r_into_rtranclp, rule set_member_write) simp_all
  then have "member_writes e d (audit_record e ev actor_admin (Some actor) (Some ''member'') (Some mid) []
      (set_member mid (\<lambda>m. m\<lparr>m_is_admin := b\<rparr>) d))" for ev
    by (rule writes_then_same) simp_all
  with assms show ?thesis by (auto simp: set_is_admin_def Let_def split: option.splits if_splits)
qed

lemma delete_member_writes:
  assumes "delete_member e mid acting actor d = (x, d')"
  shows "member_writes e d d'"
  using assms
proof (cases rule: delete_member_cases)
  case (2 m)
  then show ?thesis
    by (intro r_into_rtranclp member_write.drop [where p = "\<lambda>m. m_id m = mid"]) (auto simp: remove_rows_frame)
qed simp

section \<open>Administrators\<close>

text \<open>A session is staffed if the table is well formed and somebody can administrate it.\<close>

definition staffed :: "env \<Rightarrow> db \<Rightarrow> bool" where
  "staffed e d \<longleftrightarrow> members_wf e d \<and> active_admins d \<noteq> []"

lemma staffed_at_time [simp]: "staffed (at_time e t) = staffed e"
  by (intro ext) (simp add: staffed_def members_wf_def drawn_id_def)

lemma active_admins_mem: "m \<in> set (active_admins d) \<longleftrightarrow> m \<in> set (members d) \<and> m_is_admin m \<and> m_status m = member_active"
  by (auto simp: active_admins_def)

lemma same_member: "members_wf e d \<Longrightarrow> m \<in> set (members d) \<Longrightarrow> m' \<in> set (members d) \<Longrightarrow> m_id m' = m_id m \<Longrightarrow> m' = m"
  by (rule distinct_map_eqD [of m_id "members d"]) (simp_all add: members_wf_def)

lemma get_member_mem: "get_member mid d = Some m \<Longrightarrow> m \<in> set (members d) \<and> m_id m = mid"
  by (auto simp: get_member_def dest: find_SomeD)

lemma staffedE:
  assumes "staffed e d"
  obtains m where "m \<in> set (active_admins d)"
  using assms hd_in_set unfolding staffed_def by blast

lemma quiet_staffed:
  assumes ok: "env_ok e" and w: "quiet_write e d d'" and st: "staffed e d"
  shows "staffed e d'"
proof -
  have "members_wf e d'" using members_wf_quiet [OF ok w] st by (simp add: staffed_def)
  moreover have "active_admins d' \<noteq> []"
    using w
  proof cases
    case keep
    with st show ?thesis by (simp add: staffed_def active_admins_def)
  next
    case (add m k)
    with st show ?thesis by (simp add: staffed_def active_admins_def)
  next
    case (edit p f)
    from st obtain m where "m \<in> set (active_admins d)" by (rule staffedE)
    then have "(if p m then f m else m) \<in> set (active_admins d')"
      using edit by (auto simp: active_admins_mem update_where_def)
    then show ?thesis by fastforce
  qed
  ultimately show ?thesis by (simp add: staffed_def)
qed

lemma staffed_same: "env_ok e \<Longrightarrow> staffed e d \<Longrightarrow> members d' = members d \<Longrightarrow> fresh d \<le> fresh d' \<Longrightarrow> staffed e d'"
  by (rule quiet_staffed) (auto intro: quiet_write.keep)

lemma staffed_writes:
  assumes "env_ok e" "staffed e d" "member_writes e d d'" "m \<in> set (members d')" "m_is_admin m" "m_status m = member_active"
  shows "staffed e d'"
proof -
  have "m \<in> set (active_admins d')" using assms(4-6) by (simp add: active_admins_mem)
  then show ?thesis using assms(1,2) members_wf_writes [OF assms(3)] by (auto simp: staffed_def)
qed

lemma active_admin_ids:
  assumes "members_wf e d"
  shows "distinct (map m_id (active_admins d))" "card (m_id ` set (active_admins d)) = length (active_admins d)"
proof -
  show "distinct (map m_id (active_admins d))"
    using assms by (simp add: members_wf_def active_admins_def distinct_map inj_on_def)
  from distinct_card [OF this] show "card (m_id ` set (active_admins d)) = length (active_admins d)" by simp
qed

text \<open>More than one administrator: one remains besides a given member.\<close>

lemma another_admin:
  assumes "members_wf e d" "1 < length (active_admins d)"
  obtains b where "b \<in> set (active_admins d)" "m_id b \<noteq> mid"
proof (rule ccontr)
  assume "\<not> thesis"
  with that have "m_id ` set (active_admins d) \<subseteq> {mid}" by auto
  then have "card (m_id ` set (active_admins d)) \<le> 1" using card_mono [of "{mid}"] by simp
  with active_admin_ids(2) [OF assms(1)] assms(2) show False by simp
qed

lemma set_is_admin_staffed:
  assumes ok: "env_ok e" and st: "staffed e d" and run: "set_is_admin e mid b actor d = (r, d')"
  shows "staffed e d'"
proof -
  have rows: "members d' = members d \<or>
      (members d' = update_where (\<lambda>m. m_id m = mid) (\<lambda>m. m\<lparr>m_is_admin := b\<rparr>) (members d) \<and>
       (b \<or> 1 < length (active_admins d)))"
    using run by (auto simp: set_is_admin_def Let_def set_member_def not_le split: option.splits if_splits)
  show ?thesis
  proof (cases "members d' = members d")
    case True
    then show ?thesis using staffed_same [OF ok st] writes_mono [OF set_is_admin_writes [OF run]] by blast
  next
    case False
    obtain x where x: "x \<in> set (active_admins d)" "b \<or> m_id x \<noteq> mid"
    proof (cases b)
      case True
      from st obtain x where "x \<in> set (active_admins d)" by (rule staffedE)
      with True that show ?thesis by blast
    next
      case b: False
      with False rows have "1 < length (active_admins d)" by blast
      with another_admin [of e d] st that show ?thesis by (metis staffed_def)
    qed
    have "(if m_id x = mid then x\<lparr>m_is_admin := b\<rparr> else x) \<in> set (members d')"
      using False rows x by (auto simp: active_admins_mem update_where_def)
    then show ?thesis
      by (rule staffed_writes [OF ok st set_is_admin_writes [OF run]]) (use x in \<open>auto simp: active_admins_mem\<close>)
  qed
qed

lemma delete_member_staffed:
  assumes ok: "env_ok e" and st: "staffed e d" and run: "delete_member e mid acting actor d = (x, d')"
  shows "staffed e d'"
  using run
proof (cases rule: delete_member_cases)
  case 1
  with st show ?thesis by simp
next
  case (2 m)
  from st obtain a where a: "a \<in> set (active_admins d)" by (rule staffedE)
  obtain b where b: "b \<in> set (active_admins d)" "m_id b \<noteq> mid"
  proof (cases "m_id a = mid")
    case True
    then have "m = a" using same_member [of e d a m] a get_member_mem [OF 2(1)] st
      by (auto simp: staffed_def active_admins_mem)
    with 2(4) a that show ?thesis by (auto simp: active_admins_mem)
  qed (use a that in blast)
  show ?thesis
    by (rule staffed_writes [OF ok st delete_member_writes [OF run], of b])
       (use b 2(5) in \<open>auto simp: remove_rows_frame active_admins_mem\<close>)
qed

text \<open>What an update of a member does to the administrators.\<close>

lemma update_member_rows:
  assumes wf: "members_wf e d" and run: "update_member e mid name status d = (u, d')"
  shows "map (\<lambda>m. (m_id m, m_is_admin m)) (members d') = map (\<lambda>m. (m_id m, m_is_admin m)) (members d)"
    and "\<exists>f. members d' = map f (members d) \<and> (\<forall>m \<in> set (members d). m_is_admin (f m) = m_is_admin m \<and> m_id (f m) = m_id m \<and>
        m_status (f m) = (if m_id m = mid \<and> status \<noteq> None then the status else m_status m))"
proof -
  show f: "\<exists>f. members d' = map f (members d) \<and> (\<forall>m \<in> set (members d). m_is_admin (f m) = m_is_admin m \<and> m_id (f m) = m_id m \<and>
        m_status (f m) = (if m_id m = mid \<and> status \<noteq> None then the status else m_status m))"
  proof (cases "get_member mid d")
    case None
    then have "\<forall>m \<in> set (members d). m_id m \<noteq> mid" by (auto simp: get_member_def find_None_ball)
    moreover have "d' = d" using run None by (simp add: update_member_def)
    ultimately show ?thesis by (intro exI [of _ id]) auto
  next
    case (Some m)
    let ?n = "\<lambda>m. case name of None \<Rightarrow> m | Some n \<Rightarrow> m\<lparr>m_display_name := n\<rparr>"
    have one: "x = m" if "x \<in> set (members d)" "m_id x = mid" for x
      using same_member [OF wf _ that(1)] that(2) get_member_mem [OF Some] by auto
    have rows: "members d' = update_where (\<lambda>m. m_id m = mid) g (update_where (\<lambda>m. m_id m = mid) ?n (members d))"
      if "members d' = members (set_member mid g (set_member mid ?n d))" for g
      using that by (simp add: set_member_def)
    have "\<exists>g. members d' = update_where (\<lambda>m. m_id m = mid) g (update_where (\<lambda>m. m_id m = mid) ?n (members d)) \<and>
        (\<forall>x. m_is_admin (g x) = m_is_admin x \<and> m_id (g x) = m_id x) \<and>
        (\<forall>x. m_status x = m_status m \<longrightarrow> m_status (g x) = (if status \<noteq> None then the status else m_status x))"
    proof (cases "status = None \<or> status = Some (m_status m)")
      case True
      then have "members d' = update_where (\<lambda>m. m_id m = mid) id (update_where (\<lambda>m. m_id m = mid) ?n (members d))"
        using run Some by (auto simp: update_member_def Let_def set_member_def update_where_def o_def)
      with True show ?thesis by (intro exI [of _ id]) auto
    next
      case False
      then obtain st where st: "status = Some st" "st \<noteq> m_status m" by auto
      let ?g = "if st = member_disabled then (\<lambda>m. m\<lparr>m_status := st, m_disabled_at := Some (now e)\<rparr>) else (\<lambda>m. m\<lparr>m_status := st\<rparr>)"
      have "members d' = members (set_member mid ?g (set_member mid ?n d))"
        using run Some st by (auto simp: update_member_def Let_def revoke_all_sessions split: if_splits)
      from rows [OF this] st show ?thesis by (intro exI [of _ ?g]) simp
    qed
    then obtain g where g: "members d' = update_where (\<lambda>m. m_id m = mid) g (update_where (\<lambda>m. m_id m = mid) ?n (members d))"
        "\<And>x. m_is_admin (g x) = m_is_admin x" "\<And>x. m_id (g x) = m_id x"
        "\<And>x. m_status x = m_status m \<Longrightarrow> m_status (g x) = (if status \<noteq> None then the status else m_status x)" by blast
    have n: "m_id (?n x) = m_id x" "m_is_admin (?n x) = m_is_admin x" "m_status (?n x) = m_status x" for x
      by (simp_all split: option.split)
    let ?h = "\<lambda>x. if m_id x = mid then g (?n x) else x"
    have "members d' = map ?h (members d)" by (simp add: g(1) update_where_def o_def n cong: if_cong)
    moreover have "m_status (?h x) = (if m_id x = mid \<and> status \<noteq> None then the status else m_status x)"
      if "x \<in> set (members d)" for x
      using one [OF that] g(4) [of "?n x"] n(3) [of x] by auto
    ultimately show ?thesis by (intro exI [of _ ?h]) (simp add: g n)
  qed
  from f show "map (\<lambda>m. (m_id m, m_is_admin m)) (members d') = map (\<lambda>m. (m_id m, m_is_admin m)) (members d)"
    by auto
qed

lemma update_member_fresh: "update_member e mid name status d = (u, d') \<Longrightarrow> fresh d \<le> fresh d'"
  by (rule writes_mono [OF update_member_writes])

lemma update_member_staffed:
  assumes ok: "env_ok e" and st: "staffed e d" and run: "update_member e mid name status d = (u, d')"
    and safe: "status = Some member_disabled \<Longrightarrow> \<exists>b \<in> set (active_admins d). m_id b \<noteq> mid"
  shows "staffed e d'"
proof -
  have wf: "members_wf e d" using st by (simp add: staffed_def)
  obtain f where f: "members d' = map f (members d)" "\<And>m. m \<in> set (members d) \<Longrightarrow>
      m_is_admin (f m) = m_is_admin m \<and> m_id (f m) = m_id m \<and>
      m_status (f m) = (if m_id m = mid \<and> status \<noteq> None then the status else m_status m)"
    using update_member_rows(2) [OF wf run] by blast
  obtain b where b: "b \<in> set (active_admins d)" "m_id b \<noteq> mid \<or> status = None \<or> status = Some member_active"
  proof (cases "status = Some member_disabled")
    case True
    then show ?thesis using safe that by blast
  next
    case False
    then have "status = None \<or> status = Some member_active"
      by (cases status) (auto, metis member_status.exhaust)
    with st that show ?thesis by (metis staffedE)
  qed
  then have "m_status (f b) = member_active" "m_is_admin (f b)" "f b \<in> set (members d')"
    using f by (auto simp: active_admins_mem)
  then show ?thesis by (intro staffed_writes [OF ok st update_member_writes [OF run]])
qed

lemma update_disabled_admins:
  assumes wf: "members_wf e d" and run: "update_member e mid name (Some member_disabled) d = (u, d')"
  shows "m_id ` set (active_admins d') = m_id ` set (active_admins d) - {mid}"
proof -
  obtain f where rows: "members d' = map f (members d)" "\<forall>m \<in> set (members d).
      m_is_admin (f m) = m_is_admin m \<and> m_id (f m) = m_id m \<and>
      m_status (f m) = (if m_id m = mid \<and> Some member_disabled \<noteq> None then the (Some member_disabled) else m_status m)"
    using update_member_rows(2) [OF wf run] by blast
  then have f: "members d' = map f (members d)" "\<And>m. m \<in> set (members d) \<Longrightarrow>
      m_is_admin (f m) = m_is_admin m \<and> m_id (f m) = m_id m \<and>
      m_status (f m) = (if m_id m = mid then member_disabled else m_status m)"
    by simp_all
  have "active_admins d' = map f (filter (\<lambda>m. m_id m \<noteq> mid) (active_admins d))"
    unfolding active_admins_def f(1) filter_map filter_filter by (rule arg_cong [where f = "map f"], rule filter_cong) (auto simp: f(2))
  moreover have "m_id ` f ` set (filter (\<lambda>m. m_id m \<noteq> mid) (active_admins d)) =
      m_id ` set (filter (\<lambda>m. m_id m \<noteq> mid) (active_admins d))"
    unfolding image_image by (rule image_cong [OF refl]) (use f(2) in \<open>simp add: active_admins_mem\<close>)
  ultimately show ?thesis by auto
qed

text \<open>The endpoints, as functions that keep the session staffed.\<close>

definition keeps_staff :: "env \<Rightarrow> (db \<Rightarrow> 'a \<times> db) \<Rightarrow> bool" where
  "keeps_staff e f \<longleftrightarrow> (\<forall>d. staffed e d \<longrightarrow> staffed e (snd (f d)))"

lemma keeps_staffI: "(\<And>d r d'. staffed e d \<Longrightarrow> f d = (r, d') \<Longrightarrow> staffed e d') \<Longrightarrow> keeps_staff e f"
  unfolding keeps_staff_def by (metis prod.collapse)

lemma keeps_staffD: "keeps_staff e f \<Longrightarrow> f d = (r, d') \<Longrightarrow> staffed e d \<Longrightarrow> staffed e d'"
  unfolding keeps_staff_def by (metis snd_conv)

lemma staffed_rollback: "env_ok e \<Longrightarrow> staffed e d \<Longrightarrow> fresh d \<le> fresh d' \<Longrightarrow> staffed e (rollback_to d d')"
  by (erule staffed_same) simp_all

lemma staffed_audit:
  "env_ok e \<Longrightarrow> staffed e d \<Longrightarrow> staffed e (audit_record e' ev act ai tt ti ds d)"
  using staffed_same [of e d "audit_record e' ev act ai tt ti ds d"] by simp

lemma bulk_keeps:
  assumes f: "\<And>i. keeps_staff e (f i)"
  shows "staffed e d \<Longrightarrow> bulk f is d = (items, d') \<Longrightarrow> staffed e d'"
proof (induction "is" arbitrary: d items d')
  case (Cons i "is")
  obtain s r d1 where i: "f i d = ((s, r), d1)" by (metis prod.collapse)
  obtain items1 d2 where b: "bulk f is d1 = (items1, d2)" by fastforce
  have "staffed e d1" by (rule keeps_staffD [OF f i Cons.prems(1)])
  from Cons.IH [OF this b] Cons.prems(2) i b show ?case by simp
qed simp

lemma delete_item_keeps: "env_ok e \<Longrightarrow> keeps_staff e (delete_item (at_time e t) acting mid)"
proof (rule keeps_staffI)
  fix d r d' assume ok: "env_ok e" and st: "staffed e d" and run: "delete_item (at_time e t) acting mid d = (r, d')"
  obtain x d1 where x: "delete_member (at_time e t) mid acting ''admin'' d = (x, d1)" by fastforce
  have "staffed e d1" "fresh d \<le> fresh d1"
    using delete_member_staffed [OF _ _ x] writes_mono [OF delete_member_writes [OF x]] ok st by simp_all
  with run x staffed_rollback [OF ok st] show "staffed e d'"
    by (auto simp: delete_item_def split: sum.splits bool.splits member_error.splits)
qed

lemma add_tags_members:
  "add_tags e mid tags added_by src rule_id d = (r, d') \<Longrightarrow> members d' = members d \<and> fresh d \<le> fresh d'"
  by (auto simp: add_tags_def Let_def simp del: add_loop.simps dest!: add_loop_frame
      split: option.splits prod.splits bool.splits)

lemma remove_tags_members:
  "remove_tags e mid tags removed_by d = (r, d') \<Longrightarrow> members d' = members d \<and> fresh d \<le> fresh d'"
  by (auto simp: remove_tags_def Let_def split: option.splits)

lemma tags_item_frame:
  assumes "tags_item e acting add remove mid d = (r, d')"
  shows "members d' = members d" "fresh d \<le> fresh d'"
proof -
  obtain x d1 where x: "add_tags e mid add (Some acting) manual None d = (x, d1)" by fastforce
  obtain y d2 where y: "remove_tags e mid remove (Some acting) d = (y, d2)" by fastforce
  obtain z d3 where z: "remove_tags e mid remove (Some acting) d1 = (z, d3)" by fastforce
  note frame = add_tags_members [OF x] remove_tags_members [OF y] remove_tags_members [OF z]
  from assms x y z frame show "members d' = members d" "fresh d \<le> fresh d'"
    by (auto simp: tags_item_def Let_def split: sum.splits if_splits)
qed

lemma tags_item_keeps: "env_ok e \<Longrightarrow> keeps_staff e (tags_item (at_time e t) acting add remove mid)"
  by (rule keeps_staffI) (use tags_item_frame staffed_same in blast)

lemma allocate_item_keeps: "env_ok e \<Longrightarrow> keeps_staff e (allocate_item (at_time e t) acting model quota cost mid)"
proof (rule keeps_staffI)
  fix d r d' assume ok: "env_ok e" and st: "staffed e d"
    and run: "allocate_item (at_time e t) acting model quota cost mid d = (r, d')"
  obtain x d1 where x: "create_allocation (at_time e t) (Some mid) model None (Some acting) None quota cost origin_admin d = (x, d1)"
    by fastforce
  have q: "quiet_write e d d1" using create_allocation_quiet [OF x] by simp
  with quiet_staffed [OF ok q st] quiet_mono [OF q] run x st staffed_rollback [OF ok st] show "staffed e d'"
    by (auto simp: allocate_item_def split: sum.splits if_splits)
qed

lemma create_loop_keeps:
  assumes ok: "env_ok e"
  shows "staffed e d \<Longrightarrow> create_loop (at_time e t) re seen emails d = (items, d') \<Longrightarrow> staffed e d'"
proof (induction emails arbitrary: seen d items d')
  case (Cons em rest)
  obtain c d1 where c: "create_member (at_time e t) re em local_password None None None True ''bulk-admin'' d = (c, d1)"
    by fastforce
  have q: "quiet_write e d d1" using create_member_quiet [OF c] by simp
  note st = quiet_staffed [OF ok q Cons.prems(1)] staffed_rollback [OF ok Cons.prems(1) quiet_mono [OF q]]
  from Cons.prems c show ?case
    by (auto split: if_splits sum.splits member_error.splits prod.splits
        intro: Cons.IH st Cons.IH [OF staffed_audit [OF ok st(1)]])
qed simp

lemma status_loop_keeps:
  assumes ok: "env_ok e"
  shows "staffed e d \<Longrightarrow> (st = member_disabled \<Longrightarrow> admins = m_id ` set (active_admins d)) \<Longrightarrow>
    status_loop (at_time e t) acting st admins mids d = (items, d') \<Longrightarrow> staffed e d'"
proof (induction mids arbitrary: admins d items d')
  case (Cons mid rest)
  note prems = Cons.prems
  show ?case
  proof (cases "st = member_disabled \<and> mid \<in> admins \<and> card admins \<le> 1")
    case True
    obtain it d1 where "status_loop (at_time e t) acting st admins rest d = (it, d1)" by fastforce
    with True prems Cons.IH [OF prems(1,2)] show ?thesis by auto
  next
    case False
    obtain u d1 where u: "update_member (at_time e t) mid None (Some st) d = (u, d1)" by fastforce
    have mono: "fresh d \<le> fresh d1" by (rule update_member_fresh [OF u])
    show ?thesis
    proof (cases u)
      case None
      let ?d = "rollback_to d d1"
      obtain it d2 where it: "status_loop (at_time e t) acting st admins rest ?d = (it, d2)" by fastforce
      have "staffed e d2"
        by (rule Cons.IH [OF staffed_rollback [OF ok prems(1) mono] _ it])
           (use prems(2) in \<open>simp add: active_admins_def\<close>)
      with False None u it prems(3) show ?thesis by auto
    next
      case (Some m)
      let ?d = "audit_record (at_time e t) (if st = member_disabled then member_was_disabled else member_enabled)
        actor_admin (Some acting) (Some ''member'') (Some mid) [] d1"
      let ?left = "if st = member_disabled then admins - {mid} else admins"
      obtain it d2 where it: "status_loop (at_time e t) acting st ?left rest ?d = (it, d2)" by fastforce
      have "\<exists>b \<in> set (active_admins d). m_id b \<noteq> mid" if dis: "st = member_disabled"
      proof (rule ccontr)
        assume "\<not> (\<exists>b \<in> set (active_admins d). m_id b \<noteq> mid)"
        then have "admins \<subseteq> {mid}" using prems(2) [OF dis] by auto
        moreover have "admins \<noteq> {}" using prems(1) prems(2) [OF dis] by (auto simp: staffed_def)
        ultimately have "admins = {mid}" by blast
        with False dis show False by simp
      qed
      then have "staffed (at_time e t) d1" by (intro update_member_staffed [OF _ _ u]) (use ok prems(1) in auto)
      then have st1: "staffed e ?d" using staffed_audit [OF ok] by simp
      have "staffed e d2"
      proof (rule Cons.IH [OF st1 _ it])
        assume dis: "st = member_disabled"
        have "members_wf (at_time e t) d" using prems(1) by (simp add: staffed_def members_wf_def drawn_id_def)
        from update_disabled_admins [OF this] u dis prems(2) show "?left = m_id ` set (active_admins ?d)"
          by (simp add: active_admins_def)
      qed
      with False Some u it prems(3) show ?thesis by (auto simp: Let_def)
    qed
  qed
qed simp

section \<open>Steps\<close>

text \<open>One request at some time: an endpoint of the administrators, a login, anything that leaves the
  members alone.  In \<open>safe_step\<close> a PATCH disables no active administrator; \<open>member_step\<close> lets it.\<close>

inductive safe_step :: "env \<Rightarrow> db \<Rightarrow> db \<Rightarrow> bool" for e d d' where
  posted: "post_member (at_time e t) re em prov name ext pw invite d = (r, d') \<Longrightarrow> safe_step e d d'"
| patched: "patch_member (at_time e t) mid name status adm d = (p, d') \<Longrightarrow>
    status \<noteq> Some member_disabled \<or> mid \<notin> m_id ` set (active_admins d) \<Longrightarrow> safe_step e d d'"
| deleted: "delete_member_endpoint (at_time e t) mid who d = (u, d') \<Longrightarrow> safe_step e d d'"
| bulk_deleted: "bulk_delete_members (at_time e t) mids who d = (b, d') \<Longrightarrow> safe_step e d d'"
| bulk_created: "bulk_create_members (at_time e t) re lines d = (b, d') \<Longrightarrow> safe_step e d d'"
| bulk_status: "bulk_set_status (at_time e t) mids st who d = (b, d') \<Longrightarrow> safe_step e d d'"
| bulk_tagged: "bulk_tags (at_time e t) mids tags gone who d = (b, d') \<Longrightarrow> safe_step e d d'"
| bulk_allocated: "bulk_allocate (at_time e t) mids model quota cost who d = (b, d') \<Longrightarrow> safe_step e d d'"
| allocated: "create_allocation (at_time e t) mo model memo creator subject quota cost origin d = (a, d') \<Longrightarrow> safe_step e d d'"
| accepted: "invitation_accept (at_time e t) tok pw ip ua d = (l, d') \<Longrightarrow> safe_step e d d'"
| google_login: "oidc_callback (at_time e t) g re code state ip ua d = (l, d') \<Longrightarrow> safe_step e d d'"
| logged_in: "local_login (at_time e t) em pw ip ua d = (l, d') \<Longrightarrow> safe_step e d d'"
| others: "members d' = members d \<Longrightarrow> fresh d \<le> fresh d' \<Longrightarrow> safe_step e d d'"

inductive member_step :: "env \<Rightarrow> db \<Rightarrow> db \<Rightarrow> bool" for e d d' where
  safe: "safe_step e d d' \<Longrightarrow> member_step e d d'"
| disabling: "patch_member (at_time e t) mid name (Some member_disabled) adm d = (p, d') \<Longrightarrow> member_step e d d'"

lemma patch_cases:
  assumes "patch_member e mid name status adm d = (p, d')"
  obtains u d1 where "update_member e mid name status d = (u, d1)"
    "d' = rollback_to d d' \<and> fresh d1 \<le> fresh d' \<or> d' = d1 \<or>
     (\<exists>b s. set_is_admin e mid b ''admin'' d1 = (s, d'))"
proof -
  obtain u d1 where u: "update_member e mid name status d = (u, d1)" by fastforce
  have roll: "rollback_to d (rollback_to d x) = rollback_to d x" for x by (simp add: rollback_to_def)
  have mono: "fresh d1 \<le> fresh d2" if "set_is_admin e mid b ''admin'' d1 = (s, d2)" for b s d2
    using writes_mono [OF set_is_admin_writes [OF that]] .
  from assms u show thesis
    by (intro that [OF u])
       (auto simp: patch_member_def failed_def roll mono split: option.splits sum.splits prod.splits)
qed

lemma patch_member_staffed:
  assumes ok: "env_ok e" and st: "staffed e d" and run: "patch_member (at_time e t) mid name status adm d = (p, d')"
    and safe: "status \<noteq> Some member_disabled \<or> mid \<notin> m_id ` set (active_admins d)"
  shows "staffed e d'"
  using run
proof (cases rule: patch_cases)
  case (1 u d1)
  have st1: "staffed (at_time e t) d1"
  proof (rule update_member_staffed [OF _ _ 1(1)])
    show "\<exists>b \<in> set (active_admins d). m_id b \<noteq> mid" if "status = Some member_disabled"
      using st safe that by (metis staffedE imageI)
  qed (use ok st in simp_all)
  have roll: "staffed e (rollback_to d x)" if "fresh d1 \<le> fresh x" for x
    by (rule staffed_rollback [OF ok st]) (use update_member_fresh [OF 1(1)] that in simp)
  from 1(2) show ?thesis
    using roll [of d'] st1 set_is_admin_staffed [of "at_time e t" d1] ok by auto
qed

lemma post_member_quiet:
  assumes "post_member e re em prov name ext pw invite d = (r, d')"
  shows "quiet_write e d d'"
proof (cases "validate_identifier em")
  case (Inl err)
  with assms show ?thesis by (auto simp: post_member_def failed_def intro: quiet_write.keep)
next
  case (Inr ident)
  obtain c d1 where c: "create_member e re ident prov name ext pw invite ''bootstrap-admin'' d = (c, d1)" by fastforce
  note q = create_member_quiet [OF c]
  have "quiet_write e d (rollback_to d d1)" by (rule quiet_write.keep) (simp_all add: quiet_mono [OF q])
  with q assms Inr c show ?thesis
    by (auto simp: post_member_def failed_def split: sum.splits member_error.splits)
qed

lemma bulk_staffed:
  assumes ok: "env_ok e" and st: "staffed e d"
  shows "bulk_delete_members (at_time e t) mids who d = (b, d') \<Longrightarrow> staffed e d'"
    and "bulk_create_members (at_time e t) re lines d = (b, d') \<Longrightarrow> staffed e d'"
    and "bulk_set_status (at_time e t) mids sta who d = (b, d') \<Longrightarrow> staffed e d'"
    and "bulk_tags (at_time e t) mids tags gone who d = (b, d') \<Longrightarrow> staffed e d'"
    and "bulk_allocate (at_time e t) mids model quota cost who d = (b, d') \<Longrightarrow> staffed e d'"
proof -
  have same: "staffed e (rollback_to d d)" by (rule staffed_rollback [OF ok st]) simp
  show "bulk_delete_members (at_time e t) mids who d = (b, d') \<Longrightarrow> staffed e d'"
    using bulk_keeps [OF delete_item_keeps [OF ok] st] same
    by (auto simp: bulk_delete_members_def failed_def split: if_splits prod.splits)
  show "bulk_create_members (at_time e t) re lines d = (b, d') \<Longrightarrow> staffed e d'"
    using create_loop_keeps [OF ok st] same
    by (auto simp: bulk_create_members_def failed_def Let_def split: if_splits prod.splits option.splits)
  show "bulk_set_status (at_time e t) mids sta who d = (b, d') \<Longrightarrow> staffed e d'"
    using status_loop_keeps [OF ok st, of sta "if sta = member_disabled then m_id ` set (active_admins d) else {}" t
        "acting_name who" mids] same
    by (auto simp: bulk_set_status_def failed_def Let_def split: if_splits prod.splits)
  show "bulk_tags (at_time e t) mids tags gone who d = (b, d') \<Longrightarrow> staffed e d'"
    using bulk_keeps [OF tags_item_keeps [OF ok] st] same
    by (auto simp: bulk_tags_def failed_def Let_def split: if_splits prod.splits)
  show "bulk_allocate (at_time e t) mids model quota cost who d = (b, d') \<Longrightarrow> staffed e d'"
    using bulk_keeps [OF allocate_item_keeps [OF ok] st] same
    by (auto simp: bulk_allocate_def failed_def Let_def split: if_splits prod.splits)
qed

lemma delete_endpoint_staffed:
  assumes ok: "env_ok e" and st: "staffed e d" and run: "delete_member_endpoint (at_time e t) mid who d = (u, d')"
  shows "staffed e d'"
proof -
  obtain x d1 where x: "delete_member (at_time e t) mid (map_option m_id who) ''admin'' d = (x, d1)" by fastforce
  have "staffed e d1" "staffed e (rollback_to d d1)"
    using delete_member_staffed [OF _ _ x] staffed_rollback [OF ok st writes_mono [OF delete_member_writes [OF x]]] ok st
    by simp_all
  with run x show ?thesis
    by (auto simp: delete_member_endpoint_def failed_def split: sum.splits bool.splits member_error.splits)
qed

lemma safe_step_staffed:
  assumes "safe_step e d d'" "env_ok e" "staffed e d"
  shows "staffed e d'"
  using assms(1)
proof cases
  case (patched t mid name status adm p)
  then show ?thesis using patch_member_staffed [OF assms(2,3)] by blast
next
  case (deleted t mid who u)
  then show ?thesis using delete_endpoint_staffed [OF assms(2,3)] by blast
qed (use bulk_staffed [OF assms(2,3)] quiet_staffed [OF assms(2) _ assms(3)] staffed_same [OF assms(2,3)]
      post_member_quiet create_allocation_quiet accept_quiet oidc_callback_quiet local_login_quiet quiet_at_time in metis)+


section \<open>Identities\<close>

lemma rollback_writes: "member_writes e d d1 \<Longrightarrow> member_writes e d (rollback_to d d1)"
  by (rule keeps) (simp_all add: writes_mono)

lemma bulk_writes:
  assumes f: "\<And>i d r d'. f i d = (r, d') \<Longrightarrow> member_writes e d d'"
  shows "bulk f is d = (items, d') \<Longrightarrow> member_writes e d d'"
proof (induction "is" arbitrary: d items d')
  case (Cons i "is")
  obtain s r d1 where i: "f i d = ((s, r), d1)" by (metis prod.collapse)
  obtain items1 d2 where b: "bulk f is d1 = (items1, d2)" by fastforce
  from f [OF i] Cons.IH [OF b] have "member_writes e d d2" by (rule rtranclp_trans)
  with Cons.prems i b show ?case by simp
qed simp

lemma delete_item_writes: "delete_item e acting mid d = (r, d') \<Longrightarrow> member_writes e d d'"
  by (auto simp: delete_item_def split: sum.splits bool.splits member_error.splits prod.splits
      intro: rollback_writes delete_member_writes dest: delete_member_writes)

lemma allocate_item_writes: "allocate_item e acting model quota cost mid d = (r, d') \<Longrightarrow> member_writes e d d'"
  by (auto simp: allocate_item_def split: sum.splits if_splits prod.splits
      dest!: create_allocation_quiet intro: rollback_writes quiets)

lemma create_loop_writes: "create_loop e re seen emails d = (items, d') \<Longrightarrow> member_writes e d d'"
proof (induction emails arbitrary: seen d items d')
  case (Cons em rest)
  obtain c d1 where c: "create_member e re em local_password None None None True ''bulk-admin'' d = (c, d1)"
    by fastforce
  have w: "member_writes e d d1" by (rule quiets, rule create_member_quiet [OF c])
  have more: "member_writes e d x" if "create_loop e re s rest y = (i, x)" "member_writes e d y" for s y i x
    using that(2) Cons.IH [OF that(1)] by (rule rtranclp_trans)
  have audited: "member_writes e d (audit_record e ev act ai tt ti ds d1)" for ev act ai tt ti ds
    by (rule writes_then_same [OF w]) simp_all
  from Cons.prems c show ?case
    by (auto split: if_splits sum.splits member_error.splits prod.splits
        intro: Cons.IH more [OF _ w] more [OF _ rollback_writes [OF w]] more [OF _ audited] rollback_writes w)
qed simp

lemma status_loop_writes: "status_loop e acting st admins mids d = (items, d') \<Longrightarrow> member_writes e d d'"
proof (induction mids arbitrary: admins d items d')
  case (Cons mid rest)
  obtain u d1 where u: "update_member e mid None (Some st) d = (u, d1)" by fastforce
  note w = update_member_writes [OF u]
  have more: "member_writes e d x" if "status_loop e acting st a rest y = (i, x)" "member_writes e d y" for a y i x
    using that(2) Cons.IH [OF that(1)] by (rule rtranclp_trans)
  have audited: "member_writes e d (audit_record e ev act ai tt ti ds d1)" for ev act ai tt ti ds
    by (rule writes_then_same [OF w]) simp_all
  from Cons.prems u show ?case
    by (auto simp: Let_def split: if_splits option.splits prod.splits
        intro: Cons.IH more [OF _ rollback_writes [OF w]] more [OF _ audited])
qed simp

lemma patch_writes:
  assumes "patch_member e mid name status adm d = (p, d')"
  shows "member_writes e d d'"
  using assms
proof (cases rule: patch_cases)
  case (1 u d1)
  note w = update_member_writes [OF 1(1)]
  from 1(2) show ?thesis
  proof (elim disjE exE conjE)
    assume "d' = rollback_to d d'" "fresh d1 \<le> fresh d'"
    then show ?thesis using writes_mono [OF w] by (intro keeps) (metis rollback_frame(3), simp)
  next
    assume "d' = d1"
    with w show ?thesis by simp
  next
    fix b s assume "set_is_admin e mid b ''admin'' d1 = (s, d')"
    from w set_is_admin_writes [OF this] show ?thesis by (rule rtranclp_trans)
  qed
qed

lemma bulk_member_writes:
  "bulk_delete_members e mids who d = (b, d') \<Longrightarrow> member_writes e d d'"
  "bulk_create_members e re lines d = (b, d') \<Longrightarrow> member_writes e d d'"
  "bulk_set_status e mids st who d = (b, d') \<Longrightarrow> member_writes e d d'"
  "bulk_tags e mids tags gone who d = (b, d') \<Longrightarrow> member_writes e d d'"
  "bulk_allocate e mids model quota cost who d = (b, d') \<Longrightarrow> member_writes e d d'"
proof -
  have same: "member_writes e d (rollback_to d d)" by (rule rollback_writes) simp
  show "bulk_delete_members e mids who d = (b, d') \<Longrightarrow> member_writes e d d'"
    using bulk_writes [OF delete_item_writes] same
    by (auto simp: bulk_delete_members_def failed_def split: if_splits prod.splits)
  show "bulk_create_members e re lines d = (b, d') \<Longrightarrow> member_writes e d d'"
    using create_loop_writes [of e] same
    by (auto simp: bulk_create_members_def failed_def Let_def split: if_splits prod.splits option.splits)
  show "bulk_set_status e mids st who d = (b, d') \<Longrightarrow> member_writes e d d'"
    using status_loop_writes [of e] same
    by (auto simp: bulk_set_status_def failed_def Let_def split: if_splits prod.splits)
  have tags: "member_writes e d d'" if "tags_item e x y z i d = (r, d')" for x y z i d r d'
    using tags_item_frame [OF that] by (rule keeps)
  show "bulk_tags e mids tags gone who d = (b, d') \<Longrightarrow> member_writes e d d'"
    using bulk_writes [OF tags] same
    by (auto simp: bulk_tags_def failed_def Let_def split: if_splits prod.splits)
  show "bulk_allocate e mids model quota cost who d = (b, d') \<Longrightarrow> member_writes e d d'"
    using bulk_writes [OF allocate_item_writes] same
    by (auto simp: bulk_allocate_def failed_def Let_def split: if_splits prod.splits)
qed

lemma delete_endpoint_writes:
  assumes "delete_member_endpoint e mid who d = (u, d')"
  shows "member_writes e d d'"
proof -
  obtain x d1 where x: "delete_member e mid (map_option m_id who) ''admin'' d = (x, d1)" by fastforce
  note w = delete_member_writes [OF x]
  with rollback_writes [OF w] assms x show ?thesis
    by (auto simp: delete_member_endpoint_def failed_def split: sum.splits bool.splits member_error.splits)
qed

lemma member_writes_at_time [simp]: "member_writes (at_time e t) = member_writes e"
  by simp

lemma safe_step_writes: "safe_step e d d' \<Longrightarrow> member_writes e d d'"
proof (induction rule: safe_step.induct)
  case (patched t mid name status adm p)
  from patch_writes [OF patched(1)] show ?case by simp
next
  case (deleted t mid who u)
  from delete_endpoint_writes [OF deleted] show ?case by simp
next
  case (others)
  then show ?case by (rule keeps)
qed (use bulk_member_writes post_member_quiet create_allocation_quiet accept_quiet oidc_callback_quiet local_login_quiet
      quiets member_writes_at_time in metis)+

lemma member_step_writes: "member_step e d d' \<Longrightarrow> member_writes e d d'"
proof (induction rule: member_step.induct)
  case (disabling t mid name adm p)
  from patch_writes [OF disabling] show ?case by simp
qed (rule safe_step_writes)

lemma member_run_wf:
  assumes "env_ok e" "(member_step e)\<^sup>*\<^sup>* d d'" "members_wf e d"
  shows "members_wf e d'"
  using assms(2)
proof (induction rule: rtranclp_induct)
  case (step y z)
  then show ?case using members_wf_writes [OF member_step_writes] assms(1) by blast
qed (rule assms(3))


section \<open>Witnesses\<close>

definition staff_db :: db where
  "staff_db = empty_db\<lparr>members := [sample_member\<lparr>m_id := ''U'', m_email := ''boss@example.org'', m_is_admin := True\<rparr>,
     sample_member\<lparr>m_id := ''U0''\<rparr>], fresh := 2\<rparr>"

lemma staff_wf: "members_wf sample_env staff_db"
proof -
  have "drawn_id sample_env 2 ''U''" "drawn_id sample_env 2 ''U0''"
    unfolding drawn_id_def by (rule exI [of _ 0], simp add: sample_env_def) (rule exI [of _ 1], simp add: sample_env_def)
  then show ?thesis by (simp add: members_wf_def staff_db_def sample_member_def empty_db_def)
qed



lemma delete_member_effect_witness:
  "resolve_bearer sample_env one_token ''gpt-4o''
     (snd (delete_member (at_time sample_env 5) ''U'' None ''admin'' one_grant)) = None"
proof -
  let ?d = "snd (delete_member (at_time sample_env 5) ''U'' None ''admin'' one_grant)"
  have "get_member ''U'' one_grant = Some one_owner" "\<not> m_is_admin one_owner"
    using one_grant_owner(2,6)
    by (simp_all add: one_owner_def one_grant_def create_allocation_def ensure_external_member_def
        issue_allocation_def Let_def case_prod_beta empty_db_def add_credential_row_def add_links_def)
  then have run: "delete_member (at_time sample_env 5) ''U'' None ''admin'' one_grant = (Inr True, ?d)"
    by (simp add: delete_member_def Let_def)
  have "\<forall>k. ulid sample_env k \<noteq> []" by (simp add: sample_env_def)
  note effect = delete_member_effect [OF sample_env_ok one_grant_wf this run]
  have owner: "a_member_id a = ''U''" if "resolve_bearer sample_env one_token ''gpt-4o'' one_grant = Some a" for a
  proof -
    from that have "a \<in> set (allocations one_grant)"
      using resolve_grants [OF one_grant_wf, of "hd (credentials one_grant)"]
      by (auto simp: resolve_bearer_key one_grant_key one_grant_rows(1) grants_def scope_of_def)
    then have "a_member_id a \<in> set (map a_member_id (allocations one_grant))" by simp
    then show ?thesis unfolding one_grant_owner(1) by simp
  qed
  have "resolve_bearer sample_env one_token ''gpt-4o'' ?d \<noteq> Some a" for a using effect owner by blast
  then show ?thesis by (metis not_Some_eq)
qed

end
