(* ===== verification/Anomaly.thy ===== *)
theory Anomaly
  imports PyNum Sessions Samples
begin

text \<open>
  The detectors: \<open>services/anomaly.py\<close> with its endpoint \<open>api/anomaly.py\<close>, which quarantine allocations
  whose traffic is out of proportion, and \<open>services/upstream_burst_detector.py\<close>, which reports a burst of
  upstream errors.  A float is the rational it stands for, its operations round by \<open>float_round\<close>.
\<close>

section \<open>The configuration\<close>

definition anomaly_paused :: "anomaly_config \<Rightarrow> timestamp \<Rightarrow> bool" where
  "anomaly_paused c t = (case an_pause_until c of None \<Rightarrow> False | Some u \<Rightarrow> t < u)"

definition effective_enforcing :: "anomaly_config \<Rightarrow> timestamp \<Rightarrow> bool" where
  "effective_enforcing c t = (an_auto_quarantine_enabled c \<and> \<not> anomaly_paused c t)"

definition anomaly_status :: "anomaly_config \<Rightarrow> timestamp \<Rightarrow> string" where
  "anomaly_status c t =
     (if \<not> an_auto_quarantine_enabled c then ''disabled''
      else if anomaly_paused c t then ''paused'' else ''enabled'')"

text \<open>The constraints of the table.\<close>

definition anomaly_config_ok :: "anomaly_config \<Rightarrow> bool" where
  "anomaly_config_ok c \<longleftrightarrow> 1 \<le> an_threshold_multiplier c \<and> 0 \<le> an_min_calls c \<and>
     0 \<le> an_absolute_cold_start c \<and> 0 \<le> an_baseline_min_calls c"

text \<open>The row is seeded from the settings at the first access; settings that break a constraint make
  the flush raise (\<open>None\<close>).\<close>

definition get_anomaly_config :: "env \<Rightarrow> db \<Rightarrow> anomaly_config option \<times> db" where
  "get_anomaly_config e d =
     (case anomaly_cfg d of
        Some c \<Rightarrow> (Some c, d)
      | None \<Rightarrow>
          (let c = \<lparr>an_auto_quarantine_enabled = True, an_pause_until = None,
                    an_threshold_multiplier = anomaly_threshold_multiplier (cfg e),
                    an_min_calls = anomaly_min_calls (cfg e),
                    an_absolute_cold_start = anomaly_absolute_cold_start (cfg e),
                    an_baseline_min_calls = 200, an_updated_at = now e, an_updated_by = None\<rparr>
           in if anomaly_config_ok c then (Some c, d\<lparr>anomaly_cfg := Some c\<rparr>) else (None, d)))"

section \<open>One allocation\<close>

definition count_calls :: "db \<Rightarrow> string \<Rightarrow> timestamp \<Rightarrow> timestamp \<Rightarrow> nat" where
  "count_calls d aid since until =
     length (filter (\<lambda>r. r_allocation_id r = Some aid \<and> since \<le> r_started_at r \<and> r_started_at r < until \<and>
       r_outcome r = success) (call_records d))"

datatype quarantine_reason = ratio | absolute_cold_start

record quarantine_decision =
  qd_allocation_id :: string
  qd_last_hour_calls :: nat
  qd_baseline_per_hour :: rat
  qd_reason :: quarantine_reason

definition evaluate_allocation :: "timestamp \<Rightarrow> anomaly_config \<Rightarrow> string \<Rightarrow> db \<Rightarrow> quarantine_decision option" where
  "evaluate_allocation t c aid d =
     (let last_hour_start = t - seconds 3600;
          last_hour = count_calls d aid last_hour_start t;
          baseline_total = count_calls d aid (t - seconds 86400) last_hour_start;
          baseline_per_hour = py_truediv (int baseline_total) 23;
          decide = (\<lambda>why. \<lparr>qd_allocation_id = aid, qd_last_hour_calls = last_hour,
                           qd_baseline_per_hour = baseline_per_hour, qd_reason = why\<rparr>)
      in if int last_hour < an_min_calls c then None
         else if int baseline_total < an_baseline_min_calls c
         then (if an_absolute_cold_start c \<le> int last_hour then Some (decide absolute_cold_start) else None)
         else if float_round (baseline_per_hour * an_threshold_multiplier c) \<le> of_nat last_hour
         then Some (decide ratio)
         else None)"

section \<open>The scan\<close>

definition reason_text :: "quarantine_reason \<Rightarrow> string" where
  "reason_text r = (case r of ratio \<Rightarrow> ''ratio'' | absolute_cold_start \<Rightarrow> ''absolute_cold_start'')"

definition quarantine :: "env \<Rightarrow> quarantine_decision \<Rightarrow> db \<Rightarrow> db" where
  "quarantine e q d =
     audit_record e allocation_quarantined actor_system None (Some ''allocation'') (Some (qd_allocation_id q))
       [(''trigger'', JStr ''anomaly_detector''), (''last_hour_calls'', JInt (int (qd_last_hour_calls q))),
        (''baseline_per_hour'', JNum (qd_baseline_per_hour q)), (''reason'', JStr (reason_text (qd_reason q)))]
       (allocations_update (update_where (\<lambda>a. a_id a = qd_allocation_id q) (\<lambda>a. a\<lparr>a_status := quarantined\<rparr>)) d)"

text \<open>The loop over the allocations read before it: how many are flagged, which are quarantined.\<close>

fun scan_loop ::
  "env \<Rightarrow> anomaly_config \<Rightarrow> bool \<Rightarrow> allocation list \<Rightarrow> db \<Rightarrow> nat \<times> quarantine_decision list \<times> db" where
  "scan_loop e c enforcing [] d = (0, [], d)"
| "scan_loop e c enforcing (a # as) d =
     (case evaluate_allocation (now e) c (a_id a) d of
        None \<Rightarrow> scan_loop e c enforcing as d
      | Some q \<Rightarrow>
          (if enforcing
           then (let (n, qs, d1) = scan_loop e c enforcing as (quarantine e q d) in (Suc n, q # qs, d1))
           else (let (n, qs, d1) = scan_loop e c enforcing as d in (Suc n, qs, d1))))"

definition scanned :: "db \<Rightarrow> allocation list" where
  "scanned d = filter (\<lambda>a. a_status a = active \<and> \<not> a_is_service a) (allocations d)"

definition detect_and_quarantine :: "env \<Rightarrow> db \<Rightarrow> quarantine_decision list option \<times> db" where
  "detect_and_quarantine e d =
     (case get_anomaly_config e d of
        (None, d1) \<Rightarrow> (None, d1)
      | (Some c, d1) \<Rightarrow>
          (let enforcing = effective_enforcing c (now e);
               (flagged, qs, d2) = scan_loop e c enforcing (scanned d1) d1
           in (Some qs,
               audit_record e anomaly_detector_run actor_system None None None
                 [(''scanned'', JInt (int (length (scanned d1)))), (''flagged'', JInt (int flagged)),
                  (''quarantined'', JInt (int (length qs))), (''enforced'', JBool enforcing)] d2)))"

text \<open>The cron job: commit, or roll back at an exception.  The number is the exit code.\<close>

definition run_anomaly_detector :: "env \<Rightarrow> db \<Rightarrow> int \<times> db" where
  "run_anomaly_detector e d =
     (case detect_and_quarantine e d of
        (None, d1) \<Rightarrow> (1, rollback_to d d1)
      | (Some qs, d1) \<Rightarrow> (0, d1))"

section \<open>The endpoint\<close>

record anomaly_config_update =
  au_auto_quarantine_enabled :: "bool option"
  au_pause_until :: "timestamp option"
  au_clear_pause :: bool
  au_threshold_multiplier :: "rat option"
  au_min_calls :: "int option"
  au_absolute_cold_start :: "int option"
  au_baseline_min_calls :: "int option"

text \<open>The bounds of the body's fields.\<close>

definition update_in_bounds :: "anomaly_config_update \<Rightarrow> bool" where
  "update_in_bounds b \<longleftrightarrow> (case au_threshold_multiplier b of None \<Rightarrow> True | Some x \<Rightarrow> 1 \<le> x) \<and>
     list_all (\<lambda>v. case v of None \<Rightarrow> True | Some n \<Rightarrow> 0 \<le> n)
       [au_min_calls b, au_absolute_cold_start b, au_baseline_min_calls b]"

definition changed_fields :: "(timestamp \<Rightarrow> string) \<Rightarrow> anomaly_config_update \<Rightarrow> (string \<times> json) list" where
  "changed_fields iso_text b =
     (case au_auto_quarantine_enabled b of None \<Rightarrow> [] | Some v \<Rightarrow> [(''auto_quarantine_enabled'', JBool v)]) @
     (if au_clear_pause b then [(''pause_until'', JNull)]
      else case au_pause_until b of None \<Rightarrow> [] | Some u \<Rightarrow> [(''pause_until'', JStr (iso_text u))]) @
     (case au_threshold_multiplier b of None \<Rightarrow> [] | Some v \<Rightarrow> [(''threshold_multiplier'', JNum v)]) @
     (case au_min_calls b of None \<Rightarrow> [] | Some v \<Rightarrow> [(''min_calls'', JInt v)]) @
     (case au_absolute_cold_start b of None \<Rightarrow> [] | Some v \<Rightarrow> [(''absolute_cold_start'', JInt v)]) @
     (case au_baseline_min_calls b of None \<Rightarrow> [] | Some v \<Rightarrow> [(''baseline_min_calls'', JInt v)])"

definition or_old :: "'a option \<Rightarrow> 'a \<Rightarrow> 'a" where
  "or_old v old = (case v of None \<Rightarrow> old | Some x \<Rightarrow> x)"

definition updated_config :: "timestamp \<Rightarrow> anomaly_config_update \<Rightarrow> anomaly_config \<Rightarrow> anomaly_config" where
  "updated_config t b c =
     \<lparr>an_auto_quarantine_enabled = or_old (au_auto_quarantine_enabled b) (an_auto_quarantine_enabled c),
      an_pause_until = (if au_clear_pause b then None
                        else case au_pause_until b of None \<Rightarrow> an_pause_until c | Some u \<Rightarrow> Some u),
      an_threshold_multiplier = or_old (au_threshold_multiplier b) (an_threshold_multiplier c),
      an_min_calls = or_old (au_min_calls b) (an_min_calls c),
      an_absolute_cold_start = or_old (au_absolute_cold_start b) (an_absolute_cold_start c),
      an_baseline_min_calls = or_old (au_baseline_min_calls b) (an_baseline_min_calls c),
      an_updated_at = t, an_updated_by = Some ''admin''\<rparr>"

definition update_anomaly_config ::
  "env \<Rightarrow> (timestamp \<Rightarrow> string) \<Rightarrow> anomaly_config_update \<Rightarrow> db \<Rightarrow> (http_error + anomaly_config) \<times> db" where
  "update_anomaly_config e iso_text b d =
     (if \<not> update_in_bounds b then (Inl (422, ''validation''), d)
      else case get_anomaly_config e d of
        (None, d1) \<Rightarrow> (Inl (500, ''internal''), rollback_to d d1)
      | (Some c, d1) \<Rightarrow>
          (if changed_fields iso_text b = [] then (Inl (422, ''invalid_anomaly_config''), rollback_to d d1)
           else (let c' = updated_config (now e) b c
                 in (Inr c', audit_record e anomaly_config_updated actor_admin None (Some ''anomaly_config'')
                       (Some ''1'') (changed_fields iso_text b) (d1\<lparr>anomaly_cfg := Some c'\<rparr>)))))"

section \<open>Bursts of upstream errors\<close>

record burst_decision =
  bd_failure_count :: nat
  bd_window_minutes :: int
  bd_latest_model :: "string option"

text \<open>The model of the last failed call since the start of the window; of several that started at the
  same instant the first row.\<close>

definition latest_failing_model :: "db \<Rightarrow> timestamp \<Rightarrow> string option" where
  "latest_failing_model d since =
     (case sort_key (\<lambda>r. - r_started_at r)
             (filter (\<lambda>r. r_outcome r = upstream_error \<and> since \<le> r_started_at r) (call_records d)) of
        [] \<Rightarrow> None
      | r # _ \<Rightarrow> r_model r)"

definition detect_upstream_burst :: "env \<Rightarrow> db \<Rightarrow> burst_decision option \<times> db" where
  "detect_upstream_burst e d =
     (let minutes = upstream_burst_window_minutes (cfg e);
          start = now e - seconds (60 * minutes);
          failures = length (filter (\<lambda>r. r_outcome r = upstream_error \<and> start \<le> r_started_at r \<and>
                       r_started_at r \<le> now e) (call_records d))
      in if failures < upstream_burst_threshold (cfg e) then (None, d)
         else if filter (\<lambda>a. au_event_type a = responses_upstream_error_burst \<and> start \<le> au_created_at a)
                   (audit_log d) \<noteq> [] then (None, d)
         else (let model = latest_failing_model d start
               in (Some \<lparr>bd_failure_count = failures, bd_window_minutes = minutes, bd_latest_model = model\<rparr>,
                   audit_record e responses_upstream_error_burst actor_system None (Some ''upstream'') model
                     [(''failure_count'', JInt (int failures)), (''window_minutes'', JInt minutes),
                      (''latest_model'', case model of None \<Rightarrow> JNull | Some m \<Rightarrow> JStr m)] d)))"

end
