(* ===== verification/Notifications.thy ===== *)
theory Notifications
  imports Sessions Samples "HOL-Library.AList" "HOL-Library.Product_Lexorder" "HOL-Library.List_Lexorder"
    "HOL-Library.Char_ord"
begin

text \<open>
  E-mail to the administrators: the configuration (\<open>services/notifications.py\<close>, \<open>api/admin_notifications.py\<close>),
  the notifier with its window per event type (\<open>services/notifier.py\<close>, \<open>notifier_email.py\<close>), the hook of
  the audit trail (\<open>services/notifier_hook.py\<close>) and the cleanup job.  The SMTP library is the argument
  \<open>smtp_send\<close>; the texts of mails and errors are arguments too.
\<close>

section \<open>The configuration\<close>

definition no_space_at :: "string \<Rightarrow> bool" where
  "no_space_at s = (s \<noteq> [] \<and> list_all (\<lambda>c. \<not> is_space c \<and> c \<noteq> CHR ''@'') s)"

text \<open>\<open>[^\s@]+@[^\s@]+\.[^\s@]+\<close>, up to a final line feed, which \<open>$\<close> lets pass.\<close>

definition email_form :: "string \<Rightarrow> bool" where
  "email_form s =
     (let user = takeWhile (\<lambda>c. c \<noteq> CHR ''@'') s; domain = drop (Suc (length user)) s
      in no_space_at user \<and> no_space_at domain \<and>
         list_ex (\<lambda>i. domain ! i = CHR ''.'') [1..<length domain - 1])"

definition valid_email :: "string \<Rightarrow> bool" where
  "valid_email s =
     (email_form s \<or> (s \<noteq> [] \<and> last s = CHR 10 \<and> email_form (butlast s)))"

definition normalize_smtp_password :: "string \<Rightarrow> string" where
  "normalize_smtp_password raw = filter (\<lambda>c. \<not> is_space c) raw"

definition default_sender_name :: string where
  "default_sender_name = ''AI API Manager''"

record smtp_input =
  si_host :: string
  si_port :: int
  si_username :: string
  si_password :: string
  si_sender_email :: string
  si_sender_name :: string
  si_recipients :: "string list"
  si_enabled :: bool

datatype notification_error = SmtpHost | SmtpPort | SmtpUsername | SenderEmail | Recipients | SmtpPassword

definition validate_smtp_input :: "smtp_input \<Rightarrow> notification_error option" where
  "validate_smtp_input i =
     (if strip (si_host i) = [] then Some SmtpHost
      else if si_port i < 1 \<or> 65535 < si_port i then Some SmtpPort
      else if strip (si_username i) = [] then Some SmtpUsername
      else if \<not> valid_email (si_sender_email i) then Some SenderEmail
      else if \<not> list_all valid_email (si_recipients i) then Some Recipients
      else None)"

definition save_notification_config ::
  "env \<Rightarrow> smtp_input \<Rightarrow> string option \<Rightarrow> db \<Rightarrow> (notification_error + notification_config) \<times> db" where
  "save_notification_config e i created_by d =
     (case validate_smtp_input i of
        Some err \<Rightarrow> (Inl err, d)
      | None \<Rightarrow>
          (let password = normalize_smtp_password (si_password i);
               sender = (if si_sender_name i = [] then default_sender_name else si_sender_name i);
               (encrypted, d1) = (if password = [] then ('''', d) else (encrypt e (fresh d) password, tick d))
           in case notif_cfg d of
             None \<Rightarrow>
               (if password = [] then (Inl SmtpPassword, d)
                else (let c = \<lparr>nc_smtp_host = si_host i, nc_smtp_port = si_port i,
                               nc_smtp_username = si_username i, nc_smtp_password_encrypted = encrypted,
                               nc_sender_email = si_sender_email i, nc_sender_name = sender,
                               nc_recipients = si_recipients i, nc_enabled = si_enabled i,
                               nc_status = n_pending_test, nc_last_test_at = None,
                               nc_last_test_outcome = None, nc_last_test_error = None,
                               nc_created_at = now e, nc_updated_at = now e,
                               nc_created_by = (if nonempty_text created_by then the created_by
                                                else ''bootstrap-admin'')\<rparr>
                      in (Inr c, d1\<lparr>notif_cfg := Some c\<rparr>)))
           | Some old \<Rightarrow>
               (let stored = (if password = [] then nc_smtp_password_encrypted old else encrypted);
                    changed = (nc_smtp_host old \<noteq> si_host i \<or> nc_smtp_port old \<noteq> si_port i \<or>
                               nc_smtp_username old \<noteq> si_username i \<or> nc_smtp_password_encrypted old \<noteq> stored);
                    c = old\<lparr>nc_smtp_host := si_host i, nc_smtp_port := si_port i,
                            nc_smtp_username := si_username i, nc_smtp_password_encrypted := stored,
                            nc_sender_email := si_sender_email i, nc_sender_name := sender,
                            nc_recipients := si_recipients i, nc_enabled := si_enabled i,
                            nc_updated_at := now e\<rparr>;
                    c' = (if changed then c\<lparr>nc_status := n_pending_test, nc_last_test_at := None,
                                           nc_last_test_outcome := None, nc_last_test_error := None\<rparr>
                          else c)
                in (Inr c', d1\<lparr>notif_cfg := Some c'\<rparr>))))"

definition delete_notification_config :: "db \<Rightarrow> bool \<times> db" where
  "delete_notification_config d = (notif_cfg d \<noteq> None, d\<lparr>notif_cfg := None\<rparr>)"

text \<open>The password is shown as the start of its digest, or not at all if it cannot be decrypted.\<close>

definition shown_fingerprint :: "env \<Rightarrow> notification_config \<Rightarrow> string option" where
  "shown_fingerprint e c = map_option (\<lambda>p. take 12 (sha256_hex e p)) (decrypt e (nc_smtp_password_encrypted c))"

section \<open>Sending\<close>

record notification_event =
  ne_event_type :: string
  ne_occurred_at :: timestamp
  ne_audit_event_id :: "string option"
  ne_target_type :: "string option"
  ne_target_id :: "string option"
  ne_details :: "(string \<times> json) list"

record email_message =
  em_sender :: "string \<times> string"
  em_recipients :: "string list"
  em_subject :: string
  em_body :: string

text \<open>What the SMTP library raises; \<open>SMTPConnectError\<close> stands for a failed connection, a lost one and an
  \<open>OSError\<close>, with its code if it has one.  Otherwise it returns the recipients it refused, each with code
  and text, and whether the server said something.\<close>

datatype smtp_exception =
    SMTPAuthenticationError int | SMTPSenderRefused int | SMTPRecipientsRefused
  | SMTPConnectError "int option" | OtherSmtpError

record mailer =
  smtp_send :: "email_message \<Rightarrow> string \<Rightarrow> int \<Rightarrow> string \<Rightarrow> string \<Rightarrow>
    (smtp_exception \<times> string) + ((string \<times> int \<times> string) list \<times> bool)"
  event_mail :: "notification_event \<Rightarrow> string \<times> string"
  test_mail :: "string \<times> string"
  refusal_text :: "int \<Rightarrow> string \<Rightarrow> string"
  failure_text :: "notification_outcome \<Rightarrow> string \<Rightarrow> string"
  all_refused_text :: "(string \<times> string) list \<Rightarrow> string"
  decrypt_text :: string
  latency :: int

definition classify_smtp_exception :: "smtp_exception \<Rightarrow> bool \<Rightarrow> notification_outcome \<times> int option" where
  "classify_smtp_exception x is_test =
     (case x of
        SMTPAuthenticationError c \<Rightarrow> (if is_test then n_test_failed_auth else n_send_failed_auth, Some c)
      | SMTPSenderRefused c \<Rightarrow> (if is_test then n_test_failed_sender else n_send_failed_sender, Some c)
      | SMTPRecipientsRefused \<Rightarrow>
          (if is_test then n_test_failed_recipient else n_send_failed_all_recipients, None)
      | SMTPConnectError c \<Rightarrow> (if is_test then n_test_failed_connect else n_send_failed_connect, c)
      | OtherSmtpError \<Rightarrow> (if is_test then n_test_failed_unknown else n_send_failed_unknown, None))"

text \<open>The row of one attempt; \<open>persist\<close> returns its id.\<close>

definition persist ::
  "env \<Rightarrow> mailer \<Rightarrow> string \<Rightarrow> notification_outcome \<Rightarrow> string list \<Rightarrow> string \<Rightarrow> string \<Rightarrow> (string \<times> string) list
     \<Rightarrow> int option \<Rightarrow> string option \<Rightarrow> string option \<Rightarrow> string option \<Rightarrow> db \<Rightarrow> string \<times> db" where
  "persist e m event_type out recipients subject body per_recipient code err audit_id bucket_id d =
     (let rid = ulid e (fresh d)
      in (rid, tick (notif_records_update (\<lambda>rs. rs @
        [\<lparr>nr_id = rid, nr_event_type = event_type, nr_audit_event_id = audit_id, nr_dedup_bucket_id = bucket_id,
          nr_outcome = out, nr_recipients = recipients, nr_per_recipient_status = per_recipient,
          nr_subject = take 256 subject, nr_body_preview = take 500 body, nr_smtp_response_code = code,
          nr_error_message = (if nonempty_text err then Some (take 5000 (the err)) else None),
          nr_latency_ms = Some (latency m), nr_created_at = now e\<rparr>]) d)))"

definition dedup_window :: int where
  "dedup_window = seconds (5 * 60)"

definition active_bucket :: "env \<Rightarrow> string \<Rightarrow> db \<Rightarrow> dedup_bucket option" where
  "active_bucket e event_type d =
     (case sort_key (\<lambda>b. - nb_window_start b)
             (filter (\<lambda>b. nb_event_type b = event_type \<and> now e < nb_window_end b) (dedup_buckets d)) of
        [] \<Rightarrow> None
      | b # _ \<Rightarrow> Some b)"

definition set_bucket :: "string \<Rightarrow> (dedup_bucket \<Rightarrow> dedup_bucket) \<Rightarrow> db \<Rightarrow> db" where
  "set_bucket bid f d = dedup_buckets_update (update_where (\<lambda>b. nb_id b = bid) f) d"

text \<open>\<open>dict.fromkeys\<close>, and the outcome of a send that did not raise: sent if at least one recipient was
  accepted.\<close>

definition for_all :: "'v \<Rightarrow> string list \<Rightarrow> (string \<times> 'v) list" where
  "for_all v rs = map (\<lambda>r. (r, v)) (dedupe rs)"

definition refused_status ::
  "mailer \<Rightarrow> string list \<Rightarrow> (string \<times> int \<times> string) list \<Rightarrow> (string \<times> string) list" where
  "refused_status m recipients errors =
     fold (\<lambda>(r, c, t) st. AList.update r (refusal_text m c t) st) errors (for_all ''ok'' recipients)"

definition send_outcome ::
  "mailer \<Rightarrow> string list \<Rightarrow> (smtp_exception \<times> string) + ((string \<times> int \<times> string) list \<times> bool)
     \<Rightarrow> notification_outcome \<times> int option \<times> (string \<times> string) list \<times> string option" where
  "send_outcome m recipients answer =
     (case answer of
        Inl (x, text) \<Rightarrow>
          (let (out, code) = classify_smtp_exception x False
           in (out, code, for_all (take 200 (failure_text m out text)) recipients, Some (take 5000 text)))
      | Inr (errors, said) \<Rightarrow>
          (let per_recipient = refused_status m recipients errors
           in if errors = [] then (n_sent, if said then Some 250 else None, per_recipient, None)
              else if length errors = length recipients
              then (n_send_failed_all_recipients, Some (fst (snd (hd errors))), per_recipient,
                    Some (all_refused_text m per_recipient))
              else (n_sent, Some 250, per_recipient, None)))"

definition skip_notification ::
  "env \<Rightarrow> mailer \<Rightarrow> notification_event \<Rightarrow> notification_outcome \<Rightarrow> string \<Rightarrow> string option \<Rightarrow> db
     \<Rightarrow> notification_outcome \<times> db" where
  "skip_notification e m ev out subject err d =
     (out, snd (persist e m (ne_event_type ev) out [] subject [] [] None err (ne_audit_event_id ev) None d))"

definition open_bucket :: "env \<Rightarrow> string \<Rightarrow> db \<Rightarrow> string \<times> db" where
  "open_bucket e event_type d =
     (let bid = ulid e (fresh d)
      in (bid, tick (dedup_buckets_update (\<lambda>bs. bs @
           [\<lparr>nb_id = bid, nb_event_type = event_type, nb_window_start = now e,
             nb_window_end = now e + dedup_window, nb_event_count = 1, nb_primary_record_id = None,
             nb_last_event_at = now e\<rparr>]) d)))"

definition send_notification ::
  "env \<Rightarrow> mailer \<Rightarrow> notification_event \<Rightarrow> notification_config \<Rightarrow> string \<Rightarrow> db \<Rightarrow> notification_outcome \<times> db" where
  "send_notification e m ev c password d =
     (let (bid, d1) = open_bucket e (ne_event_type ev) d;
          (subject, body) = event_mail m ev;
          msg = \<lparr>em_sender = (nc_sender_name c, nc_sender_email c), em_recipients = nc_recipients c,
                 em_subject = subject, em_body = body\<rparr>;
          answer = smtp_send m msg (nc_smtp_host c) (nc_smtp_port c) (nc_smtp_username c) password;
          (out, code, per_recipient, err) = send_outcome m (nc_recipients c) answer;
          (rid, d2) = persist e m (ne_event_type ev) out (nc_recipients c) subject body per_recipient code err
                        (ne_audit_event_id ev) (Some bid) d1
      in (out, set_bucket bid (\<lambda>b. b\<lparr>nb_primary_record_id := Some rid\<rparr>) d2))"

definition notify ::
  "env \<Rightarrow> mailer \<Rightarrow> notification_event \<Rightarrow> db \<Rightarrow> notification_outcome \<times> db" where
  "notify e m ev d =
     (case notif_cfg d of
        None \<Rightarrow> skip_notification e m ev n_skipped_disabled ''(skipped: notifications disabled)'' None d
      | Some c \<Rightarrow>
          if \<not> nc_enabled c
          then skip_notification e m ev n_skipped_disabled ''(skipped: notifications disabled)'' None d
          else if nc_status c = n_credentials_invalid
          then skip_notification e m ev n_skipped_disabled ''(skipped: credentials invalid)''
                 (Some ''config.status=credentials_invalid'') d
          else if nc_recipients c = []
          then skip_notification e m ev n_skipped_no_recipients ''(skipped: no recipients)'' None d
          else (case decrypt e (nc_smtp_password_encrypted c) of
             None \<Rightarrow>
               skip_notification e m ev n_skipped_disabled ''(skipped: decrypt failed)'' (Some (decrypt_text m))
                 (d\<lparr>notif_cfg := Some (c\<lparr>nc_status := n_credentials_invalid\<rparr>)\<rparr>)
           | Some password \<Rightarrow>
               (case active_bucket e (ne_event_type ev) d of
                  Some b \<Rightarrow>
                    (let d1 = set_bucket (nb_id b) (\<lambda>b. b\<lparr>nb_event_count := Suc (nb_event_count b),
                                nb_last_event_at := now e\<rparr>) d
                     in (n_suppressed,
                         snd (persist e m (ne_event_type ev) n_suppressed [] ''(suppressed: within dedup window)''
                                [] [] None None (ne_audit_event_id ev) (Some (nb_id b)) d1)))
                | None \<Rightarrow> send_notification e m ev c password d)))"

text \<open>The test mail goes to the given address only, and its outcome sets the status.  \<open>None\<close> is the
  \<open>ValueError\<close> without a configuration.\<close>

definition test_outcome ::
  "mailer \<Rightarrow> string \<Rightarrow> (smtp_exception \<times> string) + ((string \<times> int \<times> string) list \<times> bool)
     \<Rightarrow> notification_outcome \<times> int option \<times> (string \<times> string) list \<times> string option" where
  "test_outcome m to_addr answer =
     (case answer of
        Inl (x, text) \<Rightarrow>
          (let (out, code) = classify_smtp_exception x True
           in (out, code, [(to_addr, take 200 (failure_text m out text))], Some (take 500 text)))
      | Inr (errors, said) \<Rightarrow>
          if errors \<noteq> []
          then (let per_recipient = map (\<lambda>(r, c, t). (r, refusal_text m c t)) errors
                in (n_test_failed_recipient, Some (fst (snd (hd errors))), per_recipient,
                    Some (all_refused_text m per_recipient)))
          else (n_test_sent, if said then Some 250 else None, [(to_addr, ''ok'')], None))"

definition test_send ::
  "env \<Rightarrow> mailer \<Rightarrow> string \<Rightarrow> db \<Rightarrow> (notification_outcome \<times> int option) option \<times> db" where
  "test_send e m to_addr d =
     (case notif_cfg d of
        None \<Rightarrow> (None, d)
      | Some c \<Rightarrow>
          (case decrypt e (nc_smtp_password_encrypted c) of
             None \<Rightarrow>
               (Some (n_test_failed_unknown, None),
                snd (persist e m ''test_send'' n_test_failed_unknown [to_addr] (fst (test_mail m))
                  ''(decryption failed)'' [(to_addr, decrypt_text m)] None (Some (decrypt_text m)) None None
                  (d\<lparr>notif_cfg := Some (c\<lparr>nc_status := n_credentials_invalid\<rparr>)\<rparr>)))
           | Some password \<Rightarrow>
               (let msg = \<lparr>em_sender = (nc_sender_name c, nc_sender_email c), em_recipients = [to_addr],
                           em_subject = fst (test_mail m), em_body = snd (test_mail m)\<rparr>;
                    answer = smtp_send m msg (nc_smtp_host c) (nc_smtp_port c) (nc_smtp_username c) password;
                    (out, code, per_recipient, err) = test_outcome m to_addr answer;
                    st = (if out = n_test_sent then n_verified
                          else if out = n_test_failed_auth then n_credentials_invalid else nc_status c);
                    c' = c\<lparr>nc_status := st, nc_last_test_at := Some (now e), nc_last_test_outcome := Some out,
                           nc_last_test_error := err\<rparr>
                in (Some (out, code),
                    snd (persist e m ''test_send'' out [to_addr] (fst (test_mail m)) (snd (test_mail m))
                      per_recipient code err None None (d\<lparr>notif_cfg := Some c'\<rparr>))))))"

section \<open>The hook of the audit trail\<close>

definition default_notify_types :: "string list" where
  "default_notify_types =
     [''allocation_quarantined'', ''responses_upstream_error_burst'', ''provider_credential_auth_failed'']"

definition effective_event_types :: "env \<Rightarrow> string list" where
  "effective_event_types e =
     (let o' = notify_event_types_override (cfg e) in if o' \<noteq> [] then o' else default_notify_types)"

text \<open>In a session of its own, which is dropped if the notifier raises (which it does not here).\<close>

definition fire :: "env \<Rightarrow> mailer \<Rightarrow> notification_event \<Rightarrow> db \<Rightarrow> db" where
  "fire e m ev d =
     (if ne_event_type ev \<notin> set (effective_event_types e) then d else snd (notify e m ev d))"

section \<open>History and cleanup\<close>

definition retention :: int where
  "retention = seconds (30 * 86400)"

definition cleanup_notifications :: "env \<Rightarrow> db \<Rightarrow> (nat \<times> nat) \<times> db" where
  "cleanup_notifications e d =
     (let cutoff = now e - retention;
          old_r = filter (\<lambda>r. nr_created_at r < cutoff) (notif_records d);
          old_b = filter (\<lambda>b. nb_window_end b < cutoff) (dedup_buckets d);
          unlink_r = (\<lambda>r. if \<exists>b \<in> set old_b. nr_dedup_bucket_id r = Some (nb_id b)
                          then r\<lparr>nr_dedup_bucket_id := None\<rparr> else r);
          unlink_b = (\<lambda>b. if \<exists>r \<in> set old_r. nb_primary_record_id b = Some (nr_id r)
                          then b\<lparr>nb_primary_record_id := None\<rparr> else b)
      in ((length old_r, length old_b),
          d\<lparr>notif_records := map unlink_r (filter (\<lambda>r. cutoff \<le> nr_created_at r) (notif_records d)),
            dedup_buckets := map unlink_b (filter (\<lambda>b. cutoff \<le> nb_window_end b) (dedup_buckets d))\<rparr>))"

text \<open>One page of the history, newest first.  The cursor is the time and id of the last row shown, written
  by \<open>encode\<close> and read by \<open>decode\<close>, which is \<open>None\<close> for a text that is no cursor.\<close>

definition notification_key :: "notification_record \<Rightarrow> timestamp \<times> string" where
  "notification_key r = (nr_created_at r, nr_id r)"

definition history_selects ::
  "(string \<Rightarrow> (timestamp \<times> string) option) \<Rightarrow> string option \<Rightarrow> string option \<Rightarrow> notification_outcome option
     \<Rightarrow> notification_record \<Rightarrow> bool" where
  "history_selects decode cursor event_type out r =
     ((\<not> nonempty_text event_type \<or> event_type = Some (nr_event_type r)) \<and>
      (out = None \<or> out = Some (nr_outcome r)) \<and>
      (case (if nonempty_text cursor then decode (the cursor) else None) of
         None \<Rightarrow> True
       | Some k \<Rightarrow> notification_key r < k))"

definition shown_count :: "db \<Rightarrow> notification_record \<Rightarrow> nat option" where
  "shown_count d r =
     (case nr_dedup_bucket_id r of
        None \<Rightarrow> None
      | Some bid \<Rightarrow>
          (case find (\<lambda>b. nb_id b = bid) (dedup_buckets d) of
             None \<Rightarrow> None
           | Some b \<Rightarrow> if nb_primary_record_id b = Some (nr_id r) then Some (nb_event_count b) else None))"

definition list_notifications ::
  "(timestamp \<times> string \<Rightarrow> string) \<Rightarrow> (string \<Rightarrow> (timestamp \<times> string) option) \<Rightarrow> nat \<Rightarrow> string option \<Rightarrow> string option
     \<Rightarrow> notification_outcome option \<Rightarrow> db \<Rightarrow> (notification_record \<times> nat option) list \<times> string option" where
  "list_notifications encode decode limit cursor event_type out d =
     (let rows = take (limit + 1) (rev (sort_key notification_key
                   (filter (history_selects decode cursor event_type out) (notif_records d))));
          page = take limit rows
      in (map (\<lambda>r. (r, shown_count d r)) page,
          if limit < length rows \<and> page \<noteq> [] then Some (encode (notification_key (last page))) else None))"

end
