(* ===== verification/AlertTheorems.thy ===== *)
theory AlertTheorems
  imports Anomaly Notifications Window AllocationTheorems Preflight OneShot
begin

text \<open>
  The properties of the detectors and of the notifier: which allocations a scan quarantines and what that
  does to their keys, that a burst is reported once per window, that administrators get at most one mail
  per event type in five minutes, and what becomes of an event that is not mailed.
\<close>

section \<open>Quarantine\<close>

text \<open>The allocations a scan at time \<open>t\<close> takes out of service.\<close>

definition runaway :: "anomaly_config \<Rightarrow> timestamp \<Rightarrow> db \<Rightarrow> allocation \<Rightarrow> bool" where
  "runaway c t d a \<longleftrightarrow> effective_enforcing c t \<and> a_status a = active \<and> \<not> a_is_service a \<and>
     (let hour = count_calls d (a_id a) (t - seconds 3600) t;
          day = count_calls d (a_id a) (t - seconds 86400) (t - seconds 3600)
      in an_min_calls c \<le> int hour \<and>
         (if int day < an_baseline_min_calls c then an_absolute_cold_start c \<le> int hour
          else float_round (py_truediv (int day) 23 * an_threshold_multiplier c) \<le> of_nat hour))"

definition mark :: "(allocation \<Rightarrow> bool) \<Rightarrow> allocation \<Rightarrow> allocation" where
  "mark p a = (if p a then a\<lparr>a_status := quarantined\<rparr> else a)"

lemma mark_simps [simp]: "a_id (mark p a) = a_id a" "a_resource_model (mark p a) = a_resource_model a"
  by (simp_all add: mark_def)

lemma evaluate_cong: "call_records d' = call_records d \<Longrightarrow> evaluate_allocation t c aid d' = evaluate_allocation t c aid d"
  by (simp add: evaluate_allocation_def count_calls_def)

lemma quarantine_frame [simp]:
  "call_records (quarantine e q d) = call_records d" "credentials (quarantine e q d) = credentials d"
  "credential_allocations (quarantine e q d) = credential_allocations d" "anomaly_cfg (quarantine e q d) = anomaly_cfg d"
  "allocations (quarantine e q d) =
     update_where (\<lambda>a. a_id a = qd_allocation_id q) (\<lambda>a. a\<lparr>a_status := quarantined\<rparr>) (allocations d)"
  by (simp_all add: quarantine_def)

lemma evaluate_quarantine [simp]:
  "evaluate_allocation t c aid (quarantine e q d) = evaluate_allocation t c aid d"
  by (rule evaluate_cong) simp

lemma evaluate_id: "evaluate_allocation t c aid d = Some q \<Longrightarrow> qd_allocation_id q = aid"
  by (auto simp: evaluate_allocation_def Let_def split: if_splits)

lemma scan_loop_effect:
  assumes "scan_loop e c enforcing as d = (n, qs, d')"
  shows "call_records d' = call_records d \<and> credentials d' = credentials d \<and>
    credential_allocations d' = credential_allocations d \<and>
    allocations d' = map (mark (\<lambda>b. enforcing \<and> (\<exists>a \<in> set as. a_id a = a_id b \<and>
      evaluate_allocation (now e) c (a_id a) d \<noteq> None))) (allocations d)"
  using assms
proof (induction "as" arbitrary: n qs d d')
  case Nil
  then show ?case by (simp add: mark_def)
next
  case (Cons a "as")
  show ?case
  proof (cases "evaluate_allocation (now e) c (a_id a) d")
    case None
    with Cons.prems have run: "scan_loop e c enforcing as d = (n, qs, d')" by simp
    from Cons.IH [OF this] None show ?thesis
      by (auto simp: mark_def intro!: map_cong)
  next
    case (Some q)
    have q: "qd_allocation_id q = a_id a" by (rule evaluate_id [OF Some])
    let ?d = "if enforcing then quarantine e q d else d"
    obtain n1 qs1 d1 where run: "scan_loop e c enforcing as ?d = (n1, qs1, d1)" by (metis prod_cases3)
    have d1: "d1 = d'" using Cons.prems Some run by (auto split: if_splits)
    from Cons.IH [OF run] show ?thesis
      by (cases enforcing) (auto simp: d1 q Some mark_def update_where_def)
  qed
qed

lemma get_anomaly_frame:
  "get_anomaly_config e d = (co, d1) \<Longrightarrow> call_records d1 = call_records d \<and> credentials d1 = credentials d \<and>
     credential_allocations d1 = credential_allocations d \<and> allocations d1 = allocations d \<and>
     (case co of None \<Rightarrow> anomaly_cfg d = None | Some c \<Rightarrow> anomaly_cfg d1 = Some c)"
  by (auto simp: get_anomaly_config_def Let_def split: option.splits if_splits)

lemma detect_effect:
  assumes run: "detect_and_quarantine e d = (Some qs, d')" and ids: "distinct (map a_id (allocations d))"
  obtains c where "fst (get_anomaly_config e d) = Some c"
    "allocations d' = map (mark (runaway c (now e) d)) (allocations d)"
    "call_records d' = call_records d" "credentials d' = credentials d"
    "credential_allocations d' = credential_allocations d"
proof -
  from run obtain c d1 n d2 where c: "get_anomaly_config e d = (Some c, d1)"
    and loop: "scan_loop e c (effective_enforcing c (now e)) (scanned d1) d1 = (n, qs, d2)"
    and d': "\<exists>ds. d' = audit_record e anomaly_detector_run actor_system None None None ds d2"
    by (auto simp: detect_and_quarantine_def Let_def split: option.splits prod.splits)
  note frame = get_anomaly_frame [OF c]
  have "evaluate_allocation (now e) c i d1 = evaluate_allocation (now e) c i d" for i
    by (rule evaluate_cong) (simp add: frame)
  then have flag: "(effective_enforcing c (now e) \<and> (\<exists>a \<in> set (scanned d1). a_id a = a_id b \<and>
      evaluate_allocation (now e) c (a_id a) d1 \<noteq> None)) = runaway c (now e) d b" if b: "b \<in> set (allocations d)" for b
  proof -
    have "(\<exists>a \<in> set (scanned d1). a_id a = a_id b \<and> evaluate_allocation (now e) c (a_id a) d \<noteq> None) \<longleftrightarrow>
        b \<in> set (scanned d1) \<and> evaluate_allocation (now e) c (a_id b) d \<noteq> None"
      using b ids frame distinct_map_eqD [of a_id "allocations d"] unfolding scanned_def by auto
    with \<open>\<And>i. evaluate_allocation (now e) c i d1 = evaluate_allocation (now e) c i d\<close> b frame show ?thesis
      by (auto simp: runaway_def scanned_def evaluate_allocation_def Let_def not_less split: if_splits)
  qed
  from scan_loop_effect [OF loop] d' frame flag show thesis
    by (intro that [of c]) (auto simp: c mark_def)
qed

text \<open>Marking allocations does not change what a key resolves to, only its status.\<close>

lemma resolve_marked:
  assumes rows: "allocations d' = map (mark p) (allocations d)" "credentials d' = credentials d"
    "credential_allocations d' = credential_allocations d"
  shows "resolve_bearer e token model d' = map_option (mark p) (resolve_bearer e token model d)"
proof -
  have join: "scope_join cid d' = map (\<lambda>(l, a). (l, mark p a)) (scope_join cid d)" for cid
    by (simp add: scope_join_def rows filter_map map_concat o_def)
  have allocs: "scope_allocations cid d' = map (mark p) (scope_allocations cid d)" for cid
    by (simp add: scope_allocations_def join case_prod_beta)
  have exact: "map_option snd (find (\<lambda>(l, a). ca_resource_model l = model) (scope_join cid d')) =
      map_option (mark p) (map_option snd (find (\<lambda>(l, a). ca_resource_model l = model) (scope_join cid d)))" for cid
  proof -
    have "map_option snd (find (\<lambda>(l, a). ca_resource_model l = model) (map (\<lambda>(l, a). (l, mark p a)) xs)) =
        map_option (mark p) (map_option snd (find (\<lambda>(l, a). ca_resource_model l = model) xs))" for xs
      by (induction xs) auto
    then show ?thesis by (simp add: join)
  qed
  have "resolve_scope_allocation c model d' = map_option (mark p) (resolve_scope_allocation c model d)" for c
  proof -
    have one: "length xs = Suc 0 \<Longrightarrow> hd (map (mark p) xs) = mark p (hd xs)" for xs by (cases xs) auto
    show ?thesis by (auto simp: resolve_scope_allocation_def Let_def allocs exact filter_map o_def one)
  qed
  then show ?thesis
    by (simp add: resolve_bearer_key key_of_def rows(2) split: option.split)
qed

text \<open>C25: A scan takes out of service exactly the active allocations that are no services and whose last hour
  is out of proportion to their day, and only while enforcement is on; nothing else about allocations,
  keys and records changes.  From then on every call with a key that resolves to one of them is refused,
  and every other key resolves as before.\<close>

theorem quarantine_effect:
  assumes "distinct (map a_id (allocations d))" and "detect_and_quarantine e d = (Some qs, d')"
  shows "\<exists>c. fst (get_anomaly_config e d) = Some c \<and>
    allocations d' = map (\<lambda>a. if runaway c (now e) d a then a\<lparr>a_status := quarantined\<rparr> else a) (allocations d) \<and>
    credentials d' = credentials d \<and> call_records d' = call_records d \<and>
    (\<forall>tok model a. resolve_bearer e tok model d = Some a \<longrightarrow>
       (if runaway c (now e) d a
        then (\<exists>code b. fst (run_preflight (at_time e t) tok model d') = Inr (PreflightRejection code 403 (Some b)))
        else resolve_bearer e tok model d' = Some a))"
proof -
  from detect_effect [OF assms(2,1)] obtain c where c: "fst (get_anomaly_config e d) = Some c"
    and rows: "allocations d' = map (mark (runaway c (now e) d)) (allocations d)"
      "call_records d' = call_records d" "credentials d' = credentials d"
      "credential_allocations d' = credential_allocations d" by blast
  have res: "resolve_bearer e tok model d' = map_option (mark (runaway c (now e) d)) (resolve_bearer e tok model d)"
    for tok model by (rule resolve_marked [OF rows(1,3,4)])
  have refused: "\<exists>code b. fst (run_preflight (at_time e t) tok model d') = Inr (PreflightRejection code 403 (Some b))"
    if a: "resolve_bearer e tok model d = Some a" "runaway c (now e) d a" for tok model a
  proof -
    have "resolve_bearer (at_time e t) tok model d' = Some (a\<lparr>a_status := quarantined\<rparr>)"
      using res [of tok model] a by (simp add: mark_def)
    then obtain k d1 where k: "lookup_credential_by_token (at_time e t) tok d' = (Some k, d1)"
        "resolve_scope_allocation k model d1 = Some (a\<lparr>a_status := quarantined\<rparr>)"
      by (auto simp: resolve_bearer_def split: option.splits prod.splits)
    have "allocation_refusal (at_time e t) (a\<lparr>a_status := quarantined\<rparr>) d1 \<noteq> None"
      by (simp add: allocation_refusal_def Let_def)
    with k show ?thesis by (auto simp: run_preflight_def)
  qed
  have "allocations d' = map (\<lambda>a. if runaway c (now e) d a then a\<lparr>a_status := quarantined\<rparr> else a) (allocations d)"
    by (simp add: rows(1) mark_def)
  moreover have "resolve_bearer e tok model d' = Some a" if "resolve_bearer e tok model d = Some a" "\<not> runaway c (now e) d a"
    for tok model a using res [of tok model] that by (simp add: mark_def)
  ultimately show ?thesis
    using c rows(2,3) refused by (intro exI [of _ c]) simp
qed

section \<open>Bursts\<close>

definition burst_times :: "db \<Rightarrow> timestamp list" where
  "burst_times d = map au_created_at (filter (\<lambda>a. au_event_type a = responses_upstream_error_burst) (audit_log d))"

text \<open>One run of the job, or anything else that writes no burst event.\<close>

inductive burst_step :: "env \<Rightarrow> timestamp \<Rightarrow> db \<Rightarrow> db \<Rightarrow> bool" for e t d d' where
  detects: "detect_upstream_burst (at_time e t) d = (b, d') \<Longrightarrow> burst_step e t d d'"
| others: "burst_times d' = burst_times d \<Longrightarrow> burst_step e t d d'"

interpretation bursts: windowed burst_times "burst_step e" "seconds (60 * upstream_burst_window_minutes (cfg e))" 1 for e
proof
  fix t d d' assume "burst_step e t d d'"
  then show "(\<exists>p. burst_times d' = filter p (burst_times d)) \<or> (burst_times d' = burst_times d @ [t] \<and>
      length (filter (\<lambda>s. t - seconds (60 * upstream_burst_window_minutes (cfg e)) \<le> s) (burst_times d)) < 1)"
  proof cases
    case (detects b)
    show ?thesis
    proof (cases b)
      case None
      with detects have "d' = d" by (auto simp: detect_upstream_burst_def Let_def split: if_splits)
      then have "burst_times d' = filter (\<lambda>s. True) (burst_times d)" by simp
      then show ?thesis by blast
    next
      case (Some x)
      with detects show ?thesis
        by (auto simp: detect_upstream_burst_def Let_def burst_times_def audit_record_def audit_record_full_def
            filter_map filter_empty_conv split: if_splits)
    qed
  next
    case others
    then have "burst_times d' = filter (\<lambda>s. True) (burst_times d)" by simp
    then show ?thesis by blast
  qed
qed

section \<open>Mails\<close>

text \<open>A mail was attempted: the outcome says that the server was asked.\<close>

definition attempted :: "notification_outcome \<Rightarrow> bool" where
  "attempted x \<longleftrightarrow> x \<in> {n_sent, n_send_failed_auth, n_send_failed_connect, n_send_failed_sender,
     n_send_failed_all_recipients, n_send_failed_unknown}"

definition mail_times :: "string \<Rightarrow> db \<Rightarrow> timestamp list" where
  "mail_times et d = map nr_created_at (filter (\<lambda>r. nr_event_type r = et \<and> attempted (nr_outcome r)) (notif_records d))"

text \<open>Every attempt has its window among the buckets.\<close>

definition windows :: "db \<Rightarrow> (string \<times> timestamp) list" where
  "windows d = map (\<lambda>b. (nb_event_type b, nb_window_end b)) (dedup_buckets d)"

definition mails_wf :: "db \<Rightarrow> bool" where
  "mails_wf d \<longleftrightarrow> (\<forall>r \<in> set (notif_records d). attempted (nr_outcome r) \<longrightarrow>
     (nr_event_type r, nr_created_at r + dedup_window) \<in> set (windows d))"

inductive mail_step :: "env \<Rightarrow> timestamp \<Rightarrow> db \<Rightarrow> db \<Rightarrow> bool" for e t d d' where
  fires: "d' = fire (at_time e t) m ev d \<Longrightarrow> mail_step e t d d'"
| tests: "test_send (at_time e t) m to_addr d = (r, d') \<Longrightarrow> mail_step e t d d'"
| cleans: "cleanup_notifications (at_time e t) d = (n, d') \<Longrightarrow> mail_step e t d d'"
| others: "notif_records d' = notif_records d \<Longrightarrow> dedup_buckets d' = dedup_buckets d \<Longrightarrow> mail_step e t d d'"

lemma send_attempted: "attempted (fst (send_outcome m rs answer))"
  by (auto simp: send_outcome_def attempted_def classify_smtp_exception_def Let_def
      split: sum.splits prod.splits smtp_exception.splits)

lemma test_not_attempted: "\<not> attempted (fst (test_outcome m to_addr answer))"
  by (auto simp: test_outcome_def attempted_def classify_smtp_exception_def Let_def
      split: sum.splits prod.splits smtp_exception.splits)

lemma sort_key_Nil: "sort_key f xs = [] \<longleftrightarrow> xs = []"
  by (metis length_0_conv length_sort)

lemma active_bucket_None:
  "active_bucket e et d = None \<longleftrightarrow> (\<forall>u. (et, u) \<in> set (windows d) \<longrightarrow> u \<le> now e)"
proof -
  have "active_bucket e et d = None \<longleftrightarrow>
      sort_key (\<lambda>b. - nb_window_start b) (filter (\<lambda>b. nb_event_type b = et \<and> now e < nb_window_end b) (dedup_buckets d)) = []"
    by (auto simp: active_bucket_def split: list.splits)
  also have "\<dots> \<longleftrightarrow> set (filter (\<lambda>b. nb_event_type b = et \<and> now e < nb_window_end b) (dedup_buckets d)) = {}"
    by (simp only: set_empty sort_key_Nil)
  finally show ?thesis by (auto simp: windows_def not_less)
qed

text \<open>The channel is usable: configured, enabled, its password readable, somebody to write to.\<close>

definition mail_ready :: "env \<Rightarrow> db \<Rightarrow> bool" where
  "mail_ready e d \<longleftrightarrow> (\<exists>c. notif_cfg d = Some c \<and> nc_enabled c \<and> nc_status c \<noteq> n_credentials_invalid \<and>
     nc_recipients c \<noteq> [] \<and> decrypt e (nc_smtp_password_encrypted c) \<noteq> None)"

lemma persist_frame [simp]:
  "dedup_buckets (snd (persist e m et out rs subject body per code err aid bid d)) = dedup_buckets d"
  "notif_records (snd (persist e m et out rs subject body per code err aid bid d)) = notif_records d @
     [\<lparr>nr_id = ulid e (fresh d), nr_event_type = et, nr_audit_event_id = aid, nr_dedup_bucket_id = bid,
       nr_outcome = out, nr_recipients = rs, nr_per_recipient_status = per, nr_subject = take 256 subject,
       nr_body_preview = take 500 body, nr_smtp_response_code = code,
       nr_error_message = (if nonempty_text err then Some (take 5000 (the err)) else None),
       nr_latency_ms = Some (latency m), nr_created_at = now e\<rparr>]"
  by (simp_all add: persist_def Let_def tick_def)

lemma send_row:
  assumes "send_notification e m ev c pw d = (out, d')"
  shows "attempted out"
    and "\<exists>r. notif_records d' = notif_records d @ [r] \<and> nr_event_type r = ne_event_type ev \<and> nr_outcome r = out \<and>
      nr_created_at r = now e \<and> nr_audit_event_id r = ne_audit_event_id ev"
    and "windows d' = windows d @ [(ne_event_type ev, now e + dedup_window)]"
proof -
  obtain subject body where sb: "event_mail m ev = (subject, body)" by fastforce
  let ?answer = "smtp_send m \<lparr>em_sender = (nc_sender_name c, nc_sender_email c), em_recipients = nc_recipients c,
      em_subject = subject, em_body = body\<rparr> (nc_smtp_host c) (nc_smtp_port c) (nc_smtp_username c) pw"
  obtain o' code per err where so: "send_outcome m (nc_recipients c) ?answer = (o', code, per, err)"
    by (metis prod_cases4)
  have out: "o' = out" using assms sb so by (simp add: send_notification_def open_bucket_def Let_def case_prod_beta)
  show "attempted out" using send_attempted [of m "nc_recipients c" ?answer] so out by simp
  show "\<exists>r. notif_records d' = notif_records d @ [r] \<and> nr_event_type r = ne_event_type ev \<and> nr_outcome r = out \<and>
      nr_created_at r = now e \<and> nr_audit_event_id r = ne_audit_event_id ev"
    using assms sb so
    by (auto simp: send_notification_def open_bucket_def Let_def persist_def set_bucket_def tick_def)
  show "windows d' = windows d @ [(ne_event_type ev, now e + dedup_window)]"
    using assms sb so
    by (auto simp: send_notification_def open_bucket_def Let_def persist_def set_bucket_def tick_def windows_def
        update_where_def)
qed

lemma windows_set_bucket [simp]:
  "(\<And>b. nb_event_type (f b) = nb_event_type b) \<Longrightarrow> (\<And>b. nb_window_end (f b) = nb_window_end b) \<Longrightarrow>
    windows (set_bucket bid f d) = windows d"
  by (simp add: windows_def set_bucket_def update_where_def)

lemma windows_persist [simp]:
  "windows (snd (persist e m et out rs subject body per code err aid bid d)) = windows d"
  by (simp add: windows_def)

lemma windows_cfg [simp]: "windows (d\<lparr>notif_cfg := c\<rparr>) = windows d"
  by (simp add: windows_def)

lemma notif_records_set_bucket [simp]: "notif_records (set_bucket bid f d) = notif_records d"
  by (simp add: set_bucket_def)

text \<open>An event adds one record, and is attempted exactly if the channel is usable and no window is open.\<close>

lemma notify_row:
  assumes run: "notify e m ev d = (out, d')"
  shows "\<exists>r. notif_records d' = notif_records d @ [r] \<and> nr_event_type r = ne_event_type ev \<and> nr_outcome r = out \<and>
      nr_created_at r = now e \<and> nr_audit_event_id r = ne_audit_event_id ev"
    and "attempted out \<longleftrightarrow> mail_ready e d \<and> active_bucket e (ne_event_type ev) d = None"
    and "windows d' = windows d @ (if attempted out then [(ne_event_type ev, now e + dedup_window)] else [])"
    and "out = n_suppressed \<longleftrightarrow> mail_ready e d \<and> active_bucket e (ne_event_type ev) d \<noteq> None"
proof -
  let ?R = "(\<exists>r. notif_records d' = notif_records d @ [r] \<and> nr_event_type r = ne_event_type ev \<and> nr_outcome r = out \<and>
      nr_created_at r = now e \<and> nr_audit_event_id r = ne_audit_event_id ev) \<and>
    (attempted out \<longleftrightarrow> mail_ready e d \<and> active_bucket e (ne_event_type ev) d = None) \<and>
    windows d' = windows d @ (if attempted out then [(ne_event_type ev, now e + dedup_window)] else []) \<and>
    (out = n_suppressed \<longleftrightarrow> mail_ready e d \<and> active_bucket e (ne_event_type ev) d \<noteq> None)"
  have ?R
  proof (cases "mail_ready e d")
    case False
    then show ?thesis
      using run
      by (auto simp: notify_def mail_ready_def skip_notification_def attempted_def split: option.splits if_splits)
  next
    case True
    then obtain c pw where c: "notif_cfg d = Some c" "nc_enabled c" "nc_status c \<noteq> n_credentials_invalid"
        "nc_recipients c \<noteq> []" "decrypt e (nc_smtp_password_encrypted c) = Some pw" by (auto simp: mail_ready_def)
    show ?thesis
    proof (cases "active_bucket e (ne_event_type ev) d")
      case (Some b)
      with run c True show ?thesis by (auto simp: notify_def attempted_def Let_def)
    next
      case None
      with run c have send: "send_notification e m ev c pw d = (out, d')" by (simp add: notify_def)
      from send_row [OF send] None True show ?thesis by (auto simp: attempted_def)
    qed
  qed
  then show "\<exists>r. notif_records d' = notif_records d @ [r] \<and> nr_event_type r = ne_event_type ev \<and> nr_outcome r = out \<and>
      nr_created_at r = now e \<and> nr_audit_event_id r = ne_audit_event_id ev"
    "attempted out \<longleftrightarrow> mail_ready e d \<and> active_bucket e (ne_event_type ev) d = None"
    "windows d' = windows d @ (if attempted out then [(ne_event_type ev, now e + dedup_window)] else [])"
    "out = n_suppressed \<longleftrightarrow> mail_ready e d \<and> active_bucket e (ne_event_type ev) d \<noteq> None" by simp_all
qed

lemma test_row:
  assumes "test_send e m to_addr d = (r, d')"
  shows "windows d' = windows d \<and> (notif_records d' = notif_records d \<or>
    (\<exists>x. notif_records d' = notif_records d @ [x] \<and> \<not> attempted (nr_outcome x)))"
proof (cases "notif_cfg d")
  case None
  with assms show ?thesis by (simp add: test_send_def)
next
  case c: (Some c)
  show ?thesis
  proof (cases "decrypt e (nc_smtp_password_encrypted c)")
    case None
    with assms c show ?thesis by (auto simp: test_send_def attempted_def)
  next
    case (Some pw)
    let ?answer = "smtp_send m \<lparr>em_sender = (nc_sender_name c, nc_sender_email c), em_recipients = [to_addr],
      em_subject = fst (test_mail m), em_body = snd (test_mail m)\<rparr> (nc_smtp_host c) (nc_smtp_port c) (nc_smtp_username c) pw"
    obtain out code per err where t: "test_outcome m to_addr ?answer = (out, code, per, err)" by (metis prod_cases4)
    have "\<not> attempted out" using test_not_attempted [of m to_addr ?answer] t by simp
    with assms c Some t show ?thesis by (auto simp: test_send_def Let_def)
  qed
qed

text \<open>The cleanup drops a window only together with the attempt that opened it.\<close>

lemma cleanup_rows:
  assumes run: "cleanup_notifications e d = (n, d')" and wf: "mails_wf d"
  shows "mails_wf d'" and "mail_times et d' = filter (\<lambda>s. now e - retention \<le> s) (mail_times et d)"
proof -
  let ?cut = "now e - retention"
  from run have rows: "map (\<lambda>r. (nr_event_type r, nr_outcome r, nr_created_at r)) (notif_records d') =
      map (\<lambda>r. (nr_event_type r, nr_outcome r, nr_created_at r)) (filter (\<lambda>r. ?cut \<le> nr_created_at r) (notif_records d))"
    "windows d' = filter (\<lambda>w. ?cut \<le> snd w) (windows d)"
    by (auto simp: cleanup_notifications_def Let_def windows_def filter_map o_def)
  have mem: "(a, b, c) \<in> set (map (\<lambda>r. (nr_event_type r, nr_outcome r, nr_created_at r)) (notif_records d')) \<longleftrightarrow>
      ?cut \<le> c \<and> (a, b, c) \<in> set (map (\<lambda>r. (nr_event_type r, nr_outcome r, nr_created_at r)) (notif_records d))" for a b c
    unfolding rows by auto
  have all: "mails_wf x \<longleftrightarrow> (\<forall>a b c. (a, b, c) \<in> set (map (\<lambda>r. (nr_event_type r, nr_outcome r, nr_created_at r)) (notif_records x)) \<longrightarrow>
      attempted b \<longrightarrow> (a, c + dedup_window) \<in> set (windows x))" for x
    by (auto simp: mails_wf_def)
  show "mails_wf d'"
    using wf unfolding all mem rows(2) by (auto simp: dedup_window_def)
  have times: "mail_times et x = map (\<lambda>(a, b, c). c) (filter (\<lambda>(a, b, c). a = et \<and> attempted b)
      (map (\<lambda>r. (nr_event_type r, nr_outcome r, nr_created_at r)) (notif_records x)))" for x
    by (simp add: mail_times_def filter_map o_def)
  show "mail_times et d' = filter (\<lambda>s. ?cut \<le> s) (mail_times et d)"
    unfolding times [of d'] rows(1) by (simp add: mail_times_def filter_map o_def conj_commute)
qed

lemma mail_step_wf:
  assumes "mail_step e t d d'" "mails_wf d"
  shows "mails_wf d'"
  using assms(1)
proof cases
  case (fires m ev)
  show ?thesis
  proof (cases "ne_event_type ev \<in> set (effective_event_types (at_time e t))")
    case True
    obtain out d1 where n: "notify (at_time e t) m ev d = (out, d1)" by fastforce
    with fires True have "d1 = d'" by (simp add: fire_def)
    with notify_row(1,3) [OF n] assms(2) show ?thesis by (auto simp: mails_wf_def split: if_splits)
  qed (use fires assms(2) in \<open>simp add: fire_def\<close>)
next
  case (tests m to_addr r)
  with test_row [OF tests] assms(2) show ?thesis by (auto simp: mails_wf_def)
next
  case (cleans n)
  then show ?thesis by (rule cleanup_rows(1) [OF _ assms(2)])
next
  case others
  with assms(2) show ?thesis by (simp add: mails_wf_def windows_def)
qed

text \<open>Per event type, mails are the interface \<open>windowed\<close> with a limit of one.\<close>

interpretation mails: windowed "mail_times et" "\<lambda>t d d'. mails_wf d \<and> mail_step e t d d'" "dedup_window - 1" 1 for et e
proof
  fix t d d' assume "mails_wf d \<and> mail_step e t d d'"
  then have wf: "mails_wf d" and step: "mail_step e t d d'" by simp_all
  let ?C = "(\<exists>p. mail_times et d' = filter p (mail_times et d)) \<or>
      (mail_times et d' = mail_times et d @ [t] \<and>
       length (filter (\<lambda>s. t - (dedup_window - 1) \<le> s) (mail_times et d)) < 1)"
  have same: ?C if "mail_times et d' = mail_times et d"
    using that by (intro disjI1 exI [of _ "\<lambda>s. True"]) simp
  from step show ?C
  proof cases
    case (fires m ev)
    obtain out d1 where n: "notify (at_time e t) m ev d = (out, d1)" by fastforce
    note row = notify_row [OF n]
    show ?C
    proof (cases "ne_event_type ev \<in> set (effective_event_types (at_time e t)) \<and> ne_event_type ev = et \<and> attempted out")
      case True
      have d1: "d1 = d'" using fires True n by (auto simp: fire_def)
      have "mail_times et d' = mail_times et d @ [t]" using row(1) True by (auto simp: d1 mail_times_def)
      moreover have "s + dedup_window \<le> t" if "s \<in> set (mail_times et d)" for s
      proof -
        from that wf have "(et, s + dedup_window) \<in> set (windows d)" by (auto simp: mail_times_def mails_wf_def)
        with row(2) True show ?thesis by (simp add: active_bucket_None)
      qed
      then have "filter (\<lambda>s. t - (dedup_window - 1) \<le> s) (mail_times et d) = []"
        by (fastforce simp: filter_empty_conv)
      ultimately show ?C by simp
    next
      case False
      then show ?C using fires n row(1) by (intro same) (auto simp: fire_def mail_times_def split: if_splits)
    qed
  next
    case (tests m to_addr r)
    with test_row [OF tests] show ?C by (intro same) (auto simp: mail_times_def)
  next
    case (cleans n)
    with cleanup_rows(2) [OF cleans wf] show ?C by blast
  next
    case others
    then show ?C by (intro same) (simp add: mail_times_def)
  qed
qed
lemma mail_run_wf:
  assumes "timed_run (mail_step e) x y" "mails_wf (snd x)"
  shows "timed_run (\<lambda>t d d'. mails_wf d \<and> mail_step e t d d') x y \<and> mails_wf (snd y)"
  using assms
proof (induction rule: timed_run.induct)
  case (later x t d t' d')
  then show ?case using mail_step_wf by (fastforce intro: timed_run.later)
qed (simp add: timed_run.here)

text \<open>Alarms do not flood.  However events, test mails and cleanups follow each other, at most one mail per
  event type is sent or attempted in any span shorter than five minutes, and the detector reports at
  most one burst of upstream errors per window.\<close>

theorem alerts_limited:
  assumes "timed_run (mail_step e) (t0, d0) (t, d)" "notif_records d0 = []"
    and "timed_run (burst_step e) (t0, d0) (t', d')" "burst_times d0 = []"
  shows "length (filter (\<lambda>r. nr_event_type r = et \<and> attempted (nr_outcome r) \<and> a \<le> nr_created_at r \<and>
      nr_created_at r < a + seconds 300) (notif_records d)) \<le> 1 \<and>
    length (filter (\<lambda>x. au_event_type x = responses_upstream_error_burst \<and> a \<le> au_created_at x \<and>
      au_created_at x \<le> a + seconds (60 * upstream_burst_window_minutes (cfg e))) (audit_log d')) \<le> 1"
proof -
  have "mails_wf d0" using assms(2) by (simp add: mails_wf_def)
  then have "timed_run (\<lambda>t d d'. mails_wf d \<and> mail_step e t d d') (t0, d0) (t, d)"
    using mail_run_wf [OF assms(1)] by simp
  note limits = mails.never_more [OF this, of et a] bursts.never_more [OF assms(3,4), of a]
  have span: "x < a + seconds 300 \<longleftrightarrow> x \<le> a + (dedup_window - 1)" for x by (auto simp: dedup_window_def)
  show ?thesis
    using limits assms(2) unfolding span
    by (simp add: in_window_def mail_times_def burst_times_def filter_map o_def conj_ac)
qed

text \<open>What becomes of an event: one record, always.  Without a usable channel it is skipped; while the
  window of an earlier mail is open it is suppressed and counted there; otherwise the server is asked,
  and the mail counts as sent if one recipient was accepted.  An event type nobody subscribed to leaves
  no trace.\<close>

theorem every_event_recorded:
  "case notify e m ev d of (out, d') \<Rightarrow>
    (\<exists>r. notif_records d' = notif_records d @ [r] \<and> nr_event_type r = ne_event_type ev \<and> nr_outcome r = out \<and>
      nr_created_at r = now e \<and> nr_audit_event_id r = ne_audit_event_id ev) \<and>
    (attempted out \<longleftrightarrow> mail_ready e d \<and> active_bucket e (ne_event_type ev) d = None) \<and>
    (out = n_suppressed \<longleftrightarrow> mail_ready e d \<and> (\<exists>u. (ne_event_type ev, u) \<in> set (windows d) \<and> now e < u)) \<and>
    windows d' = windows d @ (if attempted out then [(ne_event_type ev, now e + seconds 300)] else [])"
proof (cases "notify e m ev d")
  case (Pair out d')
  note row = notify_row [OF Pair]
  have "active_bucket e (ne_event_type ev) d \<noteq> None \<longleftrightarrow> (\<exists>u. (ne_event_type ev, u) \<in> set (windows d) \<and> now e < u)"
    using active_bucket_None [of e "ne_event_type ev" d] by (auto simp: not_le)
  with row(4) have "out = n_suppressed \<longleftrightarrow> mail_ready e d \<and> (\<exists>u. (ne_event_type ev, u) \<in> set (windows d) \<and> now e < u)"
    by blast
  moreover have "windows d' = windows d @ (if attempted out then [(ne_event_type ev, now e + seconds 300)] else [])"
    using row(3) by (simp add: dedup_window_def)
  ultimately show ?thesis using row(1,2) unfolding Pair split_conv by blast
qed

section \<open>Witnesses\<close>

definition strict_db :: db where
  "strict_db = one_grant\<lparr>anomaly_cfg := Some \<lparr>an_auto_quarantine_enabled = True, an_pause_until = None,
     an_threshold_multiplier = 1, an_min_calls = 0, an_absolute_cold_start = 0, an_baseline_min_calls = 200,
     an_updated_at = 0, an_updated_by = None\<rparr>\<rparr>"

lemma quarantine_effect_witness:
  "\<exists>code b. fst (run_preflight (at_time sample_env 7) one_token ''azure/gpt-4o'' (snd (detect_and_quarantine sample_env strict_db)))
     = Inr (PreflightRejection code 403 (Some b))"
proof -
  have ids: "distinct (map a_id (allocations strict_db))" by (simp add: strict_db_def one_grant_rows)
  have "fst (detect_and_quarantine sample_env strict_db) \<noteq> None"
    by (simp add: detect_and_quarantine_def get_anomaly_config_def strict_db_def Let_def split: prod.split)
  then obtain qs where run: "detect_and_quarantine sample_env strict_db = (Some qs, snd (detect_and_quarantine sample_env strict_db))"
    by (metis prod.collapse option.exhaust)
  obtain a where a: "allocations one_grant = [a]" "a_id a = ''U00''" "a_status a = active" "a_resource_model a = ''azure/gpt-4o''"
      "\<not> a_is_service a"
    by (simp add: one_grant_def create_allocation_def ensure_external_member_def issue_allocation_def Let_def
        case_prod_beta empty_db_def add_credential_row_def add_links_def sample_env_def numeral_nat)
  have "resolve_bearer sample_env one_token ''azure/gpt-4o'' strict_db = Some a"
    by (simp add: resolve_bearer_key key_of_def one_grant_rows strict_db_def fingerprint_for_def sample_env_def
        resolve_scope_allocation_def scope_join_def a(1,2))
  moreover have "runaway c (now sample_env) strict_db a" if "fst (get_anomaly_config sample_env strict_db) = Some c" for c
    using that a by (auto simp: runaway_def get_anomaly_config_def strict_db_def effective_enforcing_def anomaly_paused_def
        count_calls_def one_grant_def create_allocation_def ensure_external_member_def issue_allocation_def Let_def
        case_prod_beta empty_db_def add_credential_row_def add_links_def)
  ultimately show ?thesis
    using quarantine_effect [OF ids run, of 7] by fastforce
qed

definition sample_mailer :: mailer where
  "sample_mailer = \<lparr>smtp_send = (\<lambda>msg host port user pw. Inr ([], True)), event_mail = (\<lambda>ev. (''subject'', ''body'')),
     test_mail = (''test'', ''test''), refusal_text = (\<lambda>c t. t), failure_text = (\<lambda>out t. t),
     all_refused_text = (\<lambda>st. ''all refused''), decrypt_text = ''unreadable'', latency = 1\<rparr>"

definition sample_event :: notification_event where
  "sample_event = \<lparr>ne_event_type = ''allocation_quarantined'', ne_occurred_at = 0, ne_audit_event_id = None,
     ne_target_type = None, ne_target_id = None, ne_details = []\<rparr>"

definition mail_db :: db where
  "mail_db = empty_db\<lparr>notif_cfg := Some \<lparr>nc_smtp_host = ''mail'', nc_smtp_port = 587, nc_smtp_username = ''u'',
     nc_smtp_password_encrypted = ''fpw'', nc_sender_email = ''a@x.org'', nc_sender_name = ''A'',
     nc_recipients = [''boss@example.org''], nc_enabled = True, nc_status = n_verified, nc_last_test_at = None,
     nc_last_test_outcome = None, nc_last_test_error = None, nc_created_at = 0, nc_updated_at = 0,
     nc_created_by = ''admin''\<rparr>\<rparr>"

definition two_events :: db where
  "two_events = fire (at_time sample_env 20) sample_mailer sample_event
     (fire (at_time sample_env 10) sample_mailer sample_event mail_db)"

lemma alerts_limited_witness:
  "map nr_outcome (notif_records two_events) = [n_sent, n_suppressed] \<and>
   length (filter (\<lambda>r. nr_event_type r = ''allocation_quarantined'' \<and> attempted (nr_outcome r) \<and> 0 \<le> nr_created_at r \<and>
      nr_created_at r < seconds 300) (notif_records two_events)) \<le> 1"
proof -
  have "timed_run (mail_step sample_env) (0, mail_db) (20, two_events)"
    unfolding two_events_def
    by (rule timed_run.later [OF timed_run_one, of 0 10]) (auto intro: mail_step.fires)
  moreover have "notif_records mail_db = []" "burst_times mail_db = []"
    by (simp_all add: mail_db_def empty_db_def burst_times_def)
  moreover have "map nr_outcome (notif_records two_events) = [n_sent, n_suppressed]" by code_simp
  ultimately show ?thesis
    using alerts_limited [OF _ _ timed_run.here, of sample_env 0 mail_db 20 two_events "''allocation_quarantined''" 0] by simp
qed

end
