(* ===== verification/PyDecimal.thy ===== *)
theory PyDecimal
  imports Pricing
begin

text \<open>
  Decimals as text: \<open>Decimal(s)\<close>, \<open>str(d)\<close>, \<open>f"{d:f}"\<close> and \<open>normalize\<close>, and the shortest digits that
  \<open>repr\<close> gives a float, which is how a number of a JSON body becomes a \<open>Decimal\<close> (\<open>Decimal(str(v))\<close>).
  The sign of a zero is not kept.
\<close>

section \<open>Digits\<close>

definition digit_char :: "nat \<Rightarrow> char" where
  "digit_char k = char_of (48 + k)"

definition digit_val :: "char \<Rightarrow> nat" where
  "digit_val c = of_char c - 48"

fun nat_text :: "nat \<Rightarrow> string" where
  "nat_text n = (if n < 10 then [digit_char n] else nat_text (n div 10) @ [digit_char (n mod 10)])"

declare nat_text.simps [simp del]

definition text_nat :: "string \<Rightarrow> nat" where
  "text_nat s = foldl (\<lambda>n c. 10 * n + digit_val c) 0 s"

definition int_text :: "int \<Rightarrow> string" where
  "int_text n = (if n < 0 then ''-'' else []) @ nat_text (nat \<bar>n\<bar>)"

lemma digit_val_char [simp]: "k < 10 \<Longrightarrow> digit_val (digit_char k) = k"
  by (simp add: digit_val_def digit_char_def)

lemma digit_char_is_digit [simp]: "k < 10 \<Longrightarrow> is_digit (digit_char k)"
  by (simp add: is_digit_def digit_char_def Let_def)

lemma nat_text_digits: "c \<in> set (nat_text n) \<Longrightarrow> is_digit c"
proof (induction n rule: nat_text.induct)
  case (1 n)
  then show ?case by (cases "n < 10") (auto simp: nat_text.simps [of n])
qed

lemma nat_text_ne [simp]: "nat_text n \<noteq> []"
  by (simp add: nat_text.simps [of n])

lemma text_nat_snoc [simp]: "text_nat (s @ [c]) = 10 * text_nat s + digit_val c"
  by (simp add: text_nat_def)

lemma text_nat_text [simp]: "text_nat (nat_text n) = n"
proof (induction n rule: nat_text.induct)
  case (1 n)
  show ?case
  proof (cases "n < 10")
    case True
    then show ?thesis by (simp add: nat_text.simps [of n] text_nat_def)
  next
    case False
    with 1 show ?thesis by (simp add: nat_text.simps [of n])
  qed
qed

section \<open>Reading\<close>

definition sign_of :: "string \<Rightarrow> bool \<times> string" where
  "sign_of s = (case s of [] \<Rightarrow> (False, [])
     | c # cs \<Rightarrow> if c = CHR ''-'' then (True, cs) else if c = CHR ''+'' then (False, cs) else (False, s))"

definition with_sign :: "bool \<Rightarrow> int \<Rightarrow> int" where
  "with_sign neg n = (if neg then - n else n)"

text \<open>The exponent: nothing, or an \<open>E\<close> with digits.\<close>

definition read_exponent :: "string \<Rightarrow> int option" where
  "read_exponent s =
     (case s of [] \<Rightarrow> Some 0
      | c # cs \<Rightarrow>
          if lower_char c \<noteq> CHR ''e'' then None
          else (case sign_of cs of (neg, ds) \<Rightarrow>
            if ds \<noteq> [] \<and> list_all is_digit ds then Some (with_sign neg (int (text_nat ds))) else None))"

definition decimal_of_text :: "string \<Rightarrow> py_decimal option" where
  "decimal_of_text s =
     (case sign_of (filter (\<lambda>c. c \<noteq> CHR ''_'') (strip s)) of (neg, body) \<Rightarrow>
        let word = lower body; whole = takeWhile is_digit body; rest = dropWhile is_digit body;
            frac = (case rest of c # cs \<Rightarrow> if c = CHR ''.'' then takeWhile is_digit cs else [] | [] \<Rightarrow> []);
            tail = (case rest of c # cs \<Rightarrow> if c = CHR ''.'' then dropWhile is_digit cs else rest | [] \<Rightarrow> [])
        in if word = ''inf'' \<or> word = ''infinity'' then Some (Inf neg)
           else if starts_with ''nan'' word \<and> list_all is_digit (drop 3 word) \<or>
                   starts_with ''snan'' word \<and> list_all is_digit (drop 4 word) then Some NaN
           else if whole @ frac = [] then None
           else map_option (\<lambda>x. Fin (Dec (with_sign neg (int (text_nat (whole @ frac)))) (x - int (length frac))))
                  (read_exponent tail))"

text \<open>A price that may be left out: no text and the empty text are no price.\<close>

definition price_text :: "string option \<Rightarrow> py_decimal option option" where
  "price_text t = (case t of None \<Rightarrow> None | Some s \<Rightarrow> if s = [] then None else Some (decimal_of_text s))"

section \<open>Writing\<close>

definition zeros :: "nat \<Rightarrow> string" where
  "zeros n = replicate n (CHR ''0'')"

definition place_point :: "int \<Rightarrow> string \<Rightarrow> string" where
  "place_point p ds =
     (if p \<le> 0 then ''0.'' @ zeros (nat (- p)) @ ds
      else if int (length ds) \<le> p then ds @ zeros (nat p - length ds)
      else take (nat p) ds @ ''.'' @ drop (nat p) ds)"

definition decimal_text :: "decimal \<Rightarrow> string" where
  "decimal_text d =
     (let ds = nat_text (nat \<bar>dec_coeff d\<bar>); left = dec_exp d + int (length ds);
          p = (if dec_exp d \<le> 0 \<and> left > - 6 then left else 1)
      in (if dec_coeff d < 0 then ''-'' else []) @ place_point p ds @
         (if left = p then [] else ''E'' @ (if left - p < 0 then [] else ''+'') @ int_text (left - p)))"

definition decimal_fixed :: "decimal \<Rightarrow> string" where
  "decimal_fixed d =
     (let d' = (if 0 < dec_exp d then Dec (dec_coeff d * 10 ^ nat (dec_exp d)) 0 else d);
          ds = nat_text (nat \<bar>dec_coeff d'\<bar>)
      in (if dec_coeff d' < 0 then ''-'' else []) @ place_point (dec_exp d' + int (length ds)) ds)"

text \<open>\<open>normalize\<close> rounds to the context and strips the trailing zeros of the coefficient.\<close>

fun strip_zeros :: "nat \<Rightarrow> nat \<Rightarrow> nat \<times> nat" where
  "strip_zeros 0 n = (n, 0)"
| "strip_zeros (Suc fuel) n =
     (if n mod 10 = 0 \<and> n \<noteq> 0 then map_prod id Suc (strip_zeros fuel (n div 10)) else (n, 0))"

definition dec_normalize :: "decimal \<Rightarrow> decimal" where
  "dec_normalize d =
     (let f = dec_fix d; (m, k) = strip_zeros (num_digits (nat \<bar>dec_coeff f\<bar>)) (nat \<bar>dec_coeff f\<bar>)
      in if dec_coeff f = 0 then Dec 0 0 else Dec (with_sign (dec_coeff f < 0) (int m)) (dec_exp f + int k))"

section \<open>Floats\<close>

text \<open>The power of ten of the first digit.\<close>

definition ilog10 :: "rat \<Rightarrow> int" where
  "ilog10 q = (if 1 \<le> q then int (num_digits (nat \<lfloor>q\<rfloor>)) - 1 else - int (num_digits (nat (\<lceil>1 / q\<rceil> - 1))))"

definition short_float :: "rat \<Rightarrow> int \<Rightarrow> decimal" where
  "short_float r p =
     (let x = ilog10 \<bar>r\<bar> - p + 1 in Dec (round_half_even (r / 10 powi x)) x)"

text \<open>
  \<open>Decimal(repr(r))\<close>: the fewest digits that read back as the float; \<open>repr\<close> writes a number of
  ordinary size without an exponent and with at least one digit after the point.
\<close>

definition float_digits :: "rat \<Rightarrow> decimal" where
  "float_digits r =
     dec_normalize (case find (\<lambda>p. float_round (dec_val (short_float r p)) = r) [1..17] of
                      Some p \<Rightarrow> short_float r p | None \<Rightarrow> short_float r 17)"

definition float_decimal :: "rat \<Rightarrow> decimal" where
  "float_decimal r =
     (if r = 0 then Dec 0 (- 1)
      else (let n = float_digits r
            in if ilog10 \<bar>r\<bar> < 16 \<and> 0 \<le> dec_exp n
               then Dec (dec_coeff n * 10 ^ nat (dec_exp n + 1)) (- 1) else n))"

definition float_text :: "rat \<Rightarrow> string" where
  "float_text r =
     (if r = 0 then ''0.0''
      else (let ds = nat_text (nat \<bar>dec_coeff (float_digits r)\<bar>); x = ilog10 \<bar>r\<bar>; t = place_point (x + 1) ds;
                xs = nat_text (nat \<bar>x\<bar>)
            in (if r < 0 then ''-'' else []) @
               (if - 4 \<le> x \<and> x < 16 then (if CHR ''.'' \<in> set t then t else t @ ''.0'')
                else take 1 ds @ (if tl ds = [] then [] else CHR ''.'' # tl ds) @ ''e'' @
                     (if x < 0 then ''-'' else ''+'') @ (if length xs < 2 then CHR ''0'' # xs else xs))))"

text \<open>\<open>Decimal(str(v))\<close> for a value of a JSON body: \<open>None\<close> is the \<open>InvalidOperation\<close> of a text that is no
  number, as those of \<open>None\<close>, booleans, lists and objects.\<close>

definition decimal_of_json :: "json \<Rightarrow> py_decimal option" where
  "decimal_of_json v =
     (case v of JInt n \<Rightarrow> Some (Fin (Dec n 0)) | JNum r \<Rightarrow> Some (Fin (float_decimal r))
      | JStr s \<Rightarrow> decimal_of_text s | _ \<Rightarrow> None)"

end
