(* ===== verification/AllocationAdmin.thy ===== *)
theory AllocationAdmin
  imports Members PyDecimal Upstream SelfService
begin

text \<open>
  The administrator's endpoints on allocations, \<open>api/allocations.py\<close>: creation, listing, the changes of
  status one by one and in bulk, the patch of a row, the quotas in bulk, and the keys of an allocation.
  The checks of the request schema (\<open>api/schemas.py\<close>) are written out; a request that fails them is a
  422.
\<close>

section \<open>The view of an allocation\<close>

definition repr_token_prefix :: "string \<Rightarrow> db \<Rightarrow> string option" where
  "repr_token_prefix aid d =
     (case allocation_credentials aid d of
        [] \<Rightarrow> None
      | c # cs \<Rightarrow> Some (c_token_prefix (case find (\<lambda>c. c_revoked_at c = None) (c # cs) of
                                           Some a \<Rightarrow> a | None \<Rightarrow> c)))"

record alloc_out =
  ao_row :: allocation
  ao_display_name :: "string option"
  ao_token_prefix :: "string option"

definition alloc_out_of :: "db \<Rightarrow> string option \<Rightarrow> allocation \<Rightarrow> alloc_out" where
  "alloc_out_of d name a =
     \<lparr>ao_row = a, ao_display_name = name, ao_token_prefix = repr_token_prefix (a_id a) d\<rparr>"

section \<open>Creation and listing\<close>

text \<open>The numeric columns: \<open>NUMERIC(10, 6)\<close> rounds to six places and holds four integer digits, and
  \<open>BIGINT\<close> 64 bits; a value that does not fit is an error of the database.\<close>

definition numeric_10_6 :: "py_decimal \<Rightarrow> decimal option" where
  "numeric_10_6 x = (case x of
       Fin d \<Rightarrow> (let c = round_half_up (dec_val d * 10 ^ 6) in
                 if \<bar>c\<bar> < 10 ^ 10 then Some (Dec c (- 6)) else None)
     | _ \<Rightarrow> None)"

definition fits_bigint :: "int \<Rightarrow> bool" where
  "fits_bigint n \<longleftrightarrow> - (2 ^ 63) \<le> n \<and> n < 2 ^ 63"

definition model_char :: "char \<Rightarrow> bool" where
  "model_char c = (is_lower_letter c \<or> is_upper_letter c \<or> is_digit c \<or> c \<in> {CHR ''_'', CHR ''-'', CHR ''.'', CHR ''/''})"

definition resource_model_ok :: "string \<Rightarrow> bool" where
  "resource_model_ok s \<longleftrightarrow> s \<noteq> [] \<and> length s \<le> 128 \<and> list_all model_char s"

definition valid_create_request ::
  "string option \<Rightarrow> string option \<Rightarrow> string \<Rightarrow> string option \<Rightarrow> decimal option \<Rightarrow> bool" where
  "valid_create_request mid subject model memo cost \<longleftrightarrow>
     (case mid of None \<Rightarrow> True | Some s \<Rightarrow> length s = 26) \<and>
     (case subject of None \<Rightarrow> True | Some s \<Rightarrow> s \<noteq> [] \<and> length s \<le> 256) \<and>
     resource_model_ok model \<and> (case memo of None \<Rightarrow> True | Some s \<Rightarrow> length s \<le> 500) \<and>
     (case cost of None \<Rightarrow> True | Some c \<Rightarrow> 0 \<le> dec_coeff c) \<and>
     (mid \<noteq> None \<or> nonempty_text subject)"

definition stored_cost :: "decimal option \<Rightarrow> decimal option option" where
  "stored_cost cost = (case cost of None \<Rightarrow> Some None | Some c \<Rightarrow> map_option Some (numeric_10_6 (Fin c)))"

definition post_allocation ::
  "env \<Rightarrow> string option \<Rightarrow> string option \<Rightarrow> string \<Rightarrow> string option \<Rightarrow> decimal option \<Rightarrow> db
     \<Rightarrow> (alloc_out \<times> string) http" where
  "post_allocation e mid subject model memo cost d =
     (if \<not> valid_create_request mid subject model memo cost then failed d 422 ''validation'' d
      else case stored_cost cost of
        None \<Rightarrow>
          (case create_allocation e mid model memo None subject None cost origin_admin d of
             (Inl err, d1) \<Rightarrow> failed d 404 ''member_not_found'' d1
           | (Inr r, d1) \<Rightarrow> failed d 500 ''internal'' d1)
      | Some cost' \<Rightarrow>
          (case create_allocation e mid model memo None subject None cost' origin_admin d of
             (Inl err, d1) \<Rightarrow> failed d 404 ''member_not_found'' d1
           | (Inr r, d1) \<Rightarrow>
               (Inr (alloc_out_of d1 None (ac_allocation r), g_plaintext (ac_token r)), d1)))"

definition catalog_name :: "string \<Rightarrow> db \<Rightarrow> string option" where
  "catalog_name slug d = map_option mc_display_name (get_model slug d)"

definition get_allocations :: "string option \<Rightarrow> allocation_status option \<Rightarrow> db \<Rightarrow> alloc_out list" where
  "get_allocations mid status d =
     map (\<lambda>a. alloc_out_of d (catalog_name (a_resource_model a) d) a) (list_allocations mid status d)"

section \<open>Changes of status\<close>

definition delete_allocation :: "env \<Rightarrow> string \<Rightarrow> db \<Rightarrow> alloc_out http" where
  "delete_allocation e aid d =
     (case revoke e aid None d of
        (None, d1) \<Rightarrow> failed d 404 ''not_found'' d1
      | (Some a, d1) \<Rightarrow> (Inr (alloc_out_of d1 None a), d1))"

definition unquarantine :: "env \<Rightarrow> string \<Rightarrow> db \<Rightarrow> db" where
  "unquarantine e aid d =
     audit_record e allocation_unquarantined actor_admin None (Some ''allocation'') (Some aid) []
       (set_allocation aid (\<lambda>a. a\<lparr>a_status := active\<rparr>) d)"

definition unquarantine_allocation :: "env \<Rightarrow> string \<Rightarrow> db \<Rightarrow> alloc_out http" where
  "unquarantine_allocation e aid d =
     (case get_allocation aid d of
        None \<Rightarrow> failed d 404 ''not_found'' d
      | Some a \<Rightarrow>
          if a_status a \<noteq> quarantined then failed d 409 ''not_quarantined'' d
          else (let d1 = unquarantine e aid d in (Inr (alloc_out_of d1 None (a\<lparr>a_status := active\<rparr>)), d1)))"

text \<open>Pausing and resuming answer alike.\<close>

definition state_reply ::
  "db \<Rightarrow> (alloc_error + allocation option) \<times> db \<Rightarrow> alloc_out http" where
  "state_reply d r =
     (case r of
        (Inl err, d1) \<Rightarrow> failed d 409 ''invalid_state'' d1
      | (Inr None, d1) \<Rightarrow> failed d 404 ''not_found'' d1
      | (Inr (Some a), d1) \<Rightarrow> (Inr (alloc_out_of d1 None a), d1))"

definition pause_allocation :: "env \<Rightarrow> string \<Rightarrow> db \<Rightarrow> alloc_out http" where
  "pause_allocation e aid d = state_reply d (pause e aid None d)"

definition resume_allocation :: "env \<Rightarrow> string \<Rightarrow> db \<Rightarrow> alloc_out http" where
  "resume_allocation e aid d = state_reply d (resume e aid None d)"

section \<open>The patch of a row\<close>

definition patchable :: "string list" where
  "patchable = [''quota_tokens_per_month'', ''quota_cost_usd_per_month'', ''is_service_allocation'', ''note'']"

text \<open>An \<open>int\<close> for Python, which a boolean is too.  The outer option is the presence of the field.\<close>

definition read_tokens :: "json option \<Rightarrow> http_error + int option option" where
  "read_tokens v =
     (case v of None \<Rightarrow> Inr None
      | Some JNull \<Rightarrow> Inr (Some None)
      | Some (JBool b) \<Rightarrow> Inr (Some (Some (if b then 1 else 0)))
      | Some (JInt n) \<Rightarrow> if n < 0 then Inl (400, ''bad_request'') else Inr (Some (Some n))
      | Some _ \<Rightarrow> Inl (400, ''bad_request''))"

text \<open>A text that is no number counts as \<open>-1\<close>; a NaN raises at the comparison.\<close>

definition read_cost :: "json option \<Rightarrow> http_error + py_decimal option option" where
  "read_cost v =
     (case v of None \<Rightarrow> Inr None
      | Some j \<Rightarrow>
          if j = JNull then Inr (Some None)
          else (let x = (case decimal_of_json j of None \<Rightarrow> Fin (Dec (- 1) 0) | Some x \<Rightarrow> x) in
                case py_negative x of
                  Inl err \<Rightarrow> Inl (500, ''internal'')
                | Inr True \<Rightarrow> Inl (400, ''bad_request'')
                | Inr False \<Rightarrow> Inr (Some (Some x))))"

text \<open>The columns refuse what they cannot hold: \<open>None\<close> is an error of the database.\<close>

definition store_tokens :: "int option option \<Rightarrow> (allocation \<Rightarrow> allocation) option" where
  "store_tokens v =
     (case v of None \<Rightarrow> Some (\<lambda>a. a)
      | Some q \<Rightarrow> if (case q of None \<Rightarrow> True | Some n \<Rightarrow> fits_bigint n)
                   then Some (\<lambda>a. a\<lparr>a_quota_tokens := q\<rparr>) else None)"

definition store_cost :: "py_decimal option option \<Rightarrow> (allocation \<Rightarrow> allocation) option" where
  "store_cost v =
     (case v of None \<Rightarrow> Some (\<lambda>a. a)
      | Some None \<Rightarrow> Some (\<lambda>a. a\<lparr>a_quota_cost := None\<rparr>)
      | Some (Some x) \<Rightarrow> map_option (\<lambda>c a. a\<lparr>a_quota_cost := Some c\<rparr>) (numeric_10_6 x))"

definition store_note :: "json option \<Rightarrow> (allocation \<Rightarrow> allocation) option" where
  "store_note v =
     (case v of None \<Rightarrow> Some (\<lambda>a. a)
      | Some JNull \<Rightarrow> Some (\<lambda>a. a\<lparr>a_note := None\<rparr>)
      | Some (JStr s) \<Rightarrow> Some (\<lambda>a. a\<lparr>a_note := Some s\<rparr>)
      | Some _ \<Rightarrow> None)"

definition store_service :: "json option \<Rightarrow> allocation \<Rightarrow> allocation" where
  "store_service v a = (case v of None \<Rightarrow> a | Some j \<Rightarrow> a\<lparr>a_is_service := truthy j\<rparr>)"

definition cost_detail :: "py_decimal option \<Rightarrow> (string \<times> json) list" where
  "cost_detail x =
     [(''quota_cost_usd_per_month'', case x of Some (Fin c) \<Rightarrow> JStr (decimal_text c)
        | Some (Inf neg) \<Rightarrow> JStr ''Infinity'' | Some NaN \<Rightarrow> JStr ''NaN'' | None \<Rightarrow> JNull)]"

definition audit_cost :: "env \<Rightarrow> string \<Rightarrow> py_decimal option option \<Rightarrow> db \<Rightarrow> db" where
  "audit_cost e aid v d =
     (case v of None \<Rightarrow> d
      | Some x \<Rightarrow> audit_record e allocation_cost_quota_updated actor_admin None (Some ''allocation'')
                    (Some aid) (cost_detail x) d)"

definition patch_allocation :: "env \<Rightarrow> string \<Rightarrow> (string \<times> json) list \<Rightarrow> db \<Rightarrow> alloc_out http" where
  "patch_allocation e aid payload d =
     (let field = map_of payload in
      if \<exists>k \<in> fst ` set payload. k \<notin> set patchable then failed d 400 ''bad_request'' d
      else case get_allocation aid d of
        None \<Rightarrow> failed d 404 ''not_found'' d
      | Some a \<Rightarrow>
          (case read_tokens (field ''quota_tokens_per_month'') of
             Inl (code, reason) \<Rightarrow> failed d code reason d
           | Inr tokens \<Rightarrow>
          (case read_cost (field ''quota_cost_usd_per_month'') of
             Inl (code, reason) \<Rightarrow> failed d code reason d
           | Inr cost \<Rightarrow>
          (case (store_tokens tokens, store_cost cost, store_note (field ''note'')) of
             (Some f, Some g, Some h) \<Rightarrow>
               (let upd = (\<lambda>a. h (store_service (field ''is_service_allocation'') (g (f a))));
                    d1 = audit_cost e aid cost (set_allocation aid upd d)
                in (Inr (alloc_out_of d1 None (upd a)), d1))
           | _ \<Rightarrow> failed d 500 ''internal'' (audit_cost e aid cost d)))))"

section \<open>In bulk\<close>

definition bulk_actions :: "string list" where
  "bulk_actions = [''pause'', ''resume'', ''revoke'', ''unquarantine'']"

definition action_item :: "env \<Rightarrow> string \<Rightarrow> string \<Rightarrow> db \<Rightarrow> (string \<times> string option) \<times> db" where
  "action_item e action aid d =
     (let lost = (\<lambda>reason d1. ((''failed'', Some reason), rollback_to d d1));
          done = (\<lambda>d1. ((''changed'', None), d1))
      in if action = ''unquarantine''
         then (case get_allocation aid d of
                 None \<Rightarrow> lost ''not_found'' d
               | Some a \<Rightarrow> if a_status a \<noteq> quarantined then lost ''not_quarantined'' d
                            else done (unquarantine e aid d))
         else (case (if action = ''pause'' then pause e aid None d
                     else if action = ''resume'' then resume e aid None d
                     else (case revoke e aid None d of (a, d1) \<Rightarrow> (Inr a, d1))) of
                 (Inl err, d1) \<Rightarrow> lost ''invalid_state'' d1
               | (Inr None, d1) \<Rightarrow> lost ''not_found'' d1
               | (Inr (Some a), d1) \<Rightarrow> done d1))"

definition bulk_allocation_action :: "env \<Rightarrow> string list \<Rightarrow> string \<Rightarrow> db \<Rightarrow> item list http" where
  "bulk_allocation_action e aids action d =
     (if action \<notin> set bulk_actions then failed d 400 ''bad_request'' d
      else if aids = [] then failed d 400 ''bad_request'' d
      else (case bulk (action_item e action) aids d of (items, d1) \<Rightarrow> (Inr items, d1)))"

definition quota_item ::
  "env \<Rightarrow> int option option \<Rightarrow> decimal option option \<Rightarrow> string \<Rightarrow> db \<Rightarrow> (string \<times> string option) \<times> db" where
  "quota_item e tokens cost aid d =
     (let cost' = map_option (map_option Fin) cost in
      case get_allocation aid d of
        None \<Rightarrow> ((''failed'', Some ''not_found''), d)
      | Some a \<Rightarrow>
          (case (store_tokens tokens, store_cost cost') of
             (Some f, Some g) \<Rightarrow>
               ((''changed'', None), audit_cost e aid cost' (set_allocation aid (\<lambda>a. g (f a)) d))
           | _ \<Rightarrow> ((''failed'', Some ''internal''), rollback_to d (audit_cost e aid cost' d))))"

definition bulk_allocation_quota ::
  "env \<Rightarrow> string list \<Rightarrow> int option option \<Rightarrow> decimal option option \<Rightarrow> db \<Rightarrow> item list http" where
  "bulk_allocation_quota e aids tokens cost d =
     (if aids = [] \<or> tokens = None \<and> cost = None then failed d 400 ''bad_request'' d
      else if (case tokens of Some (Some n) \<Rightarrow> n < 0 | _ \<Rightarrow> False) then failed d 400 ''bad_request'' d
      else if (case cost of Some (Some c) \<Rightarrow> dec_coeff c < 0 | _ \<Rightarrow> False) then failed d 400 ''bad_request'' d
      else (case bulk (quota_item e tokens cost) aids d of (items, d1) \<Rightarrow> (Inr items, d1)))"

section \<open>The keys of an allocation\<close>

definition admin_list_credentials :: "string \<Rightarrow> db \<Rightarrow> credential list http" where
  "admin_list_credentials aid d =
     (if get_allocation aid d = None then failed d 404 ''not_found'' d else (Inr (list_credentials aid d), d))"

definition admin_revoke_credential :: "env \<Rightarrow> string \<Rightarrow> string \<Rightarrow> db \<Rightarrow> unit http" where
  "admin_revoke_credential e aid cid d =
     (if get_credential cid d = None \<or> \<not> credential_in_allocation_scope cid aid d
      then failed d 404 ''not_found'' d
      else (Inr (), audit_record e credential_revoked actor_admin None (Some ''credential'') (Some cid)
              [(''allocation_id'', JStr aid)] (snd (revoke_credential e cid d))))"

end
