(* ===== verification/MyAccount.thy ===== *)
theory MyAccount
  imports AllocationAdmin DeviceFlow StoredResponses Records Quota
begin

text \<open>
  What members do with their own account, \<open>api/me.py\<close>: their allocations, claims, call records,
  password, device keys and application keys.  The member \<open>m\<close> is the one \<open>current_member\<close> returns for
  the request's session cookie.  The requests of the device flow are in \<open>DeviceFlow\<close>, the usage
  reports in \<open>Usage\<close>.
\<close>

section \<open>The view of one's own allocation\<close>

definition own_allocation_or_error :: "string \<Rightarrow> member \<Rightarrow> db \<Rightarrow> http_error + allocation" where
  "own_allocation_or_error aid m d =
     (case get_allocation aid d of
        None \<Rightarrow> Inl (404, ''not_found'')
      | Some a \<Rightarrow> if a_member_id a \<noteq> m_id m then Inl (403, ''forbidden'') else Inr a)"

text \<open>A request on one's own allocation: anything else is refused before it does anything.\<close>

definition on_own :: "string \<Rightarrow> member \<Rightarrow> (allocation \<Rightarrow> db \<Rightarrow> 'a http) \<Rightarrow> db \<Rightarrow> 'a http" where
  "on_own aid m f d =
     (case own_allocation_or_error aid m d of
        Inl (code, reason) \<Rightarrow> failed d code reason d
      | Inr a \<Rightarrow> f a d)"

record my_alloc =
  my_row :: allocation
  my_display_name :: "string option"
  my_cost_used :: "decimal option"
  my_token_prefix :: "string option"
  my_price :: "price_view option"
  my_agent_compatible :: bool

definition alloc_public :: "db \<Rightarrow> allocation \<Rightarrow> my_alloc" where
  "alloc_public d a =
     \<lparr>my_row = a, my_display_name = None, my_cost_used = None,
      my_token_prefix = repr_token_prefix (a_id a) d, my_price = None, my_agent_compatible = False\<rparr>"

definition provider_of :: "string \<Rightarrow> string" where
  "provider_of slug = (if CHR ''/'' \<in> set slug then before_char (CHR ''/'') slug else [])"

definition list_my_allocations :: "env \<Rightarrow> member \<Rightarrow> db \<Rightarrow> my_alloc list" where
  "list_my_allocations e m d =
     (let price_map = current_price_map (now e) d in
      map (\<lambda>a. (alloc_public d a)
            \<lparr>my_display_name := catalog_name (a_resource_model a) d,
             my_cost_used := Some (current_month_cost e (a_id a) d),
             my_price := price_for_slug price_map (provider_of (a_resource_model a)) (a_resource_model a),
             my_agent_compatible := (case get_model (a_resource_model a) d of
                None \<Rightarrow> False | Some mc \<Rightarrow> fst (get_support (mc_capabilities mc)) = Available)\<rparr>)
        (list_allocations (Some (m_id m)) None d))"

section \<open>Claims\<close>

fun claim_code :: "claim_reason \<Rightarrow> int \<times> string" where
  "claim_code ModelNotFound = (404, ''not_found'')"
| "claim_code ModelForbidden = (403, ''model_forbidden'')"
| "claim_code ModelNotSelfService = (403, ''model_not_self_service'')"
| "claim_code MemberInactive = (403, ''member_inactive'')"
| "claim_code ReclaimLocked = (403, ''reclaim_locked'')"
| "claim_code AlreadyClaimed = (409, ''already_claimed'')"

text \<open>The refusal of a second claim carries the allocation that is already held.\<close>

type_synonym claim_reply = "((http_error \<times> my_alloc option) + string \<times> my_alloc) \<times> db"

definition claim_allocation :: "env \<Rightarrow> member \<Rightarrow> string \<Rightarrow> db \<Rightarrow> claim_reply" where
  "claim_allocation e m slug d =
     (case claim e m slug d of
        (Inl (Inl reason), d1) \<Rightarrow>
          (Inl (claim_code reason,
                if reason = AlreadyClaimed then map_option (alloc_public d1) (existing_active (m_id m) slug d1)
                else None), rollback_to d d1)
      | (Inl (Inr err), d1) \<Rightarrow> (Inl ((500, ''internal''), None), rollback_to d d1)
      | (Inr r, d1) \<Rightarrow> (Inr (g_plaintext (ac_token r), alloc_public d1 (ac_allocation r)), d1))"

section \<open>One's own calls\<close>

definition list_my_allocation_calls ::
  "string \<Rightarrow> nat \<Rightarrow> string option \<Rightarrow> member \<Rightarrow> db \<Rightarrow> (call_record list \<times> string option) http" where
  "list_my_allocation_calls aid limit before_id m d =
     (if limit < 1 \<or> 100 < limit then failed d 422 ''validation'' d
      else on_own aid m (\<lambda>a d.
        (let records = list_for_allocation aid (limit + 1) before_id d;
             shown = take limit records
         in (Inr (shown, if limit < length records \<and> shown \<noteq> [] then Some (r_id (List.last shown)) else None),
             d))) d)"

section \<open>Token and status\<close>

definition rotate_my_allocation_token :: "env \<Rightarrow> string \<Rightarrow> member \<Rightarrow> db \<Rightarrow> generated_token http" where
  "rotate_my_allocation_token e aid m d = on_own aid m (\<lambda>a d.
     (case rotate_token e aid d of
        (Inl err, d1) \<Rightarrow> failed d 409 ''cannot_rotate'' d1
      | (Inr None, d1) \<Rightarrow> failed d 500 ''internal'' d1
      | (Inr (Some (_, tok)), d1) \<Rightarrow>
          (Inr tok, audit_record e allocation_token_rotated actor_member (Some (m_id m))
             (Some ''allocation'') (Some aid) [] d1))) d"

definition my_state_reply :: "db \<Rightarrow> (alloc_error + allocation option) \<times> db \<Rightarrow> my_alloc http" where
  "my_state_reply d r =
     (case r of
        (Inl err, d1) \<Rightarrow> failed d 409 ''invalid_state'' d1
      | (Inr None, d1) \<Rightarrow> failed d 500 ''internal'' d1
      | (Inr (Some a), d1) \<Rightarrow> (Inr (alloc_public d1 a), d1))"

definition pause_my_allocation :: "env \<Rightarrow> string \<Rightarrow> member \<Rightarrow> db \<Rightarrow> my_alloc http" where
  "pause_my_allocation e aid m d =
     on_own aid m (\<lambda>a d. my_state_reply d (pause e aid (Some (m_id m)) d)) d"

definition resume_my_allocation :: "env \<Rightarrow> string \<Rightarrow> member \<Rightarrow> db \<Rightarrow> my_alloc http" where
  "resume_my_allocation e aid m d =
     on_own aid m (\<lambda>a d. my_state_reply d (resume e aid (Some (m_id m)) d)) d"

section \<open>The password\<close>

definition change_password :: "env \<Rightarrow> string \<Rightarrow> string \<Rightarrow> member \<Rightarrow> db \<Rightarrow> unit http" where
  "change_password e old_password new_password m d =
     (case get_member (m_id m) d of
        None \<Rightarrow> failed d 403 ''no_password'' d
      | Some row \<Rightarrow>
          (case m_password_hash row of
             None \<Rightarrow> failed d 403 ''no_password'' d
           | Some h \<Rightarrow>
               if m_provider row \<noteq> local_password then failed d 403 ''no_password'' d
               else if \<not> verify_password e h old_password then failed d 400 ''bad_old_password'' d
               else (case hash_password e new_password d of
                 (Inl err, d1) \<Rightarrow> failed d 400 ''weak_password'' d1
               | (Inr h', d1) \<Rightarrow>
                   (Inr (), set_member (m_id m) (\<lambda>r. r\<lparr>m_password_hash := Some h'\<rparr>) d1))))"

section \<open>The keys of one's own allocation\<close>

definition list_my_credentials :: "string \<Rightarrow> member \<Rightarrow> db \<Rightarrow> credential list http" where
  "list_my_credentials aid m d = on_own aid m (\<lambda>a d. (Inr (list_credentials aid d), d)) d"

definition key_name_ok :: "string \<Rightarrow> bool" where
  "key_name_ok name \<longleftrightarrow> name \<noteq> [] \<and> length name \<le> 64"

definition add_my_credential ::
  "env \<Rightarrow> string \<Rightarrow> string \<Rightarrow> member \<Rightarrow> db \<Rightarrow> (credential \<times> generated_token) http" where
  "add_my_credential e aid name m d =
     (if \<not> key_name_ok name then failed d 422 ''validation'' d
      else on_own aid m (\<lambda>a d.
        (case add_credential e a name d of
           (Inl err, d1) \<Rightarrow> failed d 500 ''internal'' d1
         | (Inr made, d1) \<Rightarrow> (Inr made, d1))) d)"

text \<open>A key is looked up by its id and must be the member's.\<close>

definition own_credential_or_error :: "string \<Rightarrow> member \<Rightarrow> db \<Rightarrow> http_error + credential" where
  "own_credential_or_error cid m d =
     (case get_credential cid d of
        None \<Rightarrow> Inl (404, ''not_found'')
      | Some c \<Rightarrow> if c_member_id c \<noteq> m_id m then Inl (404, ''not_found'') else Inr c)"

definition on_own_key :: "string \<Rightarrow> member \<Rightarrow> (credential \<Rightarrow> db \<Rightarrow> 'a http) \<Rightarrow> db \<Rightarrow> 'a http" where
  "on_own_key cid m f d =
     (case own_credential_or_error cid m d of
        Inl (code, reason) \<Rightarrow> failed d code reason d
      | Inr c \<Rightarrow> f c d)"

definition revoked_key :: "env \<Rightarrow> string \<Rightarrow> db \<Rightarrow> unit http" where
  "revoked_key e cid d = (Inr (), snd (revoke_credential e cid d))"

definition rotated_key :: "env \<Rightarrow> string \<Rightarrow> db \<Rightarrow> (credential \<times> generated_token) http" where
  "rotated_key e cid d =
     (case rotate_credential e cid d of
        (Inl err, d1) \<Rightarrow> failed d 409 ''cannot_rotate'' d1
      | (Inr None, d1) \<Rightarrow> failed d 500 ''internal'' d1
      | (Inr (Some made), d1) \<Rightarrow> (Inr made, d1))"

definition revoke_my_credential :: "env \<Rightarrow> string \<Rightarrow> string \<Rightarrow> member \<Rightarrow> db \<Rightarrow> unit http" where
  "revoke_my_credential e aid cid m d =
     on_own aid m (\<lambda>a d. on_own_key cid m (\<lambda>c d. revoked_key e cid d) d) d"

definition rotate_my_credential ::
  "env \<Rightarrow> string \<Rightarrow> string \<Rightarrow> member \<Rightarrow> db \<Rightarrow> (credential \<times> generated_token) http" where
  "rotate_my_credential e aid cid m d =
     on_own aid m (\<lambda>a d. on_own_key cid m (\<lambda>c d. rotated_key e cid d) d) d"

section \<open>Application keys\<close>

record app_key =
  ak_row :: credential
  ak_scope :: "allocation list"

definition app_key_of :: "db \<Rightarrow> credential \<Rightarrow> app_key" where
  "app_key_of d c = \<lparr>ak_row = c, ak_scope = scope_allocations (c_id c) d\<rparr>"

definition list_my_app_credentials :: "member \<Rightarrow> db \<Rightarrow> app_key list" where
  "list_my_app_credentials m d = map (app_key_of d) (list_member_credentials (m_id m) d)"

text \<open>What is wrong with a scope: an allocation that is not the member's, a scope that is not allowed,
  or a constraint of the database that no handler catches.\<close>

definition scope_failure :: "alloc_error \<Rightarrow> int \<times> string" where
  "scope_failure err =
     (case err of NotOwned a \<Rightarrow> (403, ''forbidden'') | IntegrityError \<Rightarrow> (500, ''internal'')
      | _ \<Rightarrow> (409, ''invalid_scope''))"

definition create_my_app_credential ::
  "env \<Rightarrow> string \<Rightarrow> string list \<Rightarrow> member \<Rightarrow> db \<Rightarrow> (app_key \<times> string) http" where
  "create_my_app_credential e name aids m d =
     (if \<not> key_name_ok name \<or> aids = [] then failed d 422 ''validation'' d
      else case create_member_credential e (m_id m) name aids d of
        (Inl err, d1) \<Rightarrow> (case scope_failure err of (code, reason) \<Rightarrow> failed d code reason d1)
      | (Inr (c, tok), d1) \<Rightarrow> (Inr (app_key_of d1 c, g_plaintext tok), d1))"

definition renamed_key :: "env \<Rightarrow> string \<Rightarrow> string option \<Rightarrow> member \<Rightarrow> db \<Rightarrow> db" where
  "renamed_key e cid name m d =
     (case name of None \<Rightarrow> d
      | Some n \<Rightarrow> audit_record e credential_renamed actor_member (Some (m_id m)) (Some ''credential'')
                    (Some cid) [] (snd (rename_credential cid n d)))"

definition patch_my_app_credential_scope ::
  "env \<Rightarrow> string \<Rightarrow> string option \<Rightarrow> string list \<Rightarrow> string list \<Rightarrow> member \<Rightarrow> db \<Rightarrow> app_key http" where
  "patch_my_app_credential_scope e cid name add remove m d =
     (if (case name of None \<Rightarrow> False | Some n \<Rightarrow> \<not> key_name_ok n) then failed d 422 ''validation'' d
      else on_own_key cid m (\<lambda>c d.
        (case patch_credential_scope cid add remove (renamed_key e cid name m d) of
           (Inl err, d1) \<Rightarrow> (case scope_failure err of (code, reason) \<Rightarrow> failed d code reason d1)
         | (Inr None, d1) \<Rightarrow> failed d 500 ''internal'' d1
         | (Inr (Some c'), d1) \<Rightarrow> (Inr (app_key_of d1 c'), d1))) d)"

definition revoke_my_app_credential :: "env \<Rightarrow> string \<Rightarrow> member \<Rightarrow> db \<Rightarrow> unit http" where
  "revoke_my_app_credential e cid m d = on_own_key cid m (\<lambda>c d. revoked_key e cid d) d"

definition rotate_my_app_credential :: "env \<Rightarrow> string \<Rightarrow> member \<Rightarrow> db \<Rightarrow> (app_key \<times> string) http" where
  "rotate_my_app_credential e cid m d = on_own_key cid m (\<lambda>c d.
     (case rotated_key e cid d of
        (Inl err, d1) \<Rightarrow> (Inl err, d1)
      | (Inr (c', tok), d1) \<Rightarrow> (Inr (app_key_of d1 c', g_plaintext tok), d1))) d"

end
