(* ===== verification/MyAccountTheorems.thy ===== *)
theory MyAccountTheorems
  imports MyAccount AllocationTheorems
begin

text \<open>
  What a member's own requests can reach.  \<open>elsewhere mid d\<close> is the session without what belongs to the
  member \<open>mid\<close>: her row, her allocations and keys and the scopes of her keys, and without the device
  requests, which belong to nobody until they are approved, and the audit log.  Every request of
  \<open>api/me.py\<close> leaves it as it is, so nothing of another member, and no table of the administrator,
  changes.  Then the bulk operations on allocations, item by item.
\<close>

section \<open>The rest of the session\<close>

definition own_keys :: "string \<Rightarrow> db \<Rightarrow> string list" where
  "own_keys mid d = map c_id (filter (\<lambda>c. c_member_id c = mid) (credentials d))"

definition elsewhere :: "string \<Rightarrow> db \<Rightarrow> db" where
  "elsewhere mid d = d\<lparr>members := filter (\<lambda>m. m_id m \<noteq> mid) (members d),
     allocations := filter (\<lambda>a. a_member_id a \<noteq> mid) (allocations d),
     credentials := filter (\<lambda>c. c_member_id c \<noteq> mid) (credentials d),
     credential_allocations := filter (\<lambda>l. ca_credential_id l \<notin> set (own_keys mid d)) (credential_allocations d),
     device_auths := [], audit_log := [], fresh := 0\<rparr>"

named_theorems elsewhere_simps

lemma filter_update_other:
  "(\<And>x. x \<in> set xs \<Longrightarrow> q x \<Longrightarrow> \<not> p x \<and> \<not> p (f x)) \<Longrightarrow> filter p (update_where q f xs) = filter p xs"
  by (induction xs) auto

lemma filter_delete_other:
  "(\<And>x. x \<in> set xs \<Longrightarrow> q x \<Longrightarrow> \<not> p x) \<Longrightarrow> filter p (delete_where q xs) = filter p xs"
  by (auto simp: delete_where_def intro: filter_cong)

lemma own_keys_mem: "k \<in> set (own_keys mid d) \<longleftrightarrow> (\<exists>c \<in> set (credentials d). c_member_id c = mid \<and> c_id c = k)"
  by (auto simp: own_keys_def)

lemma elsewhere_tick [simp]: "elsewhere mid (tick d) = elsewhere mid d"
  by (simp add: elsewhere_def own_keys_def tick_def)

lemma elsewhere_audit [simp]: "elsewhere mid (audit_record e ev act ai tt ti ds d) = elsewhere mid d"
  by (simp add: elsewhere_def own_keys_def audit_record_def audit_record_full_def tick_def)

lemma elsewhere_rollback [simp]: "elsewhere mid (rollback_to d d') = elsewhere mid d"
  by (simp add: elsewhere_def own_keys_def rollback_to_def)

lemma elsewhere_device [simp]: "elsewhere mid (set_device did f d) = elsewhere mid d"
  by (simp add: elsewhere_def own_keys_def set_device_def)

lemma elsewhere_set_allocation:
  assumes wf: "scope_wf e d" and a: "get_allocation aid d = Some a" "a_member_id a = mid"
    and f: "\<And>a. a_member_id (f a) = a_member_id a"
  shows "elsewhere mid (set_allocation aid f d) = elsewhere mid d"
proof -
  have own: "a_member_id b = mid" if "b \<in> set (allocations d)" "a_id b = aid" for b
    using get_allocation_in [OF wf that(1)] that(2) a by simp
  then have "filter (\<lambda>a. a_member_id a \<noteq> mid) (update_where (\<lambda>a. a_id a = aid) f (allocations d)) =
      filter (\<lambda>a. a_member_id a \<noteq> mid) (allocations d)"
    by (intro filter_update_other) (simp_all add: f own)
  then show ?thesis by (simp add: elsewhere_def own_keys_def set_allocation_def)
qed

lemma elsewhere_set_credential:
  assumes wf: "scope_wf e d" and c: "get_credential cid d = Some c" "c_member_id c = mid"
    and f: "\<And>c. c_member_id (f c) = c_member_id c" "\<And>c. c_id (f c) = c_id c"
  shows "elsewhere mid (set_credential cid f d) = elsewhere mid d"
proof -
  have own: "c_member_id b = mid" if "b \<in> set (credentials d)" "c_id b = cid" for b
    using get_credential_in [OF wf that(1)] that(2) c by simp
  then have "filter (\<lambda>c. c_member_id c \<noteq> mid) (update_where (\<lambda>c. c_id c = cid) f (credentials d)) =
      filter (\<lambda>c. c_member_id c \<noteq> mid) (credentials d)"
    by (intro filter_update_other) (simp_all add: f own)
  moreover have "own_keys mid (set_credential cid f d) = own_keys mid d"
    unfolding own_keys_def set_credential_def
    by (simp add: update_where_def filter_map o_def f if_distrib [of c_member_id] if_distrib [of c_id] cong: if_cong)
  ultimately show ?thesis by (simp add: elsewhere_def set_credential_def own_keys_def)
qed

lemma elsewhere_set_member:
  assumes f: "\<And>m. m_id (f m) = m_id m"
  shows "elsewhere mid (set_member mid f d) = elsewhere mid d"
proof -
  have "filter (\<lambda>m. m_id m \<noteq> mid) (update_where (\<lambda>m. m_id m = mid) f (members d)) =
      filter (\<lambda>m. m_id m \<noteq> mid) (members d)"
    by (rule filter_update_other) (auto simp: f)
  then show ?thesis by (simp add: elsewhere_def own_keys_def set_member_def)
qed

lemma elsewhere_add_allocation:
  "a_member_id a = mid \<Longrightarrow> elsewhere mid (allocations_update (\<lambda>as. as @ [a]) d) = elsewhere mid d"
  by (simp add: elsewhere_def own_keys_def)

lemma elsewhere_add_key:
  assumes "c_member_id c = mid" "\<And>l. l \<in> set (credential_allocations d) \<Longrightarrow> ca_credential_id l \<noteq> c_id c"
  shows "elsewhere mid (add_links (c_id c) as (add_credential_row c d)) = elsewhere mid d"
proof -
  have "filter (\<lambda>l. ca_credential_id l \<notin> set (c_id c # own_keys mid d)) (credential_allocations d) =
      filter (\<lambda>l. ca_credential_id l \<notin> set (own_keys mid d)) (credential_allocations d)"
    by (rule filter_cong) (use assms(2) in auto)
  then show ?thesis using assms(1)
    by (simp add: elsewhere_def own_keys_def add_links_def add_credential_row_def filter_empty_conv)
qed

lemma elsewhere_add_links:
  assumes "cid \<in> set (own_keys mid d)"
  shows "elsewhere mid (add_links cid as d) = elsewhere mid d"
  using assms by (auto simp: elsewhere_def own_keys_def add_links_def filter_empty_conv intro!: filter_cong)

lemma elsewhere_drop_links:
  assumes "cid \<in> set (own_keys mid d)"
  shows "elsewhere mid (credential_allocations_update
      (delete_where (\<lambda>l. ca_credential_id l = cid \<and> p l)) d) = elsewhere mid d"
proof -
  have "filter (\<lambda>l. ca_credential_id l \<notin> set (own_keys mid d))
      (delete_where (\<lambda>l. ca_credential_id l = cid \<and> p l) (credential_allocations d)) =
      filter (\<lambda>l. ca_credential_id l \<notin> set (own_keys mid d)) (credential_allocations d)"
    by (rule filter_delete_other) (use assms in auto)
  then show ?thesis by (simp add: elsewhere_def own_keys_def)
qed

section \<open>The operations of the service\<close>

lemma link_not_new:
  assumes "env_ok e" "scope_wf e d" "l \<in> set (credential_allocations d)" "fresh d \<le> k"
  shows "ca_credential_id l \<noteq> ulid e k"
  using link_credential_drawn [OF assms(2,3)] not_drawn_later [OF assms(1), of "fresh d" k] assms(4) by force

lemma elsewhere_issue:
  assumes ok: "env_ok e" and wf: "scope_wf e d" and m: "m_id m = mid"
  shows "elsewhere mid (snd (issue_allocation e m model memo by quota cost origin d)) = elsewhere mid d"
proof -
  have "elsewhere mid (add_links (c_id c) as (add_credential_row c (tick (allocations_update (\<lambda>as. as @ [a]) (tick (tick d))))))
      = elsewhere mid d"
    if "c_member_id c = mid" "c_id c = ulid e (Suc (Suc (fresh d)))" "a_member_id a = mid" for c a "as"
    by (subst elsewhere_add_key) (use that link_not_new [OF ok wf] in \<open>auto simp: elsewhere_add_allocation\<close>)
  then show ?thesis
    by (simp add: issue_allocation_def Let_def case_prod_beta new_credential_def m generate_token_def)
qed

lemma elsewhere_create:
  assumes "env_ok e" "scope_wf e d"
  shows "elsewhere mid (snd (create_allocation e (Some mid) model memo by subject quota cost origin d)) = elsewhere mid d"
  using elsewhere_issue [OF assms]
  by (auto simp: create_allocation_def Let_def case_prod_beta get_member_def split: option.split dest: find_SomeD)

lemma elsewhere_claim:
  assumes "env_ok e" "scope_wf e d" "m_id m = mid"
  shows "elsewhere mid (snd (claim e m slug d)) = elsewhere mid d"
  using elsewhere_create [OF assms(1,2), of mid] assms(3)
  by (auto simp: claim_def split: option.split sum.split prod.split) (metis snd_conv)+

lemma elsewhere_pause:
  assumes "scope_wf e d" "get_allocation aid d = Some a" "a_member_id a = mid"
  shows "elsewhere mid (snd (pause e' aid by d)) = elsewhere mid d"
    and "elsewhere mid (snd (resume e' aid by d)) = elsewhere mid d"
  using elsewhere_set_allocation [OF assms] by (simp_all add: pause_def resume_def assms(2))

lemma elsewhere_create_key:
  assumes ok: "env_ok e" and wf: "scope_wf e d"
  shows "elsewhere mid (snd (create_member_credential e mid name aids d)) = elsewhere mid d"
proof -
  have "elsewhere mid (add_links (c_id c) as (add_credential_row c (tick (tick d)))) = elsewhere mid d"
    if "c_member_id c = mid" "c_id c = ulid e (Suc (fresh d))" for c "as"
    by (subst elsewhere_add_key) (use that link_not_new [OF ok wf] in auto)
  then show ?thesis
    by (auto simp: create_member_credential_def Let_def generate_token_def new_ulid_def new_credential_def
        split: sum.split)
qed

lemma elsewhere_key_ops:
  assumes wf: "scope_wf e d" and c: "get_credential cid d = Some c" "c_member_id c = mid"
  shows "elsewhere mid (snd (revoke_credential e' cid d)) = elsewhere mid d"
    and "elsewhere mid (snd (rotate_credential e' cid d)) = elsewhere mid d"
    and "elsewhere mid (snd (rename_credential cid name d)) = elsewhere mid d"
proof -
  have wf': "scope_wf e (tick d)" and c': "get_credential cid (tick d) = Some c"
    using wf c by (simp_all add: get_credential_def)
  show "elsewhere mid (snd (revoke_credential e' cid d)) = elsewhere mid d"
    "elsewhere mid (snd (rename_credential cid name d)) = elsewhere mid d"
    by (simp_all add: revoke_credential_def rename_credential_def c(1) elsewhere_set_credential [OF wf c])
  show "elsewhere mid (snd (rotate_credential e' cid d)) = elsewhere mid d"
    by (simp add: rotate_credential_def c(1) generate_token_def Let_def
        elsewhere_set_credential [OF wf' c' c(2)])
qed

lemma elsewhere_patch:
  assumes wf: "scope_wf e d" and c: "get_credential cid d = Some c" "c_member_id c = mid"
  shows "elsewhere mid (snd (patch_credential_scope cid adds removes d)) = elsewhere mid d"
proof -
  have own: "cid \<in> set (own_keys mid d)" using get_credential_mem [OF c(1)] c(2) by (auto simp: own_keys_mem)
  then have own': "cid \<in> set (own_keys mid (add_links cid new d))" for new
    by (simp add: own_keys_def add_links_def)
  have "elsewhere mid (snd (flush_scope cid new gone d)) = elsewhere mid d" for new gone
    by (auto simp: flush_scope_def Let_def elsewhere_drop_links [OF own'] elsewhere_add_links [OF own])
  then show ?thesis using patch_session [of cid adds removes d] by auto
qed

lemma elsewhere_rotate_token:
  assumes ok: "env_ok e" and wf: "scope_wf e d" and a: "get_allocation aid d = Some a" "a_member_id a = mid"
  shows "elsewhere mid (snd (rotate_token e aid d)) = elsewhere mid d"
proof -
  have new: "elsewhere mid (add_links (c_id c) as (add_credential_row c (tick (tick d)))) = elsewhere mid d"
    if "c_member_id c = mid" "c_id c = ulid e (Suc (fresh d))" for c "as"
    by (subst elsewhere_add_key) (use that link_not_new [OF ok wf] in auto)
  have old: "elsewhere mid (set_credential (c_id c) f (tick d)) = elsewhere mid d"
    if c: "c \<in> set (allocation_credentials aid d)" and f: "\<And>c. c_member_id (f c) = c_member_id c"
      "\<And>c. c_id (f c) = c_id c" for c f
  proof -
    from c obtain l where l: "l \<in> set (credential_allocations d)" "ca_credential_id l = c_id c"
        "ca_allocation_id l = aid" and cd: "c \<in> set (credentials d)"
      by (auto simp: allocation_credentials_def list_ex_iff)
    from wf l(1) have "link_ok d l" by (simp add: scope_wf_def links_wf_def)
    then obtain c' a' where "c' \<in> set (credentials d)" "c_id c' = c_id c" "a' \<in> set (allocations d)"
        "a_id a' = aid" "a_member_id a' = c_member_id c'" using l by (auto simp: link_ok_def)
    moreover from this have "c' = c" using same_id_same_key [OF wf cd] by blast
    moreover have "a' = a" using get_allocation_in [OF wf \<open>a' \<in> _\<close>] \<open>a_id a' = aid\<close> a(1) by simp
    ultimately have own: "c_member_id c = mid" using a(2) by simp
    have "get_credential (c_id c) (tick d) = Some c" using get_credential_in [OF wf cd] by (simp add: get_credential_def)
    from elsewhere_set_credential [OF scope_wf_tick [OF wf] this own] f show ?thesis by simp
  qed
  show ?thesis
    using old new
    by (auto simp: rotate_token_def a Let_def generate_token_def new_ulid_def new_credential_def
        split: option.split dest!: find_SomeD)
qed

section \<open>The requests\<close>

text \<open>Every request of \<open>api/me.py\<close> that writes, made by the member \<open>m\<close>.\<close>

inductive me_step :: "env \<Rightarrow> member \<Rightarrow> db \<Rightarrow> db \<Rightarrow> bool" for e m where
  my_claim: "me_step e m d (snd (claim_allocation e m slug d))"
| my_rotate_token: "me_step e m d (snd (rotate_my_allocation_token e aid m d))"
| my_pause: "me_step e m d (snd (pause_my_allocation e aid m d))"
| my_resume: "me_step e m d (snd (resume_my_allocation e aid m d))"
| my_password: "me_step e m d (snd (change_password e old_pw new_pw m d))"
| my_add_key: "me_step e m d (snd (add_my_credential e aid name m d))"
| my_revoke_key: "me_step e m d (snd (revoke_my_credential e aid cid m d))"
| my_rotate_key: "me_step e m d (snd (rotate_my_credential e aid cid m d))"
| my_approve: "me_step e m d (snd (approve_my_device_request e code m aids d))"
| my_deny: "me_step e m d (snd (deny_my_device_request e code m d))"
| my_new_app_key: "me_step e m d (snd (create_my_app_credential e name aids m d))"
| my_patch_app_key: "me_step e m d (snd (patch_my_app_credential_scope e cid label add remove m d))"
| my_revoke_app_key: "me_step e m d (snd (revoke_my_app_credential e cid m d))"
| my_rotate_app_key: "me_step e m d (snd (rotate_my_app_credential e cid m d))"

text \<open>A guarded request either fails and changes nothing, or acts on a row of the member.\<close>

lemma elsewhere_failed [simp]: "elsewhere mid (snd (failed d code reason d')) = elsewhere mid d"
  by (simp add: failed_def)

lemma elsewhere_on_own:
  assumes "\<And>a. get_allocation aid d = Some a \<Longrightarrow> a_member_id a = m_id m \<Longrightarrow> elsewhere mid (snd (f a d)) = elsewhere mid d"
  shows "elsewhere mid (snd (on_own aid m f d)) = elsewhere mid d"
  using assms by (auto simp: on_own_def own_allocation_or_error_def split: option.split)

lemma elsewhere_on_own_key:
  assumes "\<And>c. get_credential cid d = Some c \<Longrightarrow> c_member_id c = m_id m \<Longrightarrow> elsewhere mid (snd (f c d)) = elsewhere mid d"
  shows "elsewhere mid (snd (on_own_key cid m f d)) = elsewhere mid d"
  using assms by (auto simp: on_own_key_def own_credential_or_error_def split: option.split)

lemma elsewhere_pending: "elsewhere mid (snd (get_pending_device e code d)) = elsewhere mid d"
  by (simp add: get_pending_device_def split: option.split)

lemma pending_tables:
  assumes "get_pending_device e code d = (r, d1)"
  shows "scope_wf e d \<Longrightarrow> scope_wf e d1"
  using assms by (auto simp: get_pending_device_def set_device_def split: option.splits if_splits
      elim!: scope_wf_frame)

lemma elsewhere_approve:
  assumes "env_ok e" "scope_wf e d"
  shows "elsewhere (m_id m) (snd (approve_device e code m aids d)) = elsewhere (m_id m) d"
proof -
  obtain r d1 where p: "get_pending_device e code d = (r, d1)" by fastforce
  have d1: "elsewhere (m_id m) d1 = elsewhere (m_id m) d" "scope_wf e d1"
    using elsewhere_pending [of "m_id m" e code d] pending_tables [OF p] p assms(2) by simp_all
  have key: "elsewhere (m_id m) d2 = elsewhere (m_id m) d"
    if "create_member_credential e (m_id m) name aids d1 = (x, d2)" for name x d2
    using elsewhere_create_key [OF assms(1) d1(2), of "m_id m" name aids] d1(1) that by simp
  show ?thesis
  proof (cases r)
    case None
    then show ?thesis by (simp add: approve_device_def p d1(1))
  next
    case (Some row)
    let ?key = "create_member_credential e (m_id m)
      (case non_empty (d_device_label row) of None \<Rightarrow> ''Codex'' | Some l \<Rightarrow> l) aids d1"
    obtain x d2 where k: "?key = (x, d2)" by fastforce
    show ?thesis
      by (cases x) (simp_all add: approve_device_def p d1(1) Some k key [OF k] Let_def split: prod.split)
  qed
qed

lemma elsewhere_deny: "elsewhere mid (snd (deny_device e code m d)) = elsewhere mid d"
  using elsewhere_pending [of mid e code d]
  by (auto simp: deny_device_def split: option.split prod.split)

lemma elsewhere_rotated:
  assumes "scope_wf e d" "get_credential cid d = Some c" "c_member_id c = mid"
  shows "elsewhere mid (snd (rotated_key e cid d)) = elsewhere mid d"
  using elsewhere_key_ops(2) [OF assms, of e]
  by (auto simp: rotated_key_def split: sum.split option.split prod.split)

lemma elsewhere_reply:
  assumes "elsewhere mid (snd r) = elsewhere mid d"
  shows "elsewhere mid (snd (my_state_reply d r)) = elsewhere mid d"
  using assms by (auto simp: my_state_reply_def split: sum.split option.split prod.split)

lemma elsewhere_renamed:
  assumes "scope_wf e d" "get_credential cid d = Some c" "c_member_id c = mid"
  shows "elsewhere mid (renamed_key e' cid label m d) = elsewhere mid d"
  using elsewhere_key_ops(3) [OF assms] by (simp add: renamed_key_def split: option.split)

lemma renamed_tables:
  assumes "scope_wf e d" "get_credential cid d = Some c"
  shows "scope_wf e (renamed_key e' cid label m d)"
    and "\<exists>c'. get_credential cid (renamed_key e' cid label m d) = Some c' \<and> c_member_id c' = c_member_id c"
proof -
  show "scope_wf e (renamed_key e' cid label m d)"
    using scope_wf_rename [OF assms(1)] assms(1) by (simp add: renamed_key_def split: option.split)
  show "\<exists>c'. get_credential cid (renamed_key e' cid label m d) = Some c' \<and> c_member_id c' = c_member_id c"
    using assms(2) by (simp add: renamed_key_def rename_credential_def get_credential_def
      set_credential_def find_update_where split: option.split)
qed

lemma elsewhere_patch_request:
  assumes "scope_wf e d"
  shows "elsewhere (m_id m) (snd (patch_my_app_credential_scope e' cid label add remove m d)) = elsewhere (m_id m) d"
proof -
  have "elsewhere (m_id m) (snd (patch_credential_scope cid add remove (renamed_key e' cid label m d))) = elsewhere (m_id m) d"
    if c: "get_credential cid d = Some c" "c_member_id c = m_id m" for c
  proof -
    obtain c' where "get_credential cid (renamed_key e' cid label m d) = Some c'" "c_member_id c' = m_id m"
      using renamed_tables(2) [OF assms c(1)] c(2) by metis
    from elsewhere_patch [OF renamed_tables(1) [OF assms c(1)] this] elsewhere_renamed [OF assms c]
    show ?thesis by simp
  qed
  then show ?thesis
    by (auto simp: patch_my_app_credential_scope_def Let_def intro!: elsewhere_on_own_key
        split: sum.split option.split prod.split)
qed



section \<open>The bulk operations on allocations\<close>

text \<open>What an action asks of a status, and what it does to the row.\<close>

definition action_allowed :: "string \<Rightarrow> allocation_status \<Rightarrow> bool" where
  "action_allowed action st \<longleftrightarrow>
     (if action = ''pause'' then st = active else if action = ''resume'' then st = paused
      else if action = ''unquarantine'' then st = quarantined else True)"

definition acted :: "env \<Rightarrow> string \<Rightarrow> allocation \<Rightarrow> allocation" where
  "acted e action a =
     (if action = ''pause'' then a\<lparr>a_status := paused\<rparr>
      else if action = ''resume'' \<or> action = ''unquarantine'' then a\<lparr>a_status := active\<rparr>
      else if a_status a = revoked then a else a\<lparr>a_status := revoked, a_revoked_at := Some (now e)\<rparr>)"

definition action_outcome :: "string \<Rightarrow> db \<Rightarrow> string \<Rightarrow> string \<times> string option" where
  "action_outcome action d aid =
     (case get_allocation aid d of
        None \<Rightarrow> (''failed'', Some ''not_found'')
      | Some a \<Rightarrow> if action_allowed action (a_status a) then (''changed'', None)
                 else (''failed'', Some (if action = ''unquarantine'' then ''not_quarantined'' else ''invalid_state'')))"

definition same_keys :: "db \<Rightarrow> db \<Rightarrow> bool" where
  "same_keys d d' \<longleftrightarrow> credentials d' = credentials d \<and> credential_allocations d' = credential_allocations d \<and>
     members d' = members d \<and> call_records d' = call_records d"

lemma acted_id [simp]: "a_id (acted e action a) = a_id a"
  by (simp add: acted_def)

lemma update_allowed:
  assumes "distinct (map a_id as)" "find (\<lambda>a. a_id a = aid) as = Some a"
    and "f a = (if p a then g a else a)"
  shows "update_where (\<lambda>a. a_id a = aid) f as = update_where (\<lambda>a. a_id a = aid \<and> p a) g as"
proof -
  from find_SomeD [OF assms(2)] have a: "a \<in> set as" "a_id a = aid" by auto
  have "b = a" if "b \<in> set as" "a_id b = aid" for b
    using distinct_map_eqD [OF assms(1) that(1) a(1)] that(2) a(2) by simp
  then show ?thesis using assms(3) by (auto simp: update_where_def)
qed

lemma update_none: "find (\<lambda>a. a_id a = aid) as = None \<Longrightarrow> update_where (\<lambda>a. a_id a = aid \<and> p a) f as = as"
  by (rule update_where_idI) (auto simp: find_None_ball)

lemma action_item_effect:
  assumes dist: "distinct (map a_id (allocations d))" and act: "action \<in> set bulk_actions"
    and run: "action_item e action aid d = (r, d')"
  shows "r = action_outcome action d aid"
    and "allocations d' = update_where (\<lambda>a. a_id a = aid \<and> action_allowed action (a_status a)) (acted e action) (allocations d)"
    and "same_keys d d'"
proof -
  have upd: "update_where (\<lambda>a. a_id a = aid) f (allocations d) =
      update_where (\<lambda>a. a_id a = aid \<and> action_allowed action (a_status a)) (acted e action) (allocations d)"
    if "find (\<lambda>a. a_id a = aid) (allocations d) = Some a"
      "f a = (if action_allowed action (a_status a) then acted e action a else a)" for f a
    by (rule update_allowed [OF dist that(1)]) (use that(2) in simp)
  have idle: "update_where (\<lambda>a. a_id a = aid \<and> action_allowed action (a_status a)) (acted e action) (allocations d) = allocations d"
    if "find (\<lambda>a. a_id a = aid) (allocations d) = Some a" "\<not> action_allowed action (a_status a) \<or> acted e action a = a" for a
    using upd [OF that(1), of "\<lambda>a. a"] that(2) by (auto simp: update_where_idI)
  have act': "action = ''pause'' \<or> action = ''resume'' \<or> action = ''revoke'' \<or> action = ''unquarantine''"
    using act by (auto simp: bulk_actions_def)
  show "r = action_outcome action d aid"
    using run act' by (auto simp: action_item_def action_outcome_def action_allowed_def pause_def resume_def
        revoke_def Let_def split: option.splits if_splits)
  show "same_keys d d'"
    using run act' by (auto simp: action_item_def same_keys_def pause_def resume_def revoke_def unquarantine_def
        lock_reclaim_def set_allocation_def rollback_to_def Let_def split: option.splits if_splits)
  show "allocations d' = update_where (\<lambda>a. a_id a = aid \<and> action_allowed action (a_status a)) (acted e action) (allocations d)"
  proof (cases "find (\<lambda>a. a_id a = aid) (allocations d)")
    case None
    then show ?thesis using run act' update_none [OF None]
      by (auto simp: action_item_def get_allocation_def pause_def resume_def revoke_def rollback_to_def Let_def
          split: if_splits)
  next
    case (Some a)
    have step: ?thesis
      if "allocations d' = (if moves then update_where (\<lambda>a. a_id a = aid) f (allocations d) else allocations d)"
        "moves \<Longrightarrow> action_allowed action (a_status a) \<and> f a = acted e action a"
        "\<not> moves \<Longrightarrow> \<not> action_allowed action (a_status a) \<or> acted e action a = a" for moves f
      using upd [OF Some, of f] idle [OF Some] that by (cases moves) simp_all
    note run' = run [unfolded action_item_def get_allocation_def Let_def pause_def resume_def revoke_def
        unquarantine_def lock_reclaim_def set_allocation_def Some option.case]
    note effects = rollback_to_def acted_def action_allowed_def
    from act' show ?thesis
    proof (elim disjE)
      assume act: "action = ''pause''"
      show ?thesis
        by (rule step [of "a_status a = active" "a_status_update (\<lambda>_. paused)"])
           (use run' act in \<open>auto simp: effects split: if_splits\<close>)
    next
      assume act: "action = ''resume''"
      show ?thesis
        by (rule step [of "a_status a = paused" "a_status_update (\<lambda>_. active)"])
           (use run' act in \<open>auto simp: effects split: if_splits\<close>)
    next
      assume act: "action = ''revoke''"
      show ?thesis
        by (rule step [of "a_status a \<noteq> revoked" "\<lambda>a. a\<lparr>a_status := revoked, a_revoked_at := Some (now e)\<rparr>"])
           (use run' act in \<open>auto simp: effects split: if_splits\<close>)
    next
      assume act: "action = ''unquarantine''"
      show ?thesis
        by (rule step [of "a_status a = quarantined" "a_status_update (\<lambda>_. active)"])
           (use run' act in \<open>auto simp: effects split: if_splits\<close>)
    qed
  qed
qed

lemma same_keys_trans: "same_keys d d' \<Longrightarrow> same_keys d' d'' \<Longrightarrow> same_keys d d''"
  by (simp add: same_keys_def)

lemma update_where_more:
  assumes "\<And>a. a_id (f a) = a_id a" "aid \<notin> S"
  shows "update_where (\<lambda>a. a_id a \<in> S \<and> p a) f (update_where (\<lambda>a. a_id a = aid \<and> p a) f as) =
    update_where (\<lambda>a. a_id a \<in> insert aid S \<and> p a) f as"
  using assms by (auto simp: update_where_def)

text \<open>A bulk pause, resume, revocation or release from quarantine reports, for every allocation of
  the list, exactly whether it exists and its status allows the action, changes exactly those that it
  reports as changed and to the status the action stands for, and touches no key, scope, member or
  call record.\<close>

theorem bulk_action_effect:
  assumes "bulk_allocation_action e aids action d = (Inr items, d')"
    and "distinct aids" "distinct (map a_id (allocations d))"
  shows "items = map (\<lambda>i. (i, action_outcome action d i)) aids \<and>
    allocations d' = update_where (\<lambda>a. a_id a \<in> set aids \<and> action_allowed action (a_status a)) (acted e action) (allocations d) \<and>
    same_keys d d'"
proof -
  from assms(1) have act: "action \<in> set bulk_actions" and run: "bulk (action_item e action) aids d = (items, d')"
    by (auto simp: bulk_allocation_action_def failed_def split: if_splits prod.splits)
  from run assms(2,3) show ?thesis
  proof (induction aids arbitrary: d items)
    case Nil
    then show ?case by (auto simp: same_keys_def update_where_def)
  next
    case (Cons aid rest)
    obtain r d1 where one: "action_item e action aid d = (r, d1)" by fastforce
    with Cons.prems(1) obtain more_items where more: "bulk (action_item e action) rest d1 = (more_items, d')"
        and items: "items = (aid, r) # more_items"
      by (cases r) (auto split: prod.splits)
    note eff = action_item_effect [OF Cons.prems(3) act one]
    have ids: "map a_id (allocations d1) = map a_id (allocations d)" by (simp add: eff(2) map_update_where)
    have other: "get_allocation i d1 = get_allocation i d" if "i \<noteq> aid" for i
      using that by (auto simp: get_allocation_def eff(2) intro!: find_update_irrelevant)
    from Cons.IH [OF more] Cons.prems(2,3) ids have ih: "more_items = map (\<lambda>i. (i, action_outcome action d1 i)) rest"
      "allocations d' = update_where (\<lambda>a. a_id a \<in> set rest \<and> action_allowed action (a_status a)) (acted e action) (allocations d1)"
      "same_keys d1 d'" by simp_all
    have "more_items = map (\<lambda>i. (i, action_outcome action d i)) rest"
    proof -
      have "action_outcome action d1 i = action_outcome action d i" if "i \<in> set rest" for i
      proof -
        have "i \<noteq> aid" using Cons.prems(2) that by auto
        then show ?thesis by (simp add: action_outcome_def other)
      qed
      then show ?thesis by (simp add: ih(1))
    qed
    moreover have "aid \<notin> set rest" using Cons.prems(2) by simp
    from update_where_more [OF acted_id this] ih(2) eff(2)
    have "allocations d' = update_where (\<lambda>a. a_id a \<in> set (aid # rest) \<and> action_allowed action (a_status a)) (acted e action) (allocations d)"
      by simp
    ultimately show ?case using items eff(1) same_keys_trans [OF eff(3) ih(3)] by simp
  qed
qed

theorem bulk_action_effect_witness:
  "map a_status (allocations (snd (bulk_allocation_action sample_env [''U00'', ''x''] ''pause'' one_grant))) = [paused]"
proof -
  obtain items d' where run: "bulk_allocation_action sample_env [''U00'', ''x''] ''pause'' one_grant = (Inr items, d')"
    by (cases "bulk (action_item sample_env ''pause'') [''U00'', ''x''] one_grant")
       (simp add: bulk_allocation_action_def bulk_actions_def)
  obtain a where a: "allocations one_grant = [a]" using one_grant_rows(2) by (cases "allocations one_grant") auto
  with bulk_action_effect [OF run] one_grant_rows(2,4)
  show ?thesis by (simp add: run action_allowed_def acted_def)
qed

end
