(* ===== verification/Usage.thy ===== *)
theory Usage
  imports MyAccount
begin

text \<open>
  The usage reports: the sums by member, allocation, model, tag or provider, the time series and the
  heat map of \<open>services/usage.py\<close>, and the endpoints that show them, \<open>api/usage.py\<close> for the
  administrator and those of \<open>api/me.py\<close> for a member.  A query with GROUP BY is \<open>grouped\<close>, the keys in
  the order of their first row; SQL leaves the order of equal sums open, here it is that of the keys.
  The session of the database runs in UTC.  Reports write nothing.
\<close>

section \<open>Sums\<close>

definition grouped :: "('x \<Rightarrow> 'k) \<Rightarrow> 'x list \<Rightarrow> ('k \<times> 'x list) list" where
  "grouped key xs = map (\<lambda>k. (k, filter (\<lambda>x. key x = k) xs)) (dedupe (map key xs))"

record usage_item =
  ui_group_key :: string
  ui_display_name :: "string option"
  ui_total :: int
  ui_prompt :: int
  ui_completion :: int
  ui_cost :: decimal
  ui_calls :: nat
  ui_service :: "bool option"
  ui_reasoning :: int
  ui_cached :: int

definition usage_item_of :: "string \<Rightarrow> string option \<Rightarrow> bool option \<Rightarrow> call_record list \<Rightarrow> usage_item" where
  "usage_item_of key name service rs =
     \<lparr>ui_group_key = key, ui_display_name = name, ui_total = sum_column r_total_tokens rs,
      ui_prompt = sum_column r_prompt_tokens rs, ui_completion = sum_column r_completion_tokens rs,
      ui_cost = dec_sum (List.map_filter r_cost_usd rs), ui_calls = length rs, ui_service = service,
      ui_reasoning = sum_column r_reasoning_tokens rs, ui_cached = sum_column r_cached_tokens rs\<rparr>"

definition counted :: "timestamp \<Rightarrow> timestamp \<Rightarrow> call_record \<Rightarrow> bool" where
  "counted t0 t1 r \<longleftrightarrow> r_outcome r = success \<and> t0 \<le> r_started_at r \<and> r_started_at r < t1"

text \<open>An inner join: every pair of rows that match.\<close>

definition join_rows :: "('x \<Rightarrow> 'y \<Rightarrow> bool) \<Rightarrow> 'x list \<Rightarrow> 'y list \<Rightarrow> ('x \<times> 'y) list" where
  "join_rows on xs ys = concat (map (\<lambda>x. map (Pair x) (filter (on x) ys)) xs)"

definition usage_join ::
  "timestamp \<Rightarrow> timestamp \<Rightarrow> bool \<Rightarrow> string option \<Rightarrow> db \<Rightarrow> (call_record \<times> allocation) list" where
  "usage_join t0 t1 service_only mid d =
     filter (\<lambda>(r, a). (service_only \<longrightarrow> a_is_service a) \<and>
                      (case mid of None \<Rightarrow> True | Some m \<Rightarrow> a_member_id a = m))
       (join_rows (\<lambda>r a. r_allocation_id r = Some (a_id a)) (filter (counted t0 t1) (call_records d))
         (allocations d))"

definition member_items :: "(call_record \<times> allocation) list \<Rightarrow> db \<Rightarrow> usage_item list" where
  "member_items rows d =
     map (\<lambda>((mid, email, name), rs).
          usage_item_of mid (Some (if name \<noteq> [] then name else email)) None (map (fst \<circ> fst) rs))
       (grouped (\<lambda>(x, m). (m_id m, m_email m, m_display_name m))
         (join_rows (\<lambda>(r, a) m. m_id m = a_member_id a) rows (members d)))"

definition allocation_items :: "(call_record \<times> allocation) list \<Rightarrow> usage_item list" where
  "allocation_items rows =
     map (\<lambda>((aid, subject, service), rs). usage_item_of aid (Some subject) (Some service) (map fst rs))
       (grouped (\<lambda>(r, a). (a_id a, a_subject_snapshot a, a_is_service a)) rows)"

definition tag_items :: "(call_record \<times> allocation) list \<Rightarrow> db \<Rightarrow> usage_item list" where
  "tag_items rows d =
     map (\<lambda>(t, rs). usage_item_of t (Some t) None (map (fst \<circ> fst) rs))
       (grouped (\<lambda>(x, t). mt_tag t)
         (join_rows (\<lambda>(r, a) t. mt_member_id t = a_member_id a) rows (member_tags d)))"

definition provider_items :: "(call_record \<times> allocation) list \<Rightarrow> db \<Rightarrow> usage_item list" where
  "provider_items rows d =
     map (\<lambda>(p, rs). usage_item_of p (Some p) None (map (fst \<circ> fst) rs))
       (grouped (\<lambda>(x, mc). mc_provider mc)
         (join_rows (\<lambda>(r, a) mc. r_model r = Some (mc_slug mc)) rows (catalog d)))"

definition model_items :: "(call_record \<times> allocation) list \<Rightarrow> usage_item list" where
  "model_items rows =
     map (\<lambda>(model, rs). usage_item_of (if nonempty_text model then the model else ''(none)'') model None (map fst rs))
       (grouped (\<lambda>(r, a). r_model r) rows)"

datatype usage_dimension = ByMember | ByAllocation | ByModel | ByTag | ByProvider

definition aggregate_usage ::
  "usage_dimension \<Rightarrow> timestamp \<Rightarrow> timestamp \<Rightarrow> bool \<Rightarrow> string option \<Rightarrow> db \<Rightarrow> usage_item list" where
  "aggregate_usage grp t0 t1 service_only mid d =
     (let rows = usage_join t0 t1 service_only mid d in
      sort_key (\<lambda>i. - ui_total i)
        (case grp of
           ByMember \<Rightarrow> member_items rows d
         | ByAllocation \<Rightarrow> allocation_items rows
         | ByTag \<Rightarrow> tag_items rows d
         | ByProvider \<Rightarrow> provider_items rows d
         | ByModel \<Rightarrow> model_items rows))"

definition aggregate_usage_for_tag_members ::
  "string \<Rightarrow> timestamp \<Rightarrow> timestamp \<Rightarrow> bool \<Rightarrow> db \<Rightarrow> usage_item list" where
  "aggregate_usage_for_tag_members tag t0 t1 service_only d =
     (let tagged = map mt_member_id (filter (\<lambda>t. mt_tag t = tag) (member_tags d));
          rows = filter (\<lambda>(r, a). a_member_id a \<in> set tagged) (usage_join t0 t1 service_only None d)
      in sort_key (\<lambda>i. - ui_total i) (member_items rows d))"

definition count_unpriced_calls :: "string \<Rightarrow> timestamp \<Rightarrow> timestamp \<Rightarrow> db \<Rightarrow> nat" where
  "count_unpriced_calls mid t0 t1 d =
     length (filter (\<lambda>(r, a). (case r_total_tokens r of None \<Rightarrow> False | Some n \<Rightarrow> 0 < n) \<and>
         (case r_cost_usd r of None \<Rightarrow> True | Some c \<Rightarrow> dec_coeff c = 0))
       (usage_join t0 t1 False (Some mid) d))"

section \<open>Charts\<close>

datatype bucket = Hour | Day

definition bucket_length :: "bucket \<Rightarrow> int" where
  "bucket_length b = (case b of Hour \<Rightarrow> seconds 3600 | Day \<Rightarrow> seconds 86400)"

text \<open>\<open>date_trunc\<close> in UTC: times count from a midnight.\<close>

definition bucket_start :: "bucket \<Rightarrow> timestamp \<Rightarrow> timestamp" where
  "bucket_start b t = t - t mod bucket_length b"

record timeseries_point =
  tp_ts :: timestamp
  tp_tokens :: int
  tp_cost :: decimal
  tp_calls :: nat

definition chart_calls ::
  "string option \<Rightarrow> string option \<Rightarrow> timestamp \<Rightarrow> timestamp \<Rightarrow> db \<Rightarrow> call_record list" where
  "chart_calls aid mid t0 t1 d =
     (let rows = filter (\<lambda>r. counted t0 t1 r \<and> (case aid of None \<Rightarrow> True | Some a \<Rightarrow> r_allocation_id r = Some a))
                   (call_records d)
      in case mid of None \<Rightarrow> rows
         | Some m \<Rightarrow> map fst (filter (\<lambda>(r, a). a_member_id a = m)
             (join_rows (\<lambda>r a. r_allocation_id r = Some (a_id a)) rows (allocations d))))"

definition usage_timeseries ::
  "string option \<Rightarrow> string option \<Rightarrow> bucket \<Rightarrow> timestamp \<Rightarrow> timestamp \<Rightarrow> db \<Rightarrow> timeseries_point list" where
  "usage_timeseries aid mid b t0 t1 d =
     sort_key tp_ts
       (map (\<lambda>(t, rs). \<lparr>tp_ts = t, tp_tokens = sum_column r_total_tokens rs,
               tp_cost = dec_sum (List.map_filter r_cost_usd rs), tp_calls = length rs\<rparr>)
         (grouped (\<lambda>r. bucket_start b (r_started_at r)) (chart_calls aid mid t0 t1 d)))"

record heat_cell =
  hc_weekday :: int
  hc_hour :: int
  hc_tokens :: int
  hc_calls :: nat

text \<open>The first of January 1970 was a Thursday; Sunday is 0.\<close>

definition weekday_hour :: "timestamp \<Rightarrow> int \<times> int" where
  "weekday_hour t =
     (let h = (t + seconds (8 * 3600)) div seconds 3600 in ((h div 24 + 4) mod 7, h mod 24))"

definition usage_heatmap :: "timestamp \<Rightarrow> timestamp \<Rightarrow> string option \<Rightarrow> db \<Rightarrow> heat_cell list" where
  "usage_heatmap t0 t1 aid d =
     sort_key (\<lambda>c. 24 * hc_weekday c + hc_hour c)
       (map (\<lambda>((w, h), rs). \<lparr>hc_weekday = w, hc_hour = h, hc_tokens = sum_column r_total_tokens rs,
               hc_calls = length rs\<rparr>)
         (grouped (\<lambda>r. weekday_hour (r_started_at r))
           (chart_calls (if nonempty_text aid then aid else None) None t0 t1 d)))"

section \<open>The administrator's reports\<close>

definition max_range :: int where
  "max_range = days 90"

definition validate_range :: "timestamp \<Rightarrow> timestamp \<Rightarrow> http_error option" where
  "validate_range t0 t1 =
     (if t1 \<le> t0 then Some (400, ''invalid_time_range'')
      else if max_range < t1 - t0 then Some (400, ''range_too_wide'') else None)"

definition in_range :: "timestamp \<Rightarrow> timestamp \<Rightarrow> 'a \<Rightarrow> http_error + 'a" where
  "in_range t0 t1 x = (case validate_range t0 t1 of Some err \<Rightarrow> Inl err | None \<Rightarrow> Inr x)"

text \<open>An item as it is shown: its cost is a float.\<close>

definition shown_cost :: "decimal \<Rightarrow> rat" where
  "shown_cost c = float_round (dec_val c)"

definition serialize_items :: "usage_item list \<Rightarrow> (usage_item \<times> rat) list" where
  "serialize_items items = map (\<lambda>i. (i, shown_cost (ui_cost i))) items"

definition get_usage ::
  "usage_dimension \<Rightarrow> timestamp \<Rightarrow> timestamp \<Rightarrow> bool \<Rightarrow> db \<Rightarrow> http_error + (usage_item \<times> rat) list" where
  "get_usage grp t0 t1 service_only d =
     in_range t0 t1 (serialize_items (aggregate_usage grp t0 t1 service_only None d))"

definition get_tag_members ::
  "string \<Rightarrow> timestamp \<Rightarrow> timestamp \<Rightarrow> bool \<Rightarrow> db \<Rightarrow> http_error + (usage_item \<times> rat) list" where
  "get_tag_members tag t0 t1 service_only d =
     in_range t0 t1 (serialize_items (aggregate_usage_for_tag_members tag t0 t1 service_only d))"

definition hourly_too_wide :: "bucket \<Rightarrow> timestamp \<Rightarrow> timestamp \<Rightarrow> bool" where
  "hourly_too_wide b t0 t1 \<longleftrightarrow> b = Hour \<and> days 7 < t1 - t0"

definition get_platform_timeseries ::
  "bucket \<Rightarrow> timestamp \<Rightarrow> timestamp \<Rightarrow> db \<Rightarrow> http_error + timeseries_point list" where
  "get_platform_timeseries b t0 t1 d =
     (case validate_range t0 t1 of
        Some err \<Rightarrow> Inl err
      | None \<Rightarrow> if hourly_too_wide b t0 t1 then Inl (400, ''range_too_wide_for_bucket'')
                else Inr (usage_timeseries None None b t0 t1 d))"

definition get_allocation_timeseries ::
  "string \<Rightarrow> bucket \<Rightarrow> timestamp \<Rightarrow> timestamp \<Rightarrow> db \<Rightarrow> http_error + timeseries_point list" where
  "get_allocation_timeseries aid b t0 t1 d =
     (case validate_range t0 t1 of
        Some err \<Rightarrow> Inl err
      | None \<Rightarrow> if hourly_too_wide b t0 t1 then Inl (400, ''range_too_wide_for_bucket'')
                else if get_allocation aid d = None then Inl (404, ''not_found'')
                else Inr (usage_timeseries (Some aid) None b t0 t1 d))"

definition get_usage_heatmap :: "timestamp \<Rightarrow> timestamp \<Rightarrow> db \<Rightarrow> http_error + heat_cell list" where
  "get_usage_heatmap t0 t1 d = in_range t0 t1 (usage_heatmap t0 t1 None d)"

section \<open>The CSV export\<close>

text \<open>\<open>csv.writer\<close> with its defaults: a field is quoted if it holds a comma, a quote or a line break,
  and a quote within it is doubled.\<close>

definition csv_special :: "char \<Rightarrow> bool" where
  "csv_special c \<longleftrightarrow> c = CHR '','' \<or> c = CHR 0x22 \<or> c = CHR 0x0D \<or> c = CHR 0x0A"

fun double_quotes :: "string \<Rightarrow> string" where
  "double_quotes [] = []"
| "double_quotes (c # cs) = (if c = CHR 0x22 then c # c # double_quotes cs else c # double_quotes cs)"

definition csv_field :: "string \<Rightarrow> string" where
  "csv_field s = (if list_ex csv_special s then CHR 0x22 # double_quotes s @ [CHR 0x22] else s)"

fun csv_fields :: "string list \<Rightarrow> string" where
  "csv_fields [] = []"
| "csv_fields [s] = csv_field s"
| "csv_fields (s # ss) = csv_field s @ '','' @ csv_fields ss"

definition csv_row :: "string list \<Rightarrow> string" where
  "csv_row ss = csv_fields ss @ [CHR 0x0D, CHR 0x0A]"

definition csv_header :: "usage_dimension \<Rightarrow> string list" where
  "csv_header grp =
     [''group_key'', ''display_name'', ''total_tokens'', ''prompt_tokens'', ''completion_tokens'',
      ''reasoning_tokens'', ''cached_tokens'', ''total_cost_usd'', ''call_count''] @
     (if grp = ByAllocation then [''is_service_allocation''] else [])"

text \<open>The byte order mark in UTF-8.\<close>

definition csv_bom :: string where
  "csv_bom = [CHR 0xEF, CHR 0xBB, CHR 0xBF]"

definition bool_text :: "bool \<Rightarrow> string" where
  "bool_text b = (if b then ''True'' else ''False'')"

definition csv_cells :: "usage_dimension \<Rightarrow> usage_item \<Rightarrow> string list" where
  "csv_cells grp i =
     [ui_group_key i, case ui_display_name i of None \<Rightarrow> [] | Some n \<Rightarrow> n, int_text (ui_total i),
      int_text (ui_prompt i), int_text (ui_completion i), int_text (ui_reasoning i),
      int_text (ui_cached i), float_text (shown_cost (ui_cost i)), nat_text (ui_calls i)] @
     (if grp = ByAllocation then [case ui_service i of None \<Rightarrow> [] | Some b \<Rightarrow> bool_text b] else [])"

definition get_usage_csv ::
  "usage_dimension \<Rightarrow> timestamp \<Rightarrow> timestamp \<Rightarrow> bool \<Rightarrow> db \<Rightarrow> http_error + string" where
  "get_usage_csv grp t0 t1 service_only d =
     in_range t0 t1 (csv_bom @ csv_row (csv_header grp) @
       concat (map (csv_row \<circ> csv_cells grp) (aggregate_usage grp t0 t1 service_only None d)))"

section \<open>Why an allocation is quarantined\<close>

text \<open>The sentence of the reply is built from the same values and left out.\<close>

record quarantine_report =
  qr_event :: "audit_event option"
  qr_reason :: json
  qr_last_hour_calls :: json
  qr_baseline_per_hour :: json
  qr_occurred_at :: "timestamp option"

definition get_quarantine_reason :: "string \<Rightarrow> db \<Rightarrow> http_error + quarantine_report" where
  "get_quarantine_reason aid d =
     (if get_allocation aid d = None then Inl (404, ''not_found'')
      else case sort_key (\<lambda>u. - au_created_at u)
          (filter (\<lambda>u. au_target_type u = Some ''allocation'' \<and> au_target_id u = Some aid \<and>
              au_event_type u \<in> {allocation_quarantined, allocation_paused}) (audit_log d)) of
        [] \<Rightarrow> Inr \<lparr>qr_event = None, qr_reason = JNull, qr_last_hour_calls = JNull,
                   qr_baseline_per_hour = JNull, qr_occurred_at = None\<rparr>
      | u # _ \<Rightarrow>
          (let details = (case au_details u of None \<Rightarrow> [] | Some kvs \<Rightarrow> kvs)
           in Inr \<lparr>qr_event = Some (au_event_type u), qr_reason = jget details ''reason'',
                   qr_last_hour_calls = jget details ''last_hour_calls'',
                   qr_baseline_per_hour = jget details ''baseline_per_hour'',
                   qr_occurred_at = Some (au_created_at u)\<rparr>))"

section \<open>A member's own reports\<close>

definition or_default :: "timestamp option \<Rightarrow> timestamp \<Rightarrow> timestamp" where
  "or_default t t' = (case t of None \<Rightarrow> t' | Some x \<Rightarrow> x)"

text \<open>The default range is the current month until now.\<close>

definition own_range :: "env \<Rightarrow> timestamp option \<Rightarrow> timestamp option \<Rightarrow> timestamp \<times> timestamp" where
  "own_range e t0 t1 = (or_default t0 (current_month_start_utc (now e)), or_default t1 (now e))"

record usage_summary =
  us_item :: usage_item
  us_has_unpriced :: bool

definition summary_of :: "usage_item list \<Rightarrow> bool \<Rightarrow> usage_summary" where
  "summary_of rows unpriced =
     (case rows of
        [] \<Rightarrow> \<lparr>us_item = usage_item_of [] None None [], us_has_unpriced = False\<rparr>
      | i # _ \<Rightarrow> \<lparr>us_item = i, us_has_unpriced = unpriced\<rparr>)"

definition get_my_usage ::
  "env \<Rightarrow> timestamp option \<Rightarrow> timestamp option \<Rightarrow> usage_dimension option \<Rightarrow> member \<Rightarrow> db
     \<Rightarrow> http_error + usage_summary \<times> (usage_item \<times> rat) list option" where
  "get_my_usage e from_t to_t by_what m d =
     (case own_range e from_t to_t of (t0, t1) \<Rightarrow>
        if by_what \<notin> {None, Some ByModel, Some ByAllocation} then Inl (422, ''validation'')
        else in_range t0 t1
          (summary_of (aggregate_usage ByMember t0 t1 False (Some (m_id m)) d)
             (0 < count_unpriced_calls (m_id m) t0 t1 d),
           map_option (\<lambda>grp. serialize_items (aggregate_usage grp t0 t1 False (Some (m_id m)) d)) by_what))"

definition get_my_usage_timeseries ::
  "env \<Rightarrow> timestamp option \<Rightarrow> timestamp option \<Rightarrow> member \<Rightarrow> db \<Rightarrow> http_error + timeseries_point list" where
  "get_my_usage_timeseries e from_t to_t m d =
     (case own_range e from_t to_t of (t0, t1) \<Rightarrow>
        in_range t0 t1 (usage_timeseries None (Some (m_id m)) Day t0 t1 d))"

definition get_my_allocation_timeseries ::
  "env \<Rightarrow> string \<Rightarrow> timestamp option \<Rightarrow> timestamp option \<Rightarrow> member \<Rightarrow> db \<Rightarrow> http_error + timeseries_point list" where
  "get_my_allocation_timeseries e aid from_t to_t m d =
     (case own_allocation_or_error aid m d of
        Inl err \<Rightarrow> Inl err
      | Inr a \<Rightarrow> (case own_range e from_t to_t of (t0, t1) \<Rightarrow>
          in_range t0 t1 (usage_timeseries (Some aid) None Day t0 t1 d)))"

definition get_my_allocation_heatmap ::
  "env \<Rightarrow> string \<Rightarrow> timestamp option \<Rightarrow> timestamp option \<Rightarrow> member \<Rightarrow> db \<Rightarrow> http_error + heat_cell list" where
  "get_my_allocation_heatmap e aid from_t to_t m d =
     (case own_allocation_or_error aid m d of
        Inl err \<Rightarrow> Inl err
      | Inr a \<Rightarrow> (case own_range e from_t to_t of (t0, t1) \<Rightarrow>
          in_range t0 t1 (usage_heatmap t0 t1 (Some aid) d)))"

end
