(* ===== verification/UsageTheorems.thy ===== *)
theory UsageTheorems
  imports Usage PricingTheorems "HOL-Library.Multiset"
begin

text \<open>
  The usage reports: whatever the grouping, the sums of a report add up to the calls of the range, a
  member's report is her line of the administrator's, the charts show every call once, and the CSV
  export reads back as the table it was written from.
\<close>

section \<open>Groups\<close>

lemma sum_list_groups:
  fixes w :: "'x \<Rightarrow> 'a::comm_monoid_add"
  assumes "finite K" "key ` set xs \<subseteq> K"
  shows "(\<Sum>k \<in> K. \<Sum>x \<leftarrow> filter (\<lambda>x. key x = k) xs. w x) = (\<Sum>x \<leftarrow> xs. w x)"
  using assms(2)
proof (induction xs)
  case (Cons x xs)
  have "(\<Sum>k \<in> K. \<Sum>y \<leftarrow> filter (\<lambda>y. key y = k) (x # xs). w y) =
      (\<Sum>k \<in> K. (if k = key x then w x else 0) + (\<Sum>y \<leftarrow> filter (\<lambda>y. key y = k) xs. w y))"
    by (rule sum.cong) auto
  also have "\<dots> = w x + (\<Sum>x \<leftarrow> xs. w x)"
    using Cons assms(1) by (simp add: sum.distrib)
  finally show ?case by simp
qed simp

lemma grouped_sum:
  fixes w :: "'x \<Rightarrow> 'a::comm_monoid_add"
  shows "(\<Sum>g \<leftarrow> grouped key xs. \<Sum>x \<leftarrow> snd g. w x) = (\<Sum>x \<leftarrow> xs. w x)"
proof -
  have "(\<Sum>g \<leftarrow> grouped key xs. \<Sum>x \<leftarrow> snd g. w x) =
      (\<Sum>k \<in> set (dedupe (map key xs)). \<Sum>x \<leftarrow> filter (\<lambda>x. key x = k) xs. w x)"
    by (simp add: grouped_def o_def sum_list_distinct_conv_sum_set distinct_dedupe)
  then show ?thesis by (simp add: sum_list_groups)
qed

lemma dedupe_filter: "dedupe (filter p xs) = filter p (dedupe xs)"
proof (induction xs rule: dedupe.induct)
  case (2 x xs)
  have c: "filter (\<lambda>y. y \<noteq> x) (filter p xs) = filter p (filter (\<lambda>y. y \<noteq> x) xs)"
    by (simp add: conj_commute)
  have "\<not> p x \<Longrightarrow> filter p (filter (\<lambda>y. y \<noteq> x) xs) = filter p xs"
    by (auto intro: filter_cong)
  with 2 c show ?case by (cases "p x") (simp_all del: filter_filter)
qed simp

lemma grouped_filter:
  "grouped key (filter (\<lambda>x. p (key x)) xs) = filter (\<lambda>g. p (fst g)) (grouped key xs)"
proof -
  have "dedupe (map key (filter (\<lambda>x. p (key x)) xs)) = filter p (dedupe (map key xs))"
    by (simp add: dedupe_filter [symmetric] filter_map o_def)
  then show ?thesis
    by (auto simp: grouped_def filter_map o_def intro!: map_cong filter_cong)
qed

lemma sum_list_sort_key:
  fixes f :: "'x \<Rightarrow> 'a::comm_monoid_add"
  shows "(\<Sum>x \<leftarrow> sort_key k xs. f x) = (\<Sum>x \<leftarrow> xs. f x)"
  by (metis mset_map mset_sort sum_mset_sum_list)

section \<open>What a report measures\<close>

text \<open>The columns of a report that add up over its calls.\<close>

locale tally =
  fixes measure :: "usage_item \<Rightarrow> 'a::comm_monoid_add" and weight :: "call_record \<Rightarrow> 'a"
  assumes item: "measure (usage_item_of key name service rs) = (\<Sum>r \<leftarrow> rs. weight r)"
begin

lemma groups:
  assumes "\<And>g. measure (f g) = (\<Sum>x \<leftarrow> snd g. weight (call x))"
  shows "(\<Sum>i \<leftarrow> map f (grouped key xs). measure i) = (\<Sum>x \<leftarrow> xs. weight (call x))"
  using grouped_sum [of "\<lambda>x. weight (call x)" key xs] by (simp add: o_def assms)

lemma allocations_sum: "(\<Sum>i \<leftarrow> allocation_items rows. measure i) = (\<Sum>x \<leftarrow> rows. weight (fst x))"
  unfolding allocation_items_def by (rule groups) (simp add: item o_def split: prod.split)

lemma models_sum: "(\<Sum>i \<leftarrow> model_items rows. measure i) = (\<Sum>x \<leftarrow> rows. weight (fst x))"
  unfolding model_items_def by (rule groups) (simp add: item o_def split: prod.split)

lemma join_sum:
  assumes "\<And>x. x \<in> set xs \<Longrightarrow> \<exists>y. filter (on x) ys = [y]"
  shows "(\<Sum>z \<leftarrow> join_rows on xs ys. w (fst z)) = (\<Sum>x \<leftarrow> xs. w x)"
  using assms
proof (induction xs)
  case (Cons x xs)
  then obtain y where "filter (on x) ys = [y]" by fastforce
  with Cons show ?case by (simp add: join_rows_def)
qed (simp add: join_rows_def)

lemma members_sum:
  assumes "distinct (map m_id (members d))"
    and "\<And>x. x \<in> set rows \<Longrightarrow> a_member_id (snd x) \<in> m_id ` set (members d)"
  shows "(\<Sum>i \<leftarrow> member_items rows d. measure i) = (\<Sum>x \<leftarrow> rows. weight (fst x))"
proof -
  have one: "\<exists>m. filter (\<lambda>m. m_id m = a_member_id a) (members d) = [m]" if "(r, a) \<in> set rows" for r a
  proof -
    from assms(2) [OF that] obtain m where "m \<in> set (members d)" "m_id m = a_member_id a" by auto
    with filter_unique [OF assms(1), of m] show ?thesis by auto
  qed
  have "(\<Sum>i \<leftarrow> member_items rows d. measure i) =
      (\<Sum>z \<leftarrow> join_rows (\<lambda>(r, a) m. m_id m = a_member_id a) rows (members d). weight (fst (fst z)))"
    unfolding member_items_def by (rule groups) (simp add: item o_def split: prod.split)
  also have "\<dots> = (\<Sum>x \<leftarrow> rows. weight (fst x))"
    by (rule join_sum) (use one in auto)
  finally show ?thesis .
qed

end

definition count_of :: "int option \<Rightarrow> int" where
  "count_of n = (case n of None \<Rightarrow> 0 | Some k \<Rightarrow> k)"

definition money_of :: "decimal option \<Rightarrow> rat" where
  "money_of c = (case c of None \<Rightarrow> 0 | Some x \<Rightarrow> dec_val x)"

lemma sum_column_count: "sum_column f rs = (\<Sum>r \<leftarrow> rs. count_of (f r))"
  by (induction rs) (simp_all add: sum_column_def count_of_def List.map_filter_simps split: option.split)

lemma sum_money: "dec_val (dec_sum (List.map_filter f rs)) = (\<Sum>r \<leftarrow> rs. money_of (f r))"
  by (simp add: dec_val_sum) (induction rs, simp_all add: money_of_def List.map_filter_simps split: option.split)

interpretation total_tally: tally ui_total "\<lambda>r. count_of (r_total_tokens r)"
  by unfold_locales (simp add: usage_item_of_def sum_column_count)
interpretation prompt_tally: tally ui_prompt "\<lambda>r. count_of (r_prompt_tokens r)"
  by unfold_locales (simp add: usage_item_of_def sum_column_count)
interpretation completion_tally: tally ui_completion "\<lambda>r. count_of (r_completion_tokens r)"
  by unfold_locales (simp add: usage_item_of_def sum_column_count)
interpretation cost_tally: tally "\<lambda>i. dec_val (ui_cost i)" "\<lambda>r. money_of (r_cost_usd r)"
  by unfold_locales (simp add: usage_item_of_def sum_money)
interpretation calls_tally: tally ui_calls "\<lambda>r. 1"
  by unfold_locales (simp add: usage_item_of_def sum_list_triv)

section \<open>The reports add up\<close>

definition attributed :: "timestamp \<Rightarrow> timestamp \<Rightarrow> db \<Rightarrow> call_record list" where
  "attributed t0 t1 d =
     filter (\<lambda>r. counted t0 t1 r \<and> r_allocation_id r \<in> Some ` a_id ` set (allocations d)) (call_records d)"

lemma join_attributed:
  fixes w :: "call_record \<Rightarrow> 'a::comm_monoid_add"
  assumes "distinct (map a_id (allocations d))"
  shows "(\<Sum>x \<leftarrow> usage_join t0 t1 False None d. w (fst x)) = (\<Sum>r \<leftarrow> attributed t0 t1 d. w r)"
proof -
  have one: "(\<Sum>x \<leftarrow> map (Pair r) (filter (\<lambda>a. r_allocation_id r = Some (a_id a)) (allocations d)). w (fst x)) =
      (if r_allocation_id r \<in> Some ` a_id ` set (allocations d) then w r else 0)" for r
  proof (cases "r_allocation_id r \<in> Some ` a_id ` set (allocations d)")
    case True
    then obtain a where "a \<in> set (allocations d)" "r_allocation_id r = Some (a_id a)" by auto
    moreover from this have "filter (\<lambda>b. r_allocation_id r = Some (a_id b)) (allocations d) =
        filter (\<lambda>b. a_id b = a_id a) (allocations d)" by (auto intro: filter_cong)
    ultimately show ?thesis using filter_unique [OF assms, of a] True by simp
  next
    case False
    then have "filter (\<lambda>a. r_allocation_id r = Some (a_id a)) (allocations d) = []"
      by (auto simp: filter_empty_conv)
    with False show ?thesis by simp
  qed
  have "(\<Sum>x \<leftarrow> join_rows (\<lambda>r a. r_allocation_id r = Some (a_id a)) rs (allocations d). w (fst x)) =
      (\<Sum>r \<leftarrow> filter (\<lambda>r. r_allocation_id r \<in> Some ` a_id ` set (allocations d)) rs. w r)" for rs
    by (induction rs) (simp_all add: join_rows_def one del: map_map)
  then show ?thesis by (simp add: usage_join_def attributed_def conj_commute)
qed

definition report_totals :: "usage_item list \<Rightarrow> (int \<times> int \<times> int) \<times> rat \<times> nat" where
  "report_totals is =
     ((\<Sum>i \<leftarrow> is. ui_total i, \<Sum>i \<leftarrow> is. ui_prompt i, \<Sum>i \<leftarrow> is. ui_completion i),
      \<Sum>i \<leftarrow> is. dec_val (ui_cost i), \<Sum>i \<leftarrow> is. ui_calls i)"

definition call_totals :: "call_record list \<Rightarrow> (int \<times> int \<times> int) \<times> rat \<times> nat" where
  "call_totals rs =
     ((\<Sum>r \<leftarrow> rs. count_of (r_total_tokens r), \<Sum>r \<leftarrow> rs. count_of (r_prompt_tokens r),
       \<Sum>r \<leftarrow> rs. count_of (r_completion_tokens r)),
      \<Sum>r \<leftarrow> rs. money_of (r_cost_usd r), length rs)"

lemma usage_join_allocations: "x \<in> set (usage_join t0 t1 s mid d) \<Longrightarrow> snd x \<in> set (allocations d)"
  by (auto simp: usage_join_def join_rows_def)

lemma join_calls:
  assumes "distinct (map a_id (allocations d))"
  shows "length (usage_join t0 t1 False None d) = length (attributed t0 t1 d)"
  using join_attributed [OF assms, of "\<lambda>_. (1::nat)" t0 t1] by (simp add: sum_list_triv)

text \<open>C27: grouped by member, by allocation or by model, the administrator's report counts the same
  successful calls of the range, those of the allocations that exist, each once: tokens, costs (as
  exact decimals) and numbers of calls of its lines add up to the same totals.\<close>

theorem usage_reports_agree:
  assumes "distinct (map a_id (allocations d))" "distinct (map m_id (members d))"
    and "\<And>a. a \<in> set (allocations d) \<Longrightarrow> a_member_id a \<in> m_id ` set (members d)"
    and "grp \<in> {ByMember, ByAllocation, ByModel}"
  shows "report_totals (aggregate_usage grp t0 t1 False None d) = call_totals (attributed t0 t1 d)"
proof -
  let ?rows = "usage_join t0 t1 False None d"
  have fk: "x \<in> set ?rows \<Longrightarrow> a_member_id (snd x) \<in> m_id ` set (members d)" for x
    using usage_join_allocations assms(3) by blast
  from assms(4) show ?thesis
    by (auto simp: aggregate_usage_def report_totals_def call_totals_def sum_list_sort_key
        total_tally.members_sum [OF assms(2) fk] prompt_tally.members_sum [OF assms(2) fk]
        completion_tally.members_sum [OF assms(2) fk] cost_tally.members_sum [OF assms(2) fk]
        calls_tally.members_sum [OF assms(2) fk]
        total_tally.allocations_sum prompt_tally.allocations_sum completion_tally.allocations_sum
        cost_tally.allocations_sum calls_tally.allocations_sum
        total_tally.models_sum prompt_tally.models_sum completion_tally.models_sum
        cost_tally.models_sum calls_tally.models_sum
        join_attributed [OF assms(1), of "\<lambda>r. count_of (r_total_tokens r)"]
        join_attributed [OF assms(1), of "\<lambda>r. count_of (r_prompt_tokens r)"]
        join_attributed [OF assms(1), of "\<lambda>r. count_of (r_completion_tokens r)"]
        join_attributed [OF assms(1), of "\<lambda>r. money_of (r_cost_usd r)"] sum_list_triv join_calls [OF assms(1)])
qed

text \<open>What a member sees as her usage is her line of the administrator's report by member.\<close>

theorem my_usage_is_my_line:
  "aggregate_usage ByMember t0 t1 s (Some mid) d =
     filter (\<lambda>i. ui_group_key i = mid) (aggregate_usage ByMember t0 t1 s None d)"
proof -
  let ?on = "\<lambda>(r :: call_record, a) m. m_id m = a_member_id a"
  have rows: "usage_join t0 t1 s (Some mid) d = filter (\<lambda>x. a_member_id (snd x) = mid) (usage_join t0 t1 s None d)"
    by (auto simp: usage_join_def case_prod_beta conj_commute intro!: filter_cong)
  have join: "join_rows ?on (filter (\<lambda>x. a_member_id (snd x) = mid) rows) ms =
      filter (\<lambda>z. m_id (snd z) = mid) (join_rows ?on rows ms)" for rows ms
    by (induction rows) (auto simp: join_rows_def filter_map o_def filter_empty_conv intro: filter_cong)
  have "member_items (filter (\<lambda>x. a_member_id (snd x) = mid) rows) d =
      filter (\<lambda>i. ui_group_key i = mid) (member_items rows d)" for rows
    using grouped_filter [where p = "\<lambda>k. fst k = mid" and key = "\<lambda>(x :: call_record \<times> allocation, m :: member). (m_id m, m_email m, m_display_name m)"]
    by (auto simp: member_items_def join filter_map o_def case_prod_beta usage_item_of_def)
  then show ?thesis by (simp add: aggregate_usage_def rows filter_sort)
qed

text \<open>Three calls of two members, one of them without a price.\<close>

definition usage_db :: db where
  "usage_db =
     (let call = (\<lambda>i aid t n c. \<lparr>r_id = i, r_request_id = i, r_allocation_id = Some aid, r_subject = None,
            r_model = Some ''azure/gpt-4o'', r_started_at = t, r_finished_at = t, r_status_code = 200,
            r_outcome = success, r_prompt_tokens = Some n, r_completion_tokens = Some 1,
            r_total_tokens = Some (n + 1), r_reasoning_tokens = None, r_cached_tokens = None,
            r_cost_usd = c, r_quantity = None, r_unit = None, r_error_message = None\<rparr>)
      in empty_db\<lparr>members := [sample_member, sample_member\<lparr>m_id := ''m2''\<rparr>],
           allocations := [sample_allocation ''a1'' ''azure/gpt-4o'',
                           (sample_allocation ''a2'' ''azure/gpt-4o'')\<lparr>a_member_id := ''m2''\<rparr>],
           call_records := [call ''r1'' ''a1'' 10 4 (Some (Dec 5 (- 1))), call ''r2'' ''a2'' 20 6 None,
                            call ''r3'' ''a1'' 30 8 (Some (Dec 25 (- 2)))]\<rparr>)"

lemma usage_db_rows:
  "map a_id (allocations usage_db) = [''a1'', ''a2'']" "map m_id (members usage_db) = [''m1'', ''m2'']"
  "a \<in> set (allocations usage_db) \<Longrightarrow> a_member_id a \<in> {''m1'', ''m2''}"
  "map r_id (attributed 0 25 usage_db) = [''r1'', ''r2'']"
  by (auto simp: usage_db_def sample_member_def sample_allocation_def attributed_def counted_def Let_def empty_db_def)

theorem usage_reports_agree_witness:
  "report_totals (aggregate_usage ByMember 0 25 False None usage_db) =
     call_totals (attributed 0 25 usage_db) \<and>
   map r_id (attributed 0 25 usage_db) = [''r1'', ''r2'']"
proof (intro conjI usage_reports_agree)
  have "m_id ` set (members usage_db) = {''m1'', ''m2''}"
    by (simp only: set_map [symmetric] usage_db_rows(2)) simp
  then show "a \<in> set (allocations usage_db) \<Longrightarrow> a_member_id a \<in> m_id ` set (members usage_db)" for a
    using usage_db_rows(3) by simp
qed (simp_all add: usage_db_rows)

section \<open>Charts\<close>

lemma chart_all: "chart_calls None None t0 t1 d = filter (counted t0 t1) (call_records d)"
  by (simp add: chart_calls_def)

lemma grouped_keys: "map fst (grouped key xs) = dedupe (map key xs)"
  by (simp add: grouped_def o_def)

lemma strictly_sorted_keys:
  fixes f :: "'x \<Rightarrow> 'k::linorder"
  assumes "distinct (map f xs)"
  shows "sorted_wrt (<) (map f (sort_key f xs))"
proof -
  have "mset (map f (sort_key f xs)) = mset (map f xs)" by (simp only: mset_map mset_sort)
  then have "distinct (map f (sort_key f xs))" using assms mset_eq_imp_distinct_iff by blast
  then show ?thesis by (simp add: strict_sorted_iff)
qed

lemma grouped_rows: "g \<in> set (grouped key xs) \<Longrightarrow> fst g \<in> key ` set xs"
  by (auto simp: grouped_def)

definition point_of :: "timestamp \<times> call_record list \<Rightarrow> timeseries_point" where
  "point_of g = \<lparr>tp_ts = fst g, tp_tokens = sum_column r_total_tokens (snd g),
     tp_cost = dec_sum (List.map_filter r_cost_usd (snd g)), tp_calls = length (snd g)\<rparr>"

definition cell_of :: "(int \<times> int) \<times> call_record list \<Rightarrow> heat_cell" where
  "cell_of g = \<lparr>hc_weekday = fst (fst g), hc_hour = snd (fst g),
     hc_tokens = sum_column r_total_tokens (snd g), hc_calls = length (snd g)\<rparr>"

lemma point_of_fields [simp]:
  "tp_ts (point_of g) = fst g" "tp_tokens (point_of g) = sum_column r_total_tokens (snd g)"
  "tp_calls (point_of g) = length (snd g)"
  by (simp_all add: point_of_def)

lemma cell_of_fields [simp]:
  "hc_weekday (cell_of g) = fst (fst g)" "hc_hour (cell_of g) = snd (fst g)"
  "hc_tokens (cell_of g) = sum_column r_total_tokens (snd g)" "hc_calls (cell_of g) = length (snd g)"
  by (simp_all add: cell_of_def)

lemma timeseries_points:
  "usage_timeseries None None b t0 t1 d = sort_key tp_ts (map point_of
     (grouped (\<lambda>r. bucket_start b (r_started_at r)) (filter (counted t0 t1) (call_records d))))"
proof -
  have "(\<lambda>(t, rs). \<lparr>tp_ts = t, tp_tokens = sum_column r_total_tokens rs,
      tp_cost = dec_sum (List.map_filter r_cost_usd rs), tp_calls = length rs\<rparr>) = point_of"
    by (rule ext) (simp add: point_of_def case_prod_beta)
  then show ?thesis by (simp only: usage_timeseries_def chart_all)
qed

lemma heatmap_cells:
  "usage_heatmap t0 t1 None d = sort_key (\<lambda>c. 24 * hc_weekday c + hc_hour c) (map cell_of
     (grouped (\<lambda>r. weekday_hour (r_started_at r)) (filter (counted t0 t1) (call_records d))))"
proof -
  have "(\<lambda>((w, h), rs). \<lparr>hc_weekday = w, hc_hour = h, hc_tokens = sum_column r_total_tokens rs,
      hc_calls = length rs\<rparr>) = cell_of"
    by (rule ext) (simp add: cell_of_def case_prod_beta)
  then show ?thesis by (simp only: usage_heatmap_def nonempty_text_def option.case if_False chart_all)
qed

lemma grouped_length: "(\<Sum>g \<leftarrow> grouped key xs. length (snd g)) = length xs"
  using grouped_sum [of "\<lambda>_. 1::nat" key xs] by (simp add: sum_list_triv)

lemma grouped_column: "(\<Sum>g \<leftarrow> grouped key rs. sum_column f (snd g)) = sum_column f rs"
  using grouped_sum [of "\<lambda>r. count_of (f r)" key rs] by (simp add: sum_column_count)

lemma heatmap_hours:
  shows "distinct (map (\<lambda>c. (hc_weekday c, hc_hour c)) (usage_heatmap t0 t1 None d))"
    and "length (usage_heatmap t0 t1 None d) \<le> 168"
proof -
  let ?hours = "\<lambda>c. (hc_weekday c, hc_hour c)"
  let ?cs = "grouped (\<lambda>r. weekday_hour (r_started_at r)) (filter (counted t0 t1) (call_records d))"
  let ?cells = "usage_heatmap t0 t1 None d"
  have hours: "map ?hours (map cell_of ?cs) = dedupe (map (\<lambda>r. weekday_hour (r_started_at r)) (filter (counted t0 t1) (call_records d)))"
    by (simp add: grouped_keys [symmetric] o_def)
  have perm: "mset (map ?hours ?cells) = mset (map ?hours (map cell_of ?cs))"
    by (simp only: heatmap_cells mset_map mset_sort)
  then show dist: "distinct (map ?hours ?cells)"
    unfolding hours using distinct_dedupe mset_eq_imp_distinct_iff by blast
  have "set (map ?hours ?cells) \<subseteq> {0..<7} \<times> {0..<24}"
    using mset_eq_setD [OF perm] unfolding hours by (auto simp: weekday_hour_def Let_def)
  then have "card (set (map ?hours ?cells)) \<le> card ({0..<7::int} \<times> {0..<24::int})"
    by (rule card_mono [rotated]) simp
  then show "length ?cells \<le> 168" using distinct_card [OF dist] by simp
qed

text \<open>The platform's time series and its heat map show every successful call of the range exactly
  once: the calls and the tokens of their points add up to those of the range, whatever the bucket;
  the points of the series are in strictly increasing order, each at the start of the bucket of a
  call, and the cells of the heat map are distinct hours of the week, at most 168.\<close>

theorem charts_show_every_call:
  "(let points = usage_timeseries None None b t0 t1 d; cells = usage_heatmap t0 t1 None d;
        calls = filter (counted t0 t1) (call_records d)
    in (\<Sum>p \<leftarrow> points. tp_calls p) = length calls \<and> (\<Sum>c \<leftarrow> cells. hc_calls c) = length calls \<and>
       (\<Sum>p \<leftarrow> points. tp_tokens p) = sum_column r_total_tokens calls \<and>
       (\<Sum>c \<leftarrow> cells. hc_tokens c) = sum_column r_total_tokens calls \<and>
       sorted_wrt (<) (map tp_ts points) \<and>
       set (map tp_ts points) \<subseteq> (\<lambda>r. bucket_start b (r_started_at r)) ` set calls \<and>
       distinct (map (\<lambda>c. (hc_weekday c, hc_hour c)) cells) \<and> length cells \<le> 168)"
  unfolding Let_def
proof (intro conjI)
  let ?calls = "filter (counted t0 t1) (call_records d)"
  let ?ps = "grouped (\<lambda>r. bucket_start b (r_started_at r)) ?calls"
  have ts: "map tp_ts (map point_of ?ps) = dedupe (map (\<lambda>r. bucket_start b (r_started_at r)) ?calls)"
    by (simp add: grouped_keys [symmetric] o_def)
  show "sorted_wrt (<) (map tp_ts (usage_timeseries None None b t0 t1 d))"
    unfolding timeseries_points by (rule strictly_sorted_keys) (simp only: ts distinct_dedupe)
  show "set (map tp_ts (usage_timeseries None None b t0 t1 d)) \<subseteq> (\<lambda>r. bucket_start b (r_started_at r)) ` set ?calls"
    by (auto simp: timeseries_points dest: grouped_rows)
qed (simp_all only: timeseries_points heatmap_cells sum_list_sort_key map_map o_def point_of_fields
       cell_of_fields grouped_length grouped_column heatmap_hours [unfolded heatmap_cells])

section \<open>The CSV export\<close>

text \<open>A reader of CSV, character by character: the rows read, the fields of the current one, the text
  of the current field and where in it the reader stands.\<close>

datatype csv_mode = AtStart | Plain | Quoted | QuoteSeen | AfterBreak

type_synonym csv_state = "string list list \<times> string list \<times> string \<times> csv_mode"

definition csv_end :: "csv_state \<Rightarrow> char \<Rightarrow> csv_state" where
  "csv_end s c = (case s of (rows, cols, t, mode) \<Rightarrow>
     if c = CHR '','' then (rows, cols @ [t], [], AtStart)
     else if c = CHR 0x0D then (rows @ [cols @ [t]], [], [], AfterBreak)
     else if c = CHR 0x0A then (rows, cols, t, AtStart)
     else (rows, cols, t @ [c], Plain))"

definition csv_step :: "csv_state \<Rightarrow> char \<Rightarrow> csv_state" where
  "csv_step s c = (case s of (rows, cols, t, mode) \<Rightarrow>
     if mode = Quoted then (rows, cols, if c = CHR 0x22 then t else t @ [c], if c = CHR 0x22 then QuoteSeen else Quoted)
     else if mode = QuoteSeen \<and> c = CHR 0x22 then (rows, cols, t @ [c], Quoted)
     else if mode = AtStart \<and> c = CHR 0x22 then (rows, cols, t, Quoted)
     else csv_end s c)"

definition csv_read :: "string \<Rightarrow> string list list" where
  "csv_read s = fst (foldl csv_step ([], [], [], AtStart) s)"

lemma csv_quoted:
  "foldl csv_step (rows, cols, t, Quoted) (double_quotes s) = (rows, cols, t @ s, Quoted)"
  by (induction s arbitrary: t) (simp_all add: csv_step_def)

lemma csv_plain:
  "\<not> list_ex csv_special s \<Longrightarrow> mode \<in> {AtStart, Plain} \<Longrightarrow>
     foldl csv_step (rows, cols, t, mode) s = (rows, cols, t @ s, if s = [] then mode else Plain)"
  by (induction s arbitrary: t mode) (auto simp: csv_step_def csv_end_def csv_special_def)

text \<open>A written field leaves its text, ready for the comma or the break that ends it.\<close>

lemma csv_field_read:
  obtains mode where "foldl csv_step (rows, cols, [], AtStart) (csv_field s) = (rows, cols, s, mode)"
    "mode \<in> {AtStart, Plain, QuoteSeen}"
proof (cases "list_ex csv_special s")
  case True
  then have "foldl csv_step (rows, cols, [], AtStart) (csv_field s) = (rows, cols, s, QuoteSeen)"
    by (simp add: csv_field_def csv_step_def [of "(rows, cols, [], AtStart)"] csv_quoted)
       (simp add: csv_step_def)
  with that show thesis by simp
next
  case False
  with csv_plain [OF False, of AtStart rows cols "[]"] that show thesis
    by (cases "s = []") (auto simp: csv_field_def)
qed

lemma csv_step_end: "c \<noteq> CHR 0x22 \<Longrightarrow> mode \<noteq> Quoted \<Longrightarrow> csv_step (rows, cols, t, mode) c = csv_end (rows, cols, t, mode) c"
  by (simp add: csv_step_def)

lemma csv_row_read:
  assumes "ss \<noteq> []"
  shows "foldl csv_step (rows, cols, [], AtStart) (csv_row ss) = (rows @ [cols @ ss], [], [], AtStart)"
  using assms
proof (induction ss arbitrary: cols rule: csv_fields.induct)
  case (2 s)
  obtain mode where "foldl csv_step (rows, cols, [], AtStart) (csv_field s) = (rows, cols, s, mode)"
    "mode \<in> {AtStart, Plain, QuoteSeen}" by (rule csv_field_read)
  then show ?case by (auto simp: csv_row_def csv_step_end csv_end_def)
next
  case (3 s s' ss)
  obtain mode where "foldl csv_step (rows, cols, [], AtStart) (csv_field s) = (rows, cols, s, mode)"
    "mode \<in> {AtStart, Plain, QuoteSeen}" by (rule csv_field_read)
  then have "foldl csv_step (rows, cols, [], AtStart) (csv_row (s # s' # ss)) =
      foldl csv_step (rows, cols @ [s], [], AtStart) (csv_row (s' # ss))"
    by (auto simp: csv_row_def csv_step_end csv_end_def)
  with "3.IH" show ?case by simp
qed simp

lemma csv_rows_read:
  "(\<And>ss. ss \<in> set rs \<Longrightarrow> ss \<noteq> []) \<Longrightarrow>
     foldl csv_step (rows, [], [], AtStart) (concat (map csv_row rs)) = (rows @ rs, [], [], AtStart)"
  by (induction rs arbitrary: rows) (simp_all add: csv_row_read)

text \<open>The CSV export reads back, after its byte order mark, as the header and one row per line of
  the report with exactly its cells: no name or model, whatever commas, quotes or line breaks it
  contains, adds a cell or a row.\<close>

theorem csv_export_round_trip:
  assumes "get_usage_csv grp t0 t1 service_only d = Inr text"
  shows "csv_read (drop (length csv_bom) text) =
    csv_header grp # map (csv_cells grp) (aggregate_usage grp t0 t1 service_only None d)"
proof -
  let ?rows = "csv_header grp # map (csv_cells grp) (aggregate_usage grp t0 t1 service_only None d)"
  from assms have "drop (length csv_bom) text = concat (map csv_row ?rows)"
    by (auto simp: get_usage_csv_def in_range_def o_def split: option.splits)
  moreover have "foldl csv_step ([], [], [], AtStart) (concat (map csv_row ?rows)) = ([] @ ?rows, [], [], AtStart)"
    by (rule csv_rows_read) (auto simp: csv_header_def csv_cells_def)
  ultimately show ?thesis by (simp only: csv_read_def append_Nil fst_conv)
qed

theorem csv_export_round_trip_witness:
  "csv_read (drop (length csv_bom) (projr (get_usage_csv ByMember 0 25 False usage_db))) =
     csv_header ByMember # map (csv_cells ByMember) (aggregate_usage ByMember 0 25 False None usage_db)"
  by (rule csv_export_round_trip)
     (simp add: get_usage_csv_def in_range_def validate_range_def max_range_def days_def)

end
