(* ===== verification/LitellmRegistry.thy ===== *)
theory LitellmRegistry
  imports PyDecimal Upstream StoredResponses "HOL-Library.AList"
begin

text \<open>
  \<open>services/litellm_registry.py\<close>: the model registry that ships with litellm, read as metadata and
  suggested prices for the catalog, and \<open>services/model_kind.py\<close> with the table of
  \<open>services/model_test.py\<close>: which kind of model a catalog row is, and whether and at what cost it can be
  tested.  The registry itself (\<open>litellm.model_cost\<close>, or the copy fetched from its repository) is an
  argument: a dictionary from keys to objects.
\<close>

section \<open>Entries\<close>

type_synonym entry = "(string \<times> json) list"
type_synonym registry = "(string \<times> entry) list"

definition syncable_fields :: "string list" where
  "syncable_fields = [''context_window'', ''modality_input'', ''modality_output'', ''capabilities'']"

text \<open>\<open>int(v)\<close>: the underscores of a text must stand between digits.\<close>

definition py_int :: "json \<Rightarrow> int option" where
  "py_int v =
     (case v of JInt n \<Rightarrow> Some n | JBool b \<Rightarrow> Some (if b then 1 else 0) | JNum r \<Rightarrow> Some (py_int_of_float r)
      | JStr s \<Rightarrow> (case sign_of (strip s) of (neg, body) \<Rightarrow>
          let groups = split_on (\<lambda>c. c = CHR ''_'') [] body in
          if list_all (\<lambda>g. g \<noteq> [] \<and> list_all is_digit g) groups
          then Some (with_sign neg (int (text_nat (concat groups)))) else None)
      | _ \<Rightarrow> None)"

definition json_or :: "json \<Rightarrow> json \<Rightarrow> json" where
  "json_or a b = (if truthy a then a else b)"

definition mode_of_entry :: "entry \<Rightarrow> json" where
  "mode_of_entry en = json_or (jget en ''mode'') (JStr ''chat'')"

definition modality :: "entry \<Rightarrow> string list \<times> string list" where
  "modality en =
     (let mode = mode_of_entry en in
      if mode = JStr ''image_generation'' then ([''text''], [''image''])
      else if mode = JStr ''audio_transcription'' then ([''audio''], [''text''])
      else if mode = JStr ''audio_speech'' then ([''text''], [''audio''])
      else (if truthy (jget en ''supports_vision'') then [''text'', ''image''] else [''text''], [''text'']))"

text \<open>The flags that name a capability, in the order in which they are read.\<close>

definition capability_flags :: "(string list \<times> string) list" where
  "capability_flags =
     [([''supports_function_calling''], ''function-calling''), ([''supports_vision''], ''vision''),
      ([''supports_reasoning''], ''reasoning''), ([''supports_pdf_input''], ''pdf''),
      ([''supports_prompt_caching''], ''prompt-caching''), ([''supports_web_search''], ''web-search''),
      ([''supports_audio_input'', ''supports_audio_output''], ''audio''),
      ([''supports_video_input''], ''video''),
      ([''supports_native_structured_output''], ''structured-output''),
      ([''supports_computer_use''], ''computer-use'')]"

definition capabilities_of_entry :: "entry \<Rightarrow> string list" where
  "capabilities_of_entry en =
     (if mode_of_entry en \<in> JStr ` {''chat'', ''completion'', ''responses''} then [''chat''] else []) @
     map snd (filter (\<lambda>(flags, cap). list_ex (\<lambda>f. truthy (jget en f)) flags) capability_flags)"

record metadata =
  md_context_window :: int
  md_modality_input :: "string list"
  md_modality_output :: "string list"
  md_capabilities :: "string list"

text \<open>No metadata when the token limit is no number: \<open>int\<close> raises.\<close>

definition metadata_from_entry :: "entry \<Rightarrow> metadata option" where
  "metadata_from_entry en =
     map_option (\<lambda>ctx. \<lparr>md_context_window = ctx, md_modality_input = fst (modality en),
         md_modality_output = snd (modality en), md_capabilities = capabilities_of_entry en\<rparr>)
       (py_int (json_or (jget en ''max_input_tokens'') (json_or (jget en ''max_tokens'') (JInt 0))))"

definition text_array :: "string list \<Rightarrow> json" where
  "text_array ss = JList (map JStr ss)"

definition metadata_json :: "metadata \<Rightarrow> (string \<times> json) list" where
  "metadata_json md =
     [(''context_window'', JInt (md_context_window md)), (''modality_input'', text_array (md_modality_input md)),
      (''modality_output'', text_array (md_modality_output md)), (''capabilities'', text_array (md_capabilities md))]"

section \<open>Prices\<close>

definition fixed_text :: "py_decimal \<Rightarrow> string" where
  "fixed_text x =
     (case x of Fin d \<Rightarrow> decimal_fixed (dec_normalize d) | NaN \<Rightarrow> ''NaN''
      | Inf neg \<Rightarrow> (if neg then ''-Infinity'' else ''Infinity''))"

definition times_1000 :: "py_decimal \<Rightarrow> py_decimal" where
  "times_1000 x = (case x of Fin d \<Rightarrow> Fin (dec_mul d (Dec 1000 0)) | _ \<Rightarrow> x)"

definition per_1k :: "json \<Rightarrow> string option" where
  "per_1k v = (if v = JNull then None else map_option (fixed_text \<circ> times_1000) (decimal_of_json v))"

definition money_text :: "json \<Rightarrow> string option" where
  "money_text v = (if v = JNull then None else map_option fixed_text (decimal_of_json v))"

definition unit_cost_keys :: "(string \<times> string) list" where
  "unit_cost_keys =
     [(''page'', ''ocr_cost_per_page''), (''query'', ''input_cost_per_query''),
      (''character'', ''input_cost_per_character''), (''image'', ''output_cost_per_image''),
      (''second'', ''input_cost_per_second'')]"

record suggested_price =
  sp_input :: string
  sp_output :: string
  sp_cached :: "string option"
  sp_unit :: "string option"
  sp_per_unit :: "string option"

fun unit_price :: "(string \<times> string) list \<Rightarrow> entry \<Rightarrow> suggested_price option" where
  "unit_price [] en = None"
| "unit_price ((u, k) # rest) en =
     (case money_text (jget en k) of
        Some p \<Rightarrow> Some \<lparr>sp_input = ''0'', sp_output = ''0'', sp_cached = None, sp_unit = Some u, sp_per_unit = Some p\<rparr>
      | None \<Rightarrow> unit_price rest en)"

definition price_from_entry :: "entry \<Rightarrow> suggested_price option" where
  "price_from_entry en =
     (case per_1k (jget en ''input_cost_per_token'') of
        Some inp \<Rightarrow>
          Some \<lparr>sp_input = inp,
                sp_output = (case per_1k (jget en ''output_cost_per_token'') of None \<Rightarrow> ''0'' | Some t \<Rightarrow> t),
                sp_cached = per_1k (jget en ''cache_read_input_token_cost''),
                sp_unit = None, sp_per_unit = None\<rparr>
      | None \<Rightarrow> unit_price unit_cost_keys en)"

section \<open>Lookup and search\<close>

text \<open>A key that is not in the registry is \<open>Inr None\<close>, an entry that raises \<open>Inl\<close>.\<close>

definition registry_lookup :: "registry \<Rightarrow> string \<Rightarrow> unit + metadata option" where
  "registry_lookup reg key =
     (case map_of reg key of
        None \<Rightarrow> Inr None
      | Some en \<Rightarrow> (case metadata_from_entry en of None \<Rightarrow> Inl () | Some md \<Rightarrow> Inr (Some md)))"

definition suggest_price :: "registry \<Rightarrow> string \<Rightarrow> suggested_price option" where
  "suggest_price reg key = Option.bind (map_of reg key) price_from_entry"

definition relevance_rank :: "string \<Rightarrow> string \<Rightarrow> nat" where
  "relevance_rank q key =
     (let kl = lower key; tail = model_key kl in
      if kl = q \<or> tail = q then 0 else if starts_with q kl \<or> starts_with q tail then 1 else 2)"

record search_hit =
  sh_key :: string
  sh_provider :: json
  sh_mode :: json
  sh_context_window :: int
  sh_vision :: bool
  sh_price :: "suggested_price option"

text \<open>Sorting by the pair of rank and length is sorting by length and then, stably, by rank.\<close>

definition search_matches :: "registry \<Rightarrow> string \<Rightarrow> string list" where
  "search_matches reg q0 =
     (let q = lower (strip q0) in
      sort_key (relevance_rank q) (sort_key length
        (filter (\<lambda>k. k \<noteq> ''sample_spec'' \<and> (q = [] \<or> occurs_in q (lower k))) (map fst reg))))"

definition hit_of :: "registry \<Rightarrow> string \<Rightarrow> search_hit option" where
  "hit_of reg key =
     Option.bind (map_of reg key) (\<lambda>en. map_option (\<lambda>md.
       \<lparr>sh_key = key, sh_provider = jget en ''litellm_provider'', sh_mode = jget en ''mode'',
        sh_context_window = md_context_window md, sh_vision = truthy (jget en ''supports_vision''),
        sh_price = price_from_entry en\<rparr>) (metadata_from_entry en))"

text \<open>\<open>None\<close> when one of the entries shown raises.\<close>

definition registry_search :: "registry \<Rightarrow> string \<Rightarrow> nat \<Rightarrow> search_hit list option" where
  "registry_search reg q limit = those (map (hit_of reg) (take limit (search_matches reg q)))"

section \<open>Kinds\<close>

definition mode_to_kind :: "(string \<times> string) list" where
  "mode_to_kind =
     [(''chat'', ''chat''), (''completion'', ''chat''), (''embedding'', ''embedding''),
      (''image_generation'', ''image''), (''audio_speech'', ''tts''), (''audio_transcription'', ''stt''),
      (''ocr'', ''ocr''), (''rerank'', ''rerank''), (''moderation'', ''moderation''), (''search'', ''search''),
      (''image_edit'', ''image_edit''), (''realtime'', ''realtime'')]"

definition sync_raw :: "model_catalog \<Rightarrow> (string \<times> json) list option" where
  "sync_raw mc =
     (case mc_litellm_sync mc of None \<Rightarrow> None
      | Some sync \<Rightarrow> (case jget sync ''raw'' of JObj raw \<Rightarrow> Some raw | _ \<Rightarrow> None))"

text \<open>\<open>str(e)\<close> of a list element contains the path only if the element, or a text within it, does; an
  element that is no text is rendered by \<open>repr\<close>.\<close>

fun mentions :: "string \<Rightarrow> json \<Rightarrow> bool" where
  "mentions p (JStr s) = occurs_in p s"
| "mentions p (JList vs) = list_ex (mentions p) vs"
| "mentions p (JObj kvs) = list_ex (\<lambda>kv. occurs_in p (fst kv) \<or> mentions p (snd kv)) kvs"
| "mentions p v = False"

definition is_realtime_capable :: "model_catalog \<Rightarrow> bool" where
  "is_realtime_capable mc =
     (if ''realtime:blocked'' \<in> set (mc_capabilities mc) then False
      else if ''realtime'' \<in> set (mc_capabilities mc) then True
      else case sync_raw mc of
        None \<Rightarrow> False
      | Some raw \<Rightarrow>
          (case jget raw ''supported_endpoints'' of
             JList eps \<Rightarrow> list_ex (mentions ''/v1/realtime'') eps | _ \<Rightarrow> False))"

definition mode_of :: "model_catalog \<Rightarrow> string option" where
  "mode_of mc =
     (case sync_raw mc of None \<Rightarrow> None | Some raw \<Rightarrow> (case jget raw ''mode'' of JStr m \<Rightarrow> Some m | _ \<Rightarrow> None))"

definition model_kind :: "model_catalog \<Rightarrow> string" where
  "model_kind mc =
     (if is_realtime_capable mc then ''realtime''
      else case mode_of mc of
        Some mode \<Rightarrow> (case map_of mode_to_kind mode of Some k \<Rightarrow> k | None \<Rightarrow> ''unknown'')
      | None \<Rightarrow>
          if mc_modality_output mc = [''image''] then ''image''
          else if mc_modality_output mc = [''audio''] then ''tts''
          else if ''audio'' \<in> set (mc_modality_input mc) then ''stt''
          else ''chat'')"

text \<open>The kinds with a recipe, and whether its minimal call is billed.\<close>

definition recipes :: "(string \<times> bool) list" where
  "recipes =
     [(''chat'', False), (''embedding'', False), (''tts'', True), (''image'', True), (''moderation'', False),
      (''rerank'', False), (''ocr'', True), (''stt'', True), (''image_edit'', True), (''search'', True),
      (''realtime'', True)]"

definition is_testable :: "string \<Rightarrow> bool" where
  "is_testable kind \<longleftrightarrow> map_of recipes kind \<noteq> None"

definition is_billable :: "string \<Rightarrow> bool" where
  "is_billable kind \<longleftrightarrow> map_of recipes kind = Some True"

end
