(* ===== verification/CatalogViews.thy ===== *)
theory CatalogViews
  imports LitellmRegistry ModelAccess
begin

text \<open>
  The catalog as members see it: the filters and facets of \<open>services/model_catalog.py\<close> and the endpoints
  of \<open>api/catalog.py\<close>.
\<close>

section \<open>Filters\<close>

definition norm_text :: "string \<Rightarrow> string" where
  "norm_text s = lower (strip s)"

definition lower_set :: "string list option \<Rightarrow> string list option" where
  "lower_set vs = map_option (\<lambda>vs. map norm_text (filter (\<lambda>v. strip v \<noteq> []) vs)) vs"

definition canon_capability :: "string \<Rightarrow> string" where
  "canon_capability v = map (\<lambda>c. if c = CHR ''_'' then CHR ''-'' else c) (norm_text v)"

record model_filter =
  mf_capabilities :: "string list option"
  mf_modality_input :: "string list option"
  mf_modality_output :: "string list option"
  mf_recommended_for :: "string list option"
  mf_tags :: "string list option"
  mf_cost_tier :: "string option"
  mf_provider :: "string option"
  mf_family :: "string option"
  mf_min_context_window :: "int option"

text \<open>A criterion that is absent or empty does not restrict; otherwise all its values must be present,
  or the text must be the value.\<close>

definition wants_all :: "string list option \<Rightarrow> string list \<Rightarrow> bool" where
  "wants_all wanted held = (case wanted of None \<Rightarrow> True | Some ws \<Rightarrow> set ws \<subseteq> set held)"

definition wants_text :: "string option \<Rightarrow> string \<Rightarrow> bool" where
  "wants_text wanted held =
     (case wanted of None \<Rightarrow> True
      | Some w \<Rightarrow> if w = [] \<or> norm_text w = [] then True else lower held = norm_text w)"

definition matches_filter :: "model_filter \<Rightarrow> model_catalog \<Rightarrow> bool" where
  "matches_filter f m \<longleftrightarrow>
     wants_all (map_option (map canon_capability) (mf_capabilities f)) (map canon_capability (mc_capabilities m)) \<and>
     wants_all (lower_set (mf_modality_input f)) (map lower (mc_modality_input m)) \<and>
     wants_all (lower_set (mf_modality_output f)) (map lower (mc_modality_output m)) \<and>
     wants_all (lower_set (mf_recommended_for f)) (map lower (mc_recommended_for m)) \<and>
     wants_all (lower_set (mf_tags f)) (map lower (mc_tags m)) \<and>
     wants_text (mf_cost_tier f) (mc_cost_tier m) \<and> wants_text (mf_provider f) (mc_provider m) \<and>
     wants_text (mf_family f) (mc_family m) \<and>
     (case mf_min_context_window f of None \<Rightarrow> True | Some n \<Rightarrow> n \<le> mc_context_window m)"

definition filter_models :: "model_filter \<Rightarrow> model_catalog list \<Rightarrow> model_catalog list" where
  "filter_models f models = filter (matches_filter f) models"

section \<open>Facets\<close>

definition facet_dimensions :: "(string \<times> (model_catalog \<Rightarrow> string list)) list" where
  "facet_dimensions =
     [(''modality_input'', mc_modality_input), (''modality_output'', mc_modality_output),
      (''capabilities'', \<lambda>m. map canon_capability (strip_internal (mc_capabilities m))),
      (''cost_tier'', \<lambda>m. [mc_cost_tier m]), (''recommended_for'', mc_recommended_for),
      (''family'', \<lambda>m. [mc_family m]), (''tags'', mc_tags)]"

definition tally_values :: "string list \<Rightarrow> (string \<times> nat) list" where
  "tally_values vs = map (\<lambda>v. (v, count_list vs v)) (dedupe vs)"

definition compute_facets :: "model_catalog list \<Rightarrow> (string \<times> (string \<times> nat) list) list" where
  "compute_facets models =
     map (\<lambda>(name, values). (name, tally_values (concat (map values models)))) facet_dimensions"

section \<open>The endpoints\<close>

text \<open>A model as it is shown: the internal markers of its capabilities are hidden.\<close>

record model_summary =
  sm_row :: model_catalog
  sm_capabilities :: "string list"
  sm_support :: support
  sm_kind :: string
  sm_price :: "price_view option"

definition to_summary :: "price_view option \<Rightarrow> model_catalog \<Rightarrow> model_summary" where
  "to_summary price m =
     \<lparr>sm_row = m, sm_capabilities = strip_internal (mc_capabilities m),
      sm_support = get_support (mc_capabilities m), sm_kind = model_kind m, sm_price = price\<rparr>"

definition price_of_model :: "env \<Rightarrow> db \<Rightarrow> model_catalog \<Rightarrow> price_view option" where
  "price_of_model e d m = price_for_slug (current_price_map (now e) d) (mc_provider m) (mc_slug m)"

text \<open>\<open>order_by(slug)\<close>; the collation is that of the characters' codes.\<close>

definition by_slug :: "model_catalog list \<Rightarrow> model_catalog list" where
  "by_slug ms = sort_key mc_slug ms"

definition catalog_models :: "env \<Rightarrow> model_filter \<Rightarrow> bool \<Rightarrow> member \<Rightarrow> db \<Rightarrow> model_summary list" where
  "catalog_models e f include_deprecated m d =
     (let models = by_slug (filter (\<lambda>mc. include_deprecated \<or> mc_status mc \<noteq> ''deprecated'') (catalog d))
      in map (\<lambda>mc. to_summary (price_of_model e d mc) mc) (filter_models f (visible_to_member m models d)))"

definition get_model_detail :: "env \<Rightarrow> string \<Rightarrow> member \<Rightarrow> db \<Rightarrow> (int \<times> string) + model_summary" where
  "get_model_detail e slug m d =
     (case get_model slug d of
        None \<Rightarrow> Inl (404, ''not_found'')
      | Some mc \<Rightarrow> if \<not> is_accessible m mc d then Inl (404, ''not_found'')
                  else Inr (to_summary (price_of_model e d mc) mc))"

definition get_filters :: "db \<Rightarrow> (string \<times> (string \<times> nat) list) list" where
  "get_filters d = compute_facets (by_slug (filter (\<lambda>mc. mc_status mc \<noteq> ''deprecated'') (catalog d)))"

end
