(* ===== verification/CatalogAdmin.thy ===== *)
theory CatalogAdmin
  imports CatalogViews Preflight Members
begin

text \<open>
  The administration of the model catalog, \<open>api/admin_catalog.py\<close> and \<open>api/admin_model_access.py\<close>, and
  its bulk loading, \<open>cli/load_models.py\<close>.  litellm's registry is an argument of the operations that
  read it, with its version; the upstream of the test calls is the function that answers them.
\<close>

section \<open>Provenance\<close>

text \<open>A row's synchronisation data is a JSON object; updating a key keeps its place.\<close>

definition jobject :: "json \<Rightarrow> (string \<times> json) list" where
  "jobject v = (case v of JObj kvs \<Rightarrow> kvs | _ \<Rightarrow> [])"

record suggested_texts =
  st_input :: string
  st_output :: string
  st_cached :: "string option"
  st_unit :: "string option"
  st_per_unit :: "string option"

record catalog_create =
  cc_slug :: string
  cc_provider :: string
  cc_display_name :: string
  cc_family :: string
  cc_description :: string
  cc_metadata :: metadata
  cc_cost_tier :: string
  cc_recommended_for :: "string list"
  cc_tags :: "string list"
  cc_example_request :: json
  cc_official_doc_url :: "string option"
  cc_status :: string
  cc_default_access :: default_access
  cc_allowed_tags :: "string list"
  cc_denied_tags :: "string list"
  cc_base_model_key :: "string option"
  cc_suggested_price :: "suggested_texts option"

text \<open>\<open>None\<close> when the registry's entry raises; the inner option is the provenance, if there is one.\<close>

definition sync_key_of :: "registry \<Rightarrow> catalog_create \<Rightarrow> unit + string option" where
  "sync_key_of reg p =
     (if nonempty_text (cc_base_model_key p) then Inr (cc_base_model_key p)
      else case registry_lookup reg (cc_slug p) of
        Inl u \<Rightarrow> Inl u | Inr None \<Rightarrow> Inr None | Inr (Some md) \<Rightarrow> Inr (Some (cc_slug p)))"

definition field_sources :: "string \<Rightarrow> metadata \<Rightarrow> metadata \<Rightarrow> (string \<times> json) list" where
  "field_sources matched mine registered =
     map (\<lambda>f. (f, JStr (if jget (metadata_json mine) f = jget (metadata_json registered) f then matched
                        else ''manual''))) syncable_fields"

definition build_litellm_sync :: "registry \<Rightarrow> string \<Rightarrow> catalog_create \<Rightarrow> unit + (string \<times> json) list option" where
  "build_litellm_sync reg version p =
     (case sync_key_of reg p of
        Inl u \<Rightarrow> Inl u
      | Inr None \<Rightarrow> Inr None
      | Inr (Some key) \<Rightarrow>
          (case registry_lookup reg key of
             Inl u \<Rightarrow> Inl u
           | Inr None \<Rightarrow> Inr None
           | Inr (Some md) \<Rightarrow>
               (let borrowed = nonempty_text (cc_base_model_key p) \<and> cc_base_model_key p \<noteq> Some (cc_slug p)
                in Inr (Some
                  [(''base_model_key'', JStr key), (''imported_version'', JStr version),
                   (''field_sources'', JObj (field_sources (if borrowed then ''borrowed'' else ''litellm'') (cc_metadata p) md)),
                   (''snapshot'', JObj (metadata_json md)),
                   (''raw'', case map_of reg key of None \<Rightarrow> JNull | Some en \<Rightarrow> JObj en)]))))"

section \<open>Listing\<close>

record model_visibility =
  mv_provider_has_credential :: bool
  mv_visible_members :: nat
  mv_total_active_members :: nat
  mv_allocations :: nat

definition active_members :: "db \<Rightarrow> member list" where
  "active_members d = filter (\<lambda>m. m_status m = member_active) (members d)"

definition visibility_of :: "db \<Rightarrow> model_catalog \<Rightarrow> model_visibility" where
  "visibility_of d mc =
     (let has = mc_provider mc \<in> set (get_providers_with_active_credentials d)
      in \<lparr>mv_provider_has_credential = has,
          mv_visible_members = (if has then length (filter (\<lambda>m. access_policy_allows mc (get_member_tags (m_id m) d))
                                  (active_members d)) else 0),
          mv_total_active_members = length (active_members d),
          mv_allocations = length (filter (\<lambda>a. a_resource_model a = mc_slug mc) (allocations d))\<rparr>)"

text \<open>The administrator's view has the row, its markers' meaning and its kind beside the price.\<close>

record admin_model =
  am_row :: model_catalog
  am_support :: support
  am_kind :: string
  am_billable :: bool
  am_testable :: bool
  am_price :: "price_view option"

definition admin_model_of :: "price_view option \<Rightarrow> model_catalog \<Rightarrow> admin_model" where
  "admin_model_of price mc =
     \<lparr>am_row = mc, am_support = get_support (mc_capabilities mc), am_kind = model_kind mc,
      am_billable = is_billable (model_kind mc), am_testable = is_testable (model_kind mc), am_price = price\<rparr>"

definition admin_list_models :: "env \<Rightarrow> db \<Rightarrow> (admin_model \<times> model_visibility) list" where
  "admin_list_models e d =
     map (\<lambda>mc. (admin_model_of (price_of_model e d mc) mc, visibility_of d mc)) (by_slug (catalog d))"

text \<open>The preview evaluates a policy that is not stored; it shows at most fifty members.\<close>

definition admin_preview_access ::
  "string \<Rightarrow> default_access \<Rightarrow> string list \<Rightarrow> string list \<Rightarrow> db \<Rightarrow> (bool \<times> nat \<times> string list \<times> nat) http" where
  "admin_preview_access slug access allowed denied d =
     (case get_model slug d of
        None \<Rightarrow> failed d 404 ''not_found'' d
      | Some mc \<Rightarrow>
          (let has = list_ex (\<lambda>c. pc_provider c = mc_provider mc \<and> pc_status c = pc_active) (provider_creds d);
               pretend = mc\<lparr>mc_default_access := access, mc_allowed_tags := allowed, mc_denied_tags := denied\<rparr>;
               ids = map m_id (filter (\<lambda>m. has \<and> access_policy_allows pretend (get_member_tags (m_id m) d))
                       (active_members d))
           in (Inr (has, length ids, take 50 ids, length (active_members d)), d)))"

definition admin_list_dependents :: "string \<Rightarrow> db \<Rightarrow> nat \<times> allocation list" where
  "admin_list_dependents slug d =
     (let allocs = filter (\<lambda>a. a_resource_model a = slug) (allocations d) in (length allocs, take 50 allocs))"

definition admin_litellm_search :: "registry \<Rightarrow> string \<Rightarrow> int \<Rightarrow> search_hit list option" where
  "admin_litellm_search reg q limit = registry_search reg q (nat (min (max limit 1) 50))"

definition admin_litellm_suggest ::
  "registry \<Rightarrow> string \<Rightarrow> (int \<times> string) + metadata \<times> suggested_price option" where
  "admin_litellm_suggest reg key =
     (case registry_lookup reg key of
        Inl u \<Rightarrow> Inl (500, ''internal'')
      | Inr None \<Rightarrow> Inl (404, ''litellm_model_not_found'')
      | Inr (Some md) \<Rightarrow> Inr (md, suggest_price reg key))"

section \<open>Creation\<close>

definition set_model :: "string \<Rightarrow> (model_catalog \<Rightarrow> model_catalog) \<Rightarrow> db \<Rightarrow> db" where
  "set_model slug f d = catalog_update (update_where (\<lambda>mc. mc_slug mc = slug) f) d"

definition audit_model :: "env \<Rightarrow> audit_event \<Rightarrow> string \<Rightarrow> (string \<times> json) list \<Rightarrow> db \<Rightarrow> db" where
  "audit_model e event slug details d =
     audit_record e event actor_admin None (Some ''model_catalog'') (Some slug) details d"

definition slug_char :: "char \<Rightarrow> bool" where
  "slug_char c = (is_lower_letter c \<or> is_digit c \<or> c = CHR ''-'')"

definition slug_ok :: "string \<Rightarrow> bool" where
  "slug_ok s \<longleftrightarrow>
     (let p = before_char (CHR ''/'') s; m = drop (Suc (length p)) s
      in CHR ''/'' \<in> set s \<and> p \<noteq> [] \<and> m \<noteq> [] \<and> list_all slug_char p \<and>
         list_all (\<lambda>c. slug_char c \<or> c = CHR ''.'') m)"

definition new_model :: "env \<Rightarrow> (string \<times> json) list option \<Rightarrow> catalog_create \<Rightarrow> model_catalog" where
  "new_model e sync p =
     \<lparr>mc_slug = cc_slug p, mc_provider = cc_provider p, mc_display_name = cc_display_name p,
      mc_family = cc_family p, mc_description = cc_description p,
      mc_modality_input = md_modality_input (cc_metadata p), mc_modality_output = md_modality_output (cc_metadata p),
      mc_capabilities = md_capabilities (cc_metadata p), mc_context_window = md_context_window (cc_metadata p),
      mc_cost_tier = cc_cost_tier p, mc_recommended_for = cc_recommended_for p, mc_tags = cc_tags p,
      mc_example_request = cc_example_request p, mc_official_doc_url = cc_official_doc_url p,
      mc_status = cc_status p, mc_deprecation_note = None, mc_created_at = now e, mc_updated_at = now e,
      mc_default_access = cc_default_access p, mc_allowed_tags = cc_allowed_tags p,
      mc_denied_tags = cc_denied_tags p, mc_self_service_enabled = False,
      mc_self_service_default_quota = None, mc_litellm_sync = sync\<rparr>"

text \<open>A price version written from texts; \<open>created_by\<close> is the default of \<open>create_version\<close>.\<close>

definition version_from_texts ::
  "env \<Rightarrow> string \<Rightarrow> string \<Rightarrow> suggested_texts \<Rightarrow> string \<Rightarrow> db \<Rightarrow> (price_error + price_list \<times> bool) \<times> db" where
  "version_from_texts e provider slug t version d =
     create_version e provider (model_key slug) (decimal_of_text (st_input t)) (decimal_of_text (st_output t)) (now e)
       (price_text (st_cached t)) (st_unit t) (price_text (st_per_unit t))
       (Some (''litellm@'' @ version)) ''admin'' d"

definition admin_create_model ::
  "env \<Rightarrow> registry \<Rightarrow> string \<Rightarrow> catalog_create \<Rightarrow> db \<Rightarrow> admin_model http" where
  "admin_create_model e reg version p d =
     (if \<not> slug_ok (cc_slug p) \<or> md_context_window (cc_metadata p) < 0 then failed d 422 ''validation'' d
      else if cc_provider p \<notin> set (allowed_providers (cfg e)) then failed d 422 ''provider_not_allowed'' d
      else if get_model (cc_slug p) d \<noteq> None then failed d 409 ''duplicate_slug'' d
      else case build_litellm_sync reg version p of
        Inl u \<Rightarrow> failed d 500 ''internal'' d
      | Inr sync \<Rightarrow>
          (let mc = new_model e sync p;
               d1 = catalog_update (\<lambda>ms. ms @ [mc]) d;
               finish = (\<lambda>d. (Inr (admin_model_of None mc),
                 audit_model e model_access_policy_updated (cc_slug p)
                   [(''action'', JStr ''created''), (''provider'', JStr (cc_provider p))] d))
           in case cc_suggested_price p of
             None \<Rightarrow> finish d1
           | Some t \<Rightarrow>
               (case version_from_texts e (cc_provider p) (cc_slug p) t version d1 of
                  (Inl err, d2) \<Rightarrow> failed d 500 ''internal'' d2
                | (Inr made, d2) \<Rightarrow> finish d2)))"

section \<open>Update\<close>

text \<open>A field of the patch; \<open>None\<close> is an explicit null.\<close>

datatype catalog_edit =
    EditDisplayName "string option" | EditFamily "string option" | EditDescription "string option"
  | EditModalityInput "string list option" | EditModalityOutput "string list option"
  | EditCapabilities "string list option" | EditContextWindow "int option" | EditCostTier "string option"
  | EditRecommendedFor "string list option" | EditTags "string list option" | EditExampleRequest json
  | EditOfficialDocUrl "string option" | EditStatus "string option"

text \<open>The columns refuse a null, and so does the reply the lists; only two fields take it.\<close>

fun apply_edit :: "catalog_edit \<Rightarrow> model_catalog \<Rightarrow> model_catalog option" where
  "apply_edit (EditDisplayName v) mc = map_option (\<lambda>x. mc\<lparr>mc_display_name := x\<rparr>) v"
| "apply_edit (EditFamily v) mc = map_option (\<lambda>x. mc\<lparr>mc_family := x\<rparr>) v"
| "apply_edit (EditDescription v) mc = map_option (\<lambda>x. mc\<lparr>mc_description := x\<rparr>) v"
| "apply_edit (EditModalityInput v) mc = map_option (\<lambda>x. mc\<lparr>mc_modality_input := x\<rparr>) v"
| "apply_edit (EditModalityOutput v) mc = map_option (\<lambda>x. mc\<lparr>mc_modality_output := x\<rparr>) v"
| "apply_edit (EditCapabilities v) mc = map_option (\<lambda>x. mc\<lparr>mc_capabilities := x\<rparr>) v"
| "apply_edit (EditContextWindow v) mc = map_option (\<lambda>x. mc\<lparr>mc_context_window := x\<rparr>) v"
| "apply_edit (EditCostTier v) mc = map_option (\<lambda>x. mc\<lparr>mc_cost_tier := x\<rparr>) v"
| "apply_edit (EditRecommendedFor v) mc = map_option (\<lambda>x. mc\<lparr>mc_recommended_for := x\<rparr>) v"
| "apply_edit (EditTags v) mc = map_option (\<lambda>x. mc\<lparr>mc_tags := x\<rparr>) v"
| "apply_edit (EditExampleRequest v) mc = Some (mc\<lparr>mc_example_request := v\<rparr>)"
| "apply_edit (EditOfficialDocUrl v) mc = Some (mc\<lparr>mc_official_doc_url := v\<rparr>)"
| "apply_edit (EditStatus v) mc = map_option (\<lambda>x. mc\<lparr>mc_status := x\<rparr>) v"

fun syncable_name :: "catalog_edit \<Rightarrow> string list" where
  "syncable_name (EditContextWindow v) = [''context_window'']"
| "syncable_name (EditModalityInput v) = [''modality_input'']"
| "syncable_name (EditModalityOutput v) = [''modality_output'']"
| "syncable_name (EditCapabilities v) = [''capabilities'']"
| "syncable_name _ = []"

fun apply_edits :: "catalog_edit list \<Rightarrow> model_catalog \<Rightarrow> model_catalog option" where
  "apply_edits [] mc = Some mc"
| "apply_edits (x # xs) mc = Option.bind (apply_edit x mc) (apply_edits xs)"

definition put_all :: "string list \<Rightarrow> json \<Rightarrow> (string \<times> json) list \<Rightarrow> (string \<times> json) list" where
  "put_all ks v kvs = fold (\<lambda>k. AList.update k v) ks kvs"

definition touch_sync :: "string list \<Rightarrow> model_catalog \<Rightarrow> model_catalog" where
  "touch_sync touched mc =
     (case mc_litellm_sync mc of
        Some (kv # kvs) \<Rightarrow>
          if touched = [] then mc
          else mc\<lparr>mc_litellm_sync := Some (AList.update ''field_sources''
                 (JObj (put_all touched (JStr ''manual'') (jobject (jget (kv # kvs) ''field_sources'')))) (kv # kvs))\<rparr>
      | _ \<Rightarrow> mc)"

definition admin_update_model :: "env \<Rightarrow> string \<Rightarrow> catalog_edit list \<Rightarrow> db \<Rightarrow> admin_model http" where
  "admin_update_model e slug edits d =
     (case get_model slug d of
        None \<Rightarrow> failed d 404 ''not_found'' d
      | Some mc \<Rightarrow>
          (case apply_edits edits mc of
             None \<Rightarrow> failed d 500 ''internal'' d
           | Some mc1 \<Rightarrow>
               (let touched = concat (map syncable_name edits);
                    mc2 = (if edits = [] then mc1 else (touch_sync touched mc1)\<lparr>mc_updated_at := now e\<rparr>)
                in (Inr (admin_model_of None mc2),
                    if edits = [] then d
                    else audit_model e model_access_policy_updated slug [(''action'', JStr ''updated'')]
                           (set_model slug (\<lambda>_. mc2) d)))))"

section \<open>Synchronisation with the registry\<close>

definition sync_field :: "model_catalog \<Rightarrow> string \<Rightarrow> json" where
  "sync_field mc f = (case mc_litellm_sync mc of None \<Rightarrow> JNull | Some sync \<Rightarrow> jget sync f)"

definition sync_key :: "model_catalog \<Rightarrow> string" where
  "sync_key mc = (case sync_field mc ''base_model_key'' of JStr (c # cs) \<Rightarrow> c # cs | _ \<Rightarrow> mc_slug mc)"

definition metadata_of_row :: "model_catalog \<Rightarrow> metadata" where
  "metadata_of_row mc =
     \<lparr>md_context_window = mc_context_window mc, md_modality_input = mc_modality_input mc,
      md_modality_output = mc_modality_output mc, md_capabilities = mc_capabilities mc\<rparr>"

record field_diff =
  fd_field :: string
  fd_current :: json
  fd_latest :: json
  fd_source :: json
  fd_changed :: bool

definition metadata_diffs :: "model_catalog \<Rightarrow> metadata \<Rightarrow> field_diff list" where
  "metadata_diffs mc latest =
     map (\<lambda>f. \<lparr>fd_field = f, fd_current = jget (metadata_json (metadata_of_row mc)) f,
               fd_latest = jget (metadata_json latest) f,
               fd_source = (case map_of (jobject (sync_field mc ''field_sources'')) f of
                              None \<Rightarrow> JStr ''manual'' | Some s \<Rightarrow> s),
               fd_changed = (jget (metadata_json (metadata_of_row mc)) f \<noteq> jget (metadata_json latest) f)\<rparr>)
       syncable_fields"

text \<open>Two prices differ as numbers; a suggestion that is missing is not shown.\<close>

definition price_diff :: "string \<Rightarrow> decimal option \<Rightarrow> string option \<Rightarrow> field_diff list" where
  "price_diff f cur latest =
     (case latest of None \<Rightarrow> []
      | Some t \<Rightarrow>
          [\<lparr>fd_field = ''price.'' @ f, fd_current = (case cur of None \<Rightarrow> JNull | Some c \<Rightarrow> JStr (decimal_text c)),
            fd_latest = JStr t, fd_source = JStr ''litellm'',
            fd_changed = (case (cur, decimal_of_text t) of
               (Some c, Some (Fin x)) \<Rightarrow> dec_val c \<noteq> dec_val x | _ \<Rightarrow> True)\<rparr>])"

definition price_diffs :: "price_view option \<Rightarrow> suggested_price option \<Rightarrow> field_diff list" where
  "price_diffs cur latest =
     price_diff ''input_per_1k'' (map_option pv_input_per_1k cur) (map_option sp_input latest) @
     price_diff ''output_per_1k'' (map_option pv_output_per_1k cur) (map_option sp_output latest) @
     price_diff ''cached_input_per_1k'' (Option.bind cur pv_cached_input_per_1k) (Option.bind latest sp_cached)"

text \<open>The registry in use: the fetched one, or the bundled one when the fetch fails.\<close>

definition admin_litellm_check ::
  "env \<Rightarrow> registry \<Rightarrow> registry option \<Rightarrow> string \<Rightarrow> db \<Rightarrow> (string \<times> string \<times> field_diff list) http" where
  "admin_litellm_check e bundled fetched slug d =
     (case get_model slug d of
        None \<Rightarrow> failed d 404 ''not_found'' d
      | Some mc \<Rightarrow>
          (let key = sync_key mc;
               (reg, source) = (case fetched of Some r \<Rightarrow> (r, ''live'') | None \<Rightarrow> (bundled, ''bundled-fallback''))
           in case map_of reg key of
             None \<Rightarrow> (Inr (source, key, []), d)
           | Some en \<Rightarrow>
               (case metadata_from_entry en of
                  None \<Rightarrow> failed d 500 ''internal'' d
                | Some latest \<Rightarrow>
                    (Inr (source, key, metadata_diffs mc latest @
                       price_diffs (price_of_model e d mc) (price_from_entry en)), d))))"

text \<open>Taking one field over; the markers of responses support survive.\<close>

definition take_field :: "metadata \<Rightarrow> string \<Rightarrow> model_catalog \<Rightarrow> model_catalog" where
  "take_field latest f mc =
     (if f = ''context_window'' then mc\<lparr>mc_context_window := md_context_window latest\<rparr>
      else if f = ''modality_input'' then mc\<lparr>mc_modality_input := md_modality_input latest\<rparr>
      else if f = ''modality_output'' then mc\<lparr>mc_modality_output := md_modality_output latest\<rparr>
      else if f = ''capabilities''
      then mc\<lparr>mc_capabilities := preserve_into (md_capabilities latest) (mc_capabilities mc)\<rparr>
      else mc)"

definition resync :: "string list \<Rightarrow> metadata \<Rightarrow> string \<Rightarrow> entry \<Rightarrow> model_catalog \<Rightarrow> model_catalog" where
  "resync applied latest version en mc =
     (case mc_litellm_sync mc of
        Some (kv # kvs) \<Rightarrow>
          if applied = [] then mc
          else (let sync = kv # kvs;
                    fs = put_all applied (JStr ''litellm'') (jobject (jget sync ''field_sources''));
                    snap = fold (\<lambda>f. AList.update f (jget (metadata_json latest) f)) applied
                             (jobject (jget sync ''snapshot''))
                in mc\<lparr>mc_litellm_sync := Some (AList.update ''raw'' (JObj en) (AList.update ''imported_version'' (JStr version)
                       (AList.update ''snapshot'' (JObj snap) (AList.update ''field_sources'' (JObj fs) sync))))\<rparr>)
      | _ \<Rightarrow> mc)"

text \<open>The price version a synchronisation appends: the token prices of the suggestion, without a unit.\<close>

definition applied_price :: "suggested_price \<Rightarrow> suggested_texts" where
  "applied_price sp =
     \<lparr>st_input = sp_input sp, st_output = (if sp_output sp = [] then ''0'' else sp_output sp),
      st_cached = sp_cached sp, st_unit = None, st_per_unit = None\<rparr>"

definition append_price ::
  "env \<Rightarrow> bool \<Rightarrow> entry \<Rightarrow> string \<Rightarrow> model_catalog \<Rightarrow> db \<Rightarrow> (price_error + unit) \<times> db" where
  "append_price e want_price en version mc d =
     (case (if want_price then price_from_entry en else None) of
        None \<Rightarrow> (Inr (), d)
      | Some sp \<Rightarrow> (case version_from_texts e (mc_provider mc) (mc_slug mc) (applied_price sp) version d of
          (Inl err, d1) \<Rightarrow> (Inl err, d1) | (Inr made, d1) \<Rightarrow> (Inr (), d1)))"

definition admin_litellm_apply ::
  "env \<Rightarrow> registry \<Rightarrow> registry option \<Rightarrow> string \<Rightarrow> string list \<Rightarrow> string \<Rightarrow> db \<Rightarrow> admin_model http" where
  "admin_litellm_apply e bundled fetched version wanted slug d =
     (case get_model slug d of
        None \<Rightarrow> failed d 404 ''not_found'' d
      | Some mc \<Rightarrow>
          (let reg = (case fetched of Some (r # rs) \<Rightarrow> r # rs | _ \<Rightarrow> bundled) in
           case map_of reg (sync_key mc) of
             None \<Rightarrow> failed d 422 ''litellm_model_not_found'' d
           | Some en \<Rightarrow>
               (case metadata_from_entry en of
                  None \<Rightarrow> failed d 500 ''internal'' d
                | Some latest \<Rightarrow>
                    (let applied = filter (\<lambda>f. f \<in> set syncable_fields) wanted;
                         want_price = list_ex (\<lambda>f. f \<notin> set syncable_fields \<and> starts_with ''price.'' f) wanted;
                         mc1 = resync applied latest version en (fold (take_field latest) applied mc)
                     in case append_price e want_price en version mc1 (set_model slug (\<lambda>_. mc1) d) of
                       (Inl err, d1) \<Rightarrow> failed d 500 ''internal'' d1
                     | (Inr u, d1) \<Rightarrow>
                         if applied = [] \<and> \<not> want_price then (Inr (admin_model_of None mc1), d1)
                         else (let mc2 = mc1\<lparr>mc_updated_at := now e\<rparr>
                               in (Inr (admin_model_of None mc2),
                                   audit_model e model_access_policy_updated slug
                                     [(''action'', JStr ''litellm_apply''), (''fields'', text_array wanted)]
                                     (set_model slug (\<lambda>_. mc2) d1)))))))"

definition admin_delete_model :: "env \<Rightarrow> string \<Rightarrow> db \<Rightarrow> unit http" where
  "admin_delete_model e slug d =
     (if get_model slug d = None then failed d 404 ''not_found'' d
      else (Inr (), audit_model e model_access_policy_updated slug [(''action'', JStr ''deleted'')]
              (catalog_update (delete_where (\<lambda>mc. mc_slug mc = slug)) d)))"

section \<open>Test calls\<close>

text \<open>What the upstream answers to a minimal call made with a key: an error's text, or nothing to
  remark, after some milliseconds.\<close>

type_synonym test_upstream = "resolved_credential \<Rightarrow> string \<Rightarrow> (string + unit) \<times> int"

datatype test_result =
    TestPassed int support
  | TestProviderUnavailable
  | TestUpstreamError string
  | TestUnsupported
  | TestNeedsConfirmation

definition upstream_name :: "string \<Rightarrow> string \<Rightarrow> string" where
  "upstream_name provider slug = (if CHR ''/'' \<in> set slug then slug else provider @ ''/'' @ slug)"

definition admin_test_responses :: "env \<Rightarrow> test_upstream \<Rightarrow> string \<Rightarrow> db \<Rightarrow> test_result http" where
  "admin_test_responses e up slug d =
     (case get_model slug d of
        None \<Rightarrow> failed d 404 ''not_found'' d
      | Some mc \<Rightarrow>
          (case resolve_credential e (fst (parse_provider slug)) d of
             (Inl (ProviderUnavailable p), d1) \<Rightarrow> (Inr TestProviderUnavailable, d1)
           | (Inl err, d1) \<Rightarrow> failed d 500 ''internal'' d1
           | (Inr key, d1) \<Rightarrow>
               (case up key (upstream_name (fst (parse_provider slug)) slug) of
                  (Inl msg, _) \<Rightarrow> (Inr (TestUpstreamError (take 500 msg)), d1)
                | (Inr _, ms) \<Rightarrow>
                    (let blocked = fst (get_support (mc_capabilities mc)) = Unavailable;
                         mc1 = (if blocked then mc
                                else mc\<lparr>mc_capabilities := mark_tested_ok (mc_capabilities mc), mc_updated_at := now e\<rparr>)
                     in (Inr (TestPassed ms (get_support (mc_capabilities mc1))),
                         audit_model e Models.responses_tested slug [(''ok'', JBool True), (''latency_ms'', JInt ms)]
                           (set_model slug (\<lambda>_. mc1) d1))))))"

definition admin_set_responses_support :: "env \<Rightarrow> bool \<Rightarrow> string \<Rightarrow> db \<Rightarrow> support http" where
  "admin_set_responses_support e available slug d =
     (case get_model slug d of
        None \<Rightarrow> failed d 404 ''not_found'' d
      | Some mc \<Rightarrow>
          (let caps = (if available then mark_manual_on (mc_capabilities mc) else mark_manual_off (mc_capabilities mc))
           in (Inr (get_support caps),
               audit_model e responses_support_overridden slug [(''available'', JBool available)]
                 (set_model slug (\<lambda>mc. mc\<lparr>mc_capabilities := caps, mc_updated_at := now e\<rparr>) d))))"

definition audit_test :: "env \<Rightarrow> string \<Rightarrow> string \<Rightarrow> bool \<Rightarrow> (string \<times> json) list \<Rightarrow> db \<Rightarrow> db" where
  "audit_test e slug kind ok more_details d =
     audit_model e model_tested slug ([(''kind'', JStr kind), (''ok'', JBool ok)] @ more_details) d"

definition admin_test_model ::
  "env \<Rightarrow> (string \<Rightarrow> test_upstream) \<Rightarrow> bool \<Rightarrow> string \<Rightarrow> db \<Rightarrow> test_result http" where
  "admin_test_model e up acknowledged slug d =
     (case get_model slug d of
        None \<Rightarrow> failed d 404 ''not_found'' d
      | Some mc \<Rightarrow>
          (let kind = model_kind mc in
           case map_of recipes kind of
             None \<Rightarrow> (Inr TestUnsupported, audit_test e slug kind False [(''reason'', JStr ''unsupported'')] d)
           | Some billable \<Rightarrow>
               if billable \<and> \<not> acknowledged then (Inr TestNeedsConfirmation, d)
               else (case resolve_credential e (fst (parse_provider slug)) d of
                  (Inl (ProviderUnavailable p), d1) \<Rightarrow>
                    (Inr TestProviderUnavailable,
                     audit_test e slug kind False [(''error_type'', JStr ''provider_unavailable'')] d1)
                | (Inl err, d1) \<Rightarrow> failed d 500 ''internal'' d1
                | (Inr key, d1) \<Rightarrow>
                    (case up kind key (upstream_name (fst (parse_provider slug)) slug) of
                       (Inl msg, _) \<Rightarrow>
                         (Inr (TestUpstreamError (take 500 msg)),
                          audit_test e slug kind False [(''error_type'', JStr ''upstream_error'')] d1)
                     | (Inr _, ms) \<Rightarrow>
                         (Inr (TestPassed ms (get_support (mc_capabilities mc))),
                          audit_test e slug kind True [(''latency_ms'', JInt ms)] d1)))))"

section \<open>The access policy\<close>

definition policy_snapshot :: "model_catalog \<Rightarrow> (string \<times> json) list" where
  "policy_snapshot mc =
     [(''slug'', JStr (mc_slug mc)),
      (''default_access'', JStr (case mc_default_access mc of access_open \<Rightarrow> ''open'' | access_restricted \<Rightarrow> ''restricted'')),
      (''allowed_tags'', text_array (mc_allowed_tags mc)), (''denied_tags'', text_array (mc_denied_tags mc))]"

definition invalid_tags :: "string list option \<Rightarrow> bool" where
  "invalid_tags ts = (case ts of None \<Rightarrow> False | Some xs \<Rightarrow> \<not> list_all validate_tag xs)"

definition patch_model_access ::
  "env \<Rightarrow> string \<Rightarrow> default_access option \<Rightarrow> string list option \<Rightarrow> string list option \<Rightarrow> db \<Rightarrow> model_catalog http" where
  "patch_model_access e slug access allowed denied d =
     (case get_model slug d of
        None \<Rightarrow> failed d 404 ''not_found'' d
      | Some mc \<Rightarrow>
          if invalid_tags allowed \<or> invalid_tags denied then failed d 422 ''invalid_tag'' d
          else (let keep = (\<lambda>x old. case x of None \<Rightarrow> old | Some v \<Rightarrow> v);
                    mc1 = mc\<lparr>mc_default_access := (case access of None \<Rightarrow> mc_default_access mc | Some v \<Rightarrow> v),
                             mc_allowed_tags := keep allowed (mc_allowed_tags mc),
                             mc_denied_tags := keep denied (mc_denied_tags mc)\<rparr>
                in (Inr mc1, audit_model e model_access_policy_updated slug (policy_snapshot mc1)
                       (set_model slug (\<lambda>_. mc1) d))))"

section \<open>Bulk loading\<close>

text \<open>The entries of the YAML file, validated by its schema: rows without the fields the file lacks.
  \<open>overlay\<close> writes an entry over a row; a new row starts from the columns' defaults.\<close>

definition lower_list :: "string list \<Rightarrow> string list" where
  "lower_list ss = map norm_text ss"

definition overlay :: "env \<Rightarrow> model_catalog \<Rightarrow> model_catalog \<Rightarrow> model_catalog" where
  "overlay e en row =
     row\<lparr>mc_provider := mc_provider en, mc_display_name := mc_display_name en, mc_family := lower (mc_family en),
         mc_description := mc_description en, mc_modality_input := lower_list (mc_modality_input en),
         mc_modality_output := lower_list (mc_modality_output en), mc_capabilities := lower_list (mc_capabilities en),
         mc_context_window := mc_context_window en, mc_cost_tier := lower (mc_cost_tier en),
         mc_recommended_for := lower_list (mc_recommended_for en), mc_tags := lower_list (mc_tags en),
         mc_example_request := mc_example_request en, mc_official_doc_url := mc_official_doc_url en,
         mc_status := lower (mc_status en), mc_deprecation_note := mc_deprecation_note en,
         mc_default_access := mc_default_access en, mc_allowed_tags := mc_allowed_tags en,
         mc_denied_tags := mc_denied_tags en, mc_updated_at := now e\<rparr>"

definition fresh_row :: "env \<Rightarrow> model_catalog \<Rightarrow> model_catalog" where
  "fresh_row e en =
     (overlay e en en)\<lparr>mc_created_at := now e, mc_self_service_enabled := False,
                       mc_self_service_default_quota := None, mc_litellm_sync := None\<rparr>"

fun load_loop :: "env \<Rightarrow> model_catalog list \<Rightarrow> nat \<times> nat \<Rightarrow> db \<Rightarrow> (nat \<times> nat) \<times> db" where
  "load_loop e [] n d = (n, d)"
| "load_loop e (en # ens) (inserted, updated) d =
     (case get_model (mc_slug en) d of
        None \<Rightarrow> load_loop e ens (Suc inserted, updated) (catalog_update (\<lambda>ms. ms @ [fresh_row e en]) d)
      | Some row \<Rightarrow> load_loop e ens (inserted, Suc updated) (set_model (mc_slug en) (overlay e en) d))"

text \<open>\<open>None\<close> is the exit with status 1.\<close>

definition load_models :: "env \<Rightarrow> model_catalog list \<Rightarrow> db \<Rightarrow> (nat \<times> nat) option \<times> db" where
  "load_models e entries d =
     (if \<not> distinct (map mc_slug entries) \<or> \<not> list_all (\<lambda>en. mc_provider en \<in> set (allowed_providers (cfg e))) entries
      then (None, d)
      else (case load_loop e entries (0, 0) d of (n, d1) \<Rightarrow> (Some n, d1)))"

end
