(* ===== verification/CatalogTheorems.thy ===== *)
theory CatalogTheorems
  imports CatalogAdmin
begin

text \<open>
  The catalog: suggested prices are exact, an administrator's block of the responses endpoint survives
  synchronisation and tests, a billed test never starts unasked, and facets count what filters find.
\<close>

section \<open>Decimals as text\<close>

lemma is_digit_props:
  assumes "is_digit c"
  shows "lower_char c = c" "\<not> is_space c" "c \<noteq> CHR ''-''" "c \<noteq> CHR ''+''" "c \<noteq> CHR ''.''" "c \<noteq> CHR ''_''"
    "c \<noteq> CHR ''i''" "c \<noteq> CHR ''n''" "c \<noteq> CHR ''s''"
  using assms by (auto simp: is_digit_def lower_char_def is_space_def Let_def)

lemma text_nat_append: "text_nat (s @ t) = text_nat s * 10 ^ length t + text_nat t"
proof (induction t rule: rev_induct)
  case (snoc c t)
  have "text_nat (s @ t @ [c]) = 10 * text_nat (s @ t) + digit_val c"
    using text_nat_snoc [of "s @ t" c] by simp
  with snoc show ?case by (simp add: algebra_simps)
qed (simp add: text_nat_def)

lemma text_nat_zeros [simp]: "text_nat (zeros n) = 0"
proof (induction n)
  case (Suc n)
  have "zeros (Suc n) = zeros n @ ''0''" by (simp add: zeros_def replicate_append_same)
  with Suc show ?case by (simp add: digit_val_def)
qed (simp add: zeros_def text_nat_def)

lemma zeros_digits [simp]: "c \<in> set (zeros n) \<Longrightarrow> is_digit c"
  by (auto simp: zeros_def is_digit_def)

lemma zero_digit [simp]: "is_digit (CHR ''0'')"
  by (simp add: is_digit_def)

text \<open>Reading digits with a point after the first of them.\<close>

lemma read_plain:
  assumes "ds \<noteq> []" "\<And>c. c \<in> set (ds @ fs) \<Longrightarrow> is_digit c"
  shows "decimal_of_text ((if neg then ''-'' else []) @ ds @ (if dot then CHR ''.'' # fs else [])) =
    Some (Fin (Dec (with_sign neg (int (text_nat (ds @ (if dot then fs else []))))) (if dot then - int (length fs) else 0)))"
proof -
  obtain c cs where ds: "ds = c # cs" "is_digit c" using assms by (cases ds) auto
  let ?body = "ds @ (if dot then CHR ''.'' # fs else [])"
  let ?t = "(if neg then ''-'' else []) @ ?body"
  have chars: "is_digit x \<or> x = CHR ''.'' \<or> x = CHR ''-''" if "x \<in> set ?t" for x
    using that assms(2) by (cases neg; cases dot) auto
  have signs: "\<not> is_space (CHR ''.'')" "\<not> is_space (CHR ''-'')" by (simp_all add: is_space_def)
  have "\<not> is_space x" if "x \<in> set ?t" for x using chars [OF that] is_digit_props(2) signs by blast
  then have "strip ?t = ?t" using strip_no_space by blast
  moreover have "x \<noteq> CHR ''_''" if "x \<in> set ?t" for x using chars [OF that] is_digit_props(6) by auto
  then have "filter (\<lambda>c. c \<noteq> CHR ''_'') ?t = ?t" by (simp only: filter_id_conv) blast
  ultimately have clean: "strip ?t = ?t" "filter (\<lambda>c. c \<noteq> CHR ''_'') ?t = ?t" by simp_all
  have sign: "sign_of ?t = (neg, ?body)" using is_digit_props(3,4) [OF ds(2)] by (simp add: sign_of_def ds(1))
  have word: "lower ?body \<noteq> ''inf''" "lower ?body \<noteq> ''infinity''" "\<not> starts_with ''nan'' (lower ?body)"
    "\<not> starts_with ''snan'' (lower ?body)"
    using is_digit_props(1,7,8,9) [OF ds(2)] by (auto simp: lower_def starts_with_def ds(1))
  have all: "list_all is_digit ds" "list_all is_digit fs" using assms(2) by (auto simp: list_all_iff)
  have point: "\<not> is_digit (CHR ''.'')" by (simp add: is_digit_def)
  have "takeWhile is_digit ?body = ds" "dropWhile is_digit ?body = (if dot then CHR ''.'' # fs else [])"
    using assms(2) point by (simp_all add: takeWhile_append2 dropWhile_append2)
  moreover have fs: "takeWhile is_digit fs = fs" "dropWhile is_digit fs = []" using assms(2) by auto
  ultimately show ?thesis
    unfolding decimal_of_text_def clean sign using word assms(1)
    by (simp add: Let_def read_exponent_def fs)
qed

lemma decimal_fixed_reads:
  obtains d' where "decimal_of_text (decimal_fixed d) = Some (Fin d')" "dec_val d' = dec_val d"
proof -
  define x where "x = (if 0 < dec_exp d then Dec (dec_coeff d * 10 ^ nat (dec_exp d)) 0 else d)"
  define ds where "ds = nat_text (nat \<bar>dec_coeff x\<bar>)"
  define p where "p = dec_exp x + int (length ds)"
  have x: "dec_exp x \<le> 0" "dec_val x = dec_val d"
    by (auto simp: x_def dec_val_def power_int_def)
  have ds: "ds \<noteq> []" "\<And>c. c \<in> set ds \<Longrightarrow> is_digit c" "text_nat ds = nat \<bar>dec_coeff x\<bar>"
    using nat_text_digits by (auto simp: ds_def)
  have shown: "decimal_fixed d = (if dec_coeff x < 0 then ''-'' else []) @ place_point p ds"
    by (simp add: decimal_fixed_def x_def ds_def p_def Let_def)
  have sgn: "with_sign (dec_coeff x < 0) (int (nat \<bar>dec_coeff x\<bar>)) = dec_coeff x" by (simp add: with_sign_def)
  have "decimal_of_text (decimal_fixed d) = Some (Fin x)"
  proof (cases "p \<le> 0")
    case True
    have "place_point p ds = ''0'' @ (if True then CHR ''.'' # (zeros (nat (- p)) @ ds) else [])"
      using True by (simp add: place_point_def)
    moreover have "''0'' @ zeros (nat (- p)) @ ds = zeros (Suc (nat (- p))) @ ds" by (simp add: zeros_def)
    then have "text_nat (''0'' @ zeros (nat (- p)) @ ds) = nat \<bar>dec_coeff x\<bar>"
      by (metis text_nat_append text_nat_zeros ds(3) mult_0 add_0)
    moreover have "- int (length (zeros (nat (- p)) @ ds)) = dec_exp x" using True by (simp add: p_def zeros_def)
    ultimately show ?thesis
      using read_plain [of "''0''" "zeros (nat (- p)) @ ds" "dec_coeff x < 0" True] ds(2) sgn shown
      by (cases x) fastforce
  next
    case False
    show ?thesis
    proof (cases "int (length ds) \<le> p")
      case True
      with x(1) have e: "dec_exp x = 0" "place_point p ds = ds" using False by (auto simp: p_def place_point_def zeros_def)
      then show ?thesis using read_plain [of ds "[]" "dec_coeff x < 0" False] ds sgn shown by (cases x) auto
    next
      case short: False
      then have "place_point p ds = take (nat p) ds @ (if True then CHR ''.'' # drop (nat p) ds else [])"
        using False by (simp add: place_point_def)
      moreover have "- int (length (drop (nat p) ds)) = dec_exp x" using False short by (simp add: p_def)
      moreover have "take (nat p) ds \<noteq> []" using False ds(1) by simp
      moreover have "c \<in> set (take (nat p) ds @ drop (nat p) ds) \<Longrightarrow> is_digit c" for c using ds(2) by simp
      ultimately show ?thesis
        using read_plain [of "take (nat p) ds" "drop (nat p) ds" "dec_coeff x < 0" True] ds(3) sgn shown
        by (cases x) auto
    qed
  qed
  with x(2) that show thesis by blast
qed

lemma strip_zeros_value: "strip_zeros fuel n = (m, k) \<Longrightarrow> n = m * 10 ^ k"
proof (induction fuel arbitrary: n k)
  case (Suc fuel)
  show ?case
  proof (cases "n mod 10 = 0 \<and> n \<noteq> 0")
    case True
    obtain k' where "strip_zeros fuel (n div 10) = (m, k')" "k = Suc k'" using Suc.prems True by (auto simp: map_prod_def split: prod.splits)
    with Suc.IH [of "n div 10" k'] True show ?thesis by (metis div_mult_mod_eq mult.assoc power_Suc2 add_0_right)
  next
    case False
    with Suc.prems show ?thesis by auto
  qed
qed simp

lemma dec_fix_small: "\<bar>dec_coeff d\<bar> < 10 ^ 28 \<Longrightarrow> dec_fix d = d"
  using num_digits_le [of "nat \<bar>dec_coeff d\<bar>" 28] by (simp add: dec_fix_def dec_prec_def nat_less_iff)

lemma dec_normalize_value:
  assumes "\<bar>dec_coeff d\<bar> < 10 ^ 28"
  shows "dec_val (dec_normalize d) = dec_val d"
proof -
  obtain m k where mk: "strip_zeros (num_digits (nat \<bar>dec_coeff d\<bar>)) (nat \<bar>dec_coeff d\<bar>) = (m, k)" by fastforce
  from strip_zeros_value [OF this] have "\<bar>dec_coeff d\<bar> = int m * 10 ^ k" by (metis abs_ge_zero nat_0_le of_nat_mult of_nat_numeral of_nat_power)
  then have c: "dec_coeff d = with_sign (dec_coeff d < 0) (int m) * 10 ^ k" by (auto simp: with_sign_def)
  have "(of_int (dec_coeff d) :: rat) = of_int (with_sign (dec_coeff d < 0) (int m)) * 10 ^ k"
    by (subst c) simp
  then show ?thesis using mk
    by (cases "dec_coeff d = 0") (simp_all add: dec_normalize_def dec_fix_small [OF assms] Let_def dec_val_def power_int_add)
qed

text \<open>A token price that the registry gives per token is suggested per thousand tokens as a text
  that reads back as exactly a thousand times the price, up to twenty-five significant digits.\<close>

theorem suggested_price_exact:
  assumes "decimal_of_json v = Some (Fin d)" "\<bar>dec_coeff d\<bar> < 10 ^ 25"
  shows "\<exists>t x. per_1k v = Some t \<and> decimal_of_text t = Some (Fin x) \<and> dec_val x = 1000 * dec_val d"
proof -
  have v: "v \<noteq> JNull" using assms(1) by (auto simp: decimal_of_json_def)
  let ?y = "Dec (dec_coeff d * 1000) (dec_exp d)"
  have y: "\<bar>dec_coeff ?y\<bar> < 10 ^ 28" using assms(2) by (simp add: abs_mult)
  have "dec_mul d (Dec 1000 0) = ?y" using dec_fix_small [OF y] by (simp add: dec_mul_def)
  then have t: "per_1k v = Some (decimal_fixed (dec_normalize ?y))"
    using v assms(1) by (simp add: per_1k_def fixed_text_def times_1000_def)
  obtain x where "decimal_of_text (decimal_fixed (dec_normalize ?y)) = Some (Fin x)"
      "dec_val x = dec_val (dec_normalize ?y)" by (rule decimal_fixed_reads)
  moreover have "dec_val ?y = 1000 * dec_val d" by (simp add: dec_val_def)
  ultimately show ?thesis using t dec_normalize_value [OF y] by auto
qed

theorem suggested_price_exact_witness:
  "\<exists>t x. per_1k (JStr ''0.0000025'') = Some t \<and> decimal_of_text t = Some (Fin x) \<and> dec_val x = 1000 * dec_val (Dec 25 (- 7))"
proof (rule suggested_price_exact)
  have "is_digit c" if "c \<in> set (''0'' @ ''0000025'')" for c
    using that by (auto simp: is_digit_def)
  then show "decimal_of_json (JStr ''0.0000025'') = Some (Fin (Dec 25 (- 7)))"
    using read_plain [of "''0''" "''0000025''" False True]
    by (simp add: decimal_of_json_def with_sign_def text_nat_def digit_val_def)
qed simp

section \<open>What synchronisation leaves alone\<close>

definition manually_blocked :: "string \<Rightarrow> db \<Rightarrow> bool" where
  "manually_blocked slug d \<longleftrightarrow>
     (\<exists>mc \<in> set (catalog d). mc_slug mc = slug) \<and>
     (\<forall>mc \<in> set (catalog d). mc_slug mc = slug \<longrightarrow> responses_blocked \<in> set (mc_capabilities mc))"

lemma blocked_support:
  "manually_blocked slug d \<Longrightarrow> lookup_support slug d = (Unavailable, Some Manual)"
  by (auto simp: manually_blocked_def lookup_support_def get_model_def get_support_def find_None_ball
      split: option.split dest!: find_SomeD)

lemma preserve_blocked: "responses_blocked \<in> set old \<Longrightarrow> responses_blocked \<in> set (preserve_into new old)"
  by (simp add: preserve_into_def all_markers_def)

lemma take_field_blocked:
  "responses_blocked \<in> set (mc_capabilities mc) \<Longrightarrow> responses_blocked \<in> set (mc_capabilities (take_field md f mc))"
  by (simp add: take_field_def preserve_blocked)

lemma take_fields_blocked:
  "responses_blocked \<in> set (mc_capabilities mc) \<Longrightarrow> responses_blocked \<in> set (mc_capabilities (fold (take_field md) fs mc))"
  by (induction fs arbitrary: mc) (simp_all add: take_field_blocked)

lemma take_fields_slug [simp]: "mc_slug (fold (take_field md) fs mc) = mc_slug mc"
  by (induction fs arbitrary: mc) (simp_all add: take_field_def)

lemma resync_frame [simp]:
  "mc_capabilities (resync fs md v en mc) = mc_capabilities mc" "mc_slug (resync fs md v en mc) = mc_slug mc"
  by (auto simp: resync_def Let_def split: option.splits list.splits)

lemma blocked_set_model:
  assumes "manually_blocked slug d" "responses_blocked \<in> set (mc_capabilities new)" "mc_slug new = slug"
  shows "manually_blocked slug (set_model slug (\<lambda>_. new) d)"
proof -
  from assms(1) obtain mc where mc: "mc \<in> set (catalog d)" "mc_slug mc = slug" by (auto simp: manually_blocked_def)
  then have "new \<in> set (catalog (set_model slug (\<lambda>_. new) d))" by (auto simp: set_model_def set_update_where)
  moreover have "responses_blocked \<in> set (mc_capabilities x)"
    if "x \<in> set (catalog (set_model slug (\<lambda>_. new) d))" "mc_slug x = slug" for x
    using that assms by (auto simp: manually_blocked_def set_model_def set_update_where)
  ultimately show ?thesis using assms(3) by (auto simp: manually_blocked_def)
qed

lemma blocked_frame: "catalog d' = catalog d \<Longrightarrow> manually_blocked slug d' = manually_blocked slug d"
  by (simp add: manually_blocked_def)

lemma rollback_catalog [simp]: "catalog (rollback_to d d') = catalog d"
  by (simp add: rollback_to_def)

lemma create_version_catalog: "catalog (snd (create_version e p m i out t c u pu n by d)) = catalog d"
  by (simp add: create_version_def Let_def new_ulid_def case_prod_beta
      split: option.split sum.split bool.split)

lemma append_price_catalog: "catalog (snd (append_price e w en v mc d)) = catalog d"
  using create_version_catalog
  by (auto simp: append_price_def version_from_texts_def split: option.split sum.split prod.split) (metis snd_conv)+

lemma get_model_blocked: "manually_blocked slug d \<Longrightarrow> get_model slug d = Some mc \<Longrightarrow>
    responses_blocked \<in> set (mc_capabilities mc) \<and> mc_slug mc = slug"
  by (auto simp: manually_blocked_def get_model_def dest!: find_SomeD)

lemma get_next_catalog: "catalog (snd (get_next e p d)) = catalog d"
  by (auto simp: get_next_def Let_def set_provider_cred_def split: list.split option.split)

lemma resolve_credential_catalog: "resolve_credential e p d = (r, d') \<Longrightarrow> catalog d' = catalog d"
  using get_next_catalog [of e p d]
  by (auto simp: resolve_credential_def split: prod.splits sum.splits option.splits if_splits)

lemma blocked_audit [simp]:
  "manually_blocked slug (audit_model e ev s ds d) = manually_blocked slug d"
  "manually_blocked slug (audit_test e s k ok ds d) = manually_blocked slug d"
  by (auto intro!: blocked_frame simp: audit_test_def audit_model_def)

lemma blocked_failed [simp]: "manually_blocked slug (snd (failed d code reason d')) = manually_blocked slug d"
  by (auto intro!: blocked_frame simp: failed_def)

lemma blocked_apply:
  assumes "manually_blocked slug d"
  shows "manually_blocked slug (snd (admin_litellm_apply e bundled fetched version wanted slug d))"
proof -
  let ?fs = "filter (\<lambda>f. f \<in> set syncable_fields) wanted"
  let ?mc1 = "\<lambda>mc latest en. resync ?fs latest version en (fold (take_field latest) ?fs mc)"
  have step: "manually_blocked slug d1"
    if mc: "get_model slug d = Some mc"
      and run: "append_price e w en version (?mc1 mc latest en) (set_model slug (\<lambda>_. ?mc1 mc latest en) d) = (r, d1)"
    for mc latest en w r d1
  proof -
    have "catalog d1 = catalog (set_model slug (\<lambda>_. ?mc1 mc latest en) d)"
      using append_price_catalog [of e w en version "?mc1 mc latest en"] run by (metis snd_conv)
    moreover have "manually_blocked slug (set_model slug (\<lambda>_. ?mc1 mc latest en) d)"
      using get_model_blocked [OF assms mc] by (intro blocked_set_model [OF assms]) (simp_all add: take_fields_blocked)
    ultimately show ?thesis using blocked_frame by blast
  qed
  have final: "manually_blocked slug (set_model slug (\<lambda>_. (?mc1 mc latest en)\<lparr>mc_updated_at := now e\<rparr>) d1)"
    if mc: "get_model slug d = Some mc" and d1: "manually_blocked slug d1" for mc latest en d1
    using get_model_blocked [OF assms mc] by (intro blocked_set_model [OF d1]) (simp_all add: take_fields_blocked)
  show ?thesis
    using assms by (auto simp: admin_litellm_apply_def Let_def split: option.split sum.split prod.split intro: step final)
qed

lemma blocked_tests:
  assumes "manually_blocked slug d"
  shows "manually_blocked slug (snd (admin_test_responses e up slug d))"
    and "manually_blocked slug (snd (admin_test_model e up' ack slug d))"
proof -
  have same: "manually_blocked slug d1" if "resolve_credential e p d = (r, d1)" for p r d1
    using blocked_frame [OF resolve_credential_catalog [OF that]] assms by simp
  have kept: "manually_blocked slug (set_model slug (\<lambda>_. mc) d1)"
    if "get_model slug d = Some mc" "manually_blocked slug d1" for mc d1
    using get_model_blocked [OF assms that(1)] by (intro blocked_set_model [OF that(2)]) simp_all
  have state: "fst (get_support (mc_capabilities mc)) = Unavailable" if "get_model slug d = Some mc" for mc
    using get_model_blocked [OF assms that] by (simp add: get_support_def)
  show "manually_blocked slug (snd (admin_test_responses e up slug d))"
    using assms by (auto simp: admin_test_responses_def Let_def state kept same
        split: option.split sum.split prod.split provider_error.split)
  show "manually_blocked slug (snd (admin_test_model e up' ack slug d))"
    using assms by (auto simp: admin_test_model_def Let_def same
        split: option.split sum.split prod.split provider_error.split)
qed

text \<open>C28: a model that an administrator has blocked for the responses endpoint stays blocked, by hand,
  whatever fields a synchronisation with litellm takes over and whatever a test call answers; only
  another decision of an administrator lifts it.\<close>

theorem manual_block_survives:
  assumes "manually_blocked slug d"
    and "d' = snd (admin_litellm_apply e bundled fetched version wanted slug d) \<or>
      d' = snd (admin_test_responses e up slug d) \<or> d' = snd (admin_test_model e up' ack slug d)"
  shows "lookup_support slug d' = (Unavailable, Some Manual)"
  using assms(2) blocked_apply [OF assms(1)] blocked_tests [OF assms(1)] blocked_support by blast

text \<open>A model, an entry of the registry for it, and the model blocked.\<close>

definition catalog_sample :: model_catalog where
  "catalog_sample =
     \<lparr>mc_slug = ''azure/gpt-4o'', mc_provider = ''azure'', mc_display_name = ''GPT-4o'', mc_family = ''gpt'',
      mc_description = [], mc_modality_input = [''text''], mc_modality_output = [''text''],
      mc_capabilities = [''chat''], mc_context_window = 8192, mc_cost_tier = ''low'', mc_recommended_for = [],
      mc_tags = [''fast''], mc_example_request = JObj [], mc_official_doc_url = None, mc_status = ''active'',
      mc_deprecation_note = None, mc_created_at = 0, mc_updated_at = 0, mc_default_access = access_open,
      mc_allowed_tags = [], mc_denied_tags = [], mc_self_service_enabled = False,
      mc_self_service_default_quota = None, mc_litellm_sync = None\<rparr>"

definition sample_registry :: registry where
  "sample_registry =
     [(''azure/gpt-4o'', [(''mode'', JStr ''chat''), (''max_input_tokens'', JInt 16), (''supports_vision'', JBool True)])]"

definition catalog_db :: db where
  "catalog_db = empty_db\<lparr>catalog := [catalog_sample]\<rparr>"

lemma blocked_by_hand:
  "manually_blocked ''azure/gpt-4o'' (snd (admin_set_responses_support sample_env False ''azure/gpt-4o'' catalog_db))"
proof -
  have "responses_blocked \<in> set (mark_manual_off caps)" for caps by (simp add: mark_manual_off_def set_markers_def)
  then show ?thesis
    by (simp add: admin_set_responses_support_def catalog_db_def catalog_sample_def empty_db_def get_model_def
        manually_blocked_def audit_model_def set_model_def update_where_def Let_def)
qed

theorem manual_block_survives_witness:
  "lookup_support ''azure/gpt-4o'' (snd (admin_litellm_apply sample_env sample_registry None ''1'' [''capabilities'']
     ''azure/gpt-4o'' (snd (admin_set_responses_support sample_env False ''azure/gpt-4o'' catalog_db)))) =
   (Unavailable, Some Manual)"
  by (rule manual_block_survives [OF blocked_by_hand]) blast

section \<open>Billed tests\<close>

text \<open>A test that would be billed, or that has no recipe, makes no upstream call and takes no key
  unless the administrator has acknowledged its cost: its answer does not depend on the upstream, and
  the only trace it can leave is an audit event.\<close>

theorem billed_test_waits:
  assumes "get_model slug d = Some mc" "is_billable (model_kind mc) \<or> \<not> is_testable (model_kind mc)"
  shows "admin_test_model e up False slug d = admin_test_model e up' False slug d \<and>
    provider_creds (snd (admin_test_model e up False slug d)) = provider_creds d \<and>
    (is_billable (model_kind mc) \<longrightarrow> admin_test_model e up False slug d = (Inr TestNeedsConfirmation, d))"
  using assms
  by (auto simp: admin_test_model_def is_billable_def is_testable_def Let_def audit_test_def audit_model_def
      split: option.split)

theorem billed_test_waits_witness:
  "snd (admin_test_model sample_env (\<lambda>k c m. (Inr (), 5)) False ''azure/gpt-4o''
     (catalog_db\<lparr>catalog := [catalog_sample\<lparr>mc_modality_output := [''image'']\<rparr>]\<rparr>)) =
   catalog_db\<lparr>catalog := [catalog_sample\<lparr>mc_modality_output := [''image'']\<rparr>]\<rparr>"
proof -
  let ?mc = "catalog_sample\<lparr>mc_modality_output := [''image'']\<rparr>"
  have "get_model ''azure/gpt-4o'' (catalog_db\<lparr>catalog := [?mc]\<rparr>) = Some ?mc"
    by (simp add: get_model_def catalog_db_def catalog_sample_def)
  moreover have "is_billable (model_kind ?mc)"
    by (simp add: is_billable_def recipes_def model_kind_def is_realtime_capable_def sync_raw_def mode_of_def catalog_sample_def)
  ultimately show ?thesis using billed_test_waits [of "''azure/gpt-4o''"] by simp
qed

section \<open>Unit prices\<close>

text \<open>A synchronisation that takes over the price of a model billed by another unit appends a version
  with no unit whose token prices are zero.\<close>

theorem sync_forgets_unit:
  assumes "per_1k (jget en ''input_cost_per_token'') = None" "price_from_entry en = Some sp"
  shows "sp_unit sp \<noteq> None \<and> applied_price sp =
    \<lparr>st_input = ''0'', st_output = ''0'', st_cached = None, st_unit = None, st_per_unit = None\<rparr>"
proof -
  have "unit_price ks en = Some sp \<Longrightarrow> sp_unit sp \<noteq> None \<and> sp_input sp = ''0'' \<and> sp_output sp = ''0'' \<and> sp_cached sp = None" for ks
    by (induction ks en rule: unit_price.induct) (auto split: option.splits)
  with assms show ?thesis by (auto simp: price_from_entry_def applied_price_def)
qed

theorem sync_forgets_unit_witness:
  "applied_price (the (price_from_entry [(''ocr_cost_per_page'', JInt 1)])) =
    \<lparr>st_input = ''0'', st_output = ''0'', st_cached = None, st_unit = None, st_per_unit = None\<rparr>"
proof -
  let ?en = "[(''ocr_cost_per_page'', JInt 1)]"
  have tok: "per_1k (jget ?en ''input_cost_per_token'') = None" by (simp add: per_1k_def jget_def)
  have "price_from_entry ?en \<noteq> None"
  proof -
    have "unit_price ks ?en \<noteq> None" if "(u, ''ocr_cost_per_page'') \<in> set ks" for u ks
      using that by (induction ks) (auto simp: money_text_def jget_def decimal_of_json_def split: option.splits)
    from this [of "''page''" unit_cost_keys] show ?thesis using tok by (simp add: price_from_entry_def unit_cost_keys_def)
  qed
  then obtain sp where "price_from_entry ?en = Some sp" by blast
  with tok show ?thesis using sync_forgets_unit [of ?en sp] by simp
qed

section \<open>Facets\<close>

lemma tags_facet:
  "map_of (compute_facets models) ''tags'' = Some (tally_values (concat (map mc_tags models)))"
  by (simp add: compute_facets_def facet_dimensions_def)

lemma map_of_tally: "map_of (tally_values vs) t = (if t \<in> set vs then Some (count_list vs t) else None)"
proof -
  have "map_of (map (\<lambda>v. (v, f v)) xs) t = (if t \<in> set xs then Some (f t) else None)" for xs and f :: "string \<Rightarrow> nat"
    by (induction xs) auto
  then show ?thesis by (simp add: tally_values_def)
qed

lemma count_distinct: "distinct xs \<Longrightarrow> count_list xs t = (if t \<in> set xs then 1 else 0)"
  by (induction xs) auto

lemma count_concat:
  assumes "\<And>m. m \<in> set ms \<Longrightarrow> distinct (g m)"
  shows "count_list (concat (map g ms)) t = length (filter (\<lambda>m. t \<in> set (g m)) ms)"
  using assms by (induction ms) (auto simp: count_list_0_iff count_distinct)

lemma normal_text: "norm_text t = t \<Longrightarrow> lower t = t"
  unfolding norm_text_def by (metis lower_idem)

text \<open>The number a facet shows beside a tag is the number of models that the filter on this tag
  returns, for tags kept in normal form and without repetition.\<close>

theorem facets_count_filtered:
  assumes "\<And>m. m \<in> set models \<Longrightarrow> distinct (mc_tags m) \<and> map norm_text (mc_tags m) = mc_tags m"
    and "t \<noteq> []" "map_of (the (map_of (compute_facets models) ''tags'')) t = Some n"
  shows "n = length (filter_models \<lparr>mf_capabilities = None, mf_modality_input = None, mf_modality_output = None,
      mf_recommended_for = None, mf_tags = Some [t], mf_cost_tier = None, mf_provider = None, mf_family = None,
      mf_min_context_window = None\<rparr> models)" (is "n = length (filter_models ?f models)")
proof -
  have "n = count_list (concat (map mc_tags models)) t" and t: "t \<in> set (concat (map mc_tags models))"
    using assms(3) by (simp_all add: tags_facet map_of_tally split: if_splits)
  then have n: "n = length (filter (\<lambda>m. t \<in> set (mc_tags m)) models)"
    using assms(1) by (simp add: count_concat)
  have normal: "norm_text x = x" if "m \<in> set models" "x \<in> set (mc_tags m)" for m x
    using assms(1) [OF that(1)] that(2) by (metis map_eq_conv map_ident)
  then have norm: "norm_text t = t" using t by auto
  then have "strip t \<noteq> []" using assms(2) by (auto simp: norm_text_def)
  then have "matches_filter ?f m = (t \<in> set (map lower (mc_tags m)))" for m
    by (simp add: matches_filter_def wants_all_def wants_text_def lower_set_def norm del: set_map)
  moreover have "map lower (mc_tags m) = mc_tags m" if "m \<in> set models" for m
    using normal [OF that] normal_text by (simp add: map_idI)
  ultimately have "filter (matches_filter ?f) models = filter (\<lambda>m. t \<in> set (mc_tags m)) models"
    by (intro filter_cong) (simp_all del: set_map)
  then show ?thesis using n by (simp add: filter_models_def)
qed

theorem facets_count_filtered_witness:
  "length (filter_models \<lparr>mf_capabilities = None, mf_modality_input = None, mf_modality_output = None,
      mf_recommended_for = None, mf_tags = Some [''fast''], mf_cost_tier = None, mf_provider = None, mf_family = None,
      mf_min_context_window = None\<rparr> [catalog_sample]) = 1"
proof -
  have "norm_text ''fast'' = ''fast''" by code_simp
  moreover have "map_of (the (map_of (compute_facets [catalog_sample]) ''tags'')) ''fast'' = Some 1"
    by (simp add: tags_facet catalog_sample_def tally_values_def)
  ultimately show ?thesis
    using facets_count_filtered [of "[catalog_sample]" "''fast''" 1] by (simp add: catalog_sample_def)
qed

end
