(* ===== verification/Realtime.thy ===== *)
theory Realtime
  imports CatalogAdmin AllocationAdmin Records
begin

text \<open>
  The live transcription relay, \<open>proxy/realtime.py\<close>.  Opening a connection and its bill are
  functions; between them three tasks (client to upstream, upstream to client, and the watcher that
  checks the allocation again) and the main task that closes run interleaved: a step of \<open>relay_step\<close>
  is one task from an \<open>await\<close> to its next, and other requests may change the database at any time.
  The peers are the environment: what they send, and whether a send fails.  \<open>loads\<close> stands for
  \<open>json.loads\<close>; the limits of recursion and memory and the log lines are not modelled.
\<close>

section \<open>The session\<close>

datatype close_reason =
  CloseNormal | CloseClientAbort | CloseUpstreamError | CloseRevoked | CloseCostExceeded

text \<open>\<open>allocation_id\<close>, \<open>subject\<close> and \<open>cost_cap\<close> are those of the allocation as read at the start.\<close>

record realtime_session =
  rs_allocation :: allocation
  rs_resource_model :: string
  rs_upstream_model :: string
  rs_provider :: string
  rs_request_id :: string
  rs_started_at :: timestamp
  rs_audio_bytes :: int
  rs_sample_rate :: int
  rs_bytes_per_sample :: int
  rs_channels :: int
  rs_close_reason :: close_reason
  rs_price_unit :: "string option"
  rs_price_per_unit :: "decimal option"

section \<open>Metering\<close>

text \<open>Division of floats, down to the subnormal ones.\<close>

definition round_double :: "rat \<Rightarrow> rat" where
  "round_double q =
     (if q = 0 then 0
      else let u = 2 powi (max (ilog2 \<bar>q\<bar> - 52) (- 1074)) in of_int (round_half_even (q / u)) * u)"

definition duration_seconds :: "int \<Rightarrow> int \<Rightarrow> int \<Rightarrow> int \<Rightarrow> rat" where
  "duration_seconds audio_bytes sample_rate bytes_per_sample channels =
     (let denom = sample_rate * bytes_per_sample * channels in
      if denom \<le> 0 then 0 else round_double (of_int audio_bytes / of_int denom))"

definition pcm_bytes_to_minutes :: "int \<Rightarrow> int \<Rightarrow> int \<Rightarrow> int \<Rightarrow> int" where
  "pcm_bytes_to_minutes audio_bytes sample_rate bytes_per_sample channels =
     (let secs = duration_seconds audio_bytes sample_rate bytes_per_sample channels in
      if secs \<le> 0 then 0 else \<lceil>round_double (secs / 60)\<rceil>)"

definition pcm_bytes_to_seconds :: "int \<Rightarrow> int \<Rightarrow> int \<Rightarrow> int \<Rightarrow> int" where
  "pcm_bytes_to_seconds audio_bytes sample_rate bytes_per_sample channels =
     (let secs = duration_seconds audio_bytes sample_rate bytes_per_sample channels in
      if secs \<le> 0 then 0 else \<lceil>secs\<rceil>)"

definition session_minutes :: "realtime_session \<Rightarrow> int" where
  "session_minutes s =
     pcm_bytes_to_minutes (rs_audio_bytes s) (rs_sample_rate s) (rs_bytes_per_sample s) (rs_channels s)"

definition session_quantity :: "realtime_session \<Rightarrow> string \<Rightarrow> int" where
  "session_quantity s unit =
     (if unit = ''minute'' then session_minutes s
      else pcm_bytes_to_seconds (rs_audio_bytes s) (rs_sample_rate s) (rs_bytes_per_sample s) (rs_channels s))"

definition time_unit :: "string option \<Rightarrow> string" where
  "time_unit u = (case u of Some x \<Rightarrow> if x = ''second'' \<or> x = ''minute'' then x else ''second'' | None \<Rightarrow> ''second'')"

definition session_running_cost :: "realtime_session \<Rightarrow> decimal" where
  "session_running_cost s =
     (case rs_price_per_unit s of
        None \<Rightarrow> dec_of_int 0
      | Some p \<Rightarrow> dec_mul (dec_of_int (session_quantity s (time_unit (rs_price_unit s)))) p)"

text \<open>\<open>base64.b64decode(audio, validate=False)\<close>: the number of bytes; \<open>None\<close> when it raises.  Characters
  outside the alphabet are skipped, and a complete padding ends the text.\<close>

definition b64_char :: "char \<Rightarrow> bool" where
  "b64_char c = (is_lower_letter c \<or> is_upper_letter c \<or> is_digit c \<or> c = CHR ''+'' \<or> c = CHR ''/'')"

fun b64_scan :: "nat \<Rightarrow> nat \<Rightarrow> string \<Rightarrow> nat option" where
  "b64_scan quad pads [] = (if quad = 0 then Some 0 else None)"
| "b64_scan quad pads (c # cs) =
     (if c = CHR ''='' then
        (if 2 \<le> quad then (if 4 \<le> quad + Suc pads then Some 0 else b64_scan quad (Suc pads) cs)
         else b64_scan quad pads cs)
      else if b64_char c then
        (if quad = 0 then b64_scan 1 0 cs else map_option Suc (b64_scan ((quad + 1) mod 4) 0 cs))
      else b64_scan quad pads cs)"

definition b64_length :: "string \<Rightarrow> nat option" where
  "b64_length s = (if list_ex (\<lambda>c. 128 \<le> (of_char c :: nat)) s then None else b64_scan 0 0 s)"

text \<open>The declared format: the first shape that is present.\<close>

definition format_of :: "(string \<times> json) list \<Rightarrow> (string \<times> json) list" where
  "format_of session =
     (let plain = (\<lambda>audio. case jget audio ''format'' of JObj f \<Rightarrow> f | _ \<Rightarrow> []);
          fmt = (case jget session ''audio'' of
                   JObj audio \<Rightarrow>
                     (case jget audio ''input'' of
                        JObj inp \<Rightarrow> (case jget inp ''format'' of JObj f \<Rightarrow> f | _ \<Rightarrow> plain audio)
                      | _ \<Rightarrow> plain audio)
                 | _ \<Rightarrow> [])
      in if fmt = [] then (case jget session ''input_audio_format'' of JObj f \<Rightarrow> f | _ \<Rightarrow> []) else fmt)"

text \<open>A positive \<open>int\<close>; \<open>True\<close> is one.\<close>

definition positive_int :: "json \<Rightarrow> int \<Rightarrow> int" where
  "positive_int v old =
     (case v of JInt n \<Rightarrow> if 0 < n then n else old | JBool b \<Rightarrow> if b then 1 else old | _ \<Rightarrow> old)"

definition apply_format :: "(string \<times> json) list \<Rightarrow> realtime_session \<Rightarrow> realtime_session" where
  "apply_format ev s =
     (case jget ev ''session'' of
        JObj session \<Rightarrow>
          (let fmt = format_of session in
           s\<lparr>rs_sample_rate := positive_int (json_or (jget fmt ''rate'') (jget fmt ''sample_rate'')) (rs_sample_rate s),
             rs_channels := positive_int (jget fmt ''channels'') (rs_channels s),
             rs_bytes_per_sample := positive_int (jget fmt ''bytes_per_sample'') (rs_bytes_per_sample s)\<rparr>)
      | _ \<Rightarrow> s)"

definition meter_client_event ::
  "(string \<Rightarrow> json option) \<Rightarrow> string \<Rightarrow> realtime_session \<Rightarrow> realtime_session" where
  "meter_client_event loads raw s =
     (case loads raw of
        Some (JObj ev) \<Rightarrow>
          if jget ev ''type'' = JStr ''session.update'' then apply_format ev s
          else if jget ev ''type'' = JStr ''input_audio_buffer.append'' then
            (case jget ev ''audio'' of
               JStr audio \<Rightarrow>
                 (case b64_length audio of
                    Some n \<Rightarrow> s\<lparr>rs_audio_bytes := rs_audio_bytes s + int n\<rparr> | None \<Rightarrow> s)
             | _ \<Rightarrow> s)
          else s
      | _ \<Rightarrow> s)"

section \<open>Opening a connection\<close>

text \<open>Close codes and the reasons the client sees.\<close>

definition ws_normal :: int where "ws_normal = 1000"
definition ws_policy_violation :: int where "ws_policy_violation = 1008"
definition ws_unsupported :: int where "ws_unsupported = 1003"
definition ws_internal :: int where "ws_internal = 1011"

definition close_code_for :: "close_reason \<Rightarrow> int \<times> string" where
  "close_code_for reason =
     (if reason = CloseRevoked then (ws_policy_violation, ''allocation revoked'')
      else if reason = CloseCostExceeded then (ws_policy_violation, ''monthly cost cap reached'')
      else if reason = CloseUpstreamError then (ws_internal, ''upstream connection closed'')
      else (ws_normal, ''connection closed''))"

definition extract_token :: "string option \<Rightarrow> string option" where
  "extract_token authorization =
     (case authorization of
        None \<Rightarrow> None
      | Some h \<Rightarrow>
          if \<not> starts_with ''bearer '' (lower h) then None
          else (let token = strip (after_char (CHR '' '') h) in if token = [] then None else Some token))"

definition model_from_session_update :: "(string \<Rightarrow> json option) \<Rightarrow> string \<Rightarrow> string option" where
  "model_from_session_update loads raw =
     (case loads raw of
        Some (JObj ev) \<Rightarrow>
          if jget ev ''type'' \<notin> {JStr ''session.update'', JStr ''transcription_session.update''} then None
          else
            (case jget ev ''session'' of
               JObj session \<Rightarrow>
                 (let model = (if truthy (jget session ''model'') then jget session ''model''
                               else case jget session ''input_audio_transcription'' of
                                 JObj iat \<Rightarrow> jget iat ''model'' | _ \<Rightarrow> jget session ''model'')
                  in case model of JStr (c # cs) \<Rightarrow> Some (c # cs) | _ \<Rightarrow> None)
             | _ \<Rightarrow> None)
      | _ \<Rightarrow> None)"

text \<open>The session of the pipeline is not committed: only the transaction of its own that the upstream
  key's use is written in stays.\<close>

definition uncommitted :: "db \<Rightarrow> db \<Rightarrow> db" where
  "uncommitted d d' = (rollback_to d d')\<lparr>provider_creds := provider_creds d', audit_log := audit_log d'\<rparr>"

datatype realtime_opening =
    RealtimeRefused int string
  | RealtimeFailed
  | RealtimeOpened realtime_session resolved_credential

definition new_realtime_session ::
  "env \<Rightarrow> string \<Rightarrow> preflight_success \<Rightarrow> price option \<Rightarrow> realtime_session" where
  "new_realtime_session e request_id ok price =
     \<lparr>rs_allocation = pf_allocation ok, rs_resource_model = pf_canonical_model ok,
      rs_upstream_model = pf_upstream_model ok, rs_provider = pf_provider ok,
      rs_request_id = (if request_id = [] then ''realtime'' else request_id), rs_started_at = now e,
      rs_audio_bytes = 0, rs_sample_rate = 24000, rs_bytes_per_sample = 2, rs_channels = 1,
      rs_close_reason = CloseNormal, rs_price_unit = Option.bind price pr_price_unit,
      rs_price_per_unit = Option.bind price pr_price_per_unit\<rparr>"

definition open_realtime ::
  "env \<Rightarrow> (string \<Rightarrow> json option) \<Rightarrow> string \<Rightarrow> string option \<Rightarrow> string option \<Rightarrow> db \<Rightarrow> realtime_opening \<times> db" where
  "open_realtime e loads request_id authorization first d =
     (case extract_token authorization of
        None \<Rightarrow> (RealtimeRefused ws_policy_violation ''missing bearer token'', d)
      | Some token \<Rightarrow>
     (case first of
        None \<Rightarrow> (RealtimeRefused ws_normal ''no session.update received'', d)
      | Some raw \<Rightarrow>
     (case model_from_session_update loads raw of
        None \<Rightarrow> (RealtimeRefused ws_policy_violation ''first frame must be session.update with model'', d)
      | Some name \<Rightarrow>
     (case run_preflight e token name d of
        (Inl err, d1) \<Rightarrow> (RealtimeFailed, uncommitted d d1)
      | (Inr (PreflightRejection code http_status alloc), d1) \<Rightarrow>
          (RealtimeRefused ws_policy_violation code, uncommitted d d1)
      | (Inr (PreflightSuccess ok), d1) \<Rightarrow>
          (if (case get_model (pf_canonical_model ok) d1 of None \<Rightarrow> ''chat'' | Some mc \<Rightarrow> model_kind mc) \<noteq> ''realtime''
           then (RealtimeRefused ws_unsupported ''model does not support realtime'', uncommitted d d1)
           else
             (let price = lookup_price_for_call (pf_provider ok) (model_key (pf_upstream_model ok)) (now e) d1
              in (RealtimeOpened
                    (meter_client_event loads raw (new_realtime_session e request_id ok price)) (pf_resolved ok),
                  uncommitted d d1)))))))"

section \<open>The relay\<close>

datatype up_task = UpReceiving | UpSending string | UpDone
datatype down_task = DownReceiving | DownSending string | DownDone
datatype watch_task = WatchWaiting | WatchChecking | WatchCosting | WatchSumming decimal | WatchDone
datatype main_task = MainWaiting | MainClosingUpstream | MainClosingClient | MainDone

text \<open>Beside the tasks, what the peers have sent and been sent, the code the client is closed with, and
  the shared database with its clock.\<close>

record relay =
  rl_session :: realtime_session
  rl_up :: up_task
  rl_down :: down_task
  rl_watch :: watch_task
  rl_main :: main_task
  rl_stop :: bool
  rl_received :: "string list"
  rl_sent :: "string list"
  rl_arrived :: "string list"
  rl_delivered :: "string list"
  rl_closed :: "(int \<times> string) option"
  rl_db :: db
  rl_clock :: timestamp

definition start_relay :: "realtime_session \<Rightarrow> db \<Rightarrow> timestamp \<Rightarrow> relay" where
  "start_relay s d t =
     \<lparr>rl_session = s, rl_up = UpReceiving, rl_down = DownReceiving, rl_watch = WatchWaiting,
      rl_main = MainWaiting, rl_stop = False, rl_received = [], rl_sent = [], rl_arrived = [],
      rl_delivered = [], rl_closed = None, rl_db = d, rl_clock = t\<rparr>"

text \<open>A forwarding task names the reason only if there is none yet; the watcher always does.\<close>

definition ended_by :: "close_reason \<Rightarrow> realtime_session \<Rightarrow> realtime_session" where
  "ended_by reason s = (if rs_close_reason s = CloseNormal then s\<lparr>rs_close_reason := reason\<rparr> else s)"

definition allocation_is_active :: "string \<Rightarrow> db \<Rightarrow> bool" where
  "allocation_is_active aid d = (case get_allocation aid d of None \<Rightarrow> False | Some a \<Rightarrow> a_status a = active)"

text \<open>The second half of \<open>_allocation_over_cost\<close>, when the month's cost has been read.\<close>

definition allocation_over_cost :: "realtime_session \<Rightarrow> decimal \<Rightarrow> bool" where
  "allocation_over_cost s committed =
     (case a_quota_cost (rs_allocation s) of None \<Rightarrow> False
      | Some cap \<Rightarrow> dec_le cap (dec_add committed (session_running_cost s)))"

definition watch_again :: "relay \<Rightarrow> relay" where
  "watch_again r = r\<lparr>rl_watch := (if rl_stop r then WatchDone else WatchWaiting)\<rparr>"

definition watch_stops :: "close_reason \<Rightarrow> relay \<Rightarrow> relay" where
  "watch_stops reason r =
     r\<lparr>rl_session := (rl_session r)\<lparr>rs_close_reason := reason\<rparr>, rl_stop := True, rl_watch := WatchDone\<rparr>"

inductive relay_step :: "env \<Rightarrow> (string \<Rightarrow> json option) \<Rightarrow> relay \<Rightarrow> relay \<Rightarrow> bool" for e loads where
  client_frame: "rl_up r = UpReceiving \<Longrightarrow> relay_step e loads r
     (r\<lparr>rl_session := meter_client_event loads f (rl_session r), rl_up := UpSending f, rl_received := rl_received r @ [f]\<rparr>)"
| client_gone: "rl_up r = UpReceiving \<Longrightarrow> relay_step e loads r
     (r\<lparr>rl_session := ended_by CloseClientAbort (rl_session r), rl_up := UpDone, rl_stop := True\<rparr>)"
| frame_sent: "rl_up r = UpSending f \<Longrightarrow> relay_step e loads r (r\<lparr>rl_up := UpReceiving, rl_sent := rl_sent r @ [f]\<rparr>)"
| send_failed: "rl_up r = UpSending f \<Longrightarrow> relay_step e loads r
     (r\<lparr>rl_session := ended_by CloseUpstreamError (rl_session r), rl_up := UpDone, rl_stop := True\<rparr>)"
| upstream_frame: "rl_down r = DownReceiving \<Longrightarrow> relay_step e loads r
     (r\<lparr>rl_down := DownSending f, rl_arrived := rl_arrived r @ [f]\<rparr>)"
| upstream_gone: "rl_down r = DownReceiving \<Longrightarrow> relay_step e loads r
     (r\<lparr>rl_session := ended_by CloseUpstreamError (rl_session r), rl_down := DownDone, rl_stop := True\<rparr>)"
| frame_delivered: "rl_down r = DownSending f \<Longrightarrow> relay_step e loads r
     (r\<lparr>rl_down := DownReceiving, rl_delivered := rl_delivered r @ [f]\<rparr>)"
| delivery_failed: "rl_down r = DownSending f \<Longrightarrow> relay_step e loads r
     (r\<lparr>rl_session := ended_by CloseClientAbort (rl_session r), rl_down := DownDone, rl_stop := True\<rparr>)"
| watch_wakes: "rl_watch r = WatchWaiting \<Longrightarrow> relay_step e loads r (r\<lparr>rl_watch := WatchChecking\<rparr>)"
| watch_ends: "rl_watch r = WatchWaiting \<Longrightarrow> rl_stop r \<Longrightarrow> relay_step e loads r (r\<lparr>rl_watch := WatchDone\<rparr>)"
| check_active: "rl_watch r = WatchChecking \<Longrightarrow>
     allocation_is_active (a_id (rs_allocation (rl_session r))) (rl_db r) \<Longrightarrow>
     relay_step e loads r (r\<lparr>rl_watch := WatchCosting\<rparr>)"
| check_failed: "rl_watch r = WatchChecking \<Longrightarrow> relay_step e loads r (r\<lparr>rl_watch := WatchCosting\<rparr>)"
| check_inactive: "rl_watch r = WatchChecking \<Longrightarrow>
     \<not> allocation_is_active (a_id (rs_allocation (rl_session r))) (rl_db r) \<Longrightarrow>
     relay_step e loads r (watch_stops CloseRevoked r)"
| no_cost_cap: "rl_watch r = WatchCosting \<Longrightarrow> a_quota_cost (rs_allocation (rl_session r)) = None \<Longrightarrow>
     relay_step e loads r (watch_again r)"
| cost_read: "rl_watch r = WatchCosting \<Longrightarrow> a_quota_cost (rs_allocation (rl_session r)) \<noteq> None \<Longrightarrow>
     relay_step e loads r
       (r\<lparr>rl_watch := WatchSumming (current_month_cost (at_time e (rl_clock r)) (a_id (rs_allocation (rl_session r))) (rl_db r))\<rparr>)"
| cost_query_failed: "rl_watch r = WatchCosting \<Longrightarrow> relay_step e loads r (watch_again r)"
| cost_below: "rl_watch r = WatchSumming c \<Longrightarrow> \<not> allocation_over_cost (rl_session r) c \<Longrightarrow>
     relay_step e loads r (watch_again r)"
| cost_reached: "rl_watch r = WatchSumming c \<Longrightarrow> allocation_over_cost (rl_session r) c \<Longrightarrow>
     relay_step e loads r (watch_stops CloseCostExceeded r)"
| main_wakes: "rl_main r = MainWaiting \<Longrightarrow> rl_stop r \<Longrightarrow> relay_step e loads r (r\<lparr>rl_main := MainClosingUpstream\<rparr>)"
| upstream_closed: "rl_main r = MainClosingUpstream \<Longrightarrow> relay_step e loads r
     (r\<lparr>rl_main := MainClosingClient, rl_closed := Some (close_code_for (rs_close_reason (rl_session r)))\<rparr>)"
| tasks_cancelled: "rl_main r = MainClosingClient \<Longrightarrow> relay_step e loads r
     (r\<lparr>rl_main := MainDone, rl_up := UpDone, rl_down := DownDone, rl_watch := WatchDone\<rparr>)"
| other_requests: "rl_clock r \<le> t \<Longrightarrow> relay_step e loads r (r\<lparr>rl_db := d, rl_clock := t\<rparr>)"

inductive relay_run :: "env \<Rightarrow> (string \<Rightarrow> json option) \<Rightarrow> relay \<Rightarrow> relay \<Rightarrow> bool" for e loads where
  relay_refl: "relay_run e loads r r"
| relay_more: "relay_run e loads r r1 \<Longrightarrow> relay_step e loads r1 r2 \<Longrightarrow> relay_run e loads r r2"

text \<open>How a connection goes on that has been opened: the upstream cannot be reached, the first frame
  cannot be sent to it, or the relay runs to its end.  The frames are those the relay has received, the
  last argument is the session at its end.\<close>

inductive connection ::
  "env \<Rightarrow> (string \<Rightarrow> json option) \<Rightarrow> realtime_session \<Rightarrow> string list \<Rightarrow> realtime_session \<Rightarrow> bool" for e loads where
  no_upstream: "connection e loads s [] (s\<lparr>rs_close_reason := CloseUpstreamError\<rparr>)"
| first_not_sent: "connection e loads s [] (s\<lparr>rs_close_reason := CloseUpstreamError\<rparr>)"
| relayed: "relay_run e loads (start_relay s d t) r \<Longrightarrow> rl_main r = MainDone \<Longrightarrow>
     connection e loads s (rl_received r) (rl_session r)"

section \<open>The bill\<close>

definition outcome_for_close :: "close_reason \<Rightarrow> call_outcome" where
  "outcome_for_close reason = (if reason = CloseUpstreamError then upstream_error else success)"

definition close_message :: "close_reason \<Rightarrow> string option" where
  "close_message reason =
     (if reason = CloseRevoked then Some ''allocation revoked mid-connection''
      else if reason = CloseCostExceeded then Some ''monthly cost cap reached mid-connection''
      else None)"

definition session_facts :: "realtime_session \<Rightarrow> price option \<Rightarrow> call_facts" where
  "session_facts s price =
     (let unit = time_unit (Option.bind price pr_price_unit); quantity = session_quantity s unit
      in no_facts\<lparr>cf_quantity := Some quantity, cf_unit := Some unit,
           cf_cost := map_option (\<lambda>p. calculate_unit_cost (Some quantity) (pr_price_per_unit p)) price,
           cf_error := close_message (rs_close_reason s)\<rparr>)"

text \<open>What the columns take: the allocation must exist, the quantity is a 32-bit integer and the cost a
  \<open>NUMERIC(10, 6)\<close>.  A record that the database refuses is lost, with a line in the log.\<close>

definition recordable :: "realtime_session \<Rightarrow> call_facts \<Rightarrow> db \<Rightarrow> bool" where
  "recordable s f d \<longleftrightarrow>
     get_allocation (a_id (rs_allocation s)) d \<noteq> None \<and>
     (case cf_quantity f of None \<Rightarrow> True | Some q \<Rightarrow> q < 2 ^ 31) \<and>
     (case cf_cost f of None \<Rightarrow> True | Some c \<Rightarrow> numeric_10_6 (Fin c) \<noteq> None)"

definition bill_session :: "env \<Rightarrow> realtime_session \<Rightarrow> db \<Rightarrow> db" where
  "bill_session e s d =
     (let f = session_facts s
                (lookup_price_for_call (rs_provider s) (model_key (rs_upstream_model s)) (rs_started_at s) d)
      in if recordable s f d
         then snd (record_call e (rs_request_id s) (Some (rs_allocation s)) (Some (rs_resource_model s))
                (rs_started_at s) 200 (outcome_for_close (rs_close_reason s)) f d)
         else d)"

end
