(* ===== verification/RealtimeTheorems.thy ===== *)
theory RealtimeTheorems
  imports Realtime ProxyCalls CatalogTheorems
begin

text \<open>
  What the live transcription relay guarantees: how much is billed for how much audio, what the relay
  forwards and counts whatever the order in which its tasks run, how a revocation ends it, and that
  every connection ends in exactly one record.
\<close>

section \<open>Rounding\<close>

lemma round_to_multiple_near: "0 < u \<Longrightarrow> \<bar>of_int (round_half_even (q / u)) * u - q\<bar> \<le> u / 2"
proof -
  assume u: "0 < u"
  have "\<bar>of_int (round_half_even (q / u)) * u - q\<bar> = \<bar>of_int (round_half_even (q / u)) - q / u\<bar> * u"
    using u by (simp add: abs_mult_pos left_diff_distrib)
  also have "\<dots> \<le> 1 / 2 * u" using u round_half_even_near by (intro mult_right_mono) auto
  finally show ?thesis by simp
qed

lemma round_double_near:
  assumes "0 < q"
  shows "\<bar>round_double q - q\<bar> \<le> max (q / 2 ^ 53) (1 / 2 ^ 1075)"
proof -
  let ?m = "max (ilog2 q - 52) (- 1074)"
  have "\<bar>round_double q - q\<bar> \<le> 2 powi ?m / 2"
    using assms round_to_multiple_near [of "2 powi ?m" q] by (simp add: round_double_def Let_def)
  also have "\<dots> \<le> max (q / 2 ^ 53) (1 / 2 ^ 1075)"
  proof (cases "ilog2 q - 52 \<le> - 1074")
    case True
    have "(2::rat) powi (- 1074) = 1 / 2 ^ 1074" by (simp add: power_int_minus_divide)
    then have "(2::rat) powi ?m / 2 = 1 / 2 ^ 1075" using True by (simp add: max_def)
    then show ?thesis by simp
  next
    case False
    have "(2::rat) powi (ilog2 q - 52) / 2 = 2 powi (ilog2 q) / 2 ^ 53" by (simp add: power_int_diff)
    also have "\<dots> \<le> q / 2 ^ 53" using ilog2_le [OF assms] by (intro divide_right_mono) auto
    finally show ?thesis using False by (simp add: max_def)
  qed
  finally show ?thesis .
qed

lemma round_double_int:
  assumes "0 < k" "k < 2 ^ 53"
  shows "round_double (of_int k) = of_int k"
proof -
  let ?m = "max (ilog2 (of_int k) - 52) (- 1074)"
  have "ilog2 (of_int k) < 53"
  proof (rule ccontr)
    assume "\<not> ilog2 (of_int k) < 53"
    then have "(2::rat) powi 53 \<le> 2 powi (ilog2 (of_int k))" by (intro power_int_increasing) auto
    also have "\<dots> \<le> of_int k" using ilog2_le [of "of_int k"] assms by simp
    finally have "(2::rat) ^ 53 \<le> of_int k" by (simp add: power_int_def)
    then show False using assms by (metis not_le of_int_le_iff of_int_numeral of_int_power)
  qed
  then have m: "?m \<le> 0" by simp
  have "inverse ((2::rat) powi ?m) = of_int (2 ^ nat (- ?m))"
    using m by (simp add: power_int_def power_one_over inverse_eq_divide)
  then have "of_int k / (2::rat) powi ?m = of_int (k * 2 ^ nat (- ?m))" by (simp only: divide_inverse of_int_mult)
  then have "of_int (round_half_even (of_int k / (2::rat) powi ?m)) * (2::rat) powi ?m = of_int k / 2 powi ?m * 2 powi ?m"
    by (simp only: round_half_even_int)
  then show ?thesis using assms by (simp add: round_double_def Let_def)
qed

lemma ceiling_near:
  assumes D: "0 < (D :: int)" and near: "\<bar>x - of_int a / of_int D\<bar> < 1 / of_int D"
    and exact: "\<And>k. of_int a / of_int D = (of_int k :: rat) \<Longrightarrow> x = of_int k"
  shows "\<lceil>x :: rat\<rceil> = \<lceil>of_int a / of_int D :: rat\<rceil>"
proof -
  let ?q = "of_int a / of_int D :: rat" and ?n = "\<lceil>of_int a / of_int D :: rat\<rceil>"
  have bounds: "of_int ?n - 1 < ?q" "?q \<le> of_int ?n" by linarith+
  show ?thesis
  proof (cases "?q = of_int ?n")
    case True
    then show ?thesis using exact by simp
  next
    case False
    have gap: "1 / of_int D \<le> of_int k - ?q" if "?q < of_int k" for k
    proof -
      have "a < k * D" using that D by (simp add: divide_less_eq) (metis of_int_less_iff of_int_mult)
      then have "(1 :: rat) \<le> of_int (k * D - a)" by (simp only: of_int_1_le_iff)
      then have "1 / of_int D \<le> of_int (k * D - a) / (of_int D :: rat)" using D by (intro divide_right_mono) auto
      then show ?thesis using D by (simp add: diff_divide_distrib)
    qed
    have gap': "1 / of_int D \<le> ?q - of_int k" if "of_int k < ?q" for k
    proof -
      have "k * D < a" using that D by (simp add: less_divide_eq) (metis of_int_less_iff of_int_mult)
      then have "(1 :: rat) \<le> of_int (a - k * D)" by (simp only: of_int_1_le_iff)
      then have "1 / of_int D \<le> of_int (a - k * D) / (of_int D :: rat)" using D by (intro divide_right_mono) auto
      then show ?thesis using D by (simp add: diff_divide_distrib)
    qed
    have "?q < of_int ?n" using bounds(2) False by (intro order_le_neq_trans)
    moreover have "of_int (?n - 1) < ?q" using bounds by simp
    ultimately have "of_int ?n - 1 < x" "x < of_int ?n" using gap [of ?n] gap' [of "?n - 1"] near by auto
    then show ?thesis by linarith
  qed
qed

section \<open>How much is billed\<close>

lemma near_quotient:
  assumes a: "0 < a" "a < 2 ^ 50" and D: "0 < D" "D \<le> 2 ^ 1000"
  shows "\<bar>round_double (of_int a / of_int D) - of_int a / of_int D\<bar> < 1 / 8 / of_int D"
proof -
  have d: "(0 :: rat) < of_int D" "(of_int D :: rat) \<le> 2 ^ 1000" using D by (simp_all add: of_int_le_numeral_power_cancel_iff)
  have "(of_int a :: rat) < 2 ^ 50" using a(2) by (simp add: of_int_less_numeral_power_cancel_iff)
  then have "of_int a / of_int D / 2 ^ 53 < (1 / 8 / of_int D :: rat)" using d by (simp add: field_simps)
  moreover have "1 / 2 ^ 1075 < (1 / 8 / of_int D :: rat)"
  proof -
    have "8 * of_int D \<le> (2 ^ 3 * 2 ^ 1000 :: rat)" using d by simp
    also have "\<dots> < 2 ^ 1075" unfolding power_add [symmetric] by (rule power_strict_increasing) simp_all
    finally show ?thesis using d by (simp add: field_simps)
  qed
  moreover have "\<bar>round_double (of_int a / of_int D) - of_int a / of_int D\<bar> \<le>
      max (of_int a / of_int D / 2 ^ 53) (1 / 2 ^ 1075)" using a d by (intro round_double_near) simp
  ultimately show ?thesis by linarith
qed

lemma positive_quotient:
  assumes "0 < a" "a < 2 ^ 50" and "0 < D" "D \<le> 2 ^ 1000"
  shows "0 < round_double (of_int a / of_int D)"
proof -
  have "1 / of_int D \<le> (of_int a / of_int D :: rat)" "1 / 8 / of_int D < (1 / of_int D :: rat)"
    using assms divide_strict_right_mono [of "1 / 8" 1 "of_int D :: rat"] by (auto intro!: divide_right_mono)
  then show ?thesis using near_quotient [OF assms] by linarith
qed

lemma seconds_exact:
  assumes "0 < a" "a < 2 ^ 50" and "0 < D" "D \<le> 2 ^ 1000"
  shows "\<lceil>round_double (of_int a / of_int D)\<rceil> = \<lceil>of_int a / of_int D :: rat\<rceil>"
proof (rule ceiling_near)
  have "1 / 8 / of_int D \<le> (1 / of_int D :: rat)" using assms by (simp add: field_simps)
  then show "\<bar>round_double (of_int a / of_int D) - of_int a / of_int D\<bar> < 1 / of_int D"
    using near_quotient [OF assms] by linarith
  fix k assume k: "of_int a / of_int D = (of_int k :: rat)"
  then have "of_int a = (of_int (k * D) :: rat)" using assms by (simp add: field_simps)
  then have "a = k * D" by (simp only: of_int_eq_iff)
  then have "0 < k" using assms by (simp add: zero_less_mult_iff)
  moreover have "k * 1 \<le> k * D" using \<open>0 < k\<close> assms by (intro mult_left_mono) auto
  then have "k < 2 ^ 53" using \<open>a = k * D\<close> assms by simp
  ultimately have "0 < k" "k < 2 ^ 53" by simp_all
  then show "round_double (of_int a / of_int D) = of_int k" unfolding k by (rule round_double_int)
qed (use assms in auto)

lemma minutes_exact:
  assumes "0 < a" "a < 2 ^ 50" and "0 < D" "D \<le> 2 ^ 1000"
  shows "\<lceil>round_double (round_double (of_int a / of_int D) / 60)\<rceil> = \<lceil>of_int a / of_int (60 * D) :: rat\<rceil>"
proof (rule ceiling_near)
  let ?q = "of_int a / of_int D :: rat" and ?s = "round_double (of_int a / of_int D)"
  have d: "(0 :: rat) < of_int D" "(1 :: rat) \<le> of_int a" "(of_int D :: rat) \<le> 2 ^ 1000" "(of_int a :: rat) < 2 ^ 50"
    using assms by (simp_all add: of_int_le_numeral_power_cancel_iff of_int_less_numeral_power_cancel_iff)
  have near: "\<bar>?s - ?q\<bar> < 1 / 8 / of_int D" by (rule near_quotient [OF assms])
  have "1 / of_int D \<le> ?q" using d by (simp add: field_simps)
  then have s: "0 < ?s" "?s < ?q + 1 / 8 / of_int D"
    using near divide_strict_right_mono [of "1 / 8" 1 "of_int D :: rat"] d by auto
  have "\<bar>round_double (?s / 60) - ?s / 60\<bar> \<le> max (?s / 60 / 2 ^ 53) (1 / 2 ^ 1075)"
    using s by (intro round_double_near) simp
  moreover have "?s / 60 / 2 ^ 53 < 1 / 4 / of_int (60 * D)"
  proof -
    have "?s < (of_int a + 1 / 8) / of_int D" unfolding add_divide_distrib using s(2) .
    also have "\<dots> < 2 ^ 51 / of_int D" using d by (intro divide_strict_right_mono) auto
    finally show ?thesis using d by (simp add: field_simps)
  qed
  moreover have "1 / 2 ^ 1075 < (1 / 4 / of_int (60 * D) :: rat)"
  proof -
    have "240 * of_int D \<le> (2 ^ 8 * 2 ^ 1000 :: rat)" using d by simp
    also have "\<dots> < 2 ^ 1075" unfolding power_add [symmetric] by (rule power_strict_increasing) simp_all
    finally show ?thesis using d by (simp add: field_simps)
  qed
  ultimately have "\<bar>round_double (?s / 60) - ?s / 60\<bar> < 1 / 4 / of_int (60 * D)" by linarith
  moreover have "\<bar>?s / 60 - of_int a / of_int (60 * D)\<bar> < 1 / 8 / of_int (60 * D)"
  proof -
    have "?s / 60 - of_int a / of_int (60 * D) = (?s - ?q) / 60" using d by (simp add: field_simps)
    moreover have "\<bar>?s - ?q\<bar> / 60 < 1 / 8 / of_int D / 60" using near by (intro divide_strict_right_mono) auto
    ultimately show ?thesis by simp
  qed
  moreover have "1 / 4 / of_int (60 * D) + 1 / 8 / of_int (60 * D) < (1 / of_int (60 * D) :: rat)"
    using d by (simp add: field_simps)
  ultimately show "\<bar>round_double (?s / 60) - of_int a / of_int (60 * D)\<bar> < 1 / of_int (60 * D)" by linarith
  fix k assume k: "of_int a / of_int (60 * D) = (of_int k :: rat)"
  then have "of_int a = (of_int (60 * k * D) :: rat)" using d by (simp add: field_simps)
  then have ak: "a = 60 * k * D" by (simp only: of_int_eq_iff)
  then have pos: "0 < k" using assms by (simp add: zero_less_mult_iff)
  then have "60 * k * 1 \<le> 60 * k * D" using assms by (intro mult_left_mono) auto
  then have "60 * k \<le> a" by (simp only: ak mult_1_right)
  then have bound: "60 * k < 2 ^ 53" using assms(2) by simp
  have "?q = of_int (60 * k)" using ak d by simp
  then have "?s = of_int (60 * k)" using round_double_int [of "60 * k"] pos bound by simp
  then have "?s / 60 = of_int k" by simp
  then show "round_double (?s / 60) = of_int k" using round_double_int [of k] pos bound by simp
qed (use assms in simp)

text \<open>C32: a connection is billed the started seconds, or the started minutes, of its audio, computed
  exactly from the bytes and the declared format although the code divides floats, up to a
  petabyte of audio and for any format whose frame rate is no absurd number.\<close>

theorem realtime_quantity_exact:
  assumes "0 \<le> rs_audio_bytes s" "rs_audio_bytes s < 2 ^ 50"
    and "0 < rs_sample_rate s * rs_bytes_per_sample s * rs_channels s"
      "rs_sample_rate s * rs_bytes_per_sample s * rs_channels s \<le> 2 ^ 1000"
  shows "session_quantity s unit =
    \<lceil>of_int (rs_audio_bytes s) / of_int ((if unit = ''minute'' then 60 else 1) *
       (rs_sample_rate s * rs_bytes_per_sample s * rs_channels s)) :: rat\<rceil>"
proof (cases "rs_audio_bytes s = 0")
  case True
  then show ?thesis
    by (simp add: session_quantity_def session_minutes_def pcm_bytes_to_minutes_def pcm_bytes_to_seconds_def
        duration_seconds_def round_double_def Let_def)
next
  case False
  define a D where "a = rs_audio_bytes s" and D: "D = rs_sample_rate s * rs_bytes_per_sample s * rs_channels s"
  have a: "0 < a" "a < 2 ^ 50" "0 < D" "D \<le> 2 ^ 1000" using False assms by (simp_all add: a_def D)
  have "duration_seconds a (rs_sample_rate s) (rs_bytes_per_sample s) (rs_channels s) =
      round_double (of_int a / of_int D)"
    using a(3) by (simp add: duration_seconds_def Let_def D [symmetric])
  then show ?thesis
    using seconds_exact [OF a] minutes_exact [OF a] positive_quotient [OF a]
    by (simp add: session_quantity_def session_minutes_def pcm_bytes_to_minutes_def pcm_bytes_to_seconds_def
        Let_def a_def [symmetric] D [symmetric])
qed

section \<open>What is counted\<close>

text \<open>The encoder of RFC 4648, to say what a client sends.\<close>

definition b64_alphabet :: string where
  "b64_alphabet = ''ABCDEFGHIJKLMNOPQRSTUVWXYZabcdefghijklmnopqrstuvwxyz0123456789+/''"

fun b64_encode :: "nat list \<Rightarrow> string" where
  "b64_encode [] = []"
| "b64_encode [a] = [b64_alphabet ! (a div 4), b64_alphabet ! (a mod 4 * 16), CHR ''='', CHR ''='']"
| "b64_encode [a, b] =
     [b64_alphabet ! (a div 4), b64_alphabet ! (a mod 4 * 16 + b div 16), b64_alphabet ! (b mod 16 * 4), CHR ''='']"
| "b64_encode (a # b # c # bs) =
     [b64_alphabet ! (a div 4), b64_alphabet ! (a mod 4 * 16 + b div 16), b64_alphabet ! (b mod 16 * 4 + c div 64),
      b64_alphabet ! (c mod 64)] @ b64_encode bs"

lemma b64_alphabet_chars:
  assumes "n < 64"
  shows "b64_char (b64_alphabet ! n)" "b64_alphabet ! n \<noteq> CHR ''=''" "(of_char (b64_alphabet ! n) :: nat) < 128"
proof -
  have "list_all (\<lambda>c. b64_char c \<and> c \<noteq> CHR ''='' \<and> (of_char c :: nat) < 128) b64_alphabet" by code_simp
  moreover have "b64_alphabet ! n \<in> set b64_alphabet" using assms by (intro nth_mem) (simp add: b64_alphabet_def)
  ultimately show "b64_char (b64_alphabet ! n)" "b64_alphabet ! n \<noteq> CHR ''=''" "(of_char (b64_alphabet ! n) :: nat) < 128"
    by (auto simp: list_all_iff)
qed

lemma b64_digit:
  assumes "n < 64"
  shows "b64_scan quad pads (b64_alphabet ! n # cs) =
    (if quad = 0 then b64_scan 1 0 cs else map_option Suc (b64_scan ((quad + 1) mod 4) 0 cs))"
  using b64_alphabet_chars [OF assms] by simp

lemma b64_pads: "b64_scan 2 0 [CHR ''='', CHR ''=''] = Some 0" "b64_scan 3 0 [CHR ''=''] = Some 0"
    "b64_scan (Suc (Suc 0)) 0 [CHR ''='', CHR ''=''] = Some 0" "b64_scan (Suc (Suc (Suc 0))) 0 [CHR ''=''] = Some 0"
  by simp_all

lemma b64_digits:
  "a < 256 \<Longrightarrow> a div 4 < 64" "b < 256 \<Longrightarrow> a mod 4 * 16 + b div 16 < 64"
  "c < 256 \<Longrightarrow> b mod 16 * 4 + c div 64 < 64" "c mod 64 < 64" "a mod 4 * 16 < 64" "b mod 16 * 4 < (64 :: nat)"
proof -
  have "a mod 4 < 4" "b mod 16 < 16" "c mod 64 < 64" by simp_all
  moreover have "a < 256 \<Longrightarrow> a div 4 < 64" "b < 256 \<Longrightarrow> b div 16 < 16" "c < 256 \<Longrightarrow> c div 64 < 4"
    by (simp_all add: less_mult_imp_div_less)
  ultimately show "a < 256 \<Longrightarrow> a div 4 < 64" "b < 256 \<Longrightarrow> a mod 4 * 16 + b div 16 < 64"
    "c < 256 \<Longrightarrow> b mod 16 * 4 + c div 64 < 64" "c mod 64 < 64" "a mod 4 * 16 < 64" "b mod 16 * 4 < 64"
    by linarith+
qed

lemma b64_scan_encode:
  "list_all (\<lambda>b. b < 256) bs \<Longrightarrow> b64_scan 0 0 (b64_encode bs) = Some (length bs)"
proof (induction bs rule: b64_encode.induct)
  case 1
  then show ?case by simp
next
  case (2 a)
  then show ?case by (simp add: b64_digit b64_digits b64_pads del: b64_scan.simps(2))
next
  case (3 a b)
  then show ?case by (simp add: b64_digit b64_digits b64_pads del: b64_scan.simps(2))
next
  case (4 a b c bs)
  then show ?case by (simp add: b64_digit b64_digits del: b64_scan.simps(2))
qed

lemma b64_encode_ascii:
  "list_all (\<lambda>b. b < 256) bs \<Longrightarrow> list_all (\<lambda>c. (of_char c :: nat) < 128) (b64_encode bs)"
  by (induction bs rule: b64_encode.induct) (simp_all add: b64_alphabet_chars(3) b64_digits)

lemma b64_length_encode: "list_all (\<lambda>b. b < 256) bs \<Longrightarrow> b64_length (b64_encode bs) = Some (length bs)"
  using b64_encode_ascii [of bs] by (auto simp: b64_length_def b64_scan_encode list_all_iff list_ex_iff)

definition audio_in :: "(string \<Rightarrow> json option) \<Rightarrow> string \<Rightarrow> int" where
  "audio_in loads f =
     (case loads f of
        Some (JObj ev) \<Rightarrow>
          if jget ev ''type'' = JStr ''input_audio_buffer.append'' then
            (case jget ev ''audio'' of
               JStr a \<Rightarrow> (case b64_length a of Some n \<Rightarrow> int n | None \<Rightarrow> 0)
             | _ \<Rightarrow> 0)
          else 0
      | _ \<Rightarrow> 0)"

text \<open>An append frame counts as many bytes as the client has encoded in it.\<close>

theorem append_frame_counted:
  assumes "loads f = Some (JObj [(''type'', JStr ''input_audio_buffer.append''), (''audio'', JStr (b64_encode bs))])"
    and "list_all (\<lambda>b. b < 256) bs"
  shows "rs_audio_bytes (meter_client_event loads f s) = rs_audio_bytes s + int (length bs)"
  using assms by (simp add: meter_client_event_def jget_def b64_length_encode)

lemma apply_format_frame [simp]:
  "rs_close_reason (apply_format ev s) = rs_close_reason s" "rs_allocation (apply_format ev s) = rs_allocation s"
  "rs_provider (apply_format ev s) = rs_provider s" "rs_upstream_model (apply_format ev s) = rs_upstream_model s"
  "rs_resource_model (apply_format ev s) = rs_resource_model s" "rs_started_at (apply_format ev s) = rs_started_at s"
  "rs_request_id (apply_format ev s) = rs_request_id s" "rs_audio_bytes (apply_format ev s) = rs_audio_bytes s"
  by (cases "jget ev ''session''"; simp add: apply_format_def Let_def)+

lemma apply_format_reason: "apply_format ev (s\<lparr>rs_close_reason := x\<rparr>) = (apply_format ev s)\<lparr>rs_close_reason := x\<rparr>"
  by (cases "jget ev ''session''") (simp_all add: apply_format_def Let_def)

lemma meter_frame [simp]:
  "rs_close_reason (meter_client_event loads f s) = rs_close_reason s"
  "rs_allocation (meter_client_event loads f s) = rs_allocation s"
  "rs_provider (meter_client_event loads f s) = rs_provider s"
  "rs_upstream_model (meter_client_event loads f s) = rs_upstream_model s"
  "rs_resource_model (meter_client_event loads f s) = rs_resource_model s"
  "rs_started_at (meter_client_event loads f s) = rs_started_at s"
  "rs_request_id (meter_client_event loads f s) = rs_request_id s"
  "rs_audio_bytes (meter_client_event loads f s) = rs_audio_bytes s + audio_in loads f"
  by (simp_all add: meter_client_event_def audio_in_def split: option.split json.split)

lemma meter_reason:
  "meter_client_event loads f (s\<lparr>rs_close_reason := x\<rparr>) = (meter_client_event loads f s)\<lparr>rs_close_reason := x\<rparr>"
  by (simp add: meter_client_event_def apply_format_reason split: option.split json.split)

abbreviation metered :: "(string \<Rightarrow> json option) \<Rightarrow> string list \<Rightarrow> realtime_session \<Rightarrow> realtime_session" where
  "metered loads fs s \<equiv> fold (meter_client_event loads) fs s"

lemma metered_frame [simp]:
  "rs_close_reason (metered loads fs s) = rs_close_reason s"
  "rs_allocation (metered loads fs s) = rs_allocation s"
  "rs_provider (metered loads fs s) = rs_provider s"
  "rs_upstream_model (metered loads fs s) = rs_upstream_model s"
  "rs_resource_model (metered loads fs s) = rs_resource_model s"
  "rs_started_at (metered loads fs s) = rs_started_at s"
  "rs_request_id (metered loads fs s) = rs_request_id s"
  "rs_audio_bytes (metered loads fs s) = rs_audio_bytes s + (\<Sum>f \<leftarrow> fs. audio_in loads f)"
  by (induction fs arbitrary: s) simp_all

section \<open>What the relay forwards\<close>

fun up_ok :: "up_task \<Rightarrow> string list \<Rightarrow> string list \<Rightarrow> bool" where
  "up_ok UpReceiving got gone = (got = gone)"
| "up_ok (UpSending f) got gone = (got = gone @ [f])"
| "up_ok UpDone got gone = (got = gone \<or> (\<exists>f. got = gone @ [f]))"

fun down_ok :: "down_task \<Rightarrow> string list \<Rightarrow> string list \<Rightarrow> bool" where
  "down_ok DownReceiving got gone = (got = gone)"
| "down_ok (DownSending f) got gone = (got = gone @ [f])"
| "down_ok DownDone got gone = (got = gone \<or> (\<exists>f. got = gone @ [f]))"

lemma task_ok_cancelled: "up_ok u got gone \<Longrightarrow> up_ok UpDone got gone" "down_ok v got gone \<Longrightarrow> down_ok DownDone got gone"
  by (cases u; simp) (cases v; simp)

definition counted_all :: "(string \<Rightarrow> json option) \<Rightarrow> realtime_session \<Rightarrow> string list \<Rightarrow> realtime_session \<Rightarrow> bool" where
  "counted_all loads s fs s' \<longleftrightarrow> s' = (metered loads fs s)\<lparr>rs_close_reason := rs_close_reason s'\<rparr>"

definition relay_inv :: "(string \<Rightarrow> json option) \<Rightarrow> realtime_session \<Rightarrow> relay \<Rightarrow> bool" where
  "relay_inv loads s r \<longleftrightarrow>
     counted_all loads s (rl_received r) (rl_session r) \<and>
     up_ok (rl_up r) (rl_received r) (rl_sent r) \<and> down_ok (rl_down r) (rl_arrived r) (rl_delivered r) \<and>
     (rl_stop r \<longleftrightarrow> rs_close_reason (rl_session r) \<noteq> CloseNormal) \<and>
     (\<not> rl_stop r \<longrightarrow> rl_up r \<noteq> UpDone \<and> rl_down r \<noteq> DownDone \<and> rl_watch r \<noteq> WatchDone \<and> rl_main r = MainWaiting) \<and>
     (rl_closed r = None \<longleftrightarrow> rl_main r \<in> {MainWaiting, MainClosingUpstream})"

lemma relay_inv_start: "rs_close_reason s = CloseNormal \<Longrightarrow> relay_inv loads s (start_relay s d t)"
  by (simp add: relay_inv_def start_relay_def counted_all_def)

lemma ended_by_reason [simp]:
  "rs_close_reason (ended_by x s) = (if rs_close_reason s = CloseNormal then x else rs_close_reason s)"
  by (simp add: ended_by_def)

lemma counted_reason: "counted_all loads s fs s' \<Longrightarrow> counted_all loads s fs (s'\<lparr>rs_close_reason := x\<rparr>)"
proof -
  assume counted: "counted_all loads s fs s'"
  define a where "a = rs_close_reason s'"
  have "s' = (metered loads fs s)\<lparr>rs_close_reason := a\<rparr>" using counted by (simp add: counted_all_def a_def)
  then show ?thesis by (simp add: counted_all_def)
qed

lemma counted_ended: "counted_all loads s fs s' \<Longrightarrow> counted_all loads s fs (ended_by x s')"
  by (simp add: ended_by_def counted_reason)

lemma counted_more:
  assumes "counted_all loads s fs s'"
  shows "counted_all loads s (fs @ [f]) (meter_client_event loads f s')"
proof -
  have "meter_client_event loads f s' =
      (meter_client_event loads f (metered loads fs s))\<lparr>rs_close_reason := rs_close_reason s'\<rparr>"
    using assms unfolding counted_all_def by (metis meter_reason)
  then show ?thesis by (simp add: counted_all_def)
qed

lemma relay_inv_step:
  assumes "relay_step e loads r r'" "relay_inv loads s r"
  shows "relay_inv loads s r'"
  using assms
proof (induction rule: relay_step.induct)
  case (tasks_cancelled r)
  then show ?case
    using task_ok_cancelled by (auto simp: relay_inv_def simp del: up_ok.simps(3) down_ok.simps(3))
qed (auto simp: relay_inv_def watch_again_def watch_stops_def counted_ended counted_reason counted_more)

lemma relay_inv_run:
  assumes "relay_run e loads r0 r" "relay_inv loads s r0"
  shows "relay_inv loads s r"
  using assms by (induction rule: relay_run.induct) (auto intro: relay_inv_step)

text \<open>C30: in whatever order the tasks of the relay run, what it sends to the upstream are the frames of
  the client in their order, but for the last one, and likewise in the other direction; every frame it
  has received is metered, so that no audio is forwarded without being counted; and when it has ended
  there is a reason and a close code.\<close>

theorem relay_forwards_and_counts:
  assumes "rs_close_reason s = CloseNormal" "relay_run e loads (start_relay s d t) r"
  shows "(\<exists>lost. rl_received r = rl_sent r @ lost \<and> length lost \<le> 1) \<and>
    (\<exists>lost. rl_arrived r = rl_delivered r @ lost \<and> length lost \<le> 1) \<and>
    rs_audio_bytes (rl_session r) = rs_audio_bytes s + (\<Sum>f \<leftarrow> rl_received r. audio_in loads f) \<and>
    (rl_main r = MainDone \<longrightarrow> rs_close_reason (rl_session r) \<noteq> CloseNormal \<and> rl_closed r \<noteq> None)"
proof -
  have ok: "relay_inv loads s r" by (rule relay_inv_run [OF assms(2) relay_inv_start [OF assms(1)]])
  have up: "\<exists>lost. got = gone @ lost \<and> length lost \<le> 1" if "up_ok u got gone" for u got gone
    using that by (cases u) auto
  have down: "\<exists>lost. got = gone @ lost \<and> length lost \<le> 1" if "down_ok u got gone" for u got gone
    using that by (cases u) auto
  have "rs_audio_bytes (rl_session r) = rs_audio_bytes (metered loads (rl_received r) s)"
    using ok unfolding relay_inv_def counted_all_def by (metis realtime_session.select_convs(7) realtime_session.surjective realtime_session.update_convs(11))
  moreover have "\<exists>lost. rl_received r = rl_sent r @ lost \<and> length lost \<le> 1"
    "\<exists>lost. rl_arrived r = rl_delivered r @ lost \<and> length lost \<le> 1"
    using ok by (auto simp only: relay_inv_def intro: up down)
  moreover have "rl_main r = MainDone \<longrightarrow> rs_close_reason (rl_session r) \<noteq> CloseNormal \<and> rl_closed r \<noteq> None"
    using ok by (cases "rl_stop r") (simp_all add: relay_inv_def)
  ultimately show ?thesis unfolding metered_frame by blast
qed

section \<open>Ending a connection\<close>

lemma relay_run_trans: "relay_run e loads r1 r2 \<Longrightarrow> relay_run e loads r0 r1 \<Longrightarrow> relay_run e loads r0 r2"
  by (induction rule: relay_run.induct) (auto intro: relay_run.relay_more)

lemma relay_run_step: "relay_step e loads r0 r1 \<Longrightarrow> relay_run e loads r0 r1"
  by (auto intro: relay_run.intros)

text \<open>A relay that has been stopped ends by three steps of its main task.\<close>

lemma stopped_relay_ends:
  assumes "rl_stop r"
  shows "\<exists>r'. relay_run e loads r r' \<and> rl_main r' = MainDone"
proof -
  note run = relay_run_trans [OF _ relay_run_step]
  have closing: "\<exists>r'. relay_run e loads r r' \<and> rl_main r' = MainDone" if "rl_main r = MainClosingClient" for r
    using relay_run_step [OF tasks_cancelled [OF that, where e = e and loads = loads]]
    by (intro exI conjI) (assumption, simp)
  have upstream: "\<exists>r'. relay_run e loads r r' \<and> rl_main r' = MainDone" if "rl_main r = MainClosingUpstream" for r
  proof -
    let ?r = "r\<lparr>rl_main := MainClosingClient, rl_closed := Some (close_code_for (rs_close_reason (rl_session r)))\<rparr>"
    obtain r' where "relay_run e loads ?r r'" "rl_main r' = MainDone" using closing [of ?r] by auto
    then show ?thesis using run [OF _ upstream_closed [OF that]] by blast
  qed
  show ?thesis
  proof (cases "rl_main r")
    case MainWaiting
    let ?r = "r\<lparr>rl_main := MainClosingUpstream\<rparr>"
    obtain r' where "relay_run e loads ?r r'" "rl_main r' = MainDone" using upstream [of ?r] by auto
    then show ?thesis using run [OF _ main_wakes [OF MainWaiting assms]] by blast
  qed (use closing upstream relay_refl in blast)+
qed

lemma relay_can_end:
  assumes "relay_inv loads s r"
  shows "\<exists>r'. relay_run e loads r r' \<and> rl_main r' = MainDone"
proof (cases "rl_stop r")
  case False
  then have "rl_up r \<noteq> UpDone" using assms by (simp add: relay_inv_def)
  then obtain r1 where "relay_step e loads r r1" "rl_stop r1"
    by (cases "rl_up r") (auto dest: client_gone send_failed intro: that)
  then show ?thesis using stopped_relay_ends relay_run_trans relay_run_step by meson
qed (rule stopped_relay_ends)

text \<open>Once the watcher has stopped the relay, its reason stays, and the client is told it.\<close>

definition watched :: "close_reason \<Rightarrow> relay \<Rightarrow> bool" where
  "watched reason r \<longleftrightarrow>
     rs_close_reason (rl_session r) = reason \<and> rl_watch r = WatchDone \<and> rl_closed r \<in> {None, Some (close_code_for reason)}"

lemma watched_step: "relay_step e loads r r' \<Longrightarrow> watched reason r \<Longrightarrow> reason \<noteq> CloseNormal \<Longrightarrow> watched reason r'"
  by (induction rule: relay_step.induct) (auto simp: watched_def)

lemma watched_run:
  assumes "relay_run e loads r r'" "watched reason r" "reason \<noteq> CloseNormal"
  shows "watched reason r'"
  using assms by (induction rule: relay_run.induct) (auto intro: watched_step)

lemma watcher_stops_relay:
  assumes "relay_step e loads r r1" "relay_inv loads s r" "\<not> rl_stop r" "rl_watch r1 = WatchDone"
  obtains "rl_watch r = WatchChecking" "\<not> allocation_is_active (a_id (rs_allocation (rl_session r))) (rl_db r)"
      "watched CloseRevoked r1" "rl_stop r1"
    | c where "rl_watch r = WatchSumming c" "allocation_over_cost (rl_session r) c"
      "watched CloseCostExceeded r1" "rl_stop r1"
  using assms
  by (cases rule: relay_step.cases) (auto simp: relay_inv_def watch_again_def watch_stops_def watched_def)

text \<open>C31: the watcher ends a running relay only when it finds the allocation not active or its month's cost
  cap reached by what is booked and what this connection has used so far; then whatever the other tasks
  still do, the reason stays, the client is closed with code 1008 and this reason, the relay can always
  run to its end, and the record will say success with the reason as its message.\<close>

theorem watcher_closes_connection:
  assumes "rs_close_reason s = CloseNormal" "relay_run e loads (start_relay s d t) r" "\<not> rl_stop r"
    and "relay_step e loads r r1" "rl_watch r1 = WatchDone" "relay_run e loads r1 r2"
  shows "\<exists>reason. (reason = CloseRevoked \<and> \<not> allocation_is_active (a_id (rs_allocation (rl_session r))) (rl_db r) \<or>
      reason = CloseCostExceeded \<and> (\<exists>c. rl_watch r = WatchSumming c \<and> allocation_over_cost (rl_session r) c)) \<and>
    rs_close_reason (rl_session r2) = reason \<and> fst (close_code_for reason) = 1008 \<and>
    (rl_main r2 = MainDone \<longrightarrow> rl_closed r2 = Some (close_code_for reason)) \<and>
    outcome_for_close reason = success \<and> close_message reason \<noteq> None \<and>
    (\<exists>r3. relay_run e loads r2 r3 \<and> rl_main r3 = MainDone)"
proof -
  have ok: "relay_inv loads s r" by (rule relay_inv_run [OF assms(2) relay_inv_start [OF assms(1)]])
  then have ok2: "relay_inv loads s r2" using relay_inv_step [OF assms(4)] relay_inv_run [OF assms(6)] by blast
  have told: "rs_close_reason (rl_session r2) = reason \<and> (rl_main r2 = MainDone \<longrightarrow> rl_closed r2 = Some (close_code_for reason))"
    if "watched reason r1" "reason \<noteq> CloseNormal" for reason
    using watched_run [OF assms(6) that] ok2 by (auto simp: watched_def relay_inv_def)
  from watcher_stops_relay [OF assms(4) ok assms(3,5)] show ?thesis
  proof cases
    case 1
    with told [of CloseRevoked] relay_can_end [OF ok2] show ?thesis
      by (intro exI [of _ CloseRevoked]) (simp add: close_code_for_def ws_policy_violation_def outcome_for_close_def close_message_def)
  next
    case (2 c)
    with told [of CloseCostExceeded] relay_can_end [OF ok2] show ?thesis
      by (intro exI [of _ CloseCostExceeded]) (simp add: close_code_for_def ws_policy_violation_def outcome_for_close_def close_message_def)
  qed
qed

section \<open>The bill of a connection\<close>

lemma open_realtimeE:
  assumes "open_realtime e loads rid auth first d = (RealtimeOpened s key, d0)"
  obtains token raw name ok d1 price where "extract_token auth = Some token" "first = Some raw"
    "model_from_session_update loads raw = Some name"
    "run_preflight e token name d = (Inr (PreflightSuccess ok), d1)"
    "s = meter_client_event loads raw (new_realtime_session e rid ok price)" "d0 = uncommitted d d1"
  using assms
  by (auto simp: open_realtime_def Let_def split: option.splits prod.splits sum.splits preflight_result.splits if_splits)

lemma first_frame_no_audio: "model_from_session_update loads raw = Some name \<Longrightarrow> audio_in loads raw = 0"
  by (auto simp: model_from_session_update_def audio_in_def split: option.splits json.splits if_splits)

lemma connection_session:
  assumes "connection e loads s fs s'" "rs_close_reason s = CloseNormal"
  shows "counted_all loads s fs s'"
  using assms
proof (cases rule: connection.cases)
  case (relayed d t r)
  then show ?thesis using relay_inv_run relay_inv_start [OF assms(2)] by (simp add: relay_inv_def)
qed (simp_all add: counted_all_def)

lemma counted_frame:
  assumes "counted_all loads s fs s'"
  shows "rs_allocation s' = rs_allocation s" "rs_resource_model s' = rs_resource_model s"
    "rs_started_at s' = rs_started_at s" "rs_request_id s' = rs_request_id s"
    "rs_audio_bytes s' = rs_audio_bytes s + (\<Sum>f \<leftarrow> fs. audio_in loads f)"
proof -
  define a where "a = rs_close_reason s'"
  have "s' = (metered loads fs s)\<lparr>rs_close_reason := a\<rparr>" using assms by (simp add: counted_all_def a_def)
  then show "rs_allocation s' = rs_allocation s" "rs_resource_model s' = rs_resource_model s"
    "rs_started_at s' = rs_started_at s" "rs_request_id s' = rs_request_id s"
    "rs_audio_bytes s' = rs_audio_bytes s + (\<Sum>f \<leftarrow> fs. audio_in loads f)" by simp_all
qed

lemma bill_session_record:
  assumes "price = lookup_price_for_call (rs_provider s) (model_key (rs_upstream_model s)) (rs_started_at s) d"
    and "recordable s (session_facts s price) d"
  obtains r where "call_records (bill_session e s d) = call_records d @ [r]"
    "r_allocation_id r = Some (a_id (rs_allocation s))" "r_model r = Some (rs_resource_model s)"
    "r_started_at r = rs_started_at s" "r_finished_at r = now e" "r_outcome r = outcome_for_close (rs_close_reason s)"
    "r_quantity r = Some (session_quantity s (time_unit (Option.bind price pr_price_unit)))"
    "r_cost_usd r = map_option (\<lambda>p. calculate_unit_cost (r_quantity r) (pr_price_per_unit p)) price"
proof
  let ?r = "fst (record_call e (rs_request_id s) (Some (rs_allocation s)) (Some (rs_resource_model s))
    (rs_started_at s) 200 (outcome_for_close (rs_close_reason s)) (session_facts s price) d)"
  show "call_records (bill_session e s d) = call_records d @ [?r]"
    using assms by (simp add: bill_session_def record_call_def Let_def case_prod_beta)
qed (simp_all add: record_call_def session_facts_def Let_def case_prod_beta)


section \<open>A connection\<close>

definition live_model :: model_catalog where
  "live_model = sample_model\<lparr>mc_capabilities := [''realtime'']\<rparr>"

definition live_db :: db where
  "live_db = one_grant\<lparr>catalog := [live_model], provider_creds := [sample_provider_credential]\<rparr>"

definition live_loads :: "string \<Rightarrow> json option" where
  "live_loads raw =
     (if raw = ''hello'' then Some (JObj [(''type'', JStr ''session.update''),
        (''session'', JObj [(''model'', JStr ''gpt-4o'')])])
      else if raw = ''audio'' then Some (JObj [(''type'', JStr ''input_audio_buffer.append''),
        (''audio'', JStr (b64_encode [1, 2, 3]))])
      else None)"

lemma run_preflight_catalog: "catalog (snd (run_preflight e token name d)) = catalog d"
proof -
  obtain x d1 where look: "lookup_credential_by_token e token d = (x, d1)" by fastforce
  have "catalog d2 = catalog d" if "resolve_credential e p d1 = (y, d2)" for p y d2
    using resolve_credential_catalog [OF that] lookup_tables(2) [OF look] by simp
  then show ?thesis
    using lookup_tables(2) [OF look]
    by (auto simp: run_preflight_def look Let_def split: option.split prod.split sum.split provider_error.split)
qed

lemma extract_token_bearer: "extract_token auth = parse_bearer_token auth"
  by (auto simp: extract_token_def parse_bearer_token_def starts_with_def lower_def split: option.split)

lemma live_scope_wf: "scope_wf sample_env live_db"
  using one_grant_wf unfolding live_db_def by (rule scope_wf_frame) simp_all

lemma live_preflight:
  obtains ok d1 where "run_preflight sample_env one_token ''gpt-4o'' live_db = (Inr (PreflightSuccess ok), d1)"
    "pf_allocation ok = hd (allocations one_grant)" "pf_canonical_model ok = ''azure/gpt-4o''"
proof -
  obtain a where a: "allocations one_grant = [a]" "a_resource_model a = ''azure/gpt-4o''"
      "admits sample_env one_token ''gpt-4o'' one_grant a"
    by (rule one_grant_admits)
  then obtain c where c: "key_of sample_env one_token one_grant = Some c" "grants one_grant c ''gpt-4o'' a"
    by (auto simp: admits_def)
  have same: "key_of sample_env one_token live_db = key_of sample_env one_token one_grant"
    "resolve_scope_allocation c m live_db = resolve_scope_allocation c m one_grant" for m
    by (simp_all add: live_db_def key_of_def resolve_scope_allocation_def scope_join_def scope_allocations_def)
  have bearer: "resolve_bearer sample_env one_token ''gpt-4o'' live_db = Some a"
    using resolve_grants [OF one_grant_wf] key_of_mem [OF c(1)] c by (simp add: resolve_bearer_key same)
  have "is_accessible m live_model live_db" for m
    by (simp add: is_accessible_def live_model_def sample_model_def get_providers_with_active_credentials_def
        live_db_def sample_provider_credential_def access_policy_allows_def)
  then have refusal: "allocation_refusal sample_env a live_db = None"
    using a one_grant_unused(4,5)
    by (simp add: allocation_refusal_None admits_def gpt_4o_provider)
      (simp add: get_model_def live_db_def live_model_def sample_model_def)
  have "upstream_key sample_env ''azure'' d = Some (resolved_of sample_provider_credential ''key'')"
    if "provider_creds d = [sample_provider_credential]" for d
    by (simp add: upstream_key_def rotation_order_def active_creds_def that sample_provider_credential_def sample_env_def)
  then have key: "fst (resolve_credential sample_env ''azure'' (set_credential cid f live_db)) =
      Inr (resolved_of sample_provider_credential ''key'')" for cid f
    by (simp add: resolve_credential_key set_credential_def live_db_def)
  have "fst (run_preflight sample_env one_token ''gpt-4o'' live_db) =
      Inr (PreflightSuccess (admitted a (resolved_of sample_provider_credential ''key'')))"
    by (simp add: run_preflight_cases same c(1) bearer refusal a(2) gpt_4o_provider key admitted_def)
  then show thesis using that a by (cases "run_preflight sample_env one_token ''gpt-4o'' live_db") (simp add: admitted_def)
qed

lemma live_opened:
  obtains s key d0 where "open_realtime sample_env live_loads [] one_header (Some ''hello'') live_db = (RealtimeOpened s key, d0)"
    "rs_allocation s = hd (allocations one_grant)" "rs_close_reason s = CloseNormal"
proof -
  obtain ok d1 where ok: "run_preflight sample_env one_token ''gpt-4o'' live_db = (Inr (PreflightSuccess ok), d1)"
    "pf_allocation ok = hd (allocations one_grant)" "pf_canonical_model ok = ''azure/gpt-4o''"
    by (rule live_preflight)
  have "catalog d1 = [live_model]" using run_preflight_catalog [of sample_env one_token "''gpt-4o''" live_db] ok
    by (simp add: live_db_def)
  then have "get_model ''azure/gpt-4o'' d1 = Some live_model" by (simp add: get_model_def live_model_def sample_model_def)
  moreover have "model_kind live_model = ''realtime''" by (simp add: model_kind_def is_realtime_capable_def live_model_def)
  moreover have "model_from_session_update live_loads ''hello'' = Some ''gpt-4o''"
    by (simp add: model_from_session_update_def live_loads_def jget_def truthy_def)
  ultimately show thesis
    using that ok by (simp add: open_realtime_def extract_token_bearer one_header_token new_realtime_session_def Let_def)
qed

text \<open>A session of two minutes and a byte at the default rate.\<close>

definition long_session :: realtime_session where
  "long_session =
     \<lparr>rs_allocation = hd (allocations one_grant), rs_resource_model = ''azure/gpt-4o'',
      rs_upstream_model = ''azure/gpt-4o'', rs_provider = ''azure'', rs_request_id = ''r'', rs_started_at = 0,
      rs_audio_bytes = 5760001, rs_sample_rate = 24000, rs_bytes_per_sample = 2, rs_channels = 1,
      rs_close_reason = CloseNormal, rs_price_unit = Some ''second'', rs_price_per_unit = None\<rparr>"

theorem realtime_quantity_exact_witness:
  "session_quantity long_session ''second'' = 121 \<and> session_quantity long_session ''minute'' = 3"
proof -
  have "\<lceil>5760001 / 48000 :: rat\<rceil> = 121" "\<lceil>5760001 / 2880000 :: rat\<rceil> = 3" by (rule ceiling_unique; simp)+
  then show ?thesis
    using realtime_quantity_exact [of long_session "''second''"] realtime_quantity_exact [of long_session "''minute''"]
    by (simp add: long_session_def)
qed

theorem append_frame_counted_witness:
  "rs_audio_bytes (meter_client_event live_loads ''audio'' long_session) = 5760001 + 3"
  using append_frame_counted [of live_loads "''audio''" "[1, 2, 3]" long_session]
  by (simp add: live_loads_def long_session_def)

theorem relay_forwards_and_counts_witness:
  "\<exists>r :: relay. rl_sent r = [] \<and> rl_received r = [''audio''] \<and>
     rs_audio_bytes (rl_session r) = 5760001 + (\<Sum>f \<leftarrow> rl_received r. audio_in live_loads f)"
proof -
  let ?start = "start_relay long_session empty_db 0"
  let ?r = "?start\<lparr>rl_session := meter_client_event live_loads ''audio'' (rl_session ?start), rl_up := UpSending ''audio'',
    rl_received := rl_received ?start @ [''audio'']\<rparr>"
  have "relay_run sample_env live_loads ?start ?r"
    by (rule relay_run_step, rule relay_step.client_frame) (simp add: start_relay_def)
  from relay_forwards_and_counts [OF _ this]
  have bytes: "rs_audio_bytes (rl_session ?r) = 5760001 + (\<Sum>f \<leftarrow> rl_received ?r. audio_in live_loads f)"
    by (simp add: long_session_def start_relay_def)
  have frames: "rl_sent ?r = []" "rl_received ?r = [''audio'']" by (simp_all add: start_relay_def)
  show ?thesis by (rule exI [of _ ?r]) (intro conjI bytes frames)
qed

theorem watcher_closes_connection_witness:
  "\<exists>r r1 reason. relay_step sample_env live_loads r r1 \<and> \<not> rl_stop r \<and> rs_close_reason (rl_session r1) = reason \<and>
     fst (close_code_for reason) = 1008"
proof -
  let ?start = "start_relay long_session empty_db 0"
  let ?r = "?start\<lparr>rl_watch := WatchChecking\<rparr>" and ?closed = "watch_stops CloseRevoked (?start\<lparr>rl_watch := WatchChecking\<rparr>)"
  have run: "relay_run sample_env live_loads ?start ?r"
    by (rule relay_run_step, rule relay_step.watch_wakes) (simp add: start_relay_def)
  have step: "relay_step sample_env live_loads ?r ?closed"
    by (intro relay_step.check_inactive)
      (simp_all add: allocation_is_active_def get_allocation_def start_relay_def empty_db_def)
  have "rs_close_reason long_session = CloseNormal" "\<not> rl_stop ?r" "rl_watch ?closed = WatchDone"
    by (simp_all add: long_session_def start_relay_def watch_stops_def)
  from watcher_closes_connection [OF this(1) run this(2) step this(3) relay_run.relay_refl] step this(2) show ?thesis by blast
qed


end
