(* ===== verification/AdminKeys.thy ===== *)
theory AdminKeys
  imports MyAccount ProviderCreds QuotaPool SelfService
begin

text \<open>
  The administrators' endpoints over keys, quotas and the audit trail: the application keys of any
  member (\<open>api/credentials.py\<close>), the upstream keys (\<open>api/admin_providers.py\<close>), the quota pool
  (\<open>api/quota_pool.py\<close>), self-service (\<open>api/admin_self_service.py\<close>) and the audit viewer
  (\<open>api/admin_audit.py\<close>).  The upstream of a connection test is the function that answers it.
\<close>

section \<open>Application keys\<close>

definition admin_list_member_credentials :: "string \<Rightarrow> db \<Rightarrow> app_key list" where
  "admin_list_member_credentials mid d = map (app_key_of d) (list_member_credentials mid d)"

definition admin_key_event :: "env \<Rightarrow> audit_event \<Rightarrow> string \<Rightarrow> (string \<times> json) list \<Rightarrow> db \<Rightarrow> db" where
  "admin_key_event e event cid details d =
     audit_record e event actor_admin None (Some ''credential'') (Some cid) details d"

definition admin_revoke_app_credential :: "env \<Rightarrow> string \<Rightarrow> db \<Rightarrow> unit http" where
  "admin_revoke_app_credential e cid d =
     (case get_credential cid d of
        None \<Rightarrow> failed d 404 ''not_found'' d
      | Some c \<Rightarrow> (Inr (), admin_key_event e credential_revoked cid [] (snd (revoke_credential e cid d))))"

definition admin_renamed_key :: "env \<Rightarrow> string \<Rightarrow> string option \<Rightarrow> db \<Rightarrow> db" where
  "admin_renamed_key e cid name d =
     (case name of None \<Rightarrow> d
      | Some n \<Rightarrow> admin_key_event e credential_renamed cid [] (snd (rename_credential cid n d)))"

text \<open>One entry for what was added and one for what was removed.\<close>

definition scope_events :: "env \<Rightarrow> string \<Rightarrow> string list \<Rightarrow> string list \<Rightarrow> db \<Rightarrow> db" where
  "scope_events e cid add remove d =
     (let d1 = (if add = [] then d
                else admin_key_event e credential_scope_added cid [(''add'', JList (map JStr add))] d)
      in if remove = [] then d1
         else admin_key_event e credential_scope_removed cid [(''remove'', JList (map JStr remove))] d1)"

definition admin_patch_credential_scope ::
  "env \<Rightarrow> string \<Rightarrow> string option \<Rightarrow> string list \<Rightarrow> string list \<Rightarrow> db \<Rightarrow> app_key http" where
  "admin_patch_credential_scope e cid name add remove d =
     (if (case name of None \<Rightarrow> False | Some n \<Rightarrow> \<not> key_name_ok n) then failed d 422 ''validation'' d
      else case get_credential cid d of
        None \<Rightarrow> failed d 404 ''not_found'' d
      | Some c \<Rightarrow>
          (case patch_credential_scope cid add remove (admin_renamed_key e cid name d) of
             (Inl err, d1) \<Rightarrow> (case scope_failure err of (code, reason) \<Rightarrow> failed d code reason d1)
           | (Inr None, d1) \<Rightarrow> failed d 500 ''internal'' d1
           | (Inr (Some c'), d1) \<Rightarrow>
               (let d2 = scope_events e cid add remove d1 in (Inr (app_key_of d2 c'), d2))))"

section \<open>Upstream keys\<close>

text \<open>What is shown of a key: never its ciphertext.\<close>

record provider_public =
  pp_id :: string
  pp_provider :: string
  pp_label :: string
  pp_fingerprint :: string
  pp_base_url :: "string option"
  pp_extra_config :: "(string \<times> json) list option"
  pp_status :: provider_cred_status
  pp_last_used_at :: "timestamp option"
  pp_created_at :: timestamp
  pp_created_by :: string
  pp_disabled_at :: "timestamp option"

definition provider_public_of :: "provider_credential \<Rightarrow> provider_public" where
  "provider_public_of c =
     \<lparr>pp_id = pc_id c, pp_provider = pc_provider c, pp_label = pc_label c,
      pp_fingerprint = pc_fingerprint c, pp_base_url = pc_base_url c,
      pp_extra_config = pc_extra_config c, pp_status = pc_status c,
      pp_last_used_at = pc_last_used_at c, pp_created_at = pc_created_at c,
      pp_created_by = pc_created_by c, pp_disabled_at = pc_disabled_at c\<rparr>"

definition provider_status_of :: "string \<Rightarrow> provider_cred_status option" where
  "provider_status_of s =
     (if s = ''active'' then Some pc_active else if s = ''disabled'' then Some pc_disabled else None)"

definition list_providers :: "string option \<Rightarrow> string option \<Rightarrow> db \<Rightarrow> provider_public list http" where
  "list_providers provider status_q d =
     (case status_q of
        None \<Rightarrow> (Inr (map provider_public_of (list_provider_creds provider None d)), d)
      | Some s \<Rightarrow>
          (case provider_status_of s of
             None \<Rightarrow> failed d 422 ''bad_status'' d
           | Some st \<Rightarrow> (Inr (map provider_public_of (list_provider_creds provider (Some st) d)), d)))"

definition get_provider :: "string \<Rightarrow> db \<Rightarrow> provider_public http" where
  "get_provider pid d =
     (case get_provider_cred pid d of
        None \<Rightarrow> failed d 404 ''not_found'' d
      | Some c \<Rightarrow> (Inr (provider_public_of c), d))"

text \<open>The bodies of the requests; the answer to the first two echoes the key once, the first one with
  the id and label of another credential that has the same key.\<close>

definition post_provider ::
  "env \<Rightarrow> string \<Rightarrow> string \<Rightarrow> string \<Rightarrow> string option \<Rightarrow> (string \<times> json) list option \<Rightarrow> db
     \<Rightarrow> (provider_public \<times> string \<times> (string \<times> string) option) http" where
  "post_provider e provider label api_key base_url extra_config d =
     (if provider = [] \<or> 32 < length provider \<or> label = [] \<or> 64 < length label \<or> length api_key < 8
      then failed d 422 ''validation'' d
      else case create_provider e provider label api_key base_url extra_config d of
        ((code, None), d1) \<Rightarrow>
          (Inl (code, if code = 422 then ''provider_not_allowed''
                      else if code = 409 then ''duplicate_label'' else ''internal''), d1)
      | ((code, Some (c, dup)), d1) \<Rightarrow>
          (Inr (provider_public_of c, api_key, map_option (\<lambda>x. (pc_id x, pc_label x)) dup), d1))"

definition post_rotate_provider ::
  "env \<Rightarrow> string \<Rightarrow> string \<Rightarrow> db \<Rightarrow> (provider_public \<times> string) http" where
  "post_rotate_provider e pid api_key d =
     (if length api_key < 8 then failed d 422 ''validation'' d
      else case rotate_provider e pid api_key d of
        ((code, None), d1) \<Rightarrow> (Inl (code, if code = 409 then ''cannot_rotate'' else ''not_found''), d1)
      | ((code, Some c), d1) \<Rightarrow> (Inr (provider_public_of c, api_key), d1))"

definition post_disable_provider :: "env \<Rightarrow> string \<Rightarrow> db \<Rightarrow> provider_public http" where
  "post_disable_provider e pid d =
     (case disable_provider e pid d of
        ((code, None), d1) \<Rightarrow> (Inl (code, if code = 409 then ''already_disabled'' else ''not_found''), d1)
      | ((code, Some c), d1) \<Rightarrow> (Inr (provider_public_of c), d1))"

definition default_test_models :: "(string \<times> string) list" where
  "default_test_models =
     [(''openai'', ''gpt-4o-mini''), (''anthropic'', ''claude-3-5-haiku-20241022''),
      (''gemini'', ''gemini-1.5-flash'')]"

definition default_test_model :: "string \<Rightarrow> string \<Rightarrow> string" where
  "default_test_model azure_test_model provider =
     (if provider = ''azure'' then (if azure_test_model = [] then ''gpt-4o-mini'' else azure_test_model)
      else case map_of default_test_models provider of None \<Rightarrow> [] | Some m \<Rightarrow> m)"

text \<open>The call: the model, the key, the base URL and the API version; the answer is an error with its
  class and message or nothing, and the milliseconds it took.\<close>

type_synonym ping_upstream =
  "string \<Rightarrow> string \<Rightarrow> string option \<Rightarrow> json \<Rightarrow> (string \<times> string + unit) \<times> int"

datatype ping_result = PingOk string int | PingFailed string string string

definition test_provider_connection ::
  "env \<Rightarrow> string \<Rightarrow> ping_upstream \<Rightarrow> string \<Rightarrow> string option \<Rightarrow> db \<Rightarrow> ping_result http" where
  "test_provider_connection e azure_test_model ping pid model d =
     (case get_provider_cred pid d of
        None \<Rightarrow> failed d 404 ''not_found'' d
      | Some c \<Rightarrow>
          if pc_status c \<noteq> pc_active then failed d 409 ''not_active'' d
          else
            (let name = (case model of Some n \<Rightarrow> n | None \<Rightarrow> default_test_model azure_test_model (pc_provider c));
                 full = (if CHR ''/'' \<in> set name then name else pc_provider c @ ''/'' @ name)
             in if model = None \<and> name = [] then failed d 422 ''no_default_model'' d
                else case decrypt e (pc_enc_key c) of
                  None \<Rightarrow> failed d 500 ''internal'' d
                | Some key \<Rightarrow>
                    (let version = jget (case pc_extra_config c of None \<Rightarrow> [] | Some x \<Rightarrow> x) ''api_version'';
                         d1 = set_provider_cred pid (\<lambda>c. c\<lparr>pc_last_used_at := Some (now e)\<rparr>) d
                     in case ping full key (pc_base_url c) version of
                          (Inl (error_type, message), ms) \<Rightarrow>
                            (Inr (PingFailed full error_type (take 512 message)), d1)
                        | (Inr _, ms) \<Rightarrow> (Inr (PingOk full ms), d1))))"

section \<open>The quota pool\<close>

record pool_status =
  po_total :: int
  po_service :: int
  po_locked :: int
  po_distributable :: int
  po_members :: nat
  po_floor :: int
  po_enabled :: bool
  po_last_rebalance :: "timestamp option"
  po_config :: pool_config
  po_suggestion :: pool_suggestion
  po_warning :: "(int \<times> int) option"

definition reserved_service :: "db \<Rightarrow> int" where
  "reserved_service d =
     sum_list (map quota_or_zero (filter (\<lambda>a. a_status a = active \<and> a_is_service a) (allocations d)))"

definition reserved_locked :: "db \<Rightarrow> int" where
  "reserved_locked d =
     sum_list (map quota_or_zero
       (filter (\<lambda>a. a_status a = active \<and> \<not> a_is_service a \<and> a_quota_locked a) (allocations d)))"

definition last_rebalance_at :: "db \<Rightarrow> timestamp option" where
  "last_rebalance_at d =
     (case sort_key (\<lambda>t. - t) (map rl_finished_at (rebalance_logs d)) of [] \<Rightarrow> None | t # _ \<Rightarrow> Some t)"

text \<open>The warning names the total and the usage that exceeds it.\<close>

definition get_pool_status :: "env \<Rightarrow> db \<Rightarrow> pool_status \<times> db" where
  "get_pool_status e d =
     (let (c, d1) = get_pool_config e d; T = pool_total c;
          sugg = suggest_pool_config e d1; recent = ps_recent sugg
      in (\<lparr>po_total = T, po_service = reserved_service d1, po_locked = reserved_locked d1,
           po_distributable = T - reserved_service d1 - reserved_locked d1,
           po_members = length (filter in_pool (allocations d1)), po_floor = pool_floor c,
           po_enabled = (0 < T), po_last_rebalance = last_rebalance_at d1, po_config = c,
           po_suggestion = sugg,
           po_warning = (if 0 < T \<and> T < recent then Some (T, recent) else None)\<rparr>, d1))"

text \<open>The columns are a 64-bit and a 32-bit integer.\<close>

definition put_pool_config :: "env \<Rightarrow> int \<Rightarrow> int \<Rightarrow> db \<Rightarrow> (int \<times> int \<times> int option) http" where
  "put_pool_config e new_total base d =
     (if new_total < 0 \<or> base < 0 then failed d 422 ''validation'' d
      else case update_pool_config e new_total base d of
        (Inl u, d1) \<Rightarrow> failed d 422 ''invalid_pool_config'' d1
      | (Inr warning, d1) \<Rightarrow>
          if new_total < 2 ^ 63 \<and> base < 2 ^ 31 then (Inr (new_total, base, warning), d1)
          else failed d 500 ''internal'' d1)"

definition list_rebalance_log :: "int \<Rightarrow> db \<Rightarrow> rebalance_log list http" where
  "list_rebalance_log limit d =
     (if limit < 1 \<or> 200 < limit then failed d 422 ''validation'' d
      else (Inr (take (nat limit) (sort_key (\<lambda>l. - rl_started_at l) (rebalance_logs d))), d))"

definition get_rebalance_log :: "string \<Rightarrow> db \<Rightarrow> rebalance_log http" where
  "get_rebalance_log lid d =
     (case find (\<lambda>l. rl_id l = lid) (rebalance_logs d) of
        None \<Rightarrow> failed d 404 ''not_found'' d | Some l \<Rightarrow> (Inr l, d))"

section \<open>Self-service\<close>

definition patch_self_service_endpoint ::
  "env \<Rightarrow> string \<Rightarrow> bool \<Rightarrow> int option \<Rightarrow> db \<Rightarrow> model_catalog http" where
  "patch_self_service_endpoint e slug enabled default_quota d =
     (if (case default_quota of None \<Rightarrow> False | Some q \<Rightarrow> 10 ^ 15 < q) then failed d 422 ''validation'' d
      else case patch_self_service e slug enabled default_quota d of
        (None, d1) \<Rightarrow> failed d 404 ''not_found'' d1
      | (Some False, d1) \<Rightarrow> failed d 422 ''quota_required'' d1
      | (Some True, d1) \<Rightarrow>
          (case get_model slug d1 of None \<Rightarrow> failed d 500 ''internal'' d1 | Some m \<Rightarrow> (Inr m, d1)))"

text \<open>The locks with the member's address, if there is still such a member.\<close>

definition list_locks :: "db \<Rightarrow> (reclaim_lock \<times> string option) list" where
  "list_locks d = map (\<lambda>l. (l, map_option m_email (get_member (l_member_id l) d))) (reclaim_locks d)"

section \<open>The audit viewer\<close>

record audit_query =
  aq_actor_type :: "actor_type option"
  aq_actor_id :: "string option"
  aq_event_type :: "audit_event option"
  aq_target_type :: "string option"
  aq_target_id :: "string option"
  aq_since :: "timestamp option"
  aq_until :: "timestamp option"
  aq_include_routine :: bool

definition routine_event_types :: "audit_event list" where
  "routine_event_types = [anomaly_detector_run]"

definition audit_selects :: "audit_query \<Rightarrow> audit_entry \<Rightarrow> bool" where
  "audit_selects q r \<longleftrightarrow>
     (aq_include_routine q \<or> aq_event_type q \<noteq> None \<or> au_event_type r \<notin> set routine_event_types) \<and>
     (case aq_actor_type q of None \<Rightarrow> True | Some a \<Rightarrow> au_actor_type r = a) \<and>
     (case aq_actor_id q of None \<Rightarrow> True | Some i \<Rightarrow> au_actor_id r = Some i) \<and>
     (case aq_event_type q of None \<Rightarrow> True | Some t \<Rightarrow> au_event_type r = t) \<and>
     (case aq_target_type q of None \<Rightarrow> True | Some t \<Rightarrow> au_target_type r = Some t) \<and>
     (case aq_target_id q of None \<Rightarrow> True | Some t \<Rightarrow> au_target_id r = Some t) \<and>
     (case aq_since q of None \<Rightarrow> True | Some t \<Rightarrow> t \<le> au_created_at r) \<and>
     (case aq_until q of None \<Rightarrow> True | Some t \<Rightarrow> au_created_at r < t)"

definition list_audit :: "audit_query \<Rightarrow> int \<Rightarrow> int \<Rightarrow> db \<Rightarrow> audit_entry list http" where
  "list_audit q limit offset d =
     (if limit < 1 \<or> 500 < limit \<or> offset < 0 then failed d 422 ''validation'' d
      else (Inr (take (nat limit) (drop (nat offset)
              (filter (audit_selects q) (sort_key (\<lambda>r. - au_created_at r) (audit_log d))))), d))"

end
