(* ===== verification/AdminTags.thy ===== *)
theory AdminTags
  imports CatalogAdmin
begin

text \<open>
  The administrators' endpoints over tags (\<open>api/admin_tags.py\<close>), auto-tagging rules
  (\<open>api/admin_tag_rules.py\<close>) and prices (\<open>api/admin_prices.py\<close>), and the loader of price lists
  (\<open>cli/load_prices.py\<close>).  \<open>_KNOWN_TAGS\<close>, the set of registered tags that lives in the memory of
  the process, is passed in and returned.
\<close>

section \<open>Tags\<close>

text \<open>The tags in use with the number of their members, and the registered ones nobody has.\<close>

definition list_tags :: "string set \<Rightarrow> db \<Rightarrow> (string \<times> nat) list" where
  "list_tags known d =
     (let used = list_distinct d
      in sort_key fst (used @ map (\<lambda>t. (t, 0)) (sorted_list_of_set (known - set (map fst used)))))"

definition post_tag :: "string \<Rightarrow> string set \<Rightarrow> (http_error + string \<times> nat) \<times> string set" where
  "post_tag tag known =
     (if tag_body tag then (Inr (tag, 0), insert tag known) else (Inl (422, ''validation''), known))"

definition delete_tag :: "env \<Rightarrow> string \<Rightarrow> db \<Rightarrow> unit http" where
  "delete_tag e tag d =
     (case delete_tag_globally e tag None d of
        (0, d1) \<Rightarrow> failed d 404 ''not_found'' d1 | (Suc n, d1) \<Rightarrow> (Inr (), d1))"

definition list_member_tags :: "string \<Rightarrow> db \<Rightarrow> string list http" where
  "list_member_tags mid d =
     (if get_member mid d = None then failed d 404 ''not_found'' d else (Inr (list_for_member mid d), d))"

definition list_member_tags_detail :: "string \<Rightarrow> db \<Rightarrow> (string \<times> tag_source \<times> string option) list http" where
  "list_member_tags_detail mid d =
     (if get_member mid d = None then failed d 404 ''not_found'' d
      else (Inr (map (\<lambda>r. (mt_tag r, mt_source r, mt_rule_id r)) (list_for_member_detail mid d)), d))"

definition tag_failure :: "tag_error \<Rightarrow> int \<times> string" where
  "tag_failure err =
     (case err of TagMemberNotFound \<Rightarrow> (404, ''not_found'') | InvalidTag \<Rightarrow> (422, ''invalid_tag'')
      | UnsafeRegex \<Rightarrow> (422, ''unsafe_regex''))"

text \<open>The answer of a service that may raise, as a response.\<close>

definition or_tag_failure :: "db \<Rightarrow> (tag_error + 'a) \<times> db \<Rightarrow> 'a http" where
  "or_tag_failure d r =
     (case r of (Inl err, d1) \<Rightarrow> failed d (fst (tag_failure err)) (snd (tag_failure err)) d1
      | (Inr x, d1) \<Rightarrow> (Inr x, d1))"

definition add_member_tags :: "env \<Rightarrow> string \<Rightarrow> string list \<Rightarrow> db \<Rightarrow> string list http" where
  "add_member_tags e mid tags d =
     (if tags = [] then failed d 422 ''validation'' d
      else or_tag_failure d (add_tags e mid tags None manual None d))"

definition delete_member_tags :: "env \<Rightarrow> string \<Rightarrow> string list \<Rightarrow> db \<Rightarrow> unit http" where
  "delete_member_tags e mid tags d =
     (if tags = [] then failed d 422 ''invalid_request'' d
      else or_tag_failure d (remove_tags e mid tags None d))"

definition bulk_apply_tag :: "env \<Rightarrow> string \<Rightarrow> string list \<Rightarrow> db \<Rightarrow> (nat \<times> nat) http" where
  "bulk_apply_tag e tag mids d =
     (if mids = [] then failed d 422 ''validation'' d else or_tag_failure d (bulk_apply e tag mids None d))"

section \<open>Auto-tagging rules\<close>

definition post_tag_rule ::
  "env \<Rightarrow> re_engine \<Rightarrow> matcher_type \<Rightarrow> string \<Rightarrow> string \<Rightarrow> bool \<Rightarrow> db \<Rightarrow> tag_rule http" where
  "post_tag_rule e re mt pattern tag enabled d =
     or_tag_failure d (create_rule e re mt tag pattern enabled ''bootstrap-admin'' d)"

definition patch_tag_rule ::
  "re_engine \<Rightarrow> string \<Rightarrow> matcher_type option \<Rightarrow> string option \<Rightarrow> string option \<Rightarrow> bool option \<Rightarrow> db
     \<Rightarrow> tag_rule http" where
  "patch_tag_rule re rid mt pattern tag enabled d =
     (case or_tag_failure d (update_rule re rid mt pattern tag enabled d) of
        (Inl err, d1) \<Rightarrow> (Inl err, d1)
      | (Inr None, d1) \<Rightarrow> failed d 404 ''not_found'' d1
      | (Inr (Some r), d1) \<Rightarrow> (Inr r, d1))"

definition delete_tag_rule :: "string \<Rightarrow> db \<Rightarrow> unit http" where
  "delete_tag_rule rid d =
     (case delete_rule rid d of (False, d1) \<Rightarrow> failed d 404 ''not_found'' d1 | (True, d1) \<Rightarrow> (Inr (), d1))"

definition reorder_rules :: "string list \<Rightarrow> db \<Rightarrow> tag_rule list http" where
  "reorder_rules order d =
     (case reorder order d of
        (None, d1) \<Rightarrow> failed d 422 ''order_mismatch'' d1 | (Some rs, d1) \<Rightarrow> (Inr rs, d1))"

definition test_rules :: "re_engine \<Rightarrow> string \<Rightarrow> db \<Rightarrow> (string \<times> string \<times> matcher_type) option" where
  "test_rules re email d =
     map_option (\<lambda>r. (tr_id r, tr_tag r, tr_matcher_type r)) (test_email re email d)"

section \<open>Prices\<close>

definition get_prices :: "env \<Rightarrow> db \<Rightarrow> price_row list" where
  "get_prices e d = list_catalog_prices (now e) d"

definition price_history :: "env \<Rightarrow> string \<Rightarrow> string \<Rightarrow> db \<Rightarrow> (price_list \<times> bool) list" where
  "price_history e provider model d = list_history e provider model d"

definition post_price ::
  "env \<Rightarrow> string \<Rightarrow> string \<Rightarrow> suggested_texts \<Rightarrow> timestamp \<Rightarrow> string option \<Rightarrow> db \<Rightarrow> (price_list \<times> bool) http" where
  "post_price e provider model t effective_from source_note d =
     (if nonempty_text (st_unit t) \<and> \<not> nonempty_text (st_per_unit t) then failed d 400 ''bad_request'' d
      else case create_version e provider model (decimal_of_text (st_input t)) (decimal_of_text (st_output t))
             effective_from (price_text (st_cached t)) (st_unit t) (price_text (st_per_unit t)) source_note
             ''admin'' d of
        (Inl InvalidPrice, d1) \<Rightarrow> failed d 422 ''invalid_price'' d1
      | (Inl DuplicateVersion, d1) \<Rightarrow> failed d 409 ''duplicate_version'' d1
      | (Inl err, d1) \<Rightarrow> failed d 500 ''internal'' d1
      | (Inr made, d1) \<Rightarrow> (Inr made, d1))"

section \<open>Loading a price list\<close>

text \<open>An entry of the file; \<open>None\<close> for a price that \<open>Decimal\<close> does not read.  The file itself is read
  and parsed outside.\<close>

record price_entry =
  pe_provider :: string
  pe_model :: string
  pe_input :: "py_decimal option"
  pe_output :: "py_decimal option"
  pe_cached :: "py_decimal option option"

definition loader_name :: "string option \<Rightarrow> string" where
  "loader_name user = ''cli:'' @ (case user of None \<Rightarrow> ''unknown'' | Some u \<Rightarrow> u)"

text \<open>The row of an entry as the database would store it, unless a price is no number it takes.\<close>

definition loaded_row ::
  "env \<Rightarrow> timestamp \<Rightarrow> string option \<Rightarrow> string option \<Rightarrow> price_entry \<Rightarrow> string \<Rightarrow> price_list option" where
  "loaded_row e eff source_note user p pid =
     (case (Option.bind (pe_input p) numeric_12_8, Option.bind (pe_output p) numeric_12_8,
            case pe_cached p of None \<Rightarrow> Some None | Some c \<Rightarrow> map_option Some (Option.bind c numeric_12_8)) of
        (Some inp, Some outp, Some cached) \<Rightarrow>
          Some \<lparr>p_id = pid, p_provider = pe_provider p, p_model = pe_model p, p_input_per_1k = inp,
            p_output_per_1k = outp, p_cached_input_per_1k = cached, p_price_unit = None,
            p_price_per_unit = None, p_effective_from = eff, p_created_at = now e,
            p_created_by = loader_name user, p_source_note = source_note\<rparr>
      | _ \<Rightarrow> None)"

fun load_price_rows ::
  "env \<Rightarrow> timestamp \<Rightarrow> string option \<Rightarrow> string option \<Rightarrow> price_entry list \<Rightarrow> db \<Rightarrow> bool \<times> db" where
  "load_price_rows e eff source_note user [] d = (True, d)"
| "load_price_rows e eff source_note user (p # ps) d =
     (let (pid, d1) = new_ulid e d in
      case loaded_row e eff source_note user p pid of
        None \<Rightarrow> (False, d1)
      | Some row \<Rightarrow>
          if list_ex (\<lambda>q. price_key q = price_key row \<and> p_effective_from q = eff) (prices d1)
          then (False, d1)
          else load_price_rows e eff source_note user ps (prices_update (\<lambda>qs. qs @ [row]) d1))"

text \<open>The exit code and, on success, the number of entries; any failure leaves the program with 1 and
  nothing committed.\<close>

definition load_prices ::
  "env \<Rightarrow> timestamp \<Rightarrow> string option \<Rightarrow> string option \<Rightarrow> price_entry list \<Rightarrow> db \<Rightarrow> (int \<times> nat) \<times> db" where
  "load_prices e eff source_note user entries d =
     (case load_price_rows e eff source_note user entries d of
        (True, d1) \<Rightarrow> ((0, length entries), d1)
      | (False, d1) \<Rightarrow> ((1, 0), rollback_to d d1))"

end
