(* ===== verification/Bootstrap.thy ===== *)
theory Bootstrap
  imports Members ProviderCreds
begin

text \<open>
  The programs an operator runs at an installation: \<open>cli/create_admin.py\<close>, which makes sure that there
  is an administrator, and \<open>cli/migrate_azure_env.py\<close>, which moves the Azure key from the environment
  into the database.  The arguments are those of the command line; what is printed is not modelled.
\<close>

section \<open>The first administrator\<close>

datatype provision_status = ProvisionCreated | ProvisionPromoted | ProvisionUnchanged | ProvisionConflict

record provision_result =
  pn_status :: provision_status
  pn_email :: string
  pn_member_id :: string
  pn_provider :: member_provider
  pn_invitation :: "string option"

definition bootstrap_cli :: string where
  "bootstrap_cli = ''bootstrap-cli''"

definition result_to_exit_code :: "provision_result \<Rightarrow> int" where
  "result_to_exit_code r = (if pn_status r = ProvisionConflict then 1 else 0)"

text \<open>\<open>None\<close> when a service raises.\<close>

definition provision ::
  "env \<Rightarrow> re_engine \<Rightarrow> string \<Rightarrow> member_provider \<Rightarrow> string option \<Rightarrow> db \<Rightarrow> provision_result option \<times> db" where
  "provision e re email prov display_name d =
     (let email_n = lower (strip email);
          result = (\<lambda>status mid. \<lparr>pn_status = status, pn_email = email_n, pn_member_id = mid,
                      pn_provider = prov, pn_invitation = None\<rparr>)
      in case get_by_email email_n d of
           Some m \<Rightarrow>
             if m_provider m \<noteq> prov
             then (Some ((result ProvisionConflict (m_id m))\<lparr>pn_provider := m_provider m\<rparr>), d)
             else
               (let d1 = snd (add_whitelist e email_n bootstrap_cli (Some ''bootstrap admin'') d)
                in if m_is_admin m then (Some (result ProvisionUnchanged (m_id m)), d1)
                   else (case set_is_admin e (m_id m) True bootstrap_cli d1 of
                      (Inl err, d2) \<Rightarrow> (None, d2)
                    | (Inr _, d2) \<Rightarrow> (Some (result ProvisionPromoted (m_id m)), d2)))
         | None \<Rightarrow>
             (let d1 = snd (add_whitelist e email_n bootstrap_cli (Some ''bootstrap admin'') d)
              in case create_member e re email_n prov display_name None None (prov = local_password)
                        bootstrap_cli d1 of
                (Inl err, d2) \<Rightarrow> (None, d2)
              | (Inr (m, invitation), d2) \<Rightarrow>
                  (case set_is_admin e (m_id m) True bootstrap_cli d2 of
                     (Inl err, d3) \<Rightarrow> (None, d3)
                   | (Inr _, d3) \<Rightarrow>
                       (Some ((result ProvisionCreated (m_id m))\<lparr>pn_invitation := invitation\<rparr>), d3))))"

text \<open>The exit code; only the two providers that \<open>argparse\<close> accepts.\<close>

definition create_admin ::
  "env \<Rightarrow> re_engine \<Rightarrow> string \<Rightarrow> member_provider \<Rightarrow> string option \<Rightarrow> db \<Rightarrow> int \<times> db" where
  "create_admin e re email prov display_name d =
     (if prov \<noteq> google_oidc \<and> prov \<noteq> local_password then (2, d)
      else case provision e re email prov display_name d of
        (None, d1) \<Rightarrow> (1, rollback_to d d1)
      | (Some r, d1) \<Rightarrow>
          if pn_status r = ProvisionConflict then (result_to_exit_code r, rollback_to d d1)
          else (result_to_exit_code r, d1))"

section \<open>The Azure key of the environment\<close>

definition migrated_label :: string where
  "migrated_label = ''migrated-from-env''"

datatype migration_outcome =
  NothingToMigrate | AlreadyMigrated | MigrationCrashed | Migrated provider_credential

text \<open>\<open>scalar_one_or_none\<close> raises when two rows match.\<close>

definition migrate_azure_env :: "env \<Rightarrow> db \<Rightarrow> migration_outcome \<times> db" where
  "migrate_azure_env e d =
     (let key = azure_openai_api_key (cfg e);
          same_fp = filter (\<lambda>c. pc_provider c = ''azure'' \<and> pc_fingerprint c = provider_fingerprint e key \<and>
                      pc_status c = pc_active) (provider_creds d)
      in if key = [] then (NothingToMigrate, d)
         else if find (\<lambda>c. pc_provider c = ''azure'' \<and> pc_label c = migrated_label) (provider_creds d) \<noteq> None
         then (AlreadyMigrated, d)
         else if 1 < length same_fp then (MigrationCrashed, d)
         else if same_fp \<noteq> [] then (AlreadyMigrated, d)
         else (case create_provider_cred e ''azure'' migrated_label key
                      (if azure_openai_api_base (cfg e) = [] then None else Some (azure_openai_api_base (cfg e)))
                      (Some [(''api_version'', JStr (azure_openai_api_version (cfg e)))])
                      (Some ''env-migration'') d of
                 (Inl err, d1) \<Rightarrow> (AlreadyMigrated, rollback_to d d1)
               | (Inr c, d1) \<Rightarrow> (Migrated c, d1)))"

end
