(* ===== verification/AdminTheorems.thy ===== *)
theory AdminTheorems
  imports AdminKeys AdminTags Bootstrap MemberTheorems QuotaPoolTheorems PricingTheorems TagTheorems
begin

text \<open>
  What the administration of an installation guarantees: running \<open>create_admin\<close> leaves an
  administrator who may log in and may be repeated; the Azure key is migrated once; a price list is
  loaded completely or not at all; the status of the quota pool tells what a rebalance distributes;
  the pages of the audit viewer are the log.
\<close>

section \<open>The first administrator\<close>

lemma add_whitelist_rows:
  assumes "add_whitelist e email by_whom memo d = (w, d1)"
  shows "members d1 = members d" "fresh d1 = fresh d"
    "find (\<lambda>w. w_email w = lower (strip email)) (whitelist d1) \<noteq> None"
    "\<forall>w \<in> set (whitelist d1). w_email w = lower (strip email) \<longrightarrow> w_note w = memo \<and> w_added_by w = by_whom"
proof -
  show "members d1 = members d" "fresh d1 = fresh d"
    using assms by (auto simp: add_whitelist_def Let_def split: option.splits)
  show "find (\<lambda>w. w_email w = lower (strip email)) (whitelist d1) \<noteq> None"
    using assms by (auto simp: add_whitelist_def normalize_email_def Let_def find_update_where find_append
        split: option.splits)
  show "\<forall>w \<in> set (whitelist d1). w_email w = lower (strip email) \<longrightarrow> w_note w = memo \<and> w_added_by w = by_whom"
    using assms by (auto simp: add_whitelist_def normalize_email_def Let_def find_None_ball set_update_where
        split: option.splits)
qed

lemma add_whitelist_again:
  assumes "find (\<lambda>w. w_email w = lower (strip email)) (whitelist d) \<noteq> None"
    "\<forall>w \<in> set (whitelist d). w_email w = lower (strip email) \<longrightarrow> w_note w = memo \<and> w_added_by w = by_whom"
  shows "snd (add_whitelist e email by_whom memo d) = d"
proof -
  have "update_where (\<lambda>w. w_email w = lower (strip email)) (\<lambda>w. w\<lparr>w_note := memo, w_added_by := by_whom\<rparr>) (whitelist d)
      = whitelist d"
    by (rule update_where_idI) (use assms(2) in auto)
  then show ?thesis
    using assms(1) by (auto simp: add_whitelist_def normalize_email_def Let_def split: option.splits)
qed

lemma add_loop_whitelist:
  "add_loop row tags ex added d = (a, b, c, d') \<Longrightarrow> whitelist d' = whitelist d"
  by (induction row tags ex added d rule: add_loop.induct) (auto split: if_splits)

lemma apply_tags_whitelist:
  "apply_to_new_member e re mid em by_whom d = (x, d') \<Longrightarrow>
     whitelist d' = whitelist d \<and> members d' = members d \<and> fresh d \<le> fresh d'"
  using apply_tags_frame [of e re mid em by_whom d x d']
  by (auto simp: apply_to_new_member_def add_tags_def Let_def simp del: add_loop.simps dest!: add_loop_whitelist
      split: option.splits sum.splits prod.splits bool.splits)

lemma issue_invitation_whitelist:
  "issue_invitation e mid by_whom d = (x, d') \<Longrightarrow>
     whitelist d' = whitelist d \<and> members d' = members d \<and> fresh d' = Suc (fresh d)"
  by (auto simp: issue_invitation_def Let_def split: if_splits)

lemma bootstrap_member:
  assumes "create_member e re email prov name None None (prov = local_password) by_whom d = (Inr (m, link), d')"
  shows "members d' = members d @ [m]" "whitelist d' = whitelist d" "m_email m = lower (strip email)"
    "m_provider m = prov" "m_status m = member_active" "\<not> m_is_admin m" "m_id m = ulid e (fresh d)"
    "fresh d < fresh d'" "find (\<lambda>x. m_email x = lower (strip email)) (members d) = None"
  using assms
  by (auto simp: create_member_def prepare_password_def register_member_def nonempty_text_def Let_def
      dest!: apply_tags_whitelist issue_invitation_whitelist
      split: option.splits if_splits prod.splits)

text \<open>What a run leaves behind: the member is an administrator of this provider, and whitelisted.\<close>

definition admin_ready :: "string \<Rightarrow> member_provider \<Rightarrow> member \<Rightarrow> db \<Rightarrow> bool" where
  "admin_ready email prov m d \<longleftrightarrow>
     find (\<lambda>x. m_email x = lower (strip email)) (members d) = Some m \<and> m_provider m = prov \<and> m_is_admin m \<and>
     find (\<lambda>w. w_email w = lower (strip email)) (whitelist d) \<noteq> None \<and>
     (\<forall>w \<in> set (whitelist d). w_email w = lower (strip email) \<longrightarrow>
        w_note w = Some ''bootstrap admin'' \<and> w_added_by w = bootstrap_cli)"

lemma norm_again [simp]: "lower (strip (lower (strip s))) = lower (strip s)"
  by (simp add: strip_lower)

lemma promote_member:
  assumes "get_member (m_id m) d = Some m" "\<not> m_is_admin m"
  shows "\<exists>d'. set_is_admin e (m_id m) True actor d = (Inr (Some (m\<lparr>m_is_admin := True\<rparr>)), d') \<and>
    members d' = update_where (\<lambda>x. m_id x = m_id m) (\<lambda>m. m\<lparr>m_is_admin := True\<rparr>) (members d) \<and> whitelist d' = whitelist d"
  using assms by (simp add: set_is_admin_def set_member_def Let_def)

lemma provision_existing:
  assumes wf: "members_wf e d" and found: "find (\<lambda>m. m_email m = lower (strip email)) (members d) = Some m"
    and run: "provision e re email prov name d = (Some r, d1)" "pn_status r \<noteq> ProvisionConflict"
  shows "\<exists>m'. admin_ready email prov m' d1 \<and> m_id m' = pn_member_id r \<and>
    (\<forall>x. m_email x \<noteq> lower (strip email) \<longrightarrow> (x \<in> set (members d1) \<longleftrightarrow> x \<in> set (members d)))"
proof -
  let ?em = "lower (strip email)"
  obtain w d0 where w: "add_whitelist e ?em bootstrap_cli (Some ''bootstrap admin'') d = (w, d0)" by fastforce
  note rows = add_whitelist_rows [OF w, simplified]
  from find_SomeD [OF found] have m: "m \<in> set (members d)" "m_email m = ?em" by simp_all
  have prov: "m_provider m = prov" using run found by (auto simp: provision_def get_by_email_def Let_def split: if_splits)
  show ?thesis
  proof (cases "m_is_admin m")
    case True
    then have "d1 = d0" "pn_member_id r = m_id m"
      using run found prov w by (auto simp: provision_def get_by_email_def Let_def)
    with found prov True rows show ?thesis by (intro exI [of _ m]) (auto simp: admin_ready_def)
  next
    case False
    have "get_member (m_id m) d0 = Some m"
      using find_unique [of m_id "members d" m] wf m(1) by (simp add: get_member_def rows(1) members_wf_def)
    from promote_member [OF this False, of e bootstrap_cli] obtain d2 where
      up: "set_is_admin e (m_id m) True bootstrap_cli d0 = (Inr (Some (m\<lparr>m_is_admin := True\<rparr>)), d2)"
      and d2: "members d2 = update_where (\<lambda>x. m_id x = m_id m) (\<lambda>m. m\<lparr>m_is_admin := True\<rparr>) (members d)"
        "whitelist d2 = whitelist d0"
      using rows(1) by auto
    have d1: "d1 = d2" "pn_member_id r = m_id m"
      using run found prov w False up by (auto simp: provision_def get_by_email_def Let_def)
    have same: "x = m" if "x \<in> set (members d)" "m_id x = m_id m" for x
      using distinct_map_eqD [of m_id "members d" x m] wf that m(1) by (simp add: members_wf_def)
    have "find (\<lambda>x. m_email x = ?em) (members d2) = Some (m\<lparr>m_is_admin := True\<rparr>)"
      by (simp add: d2(1) find_update_where found)
    moreover have "x \<in> set (members d2) \<longleftrightarrow> x \<in> set (members d)" if "m_email x \<noteq> ?em" for x
      unfolding d2(1) set_update_where using that same m(2) by fastforce
    ultimately show ?thesis
      using prov rows d1 d2(2) by (intro exI [of _ "m\<lparr>m_is_admin := True\<rparr>"]) (auto simp: admin_ready_def)
  qed
qed

lemma provision_new:
  assumes ok: "env_ok e" and wf: "members_wf e d"
    and none: "find (\<lambda>m. m_email m = lower (strip email)) (members d) = None"
    and run: "provision e re email prov name d = (Some r, d1)"
  shows "\<exists>m. admin_ready email prov m d1 \<and> m_id m = pn_member_id r \<and>
    (\<forall>x. m_email x \<noteq> lower (strip email) \<longrightarrow> (x \<in> set (members d1) \<longleftrightarrow> x \<in> set (members d)))"
proof -
  let ?em = "lower (strip email)"
  obtain w d0 where w: "add_whitelist e ?em bootstrap_cli (Some ''bootstrap admin'') d = (w, d0)" by fastforce
  note rows = add_whitelist_rows [OF w, simplified]
  obtain m link d2 where made: "create_member e re ?em prov name None None (prov = local_password) bootstrap_cli d0 = (Inr (m, link), d2)"
    and up: "\<exists>s. set_is_admin e (m_id m) True bootstrap_cli d2 = (s, d1)" "pn_member_id r = m_id m"
    using run none w by (auto simp: provision_def get_by_email_def Let_def split: sum.splits prod.splits)
  note new = bootstrap_member [OF made, simplified]
  have fresh_id: "m_id m \<notin> m_id ` set (members d)"
  proof
    assume "m_id m \<in> m_id ` set (members d)"
    then have "drawn_id e (fresh d) (ulid e (fresh d))" using wf rows(2) new(7) by (auto simp: members_wf_def)
    from not_drawn_later [OF ok this] show False by simp
  qed
  then have other: "\<forall>x \<in> set (members d). m_id x \<noteq> m_id m" by (metis image_eqI)
  then have "get_member (m_id m) d2 = Some m"
    by (auto simp: get_member_def new(1) rows(1) find_append dest!: find_SomeD split: option.splits)
  from promote_member [OF this new(6), of e bootstrap_cli] up(1) have
    d1: "members d1 = update_where (\<lambda>x. m_id x = m_id m) (\<lambda>m. m\<lparr>m_is_admin := True\<rparr>) (members d2)"
      "whitelist d1 = whitelist d2" by auto
  have "update_where (\<lambda>x. m_id x = m_id m) (\<lambda>m. m\<lparr>m_is_admin := True\<rparr>) (members d) = members d"
    by (rule update_where_idI) (use other in blast)
  then have rows1: "members d1 = members d @ [m\<lparr>m_is_admin := True\<rparr>]" by (simp add: d1 new(1) rows(1))
  then have "find (\<lambda>x. m_email x = ?em) (members d1) = Some (m\<lparr>m_is_admin := True\<rparr>)"
    using none new(3) by (simp add: find_append)
  then show ?thesis
    using new rows d1(2) up(2) rows1 by (intro exI [of _ "m\<lparr>m_is_admin := True\<rparr>"]) (auto simp: admin_ready_def)
qed

lemma provision_effect:
  assumes "env_ok e" "members_wf e d"
    and "provision e re email prov name d = (Some r, d1)" "pn_status r \<noteq> ProvisionConflict"
  shows "\<exists>m. admin_ready email prov m d1 \<and> m_id m = pn_member_id r \<and>
    (\<forall>x. m_email x \<noteq> lower (strip email) \<longrightarrow> (x \<in> set (members d1) \<longleftrightarrow> x \<in> set (members d)))"
  using provision_existing [OF assms(2) _ assms(3,4)] provision_new [OF assms(1,2) _ assms(3)]
  by (cases "find (\<lambda>m. m_email m = lower (strip email)) (members d)") blast+

lemma provision_again:
  assumes "admin_ready email prov m d"
  shows "\<exists>r. provision e re email prov name d = (Some r, d) \<and> pn_status r = ProvisionUnchanged"
  using assms add_whitelist_again [of "lower (strip email)" d "Some ''bootstrap admin''" bootstrap_cli e]
  by (auto simp: provision_def get_by_email_def Let_def admin_ready_def)

lemma ready_allowed:
  assumes "admin_ready email prov m d" "m_status m = member_active"
  shows "is_email_allowed d email"
proof -
  have m: "m \<in> set (members d)" "m_email m = lower (strip email)" "m_is_admin m"
    using assms(1) find_SomeD [of _ "members d" m] by (auto simp: admin_ready_def)
  then have "m \<in> set (active_admins d)" using assms(2) by (simp add: active_admins_def)
  then have "0 < length (active_admins d)" by (cases "active_admins d") simp_all
  moreover have "find (\<lambda>x. m_email x = lower (strip email) \<and> m_status x = member_active) (members d) \<noteq> None"
    using m assms(2) by (auto simp: find_None_ball)
  ultimately show ?thesis by (simp add: is_email_allowed_def normalize_email_def)
qed

text \<open>C35: when \<open>create_admin\<close> ends with 0 there is an administrator with this address and this way to log
  in, who is whitelisted and, unless she had been disabled, passes the login policy; nobody else has
  changed; and running it again, whenever and with whatever rules, does nothing.\<close>

theorem create_admin_ready:
  assumes "env_ok e" "members_wf e d" "create_admin e re email prov name d = (0, d1)"
  shows "\<exists>m. find (\<lambda>x. m_email x = lower (strip email)) (members d1) = Some m \<and> m_provider m = prov \<and> m_is_admin m \<and>
    find (\<lambda>w. w_email w = lower (strip email)) (whitelist d1) \<noteq> None \<and>
    (m_status m = member_active \<longrightarrow> is_email_allowed d1 email) \<and>
    (\<forall>x. m_email x \<noteq> lower (strip email) \<longrightarrow> (x \<in> set (members d1) \<longleftrightarrow> x \<in> set (members d))) \<and>
    (\<forall>e' re' name'. create_admin e' re' email prov name' d1 = (0, d1))"
proof -
  from assms(3) obtain r where prov: "prov = google_oidc \<or> prov = local_password"
    and r: "provision e re email prov name d = (Some r, d1)" "pn_status r \<noteq> ProvisionConflict"
    by (auto simp: create_admin_def result_to_exit_code_def split: option.splits prod.splits if_splits)
  from provision_effect [OF assms(1,2) r] obtain m where m: "admin_ready email prov m d1"
    "\<forall>x. m_email x \<noteq> lower (strip email) \<longrightarrow> (x \<in> set (members d1) \<longleftrightarrow> x \<in> set (members d))" by blast
  have "create_admin e' re' email prov name' d1 = (0, d1)" for e' re' name'
    using provision_again [OF m(1), of e' re' name'] prov
    by (auto simp: create_admin_def result_to_exit_code_def)
  with m ready_allowed [OF m(1)] show ?thesis by (intro exI [of _ m]) (simp add: admin_ready_def)
qed

lemma create_admin_runs: "fst (create_admin sample_env sample_re '' Root@Example.org '' google_oidc None staff_db) = 0"
  by code_simp

theorem create_admin_ready_witness:
  "\<exists>d1 m. create_admin sample_env sample_re '' Root@Example.org '' google_oidc None staff_db = (0, d1) \<and>
     m \<in> set (members d1) \<and> m_email m = ''root@example.org'' \<and> m_is_admin m \<and>
     create_admin sample_env sample_re '' Root@Example.org '' google_oidc None d1 = (0, d1)"
proof -
  obtain d1 where run: "create_admin sample_env sample_re '' Root@Example.org '' google_oidc None staff_db = (0, d1)"
    using create_admin_runs by (metis prod.collapse)
  from create_admin_ready [OF sample_env_ok staff_wf run] obtain m where
    m: "find (\<lambda>x. m_email x = lower (strip '' Root@Example.org '')) (members d1) = Some m" "m_is_admin m"
      "create_admin sample_env sample_re '' Root@Example.org '' google_oidc None d1 = (0, d1)" by blast
  moreover have "lower (strip '' Root@Example.org '') = ''root@example.org''" by code_simp
  ultimately show ?thesis using find_SomeD [OF m(1)] run by (intro exI [of _ d1] exI [of _ m]) simp
qed

section \<open>The status of the pool\<close>

lemma reserved_split: "reserved_total d = reserved_service d + reserved_locked d"
proof -
  have "sum_list (map quota_or_zero (filter is_reserved as)) =
      sum_list (map quota_or_zero (filter (\<lambda>a. a_status a = active \<and> a_is_service a) as)) +
      sum_list (map quota_or_zero (filter (\<lambda>a. a_status a = active \<and> \<not> a_is_service a \<and> a_quota_locked a) as))" for as
    by (induction as) (auto simp: is_reserved_def)
  then show ?thesis by (simp add: reserved_total_def reserved_service_def reserved_locked_def)
qed

text \<open>C36: what the status page calls distributable, for as many members as it says, is exactly what a
  rebalance at that moment hands out to the allocations of the pool; the reserved quotas it shows are
  those the rebalance leaves alone; looking at it changes no allocation and no log.\<close>

theorem pool_status_predicts_rebalance:
  assumes "apply_rebalance e trigger d = (Inr (Some l), d')" "distinct (map a_id (allocations d))"
    and "get_pool_status e' d = (st, d0)" "cfg e' = cfg e"
  shows "sum_list (map quota_or_zero (filter in_pool (allocations d'))) = po_distributable st \<and>
    length (filter in_pool (allocations d')) = po_members st \<and>
    sum_list (map quota_or_zero (filter is_reserved (allocations d'))) = po_service st + po_locked st \<and>
    allocations d0 = allocations d \<and> rebalance_logs d0 = rebalance_logs d"
proof -
  have cfg: "get_pool_config e' d = (c, d1) \<Longrightarrow> pool_total c = pool_total (fst (get_pool_config e d)) \<and>
      allocations d1 = allocations d \<and> rebalance_logs d1 = rebalance_logs d" for c d1
    using pool_config_frame [of e' d] assms(4) by (auto simp: get_pool_config_def Let_def split: option.splits)
  obtain c d1 where c: "get_pool_config e' d = (c, d1)" by fastforce
  note same = cfg [OF c]
  have tables: "reserved_service d1 = reserved_service d" "reserved_locked d1 = reserved_locked d"
    using same by (simp_all add: reserved_service_def reserved_locked_def)
  have st: "po_distributable st = pool_total c - reserved_service d - reserved_locked d"
    "po_members st = length (filter in_pool (allocations d))" "po_service st = reserved_service d"
    "po_locked st = reserved_locked d" "d0 = d1"
    using assms(3) same tables by (auto simp: get_pool_status_def c Let_def)
  note total = apply_rebalance_conserves [OF assms(1,2)]
  have rows: "map (\<lambda>a. a\<lparr>a_quota_tokens := None\<rparr>) (allocations d') = map (\<lambda>a. a\<lparr>a_quota_tokens := None\<rparr>) (allocations d)"
    using total by blast
  have pool_len: "length (filter in_pool as) = length (filter in_pool (map (\<lambda>a. a\<lparr>a_quota_tokens := None\<rparr>) as))" for as
    by (induction as) simp_all
  have "filter is_reserved as = filter is_reserved (filter (\<lambda>a. \<not> in_pool a) as)" for as
    by (induction as) (auto simp: in_pool_def is_reserved_def)
  then have "filter is_reserved (allocations d') = filter is_reserved (allocations d)" using total by metis
  then have reserved: "sum_list (map quota_or_zero (filter is_reserved (allocations d'))) = reserved_service d + reserved_locked d"
    using reserved_split [of d] by (simp add: reserved_total_def)
  moreover have "length (filter in_pool (allocations d')) = length (filter in_pool (allocations d))"
    using pool_len [of "allocations d"] pool_len [of "allocations d'"] rows by simp
  moreover have "sum_list (map quota_or_zero (filter in_pool (allocations d'))) + (reserved_service d + reserved_locked d)
      = pool_total c"
    using total sum_active_split [of "allocations d'"] reserved same by simp
  ultimately show ?thesis using st same by simp
qed

theorem pool_status_predicts_rebalance_witness:
  "\<exists>l d'. apply_rebalance sample_env ''cron'' pool_db = (Inr (Some l), d') \<and>
     sum_list (map quota_or_zero (filter in_pool (allocations d'))) = 995000 \<and>
     po_distributable (fst (get_pool_status sample_env pool_db)) = 995000"
proof -
  from pool_db_run obtain l d' where run: "apply_rebalance sample_env ''cron'' pool_db = (Inr (Some l), d')"
    by blast
  have "distinct (map a_id (allocations pool_db))" by (simp add: pool_db_def sample_allocation_def)
  from pool_status_predicts_rebalance [OF run this surjective_pairing refl]
  have "sum_list (map quota_or_zero (filter in_pool (allocations d'))) =
      po_distributable (fst (get_pool_status sample_env pool_db))" by blast
  moreover have "po_distributable (fst (get_pool_status sample_env pool_db)) = 995000" by code_simp
  ultimately show ?thesis using run by (intro exI [of _ l] exI [of _ d']) (simp only: simp_thms)
qed

section \<open>Loading a price list\<close>

text \<open>The rows a loading appends, one per entry.\<close>

definition row_of_entry :: "timestamp \<Rightarrow> price_entry \<Rightarrow> price_list \<Rightarrow> bool" where
  "row_of_entry eff p row \<longleftrightarrow> price_key row = (pe_provider p, pe_model p) \<and> p_effective_from row = eff \<and>
     Option.bind (pe_input p) numeric_12_8 = Some (p_input_per_1k row) \<and>
     Option.bind (pe_output p) numeric_12_8 = Some (p_output_per_1k row) \<and> p_price_unit row = None"

lemma loaded_row_entry: "loaded_row e eff memo user p pid = Some row \<Longrightarrow> row_of_entry eff p row"
  by (auto simp: loaded_row_def row_of_entry_def price_key_def split: option.splits)

lemma load_price_rows_effect:
  assumes "load_price_rows e eff memo user ps d = (ok, d')" "distinct (map version_key (prices d))"
  shows "distinct (map version_key (prices d')) \<and>
    (ok \<longrightarrow> (\<exists>rows. prices d' = prices d @ rows \<and> list_all2 (row_of_entry eff) ps rows))"
  using assms
proof (induction e eff memo user ps d rule: load_price_rows.induct)
  case (2 e eff memo user p ps d)
  obtain pid d1 where u: "new_ulid e d = (pid, d1)" by fastforce
  then have d1: "prices d1 = prices d" by (auto simp: new_ulid_def)
  show ?case
  proof (cases "loaded_row e eff memo user p pid")
    case None
    with 2 u d1 show ?thesis by simp
  next
    case (Some row)
    note row = loaded_row_entry [OF Some]
    show ?thesis
    proof (cases "list_ex (\<lambda>q. price_key q = price_key row \<and> p_effective_from q = eff) (prices d1)")
      case True
      with 2 u Some d1 show ?thesis by simp
    next
      case False
      let ?d2 = "prices_update (\<lambda>qs. qs @ [row]) d1"
      have "version_key row \<notin> set (map version_key (prices d))"
        using False row by (auto simp: list_ex_iff version_key_def row_of_entry_def d1)
      then have "distinct (map version_key (prices ?d2))" using "2.prems"(2) by (simp add: d1)
      moreover have run: "load_price_rows e eff memo user ps ?d2 = (ok, d')" using "2.prems"(1) u Some False by simp
      ultimately have "distinct (map version_key (prices d')) \<and>
          (ok \<longrightarrow> (\<exists>rows. prices d' = prices ?d2 @ rows \<and> list_all2 (row_of_entry eff) ps rows))"
        using "2.IH" [OF u [symmetric] _ Some False] by simp
      with row show ?thesis by (auto simp: d1 intro: exI [of _ "row # _"])
    qed
  qed
qed simp

text \<open>C37: loading a price list keeps at most one version per provider, model and effective time; it either
  adds exactly one row for each entry of the file, with its prices, and exits with 0, or changes
  nothing and exits with 1; versions that exist are never changed.\<close>

theorem load_prices_all_or_nothing:
  assumes "distinct (map version_key (prices d))" "load_prices e eff memo user entries d = ((code, n), d')"
  shows "distinct (map version_key (prices d')) \<and>
    (if code = 0 then n = length entries \<and>
        (\<exists>rows. prices d' = prices d @ rows \<and> list_all2 (row_of_entry eff) entries rows)
     else code = 1 \<and> d' = rollback_to d d')"
proof -
  obtain ok d1 where run: "load_price_rows e eff memo user entries d = (ok, d1)" by fastforce
  from load_price_rows_effect [OF run assms(1)] assms run show ?thesis
    by (cases ok) (auto simp: load_prices_def rollback_to_def)
qed

definition sample_entry :: price_entry where
  "sample_entry = \<lparr>pe_provider = ''azure'', pe_model = ''gpt-4o'', pe_input = Some (Fin (Dec 2 (- 3))),
     pe_output = Some (Fin (Dec 4 (- 3))), pe_cached = None\<rparr>"

theorem load_prices_all_or_nothing_witness:
  "fst (load_prices sample_env 20 None None [sample_entry, sample_entry] price_db) = (1, 0) \<and>
   prices (snd (load_prices sample_env 20 None None [sample_entry, sample_entry] price_db)) = prices price_db"
proof -
  have code: "fst (load_prices sample_env 20 None None [sample_entry, sample_entry] price_db) = (1, 0)" by code_simp
  have "distinct (map version_key (prices price_db))" using price_db_wf by (simp add: prices_wf_def)
  from load_prices_all_or_nothing [OF this, of sample_env 20 None None "[sample_entry, sample_entry]" 1 0] code
  have "snd (load_prices sample_env 20 None None [sample_entry, sample_entry] price_db) =
      rollback_to price_db (snd (load_prices sample_env 20 None None [sample_entry, sample_entry] price_db))"
    by (metis one_neq_zero prod.collapse)
  then have "prices (snd (load_prices sample_env 20 None None [sample_entry, sample_entry] price_db)) =
      prices (rollback_to price_db (snd (load_prices sample_env 20 None None [sample_entry, sample_entry] price_db)))"
    by (rule arg_cong)
  with code show ?thesis by (simp add: rollback_to_def)
qed

section \<open>The Azure key\<close>

text \<open>The migration adds at most one key, the one of the environment, which the gateway then finds under
  its provider; and once it has run, running it again does nothing, however often.\<close>

theorem azure_key_migrated_once:
  assumes "migrate_azure_env e d = (r, d1)" "r \<noteq> MigrationCrashed"
  shows "(provider_creds d1 = provider_creds d \<or>
      (\<exists>c. r = Migrated c \<and> provider_creds d1 = provider_creds d @ [c] \<and> active_creds ''azure'' d1 = active_creds ''azure'' d @ [c] \<and>
         pc_enc_key c = encrypt e (Suc (fresh d)) (azure_openai_api_key (cfg e)))) \<and>
    (\<forall>t. \<exists>r'. migrate_azure_env (at_time e t) d1 = (r', d1) \<and> r' \<in> {NothingToMigrate, AlreadyMigrated})"
proof -
  let ?key = "azure_openai_api_key (cfg e)"
  let ?label = "find (\<lambda>c. pc_provider c = ''azure'' \<and> pc_label c = migrated_label)"
  let ?same = "filter (\<lambda>c. pc_provider c = ''azure'' \<and> pc_fingerprint c = provider_fingerprint e ?key \<and> pc_status c = pc_active)"
  have fp: "provider_fingerprint (at_time e t) = provider_fingerprint e" for t
    by (rule ext) (simp add: provider_fingerprint_def)
  consider "?key = []" | "?key \<noteq> []" "?label (provider_creds d) \<noteq> None"
    | "?key \<noteq> []" "?label (provider_creds d) = None" "?same (provider_creds d) \<noteq> []"
    | "?key \<noteq> []" "?label (provider_creds d) = None" "?same (provider_creds d) = []" by blast
  then show ?thesis
  proof cases
    case 1
    with assms show ?thesis by (auto simp: migrate_azure_env_def Let_def)
  next
    case 2
    with assms show ?thesis by (auto simp: migrate_azure_env_def Let_def)
  next
    case 3
    with assms show ?thesis by (auto simp: migrate_azure_env_def Let_def fp split: if_splits)
  next
    case 4
    then have none: "\<not> list_ex (\<lambda>c. pc_provider c = ''azure'' \<and> pc_label c = migrated_label) (provider_creds d)"
      by (auto simp: find_None_ball list_ex_iff)
    from 4 none assms obtain c where c: "r = Migrated c" "provider_creds d1 = provider_creds d @ [c]"
        "pc_provider c = ''azure''" "pc_label c = migrated_label" "pc_status c = pc_active"
        "pc_enc_key c = encrypt e (Suc (fresh d)) ?key"
      by (auto simp: migrate_azure_env_def create_provider_cred_def new_ulid_def Let_def)
    then have "?label (provider_creds d1) \<noteq> None" by (auto simp: find_None_ball)
    then have "migrate_azure_env (at_time e t) d1 = (AlreadyMigrated, d1)" for t
      using 4(1) by (simp add: migrate_azure_env_def Let_def)
    moreover have "active_creds ''azure'' d1 = active_creds ''azure'' d @ [c]" using c by (simp add: active_creds_def)
    ultimately show ?thesis using c by blast
  qed
qed

text \<open>A disabled administrator is not brought back: the program reports success and changes no member.\<close>

lemma disabled_admin_stays_disabled:
  assumes "find (\<lambda>m. m_email m = lower (strip email)) (members d) = Some m" "m_is_admin m" "m_status m = member_disabled"
    "m_provider m = google_oidc \<or> m_provider m = local_password"
  shows "\<exists>d1. create_admin e re email (m_provider m) name d = (0, d1) \<and> members d1 = members d"
proof -
  obtain w d0 where w: "add_whitelist e (lower (strip email)) bootstrap_cli (Some ''bootstrap admin'') d = (w, d0)" by fastforce
  from add_whitelist_rows(1) [OF w] assms show ?thesis
    by (auto simp: create_admin_def provision_def get_by_email_def result_to_exit_code_def w Let_def)
qed

section \<open>Upstream keys and the audit trail\<close>

text \<open>A connection test writes the time of use without the audit entry of a first use, so that entry never
  appears for a key tested before its first call.\<close>

lemma test_hides_first_use:
  assumes "test_provider_connection e azure ping pid model d = (Inr r, d1)"
    "c \<in> set (provider_creds d)" "pc_id c = pid"
  shows "audit_log d1 = audit_log d \<and> (\<exists>c' \<in> set (provider_creds d1). pc_id c' = pid \<and> pc_last_used_at c' = Some (now e))"
proof -
  from assms(1) have "d1 = set_provider_cred pid (\<lambda>c. c\<lparr>pc_last_used_at := Some (now e)\<rparr>) d"
    by (auto simp: test_provider_connection_def failed_def Let_def split: option.splits if_splits prod.splits sum.splits)
  moreover have "c\<lparr>pc_last_used_at := Some (now e)\<rparr> \<in> set (provider_creds (set_provider_cred pid (\<lambda>c. c\<lparr>pc_last_used_at := Some (now e)\<rparr>) d))"
    using assms(2,3) by (auto simp: set_provider_cred_def set_update_where)
  ultimately show ?thesis using assms(3) by (intro conjI bexI [of _ "c\<lparr>pc_last_used_at := Some (now e)\<rparr>"]) (simp_all add: set_provider_cred_def)
qed

definition audit_page :: "audit_query \<Rightarrow> nat \<Rightarrow> db \<Rightarrow> nat \<Rightarrow> audit_entry list" where
  "audit_page q limit d i =
     (case fst (list_audit q (int limit) (int (i * limit)) d) of Inl err \<Rightarrow> [] | Inr rows \<Rightarrow> rows)"

lemma chunks: "concat (map (\<lambda>i. take n (drop (i * n) xs)) [0 ..< k]) = take (k * n) xs"
proof (induction k)
  case (Suc k)
  have "take (k * n) xs @ take n (drop (k * n) xs) = take (k * n + n) xs" by (simp add: take_add)
  with Suc show ?case by (simp add: add.commute)
qed simp

text \<open>The pages of the audit viewer, one after the other, are the selected entries, newest first, each
  once; routine entries appear only when asked for.\<close>

theorem audit_pages_complete:
  assumes "1 \<le> limit" "limit \<le> 500" "length (audit_log d) \<le> k * limit"
  shows "concat (map (audit_page q limit d) [0 ..< k]) =
      filter (audit_selects q) (sort_key (\<lambda>r. - au_created_at r) (audit_log d)) \<and>
    (\<not> aq_include_routine q \<and> aq_event_type q = None \<longrightarrow>
       (\<forall>r \<in> set (concat (map (audit_page q limit d) [0 ..< k])). au_event_type r \<noteq> anomaly_detector_run))"
proof -
  let ?rows = "filter (audit_selects q) (sort_key (\<lambda>r. - au_created_at r) (audit_log d))"
  have page: "audit_page q limit d i = take limit (drop (i * limit) ?rows)" for i
  proof -
    have "\<not> (int limit < 1 \<or> 500 < int limit \<or> int (i * limit) < 0)" using assms(1,2) by (simp del: of_nat_mult)
    then show ?thesis by (simp only: audit_page_def list_audit_def if_False fst_conv sum.case nat_int)
  qed
  have "length ?rows \<le> k * limit"
    using length_filter_le [of "audit_selects q" "sort_key (\<lambda>r. - au_created_at r) (audit_log d)"] assms(3) by simp
  then have all: "concat (map (audit_page q limit d) [0 ..< k]) = ?rows" unfolding page chunks by simp
  show ?thesis unfolding all by (auto simp: audit_selects_def routine_event_types_def)
qed

section \<open>Tags\<close>

text \<open>The listing shows every tag in use and every registered one exactly once, in order.\<close>

lemma list_tags_once:
  assumes "finite known"
  shows "distinct (map fst (list_tags known d)) \<and> sorted (map fst (list_tags known d)) \<and>
    set (map fst (list_tags known d)) = known \<union> mt_tag ` set (member_tags d)"
proof -
  let ?used = "map fst (list_distinct d)"
  have used: "distinct ?used" "set ?used = mt_tag ` set (member_tags d)"
    by (simp_all add: list_distinct_def comp_def distinct_dedupe)
  have fst_new: "map fst (map (\<lambda>t. (t, 0 :: nat)) xs) = xs" for xs :: "string list" by (simp add: comp_def)
  let ?all = "list_distinct d @ map (\<lambda>t. (t, 0)) (sorted_list_of_set (known - set ?used))"
  have "distinct (map fst ?all)" unfolding map_append fst_new using used(1) assms by auto
  moreover have "set (map fst ?all) = known \<union> mt_tag ` set (member_tags d)"
    unfolding map_append fst_new set_append using used(2) assms by auto
  moreover have "mset (map fst (list_tags known d)) = mset (map fst ?all)"
    by (simp add: list_tags_def Let_def del: map_append)
  ultimately show ?thesis
    by (metis list_tags_def mset_eq_imp_distinct_iff mset_eq_setD sorted_sort_key)
qed

text \<open>A registered tag that nobody has cannot be deleted.\<close>

lemma registered_tag_stays:
  assumes "post_tag tag known = (Inr made, known')" "tag \<notin> mt_tag ` set (member_tags d)" "finite known"
  shows "fst (delete_tag e tag d) = Inl (404, ''not_found'') \<and> tag \<in> set (map fst (list_tags known' d))"
proof -
  from assms(1) have "known' = insert tag known" by (auto simp: post_tag_def split: if_splits)
  moreover have "filter (\<lambda>t. mt_tag t = tag) (member_tags d) = []" using assms(2) by (auto simp: filter_empty_conv)
  ultimately show ?thesis
    using list_tags_once [of known' d] assms(3)
    by (auto simp: delete_tag_def delete_tag_globally_def failed_def Let_def)
qed

end
