(* ===== verification/Migrations.thy ===== *)
theory Migrations
  imports AllocationTheorems
begin

text \<open>
  The two migrations that reshape the keys, \<open>alembic/versions/0015_per_device_credentials.py\<close> (from
  one key per allocation to many, with an id and a name each) and \<open>0017_scoped_credentials.py\<close> (from
  an allocation per key to a scope), in both directions.  They copy rows between tables of different
  shapes, so each older shape of a row is a record; of the allocations they read only columns that
  have not changed.  Indexes and constraints have no definition here: what they forbid is \<open>None\<close>.
\<close>

section \<open>The older shapes\<close>

record key_14 =
  k14_allocation_id :: string
  k14_fingerprint :: string
  k14_prefix :: string
  k14_created_at :: timestamp

record key_15 =
  k15_id :: string
  k15_allocation_id :: string
  k15_name :: string
  k15_fingerprint :: string
  k15_prefix :: string
  k15_created_at :: timestamp
  k15_last_used_at :: "timestamp option"
  k15_revoked_at :: "timestamp option"

section \<open>Many keys per allocation\<close>

definition device_key :: "string \<Rightarrow> key_14 \<Rightarrow> key_15" where
  "device_key i k =
     \<lparr>k15_id = i, k15_allocation_id = k14_allocation_id k, k15_name = default_credential_name,
      k15_fingerprint = k14_fingerprint k, k15_prefix = k14_prefix k,
      k15_created_at = k14_created_at k, k15_last_used_at = None, k15_revoked_at = None\<rparr>"

text \<open>\<open>ids\<close> are the ULIDs drawn, one per row.\<close>

definition upgrade_0015 :: "(nat \<Rightarrow> string) \<Rightarrow> key_14 list \<Rightarrow> key_15 list" where
  "upgrade_0015 ids rows = map (\<lambda>(i, k). device_key (ids i) k) (List.enumerate 0 rows)"

definition collapsed_key :: "key_15 \<Rightarrow> key_14" where
  "collapsed_key k =
     \<lparr>k14_allocation_id = k15_allocation_id k, k14_fingerprint = k15_fingerprint k,
      k14_prefix = k15_prefix k, k14_created_at = k15_created_at k\<rparr>"

text \<open>The dictionary keeps the place of the first row of an allocation and the value of the last.\<close>

definition downgrade_0015 :: "key_15 list \<Rightarrow> key_14 list" where
  "downgrade_0015 keys =
     (let rows = map collapsed_key (sort_key k15_created_at (filter (\<lambda>k. k15_revoked_at k = None) keys))
      in map (\<lambda>aid. last (filter (\<lambda>k. k14_allocation_id k = aid) rows)) (dedupe (map k14_allocation_id rows)))"

section \<open>Scopes\<close>

definition scope_rows :: "allocation list \<Rightarrow> key_15 \<Rightarrow> credential_allocation list" where
  "scope_rows allocs k =
     map (\<lambda>a. \<lparr>ca_credential_id = k15_id k, ca_allocation_id = k15_allocation_id k,
               ca_resource_model = a_resource_model a\<rparr>)
       (filter (\<lambda>a. a_id a = k15_allocation_id k) allocs)"

definition owned_key :: "allocation list \<Rightarrow> key_15 \<Rightarrow> credential option" where
  "owned_key allocs k =
     map_option (\<lambda>a. \<lparr>c_id = k15_id k, c_member_id = a_member_id a, c_name = k15_name k,
         c_token_fingerprint = k15_fingerprint k, c_token_prefix = k15_prefix k,
         c_created_at = k15_created_at k, c_last_used_at = k15_last_used_at k,
         c_revoked_at = k15_revoked_at k\<rparr>)
       (find (\<lambda>a. a_id a = k15_allocation_id k) allocs)"

text \<open>\<open>member_id\<close> may not stay empty.\<close>

definition upgrade_0017 ::
  "allocation list \<Rightarrow> key_15 list \<Rightarrow> (credential list \<times> credential_allocation list) option" where
  "upgrade_0017 allocs keys =
     map_option (\<lambda>cs. (cs, concat (map (scope_rows allocs) keys))) (those (map (owned_key allocs) keys))"

definition single_key :: "credential_allocation list \<Rightarrow> credential \<Rightarrow> key_15 option" where
  "single_key links c =
     map_option (\<lambda>l. \<lparr>k15_id = c_id c, k15_allocation_id = ca_allocation_id l, k15_name = c_name c,
         k15_fingerprint = c_token_fingerprint c, k15_prefix = c_token_prefix c,
         k15_created_at = c_created_at c, k15_last_used_at = c_last_used_at c,
         k15_revoked_at = c_revoked_at c\<rparr>)
       (find (\<lambda>l. ca_credential_id l = c_id c) links)"

definition downgrade_0017 ::
  "credential list \<times> credential_allocation list \<Rightarrow> key_15 list option" where
  "downgrade_0017 keys = those (map (single_key (snd keys)) (fst keys))"

section \<open>What the upgrades do\<close>

text \<open>The keys of before, with the constraints they had: a row belongs to an allocation, and no two have
  the same allocation or fingerprint; and the ids drawn are new.\<close>

definition keys_14_ok :: "(nat \<Rightarrow> string) \<Rightarrow> allocation list \<Rightarrow> key_14 list \<Rightarrow> bool" where
  "keys_14_ok ids allocs rows \<longleftrightarrow>
     distinct (map a_id allocs) \<and> distinct (map k14_allocation_id rows) \<and>
     distinct (map k14_fingerprint rows) \<and> distinct (map ids [0 ..< length rows]) \<and>
     list_all (\<lambda>k. list_ex (\<lambda>a. a_id a = k14_allocation_id k) allocs) rows"

definition allocation_of_key :: "allocation list \<Rightarrow> key_14 \<Rightarrow> allocation" where
  "allocation_of_key allocs k = the (find (\<lambda>a. a_id a = k14_allocation_id k) allocs)"

definition migrated_key :: "allocation list \<Rightarrow> string \<Rightarrow> key_14 \<Rightarrow> credential" where
  "migrated_key allocs i k =
     \<lparr>c_id = i, c_member_id = a_member_id (allocation_of_key allocs k), c_name = default_credential_name,
      c_token_fingerprint = k14_fingerprint k, c_token_prefix = k14_prefix k,
      c_created_at = k14_created_at k, c_last_used_at = None, c_revoked_at = None\<rparr>"

definition migrated_link :: "allocation list \<Rightarrow> string \<Rightarrow> key_14 \<Rightarrow> credential_allocation" where
  "migrated_link allocs i k =
     \<lparr>ca_credential_id = i, ca_allocation_id = k14_allocation_id k,
      ca_resource_model = a_resource_model (allocation_of_key allocs k)\<rparr>"

lemma those_map_Some: "(\<And>x. x \<in> set xs \<Longrightarrow> f x = Some (g x)) \<Longrightarrow> those (map f xs) = Some (map g xs)"
  by (induction xs) auto

lemma concat_map_single: "(\<And>x. x \<in> set xs \<Longrightarrow> f x = [g x]) \<Longrightarrow> concat (map f xs) = map g xs"
  by (induction xs) auto

lemma allocation_of_key_row:
  assumes "keys_14_ok ids allocs rows" "k \<in> set rows"
  shows "find (\<lambda>a. a_id a = k14_allocation_id k) allocs = Some (allocation_of_key allocs k)"
    "filter (\<lambda>a. a_id a = k14_allocation_id k) allocs = [allocation_of_key allocs k]"
    "allocation_of_key allocs k \<in> set allocs" "a_id (allocation_of_key allocs k) = k14_allocation_id k"
proof -
  obtain a where a: "find (\<lambda>a. a_id a = k14_allocation_id k) allocs = Some a"
    using assms by (cases "find (\<lambda>a. a_id a = k14_allocation_id k) allocs")
      (auto simp: keys_14_ok_def find_None_ball list_all_iff list_ex_iff)
  then have a': "allocation_of_key allocs k = a" by (simp add: allocation_of_key_def)
  from find_SomeD [OF a] have mem: "a \<in> set allocs" "a_id a = k14_allocation_id k" by simp_all
  have "distinct (map a_id allocs)" using assms(1) by (simp add: keys_14_ok_def)
  from filter_unique [OF this mem(1)] mem(2)
  show "find (\<lambda>a. a_id a = k14_allocation_id k) allocs = Some (allocation_of_key allocs k)"
    "filter (\<lambda>a. a_id a = k14_allocation_id k) allocs = [allocation_of_key allocs k]"
    "allocation_of_key allocs k \<in> set allocs" "a_id (allocation_of_key allocs k) = k14_allocation_id k"
    using a a' mem by simp_all
qed

definition numbered :: "(nat \<Rightarrow> string) \<Rightarrow> key_14 list \<Rightarrow> (string \<times> key_14) list" where
  "numbered ids rows = zip (map ids [0 ..< length rows]) rows"

lemma numbered_fst [simp]: "map fst (numbered ids rows) = map ids [0 ..< length rows]"
  by (simp add: numbered_def)

lemma numbered_snd [simp]: "map snd (numbered ids rows) = rows"
  by (simp add: numbered_def)

lemma numbered_mem: "(i, k) \<in> set (numbered ids rows) \<Longrightarrow> k \<in> set rows"
  by (simp add: numbered_def set_zip_rightD)

text \<open>Both upgrades together turn row by row into a key and a link.\<close>

lemma upgrades_rows:
  assumes "keys_14_ok ids allocs rows"
  shows "upgrade_0017 allocs (upgrade_0015 ids rows) =
    Some (map (\<lambda>(i, k). migrated_key allocs i k) (numbered ids rows),
          map (\<lambda>(i, k). migrated_link allocs i k) (numbered ids rows))"
proof -
  have rows: "upgrade_0015 ids rows = map (\<lambda>(i, k). device_key i k) (numbered ids rows)"
    by (simp add: upgrade_0015_def numbered_def enumerate_eq_zip zip_map1 comp_def case_prod_beta)
  have "owned_key allocs (device_key i k) = Some (migrated_key allocs i k)"
    "scope_rows allocs (device_key i k) = [migrated_link allocs i k]" if "(i, k) \<in> set (numbered ids rows)" for i k
    using allocation_of_key_row [OF assms numbered_mem [OF that]]
    by (simp_all add: owned_key_def scope_rows_def device_key_def migrated_key_def migrated_link_def)
  then have "those (map (owned_key allocs) (upgrade_0015 ids rows)) =
      Some (map (\<lambda>(i, k). migrated_key allocs i k) (numbered ids rows))"
    "concat (map (scope_rows allocs) (upgrade_0015 ids rows)) =
      map (\<lambda>(i, k). migrated_link allocs i k) (numbered ids rows)"
    by (auto simp: rows comp_def intro!: those_map_Some concat_map_single)
  then show ?thesis by (simp add: upgrade_0017_def)
qed

definition migrated :: "(nat \<Rightarrow> string) \<Rightarrow> key_14 list \<Rightarrow> db \<Rightarrow> db option" where
  "migrated ids rows d =
     map_option (\<lambda>(cs, ls). d\<lparr>credentials := cs, credential_allocations := ls\<rparr>)
       (upgrade_0017 (allocations d) (upgrade_0015 ids rows))"

lemma migratedE:
  assumes "keys_14_ok ids (allocations d) rows"
  obtains d' where "migrated ids rows d = Some d'" "allocations d' = allocations d"
    "credentials d' = map (\<lambda>(i, k). migrated_key (allocations d) i k) (numbered ids rows)"
    "credential_allocations d' = map (\<lambda>(i, k). migrated_link (allocations d) i k) (numbered ids rows)"
  using upgrades_rows [OF assms] by (simp add: migrated_def)

lemma migrated_scope:
  assumes "keys_14_ok ids (allocations d) rows" "(i, k) \<in> set (numbered ids rows)"
    and "credential_allocations d' = map (\<lambda>(i, k). migrated_link (allocations d) i k) (numbered ids rows)"
      "allocations d' = allocations d"
  shows "scope_join i d' = [(migrated_link (allocations d) i k, allocation_of_key (allocations d) k)]"
proof -
  have "distinct (map fst (numbered ids rows))" using assms(1) by (simp add: keys_14_ok_def)
  from filter_unique [OF this assms(2)]
  have "filter (\<lambda>l. ca_credential_id l = i) (credential_allocations d') = [migrated_link (allocations d) i k]"
    by (simp add: assms(3) filter_map comp_def case_prod_beta migrated_link_def)
  moreover have "k \<in> set rows" using assms(2) by (rule numbered_mem)
  ultimately show ?thesis
    using allocation_of_key_row(2) [OF assms(1)] by (simp add: scope_join_def assms(4) migrated_link_def)
qed

lemma distinct_pairs: "distinct (map f xs) \<Longrightarrow> distinct (map (\<lambda>x. (f x, g x)) xs)"
  by (induction xs) auto

lemma migrated_links_wf:
  assumes "keys_14_ok ids (allocations d) rows" "migrated ids rows d = Some d'"
  shows "links_wf d'"
proof -
  obtain d1 where "migrated ids rows d = Some d1" and same: "allocations d1 = allocations d"
    and keys: "credentials d1 = map (\<lambda>(i, k). migrated_key (allocations d) i k) (numbered ids rows)"
    and links: "credential_allocations d1 = map (\<lambda>(i, k). migrated_link (allocations d) i k) (numbered ids rows)"
    by (rule migratedE [OF assms(1)])
  then have d1: "d1 = d'" using assms(2) by simp
  have "link_ok d1 (migrated_link (allocations d) i k)" if "(i, k) \<in> set (numbered ids rows)" for i k
    unfolding link_ok_def keys same using that allocation_of_key_row(3,4) [OF assms(1) numbered_mem [OF that]]
    by (intro bexI [of _ "migrated_key (allocations d) i k"] bexI [of _ "allocation_of_key (allocations d) k"])
       (force simp: migrated_link_def migrated_key_def)+
  moreover have "distinct (map (\<lambda>l. (ca_credential_id l, ca_resource_model l)) (credential_allocations d1))"
  proof (rule distinct_pairs)
    have "map ca_credential_id (credential_allocations d1) = map fst (numbered ids rows)"
      unfolding links map_map by (rule map_cong) (auto simp: migrated_link_def)
    then show "distinct (map ca_credential_id (credential_allocations d1))"
      using assms(1) by (simp add: keys_14_ok_def)
  qed
  ultimately show ?thesis by (auto simp: links_wf_def d1 [symmetric] links)
qed

section \<open>Every token keeps working\<close>

text \<open>Before the upgrades a token had one allocation, usable for its own model; the provider of the
  model could be left out.\<close>

definition resolve_14 :: "env \<Rightarrow> string \<Rightarrow> string \<Rightarrow> key_14 list \<Rightarrow> allocation list \<Rightarrow> allocation option" where
  "resolve_14 e token model rows allocs =
     Option.bind (find (\<lambda>k. k14_fingerprint k = fingerprint_for e token) rows)
       (\<lambda>k. find (\<lambda>a. a_id a = k14_allocation_id k \<and>
          (a_resource_model a = model \<or> CHR ''/'' \<notin> set model \<and> model_key (a_resource_model a) = model)) allocs)"

lemma find_numbered:
  "find (\<lambda>c. c_token_fingerprint c = fp \<and> c_revoked_at c = None) (map (\<lambda>(i, k). migrated_key allocs i k) ns) =
     map_option (\<lambda>(i, k). migrated_key allocs i k) (find (\<lambda>(i, k). k14_fingerprint k = fp) ns)"
  by (induction ns) (auto simp: migrated_key_def)

lemma find_numbered_row:
  "map_option snd (find (\<lambda>(i, k). p k) ns) = find p (map snd ns)"
  by (induction ns) auto

lemma find_conj: "find (\<lambda>a. p a \<and> q a) xs = (if q a then Some a else None)"
  if "filter p xs = [a]"
  using that by (induction xs) (auto simp: find_None_ball filter_empty_conv split: if_splits)

text \<open>C33: after the two upgrades every token resolves exactly as before, the links satisfy the invariant
  of scopes, and no token that was unknown resolves.\<close>

theorem migrated_tokens_keep_working:
  assumes "keys_14_ok ids (allocations d) rows"
  shows "\<exists>d'. migrated ids rows d = Some d' \<and> links_wf d' \<and>
    (\<forall>token model. resolve_bearer e token model d' = resolve_14 e token model rows (allocations d))"
proof -
  obtain d' where d': "migrated ids rows d = Some d'" and same: "allocations d' = allocations d"
    and keys: "credentials d' = map (\<lambda>(i, k). migrated_key (allocations d) i k) (numbered ids rows)"
    and links: "credential_allocations d' = map (\<lambda>(i, k). migrated_link (allocations d) i k) (numbered ids rows)"
    by (rule migratedE [OF assms])
  have "resolve_bearer e token model d' = resolve_14 e token model rows (allocations d)" for token model
  proof (cases "find (\<lambda>(i, k). k14_fingerprint k = fingerprint_for e token) (numbered ids rows)")
    case None
    then show ?thesis using find_numbered_row [of "\<lambda>k. k14_fingerprint k = fingerprint_for e token" "numbered ids rows"]
      by (simp add: resolve_bearer_key key_of_def keys find_numbered resolve_14_def)
  next
    case (Some x)
    obtain i k where x: "x = (i, k)" by fastforce
    from find_SomeD [OF Some] x have ik: "(i, k) \<in> set (numbered ids rows)" by simp
    have row: "find (\<lambda>k. k14_fingerprint k = fingerprint_for e token) rows = Some k"
      using find_numbered_row [of "\<lambda>k. k14_fingerprint k = fingerprint_for e token" "numbered ids rows"] Some x by simp
    let ?a = "allocation_of_key (allocations d) k"
    have "find (\<lambda>a. a_id a = k14_allocation_id k \<and> (a_resource_model a = model \<or>
        CHR ''/'' \<notin> set model \<and> model_key (a_resource_model a) = model)) (allocations d) =
      (if a_resource_model ?a = model \<or> CHR ''/'' \<notin> set model \<and> model_key (a_resource_model ?a) = model
       then Some ?a else None)"
      by (rule find_conj [OF allocation_of_key_row(2) [OF assms numbered_mem [OF ik]]])
    moreover have "key_of e token d' = Some (migrated_key (allocations d) i k)"
      by (simp add: key_of_def keys find_numbered Some x)
    moreover have "resolve_scope_allocation (migrated_key (allocations d) i k) model d' =
      (if a_resource_model ?a = model \<or> CHR ''/'' \<notin> set model \<and> model_key (a_resource_model ?a) = model
       then Some ?a else None)"
      using migrated_scope [OF assms ik links same]
      by (simp add: resolve_scope_allocation_def scope_allocations_def migrated_key_def migrated_link_def model_key_def)
    ultimately show ?thesis by (simp add: resolve_bearer_key resolve_14_def row)
  qed
  with d' migrated_links_wf [OF assms d'] show ?thesis by blast
qed

section \<open>Back again\<close>

lemma insort_map:
  "(\<And>x. h (f x) = g x) \<Longrightarrow> insort_key h (f x) (map f xs) = map f (insort_key g x xs)"
  by (induction xs) simp_all

lemma sort_key_map: "(\<And>x. h (f x) = g x) \<Longrightarrow> sort_key h (map f xs) = map f (sort_key g xs)"
  by (induction xs) (simp_all add: insort_map)

lemma find_filter: "filter p xs = x # ys \<Longrightarrow> find p xs = Some x"
  by (induction xs) (auto split: if_splits)

lemma dedupe_id: "distinct xs \<Longrightarrow> dedupe xs = xs"
proof (induction xs rule: dedupe.induct)
  case (2 x xs)
  then have "filter (\<lambda>y. y \<noteq> x) xs = xs" by (auto intro: filter_True)
  with 2 show ?case by simp
qed simp

lemma collapse_distinct:
  "distinct (map key xs) \<Longrightarrow> map (\<lambda>i. last (filter (\<lambda>k. key k = i) xs)) (dedupe (map key xs)) = xs"
  by (simp add: dedupe_id comp_def map_idI filter_unique)

lemma keys_back:
  assumes "keys_14_ok ids allocs rows"
  shows "Option.bind (upgrade_0017 allocs (upgrade_0015 ids rows)) downgrade_0017 = Some (upgrade_0015 ids rows)"
proof -
  let ?ls = "map (\<lambda>(i, k). migrated_link allocs i k) (numbered ids rows)"
  have "distinct (map fst (numbered ids rows))" using assms by (simp add: keys_14_ok_def)
  note one = filter_unique [OF this]
  have "single_key ?ls (migrated_key allocs i k) = Some (device_key i k)" if "(i, k) \<in> set (numbered ids rows)" for i k
  proof -
    have "filter (\<lambda>l. ca_credential_id l = i) ?ls = [migrated_link allocs i k]"
      using one [OF that] by (simp add: filter_map comp_def case_prod_beta migrated_link_def)
    from find_filter [OF this] show ?thesis
      by (simp add: single_key_def migrated_key_def migrated_link_def device_key_def)
  qed
  then have "those (map (single_key ?ls) (map (\<lambda>(i, k). migrated_key allocs i k) (numbered ids rows))) =
      Some (map (\<lambda>(i, k). device_key i k) (numbered ids rows))"
    unfolding map_map by (intro those_map_Some) auto
  moreover have "upgrade_0015 ids rows = map (\<lambda>(i, k). device_key i k) (numbered ids rows)"
    by (simp add: upgrade_0015_def numbered_def enumerate_eq_zip zip_map1 comp_def case_prod_beta)
  ultimately show ?thesis using upgrades_rows [OF assms] by (simp only: bind.bind_lunit downgrade_0017_def fst_conv snd_conv)
qed

text \<open>C34: downgrading what the two upgrades made gives back the keys of before, in the order of their
  creation.\<close>

theorem migration_round_trip:
  assumes "keys_14_ok ids allocs rows"
  shows "Option.bind (upgrade_0017 allocs (upgrade_0015 ids rows))
      (\<lambda>keys. map_option downgrade_0015 (downgrade_0017 keys)) = Some (sort_key k14_created_at rows)"
proof -
  let ?keys = "upgrade_0015 ids rows"
  have "map collapsed_key ?keys = map snd (List.enumerate 0 rows)"
    unfolding upgrade_0015_def map_map by (rule map_cong) (auto simp: device_key_def collapsed_key_def)
  then have "map collapsed_key ?keys = rows" by simp
  moreover have "filter (\<lambda>k. k15_revoked_at k = None) ?keys = ?keys"
    by (auto simp: upgrade_0015_def device_key_def intro!: filter_True)
  moreover have "map collapsed_key (sort_key k15_created_at ?keys) = sort_key k14_created_at (map collapsed_key ?keys)"
    by (rule sort_key_map [symmetric]) (simp add: collapsed_key_def)
  moreover have "distinct (map k14_allocation_id (sort_key k14_created_at rows))"
    using assms by (simp add: keys_14_ok_def distinct_map)
  ultimately have "downgrade_0015 ?keys = sort_key k14_created_at rows"
    by (simp add: downgrade_0015_def collapse_distinct Let_def)
  then show ?thesis
    using keys_back [OF assms] by (cases "upgrade_0017 allocs ?keys") simp_all
qed

section \<open>Witnesses\<close>

definition old_keys :: "key_14 list" where
  "old_keys =
     [\<lparr>k14_allocation_id = ''a1'', k14_fingerprint = ''f1'', k14_prefix = ''aiapi_1'', k14_created_at = 9\<rparr>,
      \<lparr>k14_allocation_id = ''a2'', k14_fingerprint = ''f2'', k14_prefix = ''aiapi_2'', k14_created_at = 4\<rparr>]"

definition old_db :: db where
  "old_db = empty_db\<lparr>allocations := [sample_allocation ''a1'' ''azure/gpt-4o'', sample_allocation ''a2'' ''azure/o3'']\<rparr>"

lemma old_keys_ok: "keys_14_ok (ulid sample_env) (allocations old_db) old_keys"
  by (simp add: keys_14_ok_def old_keys_def old_db_def sample_allocation_def sample_env_def)

theorem migrated_tokens_keep_working_witness:
  "\<exists>d'. migrated (ulid sample_env) old_keys old_db = Some d' \<and> links_wf d' \<and>
    (\<forall>token model. resolve_bearer sample_env token model d' =
       resolve_14 sample_env token model old_keys (allocations old_db))"
  by (rule migrated_tokens_keep_working [OF old_keys_ok])

theorem migration_round_trip_witness:
  "Option.bind (upgrade_0017 (allocations old_db) (upgrade_0015 (ulid sample_env) old_keys))
     (\<lambda>keys. map_option downgrade_0015 (downgrade_0017 keys)) = Some (rev old_keys)"
  using migration_round_trip [OF old_keys_ok] by (simp add: old_keys_def)

end
