(* ===== verification/Gateway.thy ===== *)
theory Gateway
  imports AdminTags Login
begin

text \<open>
  What surrounds the endpoints: the start of the application (\<open>main.py\<close>, \<open>config.py\<close>, \<open>db.py\<close>,
  \<open>services/crypto.py\<close>), the request identifier and the log lines (\<open>observability/\<close>), the cookies of a
  login (\<open>api/auth.py\<close>), the install scripts (\<open>api/install.py\<close>) and the diagnosis of visibility
  (\<open>api/admin_diagnose.py\<close>).  Fernet's check of a key is an argument, and so is the text of a template.
\<close>

section \<open>Start\<close>

text \<open>The settings that only the start, the cookies and the Google login read.\<close>

record deployment = settings +
  dp_database_url :: string
  dp_pool_size :: int
  dp_max_overflow :: int
  dp_pool_timeout :: int
  dp_pool_recycle :: int
  dp_base_url :: string
  dp_cookie_secure :: bool
  dp_cookie_domain :: string
  dp_google_discovery_url :: string
  dp_cors_origins :: "string list"
  dp_request_body_limit_mb :: int
  dp_azure_test_model :: string
  dp_provider_key_enc_key :: string
  dp_log_level :: string
  dp_anomaly_check_interval_min :: int

definition default_admin_bootstrap_token :: string where
  "default_admin_bootstrap_token = ''local-dev-admin-only''"

definition default_settings :: deployment where
  "default_settings =
     \<lparr>admin_bootstrap_token = default_admin_bootstrap_token, google_oauth_client_id = [],
      azure_openai_api_base = [], azure_openai_api_key = [], azure_openai_api_version = ''2024-06-01'',
      google_oauth_client_secret = [],
      allowed_providers = [''azure'', ''openai'', ''anthropic'', ''gemini''],
      anomaly_threshold_multiplier = 10, anomaly_absolute_cold_start = 10000, anomaly_min_calls = 100,
      perip_lockout_threshold = 10, pool_total_tokens_per_month = 0, pool_floor_per_allocation = 1000,
      upstream_burst_threshold = 10, upstream_burst_window_minutes = 5,
      oauth_redirect_allowlist = [], notify_event_types_override = [],
      dp_database_url = ''sqlite+aiosqlite:///./ai_api.db'', dp_pool_size = 20, dp_max_overflow = 30,
      dp_pool_timeout = 30, dp_pool_recycle = 1800, dp_base_url = ''http://localhost:8000'',
      dp_cookie_secure = False, dp_cookie_domain = [],
      dp_google_discovery_url = ''https://accounts.google.com/.well-known/openid-configuration'',
      dp_cors_origins = [], dp_request_body_limit_mb = 100, dp_azure_test_model = ''gpt-4o-mini'',
      dp_provider_key_enc_key = [], dp_log_level = ''INFO'', dp_anomaly_check_interval_min = 5\<rparr>"

datatype startup_error = DevAdminToken | EncryptionKeyMissing | EncryptionKeyMalformed | NoProviders

definition get_fernet :: "(string \<Rightarrow> bool) \<Rightarrow> deployment \<Rightarrow> startup_error option" where
  "get_fernet fernet_ok s =
     (if dp_provider_key_enc_key s = [] then Some EncryptionKeyMissing
      else if \<not> fernet_ok (dp_provider_key_enc_key s) then Some EncryptionKeyMalformed else None)"

text \<open>The origins that the CORS middleware admits, when it is installed.\<close>

definition create_app :: "(string \<Rightarrow> bool) \<Rightarrow> deployment \<Rightarrow> startup_error + string list option" where
  "create_app fernet_ok s =
     (let cors = (if dp_cors_origins s = [] then None else Some (dp_cors_origins s))
      in if dp_cookie_secure s \<and> admin_bootstrap_token s \<in> set ['''', default_admin_bootstrap_token]
         then Inl DevAdminToken
         else case get_fernet fernet_ok s of
           Some err \<Rightarrow> Inl err
         | None \<Rightarrow> if allowed_providers s = [] then Inl NoProviders else Inr cors)"

record engine_options =
  eo_pool :: "(int \<times> int \<times> int \<times> int) option"
  eo_pre_ping :: bool

definition engine_kwargs :: "deployment \<Rightarrow> string \<Rightarrow> engine_options" where
  "engine_kwargs s url =
     (if starts_with ''postgresql'' url
      then \<lparr>eo_pool = Some (dp_pool_size s, dp_max_overflow s, dp_pool_timeout s, dp_pool_recycle s),
            eo_pre_ping = True\<rparr>
      else \<lparr>eo_pool = None, eo_pre_ping = False\<rparr>)"

definition system_info :: "deployment \<Rightarrow> (string \<times> int) list" where
  "system_info s = [(''request_body_limit_mb'', dp_request_body_limit_mb s)]"

section \<open>Request identifiers and log lines\<close>

text \<open>The identifier of the client, or a new one; the response carries it back.\<close>

definition with_request_id :: "string option \<Rightarrow> string \<Rightarrow> (string \<Rightarrow> 'a) \<Rightarrow> 'a \<times> string" where
  "with_request_id header generated handler =
     (let rid = (if nonempty_text header then the header else generated) in (handler rid, rid))"

text \<open>An argument of a log call is a text or another object, which stands here as its \<open>str\<close>.\<close>

datatype log_arg = TextArg string | ObjectArg string

fun arg_text :: "log_arg \<Rightarrow> string" where
  "arg_text (TextArg s) = s"
| "arg_text (ObjectArg s) = s"

fun object_arg :: "log_arg \<Rightarrow> bool" where
  "object_arg (TextArg s) = False"
| "object_arg (ObjectArg s) = True"

record log_record =
  lg_level :: string
  lg_logger :: string
  lg_msg :: string
  lg_args :: "log_arg list"
  lg_request_id :: "string option"
  lg_allocation_id :: "string option"
  lg_exc_info :: "string option"

fun redact_arg :: "string list \<Rightarrow> log_arg \<Rightarrow> log_arg" where
  "redact_arg secrets (TextArg s) = TextArg (scrub secrets s)"
| "redact_arg secrets (ObjectArg s) = ObjectArg s"

text \<open>\<open>extra\<close> are the secrets given to the filter, the others are read from the settings.\<close>

definition redaction_filter :: "settings \<Rightarrow> string list \<Rightarrow> log_record \<Rightarrow> log_record" where
  "redaction_filter s extras r =
     (let secrets = filter (\<lambda>x. x \<noteq> []) extras @ current_secrets s
      in r\<lparr>lg_msg := scrub secrets (lg_msg r), lg_args := map (redact_arg secrets) (lg_args r)\<rparr>)"

text \<open>\<open>msg % args\<close> for \<open>%s\<close>, \<open>%d\<close> of an integer and \<open>%%\<close> (the source's few \<open>%r\<close> and \<open>%.2f\<close> are not
  modelled); without arguments the message stays as it is.  \<open>None\<close> is an error of the formatting, after
  which the line is not written.\<close>

fun percent_format :: "string \<Rightarrow> log_arg list \<Rightarrow> string option" where
  "percent_format [] args = (if args = [] then Some [] else None)"
| "percent_format (c # cs) args =
     (if c \<noteq> CHR ''%'' then map_option ((#) c) (percent_format cs args)
      else case cs of [] \<Rightarrow> None
        | x # rest \<Rightarrow>
            if x = CHR ''%'' then map_option ((#) (CHR ''%'')) (percent_format rest args)
            else (case args of [] \<Rightarrow> None
              | a # later \<Rightarrow>
                  if x = CHR ''s'' \<or> x = CHR ''d'' \<and> object_arg a
                  then map_option ((@) (arg_text a)) (percent_format rest later) else None))"

definition get_message :: "log_record \<Rightarrow> string option" where
  "get_message r =
     (if lg_args r = [] then Some (lg_msg r) else percent_format (lg_msg r) (lg_args r))"

text \<open>The fields of a line, given the text of the time.\<close>

definition format_line :: "string \<Rightarrow> log_record \<Rightarrow> (string \<times> string) list option" where
  "format_line timestamp r =
     map_option (\<lambda>message.
         [(''timestamp'', timestamp), (''level'', lg_level r), (''logger'', lg_logger r), (''message'', message)] @
         (if nonempty_text (lg_request_id r) then [(''request_id'', the (lg_request_id r))] else []) @
         (if nonempty_text (lg_allocation_id r) then [(''allocation_id'', the (lg_allocation_id r))] else []) @
         (case lg_exc_info r of None \<Rightarrow> [] | Some t \<Rightarrow> [(''exc_info'', t)]))
       (get_message r)"

definition log_line :: "settings \<Rightarrow> string \<Rightarrow> log_record \<Rightarrow> (string \<times> string) list option" where
  "log_line s timestamp r = format_line timestamp (redaction_filter s [azure_openai_api_key s] r)"

section \<open>Cookies\<close>

record cookie =
  ck_name :: string
  ck_value :: string
  ck_max_age :: int
  ck_http_only :: bool
  ck_secure :: bool
  ck_same_site :: string
  ck_domain :: "string option"

definition session_cookie_name :: string where
  "session_cookie_name = ''aiapi_session''"

definition csrf_cookie_name :: string where
  "csrf_cookie_name = ''aiapi_csrf''"

definition set_session_cookie :: "deployment \<Rightarrow> string \<Rightarrow> string \<Rightarrow> cookie list" where
  "set_session_cookie s plaintext csrf =
     (let cors_enabled = (dp_cors_origins s \<noteq> []);
          cookie = (\<lambda>name value hidden.
            \<lparr>ck_name = name, ck_value = value, ck_max_age = session_lifetime div seconds 1,
             ck_http_only = hidden, ck_secure = (if cors_enabled then True else dp_cookie_secure s),
             ck_same_site = (if cors_enabled then ''none'' else ''lax''),
             ck_domain = (if dp_cookie_domain s = [] then None else Some (dp_cookie_domain s))\<rparr>)
      in [cookie session_cookie_name plaintext True, cookie csrf_cookie_name (take 32 csrf) False])"

text \<open>The names and domains of the cookies that a logout deletes.\<close>

definition clear_session_cookie :: "(string \<times> string option) list" where
  "clear_session_cookie = [(session_cookie_name, None), (csrf_cookie_name, None)]"

section \<open>Install scripts\<close>

definition strip_slashes :: "string \<Rightarrow> string" where
  "strip_slashes s = rev (dropWhile (\<lambda>c. c = CHR ''/'') (rev s))"

definition render_template :: "deployment \<Rightarrow> string \<Rightarrow> string" where
  "render_template s template = replace_all ''__BASE_URL__'' (strip_slashes (dp_base_url s)) template"

section \<open>Diagnosis\<close>

definition diagnose_visibility :: "string \<Rightarrow> string \<Rightarrow> db \<Rightarrow> (bool \<times> chain_entry list) http" where
  "diagnose_visibility mid slug d =
     (if get_member mid d = None then failed d 404 ''not_found'' d
      else case get_model slug d of
        None \<Rightarrow> failed d 404 ''not_found'' d
      | Some mc \<Rightarrow>
          (Inr (evaluate_visibility mc (get_member_tags mid d) (get_providers_with_active_credentials d)), d))"

definition list_visible_models :: "string \<Rightarrow> db \<Rightarrow> (string \<times> string \<times> string) list http" where
  "list_visible_models mid d =
     (case get_member mid d of
        None \<Rightarrow> failed d 404 ''not_found'' d
      | Some m \<Rightarrow>
          if m_status m \<noteq> member_active then (Inr [], d)
          else (let tags = get_member_tags mid d; providers = get_providers_with_active_credentials d
                in (Inr (map (\<lambda>mc. (mc_slug mc, mc_display_name mc, mc_provider mc))
                      (filter (\<lambda>mc. fst (evaluate_visibility mc tags providers))
                        (sort_key mc_slug (catalog d)))), d)))"

end
