(* ===== verification/GoogleLogin.thy ===== *)
theory GoogleLogin
  imports Gateway LoginTheorems
begin

text \<open>
  The client of Google's OpenID Connect (\<open>auth/google_oidc.py\<close>): the address a browser is sent to, the
  exchange of the code and the check of the id token.  HTTP and the JOSE library are the record
  \<open>internet\<close>; \<open>google_of\<close> turns them into the record \<open>google\<close> that the endpoints of \<open>Login\<close> use.
\<close>

section \<open>HTTP and JOSE\<close>

record oidc_metadata =
  md_authorization_endpoint :: string
  md_token_endpoint :: string
  md_jwks_uri :: string

text \<open>The registered claims, the time in seconds, on top of those the login reads.\<close>

record id_claims = oidc_claims +
  cl_iss :: string
  cl_aud :: "string list"
  cl_exp :: int
  cl_nonce :: "string option"

record claims_options =
  co_issuers :: "string list"
  co_audience :: string
  co_nonce :: string

text \<open>
  \<open>get_metadata\<close> and \<open>get_keys\<close> are GET requests that raise (\<open>None\<close>) for a status of an error;
  \<open>post_form\<close> has a status and the id token of the answer.  \<open>jwt_decode\<close> checks the signature with one of
  the algorithms, \<open>validate_claims\<close> the claims at a time, with a leeway in seconds; both may raise a
  \<open>JoseError\<close>, here its text.
\<close>

record internet =
  get_metadata :: "string \<Rightarrow> oidc_metadata option"
  get_keys :: "string \<Rightarrow> string option"
  post_form :: "string \<Rightarrow> (string \<times> string) list \<Rightarrow> (int \<times> string option) option"
  jwt_decode :: "string list \<Rightarrow> string \<Rightarrow> string \<Rightarrow> string + id_claims"
  validate_claims :: "claims_options \<Rightarrow> timestamp \<Rightarrow> int \<Rightarrow> id_claims \<Rightarrow> string option"

section \<open>The address\<close>

definition hex_char :: "nat \<Rightarrow> char" where
  "hex_char n = ''0123456789ABCDEF'' ! n"

definition unreserved :: "char \<Rightarrow> bool" where
  "unreserved c = (is_lower_letter c \<or> is_upper_letter c \<or> is_digit c \<or> c \<in> set ''_.-~'')"

text \<open>\<open>urllib.parse.quote_plus\<close> and \<open>urlencode\<close>.\<close>

definition quote_char :: "char \<Rightarrow> string" where
  "quote_char c =
     (if unreserved c then [c] else if c = CHR '' '' then ''+''
      else [CHR ''%'', hex_char ((of_char c :: nat) div 16), hex_char ((of_char c :: nat) mod 16)])"

definition quote_plus :: "string \<Rightarrow> string" where
  "quote_plus s = concat (map quote_char s)"

definition url_pair :: "string \<times> string \<Rightarrow> string" where
  "url_pair kv = quote_plus (fst kv) @ ''='' @ quote_plus (snd kv)"

fun urlencode :: "(string \<times> string) list \<Rightarrow> string" where
  "urlencode [] = []"
| "urlencode [kv] = url_pair kv"
| "urlencode (kv # kvs) = url_pair kv @ ''&'' @ urlencode kvs"

definition redirect_uri_of :: "deployment \<Rightarrow> string" where
  "redirect_uri_of s = strip_slashes (dp_base_url s) @ ''/auth/oidc/callback''"

definition authorize_params :: "deployment \<Rightarrow> string \<Rightarrow> string \<Rightarrow> string \<Rightarrow> (string \<times> string) list" where
  "authorize_params s state nonce code_challenge =
     [(''response_type'', ''code''), (''client_id'', google_oauth_client_id s),
      (''redirect_uri'', redirect_uri_of s), (''scope'', ''openid email profile''),
      (''state'', state), (''nonce'', nonce), (''code_challenge'', code_challenge),
      (''code_challenge_method'', ''S256''), (''access_type'', ''online''), (''prompt'', ''select_account'')]"

text \<open>The address of the redirect that \<open>oidc_start\<close> answers with.\<close>

definition authorize_url :: "internet \<Rightarrow> deployment \<Rightarrow> string \<Rightarrow> string \<Rightarrow> string \<Rightarrow> string option" where
  "authorize_url net s state nonce code_challenge =
     map_option (\<lambda>meta. md_authorization_endpoint meta @ ''?'' @
                        urlencode (authorize_params s state nonce code_challenge))
       (get_metadata net (dp_google_discovery_url s))"

section \<open>The exchange\<close>

definition token_data :: "deployment \<Rightarrow> string \<Rightarrow> string \<Rightarrow> (string \<times> string) list" where
  "token_data s code verifier =
     [(''grant_type'', ''authorization_code''), (''code'', code), (''redirect_uri'', redirect_uri_of s),
      (''client_id'', google_oauth_client_id s), (''client_secret'', google_oauth_client_secret s),
      (''code_verifier'', verifier)]"

definition exchange_google_code ::
  "internet \<Rightarrow> deployment \<Rightarrow> string \<Rightarrow> string \<Rightarrow> (int \<times> string option) option" where
  "exchange_google_code net s code verifier =
     Option.bind (get_metadata net (dp_google_discovery_url s))
       (\<lambda>meta. post_form net (md_token_endpoint meta) (token_data s code verifier))"

definition google_issuers :: "string list" where
  "google_issuers = [''https://accounts.google.com'', ''accounts.google.com'']"

definition id_token_options :: "deployment \<Rightarrow> string \<Rightarrow> claims_options" where
  "id_token_options s nonce =
     \<lparr>co_issuers = google_issuers, co_audience = google_oauth_client_id s, co_nonce = nonce\<rparr>"

definition verify_google_token ::
  "internet \<Rightarrow> deployment \<Rightarrow> timestamp \<Rightarrow> string \<Rightarrow> string \<Rightarrow> (string + oidc_claims) option" where
  "verify_google_token net s t id_token nonce =
     Option.bind (get_metadata net (dp_google_discovery_url s)) (\<lambda>meta.
     Option.bind (get_keys net (md_jwks_uri meta)) (\<lambda>keys.
       Some (case jwt_decode net [''RS256'', ''ES256''] id_token keys of
               Inl msg \<Rightarrow> Inl msg
             | Inr claims \<Rightarrow>
                 (case validate_claims net (id_token_options s nonce) t 60 claims of
                    Some msg \<Rightarrow> Inl msg | None \<Rightarrow> Inr (oidc_claims.truncate claims)))))"

definition google_of :: "internet \<Rightarrow> deployment \<Rightarrow> timestamp \<Rightarrow> google" where
  "google_of net s t =
     \<lparr>discovery_ok = (get_metadata net (dp_google_discovery_url s) \<noteq> None),
      exchange_code = exchange_google_code net s,
      verify_id_token = verify_google_token net s t\<rparr>"

section \<open>Reading the address back\<close>

text \<open>What a server makes of a query string, as \<open>parse_qsl\<close> does.\<close>

definition hex_digit_value :: "char \<Rightarrow> nat" where
  "hex_digit_value c = (if is_digit c then of_char c - 48 else of_char c - 55)"

fun unquote_plus :: "string \<Rightarrow> string" where
  "unquote_plus [] = []"
| "unquote_plus (c # cs) =
     (if c = CHR ''+'' then CHR '' '' # unquote_plus cs
      else if c = CHR ''%''
      then (case cs of a # b # rest \<Rightarrow> char_of (16 * hex_digit_value a + hex_digit_value b) # unquote_plus rest | _ \<Rightarrow> c # unquote_plus cs)
      else c # unquote_plus cs)"

fun split_at_char :: "char \<Rightarrow> string \<Rightarrow> string list" where
  "split_at_char x [] = [[]]"
| "split_at_char x (c # cs) =
     (if c = x then [] # split_at_char x cs
      else (case split_at_char x cs of [] \<Rightarrow> [[c]] | w # ws \<Rightarrow> (c # w) # ws))"

definition read_pair :: "string \<Rightarrow> string \<times> string" where
  "read_pair s = (unquote_plus (before_char (CHR ''='') s), unquote_plus (after_char (CHR ''='') s))"

definition read_query :: "string \<Rightarrow> (string \<times> string) list" where
  "read_query s = map read_pair (split_at_char (CHR ''&'') s)"

end
