(* ===== verification/AdminConsole.thy ===== *)
theory AdminConsole
  imports AdminTags AlertTheorems "HOL-Library.Multiset"
begin

text \<open>
  The administrators' endpoints over notifications (\<open>api/admin_notifications.py\<close>) and the views of
  members (\<open>api/admin_members.py\<close>).  The check of an address by pydantic is the argument \<open>email_str\<close>, the
  address in its normal form or \<open>None\<close>; the text of a hint stays a name.
\<close>

section \<open>Notifications\<close>

text \<open>The configuration as it is shown: a digest instead of the password.\<close>

record config_view =
  cv_smtp_host :: string
  cv_smtp_port :: int
  cv_smtp_username :: string
  cv_fingerprint :: "string option"
  cv_sender_email :: string
  cv_sender_name :: string
  cv_recipients :: "string list"
  cv_enabled :: bool
  cv_status :: notification_status
  cv_last_test_at :: "timestamp option"
  cv_last_test_outcome :: "notification_outcome option"
  cv_last_test_error :: "string option"
  cv_created_at :: timestamp
  cv_updated_at :: timestamp
  cv_created_by :: string

definition config_view_of :: "env \<Rightarrow> notification_config \<Rightarrow> config_view" where
  "config_view_of e c =
     \<lparr>cv_smtp_host = nc_smtp_host c, cv_smtp_port = nc_smtp_port c,
      cv_smtp_username = nc_smtp_username c, cv_fingerprint = shown_fingerprint e c,
      cv_sender_email = nc_sender_email c, cv_sender_name = nc_sender_name c,
      cv_recipients = nc_recipients c, cv_enabled = nc_enabled c, cv_status = nc_status c,
      cv_last_test_at = nc_last_test_at c, cv_last_test_outcome = nc_last_test_outcome c,
      cv_last_test_error = nc_last_test_error c, cv_created_at = nc_created_at c,
      cv_updated_at = nc_updated_at c, cv_created_by = nc_created_by c\<rparr>"

text \<open>\<open>None\<close> is the empty response 204.\<close>

definition get_notification_config :: "env \<Rightarrow> db \<Rightarrow> config_view option" where
  "get_notification_config e d = map_option (config_view_of e) (notif_cfg d)"

definition notification_config_body :: "(string \<Rightarrow> string option) \<Rightarrow> smtp_input \<Rightarrow> smtp_input option" where
  "notification_config_body email_str i =
     (if si_host i = [] \<or> 255 < length (si_host i) \<or> si_host i \<noteq> strip (si_host i) \<or>
         si_port i < 1 \<or> 65535 < si_port i \<or> si_username i = [] \<or> 255 < length (si_username i) \<or>
         256 < length (si_password i) \<or> 128 < length (si_sender_name i) then None
      else case (email_str (si_sender_email i), those (map email_str (si_recipients i))) of
        (Some sender, Some recipients) \<Rightarrow> Some (i\<lparr>si_sender_email := sender, si_recipients := recipients\<rparr>)
      | _ \<Rightarrow> None)"

definition put_notification_config ::
  "env \<Rightarrow> (string \<Rightarrow> string option) \<Rightarrow> smtp_input \<Rightarrow> db \<Rightarrow> config_view http" where
  "put_notification_config e email_str i d =
     (case notification_config_body email_str i of
        None \<Rightarrow> failed d 422 ''validation'' d
      | Some body \<Rightarrow>
          (case save_notification_config e body None d of
             (Inl err, d1) \<Rightarrow> failed d 400 ''validation_error'' d1
           | (Inr c, d1) \<Rightarrow> (Inr (config_view_of e c), d1)))"

definition delete_config_endpoint :: "db \<Rightarrow> db" where
  "delete_config_endpoint d = snd (delete_notification_config d)"

fun outcome_text :: "notification_outcome \<Rightarrow> string" where
  "outcome_text n_sent = ''sent''"
| "outcome_text n_suppressed = ''suppressed''"
| "outcome_text n_skipped_disabled = ''skipped_disabled''"
| "outcome_text n_skipped_no_recipients = ''skipped_no_recipients''"
| "outcome_text n_send_failed_auth = ''send_failed_auth''"
| "outcome_text n_send_failed_connect = ''send_failed_connect''"
| "outcome_text n_send_failed_sender = ''send_failed_sender''"
| "outcome_text n_send_failed_all_recipients = ''send_failed_all_recipients''"
| "outcome_text n_send_failed_unknown = ''send_failed_unknown''"
| "outcome_text n_test_sent = ''test_sent''"
| "outcome_text n_test_failed_auth = ''test_failed_auth''"
| "outcome_text n_test_failed_connect = ''test_failed_connect''"
| "outcome_text n_test_failed_sender = ''test_failed_sender''"
| "outcome_text n_test_failed_recipient = ''test_failed_recipient''"
| "outcome_text n_test_failed_unknown = ''test_failed_unknown''"

text \<open>Which hint goes with an outcome: the first of the keys that occurs in it.\<close>

definition outcome_hint :: "string \<Rightarrow> string" where
  "outcome_hint outcome =
     (if outcome = ''test_sent'' then ''sent''
      else case find (\<lambda>k. occurs_in k outcome) [''auth'', ''connect'', ''sender'', ''recipient'', ''unknown''] of
        None \<Rightarrow> ''unknown'' | Some k \<Rightarrow> k)"

definition api_outcome :: "string \<Rightarrow> string" where
  "api_outcome outcome =
     (if outcome = ''test_sent'' then ''success''
      else if starts_with ''test_failed_'' outcome then ''send_failed_'' @ drop 12 outcome else outcome)"

definition post_test_send ::
  "env \<Rightarrow> (string \<Rightarrow> string option) \<Rightarrow> mailer \<Rightarrow> string \<Rightarrow> db \<Rightarrow> (string \<times> string \<times> int option \<times> int) http" where
  "post_test_send e email_str m to_addr d =
     (case email_str to_addr of
        None \<Rightarrow> failed d 422 ''validation'' d
      | Some addr \<Rightarrow>
          if notif_cfg d = None then failed d 400 ''no_config'' d
          else case test_send e m addr d of
            (None, d1) \<Rightarrow> failed d 400 ''no_config'' d1
          | (Some (out, code), d1) \<Rightarrow>
              (Inr (api_outcome (outcome_text out), outcome_hint (outcome_text out), code, latency m), d1))"

definition all_outcomes :: "notification_outcome list" where
  "all_outcomes =
     [n_sent, n_suppressed, n_skipped_disabled, n_skipped_no_recipients, n_send_failed_auth,
      n_send_failed_connect, n_send_failed_sender, n_send_failed_all_recipients, n_send_failed_unknown,
      n_test_sent, n_test_failed_auth, n_test_failed_connect, n_test_failed_sender,
      n_test_failed_recipient, n_test_failed_unknown]"

text \<open>An outcome that does not exist selects nothing.\<close>

definition get_history ::
  "(timestamp \<times> string \<Rightarrow> string) \<Rightarrow> (string \<Rightarrow> (timestamp \<times> string) option) \<Rightarrow> int \<Rightarrow> string option \<Rightarrow> string option
     \<Rightarrow> string option \<Rightarrow> db \<Rightarrow> ((notification_record \<times> nat option) list \<times> string option) http" where
  "get_history encode decode limit cursor event_type outcome d =
     (if limit < 1 \<or> 200 < limit then failed d 422 ''validation'' d
      else if \<not> nonempty_text outcome
      then (Inr (list_notifications encode decode (nat limit) cursor event_type None d), d)
      else case find (\<lambda>x. outcome_text x = the outcome) all_outcomes of
        None \<Rightarrow> (Inr ([], None), d)
      | Some x \<Rightarrow> (Inr (list_notifications encode decode (nat limit) cursor event_type (Some x) d), d))"

section \<open>Views of members\<close>

record member_admin =
  ma_id :: string
  ma_email :: string
  ma_provider :: member_provider
  ma_external_id :: "string option"
  ma_display_name :: string
  ma_status :: member_status
  ma_created_at :: timestamp
  ma_disabled_at :: "timestamp option"
  ma_created_by :: string
  ma_has_password :: bool
  ma_is_admin :: bool

definition member_admin_of :: "member \<Rightarrow> member_admin" where
  "member_admin_of m =
     \<lparr>ma_id = m_id m, ma_email = m_email m, ma_provider = m_provider m,
      ma_external_id = m_external_id m, ma_display_name = m_display_name m,
      ma_status = m_status m, ma_created_at = m_created_at m, ma_disabled_at = m_disabled_at m,
      ma_created_by = m_created_by m, ma_has_password = (m_password_hash m \<noteq> None),
      ma_is_admin = m_is_admin m\<rparr>"

definition get_member_endpoint :: "string \<Rightarrow> db \<Rightarrow> member_admin http" where
  "get_member_endpoint mid d =
     (case get_member mid d of
        None \<Rightarrow> failed d 404 ''not_found'' d | Some m \<Rightarrow> (Inr (member_admin_of m), d))"

text \<open>The members with their tags, which are read by one query.\<close>

definition tags_by_member :: "string list \<Rightarrow> db \<Rightarrow> string \<Rightarrow> string list" where
  "tags_by_member ids d mid =
     map mt_tag (filter (\<lambda>t. mt_member_id t = mid)
       (sort_key mt_tag (filter (\<lambda>t. mt_member_id t \<in> set ids) (member_tags d))))"

definition list_members_endpoint ::
  "member_provider option \<Rightarrow> member_status option \<Rightarrow> string option \<Rightarrow> db \<Rightarrow> (member_admin \<times> string list) list" where
  "list_members_endpoint provider status q d =
     (let ms = list_members provider status q d; tags = tags_by_member (map m_id ms) d
      in map (\<lambda>m. (member_admin_of m, tags (m_id m))) ms)"

text \<open>The address of the invitation in the answer to a creation.\<close>

definition invitation_url :: "string \<Rightarrow> string \<Rightarrow> string" where
  "invitation_url base_url plaintext =
     rev (dropWhile (\<lambda>c. c = CHR ''/'') (rev base_url)) @ ''/auth/invitation/'' @ plaintext"

section \<open>What they show\<close>

lemma map_sort_key: "map f (sort_key f xs) = sort (map f xs)"
  by (rule properties_for_sort [symmetric]) simp_all

text \<open>The tags shown of a member are those the member has, in order.\<close>

lemma shown_tags:
  assumes "(v, tags) \<in> set (list_members_endpoint provider status q d)"
  shows "tags = list_for_member (ma_id v) d"
proof -
  from assms obtain m where m: "m \<in> set (list_members provider status q d)" "ma_id v = m_id m"
      "tags = tags_by_member (map m_id (list_members provider status q d)) d (m_id m)"
    by (auto simp: list_members_endpoint_def Let_def member_admin_of_def)
  have "filter (\<lambda>t. mt_member_id t = m_id m) (filter (\<lambda>t. mt_member_id t \<in> set (map m_id (list_members provider status q d))) (member_tags d)) =
      filter (\<lambda>t. mt_member_id t = m_id m) (member_tags d)"
    unfolding filter_filter by (rule filter_cong) (use m(1) in auto)
  then show ?thesis
    unfolding m(2,3) tags_by_member_def list_for_member_def filter_sort get_member_tags_def
    by (simp add: map_sort_key)
qed

text \<open>What was saved is what is shown and used: after a successful PUT the page shows the answer;
  a blank password keeps the stored one, and if nothing of the connection changed also the result of
  the last test; any other password is stored so that it decrypts to its characters but the white
  space, and is shown by their digest only.\<close>

theorem saved_config_is_used:
  assumes "put_notification_config e email_str i d = (Inr view, d')"
    and "\<And>k s. decrypt e (encrypt e k s) = Some s"
  shows "get_notification_config e d' = Some view \<and>
    (\<exists>c. notif_cfg d' = Some c \<and> nc_smtp_host c = si_host i \<and> nc_smtp_port c = si_port i \<and>
      nc_smtp_username c = si_username i \<and> nc_enabled c = si_enabled i \<and>
      (if normalize_smtp_password (si_password i) = []
       then \<exists>old. notif_cfg d = Some old \<and> nc_smtp_password_encrypted c = nc_smtp_password_encrypted old \<and>
         (nc_smtp_host old = si_host i \<and> nc_smtp_port old = si_port i \<and> nc_smtp_username old = si_username i \<longrightarrow>
            cv_status view = nc_status old \<and> cv_last_test_outcome view = nc_last_test_outcome old)
       else decrypt e (nc_smtp_password_encrypted c) = Some (normalize_smtp_password (si_password i)) \<and>
         cv_fingerprint view = Some (take 12 (sha256_hex e (normalize_smtp_password (si_password i))))))"
proof -
  from assms(1) obtain body c where body: "notification_config_body email_str i = Some body"
    and saved: "save_notification_config e body None d = (Inr c, d')" and view: "view = config_view_of e c"
    by (auto simp: put_notification_config_def failed_def split: option.splits prod.splits sum.splits)
  have same: "si_host body = si_host i" "si_port body = si_port i" "si_username body = si_username i"
    "si_enabled body = si_enabled i" "si_password body = si_password i"
    using body by (auto simp: notification_config_body_def split: option.splits if_splits prod.splits)
  show ?thesis
  proof (cases "normalize_smtp_password (si_password i) = []")
    case True
    then show ?thesis
      using saved unfolding view
      by (auto simp: save_notification_config_def get_notification_config_def config_view_of_def same Let_def
          split: option.splits if_splits)
  next
    case False
    then have "notif_cfg d' = Some c \<and> nc_smtp_password_encrypted c = encrypt e (fresh d) (normalize_smtp_password (si_password i)) \<and>
        nc_smtp_host c = si_host i \<and> nc_smtp_port c = si_port i \<and> nc_smtp_username c = si_username i \<and> nc_enabled c = si_enabled i"
      using saved by (auto simp: save_notification_config_def same Let_def split: option.splits if_splits)
    with False assms(2) show ?thesis
      unfolding view by (simp add: get_notification_config_def config_view_of_def shown_fingerprint_def)
  qed
qed

definition sample_smtp :: smtp_input where
  "sample_smtp = \<lparr>si_host = ''smtp.example.org'', si_port = 587, si_username = ''bot'', si_password = ''abcd efgh'',
     si_sender_email = ''bot@example.org'', si_sender_name = [], si_recipients = [''ann@example.org''], si_enabled = True\<rparr>"

theorem saved_config_is_used_witness:
  "\<exists>c. notif_cfg (snd (put_notification_config sample_env Some sample_smtp empty_db)) = Some c \<and>
     decrypt sample_env (nc_smtp_password_encrypted c) = Some ''abcdefgh''"
proof -
  have ok: "case fst (put_notification_config sample_env Some sample_smtp empty_db) of Inr v \<Rightarrow> True | _ \<Rightarrow> False"
    by code_simp
  then obtain view d' where run: "put_notification_config sample_env Some sample_smtp empty_db = (Inr view, d')"
    by (cases "put_notification_config sample_env Some sample_smtp empty_db") (auto split: sum.splits)
  have fernet: "decrypt sample_env (encrypt sample_env k s) = Some s" for k s by (simp add: sample_env_def)
  have "normalize_smtp_password (si_password sample_smtp) = ''abcdefgh''" by code_simp
  with saved_config_is_used [OF run fernet] show ?thesis by (auto simp: run)
qed

end
