(* ===== verification/RealtimeConnect.thy ===== *)
theory RealtimeConnect
  imports Realtime PyDecimal
begin

text \<open>
  The connection to the upstream of a live transcription (the second half of \<open>proxy/upstream.py\<close>): the
  headers that carry the key, the explanation of a refused handshake and the smoke test of an
  administrator.  The WebSocket library is the argument \<open>connect\<close>, which answers with a socket, here
  what its first \<open>recv\<close> does, or raises.
\<close>

section \<open>A refused handshake\<close>

text \<open>The attributes that the exceptions of the library may have; the body is the text decoded from UTF-8.\<close>

record handshake_exc =
  he_response :: "(int option \<times> string) option"
  he_status_code :: "int option"
  he_text :: string

text \<open>A status of zero counts as none.\<close>

definition reject_status :: "handshake_exc \<Rightarrow> int option" where
  "reject_status x =
     (case (case he_response x of None \<Rightarrow> None | Some r \<Rightarrow> fst r) of
        None \<Rightarrow> he_status_code x
      | Some n \<Rightarrow> if n = 0 then he_status_code x else Some n)"

definition em_dash :: string where
  "em_dash = [CHR 0xE2, CHR 0x80, CHR 0x94]"

definition realtime_reject_detail :: "handshake_exc \<Rightarrow> string option" where
  "realtime_reject_detail x =
     map_option (\<lambda>n.
         (let text = (case he_response x of None \<Rightarrow> [] | Some r \<Rightarrow> take 400 (strip (snd r)))
          in ''upstream realtime handshake rejected: HTTP '' @ int_text n @
             (if text = [] then [] else '' '' @ em_dash @ '' '' @ text)))
       (reject_status x)"

section \<open>The connection\<close>

definition realtime_headers :: "string \<Rightarrow> string \<Rightarrow> (string \<times> string) list" where
  "realtime_headers provider api_key =
     (if provider = ''openai'' then [(''Authorization'', ''Bearer '' @ api_key)] else [(''api-key'', api_key)])"

text \<open>A \<open>RuntimeError\<close> with its text, or the exception of the library.\<close>

datatype connect_error = HandshakeRejected string | ConnectFailed handshake_exc

definition open_realtime_ws ::
  "(string \<Rightarrow> (string \<times> string) list \<Rightarrow> handshake_exc + 'ws) \<Rightarrow> string \<Rightarrow> string \<Rightarrow> string \<Rightarrow> string option
     \<Rightarrow> connect_error + 'ws" where
  "open_realtime_ws connect version provider api_key api_base =
     (case connect (build_realtime_url version api_base provider) (realtime_headers provider api_key) of
        Inr ws \<Rightarrow> Inr ws
      | Inl x \<Rightarrow> (case realtime_reject_detail x of
           Some detail \<Rightarrow> Inl (HandshakeRejected detail) | None \<Rightarrow> Inl (ConnectFailed x)))"

section \<open>The smoke test\<close>

text \<open>What \<open>recv\<close> does within the time limit; a text is given with the object that \<open>json.loads\<close> makes of it,
  or \<open>None\<close> when that raises or is no object.  A \<open>RuntimeError\<close> about an error event names its message.\<close>

datatype first_frame = TextFrame "(string \<times> json) list option" | BinaryFrame | NoFrame | SocketFailed

datatype smoke_result = SmokeOk json | SmokeRefused connect_error | SmokeError json | SmokeTimeout | SmokeRaised

definition smoke_event :: "(string \<times> json) list \<Rightarrow> smoke_result" where
  "smoke_event ev =
     (if jget ev ''type'' = JStr ''error''
      then (case obj_or_empty (jget ev ''error'') of
              None \<Rightarrow> SmokeRaised
            | Some err \<Rightarrow>
                (let msg = jget err ''message''
                 in SmokeError (if truthy msg then msg else JStr ''(no message)'')))
      else SmokeOk (jget ev ''type''))"

definition realtime_smoke ::
  "(string \<Rightarrow> (string \<times> string) list \<Rightarrow> handshake_exc + first_frame) \<Rightarrow> string \<Rightarrow> string \<Rightarrow> string \<Rightarrow> string option
     \<Rightarrow> smoke_result" where
  "realtime_smoke connect version model api_key api_base =
     (let provider = (if CHR ''/'' \<in> set model then before_char (CHR ''/'') model else ''azure'')
      in case open_realtime_ws connect version provider api_key api_base of
           Inl err \<Rightarrow> SmokeRefused err
         | Inr NoFrame \<Rightarrow> SmokeTimeout
         | Inr SocketFailed \<Rightarrow> SmokeRaised
         | Inr BinaryFrame \<Rightarrow> smoke_event []
         | Inr (TextFrame None) \<Rightarrow> SmokeRaised
         | Inr (TextFrame (Some ev)) \<Rightarrow> smoke_event ev)"

end
