(* ===== verification/SubjectMigration.thy ===== *)
theory SubjectMigration
  imports PricingTheorems
begin

text \<open>
  The first migration that rewrites rows, \<open>alembic/versions/0002_auth_membership.py\<close>: an allocation had a
  subject, a text, and gets a member, one per distinct subject, without a password.  The order of
  \<open>SELECT DISTINCT\<close> is left open by SQL; here it is that of the first rows.  A \<open>None\<close> is the violation of
  the unique index on the members' addresses.
\<close>

section \<open>The shapes\<close>

record allocation_01 =
  a01_id :: string
  a01_subject :: string
  a01_resource_model :: string
  a01_status :: string
  a01_created_at :: timestamp
  a01_revoked_at :: "timestamp option"
  a01_created_by :: string
  a01_note :: "string option"

record allocation_02 =
  a02_id :: string
  a02_member_id :: string
  a02_subject_snapshot :: string
  a02_resource_model :: string
  a02_status :: string
  a02_created_at :: timestamp
  a02_revoked_at :: "timestamp option"
  a02_created_by :: string
  a02_note :: "string option"

section \<open>Up\<close>

text \<open>The column \<open>is_admin\<close> comes with a later migration, false for the rows that exist.\<close>

definition subject_member :: "timestamp \<Rightarrow> string \<Rightarrow> string \<Rightarrow> member" where
  "subject_member t mid subject =
     \<lparr>m_id = mid, m_email = lower subject, m_provider = external, m_external_id = Some subject,
      m_display_name = subject, m_status = member_active, m_password_hash = None, m_created_at = t,
      m_disabled_at = None, m_created_by = ''migration_0002'', m_is_admin = False\<rparr>"

text \<open>The dictionary from subjects to the ids drawn for them.\<close>

definition subject_to_member :: "(nat \<Rightarrow> string) \<Rightarrow> allocation_01 list \<Rightarrow> (string \<times> string) list" where
  "subject_to_member ids rows =
     (let subjects = dedupe (map a01_subject rows) in zip subjects (map ids [0 ..< length subjects]))"

definition owned_allocation :: "(string \<times> string) list \<Rightarrow> allocation_01 \<Rightarrow> allocation_02 option" where
  "owned_allocation owners a =
     map_option (\<lambda>mid. \<lparr>a02_id = a01_id a, a02_member_id = mid, a02_subject_snapshot = a01_subject a,
         a02_resource_model = a01_resource_model a, a02_status = a01_status a,
         a02_created_at = a01_created_at a, a02_revoked_at = a01_revoked_at a,
         a02_created_by = a01_created_by a, a02_note = a01_note a\<rparr>)
       (map_of owners (a01_subject a))"

text \<open>\<open>member_id\<close> may not stay empty.\<close>

definition upgrade_0002 ::
  "timestamp \<Rightarrow> (nat \<Rightarrow> string) \<Rightarrow> allocation_01 list \<Rightarrow> (member list \<times> allocation_02 list) option" where
  "upgrade_0002 t ids rows =
     (let owners = subject_to_member ids rows;
          ms = map (\<lambda>(subject, mid). subject_member t mid subject) owners
      in if distinct (map m_email ms)
         then map_option (Pair ms) (those (map (owned_allocation owners) rows)) else None)"

section \<open>Down\<close>

text \<open>The tables of members and logins are dropped.\<close>

definition subject_again :: "allocation_02 \<Rightarrow> allocation_01" where
  "subject_again a =
     \<lparr>a01_id = a02_id a, a01_subject = a02_subject_snapshot a,
      a01_resource_model = a02_resource_model a, a01_status = a02_status a,
      a01_created_at = a02_created_at a, a01_revoked_at = a02_revoked_at a,
      a01_created_by = a02_created_by a, a01_note = a02_note a\<rparr>"

definition downgrade_0002 :: "allocation_02 list \<Rightarrow> allocation_01 list" where
  "downgrade_0002 as = map subject_again as"

section \<open>What they do\<close>

lemma owners_fst: "map fst (subject_to_member ids rows) = dedupe (map a01_subject rows)"
  by (simp add: subject_to_member_def Let_def)

lemma those_all:
  assumes "\<And>x. x \<in> set xs \<Longrightarrow> f x \<noteq> None"
  obtains ys where "those (map f xs) = Some ys" "list_all2 (\<lambda>x y. f x = Some y) xs ys"
  using assms
proof (induction xs arbitrary: thesis)
  case (Cons x xs)
  from Cons.prems(2) [of x] obtain y where "f x = Some y" by auto
  moreover obtain ys where "those (map f xs) = Some ys" "list_all2 (\<lambda>x y. f x = Some y) xs ys"
    using Cons.IH Cons.prems(2) by (metis list.set_intros(2))
  ultimately show ?case using Cons.prems(1) [of "y # ys"] by simp
qed simp

lemma owned_rows:
  obtains as where "those (map (owned_allocation (subject_to_member ids rows)) rows) = Some as"
    "list_all2 (\<lambda>a b. owned_allocation (subject_to_member ids rows) a = Some b) rows as"
proof -
  have "owned_allocation (subject_to_member ids rows) a \<noteq> None" if "a \<in> set rows" for a
  proof -
    have "a01_subject a \<in> fst ` set (subject_to_member ids rows)"
      using that unfolding set_map [symmetric] owners_fst by simp
    then show ?thesis by (auto simp: owned_allocation_def map_of_eq_None_iff)
  qed
  from those_all [where f = "owned_allocation (subject_to_member ids rows)", OF this] that show thesis by metis
qed

lemma emails_distinct:
  "distinct (map m_email (map (\<lambda>(subject, mid). subject_member t mid subject) (subject_to_member ids rows))) \<longleftrightarrow>
     inj_on lower (a01_subject ` set rows)"
proof -
  have "map m_email (map (\<lambda>(subject, mid). subject_member t mid subject) (subject_to_member ids rows)) =
      map lower (map fst (subject_to_member ids rows))"
    unfolding map_map by (rule map_cong) (auto simp: subject_member_def)
  then show ?thesis unfolding owners_fst by (simp add: distinct_map distinct_dedupe)
qed

text \<open>The upgrade fails exactly if two subjects differ in nothing but the case of their letters.  Otherwise every
  allocation belongs to an active external member without a password who has its subject as external
  id, two allocations to the same one exactly if they had the same subject, no two members share an
  address; and the downgrade gives back the rows of before.\<close>

theorem subjects_become_members:
  assumes "distinct (map ids [0 ..< length rows])"
  shows "if inj_on lower (a01_subject ` set rows)
    then \<exists>ms as. upgrade_0002 t ids rows = Some (ms, as) \<and> downgrade_0002 as = rows \<and> distinct (map m_email ms) \<and>
      (\<forall>a \<in> set as. \<exists>m \<in> set ms. a02_member_id a = m_id m \<and> m_external_id m = Some (a02_subject_snapshot a) \<and>
         m_provider m = external \<and> m_password_hash m = None) \<and>
      (\<forall>a \<in> set as. \<forall>b \<in> set as. a02_member_id a = a02_member_id b \<longleftrightarrow> a02_subject_snapshot a = a02_subject_snapshot b)
    else upgrade_0002 t ids rows = None"
proof (cases "inj_on lower (a01_subject ` set rows)")
  case True
  let ?owners = "subject_to_member ids rows"
  let ?ms = "map (\<lambda>(subject, mid). subject_member t mid subject) ?owners"
  obtain as where as: "those (map (owned_allocation ?owners) rows) = Some as"
    "list_all2 (\<lambda>a b. owned_allocation ?owners a = Some b) rows as"
    by (rule owned_rows)
  have up: "upgrade_0002 t ids rows = Some (?ms, as)" and em: "distinct (map m_email ?ms)"
    using True emails_distinct [of t ids rows] as(1) by (simp_all add: upgrade_0002_def Let_def)
  have "map subject_again as = rows"
    using as(2) by (induction rows as rule: list_all2_induct) (auto simp: owned_allocation_def subject_again_def)
  then have down: "downgrade_0002 as = rows" by (simp add: downgrade_0002_def)
  have owner: "(a02_subject_snapshot b, a02_member_id b) \<in> set ?owners" if "b \<in> set as" for b
  proof -
    from that obtain i where "i < length as" "b = as ! i" by (metis in_set_conv_nth)
    with list_all2_nthD2 [OF as(2)] obtain a where "owned_allocation ?owners a = Some b" by blast
    then show ?thesis by (auto simp: owned_allocation_def dest: map_of_SomeD)
  qed
  have "length (dedupe (map a01_subject rows)) \<le> length rows"
    using distinct_card [OF distinct_dedupe [of "map a01_subject rows"]] card_length [of "map a01_subject rows"] by simp
  then have "distinct (map ids [0 ..< length (dedupe (map a01_subject rows))])"
    using assms by (auto simp: distinct_map inj_on_def)
  then have snd_distinct: "distinct (map snd ?owners)" by (simp add: subject_to_member_def Let_def)
  have fst_distinct: "distinct (map fst ?owners)" by (simp add: owners_fst distinct_dedupe)
  have same: "a02_member_id a = a02_member_id b \<longleftrightarrow> a02_subject_snapshot a = a02_subject_snapshot b"
    if "a \<in> set as" "b \<in> set as" for a b
    using distinct_map_eqD [OF snd_distinct owner [OF that(1)] owner [OF that(2)]]
      distinct_map_eqD [OF fst_distinct owner [OF that(1)] owner [OF that(2)]] by auto
  have "\<exists>m \<in> set ?ms. a02_member_id a = m_id m \<and> m_external_id m = Some (a02_subject_snapshot a) \<and>
      m_provider m = external \<and> m_password_hash m = None" if "a \<in> set as" for a
    using owner [OF that] by (intro bexI [of _ "subject_member t (a02_member_id a) (a02_subject_snapshot a)"])
      (force simp: subject_member_def)+
  with True up down em same show ?thesis by auto
next
  case False
  with emails_distinct [of t ids rows] show ?thesis by (simp add: upgrade_0002_def Let_def)
qed

definition old_allocation :: "string \<Rightarrow> string \<Rightarrow> allocation_01" where
  "old_allocation aid subject =
     \<lparr>a01_id = aid, a01_subject = subject, a01_resource_model = ''gpt-4o'', a01_status = ''active'',
      a01_created_at = 5, a01_revoked_at = None, a01_created_by = ''admin'', a01_note = None\<rparr>"

theorem subjects_become_members_witness:
  "\<exists>ms as. upgrade_0002 7 (ulid sample_env) [old_allocation ''a'' ''Lab'', old_allocation ''b'' ''Ann'', old_allocation ''c'' ''Lab''] =
     Some (ms, as) \<and> downgrade_0002 as = [old_allocation ''a'' ''Lab'', old_allocation ''b'' ''Ann'', old_allocation ''c'' ''Lab'']"
proof -
  let ?rows = "[old_allocation ''a'' ''Lab'', old_allocation ''b'' ''Ann'', old_allocation ''c'' ''Lab'']"
  have ids: "distinct (map (ulid sample_env) [0 ..< length ?rows])" by code_simp
  have "lower ''Lab'' \<noteq> lower ''Ann''" by code_simp
  then have "inj_on lower (a01_subject ` set ?rows)" by (auto simp: inj_on_def old_allocation_def)
  with subjects_become_members [OF ids, of 7] show ?thesis by auto
qed

lemma case_stops_the_migration: "upgrade_0002 7 (ulid sample_env) [old_allocation ''a'' ''Ann'', old_allocation ''b'' ''ann''] = None"
  by code_simp

end
