(* ===== verification/Races.thy ===== *)
theory Races
  imports OAuthTheorems MemberTheorems
begin

text \<open>
  Requests that overlap.  The handlers of the gateway are coroutines with a database session each,
  and no query of the two services here locks a row: what a request has read may be outdated when
  it writes.  A request is therefore two turns, the check on the committed rows and the write that
  follows from it, and the requests take their turns in any order, each at its own time.
  (What the second turn reads itself, such as the allocations of a scope, belongs to it; of two
  writes of one row the second waits for the first to commit.)
  The exchange of authorization codes (\<open>services/oauth.py\<close>) is split into these turns and shown to be
  their composition; in every interleaving a key is delivered only for a valid consent and calls
  only what was consented to, but two exchanges of one code that overlap both deliver one.  In the
  same way two administrators who demote each other at once (\<open>services/members.py\<close>) leave none.
\<close>

section \<open>Requests in two turns\<close>

datatype ('q, 'p, 'r) phase = Waiting 'q | Checked 'q 'p | Finished 'q 'r

definition turn ::
  "(int \<Rightarrow> 'q \<Rightarrow> 'd \<Rightarrow> ('r + 'p) \<times> 'd) \<Rightarrow> (int \<Rightarrow> 'p \<Rightarrow> 'd \<Rightarrow> 'r \<times> 'd) \<Rightarrow> nat \<times> int
     \<Rightarrow> ('q, 'p, 'r) phase list \<times> 'd \<Rightarrow> ('q, 'p, 'r) phase list \<times> 'd" where
  "turn check act it s =
     (case it of (i, t) \<Rightarrow> case s of (ps, d) \<Rightarrow>
        if length ps \<le> i then (ps, d)
        else (case ps ! i of
          Waiting q \<Rightarrow>
            (case check t q d of
               (Inl r, d1) \<Rightarrow> (ps[i := Finished q r], d1)
             | (Inr p, d1) \<Rightarrow> (ps[i := Checked q p], d1))
        | Checked q p \<Rightarrow> (case act t p d of (r, d1) \<Rightarrow> (ps[i := Finished q r], d1))
        | Finished q r \<Rightarrow> (ps, d)))"

definition run_turns ::
  "(int \<Rightarrow> 'q \<Rightarrow> 'd \<Rightarrow> ('r + 'p) \<times> 'd) \<Rightarrow> (int \<Rightarrow> 'p \<Rightarrow> 'd \<Rightarrow> 'r \<times> 'd) \<Rightarrow> (nat \<times> int) list
     \<Rightarrow> ('q, 'p, 'r) phase list \<times> 'd \<Rightarrow> ('q, 'p, 'r) phase list \<times> 'd" where
  "run_turns check act schedule s = fold (turn check act) schedule s"

lemma run_turns_simps [simp]:
  "run_turns check act [] s = s"
  "run_turns check act (it # schedule) s = run_turns check act schedule (turn check act it s)"
  by (simp_all add: run_turns_def)

text \<open>The contract of such an operation: \<open>ok\<close> holds between turns, \<open>fits q p\<close> says what the check of
  \<open>q\<close> has established and no other turn may spoil, \<open>holds q r\<close> what its result promises.\<close>

locale checked_writes =
  fixes check :: "int \<Rightarrow> 'q \<Rightarrow> 'd \<Rightarrow> ('r + 'p) \<times> 'd" and act :: "int \<Rightarrow> 'p \<Rightarrow> 'd \<Rightarrow> 'r \<times> 'd"
    and ok :: "'d \<Rightarrow> bool" and fits :: "'q \<Rightarrow> 'p \<Rightarrow> bool" and holds :: "'q \<Rightarrow> 'r \<Rightarrow> 'd \<Rightarrow> bool"
  assumes check_ok: "ok d \<Longrightarrow> ok (snd (check t q d))"
    and check_frame: "ok d \<Longrightarrow> holds q' r d \<Longrightarrow> holds q' r (snd (check t q d))"
    and check_refuses: "ok d \<Longrightarrow> check t q d = (Inl r, d1) \<Longrightarrow> holds q r d1"
    and check_fits: "ok d \<Longrightarrow> check t q d = (Inr p, d1) \<Longrightarrow> fits q p"
    and act_ok: "ok d \<Longrightarrow> fits q p \<Longrightarrow> ok (snd (act t p d))"
    and act_frame: "ok d \<Longrightarrow> fits q p \<Longrightarrow> holds q' r d \<Longrightarrow> holds q' r (snd (act t p d))"
    and act_holds: "ok d \<Longrightarrow> fits q p \<Longrightarrow> act t p d = (r, d1) \<Longrightarrow> holds q r d1"
begin

fun phase_ok :: "'d \<Rightarrow> ('q, 'p, 'r) phase \<Rightarrow> bool" where
  "phase_ok d (Waiting q) = True"
| "phase_ok d (Checked q p) = fits q p"
| "phase_ok d (Finished q r) = holds q r d"

definition settled :: "('q, 'p, 'r) phase list \<times> 'd \<Rightarrow> bool" where
  "settled s \<longleftrightarrow> ok (snd s) \<and> (\<forall>x \<in> set (fst s). phase_ok (snd s) x)"

lemma phases_check: "ok d \<Longrightarrow> phase_ok d x \<Longrightarrow> phase_ok (snd (check t q d)) x"
  by (cases x) (simp_all add: check_frame)

lemma phases_act: "ok d \<Longrightarrow> fits q p \<Longrightarrow> phase_ok d x \<Longrightarrow> phase_ok (snd (act t p d)) x"
  by (cases x) (simp_all add: act_frame)

lemma settled_update:
  assumes "ok d" "phase_ok d x" "\<forall>y \<in> set ps. phase_ok d y"
  shows "settled (ps[i := x], d)"
  using assms set_update_subset_insert [of ps i x] by (auto simp: settled_def)

lemma settled_turn:
  assumes "settled (ps, d)"
  shows "settled (turn check act (i, t) (ps, d))"
proof (cases "i < length ps")
  case True
  have d: "ok d" and ps: "\<forall>x \<in> set ps. phase_ok d x" using assms by (simp_all add: settled_def)
  show ?thesis
  proof (cases "ps ! i")
    case (Waiting q)
    obtain x d1 where run: "check t q d = (x, d1)" by (cases "check t q d")
    have rest: "ok d1" "\<forall>x \<in> set ps. phase_ok d1 x"
      using check_ok [OF d, of t q] phases_check [OF d, of _ t q] ps run by simp_all
    show ?thesis
      using True Waiting run check_refuses [OF d, of t q] check_fits [OF d, of t q]
      by (cases x) (simp_all add: turn_def settled_update rest)
  next
    case (Checked q p)
    with True ps have fit: "fits q p" by (metis nth_mem phase_ok.simps(2))
    obtain r d1 where run: "act t p d = (r, d1)" by (cases "act t p d")
    have rest: "ok d1" "\<forall>x \<in> set ps. phase_ok d1 x"
      using act_ok [OF d fit, of t] phases_act [OF d fit, of _ t] ps run by simp_all
    show ?thesis
      using True Checked run act_holds [OF d fit run] by (simp add: turn_def settled_update rest)
  next
    case (Finished q r)
    with True assms show ?thesis by (simp add: turn_def)
  qed
next
  case False
  with assms show ?thesis by (simp add: turn_def)
qed

lemma settled_run: "settled s \<Longrightarrow> settled (run_turns check act schedule s)"
proof (induction schedule arbitrary: s)
  case (Cons it schedule)
  then show ?case using settled_turn by (cases it, cases s) simp
qed simp

lemma promise_kept:
  assumes "ok d" "run_turns check act schedule (map Waiting qs, d) = (ps, d')"
  shows "ok d'" "Finished q r \<in> set ps \<Longrightarrow> holds q r d'"
proof -
  have "settled (map Waiting qs, d)" using assms(1) by (auto simp: settled_def)
  from settled_run [OF this, of schedule] have "settled (ps, d')" by (simp add: assms(2))
  then show "ok d'" "Finished q r \<in> set ps \<Longrightarrow> holds q r d'" by (auto simp: settled_def)
qed

end

text \<open>A request whose two turns are taken in a row.\<close>

lemma turns_in_a_row:
  assumes "i < length ps" "ps ! i = Waiting q"
  shows "run_turns check act [(i, t), (i, t)] (ps, d) =
    (case check t q d of
       (Inl r, d1) \<Rightarrow> (ps[i := Finished q r], d1)
     | (Inr p, d1) \<Rightarrow> (case act t p d1 of (r, d2) \<Rightarrow> (ps[i := Finished q r], d2)))"
  using assms by (auto simp: turn_def split: sum.splits prod.splits)

section \<open>The exchange of authorization codes\<close>

record exchange_request =
  er_code :: string
  er_redirect_uri :: string
  er_code_verifier :: string

definition exchange_check ::
  "env \<Rightarrow> exchange_request \<Rightarrow> db
     \<Rightarrow> ((oauth_error + credential \<times> generated_token \<times> oauth_authorization) + oauth_authorization) \<times> db" where
  "exchange_check e q d =
     (case by_code (er_code q) d of
        None \<Rightarrow> (Inl (Inl (OAuthError ''invalid_grant'')), d)
      | Some row \<Rightarrow>
          if o_status row \<noteq> oauth_approved then (Inl (Inl (OAuthError ''invalid_grant'')), d)
          else if o_expires_at row \<le> now e
          then (Inl (Inl (OAuthError ''invalid_grant'')),
                set_authorization (o_id row) (\<lambda>r. r\<lparr>o_status := oauth_expired\<rparr>) d)
          else if er_redirect_uri q \<noteq> o_redirect_uri row then (Inl (Inl (OAuthError ''invalid_grant'')), d)
          else if \<not> verify_pkce_s256 e (er_code_verifier q) (o_code_challenge row)
          then (Inl (Inl (OAuthError ''invalid_grant'')), d)
          else if get_member (o_member_id row) d = None then (Inl (Inl (OAuthError ''invalid_grant'')), d)
          else (Inr row, d))"

definition exchange_grant ::
  "env \<Rightarrow> oauth_authorization \<Rightarrow> db
     \<Rightarrow> (oauth_error + credential \<times> generated_token \<times> oauth_authorization) \<times> db" where
  "exchange_grant e row d =
     (case create_member_credential e (o_member_id row) (o_client_name row)
             (list_or_empty (o_allocation_ids row)) d of
        (Inl err, d1) \<Rightarrow> (Inl (OAuthScope err), d1)
      | (Inr (c, tok), d1) \<Rightarrow>
          (let f = (\<lambda>r. r\<lparr>o_status := oauth_consumed, o_consumed_at := Some (now e),
                         o_credential_id := Some (c_id c)\<rparr>)
           in (Inr (c, tok, f row), set_authorization (o_id row) f d1)))"

lemma exchange_in_two_turns:
  "exchange e code uri verifier d =
     (case exchange_check e \<lparr>er_code = code, er_redirect_uri = uri, er_code_verifier = verifier\<rparr> d of
        (Inl r, d1) \<Rightarrow> (r, d1)
      | (Inr row, d1) \<Rightarrow> exchange_grant e row d1)"
  by (auto simp: exchange_def exchange_check_def exchange_grant_def split: option.split)

definition exchange_race ::
  "env \<Rightarrow> (nat \<times> int) list
     \<Rightarrow> (exchange_request, oauth_authorization, oauth_error + credential \<times> generated_token \<times> oauth_authorization)
          phase list \<times> db
     \<Rightarrow> (exchange_request, oauth_authorization, oauth_error + credential \<times> generated_token \<times> oauth_authorization)
          phase list \<times> db" where
  "exchange_race e = run_turns (\<lambda>t. exchange_check (at_time e t)) (\<lambda>t. exchange_grant (at_time e t))"

text \<open>A new key does not touch the keys there are.\<close>

lemma create_key_others:
  assumes ok: "env_ok e" and wf: "scope_wf e d" and c0: "c0 \<in> set (credentials d)"
    and run: "create_member_credential e mid name aids d = (Inr (c, tok), d')"
  shows "c0 \<in> set (credentials d')" "scope_of d' c0 = scope_of d c0" "fresh d < fresh d'"
proof -
  from create_key_runs [OF run] obtain allocs
    where d': "d' = add_links (c_id c) allocs (add_credential_row c (tick (tick d)))" by metis
  have "c_id c0 \<noteq> c_id c"
    using wf c0 not_drawn_later [OF ok, of "fresh d" "Suc (fresh d)"]
    by (auto simp: create_key_row(7) [OF run] scope_wf_def keys_wf_def)
  then show "scope_of d' c0 = scope_of d c0"
    by (auto simp: scope_of_def d' add_links_def add_credential_row_def)
  show "c0 \<in> set (credentials d')" "fresh d < fresh d'"
    using c0 by (simp_all add: d' add_links_def add_credential_row_def)
qed

text \<open>What the check establishes of a row of the session \<open>d0\<close> at the start, and what a delivered key
  promises.\<close>

definition code_consent :: "env \<Rightarrow> db \<Rightarrow> exchange_request \<Rightarrow> oauth_authorization \<Rightarrow> bool" where
  "code_consent e d0 q row \<longleftrightarrow> row \<in> set (oauth_auths d0) \<and> o_status row = oauth_approved \<and>
     o_code row = Some (er_code q) \<and> er_redirect_uri q = o_redirect_uri row \<and>
     sha256_b64url e (er_code_verifier q) = o_code_challenge row"

definition races_ok :: "env \<Rightarrow> db \<Rightarrow> db \<Rightarrow> bool" where
  "races_ok e d0 d \<longleftrightarrow> env_ok e \<and> scope_wf e d \<and>
     (\<forall>row \<in> set (oauth_auths d). o_status row = oauth_approved \<longrightarrow> row \<in> set (oauth_auths d0))"

fun key_confined ::
  "env \<Rightarrow> db \<Rightarrow> exchange_request \<Rightarrow> oauth_error + credential \<times> generated_token \<times> oauth_authorization
     \<Rightarrow> db \<Rightarrow> bool" where
  "key_confined e d0 q (Inl err) d = True"
| "key_confined e d0 q (Inr (c, tok, spent_row)) d = (\<exists>row. code_consent e d0 q row \<and>
     c \<in> set (credentials d) \<and> c_revoked_at c = None \<and>
     c_token_fingerprint c = fingerprint_for e (g_plaintext tok) \<and>
     (\<forall>a \<in> scope_of d c. a_id a \<in> set (list_or_empty (o_allocation_ids row)) \<and> a_member_id a = o_member_id row))"

lemma races_ok_close:
  assumes "races_ok e d0 d" "\<And>r. o_status (f r) \<noteq> oauth_approved"
  shows "races_ok e d0 (set_authorization oid f d)"
proof -
  have "scope_wf e (set_authorization oid f d)"
    by (rule scope_wf_frame [of e d]) (use assms(1) in \<open>simp_all add: races_ok_def set_authorization_def\<close>)
  with assms show ?thesis by (auto simp: races_ok_def set_authorization_def set_update_where)
qed

lemma scope_of_set_authorization [simp]: "scope_of (set_authorization oid f d) c = scope_of d c"
  by (simp add: scope_of_def set_authorization_def)

lemma confined_set_authorization [simp]:
  "key_confined e d0 q r (set_authorization oid f d) = key_confined e d0 q r d"
  by (cases "(e, d0, q, r, d)" rule: key_confined.cases) (simp_all add: set_authorization_def scope_of_def)

lemma exchange_check_cases:
  obtains (refused) err where "exchange_check e q d = (Inl (Inl err), d)"
    | (expired) err oid where
      "exchange_check e q d = (Inl (Inl err), set_authorization oid (\<lambda>r. r\<lparr>o_status := oauth_expired\<rparr>) d)"
    | (checked) row where "exchange_check e q d = (Inr row, d)" "by_code (er_code q) d = Some row"
      "o_status row = oauth_approved" "er_redirect_uri q = o_redirect_uri row"
      "sha256_b64url e (er_code_verifier q) = o_code_challenge row"
proof -
  have "(\<exists>err. x = Inl (Inl err) \<and> d' = d) \<or>
      (\<exists>err oid. x = Inl (Inl err) \<and> d' = set_authorization oid (\<lambda>r. r\<lparr>o_status := oauth_expired\<rparr>) d) \<or>
      (\<exists>row. x = Inr row \<and> d' = d \<and> by_code (er_code q) d = Some row \<and> o_status row = oauth_approved \<and>
         er_redirect_uri q = o_redirect_uri row \<and> sha256_b64url e (er_code_verifier q) = o_code_challenge row)"
    if "exchange_check e q d = (x, d')" for x d'
    using that by (auto simp: exchange_check_def verify_pkce_s256_def split: option.splits if_splits)
  then show ?thesis using refused expired checked by (metis prod.collapse)
qed

lemma exchange_grant_cases:
  obtains (failed) err where "exchange_grant e row d = (Inl (OAuthScope err), d)"
    | (granted) c tok dk where
      "create_member_credential e (o_member_id row) (o_client_name row) (list_or_empty (o_allocation_ids row)) d =
         (Inr (c, tok), dk)"
      "exchange_grant e row d = (Inr (c, tok, row\<lparr>o_status := oauth_consumed, o_consumed_at := Some (now e),
           o_credential_id := Some (c_id c)\<rparr>),
         set_authorization (o_id row) (\<lambda>r. r\<lparr>o_status := oauth_consumed, o_consumed_at := Some (now e),
           o_credential_id := Some (c_id c)\<rparr>) dk)"
proof (cases "create_member_credential e (o_member_id row) (o_client_name row) (list_or_empty (o_allocation_ids row)) d")
  case (Pair x dk)
  show ?thesis
  proof (cases x)
    case (Inl err)
    with Pair create_key_frame(6) [OF Pair] show ?thesis
      by (intro failed [of err]) (simp add: exchange_grant_def)
  next
    case (Inr k)
    with Pair show ?thesis
      by (cases k) (auto intro!: granted simp: exchange_grant_def)
  qed
qed

lemma confined_mono:
  assumes ok: "env_ok e" and wf: "scope_wf e d"
    and run: "create_member_credential e mid name aids d = (Inr (c, tok), d')"
    and old: "key_confined e0 d0 q r d"
  shows "key_confined e0 d0 q r d'"
  using old create_key_others [OF ok wf _ run]
  by (cases "(e0, d0, q, r, d)" rule: key_confined.cases) auto

lemma races_grant_ok:
  assumes ok: "races_ok e d0 d"
  shows "races_ok e d0 (snd (exchange_grant (at_time e t) row d))"
proof (cases rule: exchange_grant_cases [of "at_time e t" row d])
  case (granted c tok dk)
  have env: "env_ok (at_time e t)" "scope_wf (at_time e t) d" using ok by (simp_all add: races_ok_def)
  have "races_ok e d0 dk"
    using create_key_grants(1) [OF env granted(1)] create_key_frame(3) [OF granted(1)] ok
    by (simp add: races_ok_def)
  from races_ok_close [OF this] show ?thesis by (simp add: granted(2))
qed (use ok in simp)

lemma races_grant_frame:
  assumes ok: "races_ok e d0 d" and old: "key_confined e d0 q r d"
  shows "key_confined e d0 q r (snd (exchange_grant (at_time e t) row d))"
proof (cases rule: exchange_grant_cases [of "at_time e t" row d])
  case (granted c tok dk)
  have "env_ok (at_time e t)" "scope_wf (at_time e t) d" using ok by (simp_all add: races_ok_def)
  from confined_mono [OF this granted(1) old] show ?thesis by (simp add: granted(2))
qed (use old in simp)

lemma races_grant_confined:
  assumes ok: "races_ok e d0 d" and fit: "code_consent e d0 q row"
    and run: "exchange_grant (at_time e t) row d = (r, d1)"
  shows "key_confined e d0 q r d1"
proof (cases rule: exchange_grant_cases [of "at_time e t" row d])
  case (granted c tok dk)
  have env: "env_ok (at_time e t)" "scope_wf (at_time e t) d" using ok by (simp_all add: races_ok_def)
  note k = create_key_row [OF granted(1)] create_key_scope [OF env granted(1)]
  have "key_confined e d0 q (Inr (c, tok, row')) dk" for row'
    using fit k by (auto simp: fingerprint_for_def)
  moreover have "\<exists>row' oid f. r = Inr (c, tok, row') \<and> d1 = set_authorization oid f dk"
    using run by (auto simp: granted(2))
  ultimately show ?thesis by (metis confined_set_authorization)
qed (use run in auto)

interpretation codes: checked_writes "\<lambda>t. exchange_check (at_time e t)" "\<lambda>t. exchange_grant (at_time e t)"
  "races_ok e d0" "code_consent e d0" "key_confined e d0" for e d0
proof
  fix d t q q' r d1 p
  assume ok: "races_ok e d0 d"
  show "races_ok e d0 (snd (exchange_check (at_time e t) q d))"
    using races_ok_close [OF ok, of "\<lambda>r. r\<lparr>o_status := oauth_expired\<rparr>"] ok
    by (cases rule: exchange_check_cases [of "at_time e t" q d]) simp_all
  show "key_confined e d0 q' r (snd (exchange_check (at_time e t) q d))" if "key_confined e d0 q' r d"
    using that by (cases rule: exchange_check_cases [of "at_time e t" q d]) simp_all
  show "key_confined e d0 q r d1" if "exchange_check (at_time e t) q d = (Inl r, d1)"
    using that by (cases rule: exchange_check_cases [of "at_time e t" q d]) auto
  show "code_consent e d0 q p" if "exchange_check (at_time e t) q d = (Inr p, d1)"
    using that ok by_code_mem [of "er_code q" d p]
    by (cases rule: exchange_check_cases [of "at_time e t" q d]) (auto simp: code_consent_def races_ok_def)
qed (use races_grant_ok races_grant_frame races_grant_confined in blast)+

text \<open>C40: In every interleaving of any exchanges, at any times, a key that is delivered belongs to a
  consent which was approved at the start, whose code, redirect and challenge are the request's; at
  the end, whatever was delivered in between, its token calls only allocations of that consent and
  of its member.\<close>

theorem racing_exchanges_confined:
  assumes ok: "env_ok e" and wf: "scope_wf e d"
    and run: "exchange_race e schedule (map Waiting qs, d) = (ps, d')"
    and fin: "Finished q (Inr (c, tok, spent_row)) \<in> set ps"
  shows "\<exists>row \<in> set (oauth_auths d). o_status row = oauth_approved \<and> o_code row = Some (er_code q) \<and>
    o_redirect_uri row = er_redirect_uri q \<and> o_code_challenge row = sha256_b64url e (er_code_verifier q) \<and>
    (\<forall>model a. resolve_bearer e (g_plaintext tok) model d' = Some a \<longrightarrow>
       a_id a \<in> set (list_or_empty (o_allocation_ids row)) \<and> a_member_id a = o_member_id row)"
proof -
  have start: "races_ok e d d" using ok wf by (simp add: races_ok_def)
  note codes.promise_kept [OF start run [unfolded exchange_race_def]]
  from this(1) this(2) [OF fin] have end_ok: "scope_wf e d'" and
    key: "key_confined e d q (Inr (c, tok, spent_row)) d'"
    by (simp_all add: races_ok_def)
  from key obtain row where row: "code_consent e d q row" "c \<in> set (credentials d')" "c_revoked_at c = None"
      "c_token_fingerprint c = fingerprint_for e (g_plaintext tok)"
      "\<forall>a \<in> scope_of d' c. a_id a \<in> set (list_or_empty (o_allocation_ids row)) \<and> a_member_id a = o_member_id row"
    by auto
  have "a \<in> scope_of d' c" if "resolve_bearer e (g_plaintext tok) model d' = Some a" for model a
    using that resolve_grants [OF end_ok row(2)] key_of_in [OF end_ok row(2-4)]
    by (simp add: resolve_bearer_key grants_def)
  with row(1,5) show ?thesis unfolding code_consent_def by metis
qed

text \<open>Two exchanges of one valid code whose checks both come before the first write both deliver a key,
  with different tokens: the code is single use only for requests that do not overlap.\<close>

theorem overlapping_exchanges_both_deliver:
  assumes ok: "env_ok e" and wf: "scope_wf e d"
    and valid: "exchange (at_time e t) code uri verifier d = (Inr (c, tok, spent_row), d1)"
  defines "q \<equiv> \<lparr>er_code = code, er_redirect_uri = uri, er_code_verifier = verifier\<rparr>"
  shows "\<exists>c' tok' spent_row' d'. exchange_race e [(0, t), (1, t), (0, t), (1, t)] ([Waiting q, Waiting q], d) =
      ([Finished q (Inr (c, tok, spent_row)), Finished q (Inr (c', tok', spent_row'))], d') \<and>
    g_plaintext tok' \<noteq> g_plaintext tok"
proof -
  have env: "env_ok (at_time e t)" "scope_wf (at_time e t) d" using ok wf by simp_all
  obtain row where check: "exchange_check (at_time e t) q d = (Inr row, d)"
    and grant: "exchange_grant (at_time e t) row d = (Inr (c, tok, spent_row), d1)"
    using valid unfolding exchange_in_two_turns q_def [symmetric]
    by (cases rule: exchange_check_cases [of "at_time e t" q d]) auto
  obtain dk oid f where made: "create_member_credential (at_time e t) (o_member_id row) (o_client_name row)
      (list_or_empty (o_allocation_ids row)) d = (Inr (c, tok), dk)" and d1: "d1 = set_authorization oid f dk"
    using grant by (cases rule: exchange_grant_cases [of "at_time e t" row d]) auto
  from create_key_runs [OF made] obtain allocs where
    own: "owned_allocations (o_member_id row) (list_or_empty (o_allocation_ids row)) d = Inr allocs"
      "list_or_empty (o_allocation_ids row) \<noteq> []" by metis
  have "allocations d1 = allocations d"
    using create_key_frame(1) [OF made] by (simp add: d1 set_authorization_def)
  from create_key_for_owned [OF _ own(2)] own(1) owned_allocations_cong [OF this]
  obtain c' tok' dk' where made': "create_member_credential (at_time e t) (o_member_id row) (o_client_name row)
      (list_or_empty (o_allocation_ids row)) d1 = (Inr (c', tok'), dk')" by metis
  then obtain spent_row' d' where grant': "exchange_grant (at_time e t) row d1 = (Inr (c', tok', spent_row'), d')"
    by (simp add: exchange_grant_def)
  have "fresh d < fresh d1"
    using made by (auto simp: d1 set_authorization_def elim: create_key_runs
        simp: add_links_def add_credential_row_def)
  then have "g_plaintext tok' \<noteq> g_plaintext tok"
    using ok create_key_row(6) [OF made] create_key_row(6) [OF made'] by (simp add: env_ok_def inj_eq)
  with check grant grant' show ?thesis
    by (simp add: exchange_race_def turn_def)
qed

section \<open>A run\<close>

definition approved_code :: oauth_authorization where
  "approved_code = \<lparr>o_id = ''O'', o_client_name = ''App'', o_redirect_uri = ''https://app.example/cb'',
     o_state = None, o_scope = None, o_code_challenge = CHR ''b'' # sample_verifier, o_member_id = m_id one_owner,
     o_status = oauth_approved, o_allocation_ids = Some [''U00''], o_code = Some ''code'', o_credential_id = None,
     o_created_at = 0, o_expires_at = seconds 120, o_approved_at = Some 0, o_consumed_at = None\<rparr>"

definition approved_db :: db where
  "approved_db = one_grant\<lparr>oauth_auths := [approved_code]\<rparr>"

lemma approved_wf: "scope_wf sample_env approved_db"
  by (rule scope_wf_frame [OF one_grant_wf]) (simp_all add: approved_db_def)

lemma approved_code_exchanged:
  "\<exists>c tok spent_row d1. exchange (at_time sample_env 0) ''code'' ''https://app.example/cb'' sample_verifier
     approved_db = (Inr (c, tok, spent_row), d1)"
proof -
  from one_grant_owned obtain a where "owned_allocations (m_id one_owner) [''U00''] one_grant = Inr [a]"
    unfolding one_grant_owner(2) by blast
  then have own: "owned_allocations (m_id one_owner) [''U00''] approved_db = Inr [a]"
    using owned_allocations_cong [of approved_db one_grant] by (simp add: approved_db_def)
  have code: "by_code ''code'' approved_db = Some approved_code"
    by (simp add: by_code_def approved_db_def approved_code_def)
  have member: "get_member (m_id one_owner) approved_db = Some one_owner"
    using one_grant_owner(6) by (simp add: approved_db_def get_member_def)
  from exchange_delivers [OF sample_env_ok approved_wf code _ _ _ own member, of 0 sample_verifier]
  show ?thesis using sample_hash(1) by (auto simp: approved_code_def)
qed

theorem racing_exchanges_confined_witness:
  "\<exists>c tok spent_row c' tok' spent_row' d'.
     exchange_race sample_env [(0, 0), (1, 0), (0, 0), (1, 0)]
       (map Waiting (replicate 2 \<lparr>er_code = ''code'', er_redirect_uri = ''https://app.example/cb'',
          er_code_verifier = sample_verifier\<rparr>), approved_db) =
       ([Finished \<lparr>er_code = ''code'', er_redirect_uri = ''https://app.example/cb'',
            er_code_verifier = sample_verifier\<rparr> (Inr (c, tok, spent_row)),
         Finished \<lparr>er_code = ''code'', er_redirect_uri = ''https://app.example/cb'',
            er_code_verifier = sample_verifier\<rparr> (Inr (c', tok', spent_row'))], d') \<and>
     g_plaintext tok' \<noteq> g_plaintext tok \<and>
     (\<forall>model a. resolve_bearer sample_env (g_plaintext tok') model d' = Some a \<longrightarrow> a_id a = ''U00'')"
proof -
  let ?q = "\<lparr>er_code = ''code'', er_redirect_uri = ''https://app.example/cb'', er_code_verifier = sample_verifier\<rparr>"
  obtain c tok spent_row d1 where valid: "exchange (at_time sample_env 0) ''code'' ''https://app.example/cb''
      sample_verifier approved_db = (Inr (c, tok, spent_row), d1)"
    using approved_code_exchanged by blast
  obtain c' tok' spent_row' d' where run: "exchange_race sample_env [(0, 0), (1, 0), (0, 0), (1, 0)]
        (map Waiting [?q, ?q], approved_db) =
      ([Finished ?q (Inr (c, tok, spent_row)), Finished ?q (Inr (c', tok', spent_row'))], d')"
    and other: "g_plaintext tok' \<noteq> g_plaintext tok"
    using overlapping_exchanges_both_deliver [OF sample_env_ok approved_wf valid] by auto
  have "\<forall>model a. resolve_bearer sample_env (g_plaintext tok') model d' = Some a \<longrightarrow> a_id a = ''U00''"
    using racing_exchanges_confined [OF sample_env_ok approved_wf run, of ?q c' tok' spent_row']
    by (simp add: approved_db_def approved_code_def list_or_empty_def)
  with run other show ?thesis by (simp add: numeral_2_eq_2)
qed

section \<open>Administrators who demote each other\<close>

definition demote_check ::
  "env \<Rightarrow> string \<times> bool \<times> string \<Rightarrow> db
     \<Rightarrow> ((member_error + member option) + member \<times> bool \<times> string) \<times> db" where
  "demote_check e q d =
     (case q of (mid, is_admin, actor) \<Rightarrow>
        case get_member mid d of
          None \<Rightarrow> (Inl (Inr None), d)
        | Some m \<Rightarrow>
            if m_is_admin m = is_admin then (Inl (Inr (Some m)), d)
            else if \<not> is_admin \<and> length (active_admins d) \<le> 1 then (Inl (Inl LastAdminCannotDemote), d)
            else (Inr (m, is_admin, actor), d))"

definition demote_write ::
  "env \<Rightarrow> member \<times> bool \<times> string \<Rightarrow> db \<Rightarrow> (member_error + member option) \<times> db" where
  "demote_write e p d =
     (case p of (m, is_admin, actor) \<Rightarrow>
        (let f = (\<lambda>m. m\<lparr>m_is_admin := is_admin\<rparr>)
         in (Inr (Some (f m)),
             audit_record e (if is_admin then member_promoted else member_demoted) actor_admin
               (Some actor) (Some ''member'') (Some (m_id m)) [] (set_member (m_id m) f d))))"

lemma set_is_admin_in_two_turns:
  "set_is_admin e mid is_admin actor d =
     (case demote_check e (mid, is_admin, actor) d of
        (Inl r, d1) \<Rightarrow> (r, d1)
      | (Inr p, d1) \<Rightarrow> demote_write e p d1)"
  by (auto simp: set_is_admin_def demote_check_def demote_write_def get_member_def
      dest: find_SomeD split: option.split)

lemma demote_write_members:
  "members (snd (demote_write e (m, flag, actor) d)) =
     update_where (\<lambda>x. m_id x = m_id m) (\<lambda>m. m\<lparr>m_is_admin := flag\<rparr>) (members d)"
  by (simp add: demote_write_def Let_def set_member_def)

text \<open>Each of the two requests is refused if it comes after the other (\<open>admins_never_run_out\<close>); if
  their checks overlap, nobody is left.\<close>

theorem overlapping_demotions_leave_no_admin:
  assumes two: "active_admins d = [m, m']" "m_id m \<noteq> m_id m'"
    and known: "get_member (m_id m) d = Some m" "get_member (m_id m') d = Some m'"
  shows "active_admins (snd (run_turns (\<lambda>t. demote_check (at_time e t)) (\<lambda>t. demote_write (at_time e t))
      [(0, t), (1, t'), (0, t), (1, t')]
      ([Waiting (m_id m, False, m_id m'), Waiting (m_id m', False, m_id m)], d))) = []"
proof -
  have admins: "m_is_admin m" "m_is_admin m'"
    using arg_cong [OF two(1), of set] by (auto simp: active_admins_def)
  have other: "x = m \<or> x = m'" if "x \<in> set (members d)" "m_is_admin x" "m_status x = member_active" for x
    using that arg_cong [OF two(1), of set] by (auto simp: active_admins_def)
  have checks: "demote_check (at_time e s) (m_id m, False, a) d = (Inr (m, False, a), d)"
      "demote_check (at_time e s) (m_id m', False, a) d = (Inr (m', False, a), d)" for s a
    using two(1) known admins by (simp_all add: demote_check_def)
  have both: "snd (run_turns (\<lambda>t. demote_check (at_time e t)) (\<lambda>t. demote_write (at_time e t))
      [(0, t), (1, t'), (0, t), (1, t')]
      ([Waiting (m_id m, False, m_id m'), Waiting (m_id m', False, m_id m)], d)) =
    snd (demote_write (at_time e t') (m', False, m_id m)
      (snd (demote_write (at_time e t) (m, False, m_id m') d)))"
    by (simp add: turn_def checks case_prod_beta)
  show ?thesis
    unfolding both by (auto simp: active_admins_def demote_write_members filter_empty_conv set_update_where)
      (metis other)
qed

end
