(* ===== verification/Spec2Isabelle.thy ===== *)
theory Spec2Isabelle
  imports AllocationTheorems QuotaPoolTheorems PricingTheorems TagTheorems SelfServiceTheorems DeviceTheorems
    OAuthTheorems ProviderTheorems Records PreflightTheorems ProxyTheorems StreamTheorems
    MemberTheorems AlertTheorems MyAccountTheorems UsageTheorems CatalogTheorems RealtimeTheorems AdminTheorems Migrations
    GatewayTheorems AdminConsole RealtimeConnect SubjectMigration Races
begin

text \<open>
  A model of ai-api (\<open>src/src/ai_api\<close>), a gateway that hands out keys for language models, checks
  every call made with them, forwards it to a provider through litellm, and records and bills it.

  \<^bold>\<open>The session.\<close>  The program keeps its state in a SQL database; theory \<open>Models\<close> has one record per
  ORM class of \<open>models/\<close> and the record \<open>db\<close> with one list of rows per table, and \<open>Prelude\<close> the few
  ways in which the code reads and writes tables (\<open>find\<close> for a lookup by a unique column, \<open>filter\<close>
  for a query, \<open>update_where\<close> and \<open>delete_where\<close>), with the locale \<open>table\<close> of their laws.  Clock, random
  identifiers, hashes, encryption and settings are the record \<open>env\<close>; identifiers and tokens are drawn
  by the counter \<open>fresh\<close> of the session, and \<open>env_ok\<close> says that the generators do not repeat.  An
  operation reads the clock once, as \<open>now e\<close>; a sequence of operations at different times is written
  with \<open>at_time\<close>.  An operation that can raise returns \<open>(error + value) \<times> db\<close>.  A handler that ends in an
  exception is rolled back (\<open>rollback_to\<close>), except for what was committed in a transaction of its own.
  Text is a list of 8-bit characters; where the code counts or classifies characters the model is
  that of ASCII text.  \<open>PyText\<close>, \<open>PyNum\<close> and \<open>PyTime\<close> model what is used of Python's strings, integers,
  floats (the correctly rounded division of the quota shares), decimals (28 digits) and calendar.

  \<^bold>\<open>Allocations and keys.\<close>  \<open>Allocations\<close> is \<open>services/allocations.py\<close> and \<open>services/credentials.py\<close>;
  \<open>AllocationScope\<close> shows which writes keep the well-formedness \<open>scope_wf\<close>, \<open>AllocationSpec\<close> specifies
  what a key grants (\<open>grants\<close>) and the steps between sessions (\<open>alloc_step\<close>, \<open>alloc_reach\<close>), and
  \<open>AllocationTheorems\<close> has the properties of issuing, resolving, rotating, revoking and patching.

  \<^bold>\<open>Money and quotas.\<close>  \<open>Quota\<close> (\<open>services/quota.py\<close>, locale \<open>monthly_cap\<close>), \<open>QuotaPool\<close> with its theorems
  (\<open>services/quota_pool.py\<close>, \<open>api/quota_pool.py\<close>, \<open>cli/run_rebalance.py\<close>: the apportionment conserves the
  total, respects the floor and the order, and runs once a month) and \<open>Pricing\<close> with its theorems
  (\<open>services/pricing.py\<close>: versions of a price, exact cost).

  \<^bold>\<open>Who sees which model.\<close>  \<open>ModelAccess\<close>, \<open>MemberTags\<close>, \<open>TagRules\<close>, \<open>SelfService\<close> and their theorems
  (\<open>services/model_access.py\<close>, \<open>member_tags.py\<close>, \<open>tag_rules.py\<close>, \<open>self_service.py\<close>).

  \<^bold>\<open>Keys for devices and applications.\<close>  \<open>DeviceFlow\<close> (\<open>services/device_flow.py\<close>, \<open>api/device.py\<close>) and
  \<open>OAuth\<close> (\<open>services/oauth.py\<close>, \<open>api/oauth.py\<close>) deliver a key through a code that works once; the locale
  \<open>one_shot\<close> of theory \<open>OneShot\<close> states this contract, and \<open>DeviceTheorems\<close> and \<open>OAuthTheorems\<close> interpret it.
  \<open>Races\<close> takes an exchange apart into its check and its write and lets any number of them overlap: the
  locale \<open>checked_writes\<close> carries what every interleaving keeps, and the keys delivered stay within
  their consents, but overlapping exchanges of one code, and overlapping demotions of the last two
  administrators, pass both.

  \<^bold>\<open>Upstream keys.\<close>  \<open>ProviderCreds\<close> (\<open>services/provider_credentials.py\<close>, \<open>api/admin_providers.py\<close>); drawing a
  key refines a queue (locale \<open>rotation\<close> in \<open>ProviderTheorems\<close>).

  \<^bold>\<open>The proxy.\<close>  \<open>Preflight\<close> is the pipeline before a call (\<open>proxy/auth.py\<close>, \<open>guard.py\<close>, \<open>preflight.py\<close>) and the
  model listing (\<open>proxy/models.py\<close>); \<open>Upstream\<close> the calls of litellm (\<open>proxy/upstream.py\<close>), which itself is
  a function argument; \<open>Engine\<close> the registered endpoints (\<open>proxy/endpoint_spec.py\<close>, \<open>registry.py\<close>,
  \<open>engine.py\<close>); \<open>ChatProxy\<close> the chat endpoint (\<open>proxy/router.py\<close>); \<open>StoredResponses\<close> and \<open>ResponsesProxy\<close> the
  responses endpoint (\<open>services/stored_responses.py\<close>, \<open>responses_support.py\<close>, \<open>proxy/responses.py\<close>); \<open>Records\<close>
  the call records (\<open>services/records.py\<close>, \<open>api/records.py\<close>).  \<open>PreflightTheorems\<close> specifies admission
  (\<open>admits\<close>); \<open>ProxyCalls\<close> shows what one request writes (\<open>effect\<close>); \<open>ProxyTheorems\<close> derives, in the locale
  \<open>capped_calls\<close>, what an allocation can use in a month, and that an alias is as good as a name;
  \<open>StreamTheorems\<close> treats streams, retries and stored conversations.

  \<^bold>\<open>Members, logins and sessions.\<close>  \<open>IpAddress\<close> is the part of Python's \<open>ipaddress\<close> the code uses, \<open>Policy\<close> the
  access lists (\<open>auth/policy.py\<close>, \<open>services/access_control.py\<close>, \<open>api/admin_access.py\<close>), \<open>Sessions\<close> browser
  sessions, invitations and passwords (\<open>auth/sessions.py\<close>, \<open>invitations.py\<close>, \<open>local.py\<close>, \<open>api/deps.py\<close>), \<open>Login\<close> the
  login limits and the endpoints of \<open>api/auth.py\<close> with Google as a record (which \<open>GoogleLogin\<close> provides), and \<open>Members\<close>
  \<open>services/members.py\<close> and \<open>api/admin_members.py\<close>.  \<open>Digests\<close> treats tables whose rows are found by the
  digest of a secret, the locale \<open>windowed\<close> of \<open>Window\<close> things limited per window of time;
  \<open>LoginTheorems\<close> shows what an operation on logins writes (\<open>auth_step\<close>), and \<open>AccountTheorems\<close> derives
  how sessions end, how many guesses a password allows and that invitations work once;
  \<open>MemberTheorems\<close> what a deletion leaves, that administrators never run out and that members keep
  their identities.

  \<^bold>\<open>Alarms.\<close>  \<open>Anomaly\<close> is the detector that quarantines runaway allocations and the one that reports
  bursts of upstream errors (\<open>services/anomaly.py\<close>, \<open>upstream_burst_detector.py\<close>, \<open>api/anomaly.py\<close>),
  \<open>Notifications\<close> the mails to the administrators (\<open>services/notifications.py\<close>, \<open>notifier_email.py\<close>,
  \<open>notifier_hook.py\<close>), with SMTP and the texts as arguments.  \<open>AlertTheorems\<close> shows what a scan does to keys
  and, by the locale \<open>windowed\<close>, that alarms do not flood.

  \<^bold>\<open>Administration of allocations and members' own requests.\<close>  \<open>PyDecimal\<close> reads and prints decimal numbers as
  Python does; \<open>AllocationAdmin\<close> is \<open>api/allocations.py\<close>, one by one and in bulk, and \<open>MyAccount\<close>
  \<open>api/me.py\<close>; \<open>MyAccountTheorems\<close> shows that a member's request touches nobody else's rows and what a
  bulk action does to each item.

  \<^bold>\<open>Usage.\<close>  \<open>Usage\<close> has the sums, charts and the CSV of \<open>services/usage.py\<close> and \<open>api/usage.py\<close>; by the locale
  \<open>tally\<close> of \<open>UsageTheorems\<close> every way of grouping has the same total, and the CSV can be read back.

  \<^bold>\<open>The catalog.\<close>  \<open>LitellmRegistry\<close> translates entries of litellm's registry (\<open>services/litellm_registry.py\<close>,
  \<open>model_kind.py\<close>), \<open>CatalogViews\<close> is what members see (\<open>api/catalog.py\<close>), \<open>CatalogAdmin\<close> the administrator's
  endpoints and the loader (\<open>api/admin_catalog.py\<close>, \<open>cli/load_models.py\<close>).  \<open>CatalogTheorems\<close>: suggested prices
  are exact, a manual block survives every synchronization, facets count.

  \<^bold>\<open>Live transcription.\<close>  \<open>Realtime\<close> is \<open>proxy/realtime.py\<close>: the relay is a step relation of its four tasks
  under a database that others change; \<open>RealtimeTheorems\<close> has what holds in every interleaving (frames in
  order, all audio counted, one bill) and that the quantity billed is exact in spite of floats.
  \<open>RealtimeConnect\<close> is the connection to the upstream.

  \<^bold>\<open>The rest of the administration.\<close>  \<open>AdminKeys\<close> (\<open>api/credentials.py\<close>, \<open>admin_providers.py\<close>, \<open>quota_pool.py\<close>,
  \<open>admin_self_service.py\<close>, \<open>admin_audit.py\<close>), \<open>AdminTags\<close> (\<open>admin_tags.py\<close>, \<open>admin_tag_rules.py\<close>, \<open>admin_prices.py\<close>,
  \<open>cli/load_prices.py\<close>), \<open>AdminConsole\<close> (\<open>admin_notifications.py\<close> and the views of members) and
  \<open>Bootstrap\<close> (\<open>cli/create_admin.py\<close>, \<open>migrate_azure_env.py\<close>); \<open>AdminTheorems\<close> shows what the installation
  programs leave, that the pool status predicts a rebalance and that a price list is loaded whole or not
  at all.  \<open>Migrations\<close> treats the two migrations that reshape the keys (\<open>alembic/versions/0015\<close>, \<open>0017\<close>): old
  tokens keep working, and going back restores the rows; \<open>SubjectMigration\<close> the one that turned subjects
  into members (\<open>0002\<close>).

  \<^bold>\<open>What surrounds the endpoints.\<close>  \<open>Gateway\<close> has the start and its refusals, request identifiers, log lines,
  cookies, install scripts and the diagnosis of visibility, \<open>GoogleLogin\<close> the client of Google's OpenID
  Connect (\<open>auth/google_oidc.py\<close>) over HTTP and JOSE as arguments; \<open>GatewayTheorems\<close> shows what a Google login
  rests on and that all parts agree about visibility.

  \<^bold>\<open>The audit trail.\<close>  \<open>AuditLog\<close> is \<open>auth/audit.py\<close> and the redaction of \<open>observability/logging.py\<close>.

  \<^bold>\<open>Bounds.\<close>  The only fuel is that of \<open>follow\<close>, the client that pages through the records; one more step
  than there are records is enough, which is part of its property.  Every other loop is a recursion
  with a termination proof, the retry loop by the number of parameters left.  Columns are as wide as
  the database has them where a property depends on it (the 32-bit log columns, \<open>NUMERIC(12,8)\<close>).

  \<^bold>\<open>Not modelled.\<close>  litellm, Fernet, SHA-256, argon2, the JOSE library, HTTP, WebSockets, SMTP and the
  regular expression engine are arguments, and so is \<open>json.loads\<close> where a text is parsed; the texts of
  messages and mails, the JSON of responses, the registration of routes and the shell scripts are not
  modelled, and of the migrations only those that rewrite rows.  The widths of text columns are
  not modelled, so neither is that PostgreSQL refuses a call record whose request identifier has more
  than 64 or whose model name more than 128 characters.  A handler is one step; only the exchanges of
  codes and the changes of an administrator's role (\<open>Races\<close>) and the tasks of one live connection
  (\<open>Realtime\<close>) are interleaved, so other races between transactions are out of scope.
\<close>

end
